(* ===== verification/Prelude.thy ===== *)
theory Prelude
  imports Main "HOL-Library.State_Monad"
begin

text \<open>
  Shared vocabulary of the development.

  \<^item> Go errors are the values of \<open>err\<close>: \<open>fmt.Errorf\<close> with its format and arguments, the
    same with a wrapped cause (\<open>%w\<close>), the typed errors of \<open>sdk/skillhub/errors\<close>, and the
    failures a database call or a file operation itself can return.
  \<^item> An operation of the program is a state transformer \<open>(world, err + 'a) state\<close> of the
    library's state monad, so that a Go function returning \<open>(T, error)\<close> is written in the
    order of its source with every early return a branch. The world is a type parameter here.
  \<^item> \<open>wp\<close> is the weakest-precondition transformer of such an operation. Its rules are simp
    rules, so a property of an operation is proved by unfolding the operation and simplifying.
  \<^item> Tables are lists of rows; the SQL statements of the adapters are \<open>upsert\<close>,
    \<open>update_where\<close> and \<open>delete_where\<close>, and the locale \<open>keyed_rows\<close> proves once what a
    table with a unique key promises.
\<close>

section \<open>Errors\<close>

datatype arg = AInt int | AStr string

datatype Code = ErrBadRequest | ErrForbidden | ErrNotFound | ErrConflict | ErrUnauthorized | ErrInternal

datatype err =
    Errorf string "arg list"
  | Wrapf string "arg list" err
  | Domain Code string "arg list" "err option"
  | NoRows
  | DbFault
  | IOFault
  | UniqueViolation
  | Panic string

text \<open>\<open>Panic\<close> is a Go run-time panic: not an error value, but the operation ends there too.\<close>

text \<open>The convenience constructors of \<open>errors.go\<close>.\<close>

definition NewError :: "Code \<Rightarrow> string \<Rightarrow> arg list \<Rightarrow> err" where
  "NewError code messageKey args = Domain code messageKey args None"

definition WrapError :: "err \<Rightarrow> Code \<Rightarrow> string \<Rightarrow> arg list \<Rightarrow> err" where
  "WrapError cause code messageKey args = Domain code messageKey args (Some cause)"

definition BadRequest :: "string \<Rightarrow> arg list \<Rightarrow> err" where
  "BadRequest messageKey args = NewError ErrBadRequest messageKey args"

definition Forbidden :: "string \<Rightarrow> arg list \<Rightarrow> err" where
  "Forbidden messageKey args = NewError ErrForbidden messageKey args"

definition NotFound :: "string \<Rightarrow> arg list \<Rightarrow> err" where
  "NotFound messageKey args = NewError ErrNotFound messageKey args"

definition Conflict :: "string \<Rightarrow> arg list \<Rightarrow> err" where
  "Conflict messageKey args = NewError ErrConflict messageKey args"

definition Unauthorized :: "string \<Rightarrow> arg list \<Rightarrow> err" where
  "Unauthorized messageKey args = NewError ErrUnauthorized messageKey args"

definition Internal :: "string \<Rightarrow> arg list \<Rightarrow> err" where
  "Internal messageKey args = NewError ErrInternal messageKey args"

text \<open>\<open>Unwrap\<close>, and \<open>errors.Is\<close> as the walk along the chain of causes that it starts.\<close>

fun Unwrap :: "err \<Rightarrow> err option" where
  "Unwrap (Wrapf _ _ e) = Some e"
| "Unwrap (Domain _ _ _ c) = c"
| "Unwrap _ = None"

fun errors_Is :: "err \<Rightarrow> err \<Rightarrow> bool" where
  "errors_Is (Wrapf f as e) t = (Wrapf f as e = t \<or> errors_Is e t)"
| "errors_Is (Domain c k as (Some e)) t = (Domain c k as (Some e) = t \<or> errors_Is e t)"
| "errors_Is e t = (e = t)"

text \<open>\<open>fmt.Errorf("fmt %s", s)\<close> with one string argument, as most sentinel messages are built.\<close>

abbreviation Errs :: "string \<Rightarrow> err" where
  "Errs s \<equiv> Errorf s []"

abbreviation wrap :: "string \<Rightarrow> err \<Rightarrow> err" where
  "wrap s e \<equiv> Wrapf s [] e"

section \<open>Operations and their weakest preconditions\<close>

type_synonym ('w, 'a) opn = "('w, err + 'a) state"

abbreviation ok :: "'a \<Rightarrow> ('w, 'a) opn" where
  "ok x \<equiv> State_Monad.return (Inr x)"

abbreviation fail :: "err \<Rightarrow> ('w, 'a) opn" where
  "fail e \<equiv> State_Monad.return (Inl e)"

definition wp :: "('w, 'a) state \<Rightarrow> ('a \<Rightarrow> 'w \<Rightarrow> bool) \<Rightarrow> 'w \<Rightarrow> bool" where
  "wp m Q w = Q (fst (run_state m w)) (snd (run_state m w))"

lemma wp_return [simp]: "wp (State_Monad.return x) Q w = Q x w"
  by (simp add: wp_def)

lemma wp_bind [simp]: "wp (State_Monad.bind m f) Q w = wp m (\<lambda>r. wp (f r) Q) w"
  by (simp add: wp_def split: prod.splits)

lemma wp_State: "wp (State f) Q w = (case f w of (r, w') \<Rightarrow> Q r w')"
  by (simp add: wp_def split: prod.splits)

lemma wp_if [simp]: "wp (if b then m else n) Q w = (if b then wp m Q w else wp n Q w)"
  by simp

lemma wp_case_sum [simp]:
  "wp (case r of Inl e \<Rightarrow> f e | Inr x \<Rightarrow> g x) Q w = (case r of Inl e \<Rightarrow> wp (f e) Q w | Inr x \<Rightarrow> wp (g x) Q w)"
  by (simp split: sum.splits)

lemma wp_case_option [simp]:
  "wp (case r of None \<Rightarrow> m | Some x \<Rightarrow> g x) Q w = (case r of None \<Rightarrow> wp m Q w | Some x \<Rightarrow> wp (g x) Q w)"
  by (simp split: option.splits)

lemma wp_case_prod [simp]:
  "wp (case p of (a, b) \<Rightarrow> g a b) Q w = (case p of (a, b) \<Rightarrow> wp (g a b) Q w)"
  by (simp split: prod.splits)

lemma wp_case_list [simp]:
  "wp (case xs of [] \<Rightarrow> m | y # ys \<Rightarrow> g y ys) Q w = (case xs of [] \<Rightarrow> wp m Q w | y # ys \<Rightarrow> wp (g y ys) Q w)"
  by (simp split: list.splits)

lemma wp_conj: "wp m (\<lambda>r w'. P r w' \<and> Q r w') w \<longleftrightarrow> wp m P w \<and> wp m Q w"
  by (simp add: wp_def split: prod.splits)

lemma wp_True [simp]: "wp m (\<lambda>_ _. True) w"
  by (simp add: wp_def)

lemma wp_mono: "wp m P w \<Longrightarrow> (\<And>r w'. P r w' \<Longrightarrow> Q r w') \<Longrightarrow> wp m Q w"
  by (simp add: wp_def split: prod.splits)

lemma wpD: "run_state m w = (r, w') \<Longrightarrow> wp m Q w \<Longrightarrow> Q r w'"
  by (simp add: wp_def)

lemma wpI: "(\<And>r w'. run_state m w = (r, w') \<Longrightarrow> Q r w') \<Longrightarrow> wp m Q w"
  by (simp add: wp_def split: prod.splits)

text \<open>An operation whose error is passed on, and that is otherwise arbitrary.\<close>

lemma wp_then:
  assumes "\<And>x w'. wp (k x) Q w'" and "\<And>e w'. Q (Inl e) w'"
  shows "wp (do { r \<leftarrow> m; (case r of Inl e \<Rightarrow> fail e | Inr x \<Rightarrow> k x) }) Q w"
  unfolding wp_bind by (rule wpI) (simp add: assms split: sum.splits)

text \<open>A call whose result is dropped.\<close>

lemma wp_top: "(\<And>r w'. Q r w') \<Longrightarrow> wp m Q w"
  by (rule wp_mono [OF wp_True])

lemma wp_ex: "wp m P w \<Longrightarrow> \<exists>r w'. run_state m w = (r, w') \<and> P r w'"
  by (cases "run_state m w") (simp add: wp_def)

lemma wp_drop: "wp (do { _ \<leftarrow> m; ok x }) Q w = wp m (\<lambda>_ w'. Q (Inr x) w') w"
  by (simp add: wp_def split: prod.splits)

section \<open>Tables as lists of rows\<close>

text \<open>
  \<open>INSERT ... ON CONFLICT (key) DO UPDATE SET ...\<close>: the first row in conflict is rewritten by
  the \<open>SET\<close> list, otherwise the new row is added.
\<close>

fun upsert :: "('r \<Rightarrow> bool) \<Rightarrow> ('r \<Rightarrow> 'r) \<Rightarrow> 'r \<Rightarrow> 'r list \<Rightarrow> 'r list" where
  "upsert p m new [] = [new]"
| "upsert p m new (r # rs) = (if p r then m r # rs else r # upsert p m new rs)"

text \<open>The row such a statement returns in its \<open>RETURNING\<close> clause.\<close>

definition upserted :: "('r \<Rightarrow> bool) \<Rightarrow> ('r \<Rightarrow> 'r) \<Rightarrow> 'r \<Rightarrow> 'r list \<Rightarrow> 'r" where
  "upserted p m new rs = (case find p rs of Some r \<Rightarrow> m r | None \<Rightarrow> new)"

definition update_where :: "('r \<Rightarrow> bool) \<Rightarrow> ('r \<Rightarrow> 'r) \<Rightarrow> 'r list \<Rightarrow> 'r list" where
  "update_where p f rs = map (\<lambda>r. if p r then f r else r) rs"

definition delete_where :: "('r \<Rightarrow> bool) \<Rightarrow> 'r list \<Rightarrow> 'r list" where
  "delete_where p rs = filter (\<lambda>r. \<not> p r) rs"

lemma find_SomeD: "find p rs = Some r \<Longrightarrow> r \<in> set rs \<and> p r"
  by (auto simp: find_Some_iff)

lemma find_NoneD: "find p rs = None \<Longrightarrow> r \<in> set rs \<Longrightarrow> \<not> p r"
  by (auto simp: find_None_iff)

lemma set_upsert_new: "find p rs = None \<Longrightarrow> upsert p m new rs = rs @ [new]"
  by (induction rs) (auto split: if_splits)

lemma upserted_in: "upserted p m new rs \<in> set (upsert p m new rs)"
  by (induction rs) (auto simp: upserted_def)

lemma upsert_others: "r \<in> set (upsert p m new rs) \<Longrightarrow> r = upserted p m new rs \<or> r \<in> set rs"
  by (induction rs) (auto simp: upserted_def split: if_splits)

lemma update_where_in: "r \<in> set (update_where p f rs) \<longleftrightarrow> (\<exists>s \<in> set rs. r = (if p s then f s else s))"
  by (auto simp: update_where_def)

lemma update_where_keeps: "r \<in> set rs \<Longrightarrow> \<not> p r \<Longrightarrow> r \<in> set (update_where p f rs)"
  by (force simp: update_where_in)

lemma update_where_hit: "r \<in> set rs \<Longrightarrow> p r \<Longrightarrow> P (f r) \<Longrightarrow> \<exists>x \<in> set (update_where p f rs). P x"
  by (rule bexI [of _ "f r"]) (auto simp: update_where_in intro: bexI [of _ r])

lemma delete_where_in [simp]: "r \<in> set (delete_where p rs) \<longleftrightarrow> r \<in> set rs \<and> \<not> p r"
  by (auto simp: delete_where_def)

lemma find_append_rows: "find p (xs @ ys) = (case find p xs of Some x \<Rightarrow> Some x | None \<Rightarrow> find p ys)"
  by (induction xs) auto

lemma find_delete_where: "find p (delete_where p rs) = None"
  by (simp add: find_None_iff)

lemma find_update_where:
  assumes "\<And>r. p r \<Longrightarrow> q (f r) \<longleftrightarrow> q r"
  shows "find q (update_where p f rs) = map_option (\<lambda>r. if p r then f r else r) (find q rs)"
  using assms by (induction rs) (auto simp: update_where_def)

lemma find_overwrite: "find p rs = Some z \<Longrightarrow> p y \<Longrightarrow> find p (update_where p (\<lambda>_. y) rs) = Some y"
  by (induction rs) (auto simp: update_where_def split: if_splits)

section \<open>Tables with a unique key\<close>

text \<open>
  The interface between a repository and its clients: the rows carry a key that the
  database keeps unique, and the \<open>SET\<close> list of the upsert never writes a key column.
\<close>

locale keyed_rows =
  fixes key :: "'row \<Rightarrow> 'k"
    and merge :: "'row \<Rightarrow> 'row \<Rightarrow> 'row"
  assumes merge_key: "key (merge new old) = key old"
begin

definition unique :: "'row list \<Rightarrow> bool" where
  "unique rs \<longleftrightarrow> distinct (map key rs)"

definition lookup :: "'k \<Rightarrow> 'row list \<Rightarrow> 'row option" where
  "lookup k rs = find (\<lambda>r. key r = k) rs"

definition save :: "'row \<Rightarrow> 'row list \<Rightarrow> 'row list" where
  "save new rs = upsert (\<lambda>r. key r = key new) (merge new) new rs"

text \<open>The row that the statement leaves in the table and returns.\<close>

definition stored :: "'row \<Rightarrow> 'row list \<Rightarrow> 'row" where
  "stored new rs = upserted (\<lambda>r. key r = key new) (merge new) new rs"

lemma stored_field: "(\<And>old. f (merge new old) = f new) \<Longrightarrow> f (stored new rs) = f new"
  by (simp add: stored_def upserted_def split: option.splits)

lemma key_stored: "key (stored new rs) = key new"
  by (auto simp: stored_def upserted_def merge_key find_Some_iff split: option.splits)

lemma keys_save: "key ` set (save new rs) = insert (key new) (key ` set rs)"
  unfolding save_def by (induction rs) (auto simp: merge_key)

lemma unique_save:
  assumes "unique rs"
  shows "unique (save new rs)"
proof -
  have "distinct (map key (upsert (\<lambda>r. key r = key new) (merge new) new rs))
      \<and> key ` set (upsert (\<lambda>r. key r = key new) (merge new) new rs) = insert (key new) (key ` set rs)"
    using assms unfolding unique_def
    by (induction rs) (auto simp: merge_key)
  then show ?thesis by (simp add: unique_def save_def)
qed

lemma unique_delete: "unique rs \<Longrightarrow> unique (delete_where p rs)"
  unfolding unique_def delete_where_def by (simp add: distinct_map inj_on_def)

lemma unique_update:
  assumes "unique rs" and "\<And>r. key (f r) = key r"
  shows "unique (update_where p f rs)"
proof -
  have "map key (update_where p f rs) = map key rs"
    using assms(2) by (simp add: update_where_def)
  then show ?thesis using assms(1) by (simp add: unique_def)
qed

lemma unique_append: "unique rs \<Longrightarrow> lookup (key new) rs = None \<Longrightarrow> unique (rs @ [new])"
  by (auto simp: unique_def lookup_def find_None_iff)

lemma lookup_save_same:
  "lookup (key new) (save new rs) = Some (stored new rs)"
  unfolding lookup_def save_def stored_def upserted_def by (induction rs) (auto simp: merge_key)

lemma stored_in: "stored new rs \<in> set (save new rs)"
  unfolding stored_def save_def by (rule upserted_in)

lemma save_others: "r \<in> set (save new rs) \<Longrightarrow> r = stored new rs \<or> r \<in> set rs"
  unfolding stored_def save_def by (rule upsert_others)

lemma save_keeps: "r \<in> set rs \<Longrightarrow> key r \<noteq> key new \<Longrightarrow> r \<in> set (save new rs)"
  unfolding save_def by (induction rs) auto

lemma save_fresh: "lookup (key new) rs = None \<Longrightarrow> save new rs = rs @ [new]"
  unfolding save_def lookup_def by (rule set_upsert_new)

lemma stored_fresh: "lookup (key new) rs = None \<Longrightarrow> stored new rs = new"
  unfolding stored_def lookup_def by (simp add: upserted_def)

lemma lookup_save_other: "k \<noteq> key new \<Longrightarrow> lookup k (save new rs) = lookup k rs"
  unfolding lookup_def save_def by (induction rs) (auto simp: merge_key)

lemma key_inj: "unique rs \<Longrightarrow> r \<in> set rs \<Longrightarrow> s \<in> set rs \<Longrightarrow> key r = key s \<Longrightarrow> r = s"
  unfolding unique_def by (auto simp: distinct_map inj_on_def)

lemma find_key_unique: "unique rs \<Longrightarrow> r \<in> set rs \<Longrightarrow> find (\<lambda>s. key s = key r) rs = Some r"
  unfolding unique_def by (induction rs) (auto simp: image_iff)

text \<open>Saving a changed copy of a row of the table rewrites that row in place.\<close>

lemma stored_existing: "unique rs \<Longrightarrow> old \<in> set rs \<Longrightarrow> key new = key old \<Longrightarrow> stored new rs = merge new old"
  by (simp add: stored_def upserted_def find_key_unique)

lemma save_existing:
  assumes "unique rs" and "old \<in> set rs" and "key new = key old"
  shows "save new rs = update_where (\<lambda>r. key r = key old) (\<lambda>_. merge new old) rs"
proof -
  have "distinct (map key rs) \<Longrightarrow> old \<in> set rs \<Longrightarrow>
     upsert (\<lambda>r. key r = key old) (merge new) new rs = map (\<lambda>r. if key r = key old then merge new old else r) rs"
  proof (induction rs)
    case (Cons r rs)
    show ?case
    proof (cases "key r = key old")
      case True
      with Cons.prems have "r = old" by (auto simp: image_iff)
      moreover have "map (\<lambda>s. if key s = key old then merge new old else s) rs = rs"
        using Cons.prems(1) True by (intro map_idI) (auto simp: image_iff)
      ultimately show ?thesis by simp
    next
      case False
      with Cons show ?thesis by auto
    qed
  qed simp
  then show ?thesis using assms by (simp add: save_def update_where_def unique_def)
qed

lemma save_last: "lookup (key new) rs = None \<Longrightarrow> key r = key new \<Longrightarrow> save new (rs @ [r]) = rs @ [merge new r]"
  unfolding save_def lookup_def by (induction rs) auto

lemma stored_last: "lookup (key new) rs = None \<Longrightarrow> key r = key new \<Longrightarrow> stored new (rs @ [r]) = merge new r"
  unfolding stored_def lookup_def upserted_def by (simp add: find_append_rows)

lemma find_save_existing:
  assumes "unique rs" and "find p rs = Some old" and "key new = key old" and "p (merge new old)"
  shows "find p (save new rs) = Some (merge new old)"
  using assms unfolding save_def unique_def
proof (induction rs)
  case (Cons r rs)
  show ?case
  proof (cases "p r")
    case True
    then show ?thesis using Cons.prems by auto
  next
    case False
    then have "find p rs = Some old" using Cons.prems(2) by simp
    then have "old \<in> set rs" by (simp add: find_SomeD)
    then have "key r \<noteq> key old" using Cons.prems(1) by (auto simp: image_iff)
    with False Cons show ?thesis by auto
  qed
qed simp

lemma find_save_other:
  "(\<And>r. key r = key new \<Longrightarrow> \<not> p r \<and> \<not> p (merge new r)) \<Longrightarrow> \<not> p new \<Longrightarrow> find p (save new rs) = find p rs"
  unfolding save_def by (induction rs) auto

lemma lookup_unique: "unique rs \<Longrightarrow> r \<in> set rs \<Longrightarrow> lookup (key r) rs = Some r"
  unfolding unique_def lookup_def
  by (induction rs) (auto simp: image_iff)

lemma lookup_SomeD: "lookup k rs = Some r \<Longrightarrow> r \<in> set rs \<and> key r = k"
  by (simp add: lookup_def find_Some_iff) auto

lemma lookup_delete_other:
  "(\<And>r. r \<in> set rs \<Longrightarrow> key r = k \<Longrightarrow> \<not> p r) \<Longrightarrow> lookup k (delete_where p rs) = lookup k rs"
  unfolding lookup_def delete_where_def by (induction rs) auto

end

end
