(* ===== verification/GoStrings.thy ===== *)
theory GoStrings
  imports Prelude
begin

text \<open>
  The parts of Go's \<open>strings\<close> package the modelled code uses, on byte strings (Isabelle's
  \<open>string\<close>, one \<open>char\<close> per byte, so \<open>length\<close> is Go's \<open>len\<close>), and the character classes
  of its regular expressions on ASCII.
\<close>

fun HasPrefix :: "string \<Rightarrow> string \<Rightarrow> bool" where
  "HasPrefix s [] = True"
| "HasPrefix [] (p # ps) = False"
| "HasPrefix (c # cs) (p # ps) = (c = p \<and> HasPrefix cs ps)"

definition HasSuffix :: "string \<Rightarrow> string \<Rightarrow> bool" where
  "HasSuffix s p = HasPrefix (rev s) (rev p)"

fun Contains :: "string \<Rightarrow> string \<Rightarrow> bool" where
  "Contains [] sub = (sub = [])"
| "Contains (c # cs) sub = (HasPrefix (c # cs) sub \<or> Contains cs sub)"

definition TrimPrefix :: "string \<Rightarrow> string \<Rightarrow> string" where
  "TrimPrefix s p = (if HasPrefix s p then drop (length p) s else s)"

text \<open>\<open>strings.Split\<close> with a one-character separator.\<close>

fun split_on :: "char \<Rightarrow> string \<Rightarrow> string list" where
  "split_on sep [] = [[]]"
| "split_on sep (c # cs) =
     (if c = sep then [] # split_on sep cs
      else (case split_on sep cs of [] \<Rightarrow> [[c]] | w # ws \<Rightarrow> (c # w) # ws))"

fun join_on :: "char \<Rightarrow> string list \<Rightarrow> string" where
  "join_on sep [] = []"
| "join_on sep [w] = w"
| "join_on sep (w # ws) = w @ sep # join_on sep ws"

lemma HasPrefix_iff: "HasPrefix s p \<longleftrightarrow> (\<exists>t. s = p @ t)"
  by (induction s p rule: HasPrefix.induct) auto

lemma HasSuffix_iff: "HasSuffix s p \<longleftrightarrow> (\<exists>t. s = t @ p)"
proof -
  have "(\<exists>t. rev s = rev p @ t) \<longleftrightarrow> (\<exists>t. s = t @ p)"
    by (metis rev_append rev_rev_ident)
  then show ?thesis by (simp add: HasSuffix_def HasPrefix_iff)
qed

lemma Contains_iff: "Contains s sub \<longleftrightarrow> (\<exists>u v. s = u @ sub @ v)"
proof (induction s)
  case Nil
  then show ?case by auto
next
  case (Cons c cs)
  have "(\<exists>u v. c # cs = u @ sub @ v) \<longleftrightarrow> (\<exists>v. c # cs = sub @ v) \<or> (\<exists>u v. cs = u @ sub @ v)"
  proof
    assume "\<exists>u v. c # cs = u @ sub @ v"
    then obtain u v where uv: "c # cs = u @ sub @ v" by blast
    then show "(\<exists>v. c # cs = sub @ v) \<or> (\<exists>u v. cs = u @ sub @ v)"
      by (cases u) auto
  next
    assume "(\<exists>v. c # cs = sub @ v) \<or> (\<exists>u v. cs = u @ sub @ v)"
    then show "\<exists>u v. c # cs = u @ sub @ v"
    proof
      assume "\<exists>v. c # cs = sub @ v"
      then obtain v where "c # cs = [] @ sub @ v" by auto
      then show ?thesis by blast
    next
      assume "\<exists>u v. cs = u @ sub @ v"
      then obtain u v where "c # cs = (c # u) @ sub @ v" by auto
      then show ?thesis by blast
    qed
  qed
  then show ?case using Cons.IH by (simp add: HasPrefix_iff)
qed

lemma split_on_nonempty [simp]: "split_on sep s \<noteq> []"
  by (induction s) (auto split: list.splits)

lemma join_split: "join_on sep (split_on sep s) = s"
proof (induction s)
  case (Cons c cs)
  obtain w ws where ws: "split_on sep cs = w # ws" by (cases "split_on sep cs") auto
  with Cons.IH show ?case by (cases ws) auto
qed simp

lemma split_on_pieces: "w \<in> set (split_on sep s) \<Longrightarrow> sep \<notin> set w"
proof (induction s arbitrary: w)
  case (Cons c cs)
  obtain v vs where vs: "split_on sep cs = v # vs" by (cases "split_on sep cs") auto
  with Cons show ?case by (auto split: if_splits)
qed simp

section \<open>ASCII classes\<close>

definition byte :: "char \<Rightarrow> nat" where
  "byte c = of_char c"

definition is_ascii :: "string \<Rightarrow> bool" where
  "is_ascii s = list_all (\<lambda>c. byte c < 128) s"

definition is_upper :: "char \<Rightarrow> bool" where
  "is_upper c \<longleftrightarrow> 65 \<le> byte c \<and> byte c \<le> 90"

definition is_lower :: "char \<Rightarrow> bool" where
  "is_lower c \<longleftrightarrow> 97 \<le> byte c \<and> byte c \<le> 122"

definition is_digit :: "char \<Rightarrow> bool" where
  "is_digit c \<longleftrightarrow> 48 \<le> byte c \<and> byte c \<le> 57"

text \<open>The ASCII members of the Unicode category S (\<open>\p{S}\<close>).\<close>

definition is_symbol :: "char \<Rightarrow> bool" where
  "is_symbol c \<longleftrightarrow> c \<in> {CHR ''$'', CHR ''+'', CHR ''<'', CHR ''='', CHR ''>'', CHR ''^'', CHR 0x60, CHR ''|'', CHR ''~''}"

section \<open>Case, white space and substrings\<close>

text \<open>
  \<open>strings.ToLower\<close> and \<open>strings.EqualFold\<close> on their ASCII part: other bytes are left alone.
\<close>

definition lower :: "char \<Rightarrow> char" where
  "lower c = (if is_upper c then char_of (byte c + 32) else c)"

definition ToLower :: "string \<Rightarrow> string" where
  "ToLower s = map lower s"

definition EqualFold :: "string \<Rightarrow> string \<Rightarrow> bool" where
  "EqualFold a b \<longleftrightarrow> ToLower a = ToLower b"

text \<open>The UTF-8 encodings of the characters \<open>unicode.IsSpace\<close> holds of.\<close>

definition space_encodings :: "string list" where
  "space_encodings =
     map (\<lambda>n. [char_of n]) [9::nat, 10, 11, 12, 13, 32]
     @ [[CHR 0xC2, CHR 0x85], [CHR 0xC2, CHR 0xA0], [CHR 0xE1, CHR 0x9A, CHR 0x80]]
     @ map (\<lambda>n. [CHR 0xE2, CHR 0x80, char_of n]) ([128..<139] @ [168, 169, 175 :: nat])
     @ [[CHR 0xE2, CHR 0x81, CHR 0x9F], [CHR 0xE3, CHR 0x80, CHR 0x80]]"

lemma space_encodings_nonempty: "sp \<in> set space_encodings \<Longrightarrow> sp \<noteq> []"
  by (auto simp: space_encodings_def)

function trim_left :: "string list \<Rightarrow> string \<Rightarrow> string" where
  "trim_left sps s =
     (case find (\<lambda>sp. sp \<noteq> [] \<and> HasPrefix s sp) sps of
        None \<Rightarrow> s
      | Some sp \<Rightarrow> trim_left sps (drop (length sp) s))"
  by auto
termination
proof (relation "measure (\<lambda>(sps, s). length s)", goal_cases)
  case (2 sps s sp)
  then have "sp \<noteq> []" "HasPrefix s sp" by (auto simp: find_Some_iff)
  then show ?case by (auto simp: HasPrefix_iff)
qed simp

declare trim_left.simps [simp del]

definition TrimSpace :: "string \<Rightarrow> string" where
  "TrimSpace s = rev (trim_left (map rev space_encodings) (rev (trim_left space_encodings s)))"

text \<open>\<open>strings.Index\<close>, \<open>None\<close> for -1, and \<open>strings.LastIndex\<close> of one byte.\<close>

fun Index :: "string \<Rightarrow> string \<Rightarrow> nat option" where
  "Index [] sub = (if sub = [] then Some 0 else None)"
| "Index (c # cs) sub = (if HasPrefix (c # cs) sub then Some 0 else map_option Suc (Index cs sub))"

fun LastIndexByte :: "string \<Rightarrow> char \<Rightarrow> nat option" where
  "LastIndexByte [] b = None"
| "LastIndexByte (c # cs) b =
     (case LastIndexByte cs b of Some i \<Rightarrow> Some (Suc i) | None \<Rightarrow> if c = b then Some 0 else None)"

definition replace_byte :: "char \<Rightarrow> char \<Rightarrow> string \<Rightarrow> string" where
  "replace_byte a b s = map (\<lambda>c. if c = a then b else c) s"

fun strings_Join :: "string \<Rightarrow> string list \<Rightarrow> string" where
  "strings_Join sep [] = []"
| "strings_Join sep [w] = w"
| "strings_Join sep (w # ws) = w @ sep @ strings_Join sep ws"

lemma trim_left_shape: "\<exists>u. s = u @ trim_left sps s \<and> (\<forall>c \<in> set u. \<exists>sp \<in> set sps. c \<in> set sp)"
proof (induction sps s rule: trim_left.induct)
  case (1 sps s)
  show ?case
  proof (cases "find (\<lambda>sp. sp \<noteq> [] \<and> HasPrefix s sp) sps")
    case None
    then show ?thesis by (simp add: trim_left.simps)
  next
    case (Some sp)
    then have sp: "sp \<in> set sps" "HasPrefix s sp" by (auto simp: find_Some_iff)
    then obtain t where t: "s = sp @ t" by (auto simp: HasPrefix_iff)
    from 1 [OF Some] obtain u where u: "t = u @ trim_left sps t" "\<forall>c \<in> set u. \<exists>sp \<in> set sps. c \<in> set sp"
      using t by auto
    have "trim_left sps s = trim_left sps t" using Some t by (subst trim_left.simps) simp
    then have "s = (sp @ u) @ trim_left sps s" using t u(1) by simp
    then show ?thesis using u(2) sp(1) by (intro exI [of _ "sp @ u"]) auto
  qed
qed

text \<open>Trimming removes bytes of white space at both ends and nothing else.\<close>

definition space_byte :: "char \<Rightarrow> bool" where
  "space_byte c \<longleftrightarrow> (\<exists>sp \<in> set space_encodings. c \<in> set sp)"

lemma TrimSpace_shape:
  obtains u v where "s = u @ TrimSpace s @ v" "\<forall>c \<in> set u \<union> set v. space_byte c"
proof -
  let ?t = "trim_left space_encodings s"
  obtain u where u: "s = u @ ?t" "\<forall>c \<in> set u. \<exists>sp \<in> set space_encodings. c \<in> set sp"
    using trim_left_shape by blast
  obtain v where v: "rev ?t = v @ trim_left (map rev space_encodings) (rev ?t)"
      "\<forall>c \<in> set v. \<exists>sp \<in> set (map rev space_encodings). c \<in> set sp"
    using trim_left_shape by blast
  have "?t = TrimSpace s @ rev v" using arg_cong [OF v(1), of rev] by (simp add: TrimSpace_def)
  then have "s = u @ TrimSpace s @ rev v" using u(1) by simp
  moreover have "\<forall>c \<in> set u \<union> set (rev v). space_byte c" using u(2) v(2) by (auto simp: space_byte_def)
  ultimately show thesis by (rule that)
qed

lemma space_byte_range: "space_byte c \<Longrightarrow> byte c \<le> 32 \<or> 128 \<le> byte c"
  unfolding space_byte_def space_encodings_def by (auto simp: byte_def)

lemma trim_left_none:
  assumes "\<And>sp. sp \<in> set sps \<Longrightarrow> sp \<noteq> [] \<Longrightarrow> \<not> HasPrefix s sp"
  shows "trim_left sps s = s"
proof -
  have "find (\<lambda>sp. sp \<noteq> [] \<and> HasPrefix s sp) sps = None" using assms by (auto simp: find_None_iff)
  then show ?thesis by (subst trim_left.simps) simp
qed

lemma HasPrefix_hd: "HasPrefix s sp \<Longrightarrow> sp \<noteq> [] \<Longrightarrow> s \<noteq> [] \<and> hd s \<in> set sp"
  by (cases s; cases sp) auto

lemma TrimSpace_ends:
  assumes "s \<noteq> []" and "\<not> space_byte (hd s)" and "\<not> space_byte (last s)"
  shows "TrimSpace s = s"
proof -
  have l: "trim_left space_encodings s = s"
    by (rule trim_left_none) (use assms(2) HasPrefix_hd in \<open>auto simp: space_byte_def\<close>)
  have "trim_left (map rev space_encodings) (rev s) = rev s"
  proof (rule trim_left_none)
    fix sp assume sp: "sp \<in> set (map rev space_encodings)" "sp \<noteq> []"
    show "\<not> HasPrefix (rev s) sp"
      using HasPrefix_hd [of "rev s" sp] sp assms(3) by (auto simp: space_byte_def hd_rev)
  qed
  then show ?thesis by (simp add: TrimSpace_def l)
qed

lemma trim_left_Nil [simp]: "trim_left sps [] = []"
  by (rule trim_left_none) (use HasPrefix_hd in blast)

lemma TrimSpace_Nil [simp]: "TrimSpace [] = []"
  by (simp add: TrimSpace_def)

section \<open>Formatting\<close>

fun digits :: "nat \<Rightarrow> string" where
  "digits n = (if n < 10 then [char_of (48 + n)] else digits (n div 10) @ [char_of (48 + n mod 10)])"

declare digits.simps [simp del]

definition itoa :: "int \<Rightarrow> string" where
  "itoa i = (if i < 0 then CHR ''-'' # digits (nat (- i)) else digits (nat i))"

text \<open>\<open>fmt.Sprintf\<close> with the verbs \<open>%s\<close>, \<open>%d\<close> and \<open>%v\<close>, the only ones used on rendered texts.\<close>

fun show_arg :: "arg \<Rightarrow> string" where
  "show_arg (AInt i) = itoa i"
| "show_arg (AStr s) = s"

fun Sprintf :: "string \<Rightarrow> arg list \<Rightarrow> string" where
  "Sprintf [] as = []"
| "Sprintf [c] as = [c]"
| "Sprintf (c # v # f) as =
     (if c = CHR ''%'' \<and> v \<in> {CHR ''s'', CHR ''d'', CHR ''v''}
      then (case as of [] \<Rightarrow> ''%!'' @ [v] @ ''(MISSING)'' @ Sprintf f [] | a # as' \<Rightarrow> show_arg a @ Sprintf f as')
      else c # Sprintf (v # f) as)"

section \<open>UTF-8\<close>

text \<open>\<open>utf8.Valid\<close>: no surrogates, no overlong encodings, nothing beyond U+10FFFF.\<close>

definition cont_byte :: "nat \<Rightarrow> nat \<Rightarrow> char \<Rightarrow> bool" where
  "cont_byte lo hi c \<longleftrightarrow> lo \<le> byte c \<and> byte c \<le> hi"

fun utf8_rest :: "string \<Rightarrow> string option" where
  "utf8_rest [] = None"
| "utf8_rest (c # s) =
     (let b = byte c in
      if b < 128 then Some s
      else if 194 \<le> b \<and> b \<le> 223 then (case s of x # r \<Rightarrow> if cont_byte 128 191 x then Some r else None | _ \<Rightarrow> None)
      else if 224 \<le> b \<and> b \<le> 239 then
        (case s of x # y # r \<Rightarrow>
            if cont_byte (if b = 224 then 160 else 128) (if b = 237 then 159 else 191) x \<and> cont_byte 128 191 y then Some r else None
         | _ \<Rightarrow> None)
      else if 240 \<le> b \<and> b \<le> 244 then
        (case s of x # y # z # r \<Rightarrow>
            if cont_byte (if b = 240 then 144 else 128) (if b = 244 then 143 else 191) x \<and> cont_byte 128 191 y \<and> cont_byte 128 191 z
            then Some r else None
         | _ \<Rightarrow> None)
      else None)"

lemma utf8_rest_shorter: "utf8_rest s = Some r \<Longrightarrow> length r < length s"
  by (cases s) (auto simp: Let_def split: if_splits list.splits)

function utf8_Valid :: "string \<Rightarrow> bool" where
  "utf8_Valid s = (s = [] \<or> (case utf8_rest s of None \<Rightarrow> False | Some r \<Rightarrow> utf8_Valid r))"
  by auto
termination
  by (relation "measure length") (auto dest: utf8_rest_shorter)

declare utf8_Valid.simps [simp del]

section \<open>64-bit integers\<close>

text \<open>\<open>int64\<close> arithmetic, where it can overflow: the value in the signed range that is congruent.\<close>

definition int64 :: "int \<Rightarrow> int" where
  "int64 x = (x + 2 ^ 63) mod 2 ^ 64 - 2 ^ 63"

lemma int64_id: "- (2 ^ 63) \<le> x \<Longrightarrow> x < 2 ^ 63 \<Longrightarrow> int64 x = x"
  by (simp add: int64_def)

end
