(* ===== verification/Slug.thy ===== *)
theory Slug
  imports GoStrings
begin

text \<open>
  \<open>namespace/slug.go\<close>: the two validators of namespace slugs. Both measure the slug in bytes.
  For a slug of ASCII bytes every check is computed. What Unicode's tables say of a slug with
  other bytes (which Go's \<open>unicode\<close> package and regexp engine know) is the parameter \<open>uni\<close>:
  whether it holds an upper-case rune, and whether it matches the slug pattern.
\<close>

record unicode =
  uni_has_upper :: "string \<Rightarrow> bool"
  uni_slug_match :: "string \<Rightarrow> bool"

definition SlugMinLength :: nat where "SlugMinLength = 2"

definition SlugMaxLength :: nat where "SlugMaxLength = 64"

definition reservedSlugs :: "string list" where
  "reservedSlugs = [''admin'', ''api'', ''dashboard'', ''search'', ''auth'', ''me'', ''global'',
     ''system'', ''static'', ''assets'', ''health'']"

text \<open>\<open>[\p{L}\p{N}\p{S}]\<close> on ASCII, and the whole pattern
  \<open>^[\p{L}\p{N}\p{S}][\p{L}\p{N}\p{S}-]*[\p{L}\p{N}\p{S}]$\<close>.\<close>

definition slug_char :: "char \<Rightarrow> bool" where
  "slug_char c \<longleftrightarrow> is_lower c \<or> is_upper c \<or> is_digit c \<or> is_symbol c"

definition slugPattern :: "unicode \<Rightarrow> string \<Rightarrow> bool" where
  "slugPattern uni s =
     (if is_ascii s then
        (case s of [] \<Rightarrow> False
         | c # cs \<Rightarrow> slug_char c \<and> cs \<noteq> [] \<and> list_all (\<lambda>x. slug_char x \<or> x = CHR ''-'') (butlast cs)
             \<and> slug_char (last cs))
      else uni_slug_match uni s)"

text \<open>\<open>SlugValidator.Validate\<close>: an error code, or the empty string.\<close>

definition SlugValidator_Validate :: "unicode \<Rightarrow> string \<Rightarrow> string" where
  "SlugValidator_Validate uni slug =
     (if length slug < SlugMinLength then ''namespace.slug.too_short''
      else if length slug > SlugMaxLength then ''namespace.slug.too_long''
      else if slug \<in> set reservedSlugs then ''namespace.slug.reserved''
      else if (if is_ascii slug then list_ex is_upper slug else uni_has_upper uni slug) then ''namespace.slug.uppercase''
      else if Contains slug ''--'' then ''namespace.slug.double_hyphen''
      else if \<not> slugPattern uni slug then ''namespace.slug.invalid_format''
      else [])"

definition ErrInvalidSlug :: err where
  "ErrInvalidSlug = Errs ''invalid slug''"

text \<open>The package-level \<open>Validate\<close>, which \<open>NamespaceService.Create\<close> calls.\<close>

definition Validate :: "unicode \<Rightarrow> string \<Rightarrow> err option" where
  "Validate uni slug =
     (if length slug < 2 then Some (wrap ''slug must be at least 2 characters'' ErrInvalidSlug)
      else if length slug > 64 then Some (wrap ''slug must be at most 64 characters'' ErrInvalidSlug)
      else if slug \<in> set reservedSlugs then Some (Wrapf ''is reserved'' [AStr slug] ErrInvalidSlug)
      else if list_ex is_upper slug then Some (wrap ''uppercase letters are not allowed'' ErrInvalidSlug)
      else if Contains slug ''_'' then Some (wrap ''underscores are not allowed'' ErrInvalidSlug)
      else if HasPrefix slug ''-'' then Some (wrap ''leading hyphen is not allowed'' ErrInvalidSlug)
      else if HasSuffix slug ''-'' then Some (wrap ''trailing hyphen is not allowed'' ErrInvalidSlug)
      else if Contains slug ''--'' then Some (wrap ''double hyphen is not allowed'' ErrInvalidSlug)
      else if \<not> slugPattern uni slug then Some (Wrapf ''invalid characters in'' [AStr slug] ErrInvalidSlug)
      else None)"

section \<open>What a valid slug is\<close>

text \<open>The specification on ASCII slugs: lower-case letters, digits and symbols, in words
  joined by single hyphens, of 2 to 64 bytes, not reserved.\<close>

definition slug_ok :: "string \<Rightarrow> bool" where
  "slug_ok s \<longleftrightarrow> 2 \<le> length s \<and> length s \<le> 64 \<and> s \<notin> set reservedSlugs
     \<and> (\<forall>c \<in> set s. is_lower c \<or> is_digit c \<or> is_symbol c \<or> c = CHR ''-'')
     \<and> (\<forall>w \<in> set (split_on (CHR ''-'') s). w \<noteq> [])"

lemma hyphen_not_slug_char [simp]: "\<not> slug_char (CHR ''-'')"
  by (simp add: slug_char_def is_lower_def is_upper_def is_digit_def is_symbol_def byte_def)

lemma underscore_not_slug_char: "\<not> slug_char (CHR ''_'')"
  by (simp add: slug_char_def is_lower_def is_upper_def is_digit_def is_symbol_def byte_def)

lemma last_in_butlast: "s \<noteq> [] \<Longrightarrow> x \<in> set s \<Longrightarrow> x = last s \<or> x \<in> set (butlast s)"
  by (induction s) auto

lemma slugPattern_ascii:
  assumes "is_ascii s"
  shows "slugPattern uni s \<longleftrightarrow>
    2 \<le> length s \<and> slug_char (hd s) \<and> slug_char (last s) \<and> (\<forall>c \<in> set s. slug_char c \<or> c = CHR ''-'')"
proof (cases s)
  case Nil
  then show ?thesis using assms by (simp add: slugPattern_def)
next
  case (Cons c cs)
  show ?thesis
  proof (cases "cs = []")
    case True
    then show ?thesis using assms Cons by (simp add: slugPattern_def)
  next
    case False
    then show ?thesis
      using assms Cons last_in_butlast [of cs]
      by (auto simp: slugPattern_def list_all_iff Suc_le_eq dest: in_set_butlastD)
  qed
qed

text \<open>Empty pieces between hyphens are exactly a leading, a trailing or a double hyphen.\<close>

lemma split_head_empty: "hd (split_on sep s) = [] \<longleftrightarrow> s = [] \<or> hd s = sep"
  by (cases s) (auto split: list.splits)

lemma split_tail_empty:
  "[] \<in> set (tl (split_on sep s)) \<longleftrightarrow> (s \<noteq> [] \<and> last s = sep) \<or> Contains s [sep, sep]"
proof (induction s)
  case (Cons c cs)
  obtain w ws where ws: "split_on sep cs = w # ws" by (cases "split_on sep cs") auto
  have w: "w = [] \<longleftrightarrow> cs = [] \<or> hd cs = sep"
    using split_head_empty [of sep cs] ws by simp
  have two: "HasPrefix (c # cs) [sep, sep] \<longleftrightarrow> c = sep \<and> cs \<noteq> [] \<and> hd cs = sep"
    by (cases cs) auto
  show ?case
  proof (cases "c = sep")
    case True
    then have "[] \<in> set (tl (split_on sep (c # cs))) \<longleftrightarrow> w = [] \<or> [] \<in> set ws" using ws by auto
    then show ?thesis using True Cons.IH ws w two by auto
  next
    case False
    then have "[] \<in> set (tl (split_on sep (c # cs))) \<longleftrightarrow> [] \<in> set ws" using ws by simp
    then show ?thesis using False Cons.IH ws two by auto
  qed
qed simp

lemma split_hyphen_empty:
  "[] \<in> set (split_on sep s) \<longleftrightarrow> s = [] \<or> hd s = sep \<or> last s = sep \<or> Contains s [sep, sep]"
proof -
  have "[] \<in> set (split_on sep s) \<longleftrightarrow> hd (split_on sep s) = [] \<or> [] \<in> set (tl (split_on sep s))"
    by (cases "split_on sep s") auto
  then show ?thesis using split_head_empty [of sep s] split_tail_empty [of sep s] by auto
qed

lemma Contains_single: "Contains s [c] \<longleftrightarrow> c \<in> set s"
  by (auto simp: Contains_iff in_set_conv_decomp)

lemma HasPrefix_hyphen: "HasPrefix s ''-'' \<longleftrightarrow> s \<noteq> [] \<and> hd s = CHR ''-''"
  by (cases s) auto

lemma HasSuffix_hyphen: "HasSuffix s ''-'' \<longleftrightarrow> s \<noteq> [] \<and> last s = CHR ''-''"
  by (cases s rule: rev_cases) (auto simp: HasSuffix_def)

lemma lower_slug_chars:
  "\<not> list_ex is_upper s \<and> (\<forall>c \<in> set s. slug_char c \<or> c = CHR ''-'') \<longleftrightarrow>
   (\<forall>c \<in> set s. is_lower c \<or> is_digit c \<or> is_symbol c \<or> c = CHR ''-'')"
proof -
  have "\<And>c. is_lower c \<or> is_digit c \<or> is_symbol c \<or> c = CHR ''-'' \<longleftrightarrow>
      \<not> is_upper c \<and> (slug_char c \<or> c = CHR ''-'')"
    by (auto simp: slug_char_def is_lower_def is_upper_def is_digit_def is_symbol_def byte_def)
  then show ?thesis by (auto simp: list_ex_iff)
qed

lemma pieces_nonempty:
  "s \<noteq> [] \<Longrightarrow> (\<forall>w \<in> set (split_on (CHR ''-'') s). w \<noteq> []) \<longleftrightarrow>
     hd s \<noteq> CHR ''-'' \<and> last s \<noteq> CHR ''-'' \<and> \<not> Contains s ''--''"
  using split_hyphen_empty [of "CHR ''-''" s] by auto

text \<open>The three checks that both validators reduce to on ASCII input.\<close>

lemma slug_ok_iff:
  assumes "is_ascii s"
  shows "slug_ok s \<longleftrightarrow> 2 \<le> length s \<and> length s \<le> 64 \<and> s \<notin> set reservedSlugs
     \<and> \<not> list_ex is_upper s \<and> \<not> Contains s ''--'' \<and> slugPattern uni s"
proof (cases "2 \<le> length s")
  case True
  then have ne: "s \<noteq> []" by auto
  let ?all = "\<forall>c \<in> set s. slug_char c \<or> c = CHR ''-''"
  have ends: "?all \<Longrightarrow> (slug_char (hd s) \<and> slug_char (last s)) = (hd s \<noteq> CHR ''-'' \<and> last s \<noteq> CHR ''-'')"
  proof -
    assume all: ?all
    have "hd s \<in> set s" "last s \<in> set s" using ne by simp_all
    with all show ?thesis using hyphen_not_slug_char by fastforce
  qed
  have chars: "(\<forall>c \<in> set s. is_lower c \<or> is_digit c \<or> is_symbol c \<or> c = CHR ''-'') = (\<not> list_ex is_upper s \<and> ?all)"
    using lower_slug_chars [of s] by simp
  show ?thesis
    unfolding slug_ok_def slugPattern_ascii [OF assms] pieces_nonempty [OF ne] chars
    using ends True by blast
next
  case False
  then show ?thesis by (simp add: slug_ok_def)
qed

lemma Validate_ascii_iff:
  assumes "is_ascii s"
  shows "Validate uni s = None \<longleftrightarrow> slug_ok s"
proof -
  have "slugPattern uni s \<Longrightarrow> \<not> Contains s ''_'' \<and> \<not> HasPrefix s ''-'' \<and> \<not> HasSuffix s ''-''"
    using underscore_not_slug_char hyphen_not_slug_char
    unfolding slugPattern_ascii [OF assms] Contains_single HasPrefix_hyphen HasSuffix_hyphen by auto
  then show ?thesis
    unfolding slug_ok_iff [OF assms, of uni] Validate_def by auto
qed

lemma SlugValidator_ascii_iff:
  assumes "is_ascii s"
  shows "SlugValidator_Validate uni s = [] \<longleftrightarrow> slug_ok s"
  unfolding slug_ok_iff [OF assms, of uni] SlugValidator_Validate_def SlugMinLength_def SlugMaxLength_def
  using assms by auto

text \<open>C33: for every ASCII slug, the two validators of the package agree, and both accept
  exactly the slugs of the specification \<open>slug_ok\<close>.\<close>

theorem slug_validators_agree:
  assumes "is_ascii slug"
  shows "(SlugValidator_Validate uni slug = [] \<longleftrightarrow> slug_ok slug)
       \<and> (Validate uni slug = None \<longleftrightarrow> slug_ok slug)"
  using SlugValidator_ascii_iff [OF assms] Validate_ascii_iff [OF assms] by simp

theorem slug_validators_agree_witness:
  "is_ascii ''my-team'' \<and> SlugValidator_Validate \<lparr>uni_has_upper = (\<lambda>_. False), uni_slug_match = (\<lambda>_. False)\<rparr> ''my-team'' = [] \<and> slug_ok ''my-team''"
proof -
  have a: "is_ascii ''my-team''" by (simp add: is_ascii_def byte_def)
  have "slug_ok ''my-team''"
    by (simp add: slug_ok_def reservedSlugs_def is_lower_def is_digit_def is_symbol_def byte_def)
  then show ?thesis using a slug_validators_agree [OF a] by simp
qed

end
