(* ===== verification/Slugify.thy ===== *)
theory Slugify
  imports Slug
begin

text \<open>
  \<open>namespace.Slugify\<close>: the slug made from the name of a skill. On ASCII every step is computed;
  what lower-casing, trimming and the class \<open>[^\p{L}\p{N}-]\<close> make of other text is the
  parameter \<open>hyph\<close>.
\<close>

definition keep_char :: "char \<Rightarrow> bool" where
  "keep_char c \<longleftrightarrow> is_lower c \<or> is_upper c \<or> is_digit c \<or> c = CHR ''-''"

definition hyphenate :: "(string \<Rightarrow> string) \<Rightarrow> string \<Rightarrow> string" where
  "hyphenate hyph s =
     (if is_ascii s then map (\<lambda>c. if keep_char c then c else CHR ''-'') (TrimSpace (ToLower s)) else hyph s)"

text \<open>The replacement of \<open>-{2,}\<close> by one hyphen, and \<open>strings.Trim(s, "-")\<close>.\<close>

fun collapse :: "string \<Rightarrow> string" where
  "collapse (c # d # s) = (if c = CHR ''-'' \<and> d = CHR ''-'' then collapse (d # s) else c # collapse (d # s))"
| "collapse s = s"

definition trim_hyphens :: "string \<Rightarrow> string" where
  "trim_hyphens s = rev (dropWhile (\<lambda>c. c = CHR ''-'') (rev (dropWhile (\<lambda>c. c = CHR ''-'') s)))"

definition Slugify :: "(string \<Rightarrow> string) \<Rightarrow> string \<Rightarrow> err + string" where
  "Slugify hyph inp =
     (let s = trim_hyphens (collapse (hyphenate hyph inp)) in
      if length s < 2 then Inl (wrap ''slugify produced a slug shorter than 2 characters'' ErrInvalidSlug)
      else Inr (trim_hyphens (if length s > 64 then take 64 s else s)))"

section \<open>The slugs it makes\<close>

text \<open>No hyphen at either end, none doubled.\<close>

definition tidy :: "string \<Rightarrow> bool" where
  "tidy s \<longleftrightarrow> \<not> Contains s ''--'' \<and> (s \<noteq> [] \<longrightarrow> hd s \<noteq> CHR ''-'' \<and> last s \<noteq> CHR ''-'')"

lemma double_hyphen: "Contains s ''--'' \<longleftrightarrow> (\<exists>u v. s = u @ ''--'' @ v)"
  by (rule Contains_iff)

lemma no_double_sub: "\<not> Contains (u @ s @ v) ''--'' \<Longrightarrow> \<not> Contains s ''--''"
  unfolding double_hyphen by (metis append.assoc)

lemma collapse_hd: "collapse (c # s) \<noteq> [] \<and> hd (collapse (c # s)) = c"
  by (induction "c # s" arbitrary: c s rule: collapse.induct) auto

lemma collapse_no_double: "\<not> Contains (collapse s) ''--''"
proof (induction s rule: collapse.induct)
  case (1 c d s)
  obtain e t where "collapse (d # s) = e # t" "e = d" using collapse_hd [of d s] by (cases "collapse (d # s)") auto
  then show ?case using 1 by auto
qed auto

lemma collapse_set: "set (collapse s) = set s"
  by (induction s rule: collapse.induct) auto

lemma dropWhile_same: "s \<noteq> [] \<Longrightarrow> \<not> P (hd s) \<Longrightarrow> dropWhile P s = s"
  by (cases s) auto

lemma dropWhile_rev: "\<exists>v. s = rev (dropWhile P (rev s)) @ v"
proof -
  have "rev s = takeWhile P (rev s) @ dropWhile P (rev s)" by simp
  then have "s = rev (dropWhile P (rev s)) @ rev (takeWhile P (rev s))" by (metis rev_append rev_rev_ident)
  then show ?thesis by blast
qed

lemma trim_parts:
  obtains u v where "s = u @ trim_hyphens s @ v" "dropWhile (\<lambda>c. c = CHR ''-'') s = trim_hyphens s @ v"
proof -
  let ?t = "dropWhile (\<lambda>c. c = CHR ''-'') s"
  have s: "s = takeWhile (\<lambda>c. c = CHR ''-'') s @ ?t" by simp
  obtain v where v: "?t = trim_hyphens s @ v" unfolding trim_hyphens_def using dropWhile_rev by blast
  have "s = takeWhile (\<lambda>c. c = CHR ''-'') s @ trim_hyphens s @ v" using s unfolding v .
  then show thesis using v by (rule that)
qed

lemma trim_ends:
  assumes "trim_hyphens s \<noteq> []"
  shows "hd (trim_hyphens s) \<noteq> CHR ''-'' \<and> last (trim_hyphens s) \<noteq> CHR ''-''"
proof -
  let ?t = "dropWhile (\<lambda>c. c = CHR ''-'') s" and ?u = "dropWhile (\<lambda>c. c = CHR ''-'') (rev (dropWhile (\<lambda>c. c = CHR ''-'') s))"
  obtain v where v: "?t = trim_hyphens s @ v" by (rule trim_parts)
  have u: "?u \<noteq> []" using assms by (simp add: trim_hyphens_def)
  have "last (trim_hyphens s) = hd ?u" using u by (simp add: trim_hyphens_def last_rev)
  then have l: "last (trim_hyphens s) \<noteq> CHR ''-''" using hd_dropWhile [OF u] by simp
  have t: "?t \<noteq> []" using v assms by simp
  have "hd (trim_hyphens s) = hd ?t" using v assms by simp
  then show ?thesis using l hd_dropWhile [OF t] by simp
qed

lemma trim_same: "s \<noteq> [] \<Longrightarrow> hd s \<noteq> CHR ''-'' \<Longrightarrow> last s \<noteq> CHR ''-'' \<Longrightarrow> trim_hyphens s = s"
  by (simp add: trim_hyphens_def dropWhile_same hd_rev)

lemma trim_last: "s \<noteq> [] \<Longrightarrow> hd s \<noteq> CHR ''-'' \<Longrightarrow> last s \<noteq> CHR ''-'' \<Longrightarrow> trim_hyphens (s @ ''-'') = s"
  by (simp add: trim_hyphens_def dropWhile_same hd_rev)

lemma trim_tidy: "\<not> Contains s ''--'' \<Longrightarrow> tidy (trim_hyphens s)"
  unfolding tidy_def using trim_ends trim_parts [of s] by (metis no_double_sub)

lemma tidy_trim: "tidy s \<Longrightarrow> trim_hyphens s = s"
  using trim_same [of s] by (cases "s = []") (simp_all add: tidy_def, simp add: trim_hyphens_def)

lemma tidy_collapse: "\<not> Contains s ''--'' \<Longrightarrow> collapse s = s"
  by (induction s rule: collapse.induct) auto

lemma trim_set: "set (trim_hyphens s) \<subseteq> set s"
  using trim_parts [of s] by (metis Un_iff set_append subsetI)

text \<open>Cutting a tidy slug to 64 bytes leaves at least 63.\<close>

lemma cut_tidy:
  assumes "tidy s" and "length s > 64"
  shows "tidy (trim_hyphens (take 64 s)) \<and> 63 \<le> length (trim_hyphens (take 64 s)) \<and> length (trim_hyphens (take 64 s)) \<le> 64"
proof -
  let ?t = "take 64 s"
  have len: "length ?t = 64" using assms(2) by simp
  have nd: "\<not> Contains ?t ''--''"
    using assms(1) no_double_sub [of "[]" ?t "drop 64 s"] by (simp add: tidy_def)
  obtain b c where bc: "?t = b @ [c]" using len by (cases ?t rule: rev_cases) auto
  have hd: "b \<noteq> [] \<and> hd b \<noteq> CHR ''-''" using assms bc len by (cases b; cases s) (auto simp: tidy_def)
  have lb: "c = CHR ''-'' \<Longrightarrow> last b \<noteq> CHR ''-''"
  proof
    assume "c = CHR ''-''" "last b = CHR ''-''"
    then have "?t = butlast b @ ''--'' @ []" using bc hd append_butlast_last_id [of b] by simp
    then show False using nd unfolding double_hyphen by blast
  qed
  have "trim_hyphens ?t = (if c = CHR ''-'' then b else ?t)"
    using bc hd lb trim_last [of b] trim_same [of "b @ [c]"] by auto
  then show ?thesis using trim_tidy [OF nd] len bc by auto
qed

lemma lower_facts: "is_lower c \<or> is_digit c \<or> c = CHR ''-'' \<Longrightarrow> lower c = c \<and> keep_char c \<and> \<not> space_byte c \<and> byte c < 128"
proof -
  assume c: "is_lower c \<or> is_digit c \<or> c = CHR ''-''"
  then have b: "45 \<le> byte c" "byte c < 128" by (auto simp: is_lower_def is_digit_def byte_def)
  have "\<not> is_upper c" using c by (auto simp: is_lower_def is_digit_def is_upper_def byte_def)
  moreover have "\<not> space_byte c" using b by (auto dest: space_byte_range)
  ultimately show ?thesis using c b by (auto simp: lower_def keep_char_def)
qed

lemma TrimSpace_same: "\<forall>c \<in> set s. \<not> space_byte c \<Longrightarrow> TrimSpace s = s"
  by (cases "s = []") (simp_all add: TrimSpace_ends)

lemma lower_keep: "byte c < 128 \<Longrightarrow> keep_char (lower c) \<Longrightarrow> is_lower (lower c) \<or> is_digit (lower c) \<or> lower c = CHR ''-''"
  by (auto simp: lower_def keep_char_def is_upper_def is_lower_def byte_def)

lemma hyphenate_chars:
  assumes "is_ascii s" and "c \<in> set (hyphenate hyph s)"
  shows "is_lower c \<or> is_digit c \<or> c = CHR ''-''"
proof -
  obtain u v where uv: "ToLower s = u @ TrimSpace (ToLower s) @ v" by (rule TrimSpace_shape)
  obtain d where d: "d \<in> set (TrimSpace (ToLower s))" "c = (if keep_char d then d else CHR ''-'')"
    using assms by (auto simp: hyphenate_def)
  then have "d \<in> set (ToLower s)" using uv by (metis Un_iff set_append)
  then obtain x where "x \<in> set s" "d = lower x" by (auto simp: ToLower_def)
  then show ?thesis using d(2) assms(1) lower_keep [of x] by (auto simp: is_ascii_def list_all_iff)
qed

lemma Slugify_result:
  assumes "is_ascii inp" and "Slugify hyph inp = Inr s"
  shows "tidy s \<and> 2 \<le> length s \<and> length s \<le> 64 \<and> (\<forall>c \<in> set s. is_lower c \<or> is_digit c \<or> c = CHR ''-'')"
proof -
  let ?r = "trim_hyphens (collapse (hyphenate hyph inp))"
  have r: "tidy ?r" by (rule trim_tidy [OF collapse_no_double])
  have chars: "\<forall>c \<in> set ?r. is_lower c \<or> is_digit c \<or> c = CHR ''-''"
    using trim_set [of "collapse (hyphenate hyph inp)"] hyphenate_chars [OF assms(1)] by (auto simp: collapse_set)
  have two: "2 \<le> length ?r" and s: "s = trim_hyphens (if length ?r > 64 then take 64 ?r else ?r)"
    using assms(2) by (auto simp: Slugify_def Let_def split: if_splits)
  show ?thesis
  proof (cases "length ?r > 64")
    case True
    have "set (take 64 ?r) \<subseteq> set ?r" by (rule set_take_subset)
    then show ?thesis using cut_tidy [OF r True] s True chars trim_set [of "take 64 ?r"] by auto
  next
    case False
    then show ?thesis using s r two chars by (simp add: tidy_trim)
  qed
qed

text \<open>On ASCII names, a slug that \<open>Slugify\<close> makes is a valid namespace slug unless it is one
  of the reserved words, and making a slug from it again gives the same slug.\<close>

theorem slugify_makes_slugs:
  assumes "is_ascii inp" and "Slugify hyph inp = Inr s"
  shows "(s \<notin> set reservedSlugs \<longrightarrow> slug_ok s \<and> Validate uni s = None) \<and> Slugify hyph s = Inr s"
proof -
  note r = Slugify_result [OF assms]
  have ascii: "is_ascii s" using r lower_facts by (auto simp: is_ascii_def list_all_iff)
  have ne: "s \<noteq> []" using r by auto
  have "TrimSpace (ToLower s) = s"
  proof -
    have "ToLower s = s" using r lower_facts by (auto simp: ToLower_def intro: map_idI)
    then show ?thesis using TrimSpace_same [of s] r lower_facts by auto
  qed
  moreover have "map (\<lambda>c. if keep_char c then c else CHR ''-'') s = s"
    by (rule map_idI) (use r lower_facts in simp)
  ultimately have "hyphenate hyph s = s" using ascii by (simp add: hyphenate_def)
  then have again: "Slugify hyph s = Inr s"
    using r by (simp add: Slugify_def tidy_collapse tidy_trim tidy_def [THEN iffD1])
  have "s \<notin> set reservedSlugs \<Longrightarrow> slug_ok s"
    unfolding slug_ok_def pieces_nonempty [OF ne] using r ne by (auto simp: tidy_def)
  then show ?thesis using again Validate_ascii_iff [OF ascii] by blast
qed

theorem slugify_makes_slugs_witness:
  "is_ascii ''My Skill!'' \<and> Slugify (\<lambda>s. s) ''My Skill!'' = Inr ''my-skill'' \<and> slug_ok ''my-skill''"
proof -
  have a: "is_ascii ''My Skill!''" by (simp add: is_ascii_def byte_def)
  have t: "TrimSpace ''my skill!'' = ''my skill!''"
    by (rule TrimSpace_ends) (auto dest!: space_byte_range simp: byte_def)
  have l: "ToLower ''My Skill!'' = ''my skill!''" by code_simp
  have s: "Slugify (\<lambda>s. s) ''My Skill!'' = Inr ''my-skill''"
    by (simp add: Slugify_def hyphenate_def a l t keep_char_def is_lower_def is_upper_def is_digit_def byte_def trim_hyphens_def)
  show ?thesis using slugify_makes_slugs [OF a s] a s by (simp add: reservedSlugs_def)
qed

end
