(* ===== verification/Domain.thy ===== *)
theory Domain
  imports Prelude
begin

text \<open>
  The structs of the SDK packages as records: field order and names follow the source, with a
  short prefix per struct because record fields are global. A pointer field is an option, an
  \<open>int64\<close> or \<open>int\<close> is an unbounded integer (identifiers and counters are only compared,
  incremented and paged, so no definition below depends on their width), a \<open>time.Time\<close> is
  an integer instant with \<open>zero_time\<close> for Go's zero value, and the two-decimal rating
  average is kept in hundredths. Status, role and visibility fields are strings, as in the
  source: nothing restricts them to the documented values.
\<close>

type_synonym time = int

definition zero_time :: time where
  "zero_time = 0"

definition IsZero :: "time \<Rightarrow> bool" where
  "IsZero t \<longleftrightarrow> t = zero_time"

section \<open>Namespaces\<close>

record Namespace =
  ns_ID :: int
  ns_Slug :: string
  ns_DisplayName :: string
  ns_Type :: string
  ns_Description :: string
  ns_AvatarURL :: string
  ns_Status :: string
  ns_CreatedBy :: "string option"
  ns_CreatedAt :: time
  ns_UpdatedAt :: time

record NamespaceMember =
  nm_ID :: int
  nm_NamespaceID :: int
  nm_UserID :: string
  nm_Role :: string
  nm_CreatedAt :: time
  nm_UpdatedAt :: time

section \<open>Skills\<close>

record Skill =
  sk_ID :: int
  sk_NamespaceID :: int
  sk_Slug :: string
  sk_DisplayName :: string
  sk_Summary :: string
  sk_OwnerID :: string
  sk_SourceSkillID :: "int option"
  sk_Visibility :: string
  sk_Status :: string
  sk_LatestVersionID :: "int option"
  sk_DownloadCount :: int
  sk_StarCount :: int
  sk_RatingAvg :: int
  sk_RatingCount :: int
  sk_SubscriptionCount :: int
  sk_Hidden :: bool
  sk_HiddenAt :: "time option"
  sk_HiddenBy :: "string option"
  sk_CreatedBy :: "string option"
  sk_CreatedAt :: time
  sk_UpdatedBy :: "string option"
  sk_UpdatedAt :: time

record SkillVersion =
  sv_ID :: int
  sv_SkillID :: int
  sv_Version :: string
  sv_Status :: string
  sv_Changelog :: string
  sv_ParsedMetadataJSON :: "string option"
  sv_ManifestJSON :: "string option"
  sv_RequestedVisibility :: "string option"
  sv_FileCount :: int
  sv_TotalSize :: int
  sv_BundleReady :: bool
  sv_DownloadReady :: bool
  sv_PublishedAt :: "time option"
  sv_YankedAt :: "time option"
  sv_YankedBy :: "string option"
  sv_YankReason :: "string option"
  sv_CreatedBy :: string
  sv_CreatedAt :: time

record SkillFile =
  sf_ID :: int
  sf_VersionID :: int
  sf_FilePath :: string
  sf_FileSize :: int
  sf_ContentType :: string
  sf_SHA256 :: string
  sf_StorageKey :: string
  sf_CreatedAt :: time

record SkillTag =
  st_ID :: int
  st_SkillID :: int
  st_TagName :: string
  st_VersionID :: int
  st_CreatedBy :: "string option"
  st_CreatedAt :: time
  st_UpdatedAt :: time

record SkillVersionStats =
  ss_SkillVersionID :: int
  ss_SkillID :: int
  ss_DownloadCount :: int
  ss_UpdatedAt :: time

section \<open>Review and promotion\<close>

record ReviewTask =
  rt_ID :: int
  rt_SkillVersionID :: int
  rt_NamespaceID :: int
  rt_Status :: string
  rt_Version :: int
  rt_SubmittedBy :: string
  rt_ReviewedBy :: "string option"
  rt_ReviewComment :: "string option"
  rt_SubmittedAt :: time
  rt_ReviewedAt :: "time option"

record PromotionRequest =
  pr_ID :: int
  pr_SourceSkillID :: int
  pr_SourceVersionID :: int
  pr_TargetNamespaceID :: int
  pr_TargetSkillID :: "int option"
  pr_Status :: string
  pr_Version :: int
  pr_SubmittedBy :: string
  pr_ReviewedBy :: "string option"
  pr_ReviewComment :: "string option"
  pr_SubmittedAt :: time
  pr_ReviewedAt :: "time option"

section \<open>Releases\<close>

record Release =
  rel_ID :: int
  rel_SkillID :: int
  rel_VersionID :: int
  rel_Channel :: string
  rel_Title :: string
  rel_Notes :: string
  rel_Draft :: bool
  rel_Prerelease :: bool
  rel_Yanked :: bool
  rel_PublishedAt :: "time option"
  rel_PublisherID :: string
  rel_ReviewerID :: "string option"
  rel_PackageHash :: "string option"
  rel_CiCheckRunID :: "string option"
  rel_MetadataJSON :: "string option"
  rel_CreatedAt :: time
  rel_UpdatedAt :: time

record ReleaseAsset =
  ra_ID :: int
  ra_ReleaseID :: int
  ra_Name :: string
  ra_Label :: "string option"
  ra_ContentType :: string
  ra_Size :: int
  ra_StorageKey :: string
  ra_SHA256 :: "string option"
  ra_DownloadCount :: int
  ra_CreatedAt :: time

section \<open>Agent CI\<close>

record PipelineDefinition =
  pd_ID :: int
  pd_Name :: string
  pd_Description :: "string option"
  pd_TriggerOn :: string
  pd_StepsJSON :: string
  pd_Enabled :: bool
  pd_CreatedAt :: time
  pd_UpdatedAt :: time

record PipelineStepDefinition =
  ps_Name :: string
  ps_RunnerType :: string
  ps_Config :: string
  ps_Blocking :: "bool option"

record PipelineRun =
  run_ID :: int
  run_PipelineID :: int
  run_SkillID :: int
  run_VersionID :: "int option"
  run_ReleaseID :: "int option"
  run_TriggerType :: string
  run_TriggeredBy :: string
  run_Status :: string
  run_CheckCount :: int
  run_PassedCount :: int
  run_FailedCount :: int
  run_SkippedCount :: int
  run_StartedAt :: "time option"
  run_CompletedAt :: "time option"
  run_CreatedAt :: time
  run_UpdatedAt :: time

record CheckRun =
  cr_ID :: int
  cr_PipelineRunID :: int
  cr_SkillID :: int
  cr_VersionID :: "int option"
  cr_ReleaseID :: "int option"
  cr_Name :: string
  cr_RunnerType :: string
  cr_Status :: string
  cr_Conclusion :: "string option"
  cr_Summary :: "string option"
  cr_IsBlocking :: bool
  cr_StartedAt :: "time option"
  cr_CompletedAt :: "time option"
  cr_DurationMs :: "int option"
  cr_CreatedAt :: time
  cr_UpdatedAt :: time

record GatePolicy =
  gp_ID :: int
  gp_Name :: string
  gp_Description :: "string option"
  gp_TriggerOn :: string
  gp_RequiredRule :: string
  gp_Enabled :: bool
  gp_CreatedAt :: time
  gp_UpdatedAt :: time

record AgentWorker =
  aw_ID :: int
  aw_Name :: string
  aw_Type :: string
  aw_ConfigJSON :: "string option"
  aw_Status :: string
  aw_CreatedAt :: time
  aw_UpdatedAt :: time

record CheckStep =
  cs_ID :: int
  cs_CheckRunID :: int
  cs_Name :: string
  cs_Status :: string
  cs_StartedAt :: "time option"
  cs_CompletedAt :: "time option"
  cs_DurationMs :: "int option"
  cs_LogRef :: "string option"
  cs_CreatedAt :: time

record CheckArtifact =
  ca_ID :: int
  ca_CheckRunID :: int
  ca_Name :: string
  ca_ContentType :: string
  ca_Size :: int
  ca_StorageKey :: string
  ca_CreatedAt :: time

section \<open>Events, notifications and audit entries\<close>

text \<open>
  A domain event is its \<open>EventName()\<close> with the field values of its struct; a notification
  and an audit entry are the argument lists of \<open>NotifyUser\<close> and \<open>Record\<close>.
\<close>

record Event =
  ev_Name :: string
  ev_Fields :: "arg list"

record Notification =
  nt_UserID :: string
  nt_Category :: string
  nt_EntityType :: string
  nt_EntityID :: int
  nt_Title :: string
  nt_BodyJSON :: string

record AuditEntry =
  au_UserID :: string
  au_Action :: string
  au_ResourceType :: string
  au_ResourceID :: int
  au_Detail :: string

end
