(* ===== verification/AccountTypes.thy ===== *)
theory AccountTypes
  imports Domain
begin

text \<open>
  The structs of \<open>auth/types.go\<close> and the tables of \<open>migrations/001_users_auth.sql\<close> the auth
  services use, as one record of tables. Field names follow the source; see \<open>Domain\<close> for the conventions.
\<close>

record UserAccount =
  ua_ID :: string
  ua_DisplayName :: string
  ua_Email :: string
  ua_AvatarURL :: string
  ua_Status :: string
  ua_MergedToUserID :: "string option"
  ua_SystemAccount :: bool
  ua_CreatedAt :: time
  ua_UpdatedAt :: time

record IdentityBinding =
  ib_ID :: int
  ib_UserID :: string
  ib_ProviderCode :: string
  ib_Subject :: string
  ib_LoginName :: string
  ib_ExtraJSON :: string
  ib_CreatedAt :: time
  ib_UpdatedAt :: time

record LocalCredential =
  lc_ID :: int
  lc_UserID :: string
  lc_Username :: string
  lc_PasswordHash :: string
  lc_FailedAttempts :: int
  lc_LockedUntil :: "time option"
  lc_CreatedAt :: time
  lc_UpdatedAt :: time

record ApiToken =
  at_ID :: int
  at_SubjectType :: string
  at_SubjectID :: string
  at_UserID :: string
  at_Name :: string
  at_TokenPrefix :: string
  at_TokenHash :: string
  at_ScopeJSON :: string
  at_ExpiresAt :: "time option"
  at_LastUsedAt :: "time option"
  at_RevokedAt :: "time option"
  at_CreatedAt :: time

record Role =
  ro_ID :: int
  ro_Code :: string
  ro_Name :: string
  ro_Description :: string
  ro_IsSystem :: bool
  ro_CreatedAt :: time

record Permission =
  pn_ID :: int
  pn_Code :: string
  pn_Name :: string
  pn_GroupCode :: string

record UserRoleBinding =
  ur_ID :: int
  ur_UserID :: string
  ur_RoleID :: int
  ur_CreatedAt :: time

record AccountMergeRequest =
  am_ID :: int
  am_PrimaryUserID :: string
  am_SecondaryUserID :: string
  am_Status :: string
  am_VerificationToken :: "string option"
  am_TokenExpiresAt :: "time option"
  am_CompletedAt :: "time option"
  am_CreatedAt :: time

record PasswordResetRequest =
  pq_ID :: int
  pq_UserID :: string
  pq_Email :: string
  pq_CodeHash :: string
  pq_ExpiresAt :: time
  pq_ConsumedAt :: "time option"
  pq_RequestedByAdmin :: bool
  pq_RequestedByUserID :: "string option"
  pq_CreatedAt :: time

record account_tables =
  user_accounts :: "UserAccount list"
  identities :: "IdentityBinding list"
  credentials :: "LocalCredential list"
  api_tokens :: "ApiToken list"
  role_defs :: "Role list"
  permissions :: "Permission list"
  role_bindings :: "UserRoleBinding list"
  merge_requests :: "AccountMergeRequest list"
  reset_requests :: "PasswordResetRequest list"

definition no_accounts :: account_tables where
  "no_accounts = \<lparr> user_accounts = [], identities = [], credentials = [], api_tokens = [], role_defs = [],
     permissions = [], role_bindings = [], merge_requests = [], reset_requests = [] \<rparr>"

end
