(* ===== verification/CommunityTypes.thy ===== *)
theory CommunityTypes
  imports Domain
begin

text \<open>
  The structs of \<open>community/types.go\<close> and the tables of \<open>migrations/007_community.sql\<close>, as one
  record of tables.
\<close>

record Issue =
  is_ID :: int
  is_SkillID :: int
  is_Title :: string
  is_Body :: string
  is_Status :: string
  is_AssigneeID :: "string option"
  is_LinkedVersionID :: "int option"
  is_LinkedReleaseID :: "int option"
  is_AuthorID :: string
  is_Locked :: bool
  is_CommentCount :: int
  is_CreatedAt :: time
  is_UpdatedAt :: time

record IssueComment =
  ic_ID :: int
  ic_IssueID :: int
  ic_AuthorID :: string
  ic_Body :: string
  ic_CreatedAt :: time
  ic_UpdatedAt :: time

record Discussion =
  ds_ID :: int
  ds_SkillID :: int
  ds_Title :: string
  ds_Body :: string
  ds_Category :: string
  ds_AcceptedAnswerID :: "int option"
  ds_AuthorID :: string
  ds_Locked :: bool
  ds_Pinned :: bool
  ds_CommentCount :: int
  ds_CreatedAt :: time
  ds_UpdatedAt :: time

record DiscussionComment =
  dc_ID :: int
  dc_DiscussionID :: int
  dc_AuthorID :: string
  dc_Body :: string
  dc_IsAnswer :: bool
  dc_CreatedAt :: time
  dc_UpdatedAt :: time

record WikiPage =
  wk_ID :: int
  wk_SkillID :: int
  wk_Title :: string
  wk_Slug :: string
  wk_CurrentVersionID :: "int option"
  wk_OrderIndex :: int
  wk_AuthorID :: string
  wk_CreatedAt :: time
  wk_UpdatedAt :: time

record WikiPageVersion =
  wv_ID :: int
  wv_PageID :: int
  wv_Body :: string
  wv_Version :: int
  wv_ChangeSummary :: string
  wv_LinkedSkillVersionID :: "int option"
  wv_AuthorID :: string
  wv_CreatedAt :: time

record ChangeProposal =
  cp_ID :: int
  cp_SkillID :: int
  cp_Title :: string
  cp_Summary :: string
  cp_ProposedChangesJSON :: string
  cp_Status :: string
  cp_AuthorID :: string
  cp_ReviewerID :: "string option"
  cp_SourceGitRef :: "string option"
  cp_ReviewComment :: string
  cp_CreatedAt :: time
  cp_UpdatedAt :: time

record ChangeProposalComment =
  cc_ID :: int
  cc_ProposalID :: int
  cc_AuthorID :: string
  cc_Body :: string
  cc_CreatedAt :: time
  cc_UpdatedAt :: time

record IssueLabel =
  il_ID :: int
  il_IssueID :: int
  il_LabelID :: int
  il_CreatedAt :: time

record DiscussionLabel =
  dbl_ID :: int
  dbl_DiscussionID :: int
  dbl_LabelID :: int
  dbl_CreatedAt :: time

record CommunityReport =
  cmr_ID :: int
  cmr_SkillID :: int
  cmr_ObjectType :: string
  cmr_ObjectID :: int
  cmr_ReporterID :: string
  cmr_Reason :: string
  cmr_Details :: string
  cmr_Status :: string
  cmr_HandledBy :: "string option"
  cmr_HandleComment :: string
  cmr_CreatedAt :: time
  cmr_HandledAt :: "time option"

record community_tables =
  issues :: "Issue list"
  issue_comments :: "IssueComment list"
  discussions :: "Discussion list"
  discussion_comments :: "DiscussionComment list"
  wiki_pages :: "WikiPage list"
  wiki_versions :: "WikiPageVersion list"
  proposals :: "ChangeProposal list"
  proposal_comments :: "ChangeProposalComment list"
  issue_labels :: "IssueLabel list"
  discussion_labels :: "DiscussionLabel list"
  community_reports :: "CommunityReport list"

definition no_community :: community_tables where
  "no_community = \<lparr> issues = [], issue_comments = [], discussions = [], discussion_comments = [], wiki_pages = [],
     wiki_versions = [], proposals = [], proposal_comments = [], issue_labels = [], discussion_labels = [], community_reports = [] \<rparr>"

end
