(* ===== verification/World.thy ===== *)
theory World
  imports AccountTypes CommunityTypes
begin

text \<open>
  The state the services run against, and the database calls they make.

  \<^item> \<open>database\<close> holds one list of rows per table of \<open>server/migrations\<close> that the modelled
    services use; \<open>world\<close> adds what surrounds it: the id sequences (which PostgreSQL never
    rolls back), the clock, and an arbitrary schedule \<open>fault\<close> of failing statements. Every
    statement advances \<open>tick\<close>, so a theorem about all worlds is a theorem about every way in
    which the calls of an operation can fail.
  \<^item> \<open>nil_on_empty\<close> says what the driver returns for a single-row query without a row: the
    pgx driver reports \<open>ErrNoRows\<close> (the flag is off), which most adapters hand to their caller
    as an error; repositories that return \<open>(nil, nil)\<close>, as the services expect and the SDK
    tests' repositories do, have the flag on. Both are covered unless a theorem fixes the flag.
  \<^item> \<open>objects\<close> is the file system below the object store, by path; a write that fails part
    of the way leaves the first \<open>torn\<close> bytes. It is outside every transaction.
  \<^item> Inside a transaction a failed statement aborts it: every later statement fails until
    the rollback. \<open>WithinTx\<close> is \<open>postgres/transactor.go\<close>, \<open>NoopWithinTx\<close> is
    \<open>uow.NoopTransactor\<close>; the locale \<open>transactor\<close> states what its clients rely on.
\<close>

section \<open>State\<close>

record database =
  namespaces :: "Namespace list"
  members :: "NamespaceMember list"
  skills :: "Skill list"
  versions :: "SkillVersion list"
  files :: "SkillFile list"
  tags :: "SkillTag list"
  version_stats :: "SkillVersionStats list"
  review_tasks :: "ReviewTask list"
  promotions :: "PromotionRequest list"
  releases :: "Release list"
  release_assets :: "ReleaseAsset list"
  pipeline_defs :: "PipelineDefinition list"
  pipeline_runs :: "PipelineRun list"
  check_runs :: "CheckRun list"
  check_steps :: "CheckStep list"
  check_artifacts :: "CheckArtifact list"
  agent_workers :: "AgentWorker list"
  gate_policies :: "GatePolicy list"
  audit_log :: "AuditEntry list"
  accounts :: account_tables
  community :: community_tables

record world =
  db :: database
  seqs :: "string \<Rightarrow> int"
  tick :: nat
  fault :: "nat \<Rightarrow> bool"
  clock :: "nat \<Rightarrow> time"
  nil_on_empty :: bool
  in_tx :: bool
  aborted :: bool
  bus_log :: "Event list"
  objects :: "string \<rightharpoonup> string"
  torn :: "nat \<Rightarrow> nat"

type_synonym 'a op = "(world, 'a) opn"

definition empty_db :: database where
  "empty_db = \<lparr> namespaces = [], members = [], skills = [], versions = [], files = [], tags = [], version_stats = [],
     review_tasks = [], promotions = [], releases = [], release_assets = [], pipeline_defs = [],
     pipeline_runs = [], check_runs = [], check_steps = [], check_artifacts = [], agent_workers = [], gate_policies = [], audit_log = [],
     accounts = no_accounts, community = no_community \<rparr>"

text \<open>A world in which no statement fails, for concrete runs: the clock reads 1000, 1001, ...\<close>

definition calm :: "bool \<Rightarrow> database \<Rightarrow> world" where
  "calm nilrows d = \<lparr> db = d, seqs = (\<lambda>_. 100), tick = 0, fault = (\<lambda>_. False),
     clock = (\<lambda>n. 1000 + int n), nil_on_empty = nilrows, in_tx = False, aborted = False, bus_log = [],
     objects = Map.empty, torn = (\<lambda>_. 0) \<rparr>"

section \<open>Statements\<close>

definition stmt_fails :: "world \<Rightarrow> bool" where
  "stmt_fails w \<longleftrightarrow> aborted w \<or> fault w (tick w)"

definition advance :: "world \<Rightarrow> world" where
  "advance w = w\<lparr>tick := Suc (tick w)\<rparr>"

definition fail_stmt :: "world \<Rightarrow> world" where
  "fail_stmt w = w\<lparr>tick := Suc (tick w), aborted := in_tx w\<rparr>"

definition next_id :: "string \<Rightarrow> world \<Rightarrow> int" where
  "next_id s w = seqs w s + 1"

definition take_id :: "string \<Rightarrow> world \<Rightarrow> world" where
  "take_id s w = w\<lparr>seqs := (seqs w)(s := next_id s w)\<rparr>"

definition set_db :: "database \<Rightarrow> world \<Rightarrow> world" where
  "set_db d w = w\<lparr>db := d\<rparr>"

text \<open>\<open>time.Now()\<close>.\<close>

definition now :: "(world, time) state" where
  "now = State (\<lambda>w. (clock w (tick w), advance w))"

text \<open>A query that returns rows (or an aggregate): it does not touch the tables.\<close>

definition db_query :: "(database \<Rightarrow> 'a) \<Rightarrow> 'a op" where
  "db_query f = State (\<lambda>w. if stmt_fails w then (Inl DbFault, fail_stmt w) else (Inr (f (db w)), advance w))"

text \<open>
  \<open>queryRow ... Scan\<close> of a single row whose error is returned as it is (\<open>return nil, err\<close>):
  without a row the answer is the driver's.
\<close>

definition query_row :: "(database \<Rightarrow> 'row option) \<Rightarrow> 'row option op" where
  "query_row f = State (\<lambda>w.
     if stmt_fails w then (Inl DbFault, fail_stmt w)
     else (case f (db w) of
             Some r \<Rightarrow> Inr (Some r)
           | None \<Rightarrow> (if nil_on_empty w then Inr None else Inl NoRows), advance w))"

text \<open>A statement that writes and returns something (the rows affected, a \<open>RETURNING\<close> row).\<close>

definition db_exec :: "(database \<Rightarrow> 'a \<times> database) \<Rightarrow> 'a op" where
  "db_exec f = State (\<lambda>w.
     if stmt_fails w then (Inl DbFault, fail_stmt w)
     else (case f (db w) of (a, d) \<Rightarrow> (Inr a, set_db d (advance w))))"

text \<open>
  An \<open>INSERT\<close> into a table with a \<open>BIGSERIAL\<close> key: the sequence moves whatever happens
  next; a violated unique index fails the statement.
\<close>

definition db_insert :: "string \<Rightarrow> (int \<Rightarrow> database \<Rightarrow> (err + 'a \<times> database)) \<Rightarrow> 'a op" where
  "db_insert s f = State (\<lambda>w.
     if stmt_fails w then (Inl DbFault, fail_stmt w)
     else (case f (next_id s w) (db w) of
             Inl e \<Rightarrow> (Inl e, fail_stmt (take_id s w))
           | Inr (a, d) \<Rightarrow> (Inr a, set_db d (advance (take_id s w)))))"

text \<open>A write that may violate a unique index.\<close>

definition db_try :: "(database \<Rightarrow> (err + 'a \<times> database)) \<Rightarrow> 'a op" where
  "db_try f = State (\<lambda>w.
     if stmt_fails w then (Inl DbFault, fail_stmt w)
     else (case f (db w) of
             Inl e \<Rightarrow> (Inl e, fail_stmt w)
           | Inr (a, d) \<Rightarrow> (Inr a, set_db d (advance w))))"

text \<open>\<open>ORDER BY key DESC\<close>, and \<open>LIMIT\<close>/\<open>OFFSET\<close> as PostgreSQL reads them.\<close>

definition order_desc :: "('r \<Rightarrow> int) \<Rightarrow> 'r list \<Rightarrow> 'r list" where
  "order_desc k rs = rev (sort_key k (rev rs))"

definition limit_offset :: "int \<Rightarrow> int \<Rightarrow> 'r list \<Rightarrow> 'r list" where
  "limit_offset limit offset rs = take (nat limit) (drop (nat offset) rs)"

lemma set_order_desc [simp]: "set (order_desc k rs) = set rs"
  by (simp add: order_desc_def)

text \<open>A statement the server rejects whatever the tables hold (a negative \<open>LIMIT\<close>, for instance),
  and the pages the repositories read.\<close>

definition bad_stmt :: "'a op" where
  "bad_stmt = State (\<lambda>w. (Inl DbFault, fail_stmt w))"

definition page_query :: "int \<Rightarrow> int \<Rightarrow> (database \<Rightarrow> 'r list) \<Rightarrow> 'r list op" where
  "page_query limit offset f =
     (if limit < 0 \<or> offset < 0 then bad_stmt else db_query (\<lambda>d. limit_offset limit offset (f d)))"

text \<open>The common idiom: ask for one row more than the page, report whether there was one. The
  slice panics on a negative size.\<close>

definition more_page :: "int \<Rightarrow> 'r list \<Rightarrow> ('r list \<times> bool) op" where
  "more_page sz rs =
     (if int (length rs) > sz
      then (if sz < 0 then fail (Panic ''slice bounds out of range'') else ok (take (nat sz) rs, True))
      else ok (rs, False))"

definition paged :: "int \<Rightarrow> int \<Rightarrow> (database \<Rightarrow> 'r list) \<Rightarrow> ('r list \<times> bool) op" where
  "paged page sz f = do {
     r \<leftarrow> page_query (sz + 1) (page * sz) f;
     (case r of Inl e \<Rightarrow> fail e | Inr rs \<Rightarrow> more_page sz rs) }"

section \<open>Rules for the statements\<close>

lemma world_field_simps [simp]:
  "db (advance w) = db w" "db (fail_stmt w) = db w" "db (take_id s w) = db w" "db (set_db d w) = d"
  "seqs (advance w) = seqs w" "seqs (fail_stmt w) = seqs w" "seqs (set_db d w) = seqs w"
  "fault (advance w) = fault w" "fault (fail_stmt w) = fault w" "fault (take_id s w) = fault w" "fault (set_db d w) = fault w"
  "clock (advance w) = clock w" "clock (fail_stmt w) = clock w" "clock (take_id s w) = clock w" "clock (set_db d w) = clock w"
  "nil_on_empty (advance w) = nil_on_empty w" "nil_on_empty (fail_stmt w) = nil_on_empty w"
  "nil_on_empty (take_id s w) = nil_on_empty w" "nil_on_empty (set_db d w) = nil_on_empty w"
  "bus_log (advance w) = bus_log w" "bus_log (fail_stmt w) = bus_log w" "bus_log (take_id s w) = bus_log w" "bus_log (set_db d w) = bus_log w"
  "in_tx (advance w) = in_tx w" "in_tx (fail_stmt w) = in_tx w" "in_tx (take_id s w) = in_tx w" "in_tx (set_db d w) = in_tx w"
  "aborted (advance w) = aborted w" "aborted (take_id s w) = aborted w" "aborted (set_db d w) = aborted w"
  "aborted (fail_stmt w) = in_tx w" "objects (advance w) = objects w" "objects (fail_stmt w) = objects w"
  "objects (take_id s w) = objects w" "objects (set_db d w) = objects w" "tick (set_db d w) = tick w" "tick (take_id s w) = tick w"
  by (simp_all add: advance_def fail_stmt_def take_id_def set_db_def)

lemma set_db_set_db [simp]: "set_db d (set_db d' w) = set_db d w"
  and set_db_same [simp]: "set_db (db w) w = w"
  by (simp_all add: set_db_def)

lemma advance_set_db [simp]: "advance (set_db d w) = set_db d (advance w)"
  and fail_stmt_set_db [simp]: "fail_stmt (set_db d w) = set_db d (fail_stmt w)"
  and take_id_set_db [simp]: "take_id s (set_db d w) = set_db d (take_id s w)"
  and next_id_set_db [simp]: "next_id s (set_db d w) = next_id s w"
  and next_id_advance [simp]: "next_id s (advance w) = next_id s w"
  and stmt_fails_set_db [simp]: "stmt_fails (set_db d w) = stmt_fails w"
  by (simp_all add: advance_def fail_stmt_def take_id_def set_db_def next_id_def stmt_fails_def)

lemma seqs_take_id [simp]:
  "s \<noteq> s' \<Longrightarrow> seqs (take_id s w) s' = seqs w s'" "seqs (take_id s w) s = seqs w s + 1"
  by (simp_all add: take_id_def next_id_def)

lemma wp_now [simp]: "wp now Q w = Q (clock w (tick w)) (advance w)"
  by (simp add: now_def wp_State)

lemma wp_db_query [simp]:
  "wp (db_query f) Q w = (if stmt_fails w then Q (Inl DbFault) (fail_stmt w) else Q (Inr (f (db w))) (advance w))"
  by (simp add: db_query_def wp_State)

lemma wp_query_row [simp]:
  "wp (query_row f) Q w =
     (if stmt_fails w then Q (Inl DbFault) (fail_stmt w)
      else (case f (db w) of
              Some r \<Rightarrow> Q (Inr (Some r)) (advance w)
            | None \<Rightarrow> (if nil_on_empty w then Q (Inr None) (advance w) else Q (Inl NoRows) (advance w))))"
  by (simp add: query_row_def wp_State split: option.splits)

lemma wp_db_exec [simp]:
  "wp (db_exec f) Q w =
     (if stmt_fails w then Q (Inl DbFault) (fail_stmt w)
      else (case f (db w) of (a, d) \<Rightarrow> Q (Inr a) (set_db d (advance w))))"
  by (simp add: db_exec_def wp_State split: prod.splits)

lemma wp_db_insert [simp]:
  "wp (db_insert s f) Q w =
     (if stmt_fails w then Q (Inl DbFault) (fail_stmt w)
      else (case f (next_id s w) (db w) of
              Inl e \<Rightarrow> Q (Inl e) (fail_stmt (take_id s w))
            | Inr (a, d) \<Rightarrow> Q (Inr a) (set_db d (advance (take_id s w)))))"
  by (simp add: db_insert_def wp_State split: sum.splits prod.splits)

lemma wp_db_try [simp]:
  "wp (db_try f) Q w =
     (if stmt_fails w then Q (Inl DbFault) (fail_stmt w)
      else (case f (db w) of
              Inl e \<Rightarrow> Q (Inl e) (fail_stmt w)
            | Inr (a, d) \<Rightarrow> Q (Inr a) (set_db d (advance w))))"
  by (simp add: db_try_def wp_State split: sum.splits prod.splits)

lemma wp_bad_stmt [simp]: "wp bad_stmt Q w = Q (Inl DbFault) (fail_stmt w)"
  by (simp add: bad_stmt_def wp_State)

text \<open>A world whose statements do not fail, and that stays so.\<close>

definition healthy :: "world \<Rightarrow> bool" where
  "healthy w \<longleftrightarrow> (\<forall>n. \<not> fault w n) \<and> \<not> aborted w"

lemma healthy_simps [simp]:
  "healthy w \<Longrightarrow> \<not> stmt_fails w"
  "healthy (advance w) = healthy w" "healthy (take_id s w) = healthy w" "healthy (set_db d w) = healthy w"
  by (auto simp: healthy_def stmt_fails_def)

lemma healthy_calm [simp]: "healthy (calm b d)"
  by (simp add: healthy_def calm_def)

lemma calm_simps [simp]:
  "db (calm b d) = d" "nil_on_empty (calm b d) = b" "seqs (calm b d) = (\<lambda>_. 100)" "tick (calm b d) = 0"
  "clock (calm b d) n = 1000 + int n" "bus_log (calm b d) = []" "in_tx (calm b d) = False" "aborted (calm b d) = False"
  "fault (calm b d) = (\<lambda>_. False)"
  by (simp_all add: calm_def)

lemmas world_eval = advance_def fail_stmt_def take_id_def set_db_def next_id_def stmt_fails_def calm_def

section \<open>Invariants of the tables\<close>

text \<open>
  \<open>keeps I m\<close>: whatever statement of \<open>m\<close> fails, and whichever driver is used, \<open>m\<close> leaves a
  database satisfying \<open>I\<close> in one satisfying \<open>I\<close>. The rules follow the structure of an
  operation, so that only its write statements are left to look at.
\<close>

named_theorems keeps_intros

definition keeps :: "(database \<Rightarrow> bool) \<Rightarrow> (world, 'a) state \<Rightarrow> bool" where
  "keeps I m \<longleftrightarrow> (\<forall>w. I (db w) \<longrightarrow> wp m (\<lambda>_ w'. I (db w')) w)"

lemma keepsI: "(\<And>w. I (db w) \<Longrightarrow> wp m (\<lambda>_ w'. I (db w')) w) \<Longrightarrow> keeps I m"
  by (simp add: keeps_def)

lemma keepsD: "keeps I m \<Longrightarrow> run_state m w = (r, w') \<Longrightarrow> I (db w) \<Longrightarrow> I (db w')"
  unfolding keeps_def by (blast dest: wpD)

lemma keeps_return [keeps_intros]: "keeps I (State_Monad.return x)"
  by (simp add: keeps_def)

lemma keeps_now [keeps_intros]: "keeps I now"
  by (simp add: keeps_def)

lemma keeps_query [keeps_intros]: "keeps I (db_query f)"
  by (simp add: keeps_def)

lemma keeps_query_row [keeps_intros]: "keeps I (query_row f)"
  by (simp add: keeps_def split: option.splits)

lemma keeps_bind [keeps_intros]: "keeps I m \<Longrightarrow> (\<And>r. keeps I (f r)) \<Longrightarrow> keeps I (State_Monad.bind m f)"
  unfolding keeps_def wp_bind by (blast intro: wp_mono)

lemma keeps_bind_result:
  assumes "keeps I m" and "\<And>w. wp m (\<lambda>r _. P r) w" and "\<And>r. P r \<Longrightarrow> keeps I (f r)"
  shows "keeps I (State_Monad.bind m f)"
proof (rule keepsI)
  fix w :: world assume "I (db w)"
  then have "wp m (\<lambda>r w'. P r \<and> I (db w')) w" using assms(1,2) by (simp add: keeps_def wp_conj)
  then show "wp (State_Monad.bind m f) (\<lambda>_ w'. I (db w')) w"
    using assms(3) unfolding wp_bind keeps_def by (auto elim!: wp_mono)
qed

lemma keeps_if [keeps_intros]: "(b \<Longrightarrow> keeps I m) \<Longrightarrow> (\<not> b \<Longrightarrow> keeps I n) \<Longrightarrow> keeps I (if b then m else n)"
  by simp

lemma keeps_sum [keeps_intros]:
  "(\<And>e. r = Inl e \<Longrightarrow> keeps I (f e)) \<Longrightarrow> (\<And>x. r = Inr x \<Longrightarrow> keeps I (g x)) \<Longrightarrow> keeps I (case r of Inl e \<Rightarrow> f e | Inr x \<Rightarrow> g x)"
  by (simp split: sum.splits)

lemma keeps_option [keeps_intros]:
  "(r = None \<Longrightarrow> keeps I m) \<Longrightarrow> (\<And>x. r = Some x \<Longrightarrow> keeps I (g x)) \<Longrightarrow> keeps I (case r of None \<Rightarrow> m | Some x \<Rightarrow> g x)"
  by (simp split: option.splits)

lemma keeps_exec: "(\<And>d. I d \<Longrightarrow> I (snd (f d))) \<Longrightarrow> keeps I (db_exec f)"
  by (simp add: keeps_def split_beta)

lemma keeps_try: "(\<And>d a d'. I d \<Longrightarrow> f d = Inr (a, d') \<Longrightarrow> I d') \<Longrightarrow> keeps I (db_try f)"
  by (auto simp: keeps_def split: sum.splits prod.splits)

lemma keeps_insert: "(\<And>i d a d'. I d \<Longrightarrow> f i d = Inr (a, d') \<Longrightarrow> I d') \<Longrightarrow> keeps I (db_insert s f)"
  by (auto simp: keeps_def split: sum.splits prod.splits)

section \<open>Evolution of the world\<close>

text \<open>
  A relation between the worlds before and after an operation, kept by all its statements: reflexive
  on worlds that agree on tables and sequences, and transitive. \<open>evolves m\<close> says that \<open>m\<close> moves
  along it whatever fails, and the rules follow the structure of \<open>m\<close>.
\<close>

locale evolution =
  fixes R :: "world \<Rightarrow> world \<Rightarrow> bool"
  assumes same: "db w' = db w \<Longrightarrow> seqs w' = seqs w \<Longrightarrow> R w w'"
    and trans: "R u v \<Longrightarrow> R v w \<Longrightarrow> R u w"
begin

definition evolves :: "(world, 'a) state \<Rightarrow> bool" where
  "evolves m \<longleftrightarrow> (\<forall>w. wp m (\<lambda>_ w'. R w w') w)"

lemma evolvesD: "evolves m \<Longrightarrow> run_state m w = (r, w') \<Longrightarrow> R w w'"
  unfolding evolves_def by (blast dest: wpD)

lemma return: "evolves (State_Monad.return x)"
  by (simp add: evolves_def same)

lemma now: "evolves now"
  by (simp add: evolves_def same advance_def)

lemma query: "evolves (db_query f)"
  by (simp add: evolves_def same advance_def fail_stmt_def)

lemma query_row: "evolves (query_row f)"
  by (simp add: evolves_def same advance_def fail_stmt_def split: option.splits)

lemma page: "evolves (page_query l off f)"
  by (simp add: evolves_def page_query_def same advance_def fail_stmt_def)

lemma bind: "evolves m \<Longrightarrow> (\<And>r. evolves (f r)) \<Longrightarrow> evolves (State_Monad.bind m f)"
  unfolding evolves_def wp_bind by (blast intro: wp_mono trans)

lemma if_rule: "(b \<Longrightarrow> evolves m) \<Longrightarrow> (\<not> b \<Longrightarrow> evolves n) \<Longrightarrow> evolves (if b then m else n)"
  by simp

lemma sum: "(\<And>e. r = Inl e \<Longrightarrow> evolves (f e)) \<Longrightarrow> (\<And>x. r = Inr x \<Longrightarrow> evolves (g x))
    \<Longrightarrow> evolves (case r of Inl e \<Rightarrow> f e | Inr x \<Rightarrow> g x)"
  by (simp split: sum.splits)

lemma option: "(r = None \<Longrightarrow> evolves m) \<Longrightarrow> (\<And>x. r = Some x \<Longrightarrow> evolves (g x))
    \<Longrightarrow> evolves (case r of None \<Rightarrow> m | Some x \<Rightarrow> g x)"
  by (simp split: option.splits)

lemmas rules = return now query query_row page bind if_rule sum option

lemma exec:
  assumes "\<And>w. R w (set_db (snd (f (db w))) w)"
  shows "evolves (db_exec f)"
  unfolding evolves_def
proof (intro allI)
  fix w
  have "R w (set_db (snd (f (db w))) (advance w))"
    using trans [OF assms [of w], of "set_db (snd (f (db w))) (advance w)"] same by (simp add: set_db_def advance_def)
  then show "wp (db_exec f) (\<lambda>_ w'. R w w') w" by (simp add: split_beta same fail_stmt_def)
qed

lemma insert:
  assumes "\<And>w a d. f (next_id s w) (db w) = Inr (a, d) \<Longrightarrow> R w (set_db d (take_id s w))"
    and "\<And>w. R w (take_id s w)"
  shows "evolves (db_insert s f)"
  unfolding evolves_def
proof (intro allI)
  fix w
  have "R w (set_db d (advance (take_id s w)))" if "f (next_id s w) (db w) = Inr (a, d)" for a d
    using trans [OF assms(1) [OF that], of "set_db d (advance (take_id s w))"] same by (simp add: set_db_def advance_def)
  moreover have "R w (fail_stmt (take_id s w))"
    using trans [OF assms(2) [of w], of "fail_stmt (take_id s w)"] same by (simp add: fail_stmt_def)
  ultimately show "wp (db_insert s f) (\<lambda>_ w'. R w w') w"
    by (auto simp: same fail_stmt_def split: sum.splits prod.splits)
qed

end

section \<open>Operations that leave the tables alone\<close>

definition read_only :: "'a op \<Rightarrow> bool" where
  "read_only m \<longleftrightarrow> (\<forall>w. wp m (\<lambda>_ w'. db w' = db w) w)"

lemma read_onlyI: "(\<And>w. wp m (\<lambda>_ w'. db w' = db w) w) \<Longrightarrow> read_only m"
  by (simp add: read_only_def)

lemma read_onlyD: "read_only m \<Longrightarrow> run_state m w = (r, w') \<Longrightarrow> db w' = db w"
  unfolding read_only_def by (blast dest: wpD)

text \<open>
  The tables the registry itself works on: all but the append-only audit log that recorders
  write on the side.
\<close>

definition core :: "database \<Rightarrow> database" where
  "core d = d\<lparr>audit_log := []\<rparr>"

lemma core_eqD:
  assumes "core d' = core d"
  shows "namespaces d' = namespaces d" "members d' = members d" "skills d' = skills d"
    "versions d' = versions d" "files d' = files d" "tags d' = tags d" "version_stats d' = version_stats d" "review_tasks d' = review_tasks d"
    "promotions d' = promotions d" "releases d' = releases d" "release_assets d' = release_assets d"
    "pipeline_defs d' = pipeline_defs d" "pipeline_runs d' = pipeline_runs d"
    "check_runs d' = check_runs d" "check_steps d' = check_steps d" "check_artifacts d' = check_artifacts d"
    "agent_workers d' = agent_workers d" "gate_policies d' = gate_policies d"
    "accounts d' = accounts d" "community d' = community d"
  using assms by (cases d; cases d'; simp add: core_def)+

text \<open>
  Collaborators that a service calls through an interface of its own (an event bus, a
  notifier, an audit recorder, a gate): the services rely on the call leaving the registry's
  tables as they are, and not on its result.
\<close>

definition keeps_core :: "'a op \<Rightarrow> bool" where
  "keeps_core m \<longleftrightarrow> (\<forall>w. wp m (\<lambda>_ w'. core (db w') = core (db w)) w)"

lemma keeps_coreD: "keeps_core m \<Longrightarrow> (\<And>r w'. core (db w') = core (db w) \<Longrightarrow> Q r w') \<Longrightarrow> wp m Q w"
  unfolding keeps_core_def by (blast intro: wp_mono)

locale collaborator =
  fixes call :: "'x \<Rightarrow> unit op"
  assumes neutral: "keeps_core (call x)"
begin

lemma wp_call: "(\<And>r w'. core (db w') = core (db w) \<Longrightarrow> Q r w') \<Longrightarrow> wp (call x) Q w"
  by (rule keeps_coreD [OF neutral])

lemma call_keeps: "run_state (call x) w = (r, w') \<Longrightarrow> core (db w') = core (db w)"
  using neutral[of x] unfolding keeps_core_def by (blast dest: wpD)

end

text \<open>An optional collaborator is called when it is there, and its error is dropped.\<close>

definition notify :: "('x \<Rightarrow> unit op) option \<Rightarrow> 'x \<Rightarrow> unit op" where
  "notify h x = (case h of None \<Rightarrow> ok () | Some f \<Rightarrow> do { _ \<leftarrow> f x; ok () })"

definition neutral_opt :: "('x \<Rightarrow> unit op) option \<Rightarrow> bool" where
  "neutral_opt h = pred_option collaborator h"

lemma wp_notify:
  assumes "neutral_opt h" and "\<And>w'. core (db w') = core (db w) \<Longrightarrow> Q (Inr ()) w'"
  shows "wp (notify h x) Q w"
proof (cases h)
  case None
  then show ?thesis using assms(2) by (simp add: notify_def)
next
  case (Some f)
  then have "collaborator f" using assms(1) by (simp add: neutral_opt_def)
  then show ?thesis using Some assms(2) by (simp add: notify_def collaborator.wp_call)
qed

lemma neutral_opt_None [simp]: "neutral_opt None"
  by (simp add: neutral_opt_def)

section \<open>Transactions\<close>

definition rollback :: "world \<Rightarrow> world \<Rightarrow> world" where
  "rollback w w' = w'\<lparr>db := db w, in_tx := in_tx w, aborted := aborted w\<rparr>"

text \<open>
  \<open>Transactor.WithinTx\<close>: begin, run, roll back on an error, commit otherwise. The variables a
  closure captures and assigns are the value it returns here.
\<close>

definition WithinTx :: "'a op \<Rightarrow> 'a op" where
  "WithinTx fn = State (\<lambda>w.
     if fault w (tick w) then (Inl (wrap ''transactor: begin'' DbFault), advance w)
     else (case run_state fn ((advance w)\<lparr>in_tx := True, aborted := False\<rparr>) of
             (Inl e, w') \<Rightarrow> (Inl e, rollback w w')
           | (Inr x, w') \<Rightarrow>
               if stmt_fails w' then (Inl (wrap ''transactor: commit'' DbFault), rollback w (advance w'))
               else (Inr x, (advance w')\<lparr>in_tx := in_tx w, aborted := aborted w\<rparr>)))"

definition NoopWithinTx :: "'a op \<Rightarrow> 'a op" where
  "NoopWithinTx fn = fn"

lemma wp_WithinTx:
  "wp (WithinTx fn) Q w =
     (if fault w (tick w) then Q (Inl (wrap ''transactor: begin'' DbFault)) (advance w)
      else wp fn (\<lambda>r w'. case r of
             Inl e \<Rightarrow> Q (Inl e) (rollback w w')
           | Inr x \<Rightarrow> (if stmt_fails w' then Q (Inl (wrap ''transactor: commit'' DbFault)) (rollback w (advance w'))
                     else Q (Inr x) ((advance w')\<lparr>in_tx := in_tx w, aborted := aborted w\<rparr>)))
           ((advance w)\<lparr>in_tx := True, aborted := False\<rparr>))"
  by (simp add: WithinTx_def wp_State wp_def split: prod.splits sum.splits)

text \<open>What the users of a unit of work rely on: an error leaves no trace in the tables.\<close>

locale transactor =
  fixes withinTx :: "'a op \<Rightarrow> 'a op"
  assumes atomic: "run_state (withinTx fn) w = (Inl e, w') \<Longrightarrow> db w' = db w"
begin

lemma all_or_nothing:
  assumes "run_state (withinTx fn) w = (r, w')" and "db w' \<noteq> db w"
  shows "\<exists>x. r = Inr x"
  using assms atomic by (cases r) blast+

text \<open>A client that reports the error of the unit of work and otherwise only does what cannot fail.\<close>

lemma unit_of_work:
  assumes "\<And>x v. wp (after x) (\<lambda>r _. \<exists>y. r = Inr y) v"
    and "run_state (do { r \<leftarrow> withinTx fn; (case r of Inl e \<Rightarrow> fail e | Inr x \<Rightarrow> after x) }) w = (Inl e', w')"
  shows "db w' = db w"
proof -
  obtain r v where fn: "run_state (withinTx fn) w = (r, v)" by (metis surj_pair)
  show ?thesis
  proof (cases r)
    case (Inl e)
    then show ?thesis using assms(2) fn atomic [of fn w e v] by simp
  next
    case (Inr x)
    then have "run_state (after x) v = (Inl e', w')" using assms(2) fn by simp
    from wpD [OF this assms(1)] show ?thesis by simp
  qed
qed

end

lemma rollback_simps [simp]:
  "db (rollback w w') = db w" "in_tx (rollback w w') = in_tx w" "aborted (rollback w w') = aborted w"
  by (simp_all add: rollback_def)

interpretation pgtx: transactor WithinTx
proof
  fix fn :: "'a op" and w e w'
  assume "run_state (WithinTx fn) w = (Inl e, w')"
  then show "db w' = db w"
    by (auto simp: WithinTx_def split: if_splits prod.splits sum.splits)
qed

lemma keeps_WithinTx [keeps_intros]:
  assumes "keeps I fn"
  shows "keeps I (WithinTx fn)"
proof (rule keepsI)
  fix w :: world
  assume I: "I (db w)"
  have "wp fn (\<lambda>_ w'. I (db w')) ((advance w)\<lparr>in_tx := True, aborted := False\<rparr>)"
    using assms I by (simp add: keeps_def)
  then show "wp (WithinTx fn) (\<lambda>_ w'. I (db w')) w"
    unfolding wp_WithinTx using I by (auto elim!: wp_mono split: sum.splits)
qed

section \<open>The in-process event bus\<close>

text \<open>\<open>eventbus.NoopBus\<close>: it records the event and runs the subscribers, dropping their errors.\<close>

fun run_handlers :: "(Event \<Rightarrow> unit op) list \<Rightarrow> Event \<Rightarrow> unit op" where
  "run_handlers [] e = ok ()"
| "run_handlers (h # hs) e = do { _ \<leftarrow> h e; run_handlers hs e }"

definition record_event :: "Event \<Rightarrow> unit op" where
  "record_event e = State (\<lambda>w. (Inr (), w\<lparr>bus_log := bus_log w @ [e]\<rparr>))"

definition NoopBus_Publish :: "bool \<Rightarrow> (Event \<Rightarrow> unit op) list \<Rightarrow> Event \<Rightarrow> unit op" where
  "NoopBus_Publish recorded handlers e = do {
     _ \<leftarrow> (if recorded then record_event e else ok ());
     run_handlers handlers e }"

lemma wp_record_event [simp]: "wp (record_event e) Q w = Q (Inr ()) (w\<lparr>bus_log := bus_log w @ [e]\<rparr>)"
  by (simp add: record_event_def wp_State)

interpretation noopbus: collaborator "NoopBus_Publish recorded []"
  by unfold_locales (simp add: NoopBus_Publish_def keeps_core_def)

text \<open>A bus never reports an error, whatever its subscribers do.\<close>

lemma run_handlers_ok: "wp (run_handlers hs e) (\<lambda>r _. r = Inr ()) w"
proof (induction hs arbitrary: w)
  case (Cons h hs)
  then show ?case by (simp add: wp_def split: prod.splits)
qed simp

lemma NoopBus_Publish_ok: "wp (NoopBus_Publish recorded hs e) (\<lambda>r _. r = Inr ()) w"
  by (simp add: NoopBus_Publish_def run_handlers_ok)

section \<open>The audit recorder\<close>

text \<open>
  \<open>postgres/audit_repo.go\<close> appends one row; callers hold an optional recorder and drop its error.
\<close>

definition AuditRecord :: "AuditEntry \<Rightarrow> unit op" where
  "AuditRecord a = db_exec (\<lambda>d. ((), d\<lparr>audit_log := audit_log d @ [a]\<rparr>))"

interpretation audit: collaborator AuditRecord
  by unfold_locales (simp add: AuditRecord_def keeps_core_def core_def)

end
