(* ===== verification/NamespaceRepo.thy ===== *)
theory NamespaceRepo
  imports World
begin

text \<open>
  \<open>internal/adapters/postgres/namespace_repo.go\<close>: the namespace and membership tables. Both
  \<open>Save\<close> methods are upserts on the table's unique key (the slug; the namespace and user),
  not on the id. The interpretations of \<open>keyed_rows\<close> give the clients the unique-key facts.
\<close>

section \<open>Namespaces\<close>

definition NamespaceRepo_FindByID :: "int \<Rightarrow> Namespace option op" where
  "NamespaceRepo_FindByID i = query_row (\<lambda>d. find (\<lambda>n. ns_ID n = i) (namespaces d))"

definition NamespaceRepo_FindByIDs :: "int list \<Rightarrow> Namespace list op" where
  "NamespaceRepo_FindByIDs is = db_query (\<lambda>d. filter (\<lambda>n. ns_ID n \<in> set is) (namespaces d))"

definition NamespaceRepo_FindBySlug :: "string \<Rightarrow> Namespace option op" where
  "NamespaceRepo_FindBySlug slug = query_row (\<lambda>d. find (\<lambda>n. ns_Slug n = slug) (namespaces d))"

text \<open>\<open>ORDER BY created_at DESC\<close>.\<close>

definition NamespaceRepo_FindByStatus :: "string \<Rightarrow> Namespace list op" where
  "NamespaceRepo_FindByStatus status = db_query (\<lambda>d.
     order_desc ns_CreatedAt (filter (\<lambda>n. ns_Status n = status) (namespaces d)))"

text \<open>The \<open>SET\<close> list of the upsert: neither the slug, nor the creator, nor the creation time.\<close>

definition ns_merge :: "Namespace \<Rightarrow> Namespace \<Rightarrow> Namespace" where
  "ns_merge new old = old\<lparr> ns_DisplayName := ns_DisplayName new, ns_Type := ns_Type new,
     ns_Description := ns_Description new, ns_AvatarURL := ns_AvatarURL new,
     ns_Status := ns_Status new, ns_UpdatedAt := ns_UpdatedAt new \<rparr>"

interpretation nst: keyed_rows ns_Slug ns_merge
  by unfold_locales (simp add: ns_merge_def)

text \<open>The row the statement is given: timestamps filled in, the id from the sequence.\<close>

definition ns_row :: "Namespace \<Rightarrow> time \<Rightarrow> int \<Rightarrow> Namespace" where
  "ns_row n t i = n\<lparr> ns_CreatedAt := (if IsZero (ns_CreatedAt n) then t else ns_CreatedAt n),
     ns_UpdatedAt := t, ns_ID := i \<rparr>"

definition NamespaceRepo_Save :: "Namespace \<Rightarrow> Namespace op" where
  "NamespaceRepo_Save n = do {
     t \<leftarrow> now;
     db_insert ''namespace_id_seq'' (\<lambda>i d.
       Inr (nst.stored (ns_row n t i) (namespaces d),
            d\<lparr>namespaces := nst.save (ns_row n t i) (namespaces d)\<rparr>)) }"

definition NamespaceRepo_Delete :: "int \<Rightarrow> unit op" where
  "NamespaceRepo_Delete i = db_exec (\<lambda>d. ((), d\<lparr>namespaces := delete_where (\<lambda>n. ns_ID n = i) (namespaces d)\<rparr>))"

section \<open>Members\<close>

definition nm_key :: "NamespaceMember \<Rightarrow> int \<times> string" where
  "nm_key m = (nm_NamespaceID m, nm_UserID m)"

definition nm_merge :: "NamespaceMember \<Rightarrow> NamespaceMember \<Rightarrow> NamespaceMember" where
  "nm_merge new old = old\<lparr> nm_Role := nm_Role new, nm_UpdatedAt := nm_UpdatedAt new \<rparr>"

interpretation nmt: keyed_rows nm_key nm_merge
  by unfold_locales (simp add: nm_key_def nm_merge_def)

definition nm_row :: "NamespaceMember \<Rightarrow> time \<Rightarrow> int \<Rightarrow> NamespaceMember" where
  "nm_row m t i = m\<lparr> nm_CreatedAt := (if IsZero (nm_CreatedAt m) then t else nm_CreatedAt m),
     nm_UpdatedAt := t, nm_ID := i \<rparr>"

definition MemberRepo_Save :: "NamespaceMember \<Rightarrow> NamespaceMember op" where
  "MemberRepo_Save m = do {
     t \<leftarrow> now;
     db_insert ''namespace_member_id_seq'' (\<lambda>i d.
       Inr (nmt.stored (nm_row m t i) (members d),
            d\<lparr>members := nmt.save (nm_row m t i) (members d)\<rparr>)) }"

definition MemberRepo_FindByNamespaceAndUser :: "int \<Rightarrow> string \<Rightarrow> NamespaceMember option op" where
  "MemberRepo_FindByNamespaceAndUser nsID user = query_row (\<lambda>d. find (\<lambda>m. nm_key m = (nsID, user)) (members d))"

definition MemberRepo_FindByUserID :: "string \<Rightarrow> NamespaceMember list op" where
  "MemberRepo_FindByUserID user = db_query (\<lambda>d. filter (\<lambda>m. nm_UserID m = user) (members d))"

definition MemberRepo_FindByNamespaceID :: "int \<Rightarrow> NamespaceMember list op" where
  "MemberRepo_FindByNamespaceID nsID = db_query (\<lambda>d. filter (\<lambda>m. nm_NamespaceID m = nsID) (members d))"

definition MemberRepo_FindByNamespaceIDAndRoles :: "int \<Rightarrow> string list \<Rightarrow> NamespaceMember list op" where
  "MemberRepo_FindByNamespaceIDAndRoles nsID roles =
     db_query (\<lambda>d. filter (\<lambda>m. nm_NamespaceID m = nsID \<and> nm_Role m \<in> set roles) (members d))"

definition MemberRepo_DeleteByNamespaceAndUser :: "int \<Rightarrow> string \<Rightarrow> unit op" where
  "MemberRepo_DeleteByNamespaceAndUser nsID user =
     db_exec (\<lambda>d. ((), d\<lparr>members := delete_where (\<lambda>m. nm_key m = (nsID, user)) (members d)\<rparr>))"

definition MemberRepo_DeleteByNamespaceID :: "int \<Rightarrow> unit op" where
  "MemberRepo_DeleteByNamespaceID nsID =
     db_exec (\<lambda>d. ((), d\<lparr>members := delete_where (\<lambda>m. nm_NamespaceID m = nsID) (members d)\<rparr>))"

lemmas namespace_repo_defs =
  NamespaceRepo_FindByID_def NamespaceRepo_FindByIDs_def NamespaceRepo_FindBySlug_def
  NamespaceRepo_FindByStatus_def NamespaceRepo_Delete_def
  MemberRepo_FindByNamespaceAndUser_def MemberRepo_FindByUserID_def MemberRepo_FindByNamespaceID_def
  MemberRepo_FindByNamespaceIDAndRoles_def MemberRepo_DeleteByNamespaceAndUser_def MemberRepo_DeleteByNamespaceID_def

lemma nst_stored_simps [simp]:
  "ns_Slug (nst.stored n rs) = ns_Slug n" "ns_DisplayName (nst.stored n rs) = ns_DisplayName n"
  "ns_Type (nst.stored n rs) = ns_Type n" "ns_Description (nst.stored n rs) = ns_Description n"
  "ns_AvatarURL (nst.stored n rs) = ns_AvatarURL n" "ns_Status (nst.stored n rs) = ns_Status n"
  by (simp add: nst.key_stored, (rule nst.stored_field, simp add: ns_merge_def)+)

lemma nmt_stored_simps [simp]:
  "nm_key (nmt.stored m rs) = nm_key m" "nm_Role (nmt.stored m rs) = nm_Role m"
  "nm_NamespaceID (nmt.stored m rs) = nm_NamespaceID m" "nm_UserID (nmt.stored m rs) = nm_UserID m"
  using nmt.key_stored [of m rs] nmt.stored_field [of nm_Role m rs] by (simp_all add: nm_merge_def nm_key_def)

lemma ns_row_simps [simp]:
  "ns_Slug (ns_row n t i) = ns_Slug n" "ns_DisplayName (ns_row n t i) = ns_DisplayName n"
  "ns_Type (ns_row n t i) = ns_Type n" "ns_Description (ns_row n t i) = ns_Description n"
  "ns_AvatarURL (ns_row n t i) = ns_AvatarURL n" "ns_Status (ns_row n t i) = ns_Status n"
  "ns_CreatedBy (ns_row n t i) = ns_CreatedBy n" "ns_ID (ns_row n t i) = i"
  by (simp_all add: ns_row_def)

lemma nm_row_simps [simp]:
  "nm_NamespaceID (nm_row m t i) = nm_NamespaceID m" "nm_UserID (nm_row m t i) = nm_UserID m"
  "nm_Role (nm_row m t i) = nm_Role m" "nm_key (nm_row m t i) = nm_key m" "nm_ID (nm_row m t i) = i"
  by (simp_all add: nm_row_def nm_key_def)

lemma wp_NamespaceRepo_Save [simp]:
  "wp (NamespaceRepo_Save n) Q w =
     (if stmt_fails (advance w) then Q (Inl DbFault) (fail_stmt (advance w))
      else (let r = ns_row n (clock w (tick w)) (next_id ''namespace_id_seq'' w) in
        Q (Inr (nst.stored r (namespaces (db w))))
          (set_db ((db w)\<lparr>namespaces := nst.save r (namespaces (db w))\<rparr>)
             (advance (take_id ''namespace_id_seq'' (advance w))))))"
  by (simp add: NamespaceRepo_Save_def Let_def)

lemma wp_MemberRepo_Save [simp]:
  "wp (MemberRepo_Save m) Q w =
     (if stmt_fails (advance w) then Q (Inl DbFault) (fail_stmt (advance w))
      else (let r = nm_row m (clock w (tick w)) (next_id ''namespace_member_id_seq'' w) in
        Q (Inr (nmt.stored r (members (db w))))
          (set_db ((db w)\<lparr>members := nmt.save r (members (db w))\<rparr>)
             (advance (take_id ''namespace_member_id_seq'' (advance w))))))"
  by (simp add: MemberRepo_Save_def Let_def)

end
