(* ===== verification/Namespaces.thy ===== *)
theory Namespaces
  imports NamespaceRepo Slug
begin

text \<open>
  \<open>namespace/access.go\<close>, \<open>namespace/governance.go\<close> and \<open>namespace/service.go\<close>: the pure access
  policy, the lifecycle transitions freeze, unfreeze, archive and restore, and the namespace
  operations create, update, read and delete. The lifecycle is proved to implement the policy.
\<close>

section \<open>Access policy\<close>

definition IsImmutable :: "Namespace \<Rightarrow> bool" where
  "IsImmutable ns \<longleftrightarrow> ns_Type ns = ''GLOBAL''"

definition CanMutateSettings :: "Namespace \<Rightarrow> bool" where
  "CanMutateSettings ns \<longleftrightarrow> ns_Type ns = ''TEAM'' \<and> ns_Status ns = ''ACTIVE''"

definition CanManageMembers :: "Namespace \<Rightarrow> bool" where
  "CanManageMembers ns = CanMutateSettings ns"

definition CanTransferOwnership :: "Namespace \<Rightarrow> bool" where
  "CanTransferOwnership ns = CanMutateSettings ns"

definition CanFreeze :: "Namespace \<Rightarrow> string \<Rightarrow> bool" where
  "CanFreeze ns role \<longleftrightarrow> ns_Type ns = ''TEAM'' \<and> ns_Status ns = ''ACTIVE'' \<and> (role = ''OWNER'' \<or> role = ''ADMIN'')"

definition CanUnfreeze :: "Namespace \<Rightarrow> string \<Rightarrow> bool" where
  "CanUnfreeze ns role \<longleftrightarrow> ns_Type ns = ''TEAM'' \<and> ns_Status ns = ''FROZEN'' \<and> (role = ''OWNER'' \<or> role = ''ADMIN'')"

definition CanArchive :: "Namespace \<Rightarrow> string \<Rightarrow> bool" where
  "CanArchive ns role \<longleftrightarrow> ns_Type ns = ''TEAM'' \<and> ns_Status ns \<noteq> ''ARCHIVED'' \<and> role = ''OWNER''"

definition CanRestore :: "Namespace \<Rightarrow> string \<Rightarrow> bool" where
  "CanRestore ns role \<longleftrightarrow> ns_Type ns = ''TEAM'' \<and> ns_Status ns = ''ARCHIVED'' \<and> role = ''OWNER''"

definition CanDelete :: "Namespace \<Rightarrow> string \<Rightarrow> bool" where
  "CanDelete ns role \<longleftrightarrow> ns_Type ns = ''TEAM'' \<and> role = ''OWNER''"

section \<open>Lifecycle\<close>

text \<open>\<open>fmt.Errorf("namespace: %s", code)\<close>.\<close>

abbreviation nsErr :: "string \<Rightarrow> err" where
  "nsErr code \<equiv> Errorf ''namespace: %s'' [AStr code]"

text \<open>\<open>_ = s.audit.Record(ctx, user, action, "namespace", id, "")\<close>, when a recorder is set.\<close>

abbreviation ns_audit :: "string \<Rightarrow> string \<Rightarrow> Namespace \<Rightarrow> AuditEntry" where
  "ns_audit user action saved \<equiv>
     \<lparr>au_UserID = user, au_Action = action, au_ResourceType = ''namespace'', au_ResourceID = ns_ID saved, au_Detail = []\<rparr>"

definition Freeze :: "(AuditEntry \<Rightarrow> unit op) option \<Rightarrow> int \<Rightarrow> string \<Rightarrow> Namespace op" where
  "Freeze audit NamespaceID CallerUserID = do {
     r \<leftarrow> NamespaceRepo_FindByID NamespaceID;
     (case r of
       Inl e \<Rightarrow> fail (wrap ''namespace: find'' e)
     | Inr None \<Rightarrow> fail (nsErr ''namespace.not_found'')
     | Inr (Some ns) \<Rightarrow>
       if IsImmutable ns then fail (nsErr ''namespace.immutable'')
       else if ns_Status ns \<noteq> ''ACTIVE'' then
         (if ns_Status ns = ''FROZEN'' then fail (nsErr ''namespace.already_frozen'')
          else fail (nsErr ''namespace.not_active''))
       else do {
         r \<leftarrow> MemberRepo_FindByNamespaceAndUser NamespaceID CallerUserID;
         (case r of
           Inl e \<Rightarrow> fail (wrap ''namespace: find member'' e)
         | Inr None \<Rightarrow> fail (nsErr ''namespace.forbidden'')
         | Inr (Some member) \<Rightarrow>
           if nm_Role member \<noteq> ''OWNER'' \<and> nm_Role member \<noteq> ''ADMIN'' then fail (nsErr ''namespace.forbidden'')
           else do {
             t \<leftarrow> now;
             r \<leftarrow> NamespaceRepo_Save (ns\<lparr>ns_Status := ''FROZEN'', ns_UpdatedAt := t\<rparr>);
             (case r of
               Inl e \<Rightarrow> fail (wrap ''namespace: save'' e)
             | Inr saved \<Rightarrow> do { _ \<leftarrow> notify audit (ns_audit CallerUserID ''freeze'' saved); ok saved }) }) }) }"

definition Unfreeze :: "(AuditEntry \<Rightarrow> unit op) option \<Rightarrow> int \<Rightarrow> string \<Rightarrow> Namespace op" where
  "Unfreeze audit NamespaceID CallerUserID = do {
     r \<leftarrow> NamespaceRepo_FindByID NamespaceID;
     (case r of
       Inl e \<Rightarrow> fail (wrap ''namespace: find'' e)
     | Inr None \<Rightarrow> fail (nsErr ''namespace.not_found'')
     | Inr (Some ns) \<Rightarrow>
       if IsImmutable ns then fail (nsErr ''namespace.immutable'')
       else if ns_Status ns \<noteq> ''FROZEN'' then fail (nsErr ''namespace.not_frozen'')
       else do {
         r \<leftarrow> MemberRepo_FindByNamespaceAndUser NamespaceID CallerUserID;
         (case r of
           Inl e \<Rightarrow> fail (wrap ''namespace: find member'' e)
         | Inr None \<Rightarrow> fail (nsErr ''namespace.forbidden'')
         | Inr (Some member) \<Rightarrow>
           if nm_Role member \<noteq> ''OWNER'' \<and> nm_Role member \<noteq> ''ADMIN'' then fail (nsErr ''namespace.forbidden'')
           else do {
             t \<leftarrow> now;
             r \<leftarrow> NamespaceRepo_Save (ns\<lparr>ns_Status := ''ACTIVE'', ns_UpdatedAt := t\<rparr>);
             (case r of
               Inl e \<Rightarrow> fail (wrap ''namespace: save'' e)
             | Inr saved \<Rightarrow> do { _ \<leftarrow> notify audit (ns_audit CallerUserID ''unfreeze'' saved); ok saved }) }) }) }"

definition Archive :: "(AuditEntry \<Rightarrow> unit op) option \<Rightarrow> int \<Rightarrow> string \<Rightarrow> Namespace op" where
  "Archive audit NamespaceID CallerUserID = do {
     r \<leftarrow> NamespaceRepo_FindByID NamespaceID;
     (case r of
       Inl e \<Rightarrow> fail (wrap ''namespace: find'' e)
     | Inr None \<Rightarrow> fail (nsErr ''namespace.not_found'')
     | Inr (Some ns) \<Rightarrow>
       if IsImmutable ns then fail (nsErr ''namespace.immutable'')
       else if ns_Status ns = ''ARCHIVED'' then fail (nsErr ''namespace.already_archived'')
       else do {
         r \<leftarrow> MemberRepo_FindByNamespaceAndUser NamespaceID CallerUserID;
         (case r of
           Inl e \<Rightarrow> fail (wrap ''namespace: find member'' e)
         | Inr None \<Rightarrow> fail (nsErr ''namespace.forbidden'')
         | Inr (Some member) \<Rightarrow>
           if nm_Role member \<noteq> ''OWNER'' then fail (nsErr ''namespace.forbidden'')
           else do {
             t \<leftarrow> now;
             r \<leftarrow> NamespaceRepo_Save (ns\<lparr>ns_Status := ''ARCHIVED'', ns_UpdatedAt := t\<rparr>);
             (case r of
               Inl e \<Rightarrow> fail (wrap ''namespace: save'' e)
             | Inr saved \<Rightarrow> do { _ \<leftarrow> notify audit (ns_audit CallerUserID ''archive'' saved); ok saved }) }) }) }"

definition Restore :: "(AuditEntry \<Rightarrow> unit op) option \<Rightarrow> int \<Rightarrow> string \<Rightarrow> Namespace op" where
  "Restore audit NamespaceID CallerUserID = do {
     r \<leftarrow> NamespaceRepo_FindByID NamespaceID;
     (case r of
       Inl e \<Rightarrow> fail (wrap ''namespace: find'' e)
     | Inr None \<Rightarrow> fail (nsErr ''namespace.not_found'')
     | Inr (Some ns) \<Rightarrow>
       if IsImmutable ns then fail (nsErr ''namespace.immutable'')
       else if ns_Status ns \<noteq> ''ARCHIVED'' then fail (nsErr ''namespace.not_archived'')
       else do {
         r \<leftarrow> MemberRepo_FindByNamespaceAndUser NamespaceID CallerUserID;
         (case r of
           Inl e \<Rightarrow> fail (wrap ''namespace: find member'' e)
         | Inr None \<Rightarrow> fail (nsErr ''namespace.forbidden'')
         | Inr (Some member) \<Rightarrow>
           if nm_Role member \<noteq> ''OWNER'' then fail (nsErr ''namespace.forbidden'')
           else do {
             t \<leftarrow> now;
             r \<leftarrow> NamespaceRepo_Save (ns\<lparr>ns_Status := ''ACTIVE'', ns_UpdatedAt := t\<rparr>);
             (case r of
               Inl e \<Rightarrow> fail (wrap ''namespace: save'' e)
             | Inr saved \<Rightarrow> do { _ \<leftarrow> notify audit (ns_audit CallerUserID ''restore'' saved); ok saved }) }) }) }"

section \<open>Create, update, read, delete\<close>

definition ErrSlugAlreadyExists :: err where "ErrSlugAlreadyExists = Errs ''slug already exists''"
definition ErrNamespaceNotFound :: err where "ErrNamespaceNotFound = Errs ''namespace not found''"
definition ErrNotAuthorized :: err where "ErrNotAuthorized = Errs ''not authorized''"
definition ErrGlobalImmutable :: err where "ErrGlobalImmutable = Errs ''global namespace is immutable''"
definition ErrHasDependencies :: err where "ErrHasDependencies = Errs ''namespace has dependencies''"

record CreateNamespaceInput =
  ci_Slug :: string
  ci_DisplayName :: string
  ci_Type :: string
  ci_Description :: string
  ci_CreatedBy :: string

text \<open>The two structs \<open>Create\<close> builds.\<close>

definition new_namespace :: "CreateNamespaceInput \<Rightarrow> time \<Rightarrow> time \<Rightarrow> Namespace" where
  "new_namespace input t1 t2 =
     \<lparr> ns_ID = 0, ns_Slug = ci_Slug input, ns_DisplayName = ci_DisplayName input,
       ns_Type = (if ci_Type input = [] then ''TEAM'' else ci_Type input),
       ns_Description = ci_Description input, ns_AvatarURL = [], ns_Status = ''ACTIVE'',
       ns_CreatedBy = Some (ci_CreatedBy input), ns_CreatedAt = t1, ns_UpdatedAt = t2 \<rparr>"

definition new_member :: "int \<Rightarrow> string \<Rightarrow> string \<Rightarrow> time \<Rightarrow> time \<Rightarrow> NamespaceMember" where
  "new_member nsID user role t1 t2 =
     \<lparr> nm_ID = 0, nm_NamespaceID = nsID, nm_UserID = user, nm_Role = role, nm_CreatedAt = t1, nm_UpdatedAt = t2 \<rparr>"

definition Create :: "unicode \<Rightarrow> CreateNamespaceInput \<Rightarrow> Namespace op" where
  "Create uni input =
     (case Validate uni (ci_Slug input) of
       Some e \<Rightarrow> fail e
     | None \<Rightarrow> do {
         r \<leftarrow> NamespaceRepo_FindBySlug (ci_Slug input);
         (if (case r of Inr (Some _) \<Rightarrow> True | _ \<Rightarrow> False)
          then fail (Wrapf ''%w: %q'' [AStr (ci_Slug input)] ErrSlugAlreadyExists)
          else do {
            t1 \<leftarrow> now; t2 \<leftarrow> now;
            r \<leftarrow> NamespaceRepo_Save (new_namespace input t1 t2);
            (case r of
              Inl e \<Rightarrow> fail (wrap ''create namespace'' e)
            | Inr saved \<Rightarrow> do {
                t3 \<leftarrow> now; t4 \<leftarrow> now;
                r \<leftarrow> MemberRepo_Save (new_member (ns_ID saved) (ci_CreatedBy input) ''OWNER'' t3 t4);
                (case r of
                  Inl e \<Rightarrow> fail (wrap ''create namespace: add owner'' e)
                | Inr _ \<Rightarrow> ok saved) }) }) })"

definition ensureNotGlobal :: "Namespace \<Rightarrow> err option" where
  "ensureNotGlobal ns = (if ns_Slug ns = ''global'' then Some ErrGlobalImmutable else None)"

definition requireRole :: "int \<Rightarrow> string \<Rightarrow> string list \<Rightarrow> NamespaceMember op" where
  "requireRole namespaceID userID minRoles = do {
     r \<leftarrow> MemberRepo_FindByNamespaceAndUser namespaceID userID;
     (case r of
       Inl _ \<Rightarrow> fail ErrNotAuthorized
     | Inr None \<Rightarrow> fail ErrNotAuthorized
     | Inr (Some member) \<Rightarrow>
         if list_ex (\<lambda>role. nm_Role member = role) minRoles then ok member else fail ErrNotAuthorized) }"

record UpdateNamespaceInput =
  ui_DisplayName :: string
  ui_Description :: string
  ui_AvatarURL :: string

definition apply_update :: "UpdateNamespaceInput \<Rightarrow> Namespace \<Rightarrow> Namespace" where
  "apply_update input ns = ns\<lparr>
     ns_DisplayName := (if ui_DisplayName input \<noteq> [] then ui_DisplayName input else ns_DisplayName ns),
     ns_Description := (if ui_Description input \<noteq> [] then ui_Description input else ns_Description ns),
     ns_AvatarURL := (if ui_AvatarURL input \<noteq> [] then ui_AvatarURL input else ns_AvatarURL ns) \<rparr>"

definition Update :: "int \<Rightarrow> string \<Rightarrow> UpdateNamespaceInput \<Rightarrow> Namespace op" where
  "Update namespaceID userID input = do {
     r \<leftarrow> NamespaceRepo_FindByID namespaceID;
     (case r of
       Inl _ \<Rightarrow> fail ErrNamespaceNotFound
     | Inr None \<Rightarrow> fail ErrNamespaceNotFound
     | Inr (Some ns) \<Rightarrow>
       (case ensureNotGlobal ns of
         Some e \<Rightarrow> fail e
       | None \<Rightarrow> do {
           r \<leftarrow> requireRole namespaceID userID [''OWNER'', ''ADMIN''];
           (case r of
             Inl e \<Rightarrow> fail e
           | Inr _ \<Rightarrow> do {
               t \<leftarrow> now;
               r \<leftarrow> NamespaceRepo_Save ((apply_update input ns)\<lparr>ns_UpdatedAt := t\<rparr>);
               (case r of
                 Inl e \<Rightarrow> fail (wrap ''update namespace'' e)
               | Inr saved \<Rightarrow> ok saved) }) })) }"

definition ListActive :: "Namespace list op" where
  "ListActive = do {
     r \<leftarrow> NamespaceRepo_FindByStatus ''ACTIVE'';
     (case r of Inl e \<Rightarrow> fail (wrap ''list namespaces'' e) | Inr ns \<Rightarrow> ok ns) }"

definition GetBySlug :: "string \<Rightarrow> Namespace op" where
  "GetBySlug slug = do {
     r \<leftarrow> NamespaceRepo_FindBySlug slug;
     (case r of Inr (Some ns) \<Rightarrow> ok ns | _ \<Rightarrow> fail ErrNamespaceNotFound) }"

definition GetBySlugForRead :: "string \<Rightarrow> string \<Rightarrow> Namespace op" where
  "GetBySlugForRead slug userID = do {
     r \<leftarrow> NamespaceRepo_FindBySlug slug;
     (case r of
       Inl _ \<Rightarrow> fail ErrNamespaceNotFound
     | Inr None \<Rightarrow> fail ErrNamespaceNotFound
     | Inr (Some ns) \<Rightarrow>
         if ns_Status ns = ''ARCHIVED'' then do {
           r \<leftarrow> MemberRepo_FindByNamespaceAndUser (ns_ID ns) userID;
           (case r of
             Inl _ \<Rightarrow> fail ErrNamespaceNotFound
           | Inr None \<Rightarrow> fail ErrNamespaceNotFound
           | Inr (Some _) \<Rightarrow> ok ns) }
         else ok ns) }"

definition GetByID :: "int \<Rightarrow> Namespace op" where
  "GetByID i = do {
     r \<leftarrow> NamespaceRepo_FindByID i;
     (case r of
       Inl _ \<Rightarrow> fail ErrNamespaceNotFound
     | Inr None \<Rightarrow> fail ErrNamespaceNotFound
     | Inr (Some ns) \<Rightarrow> ok ns) }"

text \<open>
  The dependency checkers of \<open>Delete\<close>: each is an optional \<open>ExistsByNamespaceID\<close>, asked in
  order; the first error or dependency stops the deletion.
\<close>

fun check_dependencies :: "(string \<times> (int \<Rightarrow> bool op) option) list \<Rightarrow> int \<Rightarrow> unit op" where
  "check_dependencies [] namespaceID = ok ()"
| "check_dependencies ((what, None) # cs) namespaceID = check_dependencies cs namespaceID"
| "check_dependencies ((what, Some exists) # cs) namespaceID = do {
     r \<leftarrow> exists namespaceID;
     (case r of
       Inl e \<Rightarrow> fail (wrap what e)
     | Inr has \<Rightarrow> if has then fail ErrHasDependencies else check_dependencies cs namespaceID) }"

definition Delete :: "(int \<Rightarrow> bool op) option \<Rightarrow> (int \<Rightarrow> bool op) option \<Rightarrow> (int \<Rightarrow> bool op) option
    \<Rightarrow> int \<Rightarrow> string \<Rightarrow> unit op" where
  "Delete skillChecker reviewChecker promotionChecker namespaceID userID = do {
     r \<leftarrow> NamespaceRepo_FindByID namespaceID;
     (case r of
       Inl _ \<Rightarrow> fail ErrNamespaceNotFound
     | Inr None \<Rightarrow> fail ErrNamespaceNotFound
     | Inr (Some ns) \<Rightarrow>
       (case ensureNotGlobal ns of
         Some e \<Rightarrow> fail e
       | None \<Rightarrow> do {
           r \<leftarrow> requireRole namespaceID userID [''OWNER''];
           (case r of
             Inl e \<Rightarrow> fail e
           | Inr _ \<Rightarrow> do {
               r \<leftarrow> check_dependencies
                 [(''delete namespace: check skills'', skillChecker),
                  (''delete namespace: check reviews'', reviewChecker),
                  (''delete namespace: check promotions'', promotionChecker)] namespaceID;
               (case r of
                 Inl e \<Rightarrow> fail e
               | Inr _ \<Rightarrow> do {
                   r \<leftarrow> MemberRepo_DeleteByNamespaceID namespaceID;
                   (case r of
                     Inl e \<Rightarrow> fail (wrap ''delete namespace: remove members'' e)
                   | Inr _ \<Rightarrow> do {
                       r \<leftarrow> NamespaceRepo_Delete namespaceID;
                       (case r of
                         Inl e \<Rightarrow> fail (wrap ''delete namespace'' e)
                       | Inr _ \<Rightarrow> ok ()) }) }) }) })) }"

section \<open>The lifecycle implements the access policy\<close>

datatype GovAction = AFreeze | AUnfreeze | AArchive | ARestore

fun govern :: "GovAction \<Rightarrow> (AuditEntry \<Rightarrow> unit op) option \<Rightarrow> int \<Rightarrow> string \<Rightarrow> Namespace op" where
  "govern AFreeze = Freeze"
| "govern AUnfreeze = Unfreeze"
| "govern AArchive = Archive"
| "govern ARestore = Restore"

fun gov_allowed :: "GovAction \<Rightarrow> Namespace \<Rightarrow> string \<Rightarrow> bool" where
  "gov_allowed AFreeze = CanFreeze"
| "gov_allowed AUnfreeze = CanUnfreeze"
| "gov_allowed AArchive = CanArchive"
| "gov_allowed ARestore = CanRestore"

fun gov_target :: "GovAction \<Rightarrow> string" where
  "gov_target AFreeze = ''FROZEN''"
| "gov_target AUnfreeze = ''ACTIVE''"
| "gov_target AArchive = ''ARCHIVED''"
| "gov_target ARestore = ''ACTIVE''"

lemmas policy_defs = CanFreeze_def CanUnfreeze_def CanArchive_def CanRestore_def IsImmutable_def
  CanMutateSettings_def CanManageMembers_def CanTransferOwnership_def CanDelete_def

lemmas governance_defs = Freeze_def Unfreeze_def Archive_def Restore_def

text \<open>Saving a row read from the table with another status changes that row only.\<close>

lemma ns_save_status:
  assumes "nst.unique rs" and "ns \<in> set rs"
  shows "nst.save (ns_row (ns\<lparr>ns_Status := st, ns_UpdatedAt := t0\<rparr>) t i) rs =
      update_where (\<lambda>n. ns_Slug n = ns_Slug ns) (\<lambda>_. ns\<lparr>ns_Status := st, ns_UpdatedAt := t\<rparr>) rs"
    and "nst.stored (ns_row (ns\<lparr>ns_Status := st, ns_UpdatedAt := t0\<rparr>) t i) rs = ns\<lparr>ns_Status := st, ns_UpdatedAt := t\<rparr>"
  using assms by (simp_all add: nst.save_existing nst.stored_existing ns_merge_def ns_row_def)

definition gov_effect :: "GovAction \<Rightarrow> Namespace \<Rightarrow> database \<Rightarrow> Namespace \<Rightarrow> database \<Rightarrow> bool" where
  "gov_effect act ns d ns' d' \<longleftrightarrow> (\<exists>t. ns' = ns\<lparr>ns_Status := gov_target act, ns_UpdatedAt := t\<rparr>)
     \<and> core d' = core (d\<lparr>namespaces := update_where (\<lambda>n. ns_Slug n = ns_Slug ns) (\<lambda>_. ns') (namespaces d)\<rparr>)"

lemma govern_wp:
  assumes "healthy w" and "neutral_opt audit" and "nst.unique (namespaces (db w))"
    and "find (\<lambda>n. ns_ID n = i) (namespaces (db w)) = Some ns"
    and "ns_Type ns = ''TEAM'' \<or> ns_Type ns = ''GLOBAL''"
    and succ: "\<And>m ns' w'. find (\<lambda>m. nm_key m = (i, user)) (members (db w)) = Some m
       \<Longrightarrow> gov_allowed act ns (nm_Role m) \<Longrightarrow> gov_effect act ns (db w) ns' (db w') \<Longrightarrow> Q (Inr ns') w'"
    and err: "\<And>e w'. (\<And>m. find (\<lambda>m. nm_key m = (i, user)) (members (db w)) = Some m \<Longrightarrow> \<not> gov_allowed act ns (nm_Role m))
       \<Longrightarrow> db w' = db w \<Longrightarrow> Q (Inl e) w'"
  shows "wp (govern act audit i user) Q w"
proof -
  have ns: "ns \<in> set (namespaces (db w))" using assms(4) by (simp add: find_SomeD)
  note h = assms(1-5) ns
  show ?thesis
    using h
    by (cases act; cases "find (\<lambda>m. nm_key m = (i, user)) (members (db w))";
       simp add: governance_defs namespace_repo_defs ns_save_status Let_def;
       force intro!: wp_notify succ err simp: policy_defs gov_effect_def)
qed


definition demo_ns :: Namespace where
  "demo_ns = \<lparr> ns_ID = 7, ns_Slug = ''team'', ns_DisplayName = ''Team'', ns_Type = ''TEAM'', ns_Description = [],
     ns_AvatarURL = [], ns_Status = ''ACTIVE'', ns_CreatedBy = Some ''ann'', ns_CreatedAt = 1, ns_UpdatedAt = 1 \<rparr>"

definition demo_member :: "int \<Rightarrow> string \<Rightarrow> string \<Rightarrow> NamespaceMember" where
  "demo_member i user role = \<lparr> nm_ID = i, nm_NamespaceID = 7, nm_UserID = user, nm_Role = role, nm_CreatedAt = 1, nm_UpdatedAt = 1 \<rparr>"

definition demo_db :: database where
  "demo_db = empty_db\<lparr> namespaces := [demo_ns],
     members := [demo_member 1 ''ann'' ''OWNER'', demo_member 2 ''bob'' ''ADMIN'', demo_member 3 ''cy'' ''MEMBER''] \<rparr>"

lemma demo_simps [simp]:
  "namespaces demo_db = [demo_ns]" "ns_ID demo_ns = 7" "ns_Type demo_ns = ''TEAM''" "ns_Slug demo_ns = ''team''"
  "ns_Status demo_ns = ''ACTIVE''" "nm_key (demo_member i u r) = (7, u)" "nm_Role (demo_member i u r) = r"
  "nm_UserID (demo_member i u r) = u" "nm_NamespaceID (demo_member i u r) = 7"
  "members demo_db = [demo_member 1 ''ann'' ''OWNER'', demo_member 2 ''bob'' ''ADMIN'', demo_member 3 ''cy'' ''MEMBER'']"
  by (simp_all add: demo_db_def demo_ns_def demo_member_def nm_key_def)


end
