(* ===== verification/Members.thy ===== *)
theory Members
  imports Namespaces
begin

text \<open>
  \<open>namespace/members.go\<close>, \<open>global.go\<close>, \<open>merge_migrator.go\<close> and \<open>candidates.go\<close>: adding, removing and
  re-roling members, the transfer of ownership, batch additions, the automatic membership of
  the global namespace, the membership half of an account merge, and the candidate search.
  The central facts are about ownership: no member operation creates a second owner.
\<close>

section \<open>Member operations\<close>

text \<open>The caller of a member operation must hold OWNER or ADMIN.\<close>

abbreviation is_manager :: "NamespaceMember \<Rightarrow> bool" where
  "is_manager m \<equiv> nm_Role m = ''OWNER'' \<or> nm_Role m = ''ADMIN''"

record AddMemberInput =
  am_NamespaceID :: int
  am_UserID :: string
  am_Role :: string
  am_CallerUserID :: string

definition AddMember :: "AddMemberInput \<Rightarrow> NamespaceMember op" where
  "AddMember input =
     (if am_Role input = ''OWNER'' then fail (nsErr ''namespace.member.cannot_be_owner'')
      else do {
        r \<leftarrow> NamespaceRepo_FindByID (am_NamespaceID input);
        (case r of
          Inl e \<Rightarrow> fail (wrap ''namespace: find namespace'' e)
        | Inr None \<Rightarrow> fail (nsErr ''namespace.not_found'')
        | Inr (Some ns) \<Rightarrow>
          if \<not> CanManageMembers ns then fail (nsErr ''namespace.not_active'')
          else do {
            r \<leftarrow> MemberRepo_FindByNamespaceAndUser (am_NamespaceID input) (am_CallerUserID input);
            (case r of
              Inl e \<Rightarrow> fail (wrap ''namespace: find caller'' e)
            | Inr None \<Rightarrow> fail (nsErr ''namespace.forbidden'')
            | Inr (Some caller) \<Rightarrow>
              if \<not> is_manager caller then fail (nsErr ''namespace.forbidden'')
              else do {
                r \<leftarrow> MemberRepo_FindByNamespaceAndUser (am_NamespaceID input) (am_UserID input);
                (case r of
                  Inl e \<Rightarrow> fail (wrap ''namespace: check existing'' e)
                | Inr (Some _) \<Rightarrow> fail (nsErr ''namespace.member.already_exists'')
                | Inr None \<Rightarrow> do {
                    t \<leftarrow> now;
                    r \<leftarrow> MemberRepo_Save (new_member (am_NamespaceID input) (am_UserID input) (am_Role input) t t);
                    (case r of
                      Inl e \<Rightarrow> fail (wrap ''namespace: save member'' e)
                    | Inr saved \<Rightarrow> ok saved) }) }) }) })"

record RemoveMemberInput =
  rm_NamespaceID :: int
  rm_UserID :: string
  rm_CallerUserID :: string

definition RemoveMember :: "RemoveMemberInput \<Rightarrow> unit op" where
  "RemoveMember input = do {
     r \<leftarrow> NamespaceRepo_FindByID (rm_NamespaceID input);
     (case r of
       Inl e \<Rightarrow> fail (wrap ''namespace: find namespace'' e)
     | Inr None \<Rightarrow> fail (nsErr ''namespace.not_found'')
     | Inr (Some ns) \<Rightarrow>
       if \<not> CanManageMembers ns then fail (nsErr ''namespace.not_active'')
       else do {
         r \<leftarrow> MemberRepo_FindByNamespaceAndUser (rm_NamespaceID input) (rm_CallerUserID input);
         (case r of
           Inl e \<Rightarrow> fail (wrap ''namespace: find caller'' e)
         | Inr None \<Rightarrow> fail (nsErr ''namespace.forbidden'')
         | Inr (Some caller) \<Rightarrow>
           if \<not> is_manager caller then fail (nsErr ''namespace.forbidden'')
           else do {
             r \<leftarrow> MemberRepo_FindByNamespaceAndUser (rm_NamespaceID input) (rm_UserID input);
             (case r of
               Inl e \<Rightarrow> fail (wrap ''namespace: find target'' e)
             | Inr None \<Rightarrow> fail (nsErr ''namespace.member.not_found'')
             | Inr (Some target) \<Rightarrow>
               if nm_Role target = ''OWNER'' then fail (nsErr ''namespace.member.cannot_remove_owner'')
               else MemberRepo_DeleteByNamespaceAndUser (rm_NamespaceID input) (rm_UserID input)) }) }) }"

record UpdateMemberRoleInput =
  um_NamespaceID :: int
  um_UserID :: string
  um_NewRole :: string
  um_CallerUserID :: string

definition UpdateMemberRole :: "UpdateMemberRoleInput \<Rightarrow> NamespaceMember op" where
  "UpdateMemberRole input =
     (if um_NewRole input = ''OWNER'' then fail (nsErr ''namespace.member.cannot_be_owner'')
      else do {
        r \<leftarrow> NamespaceRepo_FindByID (um_NamespaceID input);
        (case r of
          Inl e \<Rightarrow> fail (wrap ''namespace: find namespace'' e)
        | Inr None \<Rightarrow> fail (nsErr ''namespace.not_found'')
        | Inr (Some ns) \<Rightarrow>
          if \<not> CanManageMembers ns then fail (nsErr ''namespace.not_active'')
          else do {
            r \<leftarrow> MemberRepo_FindByNamespaceAndUser (um_NamespaceID input) (um_CallerUserID input);
            (case r of
              Inl e \<Rightarrow> fail (wrap ''namespace: find caller'' e)
            | Inr None \<Rightarrow> fail (nsErr ''namespace.forbidden'')
            | Inr (Some caller) \<Rightarrow>
              if \<not> is_manager caller then fail (nsErr ''namespace.forbidden'')
              else do {
                r \<leftarrow> MemberRepo_FindByNamespaceAndUser (um_NamespaceID input) (um_UserID input);
                (case r of
                  Inl e \<Rightarrow> fail (wrap ''namespace: find target'' e)
                | Inr None \<Rightarrow> fail (nsErr ''namespace.member.not_found'')
                | Inr (Some target) \<Rightarrow>
                  if nm_Role target = ''OWNER'' then fail (nsErr ''namespace.member.cannot_remove_owner'')
                  else do {
                    t \<leftarrow> now;
                    r \<leftarrow> MemberRepo_Save (target\<lparr>nm_Role := um_NewRole input, nm_UpdatedAt := t\<rparr>);
                    (case r of
                      Inl e \<Rightarrow> fail (wrap ''namespace: save member'' e)
                    | Inr saved \<Rightarrow> ok saved) }) }) }) })"

record TransferOwnershipInput =
  to_NamespaceID :: int
  to_NewOwnerUserID :: string
  to_CurrentOwnerUserID :: string

text \<open>The closure \<open>writeFn\<close>: demote, then promote.\<close>

definition transfer_writes :: "NamespaceMember \<Rightarrow> NamespaceMember \<Rightarrow> unit op" where
  "transfer_writes demoted promoted = do {
     r \<leftarrow> MemberRepo_Save demoted;
     (case r of
       Inl e \<Rightarrow> fail (wrap ''namespace: demote owner'' e)
     | Inr _ \<Rightarrow> do {
         r \<leftarrow> MemberRepo_Save promoted;
         (case r of
           Inl e \<Rightarrow> fail (wrap ''namespace: promote owner'' e)
         | Inr _ \<Rightarrow> ok ()) }) }"

text \<open>The writes run in the transaction when the service has a \<open>Transactor\<close>, plainly otherwise.\<close>

definition transfer_unit :: "(unit op \<Rightarrow> unit op) option \<Rightarrow> NamespaceMember \<Rightarrow> NamespaceMember \<Rightarrow> unit op" where
  "transfer_unit tx demoted promoted =
     (case tx of Some withinTx \<Rightarrow> withinTx (transfer_writes demoted promoted)
      | None \<Rightarrow> transfer_writes demoted promoted)"

definition TransferOwnership :: "(unit op \<Rightarrow> unit op) option \<Rightarrow> TransferOwnershipInput \<Rightarrow> unit op" where
  "TransferOwnership tx input = do {
     r \<leftarrow> NamespaceRepo_FindByID (to_NamespaceID input);
     (case r of
       Inl e \<Rightarrow> fail (wrap ''namespace: find namespace'' e)
     | Inr None \<Rightarrow> fail (nsErr ''namespace.not_found'')
     | Inr (Some ns) \<Rightarrow>
       if \<not> CanTransferOwnership ns then fail (nsErr ''namespace.not_active'')
       else do {
         r \<leftarrow> MemberRepo_FindByNamespaceAndUser (to_NamespaceID input) (to_CurrentOwnerUserID input);
         (case r of
           Inl e \<Rightarrow> fail (wrap ''namespace: find current owner'' e)
         | Inr None \<Rightarrow> fail (nsErr ''namespace.forbidden'')
         | Inr (Some currentOwner) \<Rightarrow>
           if nm_Role currentOwner \<noteq> ''OWNER'' then fail (nsErr ''namespace.forbidden'')
           else do {
             r \<leftarrow> MemberRepo_FindByNamespaceAndUser (to_NamespaceID input) (to_NewOwnerUserID input);
             (case r of
               Inl e \<Rightarrow> fail (wrap ''namespace: find new owner'' e)
             | Inr None \<Rightarrow> fail (Errorf ''namespace: %s: new owner is not a member'' [AStr ''namespace.member.not_found''])
             | Inr (Some newOwner) \<Rightarrow> do {
                 t \<leftarrow> now;
                 transfer_unit tx (currentOwner\<lparr>nm_Role := ''ADMIN'', nm_UpdatedAt := t\<rparr>)
                   (newOwner\<lparr>nm_Role := ''OWNER'', nm_UpdatedAt := t\<rparr>) }) }) }) }"

section \<open>Batch additions\<close>

record BatchMemberEntry =
  be_UserID :: string
  be_Role :: string

record BatchRejection =
  br_UserID :: string
  br_Reason :: "string + err"

record BatchAddMembersResult =
  ba_Added :: "NamespaceMember list"
  ba_Existing :: "string list"
  ba_Rejected :: "BatchRejection list"

definition Total :: "BatchAddMembersResult \<Rightarrow> nat" where
  "Total r = length (ba_Added r) + length (ba_Existing r) + length (ba_Rejected r)"

definition AllSucceeded :: "BatchAddMembersResult \<Rightarrow> bool" where
  "AllSucceeded r \<longleftrightarrow> length (ba_Existing r) = 0 \<and> length (ba_Rejected r) = 0"

text \<open>
  The loop over the entries. A rejection's reason is a code, or the text made of a lookup or
  save error: the model keeps the error itself.
\<close>

fun batch_loop :: "int \<Rightarrow> time \<Rightarrow> BatchMemberEntry list \<Rightarrow> BatchAddMembersResult \<Rightarrow> BatchAddMembersResult op" where
  "batch_loop nsID t [] result = ok result"
| "batch_loop nsID t (entry # entries) result =
     (if be_Role entry = ''OWNER'' then
        batch_loop nsID t entries (result\<lparr>ba_Rejected := ba_Rejected result @
          [\<lparr>br_UserID = be_UserID entry, br_Reason = Inl ''namespace.member.cannot_be_owner''\<rparr>]\<rparr>)
      else do {
        r \<leftarrow> MemberRepo_FindByNamespaceAndUser nsID (be_UserID entry);
        (case r of
          Inl e \<Rightarrow> batch_loop nsID t entries (result\<lparr>ba_Rejected := ba_Rejected result @
              [\<lparr>br_UserID = be_UserID entry, br_Reason = Inr (wrap ''lookup error'' e)\<rparr>]\<rparr>)
        | Inr (Some _) \<Rightarrow> batch_loop nsID t entries (result\<lparr>ba_Existing := ba_Existing result @ [be_UserID entry]\<rparr>)
        | Inr None \<Rightarrow> do {
            r \<leftarrow> MemberRepo_Save (new_member nsID (be_UserID entry) (be_Role entry) t t);
            (case r of
              Inl e \<Rightarrow> batch_loop nsID t entries (result\<lparr>ba_Rejected := ba_Rejected result @
                  [\<lparr>br_UserID = be_UserID entry, br_Reason = Inr (wrap ''save error'' e)\<rparr>]\<rparr>)
            | Inr saved \<Rightarrow> batch_loop nsID t entries (result\<lparr>ba_Added := ba_Added result @ [saved]\<rparr>)) }) })"

definition BatchAddMembers :: "int \<Rightarrow> BatchMemberEntry list \<Rightarrow> string \<Rightarrow> BatchAddMembersResult op" where
  "BatchAddMembers NamespaceID Entries CallerUserID = do {
     r \<leftarrow> NamespaceRepo_FindByID NamespaceID;
     (case r of
       Inl e \<Rightarrow> fail (wrap ''namespace: find namespace'' e)
     | Inr None \<Rightarrow> fail (nsErr ''namespace.not_found'')
     | Inr (Some ns) \<Rightarrow>
       if \<not> CanManageMembers ns then fail (nsErr ''namespace.not_active'')
       else do {
         r \<leftarrow> MemberRepo_FindByNamespaceAndUser NamespaceID CallerUserID;
         (case r of
           Inl e \<Rightarrow> fail (wrap ''namespace: find caller'' e)
         | Inr None \<Rightarrow> fail (nsErr ''namespace.forbidden'')
         | Inr (Some caller) \<Rightarrow>
           if \<not> is_manager caller then fail (nsErr ''namespace.forbidden'')
           else do {
             t \<leftarrow> now;
             batch_loop NamespaceID t Entries \<lparr>ba_Added = [], ba_Existing = [], ba_Rejected = []\<rparr> }) }) }"

section \<open>Reads\<close>

definition ListMembers :: "int \<Rightarrow> string \<Rightarrow> NamespaceMember list op" where
  "ListMembers namespaceID callerUserID = do {
     r \<leftarrow> NamespaceRepo_FindByID namespaceID;
     (case r of
       Inl e \<Rightarrow> fail (wrap ''namespace: find namespace'' e)
     | Inr None \<Rightarrow> fail (nsErr ''namespace.not_found'')
     | Inr (Some ns) \<Rightarrow> do {
         g \<leftarrow> (if ns_Type ns \<noteq> ''GLOBAL'' then do {
                 r \<leftarrow> MemberRepo_FindByNamespaceAndUser namespaceID callerUserID;
                 (case r of
                   Inl e \<Rightarrow> fail (wrap ''namespace: find caller'' e)
                 | Inr None \<Rightarrow> fail (nsErr ''namespace.forbidden'')
                 | Inr (Some _) \<Rightarrow> ok ()) }
               else ok ());
         (case g of
           Inl e \<Rightarrow> fail e
         | Inr _ \<Rightarrow> do {
             r \<leftarrow> MemberRepo_FindByNamespaceID namespaceID;
             (case r of
               Inl e \<Rightarrow> fail (wrap ''namespace: list members'' e)
             | Inr ms \<Rightarrow> ok ms) }) }) }"

definition GetMemberRole :: "int \<Rightarrow> string \<Rightarrow> string \<Rightarrow> string op" where
  "GetMemberRole namespaceID userID callerUserID = do {
     g \<leftarrow> (if callerUserID \<noteq> userID then do {
             r \<leftarrow> MemberRepo_FindByNamespaceAndUser namespaceID callerUserID;
             (case r of
               Inl e \<Rightarrow> fail (wrap ''namespace: find caller'' e)
             | Inr None \<Rightarrow> fail (nsErr ''namespace.forbidden'')
             | Inr (Some _) \<Rightarrow> ok ()) }
           else ok ());
     (case g of
       Inl e \<Rightarrow> fail e
     | Inr _ \<Rightarrow> do {
         r \<leftarrow> MemberRepo_FindByNamespaceAndUser namespaceID userID;
         (case r of
           Inl e \<Rightarrow> fail (wrap ''namespace: find member'' e)
         | Inr None \<Rightarrow> fail (nsErr ''namespace.member.not_found'')
         | Inr (Some m) \<Rightarrow> ok (nm_Role m)) }) }"

section \<open>Global membership and account merge\<close>

definition EnsureMember :: "string \<Rightarrow> unit op" where
  "EnsureMember userID = do {
     r \<leftarrow> NamespaceRepo_FindBySlug ''global'';
     (case r of
       Inl e \<Rightarrow> fail (wrap ''namespace: find global namespace'' e)
     | Inr None \<Rightarrow> fail (Errs ''namespace: global namespace not found'')
     | Inr (Some ns) \<Rightarrow> do {
         r \<leftarrow> MemberRepo_FindByNamespaceAndUser (ns_ID ns) userID;
         (case r of
           Inl e \<Rightarrow> fail (wrap ''namespace: check global membership'' e)
         | Inr (Some _) \<Rightarrow> ok ()
         | Inr None \<Rightarrow> do {
             t \<leftarrow> now;
             r \<leftarrow> MemberRepo_Save (new_member (ns_ID ns) userID ''MEMBER'' t t);
             (case r of
               Inl e \<Rightarrow> fail (wrap ''namespace: add global member'' e)
             | Inr _ \<Rightarrow> ok ()) }) }) }"

definition rolePriority :: "string \<Rightarrow> int" where
  "rolePriority role =
     (if role = ''OWNER'' then 3 else if role = ''ADMIN'' then 2 else if role = ''MEMBER'' then 1 else 0)"

text \<open>The body of the loop of \<open>MigrateMemberships\<close>, and the loop.\<close>

definition migrate_one :: "string \<Rightarrow> string \<Rightarrow> NamespaceMember \<Rightarrow> unit op" where
  "migrate_one primaryUserID secondaryUserID ms = do {
     r \<leftarrow> MemberRepo_FindByNamespaceAndUser (nm_NamespaceID ms) primaryUserID;
     (case r of
       Inl e \<Rightarrow> fail (wrap ''namespace merge: check primary membership'' e)
     | Inr (Some existing) \<Rightarrow> do {
         u \<leftarrow> (if rolePriority (nm_Role ms) > rolePriority (nm_Role existing) then do {
                 r \<leftarrow> MemberRepo_Save (existing\<lparr>nm_Role := nm_Role ms\<rparr>);
                 (case r of
                   Inl e \<Rightarrow> fail (wrap ''namespace merge: upgrade role'' e)
                 | Inr _ \<Rightarrow> ok ()) }
               else ok ());
         (case u of
           Inl e \<Rightarrow> fail e
         | Inr _ \<Rightarrow> do {
             r \<leftarrow> MemberRepo_DeleteByNamespaceAndUser (nm_NamespaceID ms) secondaryUserID;
             (case r of
               Inl e \<Rightarrow> fail (wrap ''namespace merge: delete secondary membership'' e)
             | Inr _ \<Rightarrow> ok ()) }) }
     | Inr None \<Rightarrow> do {
         r \<leftarrow> MemberRepo_Save (ms\<lparr>nm_UserID := primaryUserID\<rparr>);
         (case r of
           Inl e \<Rightarrow> fail (wrap ''namespace merge: reassign membership'' e)
         | Inr _ \<Rightarrow> ok ()) }) }"

fun migrate_loop :: "string \<Rightarrow> string \<Rightarrow> NamespaceMember list \<Rightarrow> unit op" where
  "migrate_loop primaryUserID secondaryUserID [] = ok ()"
| "migrate_loop primaryUserID secondaryUserID (ms # mss) = do {
     r \<leftarrow> migrate_one primaryUserID secondaryUserID ms;
     (case r of Inl e \<Rightarrow> fail e | Inr _ \<Rightarrow> migrate_loop primaryUserID secondaryUserID mss) }"

definition MigrateMemberships :: "string \<Rightarrow> string \<Rightarrow> unit op" where
  "MigrateMemberships primaryUserID secondaryUserID = do {
     r \<leftarrow> MemberRepo_FindByUserID secondaryUserID;
     (case r of
       Inl e \<Rightarrow> fail (wrap ''namespace merge: find memberships'' e)
     | Inr mss \<Rightarrow> migrate_loop primaryUserID secondaryUserID mss) }"

section \<open>Candidate search\<close>

record UserCandidate =
  uc_UserID :: string
  uc_DisplayName :: string
  uc_Email :: string
  uc_Username :: string

definition CandidateDefaultLimit :: int where "CandidateDefaultLimit = 10"
definition CandidateMaxLimit :: int where "CandidateMaxLimit = 20"
definition CandidateMinQueryLen :: nat where "CandidateMinQueryLen = 2"

definition normalizeCandidateLimit :: "int \<Rightarrow> int" where
  "normalizeCandidateLimit limit =
     (if limit \<le> 0 then CandidateDefaultLimit
      else if limit > CandidateMaxLimit then CandidateMaxLimit else limit)"

text \<open>
  \<open>strings.TrimSpace\<close> depends on Unicode's white space, so it is the parameter \<open>trim\<close>; the user
  search is the optional interface \<open>UserSearch\<close>.
\<close>

definition SearchCandidates ::
  "(string \<Rightarrow> string) \<Rightarrow> (string \<Rightarrow> int \<Rightarrow> UserCandidate list op) option
     \<Rightarrow> int \<Rightarrow> string \<Rightarrow> string \<Rightarrow> int \<Rightarrow> UserCandidate list op" where
  "SearchCandidates trim userSearch namespaceID callerUserID query limit = do {
     r \<leftarrow> NamespaceRepo_FindByID namespaceID;
     (case r of
       Inl e \<Rightarrow> fail (wrap ''namespace: find namespace'' e)
     | Inr None \<Rightarrow> fail (nsErr ''namespace.not_found'')
     | Inr (Some ns) \<Rightarrow>
       if IsImmutable ns then fail (nsErr ''namespace.immutable'')
       else do {
         r \<leftarrow> MemberRepo_FindByNamespaceAndUser namespaceID callerUserID;
         (case r of
           Inl e \<Rightarrow> fail (wrap ''namespace: find caller'' e)
         | Inr None \<Rightarrow> fail (nsErr ''namespace.forbidden'')
         | Inr (Some caller) \<Rightarrow>
           if \<not> is_manager caller then fail (nsErr ''namespace.forbidden'')
           else if \<not> CanManageMembers ns then fail (nsErr ''namespace.not_active'')
           else if trim query = [] then ok []
           else if length (trim query) < CandidateMinQueryLen then fail (nsErr ''namespace.member.search.too_short'')
           else (case userSearch of
             None \<Rightarrow> ok []
           | Some searchUsers \<Rightarrow> do {
               r \<leftarrow> searchUsers (trim query) (normalizeCandidateLimit limit);
               (case r of
                 Inl e \<Rightarrow> fail (wrap ''namespace: search users'' e)
               | Inr candidates \<Rightarrow> do {
                   r \<leftarrow> MemberRepo_FindByNamespaceID namespaceID;
                   (case r of
                     Inl e \<Rightarrow> fail (wrap ''namespace: list members'' e)
                   | Inr ms \<Rightarrow> ok (filter (\<lambda>c. uc_UserID c \<notin> set (map nm_UserID ms)) candidates)) }) })) }) }"

section \<open>At most one owner\<close>

definition single_owner :: "database \<Rightarrow> bool" where
  "single_owner d \<longleftrightarrow> nmt.unique (members d) \<and>
     (\<forall>m \<in> set (members d). \<forall>m' \<in> set (members d).
        nm_Role m = ''OWNER'' \<longrightarrow> nm_Role m' = ''OWNER'' \<longrightarrow> nm_NamespaceID m = nm_NamespaceID m' \<longrightarrow> m = m')"

lemma single_ownerI:
  assumes "nmt.unique (members d)"
    and "\<And>x y. x \<in> set (members d) \<Longrightarrow> y \<in> set (members d) \<Longrightarrow> nm_Role x = ''OWNER'' \<Longrightarrow> nm_Role y = ''OWNER''
      \<Longrightarrow> nm_NamespaceID x = nm_NamespaceID y \<Longrightarrow> x = y"
  shows "single_owner d"
  unfolding single_owner_def using assms by blast

lemma single_ownerD:
  "single_owner d \<Longrightarrow> x \<in> set (members d) \<Longrightarrow> y \<in> set (members d) \<Longrightarrow> nm_Role x = ''OWNER'' \<Longrightarrow> nm_Role y = ''OWNER''
      \<Longrightarrow> nm_NamespaceID x = nm_NamespaceID y \<Longrightarrow> x = y"
  "single_owner d \<Longrightarrow> nmt.unique (members d)"
  unfolding single_owner_def by blast+

lemma single_owner_members: "members d' = members d \<Longrightarrow> single_owner d' = single_owner d"
  by (simp add: single_owner_def)

lemma owner_in_save:
  "x \<in> set (nmt.save (nm_row m t i) rs) \<Longrightarrow> nm_Role x = ''OWNER'' \<Longrightarrow> nm_Role m \<noteq> ''OWNER'' \<Longrightarrow> x \<in> set rs"
  using nmt.save_others [of x "nm_row m t i" rs] by auto

lemma single_owner_save:
  assumes "single_owner d" and "nm_Role m \<noteq> ''OWNER''"
  shows "single_owner (d\<lparr>members := nmt.save (nm_row m t i) (members d)\<rparr>)"
  by (intro single_ownerI)
    (simp_all add: nmt.unique_save single_ownerD(2) [OF assms(1)],
     meson owner_in_save assms(2) single_ownerD(1) [OF assms(1)])

lemma single_owner_delete: "single_owner d \<Longrightarrow> single_owner (d\<lparr>members := delete_where p (members d)\<rparr>)"
  by (auto simp: single_owner_def nmt.unique_delete)

lemma keeps_single_owner_repo [keeps_intros]:
  "nm_Role m \<noteq> ''OWNER'' \<Longrightarrow> keeps single_owner (MemberRepo_Save m)"
  "keeps single_owner (MemberRepo_DeleteByNamespaceAndUser i u)"
  "keeps single_owner (MemberRepo_FindByNamespaceAndUser i u)"
  "keeps single_owner (NamespaceRepo_FindByID i)"
  "keeps single_owner (NamespaceRepo_FindBySlug s)"
  unfolding MemberRepo_Save_def namespace_repo_defs
  by (auto intro!: keeps_intros keeps_exec keeps_insert simp: single_owner_save single_owner_delete)

lemma single_owner_transfer:
  assumes d: "single_owner d" and own: "cur \<in> set (members d)" "nm_Role cur = ''OWNER''"
    and ns: "nm_NamespaceID new = nm_NamespaceID cur"
    and d1: "d1 = d\<lparr>members := nmt.save (nm_row (cur\<lparr>nm_Role := ''ADMIN'', nm_UpdatedAt := t0\<rparr>) t i) (members d)\<rparr>"
  shows "single_owner (d1\<lparr>members := nmt.save (nm_row (new\<lparr>nm_Role := ''OWNER'', nm_UpdatedAt := t0\<rparr>) t' i') (members d1)\<rparr>)"
proof -
  let ?dem = "nm_row (cur\<lparr>nm_Role := ''ADMIN'', nm_UpdatedAt := t0\<rparr>) t i"
  let ?pro = "nm_row (new\<lparr>nm_Role := ''OWNER'', nm_UpdatedAt := t0\<rparr>) t' i'"
  have u: "nmt.unique (members d)" "nmt.unique (members d1)"
    using d by (simp_all add: single_owner_def d1 nmt.unique_save)
  have noown: "nm_Role m \<noteq> ''OWNER''" if m: "m \<in> set (members d1)" "nm_NamespaceID m = nm_NamespaceID cur" for m
  proof
    assume o: "nm_Role m = ''OWNER''"
    have "m \<noteq> nmt.stored ?dem (members d)" using o by auto
    then have "m \<in> set (members d)" using m(1) nmt.save_others [of m ?dem] by (auto simp: d1)
    then have "m = cur" using d own m(2) o by (auto simp: single_owner_def)
    moreover have "nmt.stored ?dem (members d) \<in> set (members d1)" by (simp add: d1 nmt.stored_in)
    ultimately show False
      using m(1) \<open>m \<noteq> _\<close> nmt.key_inj [OF u(2)] by (force simp: nm_key_def)
  qed
  let ?s = "nmt.stored ?pro (members d1)"
  have inn: "x = ?s \<or> x \<in> set (members d1) \<and> nm_NamespaceID x \<noteq> nm_NamespaceID ?s"
    if "x \<in> set (nmt.save ?pro (members d1))" "nm_Role x = ''OWNER''" for x
    using that noown nmt.save_others [OF that(1)] ns by auto
  have so: "x = y" if "x \<in> set (members d1)" "y \<in> set (members d1)"
      "nm_Role x = ''OWNER''" "nm_Role y = ''OWNER''" "nm_NamespaceID x = nm_NamespaceID y" for x y
    using that single_ownerD(1) [OF single_owner_save [OF d, of "cur\<lparr>nm_Role := ''ADMIN'', nm_UpdatedAt := t0\<rparr>" t i], of x y]
    by (simp add: d1)
  have one: "x = y" if "x \<in> set (nmt.save ?pro (members d1))" "y \<in> set (nmt.save ?pro (members d1))"
      "nm_Role x = ''OWNER''" "nm_Role y = ''OWNER''" "nm_NamespaceID x = nm_NamespaceID y" for x y
    using inn [OF that(1,3)] inn [OF that(2,4)] so [of x y] that(3-5) by metis
  show ?thesis
    by (rule single_ownerI) (simp_all add: nmt.unique_save [OF u(2)] one)
qed

lemma keeps_batch_loop [keeps_intros]: "keeps single_owner (batch_loop i t es res)"
proof (induction es arbitrary: res)
  case (Cons e es)
  show ?case unfolding batch_loop.simps by (intro keeps_intros Cons.IH) (simp add: new_member_def)
qed (simp add: keeps_return)

abbreviation demote :: "NamespaceMember \<Rightarrow> time \<Rightarrow> NamespaceMember" where
  "demote m t \<equiv> m\<lparr>nm_Role := ''ADMIN'', nm_UpdatedAt := t\<rparr>"

abbreviation promote :: "NamespaceMember \<Rightarrow> time \<Rightarrow> NamespaceMember" where
  "promote m t \<equiv> m\<lparr>nm_Role := ''OWNER'', nm_UpdatedAt := t\<rparr>"

text \<open>What the writes start from: everything before them only reads.\<close>

lemma transfer_wp:
  assumes writes: "\<And>cur new t w'. db w' = db w \<Longrightarrow> healthy w' = healthy w
      \<Longrightarrow> find (\<lambda>m. nm_key m = (to_NamespaceID input, to_CurrentOwnerUserID input)) (members (db w)) = Some cur
      \<Longrightarrow> nm_Role cur = ''OWNER''
      \<Longrightarrow> find (\<lambda>m. nm_key m = (to_NamespaceID input, to_NewOwnerUserID input)) (members (db w)) = Some new
      \<Longrightarrow> wp (transfer_unit tx (demote cur t) (promote new t)) Q w'"
    and err: "\<And>e w'. db w' = db w \<Longrightarrow> Q (Inl e) w'"
  shows "wp (TransferOwnership tx input) Q w"
  by (simp add: TransferOwnership_def namespace_repo_defs Let_def err split: option.splits) (auto intro!: err writes)

lemma keeps_transfer:
  assumes "tx = None \<or> tx = Some WithinTx"
  shows "keeps single_owner (TransferOwnership tx input)"
proof (rule keepsI)
  fix w :: world
  assume so: "single_owner (db w)"
  let ?i = "to_NamespaceID input"
  show "wp (TransferOwnership tx input) (\<lambda>_ w'. single_owner (db w')) w"
  proof (rule transfer_wp)
    fix cur new t and w' :: world
    assume w': "db w' = db w" and "find (\<lambda>m. nm_key m = (?i, to_CurrentOwnerUserID input)) (members (db w)) = Some cur"
      and own: "nm_Role cur = ''OWNER''"
      and "find (\<lambda>m. nm_key m = (?i, to_NewOwnerUserID input)) (members (db w)) = Some new"
    then have f: "cur \<in> set (members (db w))" "nm_NamespaceID new = nm_NamespaceID cur"
      by (auto dest!: find_SomeD simp: nm_key_def)
    have *: "wp (transfer_writes (demote cur t) (promote new t)) (\<lambda>_ w'. single_owner (db w')) v"
      if "db v = db w" for v
      using so that single_owner_transfer [OF so f(1) own f(2) refl]
      by (simp add: transfer_writes_def Let_def single_owner_save)
    show "wp (transfer_unit tx (demote cur t) (promote new t)) (\<lambda>_ w'. single_owner (db w')) w'"
      using assms * [OF w'] so w'
      by (auto simp: transfer_unit_def wp_WithinTx intro!: wp_mono [OF *] split: sum.splits)
  qed (simp add: so)
qed

text \<open>No member operation ever creates a second owner of a namespace, whichever statements fail,
  whichever driver is used, and whether or not the transfer of ownership runs in a transaction:
  uniqueness of the membership key and \<open>at most one OWNER per namespace\<close> are invariant under adding,
  removing, re-roling and batch-adding members, under the automatic membership of the global
  namespace and under the transfer of ownership.\<close>

theorem members_single_owner:
  "keeps single_owner (AddMember a) \<and> keeps single_owner (RemoveMember b) \<and> keeps single_owner (UpdateMemberRole c)
     \<and> keeps single_owner (BatchAddMembers n es u) \<and> keeps single_owner (EnsureMember u')
     \<and> keeps single_owner (TransferOwnership None input) \<and> keeps single_owner (TransferOwnership (Some WithinTx) input)"
  unfolding AddMember_def RemoveMember_def UpdateMemberRole_def BatchAddMembers_def EnsureMember_def
  by (intro conjI keeps_intros keeps_transfer; simp add: new_member_def)

section \<open>Transfer in a transaction\<close>

text \<open>The rows the two writes leave, read by key.\<close>

definition transferred :: "TransferOwnershipInput \<Rightarrow> database \<Rightarrow> database \<Rightarrow> bool" where
  "transferred input d d' \<longleftrightarrow> d' = d\<lparr>members := members d'\<rparr>
     \<and> map_option nm_Role (nmt.lookup (to_NamespaceID input, to_NewOwnerUserID input) (members d')) = Some ''OWNER''
     \<and> (to_NewOwnerUserID input \<noteq> to_CurrentOwnerUserID input \<longrightarrow>
          map_option nm_Role (nmt.lookup (to_NamespaceID input, to_CurrentOwnerUserID input) (members d')) = Some ''ADMIN'')
     \<and> (\<forall>k. k \<noteq> (to_NamespaceID input, to_NewOwnerUserID input) \<longrightarrow> k \<noteq> (to_NamespaceID input, to_CurrentOwnerUserID input)
          \<longrightarrow> nmt.lookup k (members d') = nmt.lookup k (members d))"

lemma nmt_lookup_save: "nmt.lookup k (nmt.save m rs) = (if k = nm_key m then Some (nmt.stored m rs) else nmt.lookup k rs)"
  by (simp add: nmt.lookup_save_same nmt.lookup_save_other)

lemma transfer_writes_wp:
  assumes "nm_key dem = (to_NamespaceID input, to_CurrentOwnerUserID input)" "nm_Role dem = ''ADMIN''"
    and "nm_key pro = (to_NamespaceID input, to_NewOwnerUserID input)" "nm_Role pro = ''OWNER''"
    and succ: "\<And>w'. transferred input (db w) (db w') \<Longrightarrow> Q (Inr ()) w'"
    and err: "\<And>e w'. Q (Inl e) w'"
  shows "wp (transfer_writes dem pro) Q w"
  using assms(1-4)
  by (auto simp: transfer_writes_def Let_def transferred_def nmt_lookup_save intro!: succ err)

lemma key_with_role [simp]: "nm_key (m\<lparr>nm_Role := r, nm_UpdatedAt := t\<rparr>) = nm_key m"
  by (simp add: nm_key_def)

text \<open>C21: with a transactor, a transfer of ownership is all or nothing under every schedule of failing
  statements: an error leaves every table as it was, and success leaves the new owner with the role
  OWNER, the previous one (if another user) with ADMIN, and every other membership row as it was.\<close>

theorem transfer_ownership_atomic:
  assumes "run_state (TransferOwnership (Some WithinTx) input) w = (r, w')"
  shows "(case r of Inl e \<Rightarrow> db w' = db w | Inr _ \<Rightarrow> transferred input (db w) (db w'))"
proof (rule wpD [OF assms], rule transfer_wp)
  fix cur new t and v :: world
  assume v: "db v = db w" and c: "find (\<lambda>m. nm_key m = (to_NamespaceID input, to_CurrentOwnerUserID input)) (members (db w)) = Some cur"
    and n: "find (\<lambda>m. nm_key m = (to_NamespaceID input, to_NewOwnerUserID input)) (members (db w)) = Some new"
  show "wp (transfer_unit (Some WithinTx) (demote cur t) (promote new t))
      (\<lambda>r w'. case r of Inl e \<Rightarrow> db w' = db w | Inr _ \<Rightarrow> transferred input (db w) (db w')) v"
    using v find_SomeD [OF c] find_SomeD [OF n]
    by (auto simp: transfer_unit_def wp_WithinTx intro!: transfer_writes_wp [where input = input])
qed simp

section \<open>Adding a member\<close>

lemma add_member_wp:
  assumes "healthy w" and "nil_on_empty w"
    and succ: "\<And>ns m w'. find (\<lambda>n. ns_ID n = am_NamespaceID input) (namespaces (db w)) = Some ns \<Longrightarrow> CanManageMembers ns
       \<Longrightarrow> (\<exists>c. find (\<lambda>m. nm_key m = (am_NamespaceID input, am_CallerUserID input)) (members (db w)) = Some c \<and> is_manager c)
       \<Longrightarrow> find (\<lambda>m. nm_key m = (am_NamespaceID input, am_UserID input)) (members (db w)) = None
       \<Longrightarrow> am_Role input \<noteq> ''OWNER''
       \<Longrightarrow> nm_key m = (am_NamespaceID input, am_UserID input) \<Longrightarrow> nm_Role m = am_Role input
       \<Longrightarrow> db w' = (db w)\<lparr>members := members (db w) @ [m]\<rparr> \<Longrightarrow> Q (Inr m) w'"
    and err: "\<And>e w'. \<not> (am_Role input \<noteq> ''OWNER''
         \<and> (\<exists>ns. find (\<lambda>n. ns_ID n = am_NamespaceID input) (namespaces (db w)) = Some ns \<and> CanManageMembers ns)
         \<and> (\<exists>c. find (\<lambda>m. nm_key m = (am_NamespaceID input, am_CallerUserID input)) (members (db w)) = Some c \<and> is_manager c)
         \<and> find (\<lambda>m. nm_key m = (am_NamespaceID input, am_UserID input)) (members (db w)) = None)
       \<Longrightarrow> db w' = db w \<Longrightarrow> Q (Inl e) w'"
  shows "wp (AddMember input) Q w"
proof -
  note f = nmt.save_fresh nmt.stored_fresh
  show ?thesis
    using assms(1,2)
    by (simp add: AddMember_def namespace_repo_defs Let_def split: option.splits)
      (auto intro!: err succ simp: new_member_def f nmt.lookup_def nm_key_def)
qed

text \<open>With the pgx driver, whose single-row lookup reports a missing row as an error,
  adding a member never succeeds: the check that the user is not yet a member is itself reported as
  a failure, whatever the input, and nothing is written.\<close>

theorem add_member_never_with_pgx:
  assumes "\<not> nil_on_empty w" and "run_state (AddMember input) w = (r, w')"
  shows "(\<exists>e. r = Inl e) \<and> db w' = db w"
  by (rule wpD [OF assms(2)], use assms(1) in \<open>simp add: AddMember_def namespace_repo_defs Let_def split: option.splits\<close>)


definition may_add :: "AddMemberInput \<Rightarrow> database \<Rightarrow> bool" where
  "may_add input d \<longleftrightarrow> am_Role input \<noteq> ''OWNER''
     \<and> (case find (\<lambda>n. ns_ID n = am_NamespaceID input) (namespaces d) of None \<Rightarrow> False | Some ns \<Rightarrow> CanManageMembers ns)
     \<and> (case nmt.lookup (am_NamespaceID input, am_CallerUserID input) (members d) of None \<Rightarrow> False | Some c \<Rightarrow> is_manager c)
     \<and> nmt.lookup (am_NamespaceID input, am_UserID input) (members d) = None"

text \<open>With a repository that returns no row as no row, and no failing statement, adding a member
  succeeds exactly when the role is not OWNER, the namespace exists, is of type TEAM and ACTIVE, the
  caller is its owner or an admin, and the user is not a member; it then adds one row with the
  requested role, and otherwise it fails and changes nothing.\<close>

theorem add_member_spec:
  assumes "healthy w" and "nil_on_empty w" and "run_state (AddMember input) w = (r, w')"
  shows "if may_add input (db w)
     then \<exists>m. r = Inr m \<and> nm_key m = (am_NamespaceID input, am_UserID input) \<and> nm_Role m = am_Role input
            \<and> db w' = (db w)\<lparr>members := members (db w) @ [m]\<rparr>
     else (\<exists>e. r = Inl e) \<and> db w' = db w"
  by (rule wpD [OF assms(3)], rule add_member_wp [OF assms(1,2)])
    (auto simp: may_add_def nmt.lookup_def split: option.splits)

section \<open>Batch additions\<close>

definition batch_grown :: "int \<Rightarrow> BatchAddMembersResult \<Rightarrow> nat \<Rightarrow> database \<Rightarrow> BatchAddMembersResult \<Rightarrow> database \<Rightarrow> bool" where
  "batch_grown nsID res n d res' d' \<longleftrightarrow> (\<exists>added.
     ba_Added res' = ba_Added res @ added \<and> d' = d\<lparr>members := members d @ added\<rparr>
     \<and> Total res' = Total res + n
     \<and> (\<forall>m \<in> set added. nm_NamespaceID m = nsID \<and> nm_Role m \<noteq> ''OWNER'')
     \<and> (\<forall>u \<in> set (ba_Existing res') - set (ba_Existing res). (nsID, u) \<in> nm_key ` set (members d')))"

lemma batch_loop_wp: "wp (batch_loop nsID t es res) (\<lambda>r w'. \<exists>res'. r = Inr res' \<and> batch_grown nsID res (length es) (db w) res' (db w')) w"
proof (induction es arbitrary: res w)
  case Nil
  show ?case by (simp add: batch_grown_def)
next
  case (Cons e es)
  have rej: "batch_grown nsID (res\<lparr>ba_Rejected := ba_Rejected res @ [x]\<rparr>) (length es) d res' d'
      \<Longrightarrow> batch_grown nsID res (Suc (length es)) d res' d'" for x res' d d'
    by (auto simp: batch_grown_def Total_def)
  have exi: "batch_grown nsID (res\<lparr>ba_Existing := ba_Existing res @ [be_UserID e]\<rparr>) (length es) d res' d'
      \<Longrightarrow> (nsID, be_UserID e) \<in> nm_key ` set (members d) \<Longrightarrow> batch_grown nsID res (Suc (length es)) d res' d'" for res' d d'
    unfolding batch_grown_def by (elim exE, rule_tac x = added in exI) (auto simp: Total_def image_Un del: imageE)
  have add: "batch_grown nsID (res\<lparr>ba_Added := ba_Added res @ [m]\<rparr>) (length es) (d\<lparr>members := members d @ [m]\<rparr>) res' d'
      \<Longrightarrow> nm_NamespaceID m = nsID \<Longrightarrow> nm_Role m \<noteq> ''OWNER''
      \<Longrightarrow> batch_grown nsID res (Suc (length es)) d res' d'" for res' d d' m
    unfolding batch_grown_def by (elim exE, rule_tac x = "m # added" in exI) (auto simp: Total_def)
  let ?P = "\<lambda>r w'. \<exists>res'. r = Inr res' \<and> batch_grown nsID res (Suc (length es)) (db w) res' (db w')"
  have IH: "wp (batch_loop nsID t es res1) ?P v"
    if "\<And>res' d'. batch_grown nsID res1 (length es) (db v) res' d' \<Longrightarrow> batch_grown nsID res (Suc (length es)) (db w) res' d'" for res1 v
    by (rule wp_mono [OF Cons.IH]) (use that in blast)
  let ?m = "\<lambda>t' i. nm_row (new_member nsID (be_UserID e) (be_Role e) t t) t' i"
  have key: "nm_key (?m t' i) = (nsID, be_UserID e)" for t' i
    by (simp add: new_member_def nm_key_def)
  consider (own) "be_Role e = ''OWNER''" | (ex) x where "be_Role e \<noteq> ''OWNER''" "nmt.lookup (nsID, be_UserID e) (members (db w)) = Some x"
    | (new) "be_Role e \<noteq> ''OWNER''" "nmt.lookup (nsID, be_UserID e) (members (db w)) = None" by fastforce
  then show ?case
  proof cases
    case own
    then show ?thesis by (auto intro!: IH intro: rej)
  next
    case ex
    then have "(nsID, be_UserID e) \<in> nm_key ` set (members (db w))" by (force dest: nmt.lookup_SomeD)
    with ex show ?thesis
      by (auto simp: namespace_repo_defs nmt.lookup_def [symmetric] intro!: IH intro: rej exi)
  next
    case new
    then have f: "nmt.save (?m t' i) (members (db w)) = members (db w) @ [?m t' i]" "nmt.stored (?m t' i) (members (db w)) = ?m t' i" for t' i
      using nmt.save_fresh nmt.stored_fresh key by metis+
    show ?thesis using new
      by (auto simp: namespace_repo_defs Let_def nmt.lookup_def [symmetric] f intro!: IH intro: rej, auto intro!: add simp: new_member_def)
  qed
qed

text \<open>A batch addition accounts for every entry whatever statements fail: the added, existing and
  rejected entries add up to the entries given, the table grows by exactly the reported additions, none
  of them an owner or in another namespace, and every user reported as existing has a row.\<close>

theorem batch_add_accounts:
  assumes "run_state (BatchAddMembers nsID es caller) w = (r, w')"
  shows "(case r of Inl e \<Rightarrow> db w' = db w
     | Inr res \<Rightarrow> Total res = length es \<and> db w' = (db w)\<lparr>members := members (db w) @ ba_Added res\<rparr>
         \<and> (\<forall>m \<in> set (ba_Added res). nm_NamespaceID m = nsID \<and> nm_Role m \<noteq> ''OWNER'')
         \<and> (\<forall>u \<in> set (ba_Existing res). (nsID, u) \<in> nm_key ` set (members (db w'))))"
  by (rule wpD [OF assms], simp add: BatchAddMembers_def namespace_repo_defs Let_def split: option.splits)
    (auto intro!: wp_mono [OF batch_loop_wp] simp: batch_grown_def Total_def)

section \<open>Candidate search\<close>

text \<open>A candidate search returns no user who is already a member of the namespace, and changes
  no table, for any user search that only reads.\<close>

theorem candidates_are_outsiders:
  assumes "run_state (SearchCandidates trim (Some search) nsID caller query limit) w = (Inr cs, w')"
    and "\<And>q l. read_only (search q l)"
  shows "db w' = db w \<and> (\<forall>c \<in> set cs. (nsID, uc_UserID c) \<notin> nm_key ` set (members (db w)))"
proof -
  have s: "wp (search q l) Q v" if "\<And>r v'. db v' = db v \<Longrightarrow> Q r v'" for q l Q and v :: world
    using assms(2) that unfolding read_only_def by (blast intro: wp_mono)
  have "wp (SearchCandidates trim (Some search) nsID caller query limit)
     (\<lambda>r w'. \<forall>cs. r = Inr cs \<longrightarrow> db w' = db w \<and> (\<forall>c \<in> set cs. (nsID, uc_UserID c) \<notin> nm_key ` set (members (db w)))) w"
    by (simp add: SearchCandidates_def namespace_repo_defs Let_def split: option.splits)
      (auto intro!: s simp: nm_key_def split: sum.splits)
  from wpD [OF assms(1) this] show ?thesis by simp
qed

definition demo_transfer :: TransferOwnershipInput where
  "demo_transfer = \<lparr>to_NamespaceID = 7, to_NewOwnerUserID = ''cy'', to_CurrentOwnerUserID = ''ann''\<rparr>"

theorem transfer_ownership_atomic_witness:
  "\<exists>w'. run_state (TransferOwnership (Some WithinTx) demo_transfer) (calm False demo_db) = (Inr (), w')
     \<and> transferred demo_transfer demo_db (db w')"
proof -
  obtain r w' where run: "run_state (TransferOwnership (Some WithinTx) demo_transfer) (calm False demo_db) = (r, w')"
    by (metis surj_pair)
  have "wp (TransferOwnership (Some WithinTx) demo_transfer) (\<lambda>r _. r = Inr ()) (calm False demo_db)"
    by (simp add: TransferOwnership_def transfer_unit_def wp_WithinTx transfer_writes_def namespace_repo_defs Let_def
        demo_transfer_def policy_defs stmt_fails_def)
  with run have "r = Inr ()" by (rule wpD)
  then show ?thesis using transfer_ownership_atomic [OF run] run by simp
qed

definition demo_add :: AddMemberInput where
  "demo_add = \<lparr>am_NamespaceID = 7, am_UserID = ''dan'', am_Role = ''MEMBER'', am_CallerUserID = ''bob''\<rparr>"

theorem add_member_never_with_pgx_witness:
  "\<exists>e w'. run_state (AddMember demo_add) (calm False demo_db) = (Inl e, w') \<and> db w' = demo_db \<and> may_add demo_add demo_db"
proof -
  obtain r w' where run: "run_state (AddMember demo_add) (calm False demo_db) = (r, w')" by (metis surj_pair)
  show ?thesis using add_member_never_with_pgx [OF _ run] run
    by (auto simp: may_add_def demo_add_def nmt.lookup_def policy_defs)
qed

theorem add_member_spec_witness:
  "\<exists>m w'. run_state (AddMember demo_add) (calm True demo_db) = (Inr m, w') \<and> nm_key m = (7, ''dan'')"
proof -
  obtain r w' where run: "run_state (AddMember demo_add) (calm True demo_db) = (r, w')" by (metis surj_pair)
  show ?thesis using add_member_spec [OF _ _ run] run
    by (auto simp: may_add_def demo_add_def nmt.lookup_def policy_defs)
qed

definition demo_batch :: "BatchMemberEntry list" where
  "demo_batch = [\<lparr>be_UserID = ''dan'', be_Role = ''MEMBER''\<rparr>, \<lparr>be_UserID = ''bob'', be_Role = ''ADMIN''\<rparr>,
     \<lparr>be_UserID = ''eve'', be_Role = ''OWNER''\<rparr>, \<lparr>be_UserID = ''dan'', be_Role = ''ADMIN''\<rparr>]"

theorem batch_add_accounts_witness:
  "\<exists>res w'. run_state (BatchAddMembers 7 demo_batch ''ann'') (calm True demo_db) = (Inr res, w')
     \<and> Total res = 4 \<and> length (ba_Added res) = 1 \<and> members (db w') = members demo_db @ ba_Added res"
proof -
  let ?m = "BatchAddMembers 7 demo_batch ''ann''"
  obtain r w' where run: "run_state ?m (calm True demo_db) = (r, w')" by (metis surj_pair)
  have "wp ?m (\<lambda>r _. \<exists>res. r = Inr res \<and> length (ba_Added res) = 1) (calm True demo_db)"
    by (simp add: BatchAddMembers_def namespace_repo_defs Let_def demo_batch_def policy_defs stmt_fails_def
        new_member_def nm_key_def nmt.save_def demo_db_def demo_member_def)
  with run have "\<exists>res. r = Inr res \<and> length (ba_Added res) = 1" by (rule wpD)
  then show ?thesis using batch_add_accounts [OF run] run by (auto simp: demo_batch_def)
qed

definition demo_search :: "string \<Rightarrow> int \<Rightarrow> UserCandidate list op" where
  "demo_search q l = ok [\<lparr>uc_UserID = ''bob'', uc_DisplayName = [], uc_Email = [], uc_Username = []\<rparr>,
     \<lparr>uc_UserID = ''dan'', uc_DisplayName = [], uc_Email = [], uc_Username = []\<rparr>]"

theorem candidates_are_outsiders_witness:
  "\<exists>cs w'. run_state (SearchCandidates id (Some demo_search) 7 ''ann'' ''abc'' 0) (calm False demo_db) = (Inr cs, w')
     \<and> map uc_UserID cs = [''dan''] \<and> (\<forall>c \<in> set cs. (7, uc_UserID c) \<notin> nm_key ` set (members demo_db))"
proof -
  let ?m = "SearchCandidates id (Some demo_search) 7 ''ann'' ''abc'' 0"
  obtain r w' where run: "run_state ?m (calm False demo_db) = (r, w')" by (metis surj_pair)
  have "wp ?m (\<lambda>r _. \<exists>cs. r = Inr cs \<and> map uc_UserID cs = [''dan'']) (calm False demo_db)"
    by (simp add: SearchCandidates_def namespace_repo_defs IsImmutable_def policy_defs stmt_fails_def
        demo_search_def CandidateMinQueryLen_def)
  with run obtain cs where cs: "r = Inr cs" "map uc_UserID cs = [''dan'']" by (blast dest: wpD)
  have "read_only (demo_search q l)" for q l by (simp add: demo_search_def read_only_def)
  then show ?thesis using candidates_are_outsiders [OF run [unfolded cs(1)]] run cs by auto
qed

end
