(* ===== verification/Ownership.thy ===== *)
theory Ownership
  imports Members
begin

text \<open>
  Ownership of namespaces over whole runs: what an account merge and a lookup failure do to it,
  and the state machine of the namespace tables that every other operation refines, with the
  invariant that every namespace has exactly one owner in every reachable state.
\<close>

section \<open>Account merge\<close>

lemma key_with_user: "nm_key (m\<lparr>nm_UserID := u\<rparr>) = (nm_NamespaceID m, u)"
  by (simp add: nm_key_def)

lemma migrate_fresh_wp:
  assumes "healthy w" and "nil_on_empty w"
    and "nmt.lookup (nm_NamespaceID ms, p) (members (db w)) = None"
    and "\<And>m w'. db w' = (db w)\<lparr>members := members (db w) @ [m]\<rparr> \<Longrightarrow> nm_key m = (nm_NamespaceID ms, p)
       \<Longrightarrow> nm_Role m = nm_Role ms \<Longrightarrow> healthy w' \<Longrightarrow> nil_on_empty w' \<Longrightarrow> Q (Inr ()) w'"
  shows "wp (migrate_one p s ms) Q w"
  using assms(1-3) nmt.save_fresh [of "nm_row (ms\<lparr>nm_UserID := p\<rparr>) t i" "members (db w)" for t i]
  by (auto simp: migrate_one_def namespace_repo_defs nmt.lookup_def [symmetric] Let_def key_with_user intro!: assms(4))

definition copied :: "string \<Rightarrow> NamespaceMember list \<Rightarrow> database \<Rightarrow> database \<Rightarrow> bool" where
  "copied p mss d d' \<longleftrightarrow> (\<exists>new. d' = d\<lparr>members := members d @ new\<rparr>
     \<and> map nm_key new = map (\<lambda>m. (nm_NamespaceID m, p)) mss \<and> map nm_Role new = map nm_Role mss)"

lemma migrate_loop_copies:
  assumes "healthy w" and "nil_on_empty w" and "distinct (map nm_NamespaceID mss)"
    and "\<forall>ms \<in> set mss. nmt.lookup (nm_NamespaceID ms, p) (members (db w)) = None"
  shows "wp (migrate_loop p s mss) (\<lambda>r w'. r = Inr () \<and> copied p mss (db w) (db w')) w"
  using assms
proof (induction mss arbitrary: w)
  case (Cons ms mss)
  show ?case
  proof (simp, rule migrate_fresh_wp)
    fix m and v :: world
    assume v: "db v = (db w)\<lparr>members := members (db w) @ [m]\<rparr>"
      and m: "nm_key m = (nm_NamespaceID ms, p)" "nm_Role m = nm_Role ms" and h: "healthy v" "nil_on_empty v"
    have "\<forall>x \<in> set mss. nmt.lookup (nm_NamespaceID x, p) (members (db v)) = None"
      using Cons.prems(3,4) m v by (auto simp: nmt.lookup_def find_None_iff) (metis imageI)
    then have "wp (migrate_loop p s mss) (\<lambda>r w'. r = Inr () \<and> copied p mss (db v) (db w')) v"
      using Cons.IH [of v] Cons.prems(3) v h by simp
    then show "wp (case Inr () of Inl e \<Rightarrow> fail e | Inr x \<Rightarrow> migrate_loop p s mss)
       (\<lambda>r w'. r = Inr () \<and> copied p (ms # mss) (db w) (db w')) v"
      apply simp
      apply (erule wp_mono)
      using v m by (auto simp: copied_def intro: exI [where x = "m # new" for new])
  qed (use Cons.prems in auto)
qed (simp add: copied_def)

text \<open>Migrating the memberships of a secondary account to a primary account that has none copies
  every membership with its role to the primary account and leaves all of the secondary account's rows
  in place, because \<open>Save\<close> is an upsert on (namespace, user): the reassignment inserts. In the
  witness an owner is merged and the namespace has two owners afterwards.\<close>

theorem merge_keeps_secondary_rows:
  assumes "healthy w" and "nil_on_empty w" and "nmt.unique (members (db w))"
    and "\<forall>m \<in> set (members (db w)). nm_UserID m \<noteq> p"
    and "run_state (MigrateMemberships p s) w = (r, w')"
  shows "r = Inr () \<and> set (members (db w)) \<subseteq> set (members (db w'))
    \<and> (\<forall>m \<in> set (members (db w)). nm_UserID m = s \<longrightarrow>
         (\<exists>m' \<in> set (members (db w')). nm_key m' = (nm_NamespaceID m, p) \<and> nm_Role m' = nm_Role m))"
proof -
  let ?mss = "filter (\<lambda>m. nm_UserID m = s) (members (db w))"
  have d: "distinct (map nm_NamespaceID ?mss)"
    using nmt.unique_delete [OF assms(3), of "\<lambda>m. nm_UserID m \<noteq> s"]
    by (auto simp: nmt.unique_def delete_where_def distinct_map inj_on_def nm_key_def)
  have f: "\<forall>ms \<in> set ?mss. nmt.lookup (nm_NamespaceID ms, p) (members (db w)) = None"
    using assms(4) by (auto simp: nmt.lookup_def find_None_iff nm_key_def)
  have "wp (MigrateMemberships p s) (\<lambda>r w'. r = Inr () \<and> copied p ?mss (db w) (db w')) w"
    using assms(1,2) d f migrate_loop_copies [of "advance w" ?mss p s]
    by (simp add: MigrateMemberships_def namespace_repo_defs)
  from wpD [OF assms(5) this] obtain new where r: "r = Inr ()" and db': "db w' = (db w)\<lparr>members := members (db w) @ new\<rparr>"
    and k: "map nm_key new = map (\<lambda>m. (nm_NamespaceID m, p)) ?mss" "map nm_Role new = map nm_Role ?mss"
    by (auto simp: copied_def)
  have "\<exists>m' \<in> set new. nm_key m' = (nm_NamespaceID m, p) \<and> nm_Role m' = nm_Role m" if m: "m \<in> set ?mss" for m
  proof -
    obtain i where i: "i < length ?mss" "?mss ! i = m" using m unfolding in_set_conv_nth by blast
    have "length new = length ?mss" using k(1) map_eq_imp_length_eq by blast
    with i have "new ! i \<in> set new" "nm_key (new ! i) = (nm_NamespaceID m, p)" "nm_Role (new ! i) = nm_Role m"
      using arg_cong [OF k(1), of "\<lambda>l. l ! i"] arg_cong [OF k(2), of "\<lambda>l. l ! i"] by auto
    then show ?thesis by blast
  qed
  then show ?thesis using r db' by auto
qed

theorem merge_keeps_secondary_rows_witness:
  "\<exists>w'. run_state (MigrateMemberships ''zed'' ''ann'') (calm True demo_db) = (Inr (), w')
     \<and> (\<exists>m' \<in> set (members (db w')). nm_key m' = (7, ''zed'') \<and> nm_Role m' = ''OWNER'')
     \<and> \<not> single_owner (db w')"
proof -
  obtain r w' where run: "run_state (MigrateMemberships ''zed'' ''ann'') (calm True demo_db) = (r, w')" by (metis surj_pair)
  have *: "r = Inr () \<and> set (members (db (calm True demo_db))) \<subseteq> set (members (db w'))
    \<and> (\<forall>m \<in> set (members (db (calm True demo_db))). nm_UserID m = ''ann'' \<longrightarrow>
         (\<exists>m' \<in> set (members (db w')). nm_key m' = (nm_NamespaceID m, ''zed'') \<and> nm_Role m' = nm_Role m))"
    by (rule merge_keeps_secondary_rows [OF _ _ _ _ run]) (simp_all add: nmt.unique_def)
  then obtain m' where m': "m' \<in> set (members (db w'))" "nm_key m' = (7, ''zed'')" "nm_Role m' = ''OWNER''"
    and ann: "demo_member 1 ''ann'' ''OWNER'' \<in> set (members (db w'))" by auto
  then have "m' = demo_member 1 ''ann'' ''OWNER''" if "single_owner (db w')"
    using single_ownerD(1) [OF that m'(1) ann] by (simp add: nm_key_def)
  then have "\<not> single_owner (db w')" using m'(2) by auto
  then show ?thesis using run * m' by auto
qed

section \<open>Creating over an existing slug\<close>

text \<open>Creating a namespace whose slug is taken succeeds when the lookup of the slug fails: the
  error is ignored and \<open>Save\<close> is an upsert on the slug, so the caller gets the existing namespace
  (its id and recorded creator are kept) with an OWNER row for the caller.\<close>

theorem create_takes_over_existing:
  assumes "Validate uni (ci_Slug input) = None" and "find (\<lambda>n. ns_Slug n = ci_Slug input) (namespaces (db w)) = Some ns"
    and "fault w (tick w)" and "\<forall>n > tick w. \<not> fault w n" and "\<not> aborted w" and "\<not> in_tx w"
    and "run_state (Create uni input) w = (r, w')"
  shows "\<exists>saved. r = Inr saved \<and> ns_ID saved = ns_ID ns \<and> ns_CreatedBy saved = ns_CreatedBy ns
     \<and> (\<exists>m \<in> set (members (db w')). nm_key m = (ns_ID ns, ci_CreatedBy input) \<and> nm_Role m = ''OWNER'')"
proof -
  have st: "nst.stored (ns_row (new_namespace input t1 t2) t i) (namespaces (db w)) = ns_merge (ns_row (new_namespace input t1 t2) t i) ns" for t1 t2 t i
    using assms(2) by (simp add: nst.stored_def upserted_def new_namespace_def)
  have mem: "\<exists>m \<in> set (nmt.save (nm_row (new_member a u ''OWNER'' t1 t2) t i) rs). nm_key m = (a, u) \<and> nm_Role m = ''OWNER''" for a u t1 t2 t i rs
    by (rule bexI [OF _ nmt.stored_in]) (simp add: new_member_def nm_key_def)
  have "wp (Create uni input) (\<lambda>r w'. \<exists>saved. r = Inr saved \<and> ns_ID saved = ns_ID ns \<and> ns_CreatedBy saved = ns_CreatedBy ns
     \<and> (\<exists>m \<in> set (members (db w')). nm_key m = (ns_ID ns, ci_CreatedBy input) \<and> nm_Role m = ''OWNER'')) w"
    using assms(1-6)
    by (simp add: Create_def namespace_repo_defs Let_def stmt_fails_def st mem) (simp add: ns_merge_def advance_def fail_stmt_def take_id_def, rule mem)
  from wpD [OF assms(7) this] show ?thesis .
qed


text \<open>The worlds below hold ASCII slugs only, so Unicode's tables are never asked.\<close>

definition ascii_unicode :: unicode where
  "ascii_unicode = \<lparr>uni_has_upper = (\<lambda>_. False), uni_slug_match = (\<lambda>_. False)\<rparr>"

definition glitch :: world where
  "glitch = (calm False demo_db)\<lparr>fault := (\<lambda>n. n = 0)\<rparr>"

definition demo_create :: CreateNamespaceInput where
  "demo_create = \<lparr>ci_Slug = ''team'', ci_DisplayName = ''Mine'', ci_Type = ''TEAM'', ci_Description = [], ci_CreatedBy = ''mallory''\<rparr>"

theorem create_takes_over_existing_witness:
  "\<exists>saved w'. run_state (Create ascii_unicode demo_create) glitch = (Inr saved, w') \<and> ns_ID saved = 7
     \<and> (\<exists>m \<in> set (members (db w')). nm_key m = (7, ''mallory'') \<and> nm_Role m = ''OWNER'')"
proof -
  obtain r w' where run: "run_state (Create ascii_unicode demo_create) glitch = (r, w')" by (metis surj_pair)
  have "\<exists>saved. r = Inr saved \<and> ns_ID saved = ns_ID demo_ns \<and> ns_CreatedBy saved = ns_CreatedBy demo_ns
     \<and> (\<exists>m \<in> set (members (db w')). nm_key m = (ns_ID demo_ns, ci_CreatedBy demo_create) \<and> nm_Role m = ''OWNER'')"
    by (rule create_takes_over_existing [OF _ _ _ _ _ _ run]) (simp_all add: glitch_def demo_create_def, code_simp)
  then show ?thesis using run by (auto simp: demo_create_def)
qed

section \<open>The namespace tables as a state machine\<close>

definition ns_ids :: "database \<Rightarrow> int set" where
  "ns_ids d = ns_ID ` set (namespaces d)"

text \<open>What may happen to the membership rows of existing namespaces.\<close>

inductive member_step :: "database \<Rightarrow> database \<Rightarrow> bool" where
  put: "nm_NamespaceID m \<in> ns_ids d \<Longrightarrow> nm_Role m \<noteq> ''OWNER''
     \<Longrightarrow> pred_option (\<lambda>old. nm_Role old \<noteq> ''OWNER'') (nmt.lookup (nm_key m) (members d))
     \<Longrightarrow> member_step d (d\<lparr>members := nmt.save (nm_row m t i) (members d)\<rparr>)"
| drop: "pred_option (\<lambda>old. nm_Role old \<noteq> ''OWNER'') (nmt.lookup k (members d))
     \<Longrightarrow> member_step d (d\<lparr>members := delete_where (\<lambda>m. nm_key m = k) (members d)\<rparr>)"
| handover: "cur \<in> set (members d) \<Longrightarrow> nm_Role cur = ''OWNER'' \<Longrightarrow> new \<in> set (members d) \<Longrightarrow> nm_NamespaceID new = nm_NamespaceID cur
     \<Longrightarrow> member_step d (d\<lparr>members := nmt.save (nm_row (promote new t0) t2 i2) (nmt.save (nm_row (demote cur t0) t1 i1) (members d))\<rparr>)"

text \<open>What may happen to the tables as a whole; the counter is the namespace id sequence.\<close>

inductive tables_step :: "int \<times> database \<Rightarrow> int \<times> database \<Rightarrow> bool" where
  member: "member_step d d' \<Longrightarrow> tables_step (s, d) (s, d')"
| rewrite: "ns \<in> set (namespaces d) \<Longrightarrow> ns_ID ns' = ns_ID ns \<Longrightarrow> ns_Slug ns' = ns_Slug ns \<Longrightarrow> s \<le> s'
     \<Longrightarrow> tables_step (s, d) (s', d\<lparr>namespaces := update_where (\<lambda>n. ns_Slug n = ns_Slug ns) (\<lambda>_. ns') (namespaces d)\<rparr>)"
| found: "nst.lookup (ns_Slug ns) (namespaces d) = None \<Longrightarrow> ns_ID ns = s + 1 \<Longrightarrow> nm_NamespaceID m = s + 1 \<Longrightarrow> nm_Role m = ''OWNER''
     \<Longrightarrow> tables_step (s, d) (s + 1, d\<lparr>namespaces := namespaces d @ [ns], members := nmt.save m (members d)\<rparr>)"
| dissolve: "tables_step (s, d) (s, d\<lparr>members := delete_where (\<lambda>m. nm_NamespaceID m = i) (members d),
       namespaces := delete_where (\<lambda>n. ns_ID n = i) (namespaces d)\<rparr>)"

text \<open>Every namespace has an owner, no two rows of a namespace are owners, every row belongs to a
  namespace, and slugs, ids and membership keys are unique.\<close>

definition owned :: "database \<Rightarrow> bool" where
  "owned d \<longleftrightarrow> (\<forall>i \<in> ns_ids d. \<exists>m \<in> set (members d). nm_NamespaceID m = i \<and> nm_Role m = ''OWNER'')"

definition tables_inv :: "int \<times> database \<Rightarrow> bool" where
  "tables_inv c \<longleftrightarrow> (case c of (s, d) \<Rightarrow> nst.unique (namespaces d) \<and> distinct (map ns_ID (namespaces d))
     \<and> (\<forall>i \<in> ns_ids d. i \<le> s) \<and> single_owner d \<and> owned d
     \<and> (\<forall>m \<in> set (members d). nm_NamespaceID m \<in> ns_ids d))"

lemma non_owner_key:
  assumes "single_owner d" and "pred_option (\<lambda>old. nm_Role old \<noteq> ''OWNER'') (nmt.lookup k (members d))"
    and "x \<in> set (members d)" and "nm_Role x = ''OWNER''"
  shows "nm_key x \<noteq> k"
  using assms nmt.lookup_unique [OF single_ownerD(2) [OF assms(1)] assms(3)] by auto

lemma ns_ids_members [simp]: "ns_ids (d\<lparr>members := ms\<rparr>) = ns_ids d"
  by (simp add: ns_ids_def)

lemma ownedD: "owned d \<Longrightarrow> i \<in> ns_ids d \<Longrightarrow> \<exists>x. x \<in> set (members d) \<and> nm_NamespaceID x = i \<and> nm_Role x = ''OWNER''"
  unfolding owned_def by blast

lemma tables_invI:
  assumes "nst.unique (namespaces d)" "distinct (map ns_ID (namespaces d))" "\<And>i. i \<in> ns_ids d \<Longrightarrow> i \<le> s" "single_owner d"
    and "\<And>i. i \<in> ns_ids d \<Longrightarrow> \<exists>m \<in> set (members d). nm_NamespaceID m = i \<and> nm_Role m = ''OWNER''"
    and "\<And>m. m \<in> set (members d) \<Longrightarrow> nm_NamespaceID m \<in> ns_ids d"
  shows "tables_inv (s, d)"
  using assms by (simp add: tables_inv_def owned_def)

lemma tables_invD:
  assumes "tables_inv (s, d)"
  shows "nst.unique (namespaces d)" "distinct (map ns_ID (namespaces d))" "i \<in> ns_ids d \<Longrightarrow> i \<le> s" "single_owner d" "owned d"
    "m \<in> set (members d) \<Longrightarrow> nm_NamespaceID m \<in> ns_ids d"
  using assms by (auto simp: tables_inv_def)

text \<open>The rows of a namespace other than the saved one survive.\<close>

lemma owner_survives:
  assumes "owned d" and "i \<in> ns_ids d" and "\<And>x. x \<in> set (members d) \<Longrightarrow> nm_NamespaceID x = i \<Longrightarrow> nm_Role x = ''OWNER'' \<Longrightarrow> x \<in> set ms"
  shows "\<exists>m \<in> set ms. nm_NamespaceID m = i \<and> nm_Role m = ''OWNER''"
  using ownedD [OF assms(1,2)] assms(3) by blast

lemma member_step_inv:
  assumes "member_step d d'" and "tables_inv (s, d)"
  shows "tables_inv (s, d')"
  using assms
proof (induction rule: member_step.induct)
  case (put m d t i)
  note inv = tables_invD [OF put(4)]
  show ?case
  proof (rule tables_invI)
    fix j assume "j \<in> ns_ids (d\<lparr>members := nmt.save (nm_row m t i) (members d)\<rparr>)"
    then show "\<exists>x \<in> set (members (d\<lparr>members := nmt.save (nm_row m t i) (members d)\<rparr>)). nm_NamespaceID x = j \<and> nm_Role x = ''OWNER''"
      using non_owner_key [OF inv(4) put(3)] by (intro owner_survives [OF inv(5)]) (auto intro!: nmt.save_keeps)
  next
    fix x assume "x \<in> set (members (d\<lparr>members := nmt.save (nm_row m t i) (members d)\<rparr>))"
    then show "nm_NamespaceID x \<in> ns_ids (d\<lparr>members := nmt.save (nm_row m t i) (members d)\<rparr>)"
      using nmt.save_others [of x "nm_row m t i" "members d"] put(1) inv(6) by auto
  qed (use inv single_owner_save [OF inv(4) put(2)] in auto)
next
  case (drop k d)
  note inv = tables_invD [OF drop(2)]
  let ?d = "d\<lparr>members := delete_where (\<lambda>m. nm_key m = k) (members d)\<rparr>"
  show ?case
  proof (rule tables_invI)
    fix j assume "j \<in> ns_ids ?d"
    then show "\<exists>x \<in> set (members ?d). nm_NamespaceID x = j \<and> nm_Role x = ''OWNER''"
      using non_owner_key [OF inv(4) drop(1)] by (intro owner_survives [OF inv(5)]) auto
  qed (use inv single_owner_delete in auto)
next
  case (handover cur d new t0 t2 i2 t1 i1)
  note inv = tables_invD [OF handover(5)]
  let ?ms = "nmt.save (nm_row (demote cur t0) t1 i1) (members d)"
  let ?pro = "nm_row (promote new t0) t2 i2"
  show ?case
  proof (rule tables_invI)
    show "single_owner (d\<lparr>members := nmt.save ?pro ?ms\<rparr>)"
      using single_owner_transfer [OF inv(4) handover(1,2,4) refl] by simp
  next
    fix j assume j: "j \<in> ns_ids (d\<lparr>members := nmt.save ?pro ?ms\<rparr>)"
    show "\<exists>x \<in> set (members (d\<lparr>members := nmt.save ?pro ?ms\<rparr>)). nm_NamespaceID x = j \<and> nm_Role x = ''OWNER''"
    proof (cases "j = nm_NamespaceID cur")
      case True
      then show ?thesis using handover(4) nmt.stored_in [of ?pro ?ms] by (intro bexI [of _ "nmt.stored ?pro ?ms"]) simp_all
    next
      case False
      then show ?thesis using j handover(4)
        by (intro owner_survives [OF inv(5)]) (auto intro!: nmt.save_keeps simp: nm_key_def)
    qed
  next
    fix x assume "x \<in> set (members (d\<lparr>members := nmt.save ?pro ?ms\<rparr>))"
    then show "nm_NamespaceID x \<in> ns_ids (d\<lparr>members := nmt.save ?pro ?ms\<rparr>)"
      using nmt.save_others [of x ?pro ?ms] nmt.save_others [of x _ "members d"] handover(1,4) inv(6) by fastforce
  qed (use inv in auto)
qed

lemma map_rewrite:
  assumes "nst.unique rs" and "ns \<in> set rs" and "f ns' = f ns"
  shows "map f (update_where (\<lambda>n. ns_Slug n = ns_Slug ns) (\<lambda>_. ns') rs) = map f rs"
  using nst.key_inj [OF assms(1) _ assms(2)] assms(3) by (auto simp: update_where_def)

lemma tables_step_inv:
  assumes "tables_step c c'" and "tables_inv c"
  shows "tables_inv c'"
  using assms
proof (induction rule: tables_step.induct)
  case (member d d' s)
  then show ?case by (rule member_step_inv)
next
  case (rewrite ns d ns' s s')
  note inv = tables_invD [OF rewrite(5)]
  let ?d = "d\<lparr>namespaces := update_where (\<lambda>n. ns_Slug n = ns_Slug ns) (\<lambda>_. ns') (namespaces d)\<rparr>"
  have m: "map ns_ID (namespaces ?d) = map ns_ID (namespaces d)" "map ns_Slug (namespaces ?d) = map ns_Slug (namespaces d)"
    using map_rewrite [OF inv(1) rewrite(1), of ns_ID ns'] map_rewrite [OF inv(1) rewrite(1), of ns_Slug ns'] rewrite(2,3) by simp_all
  then have ids: "ns_ids ?d = ns_ids d" unfolding ns_ids_def by (metis set_map)
  have "single_owner ?d" using inv(4) by (simp add: single_owner_def)
  moreover have "\<exists>x \<in> set (members ?d). nm_NamespaceID x = i \<and> nm_Role x = ''OWNER''" if "i \<in> ns_ids ?d" for i
    using that ids ownedD [OF inv(5)] by auto
  moreover have "nst.unique (namespaces ?d)" using m(2) inv(1) by (simp add: nst.unique_def)
  ultimately show ?case using m ids inv rewrite(4)
    by (intro tables_invI) (auto intro: order_trans)
next
  case (found ns d s m)
  note inv = tables_invD [OF found(5)]
  let ?d = "d\<lparr>namespaces := namespaces d @ [ns], members := nmt.save m (members d)\<rparr>"
  have ids: "ns_ids ?d = insert (s + 1) (ns_ids d)" using found(2) by (simp add: ns_ids_def)
  have new: "x \<in> set (members d) \<Longrightarrow> nm_NamespaceID x \<noteq> s + 1" for x
    using inv(3,6) by fastforce
  have fresh: "nmt.save m (members d) = members d @ [m]"
    using new found(3) by (intro nmt.save_fresh) (auto simp: nmt.lookup_def find_None_iff nm_key_def)
  show ?case
  proof (rule tables_invI)
    show "nst.unique (namespaces ?d)" using nst.unique_append [OF inv(1) found(1)] by simp
    show "distinct (map ns_ID (namespaces ?d))" using inv(2,3) found(2) by (force simp: ns_ids_def)
    show "single_owner ?d"
    proof (rule single_ownerI)
      show "nmt.unique (members ?d)" using single_ownerD(2) [OF inv(4)] by (simp add: nmt.unique_save)
    qed (use single_ownerD(1) [OF inv(4)] new found(3) in \<open>simp add: fresh, metis\<close>)
  next
    fix i assume "i \<in> ns_ids ?d"
    then show "\<exists>x \<in> set (members ?d). nm_NamespaceID x = i \<and> nm_Role x = ''OWNER''"
      using ids ownedD [OF inv(5)] found(3,4) by (auto simp: fresh)
  next
    fix x assume "x \<in> set (members ?d)"
    then show "nm_NamespaceID x \<in> ns_ids ?d" using ids inv(6) found(3) by (auto simp: fresh)
  qed (use ids inv(3) in fastforce)
next
  case (dissolve s d i)
  note inv = tables_invD [OF dissolve]
  let ?d = "d\<lparr>members := delete_where (\<lambda>m. nm_NamespaceID m = i) (members d), namespaces := delete_where (\<lambda>n. ns_ID n = i) (namespaces d)\<rparr>"
  have ids: "ns_ids ?d = ns_ids d - {i}" by (auto simp: ns_ids_def)
  have "single_owner ?d"
    using single_owner_delete [OF inv(4), of "\<lambda>m. nm_NamespaceID m = i"] by (simp add: single_owner_def)
  moreover have "distinct (map ns_ID (namespaces ?d))"
    using inv(2) by (simp add: delete_where_def distinct_map inj_on_def)
  moreover have "\<exists>x \<in> set (members ?d). nm_NamespaceID x = j \<and> nm_Role x = ''OWNER''" if "j \<in> ns_ids ?d" for j
    using that ids ownedD [OF inv(5), of j] by auto
  ultimately show ?case using ids inv nst.unique_delete [OF inv(1)] by (intro tables_invI) auto
qed

section \<open>The services refine the state machine\<close>

datatype NsRequest =
    RCreate CreateNamespaceInput | RUpdate int string UpdateNamespaceInput | RGovern GovAction int string
  | RDelete int string | RAdd AddMemberInput | RRemove RemoveMemberInput | RRole UpdateMemberRoleInput
  | RTransfer TransferOwnershipInput | RBatch int "BatchMemberEntry list" string | REnsure string

definition quiet :: "'a op \<Rightarrow> unit op" where
  "quiet m = do { _ \<leftarrow> m; ok () }"

text \<open>The services as \<open>cmd/skillhub-server/main.go\<close> wires them: no transactor, no audit recorder,
  no dependency checkers.\<close>

fun serve :: "unicode \<Rightarrow> NsRequest \<Rightarrow> unit op" where
  "serve uni (RCreate input) = quiet (Create uni input)"
| "serve uni (RUpdate i user input) = quiet (Update i user input)"
| "serve uni (RGovern act i user) = quiet (govern act None i user)"
| "serve uni (RDelete i user) = Delete None None None i user"
| "serve uni (RAdd input) = quiet (AddMember input)"
| "serve uni (RRemove input) = RemoveMember input"
| "serve uni (RRole input) = quiet (UpdateMemberRole input)"
| "serve uni (RTransfer input) = TransferOwnership None input"
| "serve uni (RBatch i es caller) = quiet (BatchAddMembers i es caller)"
| "serve uni (REnsure user) = EnsureMember user"

definition cfg :: "world \<Rightarrow> int \<times> database" where
  "cfg w = (seqs w ''namespace_id_seq'', db w)"

definition refines :: "world \<Rightarrow> world \<Rightarrow> bool" where
  "refines w w' \<longleftrightarrow> healthy w' \<and> tables_step\<^sup>*\<^sup>* (cfg w) (cfg w')"

lemma cfg_simps [simp]:
  "cfg (advance w) = cfg w" "s \<noteq> ''namespace_id_seq'' \<Longrightarrow> cfg (take_id s w) = cfg w" "cfg (set_db d w) = (seqs w ''namespace_id_seq'', d)"
  by (simp_all add: cfg_def take_id_def)

lemma refines_same: "healthy w' \<Longrightarrow> cfg w' = cfg w \<Longrightarrow> refines w w'"
  by (simp add: refines_def)

lemma refines_step: "healthy w' \<Longrightarrow> tables_step (seqs w ''namespace_id_seq'', db w) (cfg w') \<Longrightarrow> refines w w'"
  by (auto simp: refines_def cfg_def)

lemma refines_trans: "refines w v \<Longrightarrow> refines v w' \<Longrightarrow> refines w w'"
  by (auto simp: refines_def)

lemma find_ns_ids: "find (\<lambda>n. ns_ID n = i) (namespaces d) = Some ns \<Longrightarrow> i \<in> ns_ids d"
  by (auto dest!: find_SomeD simp: ns_ids_def)

lemma refines_put:
  "db w' = (db w)\<lparr>members := nmt.save (nm_row m t i) (members (db w))\<rparr>
     \<Longrightarrow> nm_NamespaceID m \<in> ns_ids (db w) \<Longrightarrow> nm_Role m \<noteq> ''OWNER''
     \<Longrightarrow> pred_option (\<lambda>old. nm_Role old \<noteq> ''OWNER'') (nmt.lookup (nm_key m) (members (db w)))
     \<Longrightarrow> healthy w' \<Longrightarrow> seqs w' ''namespace_id_seq'' = seqs w ''namespace_id_seq'' \<Longrightarrow> refines w w'"
  using tables_step.member [OF member_step.put [of m "db w" t i]] by (simp add: refines_step cfg_def)

lemma refines_role:
  assumes "nmt.lookup (i, u) (members (db w)) = Some m" and "nm_Role m \<noteq> ''OWNER''" and "i \<in> ns_ids (db w)" and "role \<noteq> ''OWNER''"
    and "healthy w'" and "seqs w' ''namespace_id_seq'' = seqs w ''namespace_id_seq''"
    and "db w' = (db w)\<lparr>members := nmt.save (nm_row (m\<lparr>nm_Role := role, nm_UpdatedAt := t0\<rparr>) t n) (members (db w))\<rparr>"
  shows "refines w w'"
  using assms nmt.lookup_SomeD [OF assms(1)]
  by (intro refines_put [where m = "m\<lparr>nm_Role := role, nm_UpdatedAt := t0\<rparr>" and t = t and i = n]) (auto simp: nm_key_def)

lemma refines_drop:
  "nmt.lookup k (members (db w)) = Some old \<Longrightarrow> nm_Role old \<noteq> ''OWNER'' \<Longrightarrow> healthy w'
     \<Longrightarrow> seqs w' ''namespace_id_seq'' = seqs w ''namespace_id_seq''
     \<Longrightarrow> db w' = (db w)\<lparr>members := delete_where (\<lambda>m. nm_key m = k) (members (db w))\<rparr> \<Longrightarrow> refines w w'"
  using tables_step.member [OF member_step.drop [of k "db w"]] by (simp add: refines_step cfg_def)

lemma new_member_simps [simp]:
  "nm_key (new_member i u r t t') = (i, u)" "nm_NamespaceID (new_member i u r t t') = i" "nm_Role (new_member i u r t t') = r"
  by (simp_all add: new_member_def nm_key_def)

lemmas refine_unfold = namespace_repo_defs Let_def nmt.lookup_def [symmetric]

lemma add_refines: "healthy w \<Longrightarrow> wp (AddMember input) (\<lambda>_. refines w) w"
  by (simp add: AddMember_def refine_unfold split: option.splits)
    (auto intro: refines_same refines_put simp: find_ns_ids)

lemma role_refines: "healthy w \<Longrightarrow> wp (UpdateMemberRole input) (\<lambda>_. refines w) w"
  by (simp add: UpdateMemberRole_def refine_unfold split: option.splits)
    (auto intro: refines_same refines_role simp: find_ns_ids)

lemma remove_refines: "healthy w \<Longrightarrow> wp (RemoveMember input) (\<lambda>_. refines w) w"
  by (simp add: RemoveMember_def refine_unfold split: option.splits)
    (auto intro: refines_same refines_drop)

lemma refines_handover:
  "nmt.lookup (i, u) (members (db w)) = Some cur \<Longrightarrow> nm_Role cur = ''OWNER'' \<Longrightarrow> nmt.lookup (i, v) (members (db w)) = Some new
     \<Longrightarrow> healthy w' \<Longrightarrow> seqs w' ''namespace_id_seq'' = seqs w ''namespace_id_seq''
     \<Longrightarrow> db w' = (db w)\<lparr>members := nmt.save (nm_row (promote new t0) t2 i2) (nmt.save (nm_row (demote cur t0) t1 i1) (members (db w)))\<rparr>
     \<Longrightarrow> refines w w'"
  by (intro refines_step, assumption, simp add: cfg_def, intro tables_step.member member_step.handover)
    (auto dest!: nmt.lookup_SomeD simp: nm_key_def)

lemma transfer_refines: "healthy w \<Longrightarrow> wp (TransferOwnership None input) (\<lambda>_. refines w) w"
  by (simp add: TransferOwnership_def transfer_unit_def transfer_writes_def refine_unfold split: option.splits)
    (auto intro: refines_same refines_handover)

lemma ensure_refines: "healthy w \<Longrightarrow> wp (EnsureMember user) (\<lambda>_. refines w) w"
  by (simp add: EnsureMember_def refine_unfold split: option.splits)
    (auto intro: refines_same refines_put dest!: find_SomeD simp: ns_ids_def)

lemma batch_loop_refines:
  assumes "healthy w" and "nsID \<in> ns_ids (db w)"
  shows "wp (batch_loop nsID t es res) (\<lambda>_. refines w) w"
  using assms
proof (induction es arbitrary: res w)
  case (Cons e es)
  have IH: "wp (batch_loop nsID t es res') (\<lambda>_. refines w) v" if "refines w v" "ns_ids (db v) = ns_ids (db w)" for res' v
    using that Cons.IH [of v res'] Cons.prems by (auto simp: refines_def elim!: wp_mono)
  show ?case using Cons.prems
    by (simp add: refine_unfold split: option.splits) (auto intro!: IH intro: refines_same refines_put)
qed (simp add: refines_same)

lemma batch_refines: "healthy w \<Longrightarrow> wp (BatchAddMembers i es caller) (\<lambda>_. refines w) w"
  by (simp add: BatchAddMembers_def namespace_repo_defs Let_def split: option.splits)
    (auto intro!: wp_mono [OF batch_loop_refines] intro: refines_same simp: find_ns_ids refines_def)

lemma refines_rewrite:
  assumes "db w' = (db w)\<lparr>namespaces := nst.save (ns_row n t i) (namespaces (db w))\<rparr>"
    and "nst.lookup (ns_Slug n) (namespaces (db w)) = Some ns" and "nst.unique (namespaces (db w))"
    and "healthy w'" and "seqs w ''namespace_id_seq'' \<le> seqs w' ''namespace_id_seq''"
  shows "refines w w'"
proof -
  have "nst.save (ns_row n t i) (namespaces (db w))
      = update_where (\<lambda>r. ns_Slug r = ns_Slug ns) (\<lambda>_. ns_merge (ns_row n t i) ns) (namespaces (db w))"
    using nst.save_existing [OF assms(3), of ns "ns_row n t i"] nst.lookup_SomeD [OF assms(2)] by simp
  then show ?thesis
    using tables_step.rewrite [of ns "db w" "ns_merge (ns_row n t i) ns" "seqs w ''namespace_id_seq''" "seqs w' ''namespace_id_seq''"] assms nst.lookup_SomeD [OF assms(2)]
    by (simp add: refines_step cfg_def ns_merge_def)
qed

lemma slug_of_update [simp]: "ns_Slug (apply_update input ns) = ns_Slug ns"
  by (simp add: apply_update_def)

lemma found_by_id: "nst.unique rs \<Longrightarrow> find (\<lambda>n. ns_ID n = i) rs = Some ns \<Longrightarrow> nst.lookup (ns_Slug ns) rs = Some ns"
  by (auto dest!: find_SomeD intro: nst.lookup_unique)

lemma update_refines: "healthy w \<Longrightarrow> nst.unique (namespaces (db w)) \<Longrightarrow> wp (Update i user input) (\<lambda>_. refines w) w"
  by (simp add: Update_def requireRole_def refine_unfold split: option.splits)
    (auto intro: refines_same refines_rewrite simp: found_by_id)

lemma govern_refines: "healthy w \<Longrightarrow> nst.unique (namespaces (db w)) \<Longrightarrow> wp (govern act None i user) (\<lambda>_. refines w) w"
  by (cases act; simp add: governance_defs refine_unfold notify_def split: option.splits;
      auto intro: refines_same refines_rewrite simp: found_by_id)

lemma refines_dissolve:
  "db w' = (db w)\<lparr>members := delete_where (\<lambda>m. nm_NamespaceID m = i) (members (db w)),
       namespaces := delete_where (\<lambda>n. ns_ID n = i) (namespaces (db w))\<rparr>
     \<Longrightarrow> healthy w' \<Longrightarrow> seqs w' ''namespace_id_seq'' = seqs w ''namespace_id_seq'' \<Longrightarrow> refines w w'"
  using tables_step.dissolve by (simp add: refines_step cfg_def)

lemma delete_refines: "healthy w \<Longrightarrow> wp (Delete None None None i user) (\<lambda>_. refines w) w"
  by (simp add: Delete_def requireRole_def refine_unfold split: option.splits)
    (auto intro: refines_same refines_dissolve)

lemma refines_found:
  assumes "db w' = (db w)\<lparr>namespaces := nst.save ns (namespaces (db w)), members := nmt.save m (members (db w))\<rparr>"
    and "nst.lookup (ns_Slug ns) (namespaces (db w)) = None" and "ns_ID ns = seqs w ''namespace_id_seq'' + 1"
    and "nm_NamespaceID m = seqs w ''namespace_id_seq'' + 1" and "nm_Role m = ''OWNER''"
    and "healthy w'" and "seqs w' ''namespace_id_seq'' = seqs w ''namespace_id_seq'' + 1"
  shows "refines w w'"
  using tables_step.found [OF assms(2-5)] assms(1,6,7) nst.save_fresh [OF assms(2)] by (simp add: refines_step cfg_def)

lemma create_refines: "healthy w \<Longrightarrow> wp (Create uni input) (\<lambda>_. refines w) w"
  by (simp add: Create_def refine_unfold nst.lookup_def [symmetric] split: option.splits)
    (auto intro: refines_same refines_found simp: nst.stored_fresh new_namespace_def next_id_def)

lemma wp_quiet: "wp m (\<lambda>_. P) w \<Longrightarrow> wp (quiet m) (\<lambda>_. P) w"
  by (auto simp: quiet_def wp_def split: prod.splits)

lemma serve_wp: "healthy w \<Longrightarrow> tables_inv (cfg w) \<Longrightarrow> wp (serve uni req) (\<lambda>_. refines w) w"
  by (cases req) (simp_all add: wp_quiet create_refines update_refines govern_refines delete_refines add_refines
      remove_refines role_refines transfer_refines batch_refines ensure_refines cfg_def tables_inv_def)


section \<open>Reachable states\<close>

inductive reachable :: "world \<Rightarrow> bool" where
  start: "healthy w \<Longrightarrow> namespaces (db w) = [] \<Longrightarrow> members (db w) = [] \<Longrightarrow> reachable w"
| request: "reachable w \<Longrightarrow> run_state (serve uni req) w = (r, w') \<Longrightarrow> reachable w'"

inductive_cases reachable_cases: "reachable w"

lemma tables_steps_inv: "tables_step\<^sup>*\<^sup>* c c' \<Longrightarrow> tables_inv c \<Longrightarrow> tables_inv c'"
  by (induction rule: rtranclp_induct) (auto intro: tables_step_inv)

lemma reachable_inv: "reachable w \<Longrightarrow> healthy w \<and> tables_inv (cfg w)"
proof (induction rule: reachable.induct)
  case (start w)
  then show ?case
    by (auto simp: cfg_def tables_inv_def owned_def ns_ids_def single_owner_def nst.unique_def nmt.unique_def)
next
  case (request w uni req r w')
  then have "refines w w'" using wpD [OF request(2) serve_wp] by blast
  then show ?case using request(3) tables_steps_inv [of "cfg w" "cfg w'"] by (simp add: refines_def)
qed

text \<open>C1: in every state reachable from empty tables by any sequence of namespace requests, each
  namespace has exactly one owner, every membership row belongs to a namespace, and slugs and
  ids are unique. Statements are assumed not to fail: the previous properties show what a failing
  lookup can do.\<close>

theorem exactly_one_owner:
  assumes "reachable w"
  shows "(\<forall>n \<in> set (namespaces (db w)). \<exists>!m. m \<in> set (members (db w)) \<and> nm_NamespaceID m = ns_ID n \<and> nm_Role m = ''OWNER'')
    \<and> (\<forall>m \<in> set (members (db w)). \<exists>n \<in> set (namespaces (db w)). nm_NamespaceID m = ns_ID n)
    \<and> distinct (map ns_Slug (namespaces (db w))) \<and> distinct (map ns_ID (namespaces (db w)))"
proof -
  have inv: "tables_inv (seqs w ''namespace_id_seq'', db w)" using reachable_inv [OF assms] by (simp add: cfg_def)
  note D = tables_invD [OF inv]
  have "\<exists>!m. m \<in> set (members (db w)) \<and> nm_NamespaceID m = ns_ID n \<and> nm_Role m = ''OWNER''"
    if "n \<in> set (namespaces (db w))" for n
    using ownedD [OF D(5), of "ns_ID n"] that single_ownerD(1) [OF D(4)] by (auto simp: ns_ids_def)
  moreover have "\<exists>n \<in> set (namespaces (db w)). nm_NamespaceID m = ns_ID n" if "m \<in> set (members (db w))" for m
    using D(6) [OF that] by (auto simp: ns_ids_def)
  ultimately show ?thesis using D(1,2) by (simp add: nst.unique_def)
qed

definition fresh_create :: CreateNamespaceInput where
  "fresh_create = demo_create\<lparr>ci_Slug := ''crew''\<rparr>"

theorem exactly_one_owner_witness:
  "\<exists>w n. reachable w \<and> namespaces (db w) = [n] \<and>
     (\<exists>!m. m \<in> set (members (db w)) \<and> nm_NamespaceID m = ns_ID n \<and> nm_Role m = ''OWNER'')"
proof -
  let ?w = "calm False empty_db" and ?req = "RCreate fresh_create"
  obtain r w' where run: "run_state (serve ascii_unicode ?req) ?w = (r, w')" by (metis surj_pair)
  have "reachable ?w" by (rule reachable.start) (simp_all add: empty_db_def)
  then have re: "reachable w'" using run by (rule reachable.request)
  have v: "Validate ascii_unicode (ci_Slug fresh_create) = None" by code_simp
  have "wp (serve ascii_unicode ?req) (\<lambda>_ w'. \<exists>n. namespaces (db w') = [n]) ?w"
    by (simp add: quiet_def Create_def v namespace_repo_defs stmt_fails_def nst.save_def empty_db_def)
  with run obtain n where "namespaces (db w') = [n]" by (blast dest: wpD)
  moreover from this have "\<exists>!m. m \<in> set (members (db w')) \<and> nm_NamespaceID m = ns_ID n \<and> nm_Role m = ''OWNER''"
    using exactly_one_owner [OF re] by simp
  ultimately show ?thesis using re by blast
qed


end
