(* ===== verification/SkillRepo.thy ===== *)
theory SkillRepo
  imports World
begin

text \<open>
  \<open>postgres/skill_repo.go\<close> and \<open>skill_extra_repo.go\<close>: skills, versions, files, tags and download
  statistics. \<open>Save\<close> of a skill, a version or a tag is an upsert on the table's unique key
  (namespace, slug and owner; skill and version; skill and tag name); skills and versions return
  the struct they were given with only the id read back. A clock is read once per \<open>Save\<close>,
  whether or not a zero timestamp needs its value.
\<close>

section \<open>Skills\<close>

definition SkillRepo_FindByID :: "int \<Rightarrow> Skill option op" where
  "SkillRepo_FindByID i = query_row (\<lambda>d. find (\<lambda>s. sk_ID s = i) (skills d))"

definition SkillRepo_FindByIDs :: "int list \<Rightarrow> Skill list op" where
  "SkillRepo_FindByIDs is = db_query (\<lambda>d. filter (\<lambda>s. sk_ID s \<in> set is) (skills d))"

definition SkillRepo_FindAll :: "Skill list op" where
  "SkillRepo_FindAll = db_query (\<lambda>d. order_desc sk_CreatedAt (skills d))"

definition SkillRepo_FindByNamespaceIDAndSlug :: "int \<Rightarrow> string \<Rightarrow> Skill list op" where
  "SkillRepo_FindByNamespaceIDAndSlug nsID slug =
     db_query (\<lambda>d. filter (\<lambda>s. sk_NamespaceID s = nsID \<and> sk_Slug s = slug) (skills d))"

text \<open>The join with the namespace table on its id.\<close>

definition SkillRepo_FindByNamespaceSlugAndSlug :: "string \<Rightarrow> string \<Rightarrow> Skill list op" where
  "SkillRepo_FindByNamespaceSlugAndSlug nsSlug slug =
     db_query (\<lambda>d. concat (map (\<lambda>s. map (\<lambda>n. s)
        (filter (\<lambda>n. ns_ID n = sk_NamespaceID s \<and> ns_Slug n = nsSlug \<and> sk_Slug s = slug) (namespaces d))) (skills d)))"

definition sk_key :: "Skill \<Rightarrow> int \<times> string \<times> string" where
  "sk_key s = (sk_NamespaceID s, sk_Slug s, sk_OwnerID s)"

definition SkillRepo_FindByNamespaceIDSlugOwner :: "int \<Rightarrow> string \<Rightarrow> string \<Rightarrow> Skill option op" where
  "SkillRepo_FindByNamespaceIDSlugOwner nsID slug owner =
     query_row (\<lambda>d. find (\<lambda>s. sk_key s = (nsID, slug, owner)) (skills d))"

definition SkillRepo_FindByOwnerID :: "string \<Rightarrow> Skill list op" where
  "SkillRepo_FindByOwnerID owner =
     db_query (\<lambda>d. order_desc sk_UpdatedAt (filter (\<lambda>s. sk_OwnerID s = owner) (skills d)))"

definition SkillRepo_FindBySlug :: "string \<Rightarrow> Skill list op" where
  "SkillRepo_FindBySlug slug = db_query (\<lambda>d. filter (\<lambda>s. sk_Slug s = slug) (skills d))"

definition SkillRepo_ExistsByNamespaceID :: "int \<Rightarrow> bool op" where
  "SkillRepo_ExistsByNamespaceID nsID = db_query (\<lambda>d. list_ex (\<lambda>s. sk_NamespaceID s = nsID) (skills d))"

definition sk_merge :: "Skill \<Rightarrow> Skill \<Rightarrow> Skill" where
  "sk_merge new old = old\<lparr> sk_DisplayName := sk_DisplayName new, sk_Summary := sk_Summary new,
     sk_Visibility := sk_Visibility new, sk_Status := sk_Status new,
     sk_LatestVersionID := sk_LatestVersionID new, sk_Hidden := sk_Hidden new,
     sk_HiddenAt := sk_HiddenAt new, sk_HiddenBy := sk_HiddenBy new,
     sk_UpdatedBy := sk_UpdatedBy new, sk_UpdatedAt := sk_UpdatedAt new \<rparr>"

interpretation skt: keyed_rows sk_key sk_merge
  by unfold_locales (simp add: sk_key_def sk_merge_def)

definition sk_row :: "Skill \<Rightarrow> time \<Rightarrow> int \<Rightarrow> Skill" where
  "sk_row s t i = s\<lparr> sk_CreatedAt := (if IsZero (sk_CreatedAt s) then t else sk_CreatedAt s),
     sk_UpdatedAt := t, sk_ID := i \<rparr>"

definition SkillRepo_Save :: "Skill \<Rightarrow> Skill op" where
  "SkillRepo_Save s = do {
     t \<leftarrow> now;
     db_insert ''skill_id_seq'' (\<lambda>i d.
       Inr (sk_row s t (sk_ID (skt.stored (sk_row s t i) (skills d))),
            d\<lparr>skills := skt.save (sk_row s t i) (skills d)\<rparr>)) }"

definition SkillRepo_Delete :: "int \<Rightarrow> unit op" where
  "SkillRepo_Delete i = db_exec (\<lambda>d. ((), d\<lparr>skills := delete_where (\<lambda>s. sk_ID s = i) (skills d)\<rparr>))"

definition SkillRepo_IncrementDownloadCount :: "int \<Rightarrow> unit op" where
  "SkillRepo_IncrementDownloadCount i = db_exec (\<lambda>d. ((), d\<lparr>skills :=
     update_where (\<lambda>s. sk_ID s = i) (\<lambda>s. s\<lparr>sk_DownloadCount := sk_DownloadCount s + 1\<rparr>) (skills d)\<rparr>))"

definition SkillRepo_IncrementSubscriptionCount :: "int \<Rightarrow> unit op" where
  "SkillRepo_IncrementSubscriptionCount i = db_exec (\<lambda>d. ((), d\<lparr>skills :=
     update_where (\<lambda>s. sk_ID s = i) (\<lambda>s. s\<lparr>sk_SubscriptionCount := sk_SubscriptionCount s + 1\<rparr>) (skills d)\<rparr>))"

definition SkillRepo_DecrementSubscriptionCount :: "int \<Rightarrow> unit op" where
  "SkillRepo_DecrementSubscriptionCount i = db_exec (\<lambda>d. ((), d\<lparr>skills :=
     update_where (\<lambda>s. sk_ID s = i)
       (\<lambda>s. s\<lparr>sk_SubscriptionCount := (if sk_SubscriptionCount s > 0 then sk_SubscriptionCount s - 1 else 0)\<rparr>) (skills d)\<rparr>))"

section \<open>Versions\<close>

definition VersionRepo_FindByID :: "int \<Rightarrow> SkillVersion option op" where
  "VersionRepo_FindByID i = query_row (\<lambda>d. find (\<lambda>v. sv_ID v = i) (versions d))"

definition VersionRepo_FindByIDs :: "int list \<Rightarrow> SkillVersion list op" where
  "VersionRepo_FindByIDs is = db_query (\<lambda>d. filter (\<lambda>v. sv_ID v \<in> set is) (versions d))"

definition VersionRepo_FindBySkillID :: "int \<Rightarrow> SkillVersion list op" where
  "VersionRepo_FindBySkillID skillID =
     db_query (\<lambda>d. order_desc sv_CreatedAt (filter (\<lambda>v. sv_SkillID v = skillID) (versions d)))"

definition sv_key :: "SkillVersion \<Rightarrow> int \<times> string" where
  "sv_key v = (sv_SkillID v, sv_Version v)"

definition VersionRepo_FindBySkillIDAndVersion :: "int \<Rightarrow> string \<Rightarrow> SkillVersion option op" where
  "VersionRepo_FindBySkillIDAndVersion skillID ver = query_row (\<lambda>d. find (\<lambda>v. sv_key v = (skillID, ver)) (versions d))"

definition VersionRepo_FindBySkillIDAndStatus :: "int \<Rightarrow> string \<Rightarrow> SkillVersion list op" where
  "VersionRepo_FindBySkillIDAndStatus skillID status =
     db_query (\<lambda>d. order_desc sv_CreatedAt (filter (\<lambda>v. sv_SkillID v = skillID \<and> sv_Status v = status) (versions d)))"

definition sv_merge :: "SkillVersion \<Rightarrow> SkillVersion \<Rightarrow> SkillVersion" where
  "sv_merge new old = new\<lparr> sv_ID := sv_ID old, sv_SkillID := sv_SkillID old, sv_Version := sv_Version old,
     sv_CreatedBy := sv_CreatedBy old, sv_CreatedAt := sv_CreatedAt old \<rparr>"

interpretation svt: keyed_rows sv_key sv_merge
  by unfold_locales (simp add: sv_key_def sv_merge_def)

definition sv_row :: "SkillVersion \<Rightarrow> time \<Rightarrow> int \<Rightarrow> SkillVersion" where
  "sv_row v t i = v\<lparr> sv_CreatedAt := (if IsZero (sv_CreatedAt v) then t else sv_CreatedAt v), sv_ID := i \<rparr>"

definition VersionRepo_Save :: "SkillVersion \<Rightarrow> SkillVersion op" where
  "VersionRepo_Save v = do {
     t \<leftarrow> now;
     db_insert ''skill_version_id_seq'' (\<lambda>i d.
       Inr (sv_row v t (sv_ID (svt.stored (sv_row v t i) (versions d))),
            d\<lparr>versions := svt.save (sv_row v t i) (versions d)\<rparr>)) }"

definition VersionRepo_Delete :: "int \<Rightarrow> unit op" where
  "VersionRepo_Delete i = db_exec (\<lambda>d. ((), d\<lparr>versions := delete_where (\<lambda>v. sv_ID v = i) (versions d)\<rparr>))"

definition VersionRepo_DeleteBySkillID :: "int \<Rightarrow> unit op" where
  "VersionRepo_DeleteBySkillID skillID =
     db_exec (\<lambda>d. ((), d\<lparr>versions := delete_where (\<lambda>v. sv_SkillID v = skillID) (versions d)\<rparr>))"

section \<open>Files\<close>

definition FileRepo_FindByVersionID :: "int \<Rightarrow> SkillFile list op" where
  "FileRepo_FindByVersionID versionID =
     db_query (\<lambda>d. sort_key sf_ID (filter (\<lambda>f. sf_VersionID f = versionID) (files d)))"

text \<open>A plain insert: a second file of a version with the same path violates the unique key.\<close>

definition insert_file :: "SkillFile \<Rightarrow> time \<Rightarrow> SkillFile op" where
  "insert_file f t = db_insert ''skill_file_id_seq'' (\<lambda>i d.
     let row = f\<lparr>sf_CreatedAt := (if IsZero (sf_CreatedAt f) then t else sf_CreatedAt f), sf_ID := i\<rparr> in
     if list_ex (\<lambda>g. sf_VersionID g = sf_VersionID f \<and> sf_FilePath g = sf_FilePath f) (files d)
     then Inl UniqueViolation
     else Inr (row, d\<lparr>files := files d @ [row]\<rparr>))"

definition FileRepo_Save :: "SkillFile \<Rightarrow> SkillFile op" where
  "FileRepo_Save f = do { t \<leftarrow> now; insert_file f t }"

fun save_files :: "SkillFile list \<Rightarrow> time \<Rightarrow> SkillFile list op" where
  "save_files [] t = ok []"
| "save_files (f # fs) t = do {
     r \<leftarrow> insert_file f t;
     (case r of
       Inl e \<Rightarrow> fail e
     | Inr row \<Rightarrow> do {
         r \<leftarrow> save_files fs t;
         (case r of Inl e \<Rightarrow> fail e | Inr rows \<Rightarrow> ok (row # rows)) }) }"

definition FileRepo_SaveAll :: "SkillFile list \<Rightarrow> SkillFile list op" where
  "FileRepo_SaveAll fs = do { t \<leftarrow> now; save_files fs t }"

definition FileRepo_DeleteByVersionID :: "int \<Rightarrow> unit op" where
  "FileRepo_DeleteByVersionID versionID =
     db_exec (\<lambda>d. ((), d\<lparr>files := delete_where (\<lambda>f. sf_VersionID f = versionID) (files d)\<rparr>))"

section \<open>Tags\<close>

definition st_key :: "SkillTag \<Rightarrow> int \<times> string" where
  "st_key t = (st_SkillID t, st_TagName t)"

definition TagRepo_FindBySkillIDAndTagName :: "int \<Rightarrow> string \<Rightarrow> SkillTag option op" where
  "TagRepo_FindBySkillIDAndTagName skillID name = query_row (\<lambda>d. find (\<lambda>t. st_key t = (skillID, name)) (tags d))"

definition TagRepo_FindBySkillID :: "int \<Rightarrow> SkillTag list op" where
  "TagRepo_FindBySkillID skillID = db_query (\<lambda>d. filter (\<lambda>t. st_SkillID t = skillID) (tags d))"

definition st_merge :: "SkillTag \<Rightarrow> SkillTag \<Rightarrow> SkillTag" where
  "st_merge new old = old\<lparr> st_VersionID := st_VersionID new, st_CreatedBy := st_CreatedBy new, st_UpdatedAt := st_UpdatedAt new \<rparr>"

interpretation stt: keyed_rows st_key st_merge
  by unfold_locales (simp add: st_key_def st_merge_def)

definition st_row :: "SkillTag \<Rightarrow> time \<Rightarrow> int \<Rightarrow> SkillTag" where
  "st_row x t i = x\<lparr> st_CreatedAt := (if IsZero (st_CreatedAt x) then t else st_CreatedAt x),
     st_UpdatedAt := t, st_ID := i \<rparr>"

definition TagRepo_Save :: "SkillTag \<Rightarrow> SkillTag op" where
  "TagRepo_Save x = do {
     t \<leftarrow> now;
     db_insert ''skill_tag_id_seq'' (\<lambda>i d.
       Inr (stt.stored (st_row x t i) (tags d), d\<lparr>tags := stt.save (st_row x t i) (tags d)\<rparr>)) }"

definition TagRepo_Delete :: "int \<Rightarrow> unit op" where
  "TagRepo_Delete i = db_exec (\<lambda>d. ((), d\<lparr>tags := delete_where (\<lambda>t. st_ID t = i) (tags d)\<rparr>))"

definition TagRepo_DeleteBySkillID :: "int \<Rightarrow> unit op" where
  "TagRepo_DeleteBySkillID skillID = db_exec (\<lambda>d. ((), d\<lparr>tags := delete_where (\<lambda>t. st_SkillID t = skillID) (tags d)\<rparr>))"

section \<open>Download statistics\<close>

definition StatsRepo_FindByVersionID :: "int \<Rightarrow> SkillVersionStats option op" where
  "StatsRepo_FindByVersionID versionID = query_row (\<lambda>d. find (\<lambda>s. ss_SkillVersionID s = versionID) (version_stats d))"

text \<open>\<open>CURRENT_TIMESTAMP\<close> is the server's clock.\<close>

definition StatsRepo_IncrementDownloadCount :: "int \<Rightarrow> int \<Rightarrow> unit op" where
  "StatsRepo_IncrementDownloadCount versionID skillID = do {
     t \<leftarrow> now;
     db_exec (\<lambda>d. ((), d\<lparr>version_stats := upsert (\<lambda>s. ss_SkillVersionID s = versionID)
       (\<lambda>s. s\<lparr>ss_DownloadCount := ss_DownloadCount s + 1, ss_UpdatedAt := t\<rparr>)
       \<lparr>ss_SkillVersionID = versionID, ss_SkillID = skillID, ss_DownloadCount = 1, ss_UpdatedAt = t\<rparr>
       (version_stats d)\<rparr>)) }"

definition StatsRepo_DeleteBySkillID :: "int \<Rightarrow> unit op" where
  "StatsRepo_DeleteBySkillID skillID =
     db_exec (\<lambda>d. ((), d\<lparr>version_stats := delete_where (\<lambda>s. ss_SkillID s = skillID) (version_stats d)\<rparr>))"

section \<open>Facts\<close>

lemmas skill_repo_defs =
  SkillRepo_FindByID_def SkillRepo_FindByIDs_def SkillRepo_FindAll_def SkillRepo_FindByNamespaceIDAndSlug_def
  SkillRepo_FindByNamespaceSlugAndSlug_def SkillRepo_FindByNamespaceIDSlugOwner_def SkillRepo_FindByOwnerID_def
  SkillRepo_FindBySlug_def SkillRepo_ExistsByNamespaceID_def SkillRepo_Delete_def
  SkillRepo_IncrementDownloadCount_def SkillRepo_IncrementSubscriptionCount_def SkillRepo_DecrementSubscriptionCount_def
  VersionRepo_FindByID_def VersionRepo_FindByIDs_def VersionRepo_FindBySkillID_def VersionRepo_FindBySkillIDAndVersion_def
  VersionRepo_FindBySkillIDAndStatus_def VersionRepo_Delete_def VersionRepo_DeleteBySkillID_def
  FileRepo_FindByVersionID_def FileRepo_DeleteByVersionID_def TagRepo_FindBySkillIDAndTagName_def
  TagRepo_FindBySkillID_def TagRepo_Delete_def TagRepo_DeleteBySkillID_def StatsRepo_FindByVersionID_def
  StatsRepo_IncrementDownloadCount_def StatsRepo_DeleteBySkillID_def

lemma sk_row_simps [simp]:
  "sk_key (sk_row s t i) = sk_key s" "sk_ID (sk_row s t i) = i" "sk_Status (sk_row s t i) = sk_Status s"
  "sk_Visibility (sk_row s t i) = sk_Visibility s" "sk_LatestVersionID (sk_row s t i) = sk_LatestVersionID s"
  "sk_NamespaceID (sk_row s t i) = sk_NamespaceID s" "sk_Slug (sk_row s t i) = sk_Slug s" "sk_OwnerID (sk_row s t i) = sk_OwnerID s"
  "sk_UpdatedBy (sk_row s t i) = sk_UpdatedBy s" "sk_DisplayName (sk_row s t i) = sk_DisplayName s"
  by (simp_all add: sk_row_def sk_key_def)

lemma sv_row_simps [simp]:
  "sv_key (sv_row v t i) = sv_key v" "sv_ID (sv_row v t i) = i" "sv_Status (sv_row v t i) = sv_Status v"
  "sv_SkillID (sv_row v t i) = sv_SkillID v" "sv_Version (sv_row v t i) = sv_Version v"
  "sv_PublishedAt (sv_row v t i) = sv_PublishedAt v"
  by (simp_all add: sv_row_def sv_key_def)

lemma wp_SkillRepo_Save [simp]:
  "wp (SkillRepo_Save s) Q w =
     (if stmt_fails (advance w) then Q (Inl DbFault) (fail_stmt (advance w))
      else (let r = sk_row s (clock w (tick w)) (next_id ''skill_id_seq'' w) in
        Q (Inr (sk_row s (clock w (tick w)) (sk_ID (skt.stored r (skills (db w))))))
          (set_db ((db w)\<lparr>skills := skt.save r (skills (db w))\<rparr>)
             (advance (take_id ''skill_id_seq'' (advance w))))))"
  by (simp add: SkillRepo_Save_def Let_def)

lemma wp_VersionRepo_Save [simp]:
  "wp (VersionRepo_Save v) Q w =
     (if stmt_fails (advance w) then Q (Inl DbFault) (fail_stmt (advance w))
      else (let r = sv_row v (clock w (tick w)) (next_id ''skill_version_id_seq'' w) in
        Q (Inr (sv_row v (clock w (tick w)) (sv_ID (svt.stored r (versions (db w))))))
          (set_db ((db w)\<lparr>versions := svt.save r (versions (db w))\<rparr>)
             (advance (take_id ''skill_version_id_seq'' (advance w))))))"
  by (simp add: VersionRepo_Save_def Let_def)

lemma wp_TagRepo_Save [simp]:
  "wp (TagRepo_Save x) Q w =
     (if stmt_fails (advance w) then Q (Inl DbFault) (fail_stmt (advance w))
      else (let r = st_row x (clock w (tick w)) (next_id ''skill_tag_id_seq'' w) in
        Q (Inr (stt.stored r (tags (db w))))
          (set_db ((db w)\<lparr>tags := stt.save r (tags (db w))\<rparr>)
             (advance (take_id ''skill_tag_id_seq'' (advance w))))))"
  by (simp add: TagRepo_Save_def Let_def)

end
