(* ===== verification/ReviewRepo.thy ===== *)
theory ReviewRepo
  imports World
begin

text \<open>
  \<open>postgres/review_repo.go\<close>: review tasks and promotion requests. The partial unique indexes of
  migration 004 allow one PENDING task per skill version and one PENDING request per source
  version: an insert that breaks one fails. The status updates are optimistic: they change
  the row with the given id only while its version is the expected one, and report how many rows
  they changed.
\<close>

section \<open>Review tasks\<close>

definition ReviewTaskRepo_Save :: "ReviewTask \<Rightarrow> ReviewTask op" where
  "ReviewTaskRepo_Save x = do {
     t \<leftarrow> now;
     db_insert ''review_task_id_seq'' (\<lambda>i d.
       let row = x\<lparr>rt_SubmittedAt := (if IsZero (rt_SubmittedAt x) then t else rt_SubmittedAt x), rt_ID := i\<rparr> in
       if rt_Status x = ''PENDING''
          \<and> list_ex (\<lambda>o'. rt_SkillVersionID o' = rt_SkillVersionID x \<and> rt_Status o' = ''PENDING'') (review_tasks d)
       then Inl UniqueViolation
       else Inr (row, d\<lparr>review_tasks := review_tasks d @ [row]\<rparr>)) }"

definition ReviewTaskRepo_FindByID :: "int \<Rightarrow> ReviewTask option op" where
  "ReviewTaskRepo_FindByID i = query_row (\<lambda>d. find (\<lambda>x. rt_ID x = i) (review_tasks d))"

definition ReviewTaskRepo_FindByVersionIDAndStatus :: "int \<Rightarrow> string \<Rightarrow> ReviewTask option op" where
  "ReviewTaskRepo_FindByVersionIDAndStatus versionID status =
     query_row (\<lambda>d. find (\<lambda>x. rt_SkillVersionID x = versionID \<and> rt_Status x = status) (review_tasks d))"

definition ReviewTaskRepo_CountByStatus :: "string \<Rightarrow> nat op" where
  "ReviewTaskRepo_CountByStatus status = db_query (\<lambda>d. length (filter (\<lambda>x. rt_Status x = status) (review_tasks d)))"

definition ReviewTaskRepo_FindByStatus :: "string \<Rightarrow> ReviewTask list op" where
  "ReviewTaskRepo_FindByStatus status =
     db_query (\<lambda>d. order_desc rt_SubmittedAt (filter (\<lambda>x. rt_Status x = status) (review_tasks d)))"

text \<open>\<open>ORDER BY submitted_at DESC, id DESC\<close>: the sorts are stable, the last one decides first.\<close>

definition rt_newest :: "ReviewTask list \<Rightarrow> ReviewTask list" where
  "rt_newest rs = order_desc rt_SubmittedAt (order_desc rt_ID rs)"

definition ReviewTaskRepo_FindByStatusPaged :: "string \<Rightarrow> int \<Rightarrow> int \<Rightarrow> (ReviewTask list \<times> bool) op" where
  "ReviewTaskRepo_FindByStatusPaged status page sz =
     paged page sz (\<lambda>d. rt_newest (filter (\<lambda>x. rt_Status x = status) (review_tasks d)))"

definition ReviewTaskRepo_FindByNamespaceIDsAndStatusPaged :: "int list \<Rightarrow> string \<Rightarrow> int \<Rightarrow> int \<Rightarrow> (ReviewTask list \<times> bool) op" where
  "ReviewTaskRepo_FindByNamespaceIDsAndStatusPaged nsIDs status page sz =
     (if nsIDs = [] then ok ([], False)
      else paged page sz (\<lambda>d. rt_newest (filter (\<lambda>x. rt_NamespaceID x \<in> set nsIDs \<and> rt_Status x = status) (review_tasks d))))"

definition ReviewTaskRepo_FindByNamespaceIDAndStatus :: "int \<Rightarrow> string \<Rightarrow> ReviewTask list op" where
  "ReviewTaskRepo_FindByNamespaceIDAndStatus nsID status =
     db_query (\<lambda>d. order_desc rt_SubmittedAt (filter (\<lambda>x. rt_NamespaceID x = nsID \<and> rt_Status x = status) (review_tasks d)))"

definition ReviewTaskRepo_FindBySubmittedByAndStatus :: "string \<Rightarrow> string \<Rightarrow> ReviewTask list op" where
  "ReviewTaskRepo_FindBySubmittedByAndStatus user status =
     db_query (\<lambda>d. order_desc rt_SubmittedAt (filter (\<lambda>x. rt_SubmittedBy x = user \<and> rt_Status x = status) (review_tasks d)))"

definition ReviewTaskRepo_ExistsByNamespaceID :: "int \<Rightarrow> bool op" where
  "ReviewTaskRepo_ExistsByNamespaceID nsID = db_query (\<lambda>d. list_ex (\<lambda>x. rt_NamespaceID x = nsID) (review_tasks d))"

definition ReviewTaskRepo_Delete :: "int \<Rightarrow> unit op" where
  "ReviewTaskRepo_Delete i = db_exec (\<lambda>d. ((), d\<lparr>review_tasks := delete_where (\<lambda>x. rt_ID x = i) (review_tasks d)\<rparr>))"

definition ReviewTaskRepo_DeleteByVersionIDs :: "int list \<Rightarrow> unit op" where
  "ReviewTaskRepo_DeleteByVersionIDs is =
     db_exec (\<lambda>d. ((), d\<lparr>review_tasks := delete_where (\<lambda>x. rt_SkillVersionID x \<in> set is) (review_tasks d)\<rparr>))"

definition rt_decide :: "string \<Rightarrow> string \<Rightarrow> string \<Rightarrow> time \<Rightarrow> ReviewTask \<Rightarrow> ReviewTask" where
  "rt_decide status reviewedBy comment t x = x\<lparr>rt_Status := status, rt_ReviewedBy := Some reviewedBy,
     rt_ReviewComment := Some comment, rt_ReviewedAt := Some t, rt_Version := rt_Version x + 1\<rparr>"

definition ReviewTaskRepo_UpdateStatusWithVersion :: "int \<Rightarrow> string \<Rightarrow> string \<Rightarrow> string \<Rightarrow> int \<Rightarrow> nat op" where
  "ReviewTaskRepo_UpdateStatusWithVersion i status reviewedBy comment expectedVersion = do {
     t \<leftarrow> now;
     db_exec (\<lambda>d.
       (length (filter (\<lambda>x. rt_ID x = i \<and> rt_Version x = expectedVersion) (review_tasks d)),
        d\<lparr>review_tasks := update_where (\<lambda>x. rt_ID x = i \<and> rt_Version x = expectedVersion)
            (rt_decide status reviewedBy comment t) (review_tasks d)\<rparr>)) }"

section \<open>Promotion requests\<close>

definition pending_promotion :: "PromotionRequest \<Rightarrow> PromotionRequest list \<Rightarrow> bool" where
  "pending_promotion x rs \<longleftrightarrow> pr_Status x = ''PENDING''
     \<and> list_ex (\<lambda>o'. pr_SourceVersionID o' = pr_SourceVersionID x \<and> pr_Status o' = ''PENDING'') rs"

text \<open>An insert for a request without an id, an update of the row with that id otherwise. An
  update of no row returns no row; its \<open>Scan\<close> error is returned as it is.\<close>

definition PromotionRepo_Save :: "PromotionRequest \<Rightarrow> PromotionRequest op" where
  "PromotionRepo_Save x = do {
     t \<leftarrow> now;
     (let y = x\<lparr>pr_SubmittedAt := (if IsZero (pr_SubmittedAt x) then t else pr_SubmittedAt x)\<rparr> in
      if pr_ID x = 0 then
        db_insert ''promotion_request_id_seq'' (\<lambda>i d.
          if pending_promotion x (promotions d) then Inl UniqueViolation
          else Inr (y\<lparr>pr_ID := i\<rparr>, d\<lparr>promotions := promotions d @ [y\<lparr>pr_ID := i\<rparr>]\<rparr>))
      else do {
        r \<leftarrow> db_try (\<lambda>d.
          if \<not> list_ex (\<lambda>o'. pr_ID o' = pr_ID x) (promotions d) then Inr (False, d)
          else if pending_promotion x (filter (\<lambda>o'. pr_ID o' \<noteq> pr_ID x) (promotions d)) then Inl UniqueViolation
          else Inr (True, d\<lparr>promotions := update_where (\<lambda>o'. pr_ID o' = pr_ID x) (\<lambda>_. y) (promotions d)\<rparr>));
        (case r of Inl e \<Rightarrow> fail e | Inr found \<Rightarrow> if found then ok y else fail NoRows) }) }"

definition PromotionRepo_FindByID :: "int \<Rightarrow> PromotionRequest option op" where
  "PromotionRepo_FindByID i = query_row (\<lambda>d. find (\<lambda>x. pr_ID x = i) (promotions d))"

definition PromotionRepo_FindBySourceVersionIDAndStatus :: "int \<Rightarrow> string \<Rightarrow> PromotionRequest option op" where
  "PromotionRepo_FindBySourceVersionIDAndStatus versionID status =
     query_row (\<lambda>d. find (\<lambda>x. pr_SourceVersionID x = versionID \<and> pr_Status x = status) (promotions d))"

definition PromotionRepo_FindBySourceSkillIDAndStatus :: "int \<Rightarrow> string \<Rightarrow> PromotionRequest option op" where
  "PromotionRepo_FindBySourceSkillIDAndStatus skillID status =
     query_row (\<lambda>d. find (\<lambda>x. pr_SourceSkillID x = skillID \<and> pr_Status x = status) (promotions d))"

definition PromotionRepo_CountByStatus :: "string \<Rightarrow> nat op" where
  "PromotionRepo_CountByStatus status = db_query (\<lambda>d. length (filter (\<lambda>x. pr_Status x = status) (promotions d)))"

definition PromotionRepo_FindByStatus :: "string \<Rightarrow> PromotionRequest list op" where
  "PromotionRepo_FindByStatus status =
     db_query (\<lambda>d. order_desc pr_SubmittedAt (filter (\<lambda>x. pr_Status x = status) (promotions d)))"

definition PromotionRepo_FindByStatusPaged :: "string \<Rightarrow> int \<Rightarrow> int \<Rightarrow> (PromotionRequest list \<times> bool) op" where
  "PromotionRepo_FindByStatusPaged status page sz =
     paged page sz (\<lambda>d. order_desc pr_SubmittedAt (order_desc pr_ID (filter (\<lambda>x. pr_Status x = status) (promotions d))))"

definition PromotionRepo_Delete :: "int \<Rightarrow> unit op" where
  "PromotionRepo_Delete i = db_exec (\<lambda>d. ((), d\<lparr>promotions := delete_where (\<lambda>x. pr_ID x = i) (promotions d)\<rparr>))"

definition PromotionRepo_ExistsByTargetNamespaceID :: "int \<Rightarrow> bool op" where
  "PromotionRepo_ExistsByTargetNamespaceID nsID = db_query (\<lambda>d. list_ex (\<lambda>x. pr_TargetNamespaceID x = nsID) (promotions d))"

definition PromotionRepo_DeleteBySourceOrTargetSkillID :: "int \<Rightarrow> unit op" where
  "PromotionRepo_DeleteBySourceOrTargetSkillID skillID =
     db_exec (\<lambda>d. ((), d\<lparr>promotions := delete_where (\<lambda>x. pr_SourceSkillID x = skillID \<or> pr_TargetSkillID x = Some skillID) (promotions d)\<rparr>))"

definition pr_decide :: "string \<Rightarrow> string \<Rightarrow> string \<Rightarrow> int option \<Rightarrow> time \<Rightarrow> PromotionRequest \<Rightarrow> PromotionRequest" where
  "pr_decide status reviewedBy comment target t x = x\<lparr>pr_Status := status, pr_ReviewedBy := Some reviewedBy,
     pr_ReviewComment := Some comment, pr_TargetSkillID := target, pr_ReviewedAt := Some t, pr_Version := pr_Version x + 1\<rparr>"

definition PromotionRepo_UpdateStatusWithVersion ::
  "int \<Rightarrow> string \<Rightarrow> string \<Rightarrow> string \<Rightarrow> int option \<Rightarrow> int \<Rightarrow> nat op" where
  "PromotionRepo_UpdateStatusWithVersion i status reviewedBy comment target expectedVersion = do {
     t \<leftarrow> now;
     db_exec (\<lambda>d.
       (length (filter (\<lambda>x. pr_ID x = i \<and> pr_Version x = expectedVersion) (promotions d)),
        d\<lparr>promotions := update_where (\<lambda>x. pr_ID x = i \<and> pr_Version x = expectedVersion)
            (pr_decide status reviewedBy comment target t) (promotions d)\<rparr>)) }"

lemmas review_repo_defs =
  ReviewTaskRepo_FindByID_def ReviewTaskRepo_FindByVersionIDAndStatus_def ReviewTaskRepo_CountByStatus_def
  ReviewTaskRepo_FindByStatus_def ReviewTaskRepo_FindByStatusPaged_def ReviewTaskRepo_FindByNamespaceIDsAndStatusPaged_def
  ReviewTaskRepo_FindByNamespaceIDAndStatus_def ReviewTaskRepo_FindBySubmittedByAndStatus_def
  ReviewTaskRepo_ExistsByNamespaceID_def ReviewTaskRepo_Delete_def ReviewTaskRepo_DeleteByVersionIDs_def
  ReviewTaskRepo_UpdateStatusWithVersion_def ReviewTaskRepo_Save_def
  PromotionRepo_FindByID_def PromotionRepo_FindBySourceVersionIDAndStatus_def PromotionRepo_FindBySourceSkillIDAndStatus_def
  PromotionRepo_CountByStatus_def PromotionRepo_FindByStatus_def PromotionRepo_FindByStatusPaged_def
  PromotionRepo_Delete_def PromotionRepo_ExistsByTargetNamespaceID_def PromotionRepo_DeleteBySourceOrTargetSkillID_def
  PromotionRepo_UpdateStatusWithVersion_def PromotionRepo_Save_def

lemma decide_simps [simp]:
  "rt_ID (rt_decide s u c t x) = rt_ID x" "rt_Version (rt_decide s u c t x) = rt_Version x + 1" "rt_Status (rt_decide s u c t x) = s"
  "rt_SkillVersionID (rt_decide s u c t x) = rt_SkillVersionID x"
  "pr_ID (pr_decide s u c g t y) = pr_ID y" "pr_Version (pr_decide s u c g t y) = pr_Version y + 1" "pr_Status (pr_decide s u c g t y) = s"
  "pr_SourceVersionID (pr_decide s u c g t y) = pr_SourceVersionID y"
  by (simp_all add: rt_decide_def pr_decide_def)

end
