(* ===== verification/Review.thy ===== *)
theory Review
  imports SkillRepo ReviewRepo NamespaceRepo
begin

text \<open>
  \<open>review/permission.go\<close> and \<open>review/service.go\<close>: who may submit and review, and the review
  workflow submit, approve, reject, withdraw. The event bus, the notifier and the gate
  enforcer are the optional collaborators of \<open>ReviewService\<close>. A map of namespace roles is
  \<open>int \<Rightarrow> string option\<close> (a missing key reads as the empty string), a set of platform roles is a
  predicate.
\<close>

type_synonym roles = "int \<Rightarrow> string option"
type_synonym platform = "string \<Rightarrow> bool"

definition role_of :: "roles \<Rightarrow> int \<Rightarrow> string" where
  "role_of rs i = (case rs i of Some r \<Rightarrow> r | None \<Rightarrow> [])"

section \<open>Permissions\<close>

definition hasPlatformReviewRole :: "platform \<Rightarrow> bool" where
  "hasPlatformReviewRole pr \<longleftrightarrow> pr ''SKILL_ADMIN'' \<or> pr ''SUPER_ADMIN''"

definition canSelfReviewNamespace :: "int \<Rightarrow> string \<Rightarrow> roles \<Rightarrow> bool" where
  "canSelfReviewNamespace nsID nsType rs =
     (if nsType = ''GLOBAL'' then False else role_of rs nsID = ''OWNER'' \<or> role_of rs nsID = ''ADMIN'')"

definition CanSubmitForReview :: "string \<Rightarrow> int \<Rightarrow> string \<Rightarrow> roles \<Rightarrow> platform \<Rightarrow> bool" where
  "CanSubmitForReview skillOwnerID nsID actorID rs pr =
     (if skillOwnerID = actorID then True
      else if hasPlatformReviewRole pr then True
      else role_of rs nsID = ''ADMIN'' \<or> role_of rs nsID = ''OWNER'')"

definition CanSubmitReview :: "int \<Rightarrow> roles \<Rightarrow> bool" where
  "CanSubmitReview nsID rs \<longleftrightarrow> role_of rs nsID = ''OWNER'' \<or> role_of rs nsID = ''ADMIN'' \<or> role_of rs nsID = ''MEMBER''"

definition CanReviewNamespace :: "int \<Rightarrow> string \<Rightarrow> roles \<Rightarrow> platform \<Rightarrow> bool" where
  "CanReviewNamespace nsID nsType rs pr =
     (if hasPlatformReviewRole pr then True
      else if nsType = ''GLOBAL'' then False
      else role_of rs nsID = ''OWNER'' \<or> role_of rs nsID = ''ADMIN'')"

definition CanReview :: "string \<Rightarrow> int \<Rightarrow> string \<Rightarrow> string \<Rightarrow> roles \<Rightarrow> platform \<Rightarrow> bool" where
  "CanReview submittedBy nsID nsType actorID rs pr =
     (if submittedBy = actorID then
        (if pr ''SUPER_ADMIN'' then True else canSelfReviewNamespace nsID nsType rs)
      else CanReviewNamespace nsID nsType rs pr)"

definition CanSubmitPromotion :: "string \<Rightarrow> int \<Rightarrow> string \<Rightarrow> roles \<Rightarrow> platform \<Rightarrow> bool" where
  "CanSubmitPromotion skillOwnerID nsID actorID rs pr = CanSubmitForReview skillOwnerID nsID actorID rs pr"

definition CanReviewPromotion :: "string \<Rightarrow> string \<Rightarrow> platform \<Rightarrow> bool" where
  "CanReviewPromotion submittedBy actorID pr =
     (if submittedBy = actorID then pr ''SUPER_ADMIN'' else hasPlatformReviewRole pr)"

definition CanViewPromotion :: "string \<Rightarrow> string \<Rightarrow> platform \<Rightarrow> bool" where
  "CanViewPromotion submittedBy actorID pr =
     (if submittedBy = actorID then True else CanReviewPromotion submittedBy actorID pr)"

section \<open>The workflow\<close>

definition IsPending :: "string \<Rightarrow> bool" where
  "IsPending status \<longleftrightarrow> status = ''PENDING''"

definition assertNamespaceActive :: "Namespace option \<Rightarrow> err option" where
  "assertNamespaceActive ns = (case ns of
     None \<Rightarrow> None
   | Some n \<Rightarrow>
       if ns_Status n = ''FROZEN'' then Some (Errorf ''error.namespace.frozen %s'' [AStr (ns_Slug n)])
       else if ns_Status n = ''ARCHIVED'' then Some (Errorf ''error.namespace.archived %s'' [AStr (ns_Slug n)])
       else None)"

text \<open>The optional collaborators of the service.\<close>

record review_env =
  rv_bus :: "(Event \<Rightarrow> unit op) option"
  rv_notifier :: "(Notification \<Rightarrow> unit op) option"
  rv_gate :: "(int \<times> int \<times> string \<Rightarrow> unit op) option"

definition ReviewSubmittedEvent :: "ReviewTask \<Rightarrow> SkillVersion \<Rightarrow> Event" where
  "ReviewSubmittedEvent saved v = \<lparr>ev_Name = ''review.submitted'', ev_Fields =
     [AInt (rt_ID saved), AInt (sv_SkillID v), AInt (sv_ID v), AStr (rt_SubmittedBy saved), AInt (rt_NamespaceID saved)]\<rparr>"

definition ReviewApprovedEvent :: "ReviewTask \<Rightarrow> int \<Rightarrow> int \<Rightarrow> string \<Rightarrow> Event" where
  "ReviewApprovedEvent task skillID versionID reviewer = \<lparr>ev_Name = ''review.approved'', ev_Fields =
     [AInt (rt_ID task), AInt skillID, AInt versionID, AStr reviewer, AStr (rt_SubmittedBy task)]\<rparr>"

definition ReviewRejectedEvent :: "ReviewTask \<Rightarrow> int \<Rightarrow> string \<Rightarrow> string \<Rightarrow> Event" where
  "ReviewRejectedEvent task skillID reviewer comment = \<lparr>ev_Name = ''review.rejected'', ev_Fields =
     [AInt (rt_ID task), AInt skillID, AInt (rt_SkillVersionID task), AStr reviewer, AStr (rt_SubmittedBy task), AStr comment]\<rparr>"

definition SkillPublishedEvent :: "int \<Rightarrow> int \<Rightarrow> string \<Rightarrow> Event" where
  "SkillPublishedEvent skillID versionID publishedBy = \<lparr>ev_Name = ''skill.published'', ev_Fields =
     [AInt skillID, AInt versionID, AStr publishedBy]\<rparr>"

definition review_note :: "ReviewTask \<Rightarrow> string \<Rightarrow> string \<Rightarrow> Notification" where
  "review_note task title body = \<lparr>nt_UserID = rt_SubmittedBy task, nt_Category = ''REVIEW'', nt_EntityType = ''REVIEW_TASK'',
     nt_EntityID = rt_ID task, nt_Title = title, nt_BodyJSON = body\<rparr>"

definition SubmitReview :: "review_env \<Rightarrow> int \<Rightarrow> string \<Rightarrow> roles \<Rightarrow> platform \<Rightarrow> ReviewTask op" where
  "SubmitReview env versionID actorID rs pr = do {
     r \<leftarrow> VersionRepo_FindByID versionID;
     (case r of
       Inl e \<Rightarrow> fail (wrap ''review: find version'' e)
     | Inr None \<Rightarrow> fail (Errorf ''skill_version.not_found %d'' [AInt versionID])
     | Inr (Some v) \<Rightarrow> do {
         r \<leftarrow> SkillRepo_FindByID (sv_SkillID v);
         (case r of
           Inl e \<Rightarrow> fail (wrap ''review: find skill'' e)
         | Inr None \<Rightarrow> fail (Errorf ''skill.not_found %d'' [AInt (sv_SkillID v)])
         | Inr (Some sk) \<Rightarrow> do {
             r \<leftarrow> NamespaceRepo_FindByID (sk_NamespaceID sk);
             (case r of
               Inl e \<Rightarrow> fail (wrap ''review: find namespace'' e)
             | Inr None \<Rightarrow> fail (Errorf ''namespace.not_found %d'' [AInt (sk_NamespaceID sk)])
             | Inr (Some ns) \<Rightarrow>
               (case assertNamespaceActive (Some ns) of
                 Some e \<Rightarrow> fail e
               | None \<Rightarrow>
                 if \<not> CanSubmitForReview (sk_OwnerID sk) (sk_NamespaceID sk) actorID rs pr
                 then fail (Errs ''review.submit.no_permission'')
                 else if sv_Status v \<noteq> ''DRAFT'' \<and> sv_Status v \<noteq> ''UPLOADED''
                 then fail (Errorf ''review.submit.not_draft %d'' [AInt versionID])
                 else do {
                   r \<leftarrow> VersionRepo_Save (v\<lparr>sv_Status := ''PENDING_REVIEW''\<rparr>);
                   (case r of
                     Inl e \<Rightarrow> fail (wrap ''review: save version'' e)
                   | Inr _ \<Rightarrow> do {
                       t \<leftarrow> now;
                       r \<leftarrow> ReviewTaskRepo_Save \<lparr>rt_ID = 0, rt_SkillVersionID = versionID, rt_NamespaceID = sk_NamespaceID sk,
                          rt_Status = ''PENDING'', rt_Version = 1, rt_SubmittedBy = actorID, rt_ReviewedBy = None,
                          rt_ReviewComment = None, rt_SubmittedAt = t, rt_ReviewedAt = None\<rparr>;
                       (case r of
                         Inl e \<Rightarrow> fail (Wrapf ''review.submit.duplicate %d'' [AInt versionID] e)
                       | Inr saved \<Rightarrow> do {
                           _ \<leftarrow> notify (rv_bus env) (ReviewSubmittedEvent saved v);
                           ok saved }) }) })) }) }) }"

definition review_ns_type :: "Namespace \<Rightarrow> string" where
  "review_ns_type ns = (if ns_Type ns = [] then ''TEAM'' else ns_Type ns)"

text \<open>The task as the service keeps it after the update of its row.\<close>

definition decided :: "string \<Rightarrow> string \<Rightarrow> string \<Rightarrow> time \<Rightarrow> ReviewTask \<Rightarrow> ReviewTask" where
  "decided status reviewerID comment t task = task\<lparr>rt_Status := status, rt_ReviewedBy := Some reviewerID,
     rt_ReviewComment := (if comment = [] then None else Some comment), rt_ReviewedAt := Some t\<rparr>"

text \<open>The loop over the skills of the same slug: does another skill have a published version? A
  failing lookup counts as none.\<close>

fun slug_conflict :: "int \<Rightarrow> Skill list \<Rightarrow> (world, bool) state" where
  "slug_conflict skillID [] = State_Monad.return False"
| "slug_conflict skillID (other # others) =
     (if sk_ID other = skillID then slug_conflict skillID others
      else do {
        r \<leftarrow> VersionRepo_FindBySkillIDAndStatus (sk_ID other) ''PUBLISHED'';
        (case r of
          Inr (_ # _) \<Rightarrow> State_Monad.return True
        | _ \<Rightarrow> slug_conflict skillID others) })"

definition enforce_gate :: "review_env \<Rightarrow> int \<Rightarrow> int \<Rightarrow> unit op" where
  "enforce_gate env skillID versionID = (case rv_gate env of
     None \<Rightarrow> ok ()
   | Some gate \<Rightarrow> do {
       r \<leftarrow> gate (skillID, versionID, ''review_approve'');
       (case r of Inl e \<Rightarrow> fail (wrap ''review: gate enforcement'' e) | Inr _ \<Rightarrow> ok ()) })"

definition published :: "time \<Rightarrow> SkillVersion \<Rightarrow> SkillVersion" where
  "published t v = v\<lparr>sv_Status := ''PUBLISHED'', sv_PublishedAt := Some t\<rparr>"

definition promoted_skill :: "SkillVersion \<Rightarrow> string \<Rightarrow> Skill \<Rightarrow> Skill" where
  "promoted_skill v reviewerID sk = sk\<lparr>sk_LatestVersionID := Some (sv_ID v),
     sk_Visibility := (case sv_RequestedVisibility v of Some x \<Rightarrow> x | None \<Rightarrow> sk_Visibility sk),
     sk_DisplayName := (case sv_ParsedMetadataJSON v of Some _ \<Rightarrow> sv_Version v | None \<Rightarrow> sk_DisplayName sk),
     sk_UpdatedBy := Some reviewerID\<rparr>"

text \<open>\<open>ApproveReview\<close> after the update of the task: publish the version, move the skill's pointer.\<close>

definition finish_approval :: "review_env \<Rightarrow> ReviewTask \<Rightarrow> SkillVersion \<Rightarrow> string \<Rightarrow> time \<Rightarrow> ReviewTask op" where
  "finish_approval env task v reviewerID t = do {
     r \<leftarrow> SkillRepo_FindByID (sv_SkillID v);
     (case r of
       Inl e \<Rightarrow> fail (wrap ''review: find skill'' e)
     | Inr None \<Rightarrow> fail (Errorf ''skill.not_found %d'' [AInt (sv_SkillID v)])
     | Inr (Some sk) \<Rightarrow> do {
         r \<leftarrow> SkillRepo_FindByNamespaceIDAndSlug (sk_NamespaceID sk) (sk_Slug sk);
         (case r of
           Inl e \<Rightarrow> fail (wrap ''review: find same-slug'' e)
         | Inr same \<Rightarrow> do {
             conflict \<leftarrow> slug_conflict (sk_ID sk) same;
             (if conflict then fail (Errorf ''error.skill.approve.nameConflict %s'' [AStr (sk_Slug sk)])
              else do {
                r \<leftarrow> enforce_gate env (sk_ID sk) (sv_ID v);
                (case r of
                  Inl e \<Rightarrow> fail e
                | Inr _ \<Rightarrow> do {
                    r \<leftarrow> VersionRepo_Save (published t v);
                    (case r of
                      Inl e \<Rightarrow> fail (wrap ''review: save version'' e)
                    | Inr _ \<Rightarrow> do {
                        r \<leftarrow> SkillRepo_Save (promoted_skill v reviewerID sk);
                        (case r of
                          Inl e \<Rightarrow> fail (wrap ''review: save skill'' e)
                        | Inr _ \<Rightarrow> do {
                            _ \<leftarrow> notify (rv_bus env) (SkillPublishedEvent (sk_ID sk) (sv_ID v) reviewerID);
                            _ \<leftarrow> notify (rv_bus env) (ReviewApprovedEvent task (sk_ID sk) (sv_ID v) reviewerID);
                            _ \<leftarrow> notify (rv_notifier env) (review_note task ''Review approved'' ''{\"status\":\"APPROVED\"}'');
                            ok task }) }) }) }) }) }) }"

definition ApproveReview :: "review_env \<Rightarrow> int \<Rightarrow> string \<Rightarrow> string \<Rightarrow> roles \<Rightarrow> platform \<Rightarrow> ReviewTask op" where
  "ApproveReview env taskID reviewerID comment rs pr = do {
     r \<leftarrow> ReviewTaskRepo_FindByID taskID;
     (case r of
       Inl e \<Rightarrow> fail (wrap ''review: find task'' e)
     | Inr None \<Rightarrow> fail (Errorf ''review_task.not_found %d'' [AInt taskID])
     | Inr (Some task) \<Rightarrow>
       if \<not> IsPending (rt_Status task) then fail (Errorf ''review.not_pending %d'' [AInt taskID])
       else do {
         r \<leftarrow> NamespaceRepo_FindByID (rt_NamespaceID task);
         (case r of
           Inl e \<Rightarrow> fail (wrap ''review: find namespace'' e)
         | Inr None \<Rightarrow> fail (Errorf ''namespace.not_found %d'' [AInt (rt_NamespaceID task)])
         | Inr (Some ns) \<Rightarrow>
           (case assertNamespaceActive (Some ns) of
             Some e \<Rightarrow> fail e
           | None \<Rightarrow>
             if \<not> CanReview (rt_SubmittedBy task) (rt_NamespaceID task) (review_ns_type ns) reviewerID rs pr
             then fail (Errs ''review.no_permission'')
             else do {
               r \<leftarrow> VersionRepo_FindByID (rt_SkillVersionID task);
               (case r of
                 Inl e \<Rightarrow> fail (wrap ''review: find version'' e)
               | Inr None \<Rightarrow> fail (Errorf ''skill_version.not_found %d'' [AInt (rt_SkillVersionID task)])
               | Inr (Some v) \<Rightarrow>
                 if sv_Status v = ''SCANNING'' then fail (Errorf ''review.approve.scan_in_progress %d'' [AInt taskID])
                 else do {
                   r \<leftarrow> ReviewTaskRepo_UpdateStatusWithVersion taskID ''APPROVED'' reviewerID comment (rt_Version task);
                   (case r of
                     Inl e \<Rightarrow> fail (wrap ''review: update status'' e)
                   | Inr updated \<Rightarrow>
                     if updated = 0 then fail (Errs ''review: concurrent modification'')
                     else do {
                       t \<leftarrow> now;
                       finish_approval env (decided ''APPROVED'' reviewerID comment t task) v reviewerID t }) }) })) }) }"

definition RejectReview :: "review_env \<Rightarrow> int \<Rightarrow> string \<Rightarrow> string \<Rightarrow> roles \<Rightarrow> platform \<Rightarrow> ReviewTask op" where
  "RejectReview env taskID reviewerID comment rs pr = do {
     r \<leftarrow> ReviewTaskRepo_FindByID taskID;
     (case r of
       Inl e \<Rightarrow> fail (wrap ''review: find task'' e)
     | Inr None \<Rightarrow> fail (Errorf ''review_task.not_found %d'' [AInt taskID])
     | Inr (Some task) \<Rightarrow>
       if \<not> IsPending (rt_Status task) then fail (Errorf ''review.not_pending %d'' [AInt taskID])
       else do {
         r \<leftarrow> NamespaceRepo_FindByID (rt_NamespaceID task);
         (case r of
           Inl e \<Rightarrow> fail (wrap ''review: find namespace'' e)
         | Inr None \<Rightarrow> fail (Errorf ''namespace.not_found %d'' [AInt (rt_NamespaceID task)])
         | Inr (Some ns) \<Rightarrow>
           (case assertNamespaceActive (Some ns) of
             Some e \<Rightarrow> fail e
           | None \<Rightarrow>
             if \<not> CanReview (rt_SubmittedBy task) (rt_NamespaceID task) (review_ns_type ns) reviewerID rs pr
             then fail (Errs ''review.no_permission'')
             else do {
               r \<leftarrow> ReviewTaskRepo_UpdateStatusWithVersion taskID ''REJECTED'' reviewerID comment (rt_Version task);
               (case r of
                 Inl e \<Rightarrow> fail (wrap ''review: update status'' e)
               | Inr updated \<Rightarrow>
                 if updated = 0 then fail (Errs ''review: concurrent modification'')
                 else do {
                   t \<leftarrow> now;
                   r \<leftarrow> VersionRepo_FindByID (rt_SkillVersionID task);
                   (case r of
                     Inl e \<Rightarrow> fail (wrap ''review: find version'' e)
                   | Inr None \<Rightarrow> fail (Panic ''nil pointer dereference'')
                   | Inr (Some v) \<Rightarrow> do {
                       r \<leftarrow> VersionRepo_Save (v\<lparr>sv_Status := ''REJECTED''\<rparr>);
                       (case r of
                         Inl e \<Rightarrow> fail (wrap ''review: save version'' e)
                       | Inr _ \<Rightarrow> do {
                           let task' = decided ''REJECTED'' reviewerID comment t task;
                           _ \<leftarrow> notify (rv_bus env) (ReviewRejectedEvent task' (sv_SkillID v) reviewerID comment);
                           _ \<leftarrow> notify (rv_notifier env) (review_note task' ''Review rejected'' ''{\"status\":\"REJECTED\"}'');
                           ok task' }) }) }) })) }) }"

definition WithdrawReview :: "int \<Rightarrow> string \<Rightarrow> SkillVersion op" where
  "WithdrawReview versionID actorID = do {
     r \<leftarrow> ReviewTaskRepo_FindByVersionIDAndStatus versionID ''PENDING'';
     (case r of
       Inl e \<Rightarrow> fail (wrap ''review: find task'' e)
     | Inr None \<Rightarrow> fail (Errorf ''review_task.not_found_for_version %d'' [AInt versionID])
     | Inr (Some task) \<Rightarrow>
       if rt_SubmittedBy task \<noteq> actorID then fail (Errs ''review.withdraw.not_submitter'')
       else do {
         r \<leftarrow> ReviewTaskRepo_Delete (rt_ID task);
         (case r of
           Inl e \<Rightarrow> fail (wrap ''review: delete task'' e)
         | Inr _ \<Rightarrow> do {
             r \<leftarrow> VersionRepo_FindByID versionID;
             (case r of
               Inl e \<Rightarrow> fail (wrap ''review: find version'' e)
             | Inr None \<Rightarrow> fail (Errorf ''skill_version.not_found %d'' [AInt versionID])
             | Inr (Some v) \<Rightarrow> do {
                 r \<leftarrow> SkillRepo_FindByID (sv_SkillID v);
                 (case r of
                   Inl e \<Rightarrow> fail (wrap ''review: find skill'' e)
                 | Inr None \<Rightarrow> fail (Errorf ''skill.not_found %d'' [AInt (sv_SkillID v)])
                 | Inr (Some sk) \<Rightarrow> do {
                     r \<leftarrow> NamespaceRepo_FindByID (sk_NamespaceID sk);
                     (case r of
                       Inl e \<Rightarrow> fail (wrap ''review: find namespace'' e)
                     | Inr ns \<Rightarrow>
                       (case assertNamespaceActive ns of
                         Some e \<Rightarrow> fail e
                       | None \<Rightarrow>
                         if sv_Status v \<noteq> ''PENDING_REVIEW'' then fail (Errorf ''review.withdraw.not_pending %d'' [AInt (sv_ID v)])
                         else do {
                           r \<leftarrow> VersionRepo_Save (v\<lparr>sv_Status := ''UPLOADED''\<rparr>);
                           (case r of
                             Inl e \<Rightarrow> fail (wrap ''review: save version'' e)
                           | Inr savedVersion \<Rightarrow> do {
                               r \<leftarrow> SkillRepo_Save (sk\<lparr>sk_UpdatedBy := Some actorID\<rparr>);
                               (case r of
                                 Inl e \<Rightarrow> fail (wrap ''review: save skill'' e)
                               | Inr _ \<Rightarrow> ok savedVersion) }) })) }) }) }) }) }"

section \<open>What the collaborators leave alone\<close>

definition review_env_ok :: "review_env \<Rightarrow> bool" where
  "review_env_ok env \<longleftrightarrow> neutral_opt (rv_bus env) \<and> neutral_opt (rv_notifier env) \<and> neutral_opt (rv_gate env)"

lemma review_env_okD:
  "review_env_ok env \<Longrightarrow> neutral_opt (rv_bus env)" "review_env_ok env \<Longrightarrow> neutral_opt (rv_notifier env)"
  "review_env_ok env \<Longrightarrow> neutral_opt (rv_gate env)"
  by (simp_all add: review_env_ok_def)

lemma wp_slug_conflict:
  assumes "\<And>b w'. db w' = db w \<Longrightarrow> (healthy w \<Longrightarrow> healthy w') \<Longrightarrow> Q b w'"
  shows "wp (slug_conflict skillID others) Q w"
  using assms
proof (induction others arbitrary: w)
  case (Cons other others)
  have IH: "wp (slug_conflict skillID others) Q v" if "db v = db w" "healthy w \<Longrightarrow> healthy v" for v
    by (rule Cons.IH) (use that Cons.prems in auto)
  show ?case
  proof (cases "sk_ID other = skillID")
    case True
    then show ?thesis using IH [of w] by simp
  next
    case False
    then show ?thesis by (auto simp: skill_repo_defs intro!: IH Cons.prems split: list.splits)
  qed
qed simp

lemma wp_enforce_gate:
  assumes "neutral_opt (rv_gate env)"
    and "\<And>w'. core (db w') = core (db w) \<Longrightarrow> Q (Inr ()) w'" and "\<And>e w'. core (db w') = core (db w) \<Longrightarrow> Q (Inl e) w'"
  shows "wp (enforce_gate env s v) Q w"
proof (cases "rv_gate env")
  case None
  then show ?thesis using assms(2) by (simp add: enforce_gate_def)
next
  case (Some g)
  then have g: "collaborator g" using assms(1) by (simp add: neutral_opt_def)
  show ?thesis using Some
    by (simp add: enforce_gate_def) (rule collaborator.wp_call [OF g], auto intro: assms(2,3) split: sum.splits)
qed

text \<open>The two writes of an approval, on the tables as they were before it.\<close>

definition approval_writes :: "SkillVersion \<Rightarrow> Skill \<Rightarrow> string \<Rightarrow> time \<Rightarrow> database \<Rightarrow> database \<Rightarrow> bool" where
  "approval_writes v sk reviewer t d d' \<longleftrightarrow>
     (\<exists>t1 i1. versions d' = svt.save (sv_row (published t v) t1 i1) (versions d))
     \<and> (\<exists>t2 i2. skills d' = skt.save (sk_row (promoted_skill v reviewer sk) t2 i2) (skills d))
     \<and> review_tasks d' = review_tasks d"

lemma approval_writesI:
  assumes "core d' = core (d0\<lparr>versions := svt.save (sv_row (published t v) t1 i1) (versions d0),
       skills := skt.save (sk_row (promoted_skill v reviewer sk) t2 i2) (skills d0)\<rparr>)" and "core d0 = core d"
  shows "approval_writes v sk reviewer t d d'"
  using core_eqD [OF assms(1)] core_eqD [OF assms(2)] unfolding approval_writes_def by auto

lemma finish_approval_wp:
  assumes env: "review_env_ok env"
    and succ: "\<And>sk w'. find (\<lambda>s. sk_ID s = sv_SkillID v) (skills (db w)) = Some sk
       \<Longrightarrow> approval_writes v sk reviewer t (db w) (db w') \<Longrightarrow> Q (Inr task) w'"
    and err: "\<And>e w'. Q (Inl e) w'"
  shows "wp (finish_approval env task v reviewer t) Q w"
  apply (simp add: finish_approval_def skill_repo_defs err split: option.splits)
  apply (intro conjI impI allI err wp_slug_conflict wp_enforce_gate [OF review_env_okD(3) [OF env]]; simp add: err)
  apply (intro conjI impI allI err wp_slug_conflict wp_enforce_gate [OF review_env_okD(3) [OF env]]; simp add: err Let_def)
  apply ((intro impI wp_notify [OF review_env_okD(1) [OF env]] wp_notify [OF review_env_okD(2) [OF env]]; simp)+)
  apply (rule succ, assumption, rule approval_writesI, force, force)
  done

lemma approve_wp:
  assumes env: "review_env_ok env"
    and succ: "\<And>task ns v sk t t0 w'. find (\<lambda>x. rt_ID x = taskID) (review_tasks (db w)) = Some task \<Longrightarrow> rt_Status task = ''PENDING''
       \<Longrightarrow> find (\<lambda>n. ns_ID n = rt_NamespaceID task) (namespaces (db w)) = Some ns
       \<Longrightarrow> CanReview (rt_SubmittedBy task) (rt_NamespaceID task) (review_ns_type ns) reviewer rs pr
       \<Longrightarrow> find (\<lambda>v. sv_ID v = rt_SkillVersionID task) (versions (db w)) = Some v
       \<Longrightarrow> find (\<lambda>s. sk_ID s = sv_SkillID v) (skills (db w)) = Some sk
       \<Longrightarrow> approval_writes v sk reviewer t
             ((db w)\<lparr>review_tasks := update_where (\<lambda>x. rt_ID x = taskID \<and> rt_Version x = rt_Version task)
                (rt_decide ''APPROVED'' reviewer comment t0) (review_tasks (db w))\<rparr>) (db w')
       \<Longrightarrow> Q (Inr (decided ''APPROVED'' reviewer comment t task)) w'"
    and err: "\<And>e w'. Q (Inl e) w'"
  shows "wp (ApproveReview env taskID reviewer comment rs pr) Q w"
  by (simp add: ApproveReview_def review_repo_defs skill_repo_defs namespace_repo_defs err IsPending_def split: option.splits)
    (auto intro!: err finish_approval_wp [OF env] succ)

text \<open>An approval is granted by the permission rules, and the three rows it is about are in the
  approved state afterwards.\<close>

definition approved_state :: "int \<Rightarrow> ReviewTask \<Rightarrow> SkillVersion \<Rightarrow> database \<Rightarrow> bool" where
  "approved_state taskID task v d \<longleftrightarrow>
     (\<exists>task'. find (\<lambda>x. rt_ID x = taskID) (review_tasks d) = Some task' \<and> rt_Status task' = ''APPROVED'' \<and> rt_Version task' = rt_Version task + 1)
     \<and> (\<exists>v'. find (\<lambda>x. sv_ID x = sv_ID v) (versions d) = Some v' \<and> sv_Status v' = ''PUBLISHED'' \<and> sv_PublishedAt v' \<noteq> None)
     \<and> (\<exists>sk'. find (\<lambda>s. sk_ID s = sv_SkillID v) (skills d) = Some sk' \<and> sk_LatestVersionID sk' = Some (sv_ID v))"

lemma approval_reaches:
  assumes "approval_writes v sk reviewer t d1 d'"
    and d1: "d1 = d\<lparr>review_tasks := update_where (\<lambda>x. rt_ID x = taskID \<and> rt_Version x = rt_Version task) (rt_decide ''APPROVED'' reviewer comment t0) (review_tasks d)\<rparr>"
    and "svt.unique (versions d)" and "skt.unique (skills d)"
    and "find (\<lambda>x. rt_ID x = taskID) (review_tasks d) = Some task"
    and "find (\<lambda>x. sv_ID x = i) (versions d) = Some v" and "find (\<lambda>s. sk_ID s = sv_SkillID v) (skills d) = Some sk"
  shows "approved_state taskID task v d'"
proof -
  from assms(1) obtain t1 i1 t2 i2 where v': "versions d' = svt.save (sv_row (published t v) t1 i1) (versions d)"
    and s': "skills d' = skt.save (sk_row (promoted_skill v reviewer sk) t2 i2) (skills d)"
    and r': "review_tasks d' = review_tasks d1"
    by (auto simp: approval_writes_def d1)
  have "find (\<lambda>x. rt_ID x = taskID) (review_tasks d') = Some (rt_decide ''APPROVED'' reviewer comment t0 task)"
    using assms(5) find_SomeD [OF assms(5)] by (simp add: r' d1 find_update_where rt_decide_def)
  moreover have iv: "i = sv_ID v" using find_SomeD [OF assms(6)] by simp
  have "find (\<lambda>x. sv_ID x = sv_ID v) (versions d') = Some (sv_merge (sv_row (published t v) t1 i1) v)"
    unfolding v' using assms(3,6) iv by (intro svt.find_save_existing) (simp_all add: published_def sv_key_def sv_merge_def)
  moreover have "find (\<lambda>s. sk_ID s = sv_SkillID v) (skills d') = Some (sk_merge (sk_row (promoted_skill v reviewer sk) t2 i2) sk)"
    unfolding s' using assms(4,7) find_SomeD [OF assms(7)]
    by (intro skt.find_save_existing) (simp_all add: promoted_skill_def sk_key_def sk_merge_def)
  ultimately show ?thesis
    by (simp add: approved_state_def rt_decide_def sv_merge_def published_def sk_merge_def promoted_skill_def)
qed

text \<open>C24: whatever statements fail, an approval that returns a task was granted by the permission
  rules on a pending task, and left all three rows it is about in the approved state: the task APPROVED
  with its version moved on, the skill version PUBLISHED, the skill's latest version pointing at it.\<close>

theorem approval_is_complete:
  assumes "review_env_ok env" and "svt.unique (versions (db w))" and "skt.unique (skills (db w))"
    and "run_state (ApproveReview env taskID reviewer comment rs pr) w = (Inr task', w')"
  shows "\<exists>task ns v. find (\<lambda>x. rt_ID x = taskID) (review_tasks (db w)) = Some task \<and> rt_Status task = ''PENDING''
     \<and> find (\<lambda>n. ns_ID n = rt_NamespaceID task) (namespaces (db w)) = Some ns
     \<and> CanReview (rt_SubmittedBy task) (rt_NamespaceID task) (review_ns_type ns) reviewer rs pr
     \<and> find (\<lambda>v. sv_ID v = rt_SkillVersionID task) (versions (db w)) = Some v
     \<and> approved_state taskID task v (db w')"
proof -
  let ?Q = "\<lambda>r w'. case r of Inl _ \<Rightarrow> True | Inr _ \<Rightarrow> \<exists>task ns v. find (\<lambda>x. rt_ID x = taskID) (review_tasks (db w)) = Some task \<and> rt_Status task = ''PENDING''
     \<and> find (\<lambda>n. ns_ID n = rt_NamespaceID task) (namespaces (db w)) = Some ns
     \<and> CanReview (rt_SubmittedBy task) (rt_NamespaceID task) (review_ns_type ns) reviewer rs pr
     \<and> find (\<lambda>v. sv_ID v = rt_SkillVersionID task) (versions (db w)) = Some v
     \<and> approved_state taskID task v (db w')"
  have "wp (ApproveReview env taskID reviewer comment rs pr) ?Q w"
  proof (rule approve_wp [OF assms(1)])
    fix task ns v sk t t0 and w' :: world
    assume a: "find (\<lambda>x. rt_ID x = taskID) (review_tasks (db w)) = Some task" "rt_Status task = ''PENDING''"
       "find (\<lambda>n. ns_ID n = rt_NamespaceID task) (namespaces (db w)) = Some ns"
       "CanReview (rt_SubmittedBy task) (rt_NamespaceID task) (review_ns_type ns) reviewer rs pr"
       "find (\<lambda>v. sv_ID v = rt_SkillVersionID task) (versions (db w)) = Some v"
       and sk: "find (\<lambda>s. sk_ID s = sv_SkillID v) (skills (db w)) = Some sk"
       and wr: "approval_writes v sk reviewer t
             ((db w)\<lparr>review_tasks := update_where (\<lambda>x. rt_ID x = taskID \<and> rt_Version x = rt_Version task)
                (rt_decide ''APPROVED'' reviewer comment t0) (review_tasks (db w))\<rparr>) (db w')"
    show "?Q (Inr (decided ''APPROVED'' reviewer comment t task)) w'"
      using a approval_reaches [OF wr refl assms(2,3) a(1,5) sk] by auto
  qed simp
  from wpD [OF assms(4) this] show ?thesis by simp
qed

section \<open>The optimistic lock\<close>

lemma length_filter_distinct:
  "distinct (map f rs) \<Longrightarrow> length (filter (\<lambda>x. f x = i \<and> p x) rs) \<le> 1"
proof (induction rs)
  case (Cons r rs)
  then show ?case by (cases "f r = i") (auto simp: image_iff filter_empty_conv)
qed simp

lemma decided_gone:
  "filter (\<lambda>x. rt_ID x = i \<and> rt_Version x = v) (update_where (\<lambda>x. rt_ID x = i \<and> rt_Version x = v) (rt_decide s u c t) rs) = []"
  by (induction rs) (auto simp: update_where_def)

text \<open>The version column lets one reviewer decide. When two requests have read a task at the same
  version, the first update of its status that changes a row changes exactly one, and a later update
  with the version both have read changes no row and no task.\<close>

theorem one_reviewer_decides:
  assumes "distinct (map rt_ID (review_tasks (db w)))"
    and "run_state (ReviewTaskRepo_UpdateStatusWithVersion i s1 u1 c1 v) w = (Inr n, w1)" and "n \<noteq> 0"
    and "review_tasks (db w2) = review_tasks (db w1)"
    and "run_state (ReviewTaskRepo_UpdateStatusWithVersion i s2 u2 c2 v) w2 = (r, w3)"
  shows "n = 1 \<and> (r = Inl DbFault \<or> r = Inr 0) \<and> review_tasks (db w3) = review_tasks (db w1)"
proof -
  have "wp (ReviewTaskRepo_UpdateStatusWithVersion i s1 u1 c1 v)
     (\<lambda>r w1. \<forall>n. r = Inr n \<longrightarrow> n \<le> 1 \<and> filter (\<lambda>x. rt_ID x = i \<and> rt_Version x = v) (review_tasks (db w1)) = []) w"
    using length_filter_distinct [OF assms(1), of i "\<lambda>x. rt_Version x = v"]
    by (simp add: ReviewTaskRepo_UpdateStatusWithVersion_def decided_gone)
  from wpD [OF assms(2) this] have n: "n \<le> 1" and
    f: "filter (\<lambda>x. rt_ID x = i \<and> rt_Version x = v) (review_tasks (db w1)) = []" by simp_all
  have u: "update_where (\<lambda>x. rt_ID x = i \<and> rt_Version x = v) g (review_tasks (db w1)) = review_tasks (db w1)" for g
    unfolding update_where_def by (rule map_idI) (use f in \<open>auto simp: filter_empty_conv\<close>)
  have "wp (ReviewTaskRepo_UpdateStatusWithVersion i s2 u2 c2 v)
     (\<lambda>r w3. (r = Inl DbFault \<or> r = Inr 0) \<and> review_tasks (db w3) = review_tasks (db w1)) w2"
    using f u by (simp add: ReviewTaskRepo_UpdateStatusWithVersion_def assms(4))
  from wpD [OF assms(5) this] n assms(3) show ?thesis by auto
qed

section \<open>One pending task per version\<close>

definition one_pending :: "database \<Rightarrow> bool" where
  "one_pending d \<longleftrightarrow> distinct (map rt_SkillVersionID (filter (\<lambda>x. rt_Status x = ''PENDING'') (review_tasks d)))"

lemma one_pending_tasks: "review_tasks d' = review_tasks d \<Longrightarrow> one_pending d' = one_pending d"
  by (simp add: one_pending_def)

lemma distinct_map_filter_sub:
  "distinct (map f (filter p rs)) \<Longrightarrow> (\<And>r. p (g r) \<Longrightarrow> p r \<and> f (g r) = f r) \<Longrightarrow> distinct (map f (filter p (map g rs)))"
proof (induction rs)
  case (Cons r rs)
  have sub: "f ` (set (filter p (map g rs))) \<subseteq> f ` (set (filter p rs))" using Cons.prems(2) by fastforce
  show ?case using Cons sub by (auto split: if_splits)
qed simp

lemma one_pending_decide:
  "one_pending d \<Longrightarrow> s \<noteq> ''PENDING'' \<Longrightarrow> one_pending (d\<lparr>review_tasks := update_where p (rt_decide s u c t) (review_tasks d)\<rparr>)"
  unfolding one_pending_def update_where_def by (simp, rule distinct_map_filter_sub) (auto split: if_splits)

lemma one_pending_delete: "one_pending d \<Longrightarrow> one_pending (d\<lparr>review_tasks := delete_where p (review_tasks d)\<rparr>)"
  unfolding one_pending_def delete_where_def
  using distinct_map_filter [of rt_SkillVersionID "filter (\<lambda>x. rt_Status x = ''PENDING'') (review_tasks d)" "\<lambda>x. \<not> p x"]
  by (simp add: conj_commute)

lemma one_pending_append:
  "one_pending d \<Longrightarrow> \<not> (rt_Status x = ''PENDING'' \<and> list_ex (\<lambda>y. rt_SkillVersionID y = rt_SkillVersionID x \<and> rt_Status y = ''PENDING'') (review_tasks d))
     \<Longrightarrow> one_pending (d\<lparr>review_tasks := review_tasks d @ [x]\<rparr>)"
  by (auto simp: one_pending_def list_ex_iff)

lemma keeps_notify:
  assumes "neutral_opt h" and "\<And>d d'. core d' = core d \<Longrightarrow> I d \<Longrightarrow> I d'"
  shows "keeps I (notify h x)"
  by (rule keepsI, rule wp_notify [OF assms(1)]) (use assms(2) in blast)

lemma one_pending_core: "core d' = core d \<Longrightarrow> one_pending d \<Longrightarrow> one_pending d'"
  using one_pending_tasks [OF core_eqD(8)] by blast

lemma keeps_one_pending_reads [keeps_intros]:
  "keeps one_pending (ReviewTaskRepo_FindByID i)" "keeps one_pending (ReviewTaskRepo_FindByVersionIDAndStatus i st)"
  "keeps one_pending (NamespaceRepo_FindByID i)" "keeps one_pending (SkillRepo_FindByID i)" "keeps one_pending (VersionRepo_FindByID i)"
  "keeps one_pending (SkillRepo_FindByNamespaceIDAndSlug i sl)" "keeps one_pending (VersionRepo_FindBySkillIDAndStatus i st)"
  unfolding review_repo_defs skill_repo_defs namespace_repo_defs by (rule keeps_query_row keeps_query)+

lemma keeps_one_pending_writes [keeps_intros]:
  "keeps one_pending (VersionRepo_Save v)" "keeps one_pending (SkillRepo_Save sk)"
  "keeps one_pending (ReviewTaskRepo_Delete i)"
  "s \<noteq> ''PENDING'' \<Longrightarrow> keeps one_pending (ReviewTaskRepo_UpdateStatusWithVersion i s u c n)"
  "keeps one_pending (ReviewTaskRepo_Save x)"
  unfolding VersionRepo_Save_def SkillRepo_Save_def ReviewTaskRepo_Save_def ReviewTaskRepo_Delete_def ReviewTaskRepo_UpdateStatusWithVersion_def
      apply (intro keeps_bind keeps_now keeps_insert; force simp: one_pending_def)
     apply (intro keeps_bind keeps_now keeps_insert; force simp: one_pending_def)
    apply (intro keeps_exec; simp add: one_pending_delete)
   apply (intro keeps_bind keeps_now keeps_exec; simp add: one_pending_decide)
  apply (intro keeps_bind keeps_now keeps_insert; force simp: Let_def one_pending_append split: if_splits)
  done


lemma keeps_slug_conflict [keeps_intros]: "keeps one_pending (slug_conflict i others)"
  by (rule keepsI, rule wp_slug_conflict) simp

lemma keeps_one_pending_env:
  assumes "review_env_ok env"
  shows "keeps one_pending (notify (rv_bus env) e)" "keeps one_pending (notify (rv_notifier env) x)" "keeps one_pending (enforce_gate env i j)"
proof -
  show "keeps one_pending (notify (rv_bus env) e)" "keeps one_pending (notify (rv_notifier env) x)"
    by (rule keeps_notify [where I = one_pending], rule review_env_okD [OF assms], erule (1) one_pending_core)+
  show "keeps one_pending (enforce_gate env i j)"
    by (rule keepsI, rule wp_enforce_gate [OF review_env_okD(3) [OF assms]]) (blast intro: one_pending_core)+
qed

lemma keeps_one_pending_finish:
  assumes "review_env_ok env"
  shows "keeps one_pending (finish_approval env task v u t)"
  unfolding finish_approval_def by (intro keeps_intros keeps_one_pending_env [OF assms])

lemma keeps_one_pending_service:
  assumes "review_env_ok env"
  shows "keeps one_pending (SubmitReview env i u rs pr)" "keeps one_pending (ApproveReview env i u c rs pr)"
     "keeps one_pending (WithdrawReview i u)"
  unfolding SubmitReview_def ApproveReview_def WithdrawReview_def
  by (intro keeps_intros keeps_one_pending_env [OF assms] keeps_one_pending_finish [OF assms]; simp)+

lemma keeps_one_pending_reject:
  assumes "review_env_ok env"
  shows "keeps one_pending (RejectReview env i u c rs pr)"
  unfolding RejectReview_def Let_def by (intro keeps_intros keeps_one_pending_env [OF assms]; simp)


section \<open>A failing gate\<close>

definition approvable :: "database \<Rightarrow> int \<Rightarrow> string \<Rightarrow> roles \<Rightarrow> platform \<Rightarrow> bool" where
  "approvable d taskID reviewer rs pr \<longleftrightarrow> (\<exists>task ns v sk.
     find (\<lambda>x. rt_ID x = taskID) (review_tasks d) = Some task \<and> rt_Status task = ''PENDING''
     \<and> find (\<lambda>n. ns_ID n = rt_NamespaceID task) (namespaces d) = Some ns \<and> ns_Status ns = ''ACTIVE''
     \<and> CanReview (rt_SubmittedBy task) (rt_NamespaceID task) (review_ns_type ns) reviewer rs pr
     \<and> find (\<lambda>v. sv_ID v = rt_SkillVersionID task) (versions d) = Some v \<and> sv_Status v \<noteq> ''SCANNING''
     \<and> find (\<lambda>s. sk_ID s = sv_SkillID v) (skills d) = Some sk)"


section \<open>Submitting and withdrawing\<close>

text \<open>The rows a submission reads, and its guards.\<close>

definition submittable :: "database \<Rightarrow> int \<Rightarrow> string \<Rightarrow> roles \<Rightarrow> platform \<Rightarrow> bool" where
  "submittable d versionID actor rs pr \<longleftrightarrow> (\<exists>v sk ns.
     find (\<lambda>v. sv_ID v = versionID) (versions d) = Some v \<and> (sv_Status v = ''DRAFT'' \<or> sv_Status v = ''UPLOADED'')
     \<and> find (\<lambda>s. sk_ID s = sv_SkillID v) (skills d) = Some sk
     \<and> find (\<lambda>n. ns_ID n = sk_NamespaceID sk) (namespaces d) = Some ns \<and> ns_Status ns \<noteq> ''FROZEN'' \<and> ns_Status ns \<noteq> ''ARCHIVED''
     \<and> CanSubmitForReview (sk_OwnerID sk) (sk_NamespaceID sk) actor rs pr)"

definition version_status :: "int \<Rightarrow> database \<Rightarrow> string option" where
  "version_status i d = map_option sv_Status (find (\<lambda>v. sv_ID v = i) (versions d))"

lemma find_saved_version:
  assumes "svt.unique vs" and "find (\<lambda>x. sv_ID x = i) vs = Some v"
  shows "find (\<lambda>x. sv_ID x = i) (svt.save (sv_row (v\<lparr>sv_Status := st\<rparr>) t j) vs) = Some (sv_merge (sv_row (v\<lparr>sv_Status := st\<rparr>) t j) v)"
  using assms find_SomeD [OF assms(2)] by (intro svt.find_save_existing) (simp_all add: sv_key_def sv_merge_def)

text \<open>Without failing statements, a submission whose guards hold creates one PENDING task of the
  caller and moves the version to PENDING_REVIEW; withdrawing it as the submitter then succeeds, removes
  exactly that task, and leaves the version UPLOADED.\<close>

theorem submit_then_withdraw:
  assumes "healthy w" and "rv_bus env = None" and "svt.unique (versions (db w))" and "skt.unique (skills (db w))"
    and "submittable (db w) versionID actor rs pr"
    and "\<forall>x \<in> set (review_tasks (db w)). rt_ID x \<le> seqs w ''review_task_id_seq'' \<and> \<not> (rt_SkillVersionID x = versionID \<and> rt_Status x = ''PENDING'')"
    and "run_state (SubmitReview env versionID actor rs pr) w = (r1, w1)"
    and "run_state (WithdrawReview versionID actor) w1 = (r2, w2)"
  shows "(\<exists>task. r1 = Inr task \<and> review_tasks (db w1) = review_tasks (db w) @ [task] \<and> rt_Status task = ''PENDING'' \<and> rt_SubmittedBy task = actor)
     \<and> version_status versionID (db w1) = Some ''PENDING_REVIEW''
     \<and> (\<exists>v. r2 = Inr v) \<and> review_tasks (db w2) = review_tasks (db w) \<and> version_status versionID (db w2) = Some ''UPLOADED''"
proof -
  obtain v sk ns where v: "find (\<lambda>v. sv_ID v = versionID) (versions (db w)) = Some v" "sv_Status v = ''DRAFT'' \<or> sv_Status v = ''UPLOADED''"
     and sk: "find (\<lambda>s. sk_ID s = sv_SkillID v) (skills (db w)) = Some sk"
     and ns: "find (\<lambda>n. ns_ID n = sk_NamespaceID sk) (namespaces (db w)) = Some ns" "ns_Status ns \<noteq> ''FROZEN''" "ns_Status ns \<noteq> ''ARCHIVED''"
     and can: "CanSubmitForReview (sk_OwnerID sk) (sk_NamespaceID sk) actor rs pr"
    using assms(5) unfolding submittable_def by blast
  have nopend: "\<not> list_ex (\<lambda>x. rt_SkillVersionID x = versionID \<and> rt_Status x = ''PENDING'') (review_tasks (db w))"
    using assms(6) by (auto simp: list_ex_iff)
  let ?P = "\<lambda>r1 w1. healthy w1 \<and> (\<exists>task t j. r1 = Inr task \<and> review_tasks (db w1) = review_tasks (db w) @ [task]
     \<and> rt_Status task = ''PENDING'' \<and> rt_SubmittedBy task = actor \<and> rt_SkillVersionID task = versionID
     \<and> rt_ID task = seqs w ''review_task_id_seq'' + 1
     \<and> versions (db w1) = svt.save (sv_row (v\<lparr>sv_Status := ''PENDING_REVIEW''\<rparr>) t j) (versions (db w))
     \<and> skills (db w1) = skills (db w) \<and> namespaces (db w1) = namespaces (db w))"
  have "wp (SubmitReview env versionID actor rs pr) ?P w"
    using assms(1,2) v sk ns can nopend
    by (auto simp: SubmitReview_def skill_repo_defs namespace_repo_defs ReviewTaskRepo_Save_def assertNamespaceActive_def
        notify_def Let_def IsZero_def next_id_def)
  from wpD [OF assms(7) this] obtain task t j where h: "healthy w1" and r1: "r1 = Inr task" "review_tasks (db w1) = review_tasks (db w) @ [task]"
     "rt_Status task = ''PENDING''" "rt_SubmittedBy task = actor" "rt_SkillVersionID task = versionID" "rt_ID task = seqs w ''review_task_id_seq'' + 1"
     and w1: "versions (db w1) = svt.save (sv_row (v\<lparr>sv_Status := ''PENDING_REVIEW''\<rparr>) t j) (versions (db w))"
     "skills (db w1) = skills (db w)" "namespaces (db w1) = namespaces (db w)" by blast
  let ?v1 = "sv_merge (sv_row (v\<lparr>sv_Status := ''PENDING_REVIEW''\<rparr>) t j) v"
  have v1: "find (\<lambda>x. sv_ID x = versionID) (versions (db w1)) = Some ?v1" using find_saved_version [OF assms(3) v(1)] w1(1) by simp
  have u1: "svt.unique (versions (db w1))" using assms(3) by (simp add: w1(1) svt.unique_save)
  have m1 [simp]: "sv_SkillID ?v1 = sv_SkillID v" "sv_Status ?v1 = ''PENDING_REVIEW''" by (simp_all add: sv_merge_def)
  have old: "find (\<lambda>x. rt_SkillVersionID x = versionID \<and> rt_Status x = ''PENDING'') (review_tasks (db w)) = None"
    using nopend by (auto simp: find_None_iff list_ex_iff)
  have ft: "find (\<lambda>x. rt_SkillVersionID x = versionID \<and> rt_Status x = ''PENDING'') (review_tasks (db w1)) = Some task"
    using old r1 by (auto simp: r1(2) find_append_rows)
  have del: "delete_where (\<lambda>x. rt_ID x = rt_ID task) (review_tasks (db w1)) = review_tasks (db w)"
    using assms(6) r1 by (force simp: delete_where_def intro: filter_True)
  have "wp (WithdrawReview versionID actor) (\<lambda>r2 w2. (\<exists>v. r2 = Inr v) \<and> review_tasks (db w2) = review_tasks (db w)
      \<and> version_status versionID (db w2) = Some ''UPLOADED'') w1"
    using h r1 w1 v1 sk ns ft del find_saved_version [OF u1 v1]
    by (auto simp: WithdrawReview_def review_repo_defs skill_repo_defs namespace_repo_defs assertNamespaceActive_def version_status_def Let_def sv_merge_def)
  from wpD [OF assms(8) this] show ?thesis using r1 v1 by (auto simp: version_status_def)
qed

section \<open>Concrete runs\<close>

definition shop_ns :: Namespace where
  "shop_ns = \<lparr> ns_ID = 7, ns_Slug = ''team'', ns_DisplayName = ''Team'', ns_Type = ''TEAM'', ns_Description = [],
     ns_AvatarURL = [], ns_Status = ''ACTIVE'', ns_CreatedBy = Some ''ann'', ns_CreatedAt = 1, ns_UpdatedAt = 1 \<rparr>"

definition shop_skill :: Skill where
  "shop_skill = \<lparr> sk_ID = 3, sk_NamespaceID = 7, sk_Slug = ''greet'', sk_DisplayName = ''Greet'', sk_Summary = [],
     sk_OwnerID = ''cy'', sk_SourceSkillID = None, sk_Visibility = ''PUBLIC'', sk_Status = ''ACTIVE'', sk_LatestVersionID = None,
     sk_DownloadCount = 0, sk_StarCount = 0, sk_RatingAvg = 0, sk_RatingCount = 0, sk_SubscriptionCount = 0, sk_Hidden = False,
     sk_HiddenAt = None, sk_HiddenBy = None, sk_CreatedBy = Some ''cy'', sk_CreatedAt = 1, sk_UpdatedBy = None, sk_UpdatedAt = 1 \<rparr>"

definition shop_version :: "string \<Rightarrow> SkillVersion" where
  "shop_version status = \<lparr> sv_ID = 5, sv_SkillID = 3, sv_Version = ''1.0.0'', sv_Status = status, sv_Changelog = [],
     sv_ParsedMetadataJSON = None, sv_ManifestJSON = None, sv_RequestedVisibility = None, sv_FileCount = 1, sv_TotalSize = 9,
     sv_BundleReady = True, sv_DownloadReady = True, sv_PublishedAt = None, sv_YankedAt = None, sv_YankedBy = None,
     sv_YankReason = None, sv_CreatedBy = ''cy'', sv_CreatedAt = 1 \<rparr>"

definition shop_task :: ReviewTask where
  "shop_task = \<lparr> rt_ID = 11, rt_SkillVersionID = 5, rt_NamespaceID = 7, rt_Status = ''PENDING'', rt_Version = 1, rt_SubmittedBy = ''cy'',
     rt_ReviewedBy = None, rt_ReviewComment = None, rt_SubmittedAt = 2, rt_ReviewedAt = None \<rparr>"

definition shop_db :: "string \<Rightarrow> ReviewTask list \<Rightarrow> database" where
  "shop_db status tasks = empty_db\<lparr> namespaces := [shop_ns], skills := [shop_skill], versions := [shop_version status], review_tasks := tasks \<rparr>"

lemma shop_simps [simp]:
  "namespaces (shop_db st ts) = [shop_ns]" "skills (shop_db st ts) = [shop_skill]" "versions (shop_db st ts) = [shop_version st]"
  "review_tasks (shop_db st ts) = ts" "ns_ID shop_ns = 7" "ns_Type shop_ns = ''TEAM''" "ns_Status shop_ns = ''ACTIVE''"
  "sk_ID shop_skill = 3" "sk_NamespaceID shop_skill = 7" "sk_OwnerID shop_skill = ''cy''" "sk_Slug shop_skill = ''greet''"
  "sv_ID (shop_version st) = 5" "sv_SkillID (shop_version st) = 3" "sv_Status (shop_version st) = st"
  "rt_ID shop_task = 11" "rt_Status shop_task = ''PENDING''" "rt_NamespaceID shop_task = 7" "rt_SkillVersionID shop_task = 5"
  "rt_SubmittedBy shop_task = ''cy''" "rt_Version shop_task = 1"
  by (simp_all add: shop_db_def shop_ns_def shop_skill_def shop_version_def shop_task_def)

definition ann_roles :: roles where
  "ann_roles = (\<lambda>_. None)(7 \<mapsto> ''OWNER'')"

definition no_env :: review_env where
  "no_env = \<lparr>rv_bus = None, rv_notifier = None, rv_gate = None\<rparr>"

lemma no_env_ok [simp]: "review_env_ok no_env" "rv_bus no_env = None" "rv_notifier no_env = None" "rv_gate no_env = None"
  by (simp_all add: no_env_def review_env_ok_def)

theorem approval_is_complete_witness:
  "\<exists>task' w'. run_state (ApproveReview no_env 11 ''ann'' [] ann_roles (\<lambda>_. False)) (calm False (shop_db ''PENDING_REVIEW'' [shop_task])) = (Inr task', w')
     \<and> approved_state 11 shop_task (shop_version ''PENDING_REVIEW'') (db w')"
proof -
  let ?m = "ApproveReview no_env 11 ''ann'' [] ann_roles (\<lambda>_. False)" and ?w = "calm False (shop_db ''PENDING_REVIEW'' [shop_task])"
  obtain r w' where run: "run_state ?m ?w = (r, w')" by (metis surj_pair)
  have "wp ?m (\<lambda>r _. \<exists>x. r = Inr x) ?w"
    by (simp add: ApproveReview_def finish_approval_def review_repo_defs skill_repo_defs namespace_repo_defs IsPending_def
        assertNamespaceActive_def CanReview_def CanReviewNamespace_def review_ns_type_def role_of_def ann_roles_def
        hasPlatformReviewRole_def enforce_gate_def notify_def stmt_fails_def Let_def)
  with run obtain x where r: "r = Inr x" by (blast dest: wpD)
  show ?thesis
    using approval_is_complete [OF _ _ _ run [unfolded r]] run r
    by (auto simp: svt.unique_def skt.unique_def)
qed

theorem one_reviewer_decides_witness:
  "\<exists>w1 r w3. run_state (ReviewTaskRepo_UpdateStatusWithVersion 11 ''APPROVED'' ''ann'' [] 1) (calm False (shop_db ''PENDING_REVIEW'' [shop_task])) = (Inr 1, w1)
     \<and> run_state (ReviewTaskRepo_UpdateStatusWithVersion 11 ''REJECTED'' ''bob'' [] 1) w1 = (r, w3) \<and> review_tasks (db w3) = review_tasks (db w1)"
proof -
  let ?w = "calm False (shop_db ''PENDING_REVIEW'' [shop_task])"
  obtain r w1 where run: "run_state (ReviewTaskRepo_UpdateStatusWithVersion 11 ''APPROVED'' ''ann'' [] 1) ?w = (r, w1)" by (metis surj_pair)
  obtain r2 w3 where run2: "run_state (ReviewTaskRepo_UpdateStatusWithVersion 11 ''REJECTED'' ''bob'' [] 1) w1 = (r2, w3)" by (metis surj_pair)
  have "wp (ReviewTaskRepo_UpdateStatusWithVersion 11 ''APPROVED'' ''ann'' [] 1) (\<lambda>r _. r = Inr 1) ?w"
    by (simp add: ReviewTaskRepo_UpdateStatusWithVersion_def stmt_fails_def)
  with run have r: "r = Inr 1" by (rule wpD)
  show ?thesis using one_reviewer_decides [OF _ run [unfolded r] _ refl run2] run r run2 by auto
qed



theorem submit_then_withdraw_witness:
  "\<exists>task w1 v w2. run_state (SubmitReview no_env 5 ''cy'' (\<lambda>_. None) (\<lambda>_. False)) (calm False (shop_db ''DRAFT'' [])) = (Inr task, w1)
     \<and> run_state (WithdrawReview 5 ''cy'') w1 = (Inr v, w2) \<and> version_status 5 (db w2) = Some ''UPLOADED''"
proof -
  let ?w = "calm False (shop_db ''DRAFT'' [])"
  obtain r1 w1 where run: "run_state (SubmitReview no_env 5 ''cy'' (\<lambda>_. None) (\<lambda>_. False)) ?w = (r1, w1)" by (metis surj_pair)
  obtain r2 w2 where run2: "run_state (WithdrawReview 5 ''cy'') w1 = (r2, w2)" by (metis surj_pair)
  have "submittable (db ?w) 5 ''cy'' (\<lambda>_. None) (\<lambda>_. False)"
    by (simp add: submittable_def CanSubmitForReview_def)
  then show ?thesis
    using submit_then_withdraw [OF _ _ _ _ _ _ run run2] run run2 by (auto simp: svt.unique_def skt.unique_def)
qed

end
