(* ===== verification/Promotion.thy ===== *)
theory Promotion
  imports Review
begin

text \<open>
  \<open>promotion/service.go\<close>: requests to copy a published version into the global namespace. The
  approval runs in one unit of work when the service has a transactor; its events and
  notifications come after it.
\<close>

record promotion_env =
  pm_bus :: "(Event \<Rightarrow> unit op) option"
  pm_notifier :: "(Notification \<Rightarrow> unit op) option"

definition PromotionSubmittedEvent :: "PromotionRequest \<Rightarrow> Event" where
  "PromotionSubmittedEvent x = \<lparr>ev_Name = ''promotion.submitted'', ev_Fields =
     [AInt (pr_ID x), AInt (pr_SourceSkillID x), AInt (pr_SourceVersionID x), AStr (pr_SubmittedBy x)]\<rparr>"

definition PromotionApprovedEvent :: "int \<Rightarrow> int \<Rightarrow> string \<Rightarrow> string \<Rightarrow> Event" where
  "PromotionApprovedEvent reqID sourceSkillID reviewedBy submittedBy = \<lparr>ev_Name = ''promotion.approved'', ev_Fields =
     [AInt reqID, AInt sourceSkillID, AStr reviewedBy, AStr submittedBy]\<rparr>"

definition PromotionRejectedEvent :: "PromotionRequest \<Rightarrow> string \<Rightarrow> string \<Rightarrow> Event" where
  "PromotionRejectedEvent x reviewedBy comment = \<lparr>ev_Name = ''promotion.rejected'', ev_Fields =
     [AInt (pr_ID x), AInt (pr_SourceSkillID x), AStr reviewedBy, AStr (pr_SubmittedBy x), AStr comment]\<rparr>"

definition promotion_note :: "string \<Rightarrow> int \<Rightarrow> string \<Rightarrow> string \<Rightarrow> Notification" where
  "promotion_note user i title body = \<lparr>nt_UserID = user, nt_Category = ''PROMOTION'', nt_EntityType = ''PROMOTION_REQUEST'',
     nt_EntityID = i, nt_Title = title, nt_BodyJSON = body\<rparr>"

definition SubmitPromotion :: "promotion_env \<Rightarrow> int \<Rightarrow> int \<Rightarrow> int \<Rightarrow> string \<Rightarrow> roles \<Rightarrow> platform \<Rightarrow> PromotionRequest op" where
  "SubmitPromotion env skillID versionID targetID actorID rs pr = do {
     r \<leftarrow> SkillRepo_FindByID skillID;
     (case r of
       Inl e \<Rightarrow> fail (wrap ''promotion: find skill'' e)
     | Inr None \<Rightarrow> fail (Errorf ''skill.not_found %d'' [AInt skillID])
     | Inr (Some sk) \<Rightarrow> do {
         r \<leftarrow> VersionRepo_FindByID versionID;
         (case r of
           Inl e \<Rightarrow> fail (wrap ''promotion: find version'' e)
         | Inr None \<Rightarrow> fail (Errorf ''skill_version.not_found %d'' [AInt versionID])
         | Inr (Some v) \<Rightarrow>
           if sv_SkillID v \<noteq> skillID then fail (Errorf ''promotion.version_skill_mismatch %d %d'' [AInt versionID, AInt skillID])
           else if sv_Status v \<noteq> ''PUBLISHED'' then fail (Errorf ''promotion.version_not_published %d'' [AInt versionID])
           else do {
             r \<leftarrow> NamespaceRepo_FindByID (sk_NamespaceID sk);
             (case r of
               Inl e \<Rightarrow> fail (wrap ''promotion: find namespace'' e)
             | Inr None \<Rightarrow> fail (Errorf ''namespace.not_found %d'' [AInt (sk_NamespaceID sk)])
             | Inr (Some ns) \<Rightarrow>
               (case assertNamespaceActive (Some ns) of
                 Some e \<Rightarrow> fail e
               | None \<Rightarrow>
                 if \<not> CanSubmitPromotion (sk_OwnerID sk) (sk_NamespaceID sk) actorID rs pr
                 then fail (Errs ''promotion.submit.no_permission'')
                 else do {
                   r \<leftarrow> NamespaceRepo_FindByID targetID;
                   (case r of
                     Inl e \<Rightarrow> fail (wrap ''promotion: find target namespace'' e)
                   | Inr None \<Rightarrow> fail (Errorf ''namespace.not_found %d'' [AInt targetID])
                   | Inr (Some target) \<Rightarrow>
                     if ns_Type target \<noteq> ''GLOBAL'' then fail (Errorf ''promotion.target_not_global %d'' [AInt targetID])
                     else do {
                       r \<leftarrow> PromotionRepo_FindBySourceSkillIDAndStatus skillID ''PENDING'';
                       (case r of
                         Inr (Some _) \<Rightarrow> fail (Errorf ''promotion.duplicate_pending %d'' [AInt versionID])
                       | _ \<Rightarrow> do {
                           r \<leftarrow> PromotionRepo_FindBySourceSkillIDAndStatus skillID ''APPROVED'';
                           (case r of
                             Inr (Some _) \<Rightarrow> fail (Errorf ''promotion.already_promoted %d'' [AInt skillID])
                           | _ \<Rightarrow> do {
                               t \<leftarrow> now;
                               r \<leftarrow> PromotionRepo_Save \<lparr>pr_ID = 0, pr_SourceSkillID = skillID, pr_SourceVersionID = versionID,
                                 pr_TargetNamespaceID = targetID, pr_TargetSkillID = None, pr_Status = ''PENDING'', pr_Version = 1,
                                 pr_SubmittedBy = actorID, pr_ReviewedBy = None, pr_ReviewComment = None, pr_SubmittedAt = t, pr_ReviewedAt = None\<rparr>;
                               (case r of
                                 Inl e \<Rightarrow> fail (wrap ''promotion: save'' e)
                               | Inr saved \<Rightarrow> do {
                                   _ \<leftarrow> notify (pm_bus env) (PromotionSubmittedEvent saved);
                                   ok saved }) }) }) }) })) }) }) }"

text \<open>The three structs the approval builds.\<close>

definition promoted_copy :: "PromotionRequest \<Rightarrow> Skill \<Rightarrow> string \<Rightarrow> time \<Rightarrow> Skill" where
  "promoted_copy req src reviewerID t = \<lparr> sk_ID = 0, sk_NamespaceID = pr_TargetNamespaceID req, sk_Slug = sk_Slug src,
     sk_DisplayName = sk_DisplayName src, sk_Summary = sk_Summary src, sk_OwnerID = sk_OwnerID src,
     sk_SourceSkillID = Some (sk_ID src), sk_Visibility = ''PUBLIC'', sk_Status = ''ACTIVE'', sk_LatestVersionID = None,
     sk_DownloadCount = 0, sk_StarCount = 0, sk_RatingAvg = 0, sk_RatingCount = 0, sk_SubscriptionCount = 0,
     sk_Hidden = False, sk_HiddenAt = None, sk_HiddenBy = None, sk_CreatedBy = Some reviewerID, sk_CreatedAt = t,
     sk_UpdatedBy = Some reviewerID, sk_UpdatedAt = t \<rparr>"

definition copied_version :: "int \<Rightarrow> SkillVersion \<Rightarrow> time \<Rightarrow> SkillVersion" where
  "copied_version skillID v t = \<lparr> sv_ID = 0, sv_SkillID = skillID, sv_Version = sv_Version v, sv_Status = ''PUBLISHED'',
     sv_Changelog = sv_Changelog v, sv_ParsedMetadataJSON = sv_ParsedMetadataJSON v, sv_ManifestJSON = sv_ManifestJSON v,
     sv_RequestedVisibility = Some ''PUBLIC'', sv_FileCount = sv_FileCount v, sv_TotalSize = sv_TotalSize v,
     sv_BundleReady = sv_BundleReady v, sv_DownloadReady = sv_DownloadReady v, sv_PublishedAt = Some t,
     sv_YankedAt = None, sv_YankedBy = None, sv_YankReason = None, sv_CreatedBy = sv_CreatedBy v, sv_CreatedAt = t \<rparr>"

definition copied_file :: "int \<Rightarrow> time \<Rightarrow> SkillFile \<Rightarrow> SkillFile" where
  "copied_file versionID t f = \<lparr> sf_ID = 0, sf_VersionID = versionID, sf_FilePath = sf_FilePath f, sf_FileSize = sf_FileSize f,
     sf_ContentType = sf_ContentType f, sf_SHA256 = sf_SHA256 f, sf_StorageKey = sf_StorageKey f, sf_CreatedAt = t \<rparr>"

text \<open>What the closure leaves in the captured variables.\<close>

record promotion_outcome =
  po_Request :: PromotionRequest
  po_SkillID :: int
  po_VersionID :: int
  po_SubmittedBy :: string
  po_SourceSkillID :: int

definition finish_promotion :: "PromotionRequest \<Rightarrow> Skill \<Rightarrow> SkillVersion \<Rightarrow> time \<Rightarrow> promotion_outcome op" where
  "finish_promotion approvedReq newSkill newVersion t = do {
     r \<leftarrow> SkillRepo_Save (newSkill\<lparr>sk_LatestVersionID := Some (sv_ID newVersion)\<rparr>);
     (case r of
       Inl e \<Rightarrow> fail (wrap ''promotion: save new skill'' e)
     | Inr _ \<Rightarrow> do {
         r \<leftarrow> FileRepo_FindByVersionID (pr_SourceVersionID approvedReq);
         (case r of
           Inl e \<Rightarrow> fail (wrap ''promotion: find source files'' e)
         | Inr sourceFiles \<Rightarrow> do {
             r \<leftarrow> (if length sourceFiles > 0
                   then FileRepo_SaveAll (map (copied_file (sv_ID newVersion) t) sourceFiles) else ok []);
             (case r of
               Inl e \<Rightarrow> fail (wrap ''promotion: save files'' e)
             | Inr _ \<Rightarrow> do {
                 r \<leftarrow> PromotionRepo_Save (approvedReq\<lparr>pr_TargetSkillID := Some (sk_ID newSkill)\<rparr>);
                 (case r of
                   Inl e \<Rightarrow> fail (wrap ''promotion: save request'' e)
                 | Inr saved \<Rightarrow> ok \<lparr>po_Request = saved, po_SkillID = sk_ID newSkill, po_VersionID = sv_ID newVersion,
                     po_SubmittedBy = pr_SubmittedBy approvedReq, po_SourceSkillID = pr_SourceSkillID approvedReq\<rparr>) }) }) }) }"

definition approve_tx :: "PromotionRequest \<Rightarrow> int \<Rightarrow> string \<Rightarrow> string \<Rightarrow> promotion_outcome op" where
  "approve_tx req promotionID reviewerID comment = do {
     r \<leftarrow> PromotionRepo_UpdateStatusWithVersion promotionID ''APPROVED'' reviewerID comment None (pr_Version req);
     (case r of
       Inl e \<Rightarrow> fail (wrap ''promotion: update status'' e)
     | Inr updated \<Rightarrow>
       if updated = 0 then fail (Errs ''promotion: concurrent modification'')
       else do {
         r \<leftarrow> PromotionRepo_FindByID promotionID;
         (case r of
           Inl _ \<Rightarrow> fail (Errorf ''promotion.not_found %d'' [AInt promotionID])
         | Inr None \<Rightarrow> fail (Errorf ''promotion.not_found %d'' [AInt promotionID])
         | Inr (Some approvedReq) \<Rightarrow> do {
             r \<leftarrow> SkillRepo_FindByID (pr_SourceSkillID approvedReq);
             (case r of
               Inl e \<Rightarrow> fail (wrap ''promotion: find source skill'' e)
             | Inr None \<Rightarrow> fail (Errorf ''skill.not_found %d'' [AInt (pr_SourceSkillID approvedReq)])
             | Inr (Some src) \<Rightarrow> do {
                 r \<leftarrow> VersionRepo_FindByID (pr_SourceVersionID approvedReq);
                 (case r of
                   Inl e \<Rightarrow> fail (wrap ''promotion: find source version'' e)
                 | Inr None \<Rightarrow> fail (Errorf ''skill_version.not_found %d'' [AInt (pr_SourceVersionID approvedReq)])
                 | Inr (Some ver) \<Rightarrow> do {
                     r \<leftarrow> SkillRepo_FindByNamespaceIDSlugOwner (pr_TargetNamespaceID approvedReq) (sk_Slug src) (sk_OwnerID src);
                     (case r of
                       Inr (Some _) \<Rightarrow> fail (Errorf ''promotion.target_skill_conflict %s'' [AStr (sk_Slug src)])
                     | _ \<Rightarrow> do {
                         t \<leftarrow> now;
                         r \<leftarrow> SkillRepo_Save (promoted_copy approvedReq src reviewerID t);
                         (case r of
                           Inl e \<Rightarrow> fail (Wrapf ''promotion.target_skill_conflict %s'' [AStr (sk_Slug src)] e)
                         | Inr newSkill \<Rightarrow> do {
                             r \<leftarrow> VersionRepo_Save (copied_version (sk_ID newSkill) ver t);
                             (case r of
                               Inl e \<Rightarrow> fail (wrap ''promotion: save new version'' e)
                             | Inr newVersion \<Rightarrow> finish_promotion approvedReq newSkill newVersion t) }) }) }) }) }) }) }"

definition withinTx :: "(promotion_outcome op \<Rightarrow> promotion_outcome op) option \<Rightarrow> promotion_outcome op \<Rightarrow> promotion_outcome op" where
  "withinTx tx fn = (case tx of None \<Rightarrow> fn | Some unitOfWork \<Rightarrow> unitOfWork fn)"

definition announce_promotion :: "promotion_env \<Rightarrow> int \<Rightarrow> string \<Rightarrow> promotion_outcome \<Rightarrow> PromotionRequest op" where
  "announce_promotion env promotionID reviewerID out = do {
     _ \<leftarrow> notify (pm_bus env) (SkillPublishedEvent (po_SkillID out) (po_VersionID out) reviewerID);
     _ \<leftarrow> notify (pm_bus env) (PromotionApprovedEvent (pr_ID (po_Request out)) (po_SourceSkillID out) reviewerID (po_SubmittedBy out));
     _ \<leftarrow> notify (pm_notifier env) (promotion_note (po_SubmittedBy out) promotionID ''Promotion approved'' ''{\"status\":\"APPROVED\"}'');
     ok (po_Request out) }"

definition approve_unit :: "(promotion_outcome op \<Rightarrow> promotion_outcome op) option \<Rightarrow> promotion_env
    \<Rightarrow> PromotionRequest \<Rightarrow> int \<Rightarrow> string \<Rightarrow> string \<Rightarrow> PromotionRequest op" where
  "approve_unit tx env req promotionID reviewerID comment = do {
     r \<leftarrow> withinTx tx (approve_tx req promotionID reviewerID comment);
     (case r of
       Inl e \<Rightarrow> fail e
     | Inr out \<Rightarrow> announce_promotion env promotionID reviewerID out) }"

definition ApprovePromotion :: "(promotion_outcome op \<Rightarrow> promotion_outcome op) option \<Rightarrow> promotion_env
    \<Rightarrow> int \<Rightarrow> string \<Rightarrow> string \<Rightarrow> platform \<Rightarrow> PromotionRequest op" where
  "ApprovePromotion tx env promotionID reviewerID comment pr = do {
     r \<leftarrow> PromotionRepo_FindByID promotionID;
     (case r of
       Inl e \<Rightarrow> fail (wrap ''promotion: find'' e)
     | Inr None \<Rightarrow> fail (Errorf ''promotion.not_found %d'' [AInt promotionID])
     | Inr (Some req) \<Rightarrow>
       if \<not> IsPending (pr_Status req) then fail (Errorf ''promotion.not_pending %d'' [AInt promotionID])
       else if \<not> CanReviewPromotion (pr_SubmittedBy req) reviewerID pr then fail (Errs ''promotion.no_permission'')
       else approve_unit tx env req promotionID reviewerID comment) }"

definition RejectPromotion :: "promotion_env \<Rightarrow> int \<Rightarrow> string \<Rightarrow> string \<Rightarrow> platform \<Rightarrow> PromotionRequest op" where
  "RejectPromotion env promotionID reviewerID comment pr = do {
     r \<leftarrow> PromotionRepo_FindByID promotionID;
     (case r of
       Inl e \<Rightarrow> fail (wrap ''promotion: find'' e)
     | Inr None \<Rightarrow> fail (Errorf ''promotion.not_found %d'' [AInt promotionID])
     | Inr (Some req) \<Rightarrow>
       if \<not> IsPending (pr_Status req) then fail (Errorf ''promotion.not_pending %d'' [AInt promotionID])
       else if \<not> CanReviewPromotion (pr_SubmittedBy req) reviewerID pr then fail (Errs ''promotion.no_permission'')
       else do {
         r \<leftarrow> PromotionRepo_UpdateStatusWithVersion promotionID ''REJECTED'' reviewerID comment None (pr_Version req);
         (case r of
           Inl e \<Rightarrow> fail (wrap ''promotion: update status'' e)
         | Inr updated \<Rightarrow>
           if updated = 0 then fail (Errs ''promotion: concurrent modification'')
           else do {
             t \<leftarrow> now;
             let req' = req\<lparr>pr_Status := ''REJECTED'', pr_ReviewedBy := Some reviewerID,
               pr_ReviewComment := (if comment = [] then None else Some comment), pr_ReviewedAt := Some t\<rparr>;
             _ \<leftarrow> notify (pm_bus env) (PromotionRejectedEvent req' reviewerID comment);
             _ \<leftarrow> notify (pm_notifier env) (promotion_note (pr_SubmittedBy req') promotionID ''Promotion rejected'' ''{\"status\":\"REJECTED\"}'');
             ok req' }) }) }"

definition WithdrawPromotion :: "int \<Rightarrow> string \<Rightarrow> platform \<Rightarrow> unit op" where
  "WithdrawPromotion promotionID actorID pr = do {
     r \<leftarrow> PromotionRepo_FindByID promotionID;
     (case r of
       Inl e \<Rightarrow> fail (wrap ''promotion: find'' e)
     | Inr None \<Rightarrow> fail (Errorf ''promotion.not_found %d'' [AInt promotionID])
     | Inr (Some req) \<Rightarrow>
       if \<not> IsPending (pr_Status req) then fail (Errorf ''promotion.not_pending %d'' [AInt promotionID])
       else if pr_SubmittedBy req \<noteq> actorID \<and> \<not> pr ''SUPER_ADMIN'' then fail (Errs ''promotion.withdraw.not_submitter'')
       else PromotionRepo_Delete promotionID) }"

section \<open>All or nothing\<close>

lemma notify_ok: "wp (notify h x) (\<lambda>r _. r = Inr ()) w"
  by (cases h) (auto simp: notify_def wp_def split: prod.splits)

lemma wp_notify_ok:
  assumes "\<And>w'. wp (f (Inr ())) Q w'"
  shows "wp (do { r \<leftarrow> notify h x; f r }) Q w"
  unfolding wp_bind by (rule wp_mono [OF notify_ok]) (use assms in simp)

lemma announce_ok: "wp (announce_promotion env i u out) (\<lambda>r _. \<exists>y. r = Inr y) w"
  unfolding announce_promotion_def by (intro wp_notify_ok) simp

lemma approve_unit_wp: "wp (approve_unit (Some WithinTx) env req i u c) (\<lambda>r w'. \<forall>e. r = Inl e \<longrightarrow> db w' = db w) w"
  unfolding approve_unit_def withinTx_def option.case
  by (rule wpI) (auto intro: pgtx.unit_of_work [OF announce_ok])

text \<open>C31: with a transactor, an approval of a promotion that returns an error has changed no table,
  whatever statement failed and at whatever point.\<close>

theorem failed_promotion_changes_nothing:
  assumes "run_state (ApprovePromotion (Some WithinTx) env i reviewer comment pr) w = (Inl e, w')"
  shows "db w' = db w"
proof -
  have "wp (ApprovePromotion (Some WithinTx) env i reviewer comment pr) (\<lambda>r w'. \<forall>e. r = Inl e \<longrightarrow> db w' = db w) w"
    using approve_unit_wp [of env _ i reviewer comment "advance w"]
    by (simp add: ApprovePromotion_def PromotionRepo_FindByID_def split: option.splits)
  from wpD [OF assms this] show ?thesis by simp
qed

section \<open>Submitting\<close>

definition promotable :: "database \<Rightarrow> int \<Rightarrow> int \<Rightarrow> int \<Rightarrow> string \<Rightarrow> roles \<Rightarrow> platform \<Rightarrow> bool" where
  "promotable d skillID versionID targetID actor rs pr \<longleftrightarrow> (\<exists>sk v ns target.
     find (\<lambda>s. sk_ID s = skillID) (skills d) = Some sk
     \<and> find (\<lambda>v. sv_ID v = versionID) (versions d) = Some v \<and> sv_SkillID v = skillID \<and> sv_Status v = ''PUBLISHED''
     \<and> find (\<lambda>n. ns_ID n = sk_NamespaceID sk) (namespaces d) = Some ns \<and> ns_Status ns \<noteq> ''FROZEN'' \<and> ns_Status ns \<noteq> ''ARCHIVED''
     \<and> find (\<lambda>n. ns_ID n = targetID) (namespaces d) = Some target \<and> ns_Type target = ''GLOBAL''
     \<and> CanSubmitPromotion (sk_OwnerID sk) (sk_NamespaceID sk) actor rs pr)"

text \<open>Whatever statements fail, a promotion request is only ever created for a PUBLISHED version
  of the given skill, in a namespace that is neither frozen nor archived, into a namespace of type
  GLOBAL, by a caller who may submit it.\<close>

theorem promotion_submission_is_guarded:
  assumes "run_state (SubmitPromotion env skillID versionID targetID actor rs pr) w = (Inr x, w')"
  shows "promotable (db w) skillID versionID targetID actor rs pr"
proof (rule ccontr)
  assume "\<not> ?thesis"
  then have "wp (SubmitPromotion env skillID versionID targetID actor rs pr) (\<lambda>r _. \<forall>x. r \<noteq> Inr x) w"
    by (simp add: SubmitPromotion_def skill_repo_defs namespace_repo_defs assertNamespaceActive_def promotable_def split: option.splits) blast
  from wpD [OF assms this] show False by simp
qed

section \<open>The copy\<close>

definition file_content :: "SkillFile \<Rightarrow> string \<times> int \<times> string \<times> string \<times> string" where
  "file_content f = (sf_FilePath f, sf_FileSize f, sf_ContentType f, sf_SHA256 f, sf_StorageKey f)"

lemma save_files_wp:
  assumes "\<And>f. f \<in> set fs \<Longrightarrow> sf_VersionID f = vid" and "distinct (map sf_FilePath fs)"
    and "\<And>f g. f \<in> set fs \<Longrightarrow> g \<in> set (files (db w)) \<Longrightarrow> sf_VersionID g = vid \<Longrightarrow> sf_FilePath g \<noteq> sf_FilePath f"
    and succ: "\<And>rows w'. db w' = (db w)\<lparr>files := files (db w) @ rows\<rparr> \<Longrightarrow> map file_content rows = map file_content fs
       \<Longrightarrow> (\<forall>f \<in> set rows. sf_VersionID f = vid) \<Longrightarrow> Q (Inr rows) w'"
    and err: "\<And>e w'. Q (Inl e) w'"
  shows "wp (save_files fs t) Q w"
  using assms
proof (induction fs arbitrary: w Q)
  case Nil
  then show ?case by simp
next
  case (Cons f fs)
  have new: "\<not> list_ex (\<lambda>g. sf_VersionID g = sf_VersionID f \<and> sf_FilePath g = sf_FilePath f) (files (db w))"
    using Cons.prems(1,3) by (auto simp: list_ex_iff)
  have IH: "wp (save_files fs t) (\<lambda>r. wp (case r of Inl e \<Rightarrow> fail e | Inr rows \<Rightarrow> ok (row # rows)) Q) v"
    if v: "db v = (db w)\<lparr>files := files (db w) @ [row]\<rparr>" and row: "file_content row = file_content f" "sf_VersionID row = vid" for row v
  proof (rule Cons.IH)
    show "sf_FilePath g \<noteq> sf_FilePath x" if "x \<in> set fs" "g \<in> set (files (db v))" "sf_VersionID g = vid" for x g
      using that Cons.prems(2,3) v row by (auto simp: file_content_def) (metis imageI)
  qed (use Cons.prems v row in auto)
  show ?case using new Cons.prems(1,5)
    by (auto simp: insert_file_def Let_def file_content_def intro!: IH)
qed

definition fresh_ids :: "world \<Rightarrow> bool" where
  "fresh_ids w \<longleftrightarrow> (\<forall>s \<in> set (skills (db w)). sk_ID s \<le> seqs w ''skill_id_seq'')
     \<and> (\<forall>v \<in> set (versions (db w)). sv_SkillID v \<le> seqs w ''skill_id_seq'')
     \<and> (\<forall>f \<in> set (files (db w)). sf_VersionID f \<le> seqs w ''skill_version_id_seq'')
     \<and> distinct (map (\<lambda>f. (sf_VersionID f, sf_FilePath f)) (files (db w)))"

text \<open>The copy of version \<open>ver\<close> of skill \<open>src\<close>, and the request that records it.\<close>

definition promoted :: "int \<Rightarrow> PromotionRequest \<Rightarrow> Skill \<Rightarrow> SkillVersion \<Rightarrow> database \<Rightarrow> database \<Rightarrow> bool" where
  "promoted i req src ver d d' \<longleftrightarrow> (\<exists>nsk nv fs.
     skills d' = skills d @ [nsk] \<and> sk_key nsk = (pr_TargetNamespaceID req, sk_Slug src, sk_OwnerID src)
     \<and> sk_SourceSkillID nsk = Some (sk_ID src) \<and> sk_Visibility nsk = ''PUBLIC'' \<and> sk_LatestVersionID nsk = Some (sv_ID nv)
     \<and> versions d' = versions d @ [nv] \<and> sv_key nv = (sk_ID nsk, sv_Version ver) \<and> sv_Status nv = ''PUBLISHED''
     \<and> sv_ManifestJSON nv = sv_ManifestJSON ver
     \<and> files d' = files d @ fs \<and> (\<forall>f \<in> set fs. sf_VersionID f = sv_ID nv)
     \<and> map file_content fs = map file_content (sort_key sf_ID (filter (\<lambda>f. sf_VersionID f = pr_SourceVersionID req) (files d)))
     \<and> (\<exists>req'. find (\<lambda>x. pr_ID x = i) (promotions d') = Some req' \<and> pr_Status req' = ''APPROVED'' \<and> pr_TargetSkillID req' = Some (sk_ID nsk)))"

lemma PromotionRepo_Save_existing_wp:
  assumes "pr_ID x \<noteq> 0" and "pr_Status x \<noteq> ''PENDING''"
    and "\<And>y w'. db w' = (db w)\<lparr>promotions := update_where (\<lambda>o'. pr_ID o' = pr_ID x) (\<lambda>_. y) (promotions (db w))\<rparr>
       \<Longrightarrow> pr_ID y = pr_ID x \<Longrightarrow> pr_Status y = pr_Status x \<Longrightarrow> pr_TargetSkillID y = pr_TargetSkillID x \<Longrightarrow> Q (Inr y) w'"
    and "\<And>e w'. Q (Inl e) w'"
  shows "wp (PromotionRepo_Save x) Q w"
  using assms(1,2) by (auto simp: PromotionRepo_Save_def Let_def pending_promotion_def intro!: assms(3,4))

lemma finish_promotion_wp:
  assumes sk: "skills (db w) = S @ [r0]" "skt.lookup (sk_key nsk) S = None" "sk_key r0 = sk_key nsk"
    and fl: "distinct (map (\<lambda>f. (sf_VersionID f, sf_FilePath f)) (files (db w)))" "\<forall>f \<in> set (files (db w)). sf_VersionID f \<noteq> sv_ID nv"
    and pr: "pr_ID a \<noteq> 0" "pr_Status a \<noteq> ''PENDING''"
    and succ: "\<And>fs y t2 i2 out w'. skills (db w') = S @ [sk_merge (sk_row (nsk\<lparr>sk_LatestVersionID := Some (sv_ID nv)\<rparr>) t2 i2) r0]
       \<Longrightarrow> versions (db w') = versions (db w) \<Longrightarrow> files (db w') = files (db w) @ fs \<Longrightarrow> (\<forall>f \<in> set fs. sf_VersionID f = sv_ID nv)
       \<Longrightarrow> map file_content fs = map file_content (sort_key sf_ID (filter (\<lambda>f. sf_VersionID f = pr_SourceVersionID a) (files (db w))))
       \<Longrightarrow> promotions (db w') = update_where (\<lambda>o'. pr_ID o' = pr_ID a) (\<lambda>_. y) (promotions (db w))
       \<Longrightarrow> pr_ID y = pr_ID a \<Longrightarrow> pr_Status y = pr_Status a \<Longrightarrow> pr_TargetSkillID y = Some (sk_ID nsk) \<Longrightarrow> Q (Inr out) w'"
    and err: "\<And>e w'. Q (Inl e) w'"
  shows "wp (finish_promotion a nsk nv t) Q w"
proof -
  let ?src = "sort_key sf_ID (filter (\<lambda>f. sf_VersionID f = pr_SourceVersionID a) (files (db w)))"
  let ?new = "\<lambda>t2 i2. sk_row (nsk\<lparr>sk_LatestVersionID := Some (sv_ID nv)\<rparr>) t2 i2"
  have key: "sk_key (?new t2 i2) = sk_key nsk" for t2 i2 by (simp add: sk_key_def sk_row_def)
  have save: "skt.save (?new t2 i2) (skills (db w)) = S @ [sk_merge (?new t2 i2) r0]" for t2 i2
    unfolding sk(1) by (rule skt.save_last) (use sk key in simp_all)
  have dist: "distinct (map sf_FilePath ?src)"
    using fl(1) by (auto simp: distinct_map inj_on_def)
  have cont: "map file_content (map (copied_file (sv_ID nv) t) fs) = map file_content fs" for fs
    by (simp add: copied_file_def file_content_def)
  have rest: "wp (PromotionRepo_Save (a\<lparr>pr_TargetSkillID := Some (sk_ID nsk)\<rparr>))
      (\<lambda>r. wp (case r of Inl e \<Rightarrow> fail (wrap ''promotion: save request'' e) | Inr saved \<Rightarrow> ok (g saved)) Q) v"
    if v: "db v = (db w)\<lparr>skills := S @ [sk_merge (?new t2 i2) r0], files := files (db w) @ rows\<rparr>"
      "map file_content rows = map file_content ?src" "\<forall>f \<in> set rows. sf_VersionID f = sv_ID nv" for t2 i2 rows v g
    by (rule PromotionRepo_Save_existing_wp) (use pr v in \<open>auto intro!: err succ\<close>)
  have saveall: "wp (FileRepo_SaveAll (map (copied_file (sv_ID nv) t) ?src)) Q' v"
    if v: "db v = (db w)\<lparr>skills := X\<rparr>"
      and ok: "\<And>rows v'. db v' = (db w)\<lparr>skills := X, files := files (db w) @ rows\<rparr> \<Longrightarrow> map file_content rows = map file_content ?src
         \<Longrightarrow> (\<forall>f \<in> set rows. sf_VersionID f = sv_ID nv) \<Longrightarrow> Q' (Inr rows) v'"
      and bad: "\<And>e v'. Q' (Inl e) v'" for X Q' v
    unfolding FileRepo_SaveAll_def wp_bind wp_now
  proof (rule save_files_wp [where vid = "sv_ID nv"])
    show "distinct (map sf_FilePath (map (copied_file (sv_ID nv) t) ?src))"
      using dist by (simp add: comp_def copied_file_def)
    fix rows and v' :: world
    assume "db v' = (db (advance v))\<lparr>files := files (db (advance v)) @ rows\<rparr>"
      and "map file_content rows = map file_content (map (copied_file (sv_ID nv) t) ?src)" "\<forall>f \<in> set rows. sf_VersionID f = sv_ID nv"
    then show "Q' (Inr rows) v'" using v by (intro ok) (simp_all only: cont world_field_simps, simp)
  qed (use fl(2) v in \<open>auto simp: copied_file_def intro: bad\<close>)
  show ?thesis
    by (simp add: finish_promotion_def FileRepo_FindByVersionID_def err save Let_def)
       (auto intro!: saveall rest err)
qed


lemma approve_tx_wp:
  assumes tx: "in_tx w" "\<not> aborted w" and fr: "fresh_ids w" and i: "i \<noteq> 0"
    and req: "find (\<lambda>x. pr_ID x = i) (promotions (db w)) = Some req"
    and succ: "\<And>src ver out w'. find (\<lambda>s. sk_ID s = pr_SourceSkillID req) (skills (db w)) = Some src
       \<Longrightarrow> find (\<lambda>v. sv_ID v = pr_SourceVersionID req) (versions (db w)) = Some ver
       \<Longrightarrow> promoted i req src ver (db w) (db w') \<Longrightarrow> Q (Inr out) w'"
    and err: "\<And>e w'. Q (Inl e) w'"
  shows "wp (approve_tx req i reviewer comment) Q w"
proof -
  let ?up = "\<lambda>t. update_where (\<lambda>x. pr_ID x = i \<and> pr_Version x = pr_Version req) (pr_decide ''APPROVED'' reviewer comment None t) (promotions (db w))"
  have up: "find (\<lambda>x. pr_ID x = i) (?up t) = Some (pr_decide ''APPROVED'' reviewer comment None t req)" for t
    using req find_SomeD [OF req] by (simp add: find_update_where)
  have fin: "wp (finish_promotion (pr_decide ''APPROVED'' reviewer comment None t0 req)
        (sk_row (promoted_copy (pr_decide ''APPROVED'' reviewer comment None t0 req) src reviewer t) t1 nid)
        (sv_row (copied_version nid ver t) t2 vid) t) Q v"
    if v: "db v = (db w)\<lparr>promotions := ?up t0, skills := skills (db w) @ [sk_row (promoted_copy (pr_decide ''APPROVED'' reviewer comment None t0 req) src reviewer t) t1 nid],
         versions := versions (db w) @ [sv_row (copied_version nid ver t) t2 vid]\<rparr>"
      and none: "skt.lookup (pr_TargetNamespaceID req, sk_Slug src, sk_OwnerID src) (skills (db w)) = None"
      and ids: "vid = seqs w ''skill_version_id_seq'' + 1"
      and src: "find (\<lambda>s. sk_ID s = pr_SourceSkillID req) (skills (db w)) = Some src"
      and ver: "find (\<lambda>v. sv_ID v = pr_SourceVersionID req) (versions (db w)) = Some ver"
    for t0 t t1 t2 nid vid src ver v
  proof (rule finish_promotion_wp [where S = "skills (db w)"])
    show "\<forall>f \<in> set (files (db v)). sf_VersionID f \<noteq> sv_ID (sv_row (copied_version nid ver t) t2 vid)"
      using fr v ids by (auto simp: fresh_ids_def)
    fix fs y t3 i3 out and w' :: world
    let ?nsk = "sk_row (promoted_copy (pr_decide ''APPROVED'' reviewer comment None t0 req) src reviewer t) t1 nid"
    let ?nv = "sv_row (copied_version nid ver t) t2 vid"
    let ?fin = "sk_merge (sk_row (?nsk\<lparr>sk_LatestVersionID := Some (sv_ID ?nv)\<rparr>) t3 i3) ?nsk"
    assume a: "skills (db w') = skills (db w) @ [?fin]" "versions (db w') = versions (db v)" "files (db w') = files (db v) @ fs"
      "\<forall>f \<in> set fs. sf_VersionID f = sv_ID ?nv"
      "map file_content fs = map file_content (sort_key sf_ID (filter (\<lambda>f. sf_VersionID f = pr_SourceVersionID (pr_decide ''APPROVED'' reviewer comment None t0 req)) (files (db v))))"
      "promotions (db w') = update_where (\<lambda>o'. pr_ID o' = pr_ID (pr_decide ''APPROVED'' reviewer comment None t0 req)) (\<lambda>_. y) (promotions (db v))"
      "pr_ID y = pr_ID (pr_decide ''APPROVED'' reviewer comment None t0 req)" "pr_Status y = pr_Status (pr_decide ''APPROVED'' reviewer comment None t0 req)"
      "pr_TargetSkillID y = Some (sk_ID ?nsk)"
    have "find (\<lambda>x. pr_ID x = i) (promotions (db w')) = Some y"
      unfolding a(6) using a(7) find_overwrite [OF up [of t0], of y] find_SomeD [OF req] v by (simp add: pr_decide_def)
    then have "promoted i req src ver (db w) (db w')"
      unfolding promoted_def using a v
      by (intro exI [of _ ?fin] exI [of _ ?nv] exI [of _ fs])
        (simp add: sk_merge_def sk_key_def sk_row_def promoted_copy_def sv_key_def sv_row_def copied_version_def pr_decide_def)
    then show "Q (Inr out) w'" using src ver succ by blast
  qed (use v none fr i req find_SomeD [OF req] err in \<open>auto simp: fresh_ids_def pr_decide_def sk_key_def sk_row_def promoted_copy_def\<close>)
  have sfresh: "skt.save (sk_row (promoted_copy (pr_decide ''APPROVED'' reviewer comment None t0 req) src reviewer t) t1 k) (skills (db w))
        = skills (db w) @ [sk_row (promoted_copy (pr_decide ''APPROVED'' reviewer comment None t0 req) src reviewer t) t1 k]"
      "skt.stored (sk_row (promoted_copy (pr_decide ''APPROVED'' reviewer comment None t0 req) src reviewer t) t1 k) (skills (db w))
        = sk_row (promoted_copy (pr_decide ''APPROVED'' reviewer comment None t0 req) src reviewer t) t1 k"
    if "skt.lookup (pr_TargetNamespaceID req, sk_Slug src, sk_OwnerID src) (skills (db w)) = None" for t0 src t t1 k
    using that by (auto intro!: skt.save_fresh skt.stored_fresh simp: sk_key_def promoted_copy_def pr_decide_def)
  have vnone: "svt.lookup (seqs w ''skill_id_seq'' + 1, vn) (versions (db w)) = None" for vn
  proof -
    have "sv_SkillID v \<noteq> seqs w ''skill_id_seq'' + 1" if "v \<in> set (versions (db w))" for v
      using fr that by (force simp: fresh_ids_def)
    then show ?thesis by (auto simp: svt.lookup_def find_None_iff sv_key_def)
  qed
  have vkey: "sv_key (sv_row (copied_version (seqs w ''skill_id_seq'' + 1) ver t) t2 k) = (seqs w ''skill_id_seq'' + 1, sv_Version ver)" for ver t t2 k
    by (simp add: sv_key_def sv_row_def copied_version_def)
  have vfresh: "svt.save (sv_row (copied_version (seqs w ''skill_id_seq'' + 1) ver t) t2 k) (versions (db w))
        = versions (db w) @ [sv_row (copied_version (seqs w ''skill_id_seq'' + 1) ver t) t2 k]"
      "svt.stored (sv_row (copied_version (seqs w ''skill_id_seq'' + 1) ver t) t2 k) (versions (db w)) = sv_row (copied_version (seqs w ''skill_id_seq'' + 1) ver t) t2 k" for ver t t2 k
    by (rule svt.save_fresh svt.stored_fresh, unfold vkey, rule vnone)+
  have pd [simp]: "pr_SourceSkillID (pr_decide s u c g t x) = pr_SourceSkillID x" "pr_SourceVersionID (pr_decide s u c g t x) = pr_SourceVersionID x"
     "pr_TargetNamespaceID (pr_decide s u c g t x) = pr_TargetNamespaceID x" for s u c g t x by (simp_all add: pr_decide_def)
  show ?thesis
    using tx
    apply (simp add: approve_tx_def review_repo_defs skill_repo_defs up err Let_def skt.lookup_def [symmetric] stmt_fails_def next_id_def split: option.splits)
    apply (intro allI impI)
    apply (simp add: sfresh vfresh)
    apply (rule fin)
    apply (simp only: world_field_simps)
    apply assumption
    apply (rule refl)
    apply assumption
    apply assumption
    done
qed


lemma promoted_core:
  assumes "core d' = core d1" and "promoted i req src ver d d1"
  shows "promoted i req src ver d d'"
  using assms(2) by (simp only: promoted_def core_eqD [OF assms(1)])

definition promotion_env_ok :: "promotion_env \<Rightarrow> bool" where
  "promotion_env_ok env \<longleftrightarrow> neutral_opt (pm_bus env) \<and> neutral_opt (pm_notifier env)"

lemma announce_wp:
  assumes "promotion_env_ok env" and "\<And>w'. core (db w') = core (db w) \<Longrightarrow> Q (Inr (po_Request out)) w'"
  shows "wp (announce_promotion env i u out) Q w"
proof -
  note env = assms(1) [unfolded promotion_env_ok_def]
  show ?thesis
    unfolding announce_promotion_def wp_bind
    by (intro wp_notify [OF conjunct1 [OF env]] wp_notify [OF conjunct2 [OF env]]) (simp add: assms(2))
qed

lemma fresh_ids_tx: "fresh_ids w \<Longrightarrow> fresh_ids ((advance (advance w))\<lparr>in_tx := True, aborted := False\<rparr>)"
  by (simp add: fresh_ids_def)


section \<open>Witnesses\<close>

definition market_ns :: Namespace where
  "market_ns = shop_ns\<lparr>ns_ID := 1, ns_Slug := ''market'', ns_Type := ''GLOBAL''\<rparr>"

definition greet_file :: SkillFile where
  "greet_file = \<lparr>sf_ID = 9, sf_VersionID = 5, sf_FilePath = ''SKILL.md'', sf_FileSize = 4, sf_ContentType = ''text/markdown'',
     sf_SHA256 = ''ab'', sf_StorageKey = ''k1'', sf_CreatedAt = 1\<rparr>"

definition wish :: PromotionRequest where
  "wish = \<lparr>pr_ID = 21, pr_SourceSkillID = 3, pr_SourceVersionID = 5, pr_TargetNamespaceID = 1, pr_TargetSkillID = None, pr_Status = ''PENDING'',
     pr_Version = 1, pr_SubmittedBy = ''cy'', pr_ReviewedBy = None, pr_ReviewComment = None, pr_SubmittedAt = 1, pr_ReviewedAt = None\<rparr>"

definition market_db :: "PromotionRequest list \<Rightarrow> database" where
  "market_db reqs = (shop_db ''PUBLISHED'' [])\<lparr>namespaces := [shop_ns, market_ns], files := [greet_file], promotions := reqs\<rparr>"

lemma market_simps [simp]:
  "namespaces (market_db ps) = [shop_ns, market_ns]" "skills (market_db ps) = [shop_skill]" "versions (market_db ps) = [shop_version ''PUBLISHED'']"
  "files (market_db ps) = [greet_file]" "promotions (market_db ps) = ps" "ns_ID market_ns = 1" "ns_Type market_ns = ''GLOBAL''"
  "pr_ID wish = 21" "pr_SourceSkillID wish = 3" "pr_SourceVersionID wish = 5" "pr_Status wish = ''PENDING''" "pr_SubmittedBy wish = ''cy''"
  "pr_Version wish = 1" "pr_TargetNamespaceID wish = 1" "sf_VersionID greet_file = 5" "sf_FilePath greet_file = ''SKILL.md''"
  by (simp_all add: market_db_def market_ns_def wish_def greet_file_def)

definition quiet_env :: promotion_env where
  "quiet_env = \<lparr>pm_bus = None, pm_notifier = None\<rparr>"

lemma quiet_env_simps [simp]: "pm_bus quiet_env = None" "pm_notifier quiet_env = None" "promotion_env_ok quiet_env"
  by (simp_all add: quiet_env_def promotion_env_ok_def)

definition admin :: platform where
  "admin r = (r = ''SKILL_ADMIN'')"

theorem failed_promotion_changes_nothing_witness:
  "\<exists>e w'. run_state (ApprovePromotion (Some WithinTx) quiet_env 21 ''ann'' [] admin) ((calm False (market_db [wish]))\<lparr>fault := (\<lambda>n. n = 6)\<rparr>) = (Inl e, w')
     \<and> db w' = market_db [wish]"
proof -
  let ?m = "ApprovePromotion (Some WithinTx) quiet_env 21 ''ann'' [] admin" and ?w = "(calm False (market_db [wish]))\<lparr>fault := (\<lambda>n. n = 6)\<rparr>"
  obtain r w' where run: "run_state ?m ?w = (r, w')" by (metis surj_pair)
  have "wp ?m (\<lambda>r _. \<exists>e. r = Inl e) ?w"
    by (simp add: ApprovePromotion_def approve_unit_def withinTx_def wp_WithinTx approve_tx_def review_repo_defs skill_repo_defs IsPending_def
        CanReviewPromotion_def hasPlatformReviewRole_def admin_def stmt_fails_def advance_def Let_def update_where_def sk_key_def finish_promotion_def FileRepo_FindByVersionID_def FileRepo_SaveAll_def insert_file_def)
  with run obtain e where "r = Inl e" by (blast dest: wpD)
  then show ?thesis using failed_promotion_changes_nothing [of quiet_env 21 "''ann''" "[]" admin ?w] run by auto
qed

theorem promotion_submission_is_guarded_witness:
  "\<exists>x w'. run_state (SubmitPromotion quiet_env 3 5 1 ''cy'' (\<lambda>_. None) admin) (calm False (market_db [])) = (Inr x, w')
     \<and> promotable (market_db []) 3 5 1 ''cy'' (\<lambda>_. None) admin"
proof -
  let ?m = "SubmitPromotion quiet_env 3 5 1 ''cy'' (\<lambda>_. None) admin" and ?w = "calm False (market_db [])"
  obtain r w' where run: "run_state ?m ?w = (r, w')" by (metis surj_pair)
  have "wp ?m (\<lambda>r _. \<exists>e. r = Inr e) ?w"
    by (simp add: SubmitPromotion_def review_repo_defs skill_repo_defs namespace_repo_defs assertNamespaceActive_def notify_def
        CanSubmitPromotion_def CanSubmitForReview_def admin_def stmt_fails_def Let_def pending_promotion_def)
  with run obtain x where "r = Inr x" by (blast dest: wpD)
  then show ?thesis using promotion_submission_is_guarded [of quiet_env 3 5 1 "''cy''" "\<lambda>_. None" admin ?w] run by auto
qed


end
