(* ===== verification/CIRepo.thy ===== *)
theory CIRepo
  imports World GoStrings
begin

text \<open>
  \<open>postgres/agentci_repo.go\<close>: the tables of the agent CI subsystem. The rows have no unique key
  besides their id; a missing row is \<open>(nil, nil)\<close> here, because these repositories test for
  the driver's no-rows error.
\<close>

text \<open>The \<open>LIKE\<close> operator: \<open>%\<close> any text, \<open>_\<close> any character, a backslash quotes.\<close>

fun sql_like :: "string \<Rightarrow> string \<Rightarrow> bool" where
  "sql_like [] s = (s = [])"
| "sql_like (p # ps) [] = (p = CHR ''%'' \<and> sql_like ps [])"
| "sql_like (p # ps) (c # cs) =
     (if p = CHR ''%'' then sql_like ps (c # cs) \<or> sql_like (p # ps) cs
      else if p = CHR ''_'' then sql_like ps cs
      else if p = CHR 0x5C then (case ps of [] \<Rightarrow> False | q # qs \<Rightarrow> q = c \<and> sql_like qs cs)
      else p = c \<and> sql_like ps cs)"

lemma sql_like_any: "sql_like [CHR ''%''] s"
  by (induction s) auto

lemma sql_like_literal:
  assumes "set sub \<inter> {CHR ''%'', CHR ''_'', CHR 0x5C} = {}"
  shows "sql_like (sub @ [CHR ''%'']) s \<longleftrightarrow> HasPrefix s sub"
  using assms
proof (induction sub arbitrary: s)
  case Nil
  then show ?case by (simp add: sql_like_any)
next
  case (Cons c sub)
  then show ?case by (cases s) auto
qed

lemma sql_like_contains:
  assumes "set sub \<inter> {CHR ''%'', CHR ''_'', CHR 0x5C} = {}"
  shows "sql_like (CHR ''%'' # sub @ [CHR ''%'']) s \<longleftrightarrow> Contains s sub"
  using sql_like_literal [OF assms]
  by (induction s) (auto simp: append_eq_Cons_conv split: if_splits, (cases sub; simp)+)

section \<open>Workers\<close>

definition WorkerRepo_Create :: "AgentWorker \<Rightarrow> AgentWorker op" where
  "WorkerRepo_Create x = db_insert ''agent_workers_id_seq'' (\<lambda>i d.
     Inr (x\<lparr>aw_ID := i\<rparr>, d\<lparr>agent_workers := agent_workers d @ [x\<lparr>aw_ID := i\<rparr>]\<rparr>))"

definition WorkerRepo_FindByID :: "int \<Rightarrow> AgentWorker option op" where
  "WorkerRepo_FindByID i = db_query (\<lambda>d. find (\<lambda>x. aw_ID x = i) (agent_workers d))"

definition WorkerRepo_FindByType :: "string \<Rightarrow> AgentWorker list op" where
  "WorkerRepo_FindByType ty = db_query (\<lambda>d. filter (\<lambda>x. aw_Type x = ty \<and> aw_Status x = ''ACTIVE'') (agent_workers d))"

definition WorkerRepo_List :: "AgentWorker list op" where
  "WorkerRepo_List = db_query (\<lambda>d. sort_key aw_ID (agent_workers d))"

definition WorkerRepo_Update :: "AgentWorker \<Rightarrow> AgentWorker op" where
  "WorkerRepo_Update x = db_exec (\<lambda>d. (x, d\<lparr>agent_workers := update_where (\<lambda>r. aw_ID r = aw_ID x)
     (\<lambda>r. r\<lparr>aw_Name := aw_Name x, aw_Type := aw_Type x, aw_ConfigJSON := aw_ConfigJSON x, aw_Status := aw_Status x,
            aw_UpdatedAt := aw_UpdatedAt x\<rparr>) (agent_workers d)\<rparr>))"

definition WorkerRepo_Delete :: "int \<Rightarrow> unit op" where
  "WorkerRepo_Delete i = db_exec (\<lambda>d. ((), d\<lparr>agent_workers := delete_where (\<lambda>x. aw_ID x = i) (agent_workers d)\<rparr>))"

section \<open>Pipeline definitions\<close>

definition DefRepo_Create :: "PipelineDefinition \<Rightarrow> PipelineDefinition op" where
  "DefRepo_Create x = db_insert ''ci_pipeline_definitions_id_seq'' (\<lambda>i d.
     Inr (x\<lparr>pd_ID := i\<rparr>, d\<lparr>pipeline_defs := pipeline_defs d @ [x\<lparr>pd_ID := i\<rparr>]\<rparr>))"

definition DefRepo_FindByID :: "int \<Rightarrow> PipelineDefinition option op" where
  "DefRepo_FindByID i = db_query (\<lambda>d. find (\<lambda>x. pd_ID x = i) (pipeline_defs d))"

definition DefRepo_FindByTriggerOn :: "string \<Rightarrow> PipelineDefinition list op" where
  "DefRepo_FindByTriggerOn triggerType = db_query (\<lambda>d.
     sort_key pd_ID (filter (\<lambda>x. sql_like (CHR ''%'' # triggerType @ [CHR ''%'']) (pd_TriggerOn x)) (pipeline_defs d)))"

definition DefRepo_List :: "PipelineDefinition list op" where
  "DefRepo_List = db_query (\<lambda>d. sort_key pd_ID (pipeline_defs d))"

definition DefRepo_Update :: "PipelineDefinition \<Rightarrow> PipelineDefinition op" where
  "DefRepo_Update x = db_exec (\<lambda>d. (x, d\<lparr>pipeline_defs := update_where (\<lambda>r. pd_ID r = pd_ID x)
     (\<lambda>r. r\<lparr>pd_Name := pd_Name x, pd_Description := pd_Description x, pd_TriggerOn := pd_TriggerOn x, pd_StepsJSON := pd_StepsJSON x,
            pd_Enabled := pd_Enabled x, pd_UpdatedAt := pd_UpdatedAt x\<rparr>) (pipeline_defs d)\<rparr>))"

definition DefRepo_Delete :: "int \<Rightarrow> unit op" where
  "DefRepo_Delete i = db_exec (\<lambda>d. ((), d\<lparr>pipeline_defs := delete_where (\<lambda>x. pd_ID x = i) (pipeline_defs d)\<rparr>))"

section \<open>Pipeline runs\<close>

definition RunRepo_Create :: "PipelineRun \<Rightarrow> PipelineRun op" where
  "RunRepo_Create x = db_insert ''ci_pipeline_runs_id_seq'' (\<lambda>i d.
     Inr (x\<lparr>run_ID := i\<rparr>, d\<lparr>pipeline_runs := pipeline_runs d @ [x\<lparr>run_ID := i\<rparr>]\<rparr>))"

definition RunRepo_FindByID :: "int \<Rightarrow> PipelineRun option op" where
  "RunRepo_FindByID i = db_query (\<lambda>d. find (\<lambda>x. run_ID x = i) (pipeline_runs d))"

definition RunRepo_FindBySkillID :: "int \<Rightarrow> int \<Rightarrow> int \<Rightarrow> PipelineRun list op" where
  "RunRepo_FindBySkillID skillID offset limit = page_query limit offset (\<lambda>d.
     order_desc run_CreatedAt (filter (\<lambda>x. run_SkillID x = skillID) (pipeline_runs d)))"

definition RunRepo_CountBySkillID :: "int \<Rightarrow> nat op" where
  "RunRepo_CountBySkillID skillID = db_query (\<lambda>d. length (filter (\<lambda>x. run_SkillID x = skillID) (pipeline_runs d)))"

definition RunRepo_FindByVersionID :: "int \<Rightarrow> PipelineRun list op" where
  "RunRepo_FindByVersionID versionID = db_query (\<lambda>d.
     order_desc run_CreatedAt (filter (\<lambda>x. run_VersionID x = Some versionID) (pipeline_runs d)))"

definition RunRepo_FindByReleaseID :: "int \<Rightarrow> PipelineRun list op" where
  "RunRepo_FindByReleaseID releaseID = db_query (\<lambda>d.
     order_desc run_CreatedAt (filter (\<lambda>x. run_ReleaseID x = Some releaseID) (pipeline_runs d)))"

definition RunRepo_FindPending :: "int \<Rightarrow> PipelineRun list op" where
  "RunRepo_FindPending limit = page_query limit 0 (\<lambda>d.
     sort_key run_CreatedAt (filter (\<lambda>x. run_Status x = ''PENDING'') (pipeline_runs d)))"

text \<open>The conditional \<open>UPDATE\<close>; \<open>NOW()\<close> is the server's clock.\<close>

definition run_claimed :: "time \<Rightarrow> PipelineRun \<Rightarrow> PipelineRun" where
  "run_claimed t x = x\<lparr>run_Status := ''RUNNING'', run_StartedAt := Some t, run_UpdatedAt := t\<rparr>"

definition RunRepo_ClaimPending :: "int \<Rightarrow> PipelineRun option op" where
  "RunRepo_ClaimPending i = do {
     t \<leftarrow> now;
     r \<leftarrow> db_exec (\<lambda>d.
       (length (filter (\<lambda>x. run_ID x = i \<and> run_Status x = ''PENDING'') (pipeline_runs d)),
        d\<lparr>pipeline_runs := update_where (\<lambda>x. run_ID x = i \<and> run_Status x = ''PENDING'') (run_claimed t) (pipeline_runs d)\<rparr>));
     (case r of
       Inl e \<Rightarrow> fail e
     | Inr rowsAffected \<Rightarrow> if rowsAffected = 0 then ok None else RunRepo_FindByID i) }"

definition run_written :: "PipelineRun \<Rightarrow> PipelineRun \<Rightarrow> PipelineRun" where
  "run_written x r = r\<lparr>run_Status := run_Status x, run_CheckCount := run_CheckCount x, run_PassedCount := run_PassedCount x,
     run_FailedCount := run_FailedCount x, run_SkippedCount := run_SkippedCount x, run_StartedAt := run_StartedAt x,
     run_CompletedAt := run_CompletedAt x, run_UpdatedAt := run_UpdatedAt x\<rparr>"

definition RunRepo_Update :: "PipelineRun \<Rightarrow> PipelineRun op" where
  "RunRepo_Update x = db_exec (\<lambda>d. (x, d\<lparr>pipeline_runs := update_where (\<lambda>r. run_ID r = run_ID x) (run_written x) (pipeline_runs d)\<rparr>))"

section \<open>Check runs\<close>

definition CheckRepo_Create :: "CheckRun \<Rightarrow> CheckRun op" where
  "CheckRepo_Create x = db_insert ''ci_check_runs_id_seq'' (\<lambda>i d.
     Inr (x\<lparr>cr_ID := i\<rparr>, d\<lparr>check_runs := check_runs d @ [x\<lparr>cr_ID := i\<rparr>]\<rparr>))"

definition CheckRepo_FindByID :: "int \<Rightarrow> CheckRun option op" where
  "CheckRepo_FindByID i = db_query (\<lambda>d. find (\<lambda>x. cr_ID x = i) (check_runs d))"

definition CheckRepo_FindByPipelineRunID :: "int \<Rightarrow> CheckRun list op" where
  "CheckRepo_FindByPipelineRunID runID = db_query (\<lambda>d. sort_key cr_ID (filter (\<lambda>x. cr_PipelineRunID x = runID) (check_runs d)))"

definition CheckRepo_FindBySkillID :: "int \<Rightarrow> int \<Rightarrow> int \<Rightarrow> CheckRun list op" where
  "CheckRepo_FindBySkillID skillID offset limit = page_query limit offset (\<lambda>d.
     order_desc cr_CreatedAt (filter (\<lambda>x. cr_SkillID x = skillID) (check_runs d)))"

definition CheckRepo_CountBySkillID :: "int \<Rightarrow> nat op" where
  "CheckRepo_CountBySkillID skillID = db_query (\<lambda>d. length (filter (\<lambda>x. cr_SkillID x = skillID) (check_runs d)))"

definition CheckRepo_FindByVersionID :: "int \<Rightarrow> CheckRun list op" where
  "CheckRepo_FindByVersionID versionID = db_query (\<lambda>d.
     order_desc cr_CreatedAt (filter (\<lambda>x. cr_VersionID x = Some versionID) (check_runs d)))"

definition CheckRepo_FindByReleaseID :: "int \<Rightarrow> CheckRun list op" where
  "CheckRepo_FindByReleaseID releaseID = db_query (\<lambda>d.
     order_desc cr_CreatedAt (filter (\<lambda>x. cr_ReleaseID x = Some releaseID) (check_runs d)))"

definition check_written :: "CheckRun \<Rightarrow> CheckRun \<Rightarrow> CheckRun" where
  "check_written x r = r\<lparr>cr_Status := cr_Status x, cr_Conclusion := cr_Conclusion x, cr_Summary := cr_Summary x,
     cr_IsBlocking := cr_IsBlocking x, cr_StartedAt := cr_StartedAt x, cr_CompletedAt := cr_CompletedAt x,
     cr_DurationMs := cr_DurationMs x, cr_UpdatedAt := cr_UpdatedAt x\<rparr>"

definition CheckRepo_Update :: "CheckRun \<Rightarrow> CheckRun op" where
  "CheckRepo_Update x = db_exec (\<lambda>d. (x, d\<lparr>check_runs := update_where (\<lambda>r. cr_ID r = cr_ID x) (check_written x) (check_runs d)\<rparr>))"

section \<open>Steps, artifacts and gate policies\<close>

definition StepRepo_Create :: "CheckStep \<Rightarrow> CheckStep op" where
  "StepRepo_Create x = db_insert ''ci_check_steps_id_seq'' (\<lambda>i d.
     Inr (x\<lparr>cs_ID := i\<rparr>, d\<lparr>check_steps := check_steps d @ [x\<lparr>cs_ID := i\<rparr>]\<rparr>))"

definition StepRepo_FindByCheckRunID :: "int \<Rightarrow> CheckStep list op" where
  "StepRepo_FindByCheckRunID checkID = db_query (\<lambda>d. sort_key cs_ID (filter (\<lambda>x. cs_CheckRunID x = checkID) (check_steps d)))"

definition StepRepo_Update :: "CheckStep \<Rightarrow> CheckStep op" where
  "StepRepo_Update x = db_exec (\<lambda>d. (x, d\<lparr>check_steps := update_where (\<lambda>r. cs_ID r = cs_ID x)
     (\<lambda>r. r\<lparr>cs_Status := cs_Status x, cs_StartedAt := cs_StartedAt x, cs_CompletedAt := cs_CompletedAt x,
            cs_DurationMs := cs_DurationMs x, cs_LogRef := cs_LogRef x\<rparr>) (check_steps d)\<rparr>))"

definition ArtifactRepo_Create :: "CheckArtifact \<Rightarrow> CheckArtifact op" where
  "ArtifactRepo_Create x = db_insert ''ci_check_artifacts_id_seq'' (\<lambda>i d.
     Inr (x\<lparr>ca_ID := i\<rparr>, d\<lparr>check_artifacts := check_artifacts d @ [x\<lparr>ca_ID := i\<rparr>]\<rparr>))"

definition ArtifactRepo_FindByCheckRunID :: "int \<Rightarrow> CheckArtifact list op" where
  "ArtifactRepo_FindByCheckRunID checkID = db_query (\<lambda>d. sort_key ca_ID (filter (\<lambda>x. ca_CheckRunID x = checkID) (check_artifacts d)))"

definition ArtifactRepo_Delete :: "int \<Rightarrow> unit op" where
  "ArtifactRepo_Delete i = db_exec (\<lambda>d. ((), d\<lparr>check_artifacts := delete_where (\<lambda>x. ca_ID x = i) (check_artifacts d)\<rparr>))"

definition PolicyRepo_Create :: "GatePolicy \<Rightarrow> GatePolicy op" where
  "PolicyRepo_Create x = db_insert ''ci_gate_policies_id_seq'' (\<lambda>i d.
     Inr (x\<lparr>gp_ID := i\<rparr>, d\<lparr>gate_policies := gate_policies d @ [x\<lparr>gp_ID := i\<rparr>]\<rparr>))"

definition PolicyRepo_FindByID :: "int \<Rightarrow> GatePolicy option op" where
  "PolicyRepo_FindByID i = db_query (\<lambda>d. find (\<lambda>x. gp_ID x = i) (gate_policies d))"

definition PolicyRepo_FindByTriggerOn :: "string \<Rightarrow> GatePolicy list op" where
  "PolicyRepo_FindByTriggerOn triggerType = db_query (\<lambda>d.
     sort_key gp_ID (filter (\<lambda>x. gp_TriggerOn x = triggerType \<and> gp_Enabled x) (gate_policies d)))"

definition PolicyRepo_List :: "GatePolicy list op" where
  "PolicyRepo_List = db_query (\<lambda>d. sort_key gp_ID (gate_policies d))"

definition PolicyRepo_Update :: "GatePolicy \<Rightarrow> GatePolicy op" where
  "PolicyRepo_Update x = db_exec (\<lambda>d. (x, d\<lparr>gate_policies := update_where (\<lambda>r. gp_ID r = gp_ID x)
     (\<lambda>r. r\<lparr>gp_Name := gp_Name x, gp_Description := gp_Description x, gp_TriggerOn := gp_TriggerOn x,
            gp_RequiredRule := gp_RequiredRule x, gp_Enabled := gp_Enabled x, gp_UpdatedAt := gp_UpdatedAt x\<rparr>) (gate_policies d)\<rparr>))"

definition PolicyRepo_Delete :: "int \<Rightarrow> unit op" where
  "PolicyRepo_Delete i = db_exec (\<lambda>d. ((), d\<lparr>gate_policies := delete_where (\<lambda>x. gp_ID x = i) (gate_policies d)\<rparr>))"

lemmas ci_repo_defs =
  DefRepo_FindByTriggerOn_def RunRepo_Create_def RunRepo_FindByID_def RunRepo_FindBySkillID_def RunRepo_CountBySkillID_def
  RunRepo_FindPending_def RunRepo_ClaimPending_def RunRepo_Update_def
  CheckRepo_Create_def CheckRepo_FindByID_def CheckRepo_FindByPipelineRunID_def CheckRepo_FindBySkillID_def
  CheckRepo_FindByVersionID_def CheckRepo_FindByReleaseID_def CheckRepo_Update_def
  StepRepo_Create_def StepRepo_FindByCheckRunID_def ArtifactRepo_Create_def ArtifactRepo_FindByCheckRunID_def
  PolicyRepo_FindByTriggerOn_def

lemma written_simps [simp]:
  "run_ID (run_written x r) = run_ID r" "run_Status (run_written x r) = run_Status x"
  "run_ID (run_claimed t r) = run_ID r" "run_Status (run_claimed t r) = ''RUNNING''"
  "cr_ID (check_written y s) = cr_ID s" "cr_Status (check_written y s) = cr_Status y"
  "cr_PipelineRunID (check_written y s) = cr_PipelineRunID s" "cr_IsBlocking (check_written y s) = cr_IsBlocking y"
  "cr_VersionID (check_written y s) = cr_VersionID s" "cr_ReleaseID (check_written y s) = cr_ReleaseID s"
  "cr_SkillID (check_written y s) = cr_SkillID s"
  by (simp_all add: run_written_def run_claimed_def check_written_def)

end
