(* ===== verification/AgentCI.thy ===== *)
theory AgentCI
  imports CIRepo
begin

text \<open>
  \<open>sdk/skillhub/agentci\<close>: the facade of the CI subsystem (pipeline runs, their check runs, steps,
  logs and artifacts) and the evaluation of gate policies. A record \<open>ci_service\<close> says which
  repositories are configured; \<open>ci_decode\<close> is \<open>json.Unmarshal\<close> of a step list, \<open>None\<close>
  for an error.
\<close>

record log_store =
  ls_AppendLog :: "int \<Rightarrow> string \<Rightarrow> unit op"
  ls_ReadLog :: "int \<Rightarrow> string op"

record ci_service =
  ci_defs :: bool
  ci_runs :: bool
  ci_checks :: bool
  ci_steps :: bool
  ci_artifacts :: bool
  ci_policies :: bool
  ci_logs :: "log_store option"
  ci_decode :: "string \<Rightarrow> PipelineStepDefinition list option"

section \<open>Pipelines\<close>

record TriggerPipelineInput =
  ti_SkillID :: int
  ti_VersionID :: "int option"
  ti_ReleaseID :: "int option"
  ti_TriggerType :: string
  ti_TriggeredBy :: string

record TriggerPipelineResult =
  tr_Accepted :: bool
  tr_PipelineRunID :: int
  tr_Message :: "string \<times> arg list"

definition step_def :: "string \<Rightarrow> string \<Rightarrow> bool \<Rightarrow> PipelineStepDefinition" where
  "step_def nm runner blocking = \<lparr>ps_Name = nm, ps_RunnerType = runner, ps_Config = [], ps_Blocking = Some blocking\<rparr>"

definition DefaultPipelineSteps :: "PipelineStepDefinition list" where
  "DefaultPipelineSteps =
    [step_def ''manifest-validation'' ''deterministic'' True,
     step_def ''package-policy-validation'' ''deterministic'' True,
     step_def ''secret-scan'' ''deterministic'' True,
     step_def ''install-smoke-test'' ''deterministic'' True,
     step_def ''documentation-quality'' ''deterministic'' True,
     step_def ''release-notes-suggestion'' ''llm'' False]"

text \<open>It never returns an error: a list that does not parse is replaced by the default one.\<close>

definition parsePipelineSteps :: "(string \<Rightarrow> PipelineStepDefinition list option) \<Rightarrow> string \<Rightarrow> PipelineStepDefinition list" where
  "parsePipelineSteps decode stepsJSON =
     (if stepsJSON = [] then DefaultPipelineSteps
      else (case decode stepsJSON of
              None \<Rightarrow> DefaultPipelineSteps
            | Some steps \<Rightarrow>
                if steps = [] then DefaultPipelineSteps
                else map (\<lambda>s. if ps_RunnerType s = [] then s\<lparr>ps_RunnerType := ''deterministic''\<rparr> else s) steps))"

definition step_check :: "TriggerPipelineInput \<Rightarrow> int \<Rightarrow> time \<Rightarrow> PipelineStepDefinition \<Rightarrow> CheckRun" where
  "step_check inp runID t step = \<lparr> cr_ID = 0, cr_PipelineRunID = runID, cr_SkillID = ti_SkillID inp, cr_VersionID = ti_VersionID inp,
     cr_ReleaseID = ti_ReleaseID inp, cr_Name = ps_Name step, cr_RunnerType = ps_RunnerType step, cr_Status = ''PENDING'',
     cr_Conclusion = None, cr_Summary = None, cr_IsBlocking = (case ps_Blocking step of None \<Rightarrow> True | Some b \<Rightarrow> b),
     cr_StartedAt = None, cr_CompletedAt = None, cr_DurationMs = None, cr_CreatedAt = t, cr_UpdatedAt = t \<rparr>"

fun create_checks :: "TriggerPipelineInput \<Rightarrow> int \<Rightarrow> time \<Rightarrow> PipelineStepDefinition list \<Rightarrow> nat op" where
  "create_checks inp runID t [] = ok 0"
| "create_checks inp runID t (step # steps) = do {
     r \<leftarrow> CheckRepo_Create (step_check inp runID t step);
     (case r of
       Inl e \<Rightarrow> fail (Wrapf ''agentci: create check run %q'' [AStr (ps_Name step)] e)
     | Inr _ \<Rightarrow> do {
         r \<leftarrow> create_checks inp runID t steps;
         (case r of Inl e \<Rightarrow> fail e | Inr n \<Rightarrow> ok (Suc n)) }) }"

definition new_run :: "TriggerPipelineInput \<Rightarrow> PipelineDefinition \<Rightarrow> time \<Rightarrow> PipelineRun" where
  "new_run inp pipeline t = \<lparr> run_ID = 0, run_PipelineID = pd_ID pipeline, run_SkillID = ti_SkillID inp, run_VersionID = ti_VersionID inp,
     run_ReleaseID = ti_ReleaseID inp, run_TriggerType = ti_TriggerType inp, run_TriggeredBy = ti_TriggeredBy inp,
     run_Status = ''PENDING'', run_CheckCount = 0, run_PassedCount = 0, run_FailedCount = 0, run_SkippedCount = 0,
     run_StartedAt = None, run_CompletedAt = None, run_CreatedAt = t, run_UpdatedAt = t \<rparr>"

definition TriggerPipeline :: "ci_service \<Rightarrow> TriggerPipelineInput \<Rightarrow> TriggerPipelineResult op" where
  "TriggerPipeline svc inp =
     (if \<not> ci_defs svc then fail (Errs ''agentci: pipeline definition repository not configured'')
      else if \<not> ci_runs svc then fail (Errs ''agentci: pipeline run repository not configured'')
      else do {
        r \<leftarrow> DefRepo_FindByTriggerOn (ti_TriggerType inp);
        (case r of
          Inl e \<Rightarrow> fail (wrap ''agentci: find pipelines'' e)
        | Inr pipelines \<Rightarrow>
          if pipelines = [] then
            ok \<lparr>tr_Accepted = False, tr_PipelineRunID = 0, tr_Message = (''no matching pipeline for trigger type %s'', [AStr (ti_TriggerType inp)])\<rparr>
          else (case find pd_Enabled pipelines of
            None \<Rightarrow> ok \<lparr>tr_Accepted = False, tr_PipelineRunID = 0, tr_Message = (''no enabled pipeline for trigger type %s'', [AStr (ti_TriggerType inp)])\<rparr>
          | Some pipeline \<Rightarrow> do {
              t \<leftarrow> now;
              r \<leftarrow> RunRepo_Create (new_run inp pipeline t);
              (case r of
                Inl e \<Rightarrow> fail (wrap ''agentci: create pipeline run'' e)
              | Inr saved \<Rightarrow> do {
                  r \<leftarrow> create_checks inp (run_ID saved) t (parsePipelineSteps (ci_decode svc) (pd_StepsJSON pipeline));
                  (case r of
                    Inl e \<Rightarrow> fail e
                  | Inr checkCount \<Rightarrow> do {
                      r \<leftarrow> RunRepo_Update (saved\<lparr>run_Status := ''RUNNING'', run_CheckCount := int checkCount,
                        run_StartedAt := Some t, run_UpdatedAt := t\<rparr>);
                      (case r of
                        Inl e \<Rightarrow> fail (wrap ''agentci: update pipeline run status'' e)
                      | Inr saved \<Rightarrow> ok \<lparr>tr_Accepted = True, tr_PipelineRunID = run_ID saved,
                          tr_Message = (''pipeline %q started with %d checks'', [AStr (pd_Name pipeline), AInt (int checkCount)])\<rparr>) }) }) })) })"

section \<open>Check runs\<close>

definition stamped :: "string \<Rightarrow> time \<Rightarrow> CheckRun \<Rightarrow> CheckRun" where
  "stamped status t cr = (let cr' =
       (if status = ''RUNNING'' then cr\<lparr>cr_StartedAt := Some t\<rparr>
        else if status \<in> {''PASSED'', ''FAILED'', ''SKIPPED'', ''CANCELLED''} then cr\<lparr>cr_CompletedAt := Some t\<rparr>
        else cr)
     in cr'\<lparr>cr_Status := status, cr_UpdatedAt := t\<rparr>)"

definition updateCheckStatus :: "ci_service \<Rightarrow> int \<Rightarrow> string \<Rightarrow> CheckRun op" where
  "updateCheckStatus svc checkRunID status =
     (if \<not> ci_checks svc then fail (Errs ''agentci: check run repository not configured'')
      else do {
        r \<leftarrow> CheckRepo_FindByID checkRunID;
        (case r of
          Inl e \<Rightarrow> fail (wrap ''agentci: find check run'' e)
        | Inr None \<Rightarrow> fail (NotFound ''agentci.check_run.not_found'' [])
        | Inr (Some cr) \<Rightarrow> do {
            t \<leftarrow> now;
            r \<leftarrow> CheckRepo_Update (stamped status t cr);
            (case r of Inl e \<Rightarrow> fail (wrap ''agentci: update check run'' e) | Inr updated \<Rightarrow> ok updated) }) })"

definition MarkCheckStarted :: "ci_service \<Rightarrow> int \<Rightarrow> CheckRun op" where
  "MarkCheckStarted svc checkRunID = updateCheckStatus svc checkRunID ''RUNNING''"

definition MarkCheckPassed :: "ci_service \<Rightarrow> int \<Rightarrow> string \<Rightarrow> int \<Rightarrow> CheckRun op" where
  "MarkCheckPassed svc checkRunID summary durationMs = do {
     r \<leftarrow> updateCheckStatus svc checkRunID ''PASSED'';
     (case r of
       Inl e \<Rightarrow> fail e
     | Inr cr \<Rightarrow> CheckRepo_Update (cr\<lparr>cr_Summary := Some summary, cr_DurationMs := Some durationMs\<rparr>)) }"

definition MarkCheckFailed :: "ci_service \<Rightarrow> int \<Rightarrow> string \<Rightarrow> int \<Rightarrow> CheckRun op" where
  "MarkCheckFailed svc checkRunID summary durationMs = do {
     r \<leftarrow> updateCheckStatus svc checkRunID ''FAILED'';
     (case r of
       Inl e \<Rightarrow> fail e
     | Inr cr \<Rightarrow> CheckRepo_Update (cr\<lparr>cr_Summary := Some summary, cr_DurationMs := Some durationMs\<rparr>)) }"

definition MarkCheckCancelled :: "ci_service \<Rightarrow> int \<Rightarrow> CheckRun op" where
  "MarkCheckCancelled svc checkRunID = updateCheckStatus svc checkRunID ''CANCELLED''"

definition MarkCheckSkipped :: "ci_service \<Rightarrow> int \<Rightarrow> string \<Rightarrow> CheckRun op" where
  "MarkCheckSkipped svc checkRunID reason = do {
     r \<leftarrow> updateCheckStatus svc checkRunID ''SKIPPED'';
     (case r of
       Inl e \<Rightarrow> fail e
     | Inr cr \<Rightarrow> CheckRepo_Update (cr\<lparr>cr_Summary := Some reason\<rparr>)) }"

section \<open>The worker's view\<close>

definition FindPendingRuns :: "ci_service \<Rightarrow> int \<Rightarrow> PipelineRun list op" where
  "FindPendingRuns svc limit =
     (if \<not> ci_runs svc then fail (Errs ''agentci: pipeline run repository not configured'') else RunRepo_FindPending limit)"

definition ClaimPendingRun :: "ci_service \<Rightarrow> int \<Rightarrow> PipelineRun option op" where
  "ClaimPendingRun svc runID =
     (if \<not> ci_runs svc then fail (Errs ''agentci: pipeline run repository not configured'') else RunRepo_ClaimPending runID)"

definition passed_count :: "CheckRun list \<Rightarrow> int" where
  "passed_count checks = int (length (filter (\<lambda>c. cr_Status c = ''PASSED'') checks))"

definition failed_count :: "CheckRun list \<Rightarrow> int" where
  "failed_count checks = int (length (filter (\<lambda>c. cr_Status c = ''FAILED'' \<or> cr_Status c = ''ERROR'') checks))"

definition skipped_count :: "CheckRun list \<Rightarrow> int" where
  "skipped_count checks = int (length (filter (\<lambda>c. cr_Status c = ''SKIPPED'') checks))"

definition finalized :: "CheckRun list \<Rightarrow> time \<Rightarrow> PipelineRun \<Rightarrow> PipelineRun" where
  "finalized checks t run = run\<lparr>run_PassedCount := passed_count checks, run_FailedCount := failed_count checks,
     run_SkippedCount := skipped_count checks, run_CompletedAt := Some t, run_UpdatedAt := t,
     run_Status := (if failed_count checks > 0 then ''FAILED'' else ''COMPLETED'')\<rparr>"

definition FinalizePipelineRun :: "ci_service \<Rightarrow> int \<Rightarrow> PipelineRun op" where
  "FinalizePipelineRun svc runID =
     (if \<not> ci_runs svc \<or> \<not> ci_checks svc then fail (Errs ''agentci: repositories not configured'')
      else do {
        r \<leftarrow> CheckRepo_FindByPipelineRunID runID;
        (case r of
          Inl e \<Rightarrow> fail (wrap ''agentci: list checks'' e)
        | Inr checks \<Rightarrow> do {
            r \<leftarrow> RunRepo_FindByID runID;
            (case r of
              Inl e \<Rightarrow> fail (wrap ''agentci: find run'' e)
            | Inr None \<Rightarrow> fail (NotFound ''agentci.pipeline_run.not_found'' [])
            | Inr (Some run) \<Rightarrow> do {
                t \<leftarrow> now;
                r \<leftarrow> RunRepo_Update (finalized checks t run);
                (case r of Inl e \<Rightarrow> fail (wrap ''agentci: update run'' e) | Inr updated \<Rightarrow> ok updated) }) }) })"

section \<open>Queries\<close>

definition GetPipelineRun :: "ci_service \<Rightarrow> int \<Rightarrow> PipelineRun op" where
  "GetPipelineRun svc i =
     (if \<not> ci_runs svc then fail (Errs ''agentci: pipeline run repository not configured'')
      else do {
        r \<leftarrow> RunRepo_FindByID i;
        (case r of
          Inl e \<Rightarrow> fail (wrap ''agentci: find pipeline run'' e)
        | Inr None \<Rightarrow> fail (NotFound ''agentci.pipeline_run.not_found'' [])
        | Inr (Some run) \<Rightarrow> ok run) })"

record PipelineRunFilter =
  pf_SkillID :: int
  pf_VersionID :: "int option"
  pf_ReleaseID :: "int option"
  pf_Status :: string
  pf_Page :: int
  pf_Size :: int

record PipelineRunListResult =
  pl_Runs :: "PipelineRun list"
  pl_TotalCount :: nat
  pl_Page :: int
  pl_Size :: int

definition ListPipelineRuns :: "ci_service \<Rightarrow> PipelineRunFilter \<Rightarrow> PipelineRunListResult op" where
  "ListPipelineRuns svc flt =
     (if \<not> ci_runs svc then fail (Errs ''agentci: pipeline run repository not configured'')
      else (let sz = (if pf_Size flt \<le> 0 then 20 else if pf_Size flt > 100 then 100 else pf_Size flt);
                page = (if pf_Page flt < 0 then 0 else pf_Page flt) in do {
        r \<leftarrow> RunRepo_FindBySkillID (pf_SkillID flt) (int64 (page * sz)) sz;
        (case r of
          Inl e \<Rightarrow> fail (wrap ''agentci: list pipeline runs'' e)
        | Inr runs \<Rightarrow> do {
            r \<leftarrow> RunRepo_CountBySkillID (pf_SkillID flt);
            (case r of
              Inl e \<Rightarrow> fail (wrap ''agentci: count pipeline runs'' e)
            | Inr n \<Rightarrow> ok \<lparr>pl_Runs = runs, pl_TotalCount = n, pl_Page = page, pl_Size = sz\<rparr>) }) }))"

definition GetCheckRun :: "ci_service \<Rightarrow> int \<Rightarrow> CheckRun op" where
  "GetCheckRun svc i =
     (if \<not> ci_checks svc then fail (Errs ''agentci: check run repository not configured'')
      else do {
        r \<leftarrow> CheckRepo_FindByID i;
        (case r of
          Inl e \<Rightarrow> fail (wrap ''agentci: find check run'' e)
        | Inr None \<Rightarrow> fail (NotFound ''agentci.check_run.not_found'' [])
        | Inr (Some cr) \<Rightarrow> ok cr) })"

definition ListCheckRuns :: "ci_service \<Rightarrow> int \<Rightarrow> CheckRun list op" where
  "ListCheckRuns svc runID =
     (if \<not> ci_checks svc then fail (Errs ''agentci: check run repository not configured'')
      else do {
        r \<leftarrow> CheckRepo_FindByPipelineRunID runID;
        (case r of Inl e \<Rightarrow> fail (wrap ''agentci: list check runs'' e) | Inr runs \<Rightarrow> ok runs) })"

definition CreateCheckStep :: "ci_service \<Rightarrow> CheckStep \<Rightarrow> CheckStep op" where
  "CreateCheckStep svc step =
     (if \<not> ci_steps svc then fail (Errs ''agentci: check step repository not configured'')
      else do {
        r \<leftarrow> StepRepo_Create step;
        (case r of Inl e \<Rightarrow> fail (wrap ''agentci: create check step'' e) | Inr saved \<Rightarrow> ok saved) })"

definition ListCheckSteps :: "ci_service \<Rightarrow> int \<Rightarrow> CheckStep list op" where
  "ListCheckSteps svc checkRunID =
     (if \<not> ci_steps svc then fail (Errs ''agentci: check step repository not configured'')
      else do {
        r \<leftarrow> StepRepo_FindByCheckRunID checkRunID;
        (case r of Inl e \<Rightarrow> fail (wrap ''agentci: list check steps'' e) | Inr steps \<Rightarrow> ok steps) })"

definition AppendStepLog :: "ci_service \<Rightarrow> int \<Rightarrow> string \<Rightarrow> unit op" where
  "AppendStepLog svc stepID bytes = (case ci_logs svc of
     None \<Rightarrow> fail (Errs ''agentci: log store not configured'') | Some store \<Rightarrow> ls_AppendLog store stepID bytes)"

definition ReadStepLog :: "ci_service \<Rightarrow> int \<Rightarrow> string op" where
  "ReadStepLog svc stepID = (case ci_logs svc of
     None \<Rightarrow> fail (Errs ''agentci: log store not configured'') | Some store \<Rightarrow> ls_ReadLog store stepID)"

definition AttachArtifact :: "ci_service \<Rightarrow> CheckArtifact \<Rightarrow> CheckArtifact op" where
  "AttachArtifact svc artifact =
     (if \<not> ci_artifacts svc then fail (Errs ''agentci: artifact repository not configured'')
      else do {
        r \<leftarrow> ArtifactRepo_Create artifact;
        (case r of Inl e \<Rightarrow> fail (wrap ''agentci: attach artifact'' e) | Inr saved \<Rightarrow> ok saved) })"

definition ListArtifacts :: "ci_service \<Rightarrow> int \<Rightarrow> CheckArtifact list op" where
  "ListArtifacts svc checkRunID =
     (if \<not> ci_artifacts svc then fail (Errs ''agentci: artifact repository not configured'')
      else do {
        r \<leftarrow> ArtifactRepo_FindByCheckRunID checkRunID;
        (case r of Inl e \<Rightarrow> fail (wrap ''agentci: list artifacts'' e) | Inr xs \<Rightarrow> ok xs) })"

section \<open>Gates\<close>

record GateEvalRequest =
  ge_SkillID :: int
  ge_VersionID :: "int option"
  ge_ReleaseID :: "int option"
  ge_TriggerType :: string

record GatePolicyResult =
  gr_PolicyID :: int
  gr_PolicyName :: string
  gr_Passed :: bool
  gr_Reason :: "string \<times> arg list"

record GateEvalResult =
  gv_Passed :: bool
  gv_Reason :: string
  gv_PolicyResults :: "GatePolicyResult list"

definition evaluateGatePolicy :: "GatePolicy \<Rightarrow> CheckRun list \<Rightarrow> bool" where
  "evaluateGatePolicy policy checks =
     (if gp_RequiredRule policy = ''all_passed'' then
        list_all (\<lambda>c. \<not> cr_IsBlocking c \<or> cr_Status c = ''PASSED'' \<or> cr_Status c = ''SKIPPED'') checks
      else if gp_RequiredRule policy = ''required_passed'' then
        \<not> list_ex (\<lambda>c. cr_IsBlocking c \<and> cr_Status c = ''FAILED'') checks
        \<and> list_ex (\<lambda>c. cr_IsBlocking c \<and> cr_Status c = ''PASSED'') checks
      else if gp_RequiredRule policy = ''no_critical'' then
        \<not> list_ex (\<lambda>c. cr_Status c = ''FAILED'' \<or> cr_Status c = ''ERROR'') checks
      else True)"

definition policy_result :: "CheckRun list \<Rightarrow> GatePolicy \<Rightarrow> GatePolicyResult" where
  "policy_result checks p = (let passed = evaluateGatePolicy p checks in
     \<lparr>gr_PolicyID = gp_ID p, gr_PolicyName = gp_Name p, gr_Passed = passed,
      gr_Reason = (if passed then ([], []) else (''gate policy %q requires %s'', [AStr (gp_Name p), AStr (gp_RequiredRule p)]))\<rparr>)"

definition gate_checks :: "GateEvalRequest \<Rightarrow> CheckRun list op" where
  "gate_checks inp = (case ge_ReleaseID inp of
       Some i \<Rightarrow> CheckRepo_FindByReleaseID i
     | None \<Rightarrow> (case ge_VersionID inp of
         Some i \<Rightarrow> CheckRepo_FindByVersionID i
       | None \<Rightarrow> CheckRepo_FindBySkillID (ge_SkillID inp) 0 100))"

definition EvaluateGates :: "ci_service \<Rightarrow> GateEvalRequest \<Rightarrow> GateEvalResult op" where
  "EvaluateGates svc inp =
     (if \<not> ci_policies svc then ok \<lparr>gv_Passed = True, gv_Reason = ''no gate policy repository configured'', gv_PolicyResults = []\<rparr>
      else if \<not> ci_checks svc then ok \<lparr>gv_Passed = True, gv_Reason = ''no check run repository configured'', gv_PolicyResults = []\<rparr>
      else do {
        r \<leftarrow> PolicyRepo_FindByTriggerOn (ge_TriggerType inp);
        (case r of
          Inl e \<Rightarrow> fail (wrap ''agentci: find gate policies'' e)
        | Inr policies \<Rightarrow>
          if policies = [] then ok \<lparr>gv_Passed = True, gv_Reason = ''no applicable gate policies'', gv_PolicyResults = []\<rparr>
          else do {
            r \<leftarrow> gate_checks inp;
            (case r of
              Inl e \<Rightarrow> fail (wrap ''agentci: find checks for gate'' e)
            | Inr checks \<Rightarrow>
              (let results = map (policy_result checks) (filter gp_Enabled policies); passed = list_all gr_Passed results in
               ok \<lparr>gv_Passed = passed,
                   gv_Reason = (if passed then [] else ''one or more gate policies are not satisfied''),
                   gv_PolicyResults = results\<rparr>)) }) })"

definition GateEnforce :: "ci_service \<Rightarrow> GateEvalRequest \<Rightarrow> unit op" where
  "GateEnforce svc inp = do {
     r \<leftarrow> EvaluateGates svc inp;
     (case r of
       Inl e \<Rightarrow> fail (wrap ''gate enforcement: evaluate gates'' e)
     | Inr result \<Rightarrow> if \<not> gv_Passed result then fail (Errorf ''gate enforcement: %s'' [AStr (gv_Reason result)]) else ok ()) }"

end
