(* ===== verification/Gates.thy ===== *)
theory Gates
  imports AgentCI Review
begin

text \<open>
  What the CI subsystem promises to the rest of the registry: a gate opens exactly when the enabled
  policies of its trigger hold, it stands between a review and the publication of a version, a run
  is handed to at most one worker, and the counts of a finished run are those of its checks.
\<close>

section \<open>The specification of a gate\<close>

definition policy_holds :: "string \<Rightarrow> CheckRun set \<Rightarrow> bool" where
  "policy_holds rule cs \<longleftrightarrow>
     (rule = ''all_passed'' \<longrightarrow> (\<forall>c \<in> cs. cr_IsBlocking c \<longrightarrow> cr_Status c = ''PASSED'' \<or> cr_Status c = ''SKIPPED''))
     \<and> (rule = ''required_passed'' \<longrightarrow>
          (\<forall>c \<in> cs. cr_IsBlocking c \<longrightarrow> cr_Status c \<noteq> ''FAILED'') \<and> (\<exists>c \<in> cs. cr_IsBlocking c \<and> cr_Status c = ''PASSED''))
     \<and> (rule = ''no_critical'' \<longrightarrow> (\<forall>c \<in> cs. cr_Status c \<noteq> ''FAILED'' \<and> cr_Status c \<noteq> ''ERROR''))"

definition checks_of :: "GateEvalRequest \<Rightarrow> database \<Rightarrow> CheckRun set" where
  "checks_of req d = (case ge_ReleaseID req of
       Some i \<Rightarrow> {c \<in> set (check_runs d). cr_ReleaseID c = Some i}
     | None \<Rightarrow> (case ge_VersionID req of
         Some i \<Rightarrow> {c \<in> set (check_runs d). cr_VersionID c = Some i}
       | None \<Rightarrow> set (take 100 (order_desc cr_CreatedAt (filter (\<lambda>c. cr_SkillID c = ge_SkillID req) (check_runs d))))))"

definition gate_open :: "GateEvalRequest \<Rightarrow> database \<Rightarrow> bool" where
  "gate_open req d \<longleftrightarrow> (\<forall>p \<in> set (gate_policies d). gp_Enabled p \<and> gp_TriggerOn p = ge_TriggerType req
     \<longrightarrow> policy_holds (gp_RequiredRule p) (checks_of req d))"

lemma evaluateGatePolicy_spec: "evaluateGatePolicy p cs = policy_holds (gp_RequiredRule p) (set cs)"
  by (auto simp: evaluateGatePolicy_def policy_holds_def list_all_iff list_ex_iff)

lemma gate_checks_wp:
  assumes "\<And>e w'. db w' = db w \<Longrightarrow> \<not> healthy w \<Longrightarrow> Q (Inl e) w'"
    and "\<And>cs w'. db w' = db w \<Longrightarrow> (healthy w \<Longrightarrow> healthy w') \<Longrightarrow> set cs = checks_of req (db w) \<Longrightarrow> Q (Inr cs) w'"
  shows "wp (gate_checks req) Q w"
proof -
  have fails: "Q (Inl DbFault) (fail_stmt w)" if "stmt_fails w"
    by (rule assms(1)) (use that healthy_simps(1) [of w] in \<open>auto simp del: healthy_simps\<close>)
  show ?thesis
    by (auto simp: gate_checks_def ci_repo_defs page_query_def limit_offset_def checks_of_def
        intro!: assms(2) fails split: option.splits)
qed

lemma GateEnforce_wp:
  assumes "ci_policies svc" and "ci_checks svc"
    and "\<And>w'. db w' = db w \<Longrightarrow> gate_open req (db w) \<Longrightarrow> Q (Inr ()) w'"
    and "\<And>e w'. db w' = db w \<Longrightarrow> healthy w \<longrightarrow> \<not> gate_open req (db w) \<Longrightarrow> Q (Inl e) w'"
  shows "wp (GateEnforce svc req) Q w"
proof -
  let ?ps = "sort_key gp_ID (filter (\<lambda>x. gp_TriggerOn x = ge_TriggerType req \<and> gp_Enabled x) (gate_policies (db w)))"
  have open_iff: "list_all gr_Passed (map (policy_result cs) ?ps) = gate_open req (db w)"
    if "set cs = checks_of req (db w)" for cs
    using that by (auto simp: list_all_iff policy_result_def evaluateGatePolicy_spec gate_open_def Let_def)
  have none: "gate_open req (db w)" if "?ps = []"
    using arg_cong [OF that, of set] by (auto simp: gate_open_def)
  have sick: "\<not> healthy w" if "stmt_fails w"
    using that healthy_simps(1) by blast
  have answer: "wp (case r of
        Inl e \<Rightarrow> fail (wrap ''agentci: find checks for gate'' e)
      | Inr cs \<Rightarrow> let results = map (policy_result cs) ?ps; passed = list_all gr_Passed results in
          ok \<lparr>gv_Passed = passed, gv_Reason = (if passed then [] else ''one or more gate policies are not satisfied''), gv_PolicyResults = results\<rparr>)
      (\<lambda>r. wp (case r of Inl e \<Rightarrow> fail (wrap ''gate enforcement: evaluate gates'' e)
        | Inr result \<Rightarrow> if \<not> gv_Passed result then fail (Errorf ''gate enforcement: %s'' [AStr (gv_Reason result)]) else ok ()) Q) w'"
    if "r = Inr cs" "set cs = checks_of req (db w)" "db w' = db w" for r cs w'
    using that(1,3) open_iff [OF that(2)] assms(3,4) [of w']
    by (cases "gate_open req (db w)") (simp_all add: Let_def)
  show ?thesis
    using assms(1,2)
    apply (simp add: GateEnforce_def EvaluateGates_def ci_repo_defs)
    apply (intro conjI impI)
       apply (rule assms(4); simp add: sick)
      apply (rule assms(3); simp add: none)
     apply (rule assms(4); simp add: sick)
    apply (rule gate_checks_wp)
     apply (simp add: assms(4))
    using answer by simp
qed


section \<open>The gate of a review\<close>

text \<open>\<open>main.go\<close> hands the review service this function.\<close>

definition gate_of_main :: "ci_service \<Rightarrow> int \<times> int \<times> string \<Rightarrow> unit op" where
  "gate_of_main svc = (\<lambda>(skillID, versionID, triggerType). GateEnforce svc
     \<lparr>ge_SkillID = skillID, ge_VersionID = Some versionID, ge_ReleaseID = None, ge_TriggerType = triggerType\<rparr>)"

definition review_gate_request :: "int \<Rightarrow> int \<Rightarrow> GateEvalRequest" where
  "review_gate_request skillID versionID =
     \<lparr>ge_SkillID = skillID, ge_VersionID = Some versionID, ge_ReleaseID = None, ge_TriggerType = ''review_approve''\<rparr>"

lemma GateEnforce_reads: "wp (GateEnforce svc req) (\<lambda>_ w'. db w' = db w) w"
proof (cases "ci_policies svc \<and> ci_checks svc")
  case True
  then show ?thesis by (intro GateEnforce_wp) auto
next
  case False
  then show ?thesis by (auto simp: GateEnforce_def EvaluateGates_def)
qed

interpretation ci_gate: collaborator "gate_of_main svc"
  unfolding collaborator_def keeps_core_def gate_of_main_def
  by (auto intro!: wp_mono [OF GateEnforce_reads] split: prod.splits)

lemma gate_open_cong:
  assumes "check_runs d' = check_runs d" and "gate_policies d' = gate_policies d"
  shows "gate_open req d' = gate_open req d"
  by (simp only: gate_open_def checks_of_def assms)

lemma finish_approval_gated:
  assumes "rv_gate env = Some (gate_of_main svc)" and "ci_policies svc" and "ci_checks svc"
  shows "wp (finish_approval env task v reviewer t)
     (\<lambda>r w'. (\<exists>x. r = Inr x) \<longrightarrow> gate_open (review_gate_request (sv_SkillID v) (sv_ID v)) (db w)) w"
proof (cases "gate_open (review_gate_request (sv_SkillID v) (sv_ID v)) (db w)")
  case closed: False
  have gate: "wp (enforce_gate env s i) Q w'"
    if "s = sv_SkillID v" "i = sv_ID v" "db w' = db w" "\<And>e v'. Q (Inl e) v'" for Q w' s i
    unfolding enforce_gate_def using that closed assms
    by (simp add: gate_of_main_def review_gate_request_def [symmetric]) (rule GateEnforce_wp; simp)
  show ?thesis
    by (simp add: closed finish_approval_def skill_repo_defs split: option.splits)
      (auto dest: find_SomeD intro!: wp_slug_conflict gate)
qed (simp add: wp_def)



section \<open>Runs are handed out once\<close>

text \<open>
  A run can be claimed while it is PENDING, or when its id has not been taken from the sequence yet.
  \<open>ci_event\<close> is one call that some worker or server makes; \<open>serve\<close> runs a sequence of them, in
  whatever order they reach the database, and keeps their answers.
\<close>

abbreviation run_seq :: string where
  "run_seq \<equiv> ''ci_pipeline_runs_id_seq''"

definition claimable :: "int \<Rightarrow> world \<Rightarrow> bool" where
  "claimable i w \<longleftrightarrow> (\<exists>x \<in> set (pipeline_runs (db w)). run_ID x = i \<and> run_Status x = ''PENDING'') \<or> i > seqs w run_seq"

definition run_ids_ok :: "world \<Rightarrow> bool" where
  "run_ids_ok w \<longleftrightarrow> (\<forall>x \<in> set (pipeline_runs (db w)). run_ID x \<le> seqs w run_seq)"

definition runs_advance :: "world \<Rightarrow> world \<Rightarrow> bool" where
  "runs_advance w w' \<longleftrightarrow> (run_ids_ok w \<longrightarrow> run_ids_ok w' \<and> (\<forall>i. claimable i w' \<longrightarrow> claimable i w))"

interpretation runs: evolution runs_advance
proof
  show "runs_advance w w'" if "db w' = db w" "seqs w' = seqs w" for w w'
    using that by (simp add: runs_advance_def run_ids_ok_def claimable_def)
  show "runs_advance u w" if "runs_advance u v" "runs_advance v w" for u v w
    using that unfolding runs_advance_def by blast
qed

datatype ci_event =
    Trigger TriggerPipelineInput
  | Claim int
  | Finalize int
  | Started int
  | PassedCheck int string int
  | FailedCheck int string int

datatype answer = Handed "PipelineRun option" | Done | Failed err

definition answer :: "('a \<Rightarrow> answer) \<Rightarrow> err + 'a \<Rightarrow> answer" where
  "answer f r = (case r of Inl e \<Rightarrow> Failed e | Inr x \<Rightarrow> f x)"

fun serve1 :: "ci_service \<Rightarrow> ci_event \<Rightarrow> (world, answer) state" where
  "serve1 svc (Trigger inp) = do { r \<leftarrow> TriggerPipeline svc inp; State_Monad.return (answer (\<lambda>_. Done) r) }"
| "serve1 svc (Claim i) = do { r \<leftarrow> ClaimPendingRun svc i; State_Monad.return (answer Handed r) }"
| "serve1 svc (Finalize i) = do { r \<leftarrow> FinalizePipelineRun svc i; State_Monad.return (answer (\<lambda>_. Done) r) }"
| "serve1 svc (Started i) = do { r \<leftarrow> MarkCheckStarted svc i; State_Monad.return (answer (\<lambda>_. Done) r) }"
| "serve1 svc (PassedCheck i s n) = do { r \<leftarrow> MarkCheckPassed svc i s n; State_Monad.return (answer (\<lambda>_. Done) r) }"
| "serve1 svc (FailedCheck i s n) = do { r \<leftarrow> MarkCheckFailed svc i s n; State_Monad.return (answer (\<lambda>_. Done) r) }"

fun serve :: "ci_service \<Rightarrow> ci_event list \<Rightarrow> (world, answer list) state" where
  "serve svc [] = State_Monad.return []"
| "serve svc (e # es) = do { a \<leftarrow> serve1 svc e; as \<leftarrow> serve svc es; State_Monad.return (a # as) }"

fun handed_to :: "int \<Rightarrow> ci_event \<times> answer \<Rightarrow> bool" where
  "handed_to i (Claim j, Handed (Some _)) = (i = j)"
| "handed_to i _ = False"

lemma check_update_evolves: "runs.evolves (CheckRepo_Update x)"
  unfolding CheckRepo_Update_def by (rule runs.exec) (simp add: runs_advance_def run_ids_ok_def claimable_def)

lemma run_update_evolves: "run_Status x \<noteq> ''PENDING'' \<Longrightarrow> runs.evolves (RunRepo_Update x)"
  unfolding RunRepo_Update_def
  by (rule runs.exec) (auto simp: runs_advance_def run_ids_ok_def claimable_def update_where_in split: if_splits, metis)

lemma run_create_evolves: "runs.evolves (RunRepo_Create x)"
  unfolding RunRepo_Create_def
  by (rule runs.insert) (auto simp: runs_advance_def run_ids_ok_def claimable_def next_id_def take_id_def set_db_def)

lemma check_create_evolves: "runs.evolves (CheckRepo_Create x)"
  unfolding CheckRepo_Create_def
  by (rule runs.insert) (auto simp: runs_advance_def run_ids_ok_def claimable_def next_id_def take_id_def set_db_def)

lemma create_checks_evolves: "runs.evolves (create_checks inp i t steps)"
  by (induction steps) (auto intro!: runs.rules check_create_evolves)

lemma mark_evolves: "runs.evolves (updateCheckStatus svc i s)"
  by (auto simp: updateCheckStatus_def CheckRepo_FindByID_def intro!: runs.rules check_update_evolves)

lemma serve1_evolves: "runs.evolves (serve1 svc e)"
proof (cases e)
  case (Trigger inp)
  show ?thesis unfolding Trigger
    by (auto simp: TriggerPipeline_def DefRepo_FindByTriggerOn_def
        intro!: runs.rules run_create_evolves create_checks_evolves run_update_evolves)
next
  case (Claim i)
  have "runs.evolves (RunRepo_ClaimPending i)"
    unfolding RunRepo_ClaimPending_def RunRepo_FindByID_def
    by (intro runs.rules runs.exec) (auto simp: runs_advance_def run_ids_ok_def claimable_def update_where_in split: if_splits)
  then show ?thesis unfolding Claim by (auto simp: ClaimPendingRun_def intro!: runs.rules)
next
  case (Finalize i)
  show ?thesis unfolding Finalize
    by (auto simp: FinalizePipelineRun_def ci_repo_defs(2) CheckRepo_FindByPipelineRunID_def RunRepo_FindByID_def finalized_def
        intro!: runs.rules run_update_evolves split: if_splits)
qed (auto simp: MarkCheckStarted_def MarkCheckPassed_def MarkCheckFailed_def intro!: runs.rules mark_evolves check_update_evolves)


lemma claim_wp:
  "wp (ClaimPendingRun svc i) (\<lambda>r w'. (\<exists>x. r = Inr (Some x)) \<longrightarrow> claimable i w
     \<and> (run_ids_ok w \<longrightarrow> \<not> claimable i w')) w"
  by (auto simp: ClaimPendingRun_def ci_repo_defs claimable_def run_ids_ok_def update_where_in filter_empty_conv split: if_splits)
    (drule arg_cong [of _ _ run_Status], simp)+

lemma serve_hands_once:
  assumes "run_ids_ok w"
  shows "wp (serve svc es) (\<lambda>as w'. length as = length es \<and> run_ids_ok w' \<and>
     length (filter (handed_to i) (zip es as)) \<le> (if claimable i w then 1 else 0)) w"
  using assms
proof (induction es arbitrary: w)
  case (Cons e es)
  have one: "wp (serve1 svc e) (\<lambda>a v. run_ids_ok v \<and> (claimable i v \<longrightarrow> claimable i w)
      \<and> (handed_to i (e, a) \<longrightarrow> claimable i w \<and> \<not> claimable i v)) w"
  proof -
    have "wp (serve1 svc e) (\<lambda>a v. handed_to i (e, a) \<longrightarrow> claimable i w \<and> \<not> claimable i v) w"
    proof (cases e)
      case (Claim j)
      show ?thesis unfolding Claim serve1.simps wp_bind
        by (rule wp_mono [OF claim_wp]) (use Cons.prems in \<open>auto simp: answer_def elim!: handed_to.elims split: sum.splits\<close>)
    qed (simp_all add: wp_def)
    moreover have "wp (serve1 svc e) (\<lambda>_ v. run_ids_ok v \<and> (claimable i v \<longrightarrow> claimable i w)) w"
    proof (rule wp_mono)
      show "wp (serve1 svc e) (\<lambda>_ v. runs_advance w v) w" using serve1_evolves by (simp add: runs.evolves_def)
    qed (use Cons.prems in \<open>auto simp: runs_advance_def\<close>)
    ultimately show ?thesis by (simp add: wp_def)
  qed
  show ?case
    unfolding serve.simps wp_bind
    apply (rule wp_mono [OF one])
    apply (rule wp_mono [OF Cons.IH])
     apply (auto split: if_splits)
    done
qed simp



section \<open>Triggered runs\<close>

lemma create_checks_runs:
  "wp (create_checks inp i t steps) (\<lambda>_ w'. pipeline_runs (db w') = pipeline_runs (db w) \<and> seqs w' run_seq = seqs w run_seq) w"
proof (induction steps arbitrary: w)
  case (Cons s steps)
  show ?case
    unfolding create_checks.simps wp_bind
    by (simp add: CheckRepo_Create_def) (auto intro!: wp_mono [OF Cons.IH] split: sum.splits)
qed simp

lemma trigger_wp:
  assumes "run_ids_ok w"
  shows "wp (TriggerPipeline svc inp) (\<lambda>r w'. \<forall>res. r = Inr res \<and> tr_Accepted res \<longrightarrow> \<not> claimable (tr_PipelineRunID res) w') w"
  by (simp add: TriggerPipeline_def DefRepo_FindByTriggerOn_def RunRepo_Create_def split: option.splits)
    (auto intro!: wp_mono [OF create_checks_runs] simp: RunRepo_Update_def claimable_def update_where_in next_id_def split: sum.splits if_splits,
      (drule arg_cong [of _ _ run_Status], simp)+)

text \<open>A pipeline run that \<open>TriggerPipeline\<close> reports as accepted is handed to no worker, whatever calls
  follow: it is moved to RUNNING before it is announced, and workers only claim PENDING runs.\<close>

theorem accepted_runs_are_never_claimed:
  assumes "\<forall>x \<in> set (pipeline_runs (db w)). run_ID x \<le> seqs w ''ci_pipeline_runs_id_seq''"
    and "run_state (TriggerPipeline svc inp) w = (Inr res, w1)" and "tr_Accepted res"
    and "run_state (serve svc es) w1 = (as, w2)"
  shows "filter (handed_to (tr_PipelineRunID res)) (zip es as) = []"
proof -
  have ok: "run_ids_ok w" using assms(1) by (simp add: run_ids_ok_def)
  have "\<not> claimable (tr_PipelineRunID res) w1" using wpD [OF assms(2) trigger_wp [OF ok]] assms(3) by simp
  moreover have "runs.evolves (TriggerPipeline svc inp)"
    by (auto simp: TriggerPipeline_def DefRepo_FindByTriggerOn_def
        intro!: runs.rules run_create_evolves create_checks_evolves run_update_evolves)
  then have "run_ids_ok w1" using runs.evolvesD [OF _ assms(2)] ok by (simp add: runs_advance_def)
  from wpD [OF assms(4) serve_hands_once [OF this, of svc es "tr_PipelineRunID res"]] calculation show ?thesis by simp
qed

section \<open>Failed checks stay in the gate\<close>

fun marks :: "int \<Rightarrow> ci_event \<Rightarrow> bool" where
  "marks i (Started j) = (i = j)"
| "marks i (PassedCheck j _ _) = (i = j)"
| "marks i (FailedCheck j _ _) = (i = j)"
| "marks i _ = False"

definition stuck :: "CheckRun \<Rightarrow> GatePolicy \<Rightarrow> database \<Rightarrow> bool" where
  "stuck c p d \<longleftrightarrow> c \<in> set (check_runs d) \<and> p \<in> set (gate_policies d)"

lemma stuck_update: "cr_ID x \<noteq> cr_ID c \<Longrightarrow> keeps (stuck c p) (CheckRepo_Update x)"
  unfolding CheckRepo_Update_def by (rule keeps_exec) (auto simp: stuck_def intro: update_where_keeps)

lemma stuck_mark:
  assumes "j \<noteq> cr_ID c" and "stuck c p (db w)"
  shows "wp (updateCheckStatus svc j s) (\<lambda>r w'. stuck c p (db w') \<and> (\<forall>x. r = Inr x \<longrightarrow> cr_ID x = j)) w"
proof -
  have id: "cr_ID (stamped s t x) = cr_ID x" for t x by (simp add: stamped_def Let_def)
  show ?thesis
    using assms by (simp add: updateCheckStatus_def CheckRepo_FindByID_def CheckRepo_Update_def id split: option.splits)
      (auto dest!: find_SomeD simp: id stuck_def intro: update_where_keeps)
qed

lemma stuck_mark_then:
  assumes "j \<noteq> cr_ID c" and "\<And>x. cr_ID (f x) = cr_ID x"
  shows "keeps (stuck c p) (do { r \<leftarrow> updateCheckStatus svc j s; (case r of Inl e \<Rightarrow> fail e | Inr cr \<Rightarrow> CheckRepo_Update (f cr)) })"
proof (rule keepsI)
  fix w :: world assume "stuck c p (db w)"
  from stuck_mark [OF assms(1) this]
  show "wp (do { r \<leftarrow> updateCheckStatus svc j s; (case r of Inl e \<Rightarrow> fail e | Inr cr \<Rightarrow> CheckRepo_Update (f cr)) }) (\<lambda>_ w'. stuck c p (db w')) w"
    unfolding wp_bind
    by (rule wp_mono) (use stuck_update [of _ c p] assms in \<open>auto simp: keeps_def split: sum.splits\<close>)
qed

lemma stuck_checks: "keeps (stuck c p) (create_checks inp i t steps)"
  by (induction steps) (auto simp: CheckRepo_Create_def stuck_def intro!: keeps_intros keeps_insert)

lemma stuck_serve1:
  assumes "\<not> marks (cr_ID c) e"
  shows "keeps (stuck c p) (serve1 svc e)"
proof (cases e)
  case (Started j)
  then have "j \<noteq> cr_ID c" using assms by simp
  then have "keeps (stuck c p) (updateCheckStatus svc j ''RUNNING'')"
    by (intro keepsI wp_mono [OF stuck_mark]) auto
  then show ?thesis unfolding Started by (auto simp: MarkCheckStarted_def intro!: keeps_intros)
next
  case (PassedCheck j s n)
  then have "keeps (stuck c p) (MarkCheckPassed svc j s n)"
    unfolding MarkCheckPassed_def by (intro stuck_mark_then) (use assms in auto)
  then show ?thesis unfolding PassedCheck by (auto intro!: keeps_intros)
next
  case (FailedCheck j s n)
  then have "keeps (stuck c p) (MarkCheckFailed svc j s n)"
    unfolding MarkCheckFailed_def by (intro stuck_mark_then) (use assms in auto)
  then show ?thesis unfolding FailedCheck by (auto intro!: keeps_intros)
next
  case (Trigger inp)
  show ?thesis unfolding Trigger
    by (auto simp: TriggerPipeline_def DefRepo_FindByTriggerOn_def RunRepo_Create_def RunRepo_Update_def
        intro!: keeps_intros stuck_checks) (auto simp: stuck_def intro!: keeps_intros keeps_exec keeps_insert)
qed (auto simp: ClaimPendingRun_def FinalizePipelineRun_def ci_repo_defs stuck_def intro!: keeps_intros keeps_exec)

lemma stuck_serve: "(\<forall>e \<in> set es. \<not> marks (cr_ID c) e) \<Longrightarrow> keeps (stuck c p) (serve svc es)"
  by (induction es) (auto intro!: keeps_intros stuck_serve1)

text \<open>A check that failed for a version keeps its gate closed for good: after any further calls (new
  pipeline runs of the same version that pass included) that do not rewrite that very check, no
  request for the version gets past an enabled policy that does not tolerate the failure.\<close>

theorem failed_checks_are_never_superseded:
  assumes "ci_policies svc" and "ci_checks svc" and "c \<in> set (check_runs (db w))" and "p \<in> set (gate_policies (db w))"
    and "cr_Status c = ''FAILED''" and "cr_IsBlocking c" and "cr_VersionID c = Some v"
    and "gp_Enabled p" and "gp_RequiredRule p \<in> {''all_passed'', ''required_passed'', ''no_critical''}"
    and "\<forall>e \<in> set es. \<not> marks (cr_ID c) e"
    and "run_state (serve svc es) w = (as, w1)"
    and "run_state (GateEnforce svc \<lparr>ge_SkillID = s, ge_VersionID = Some v, ge_ReleaseID = None, ge_TriggerType = gp_TriggerOn p\<rparr>) w1 = (r, w2)"
  shows "\<exists>e. r = Inl e"
proof -
  let ?req = "\<lparr>ge_SkillID = s, ge_VersionID = Some v, ge_ReleaseID = None, ge_TriggerType = gp_TriggerOn p\<rparr>"
  have "stuck c p (db w1)"
    using keepsD [OF stuck_serve [OF assms(10)] assms(11)] assms(3,4) by (simp add: stuck_def)
  then have "\<not> gate_open ?req (db w1)"
    using assms(5-9) by (auto simp: gate_open_def checks_of_def policy_holds_def stuck_def intro!: bexI [of _ p])
  moreover have "wp (GateEnforce svc ?req) (\<lambda>r _. r = Inr () \<longrightarrow> gate_open ?req (db w1)) w1"
    by (rule GateEnforce_wp [OF assms(1,2)]) auto
  ultimately have "r \<noteq> Inr ()" using wpD [OF assms(12)] by blast
  then show ?thesis by (cases r) auto
qed


section \<open>Concrete runs\<close>

definition all_ci :: ci_service where
  "all_ci = \<lparr>ci_defs = True, ci_runs = True, ci_checks = True, ci_steps = True, ci_artifacts = True, ci_policies = True,
     ci_logs = None, ci_decode = (\<lambda>_. None)\<rparr>"

definition shop_check :: "string \<Rightarrow> CheckRun" where
  "shop_check status = \<lparr> cr_ID = 21, cr_PipelineRunID = 9, cr_SkillID = 3, cr_VersionID = Some 5, cr_ReleaseID = None,
     cr_Name = ''secret-scan'', cr_RunnerType = ''deterministic'', cr_Status = status, cr_Conclusion = None, cr_Summary = None,
     cr_IsBlocking = True, cr_StartedAt = None, cr_CompletedAt = None, cr_DurationMs = None, cr_CreatedAt = 3, cr_UpdatedAt = 3 \<rparr>"

definition shop_policy :: GatePolicy where
  "shop_policy = \<lparr> gp_ID = 1, gp_Name = ''checks'', gp_Description = None, gp_TriggerOn = ''review_approve'',
     gp_RequiredRule = ''all_passed'', gp_Enabled = True, gp_CreatedAt = 1, gp_UpdatedAt = 1 \<rparr>"

definition shop_pipeline :: PipelineDefinition where
  "shop_pipeline = \<lparr> pd_ID = 1, pd_Name = ''default'', pd_Description = None, pd_TriggerOn = ''publish'', pd_StepsJSON = [],
     pd_Enabled = True, pd_CreatedAt = 1, pd_UpdatedAt = 1 \<rparr>"

definition shop_run :: PipelineRun where
  "shop_run = \<lparr> run_ID = 9, run_PipelineID = 1, run_SkillID = 3, run_VersionID = Some 5, run_ReleaseID = None,
     run_TriggerType = ''publish'', run_TriggeredBy = ''cy'', run_Status = ''PENDING'', run_CheckCount = 1, run_PassedCount = 0,
     run_FailedCount = 0, run_SkippedCount = 0, run_StartedAt = None, run_CompletedAt = None, run_CreatedAt = 3, run_UpdatedAt = 3 \<rparr>"

definition ci_db :: "string \<Rightarrow> database" where
  "ci_db status = (shop_db ''PENDING_REVIEW'' [shop_task])\<lparr>check_runs := [shop_check status], gate_policies := [shop_policy],
     pipeline_defs := [shop_pipeline], pipeline_runs := [shop_run]\<rparr>"

lemma ci_demo_simps [simp]:
  "ci_policies all_ci" "ci_checks all_ci" "ci_runs all_ci" "ci_defs all_ci"
  "check_runs (ci_db st) = [shop_check st]" "gate_policies (ci_db st) = [shop_policy]" "pipeline_runs (ci_db st) = [shop_run]"
  "pipeline_defs (ci_db st) = [shop_pipeline]" "namespaces (ci_db st) = [shop_ns]" "skills (ci_db st) = [shop_skill]"
  "versions (ci_db st) = [shop_version ''PENDING_REVIEW'']" "review_tasks (ci_db st) = [shop_task]"
  "cr_ID (shop_check st) = 21" "cr_Status (shop_check st) = st" "cr_IsBlocking (shop_check st)" "cr_VersionID (shop_check st) = Some 5"
  "gp_Enabled shop_policy" "gp_TriggerOn shop_policy = ''review_approve''" "gp_RequiredRule shop_policy = ''all_passed''"
  "run_ID shop_run = 9" "run_Status shop_run = ''PENDING''" "pd_Enabled shop_pipeline" "pd_StepsJSON shop_pipeline = []"
  "pd_TriggerOn shop_pipeline = ''publish''"
  by (simp_all add: all_ci_def ci_db_def shop_check_def shop_policy_def shop_run_def shop_pipeline_def)

lemma ci_db_gate: "gate_open (review_gate_request 3 5) (ci_db st) \<longleftrightarrow> st = ''PASSED'' \<or> st = ''SKIPPED''"
  by (auto simp: gate_open_def checks_of_def review_gate_request_def policy_holds_def)




definition publish_input :: TriggerPipelineInput where
  "publish_input = \<lparr>ti_SkillID = 3, ti_VersionID = Some 5, ti_ReleaseID = None, ti_TriggerType = ''publish'', ti_TriggeredBy = ''cy''\<rparr>"

theorem accepted_runs_are_never_claimed_witness:
  "\<exists>res w1 as w2. run_state (TriggerPipeline all_ci publish_input) (calm False (ci_db ''PASSED'')) = (Inr res, w1)
     \<and> tr_Accepted res \<and> tr_PipelineRunID res = 101 \<and> run_state (serve all_ci [Claim 101]) w1 = (as, w2)
     \<and> filter (handed_to 101) (zip [Claim 101] as) = []"
proof -
  let ?w = "calm False (ci_db ''PASSED'')"
  obtain r w1 where run: "run_state (TriggerPipeline all_ci publish_input) ?w = (r, w1)" by (metis surj_pair)
  obtain as w2 where run2: "run_state (serve all_ci [Claim 101]) w1 = (as, w2)" by (metis surj_pair)
  have "wp (TriggerPipeline all_ci publish_input) (\<lambda>r _. \<exists>res. r = Inr res \<and> tr_Accepted res \<and> tr_PipelineRunID res = 101) ?w"
    by (simp add: TriggerPipeline_def ci_repo_defs publish_input_def parsePipelineSteps_def DefaultPipelineSteps_def
        new_run_def stmt_fails_def next_id_def take_id_def)
  from wpD [OF run this] obtain res where r: "r = Inr res" "tr_Accepted res" "tr_PipelineRunID res = 101" by blast
  show ?thesis using accepted_runs_are_never_claimed [OF _ run [unfolded r(1)] r(2) run2] run run2 r by auto
qed

theorem failed_checks_are_never_superseded_witness:
  "\<exists>as w1 e w2. run_state (serve all_ci [Trigger publish_input, PassedCheck 101 [] 1]) (calm False (ci_db ''FAILED'')) = (as, w1)
     \<and> run_state (GateEnforce all_ci \<lparr>ge_SkillID = 3, ge_VersionID = Some 5, ge_ReleaseID = None, ge_TriggerType = gp_TriggerOn shop_policy\<rparr>) w1 = (Inl e, w2)"
proof -
  let ?es = "[Trigger publish_input, PassedCheck 101 [] 1]"
  obtain as w1 where run: "run_state (serve all_ci ?es) (calm False (ci_db ''FAILED'')) = (as, w1)" by (metis surj_pair)
  obtain r w2 where run2: "run_state (GateEnforce all_ci \<lparr>ge_SkillID = 3, ge_VersionID = Some 5, ge_ReleaseID = None, ge_TriggerType = gp_TriggerOn shop_policy\<rparr>) w1 = (r, w2)"
    by (metis surj_pair)
  have "\<exists>e. r = Inl e"
    by (rule failed_checks_are_never_superseded [OF _ _ _ _ _ _ _ _ _ _ run run2, of "shop_check ''FAILED''"]) simp_all
  then show ?thesis using run run2 by blast
qed

end
