(* ===== verification/Paths.thy ===== *)
theory Paths
  imports GoStrings
begin

text \<open>
  The lexical path functions of Go's \<open>path/filepath\<close> on Unix that the repository relies on
  (\<open>Clean\<close>, \<open>Join\<close>, \<open>IsLocal\<close>), and the containment check of the local object store
  (\<open>adapters/localstorage/local.go\<close>). A path is a byte string; its components are what
  \<open>split_on\<close> gives for the separator.
\<close>

abbreviation slash :: char where
  "slash \<equiv> CHR ''/''"

definition dot :: string where "dot = [CHR ''.'']"
definition dotdot :: string where "dotdot = [CHR ''.'', CHR ''.'']"

lemma dots [simp]: "dot \<noteq> dotdot" "dotdot \<noteq> dot" "dot \<noteq> []" "dotdot \<noteq> []" "slash \<notin> set dot" "slash \<notin> set dotdot"
  by (simp_all add: dot_def dotdot_def)

text \<open>One component of the input of \<open>Clean\<close>, on the reversed components written so far.\<close>

fun clean_step :: "bool \<Rightarrow> string list \<Rightarrow> string \<Rightarrow> string list" where
  "clean_step rooted out c =
     (if c = [] \<or> c = dot then out
      else if c = dotdot then
        (case out of
           [] \<Rightarrow> if rooted then [] else [dotdot]
         | t # rest \<Rightarrow> if t = dotdot then dotdot # out else rest)
      else c # out)"

declare clean_step.simps [simp del]

definition clean_comps :: "bool \<Rightarrow> string list \<Rightarrow> string list" where
  "clean_comps rooted cs = rev (foldl (clean_step rooted) [] cs)"

definition is_rooted :: "string \<Rightarrow> bool" where
  "is_rooted p \<longleftrightarrow> p \<noteq> [] \<and> hd p = slash"

definition render :: "bool \<Rightarrow> string list \<Rightarrow> string" where
  "render rooted cs = (if rooted then slash # join_on slash cs else if cs = [] then dot else join_on slash cs)"

definition Clean :: "string \<Rightarrow> string" where
  "Clean p = (if p = [] then dot else render (is_rooted p) (clean_comps (is_rooted p) (split_on slash p)))"

definition path_Join :: "string \<Rightarrow> string \<Rightarrow> string" where
  "path_Join a b = (if a \<noteq> [] then Clean (a @ slash # b) else if b \<noteq> [] then Clean b else [])"

definition escapes :: "string \<Rightarrow> bool" where
  "escapes p \<longleftrightarrow> p = dotdot \<or> HasPrefix p (dotdot @ [slash])"

definition IsLocal :: "string \<Rightarrow> bool" where
  "IsLocal p \<longleftrightarrow> p \<noteq> [] \<and> \<not> is_rooted p
     \<and> \<not> escapes (if list_ex (\<lambda>c. c = dot \<or> c = dotdot) (split_on slash p) then Clean p else p)"

section \<open>Components\<close>

text \<open>An ordinary component, and a cleaned list: ordinary components after leading \<open>..\<close>s.\<close>

definition plain :: "string \<Rightarrow> bool" where
  "plain c \<longleftrightarrow> c \<noteq> [] \<and> c \<noteq> dot \<and> c \<noteq> dotdot \<and> slash \<notin> set c"

definition cleaned :: "bool \<Rightarrow> string list \<Rightarrow> bool" where
  "cleaned rooted cs \<longleftrightarrow> (\<exists>n ps. cs = replicate n dotdot @ ps \<and> list_all plain ps \<and> (rooted \<longrightarrow> n = 0))"

lemma split_piece: "sep \<notin> set c \<Longrightarrow> split_on sep c = [c]"
  by (induction c) auto

lemma split_first: "sep \<notin> set c \<Longrightarrow> split_on sep (c @ sep # s) = c # split_on sep s"
  by (induction c) auto

lemma split_join:
  assumes "cs \<noteq> []" and "\<forall>c \<in> set cs. sep \<notin> set c"
  shows "split_on sep (join_on sep cs) = cs"
  using assms by (induction sep cs rule: join_on.induct) (auto simp: split_piece split_first)

lemma split_append: "split_on sep (a @ sep # b) = split_on sep a @ split_on sep b"
proof (induction a)
  case (Cons c a)
  obtain w ws where "split_on sep a = w # ws" by (cases "split_on sep a") auto
  with Cons.IH show ?case by auto
qed simp

lemma join_append: "xs \<noteq> [] \<Longrightarrow> ys \<noteq> [] \<Longrightarrow> join_on sep (xs @ ys) = join_on sep xs @ sep # join_on sep ys"
proof (induction sep xs rule: join_on.induct)
  case (2 sep w)
  then show ?case by (cases ys) auto
qed auto

lemma cleaned_cases:
  assumes "slash \<notin> set c" and "cleaned rooted (rev out)"
  shows "cleaned rooted (rev (clean_step rooted out c))"
proof -
  obtain n ps where out: "rev out = replicate n dotdot @ ps" "list_all plain ps" "rooted \<longrightarrow> n = 0"
    using assms(2) by (auto simp: cleaned_def)
  consider "c = [] \<or> c = dot" | "c = dotdot" | "plain c"
    using assms(1) by (auto simp: plain_def)
  then show ?thesis
  proof cases
    case 1
    then show ?thesis using assms(2) by (simp add: clean_step.simps)
  next
    case 2
    show ?thesis
    proof (cases ps rule: rev_cases)
      case Nil
      then have o: "out = replicate n dotdot" using out(1) by (metis append_Nil2 rev_replicate rev_rev_ident)
      show ?thesis
      proof (cases n)
        case 0
        then have "clean_step rooted out c = (if rooted then [] else [dotdot])" using o 2 by (simp add: clean_step.simps)
        moreover have "cleaned rooted []" by (auto simp: cleaned_def)
        moreover have "cleaned False [dotdot]" unfolding cleaned_def by (intro exI [of _ "1::nat"] exI [of _ "[]"]) simp
        ultimately show ?thesis by (cases rooted) auto
      next
        case (Suc k)
        then have "clean_step rooted out c = replicate (Suc n) dotdot"
          using o 2 by (simp add: clean_step.simps)
        then show ?thesis using Suc out(3) unfolding cleaned_def
          by (intro exI [of _ "Suc n"] exI [of _ "[]"]) (auto simp del: replicate.simps)
      qed
    next
      case (snoc qs q)
      then have o: "out = q # rev qs @ replicate n dotdot" using out(1)
        by (metis append.assoc rev.simps(1) rev_append rev_replicate rev_rev_ident rev_singleton_conv append_Cons append_Nil)
      then have "clean_step rooted out c = rev qs @ replicate n dotdot"
        using 2 snoc out(2) by (simp add: clean_step.simps plain_def)
      then show ?thesis using out(2,3) snoc by (auto simp: cleaned_def)
    qed
  next
    case 3
    then have "clean_step rooted out c = c # out" by (simp add: clean_step.simps plain_def)
    then show ?thesis using out 3 unfolding cleaned_def
      by (intro exI [of _ n] exI [of _ "ps @ [c]"]) simp
  qed
qed

lemma clean_comps_cleaned:
  assumes "\<forall>c \<in> set cs. slash \<notin> set c"
  shows "cleaned rooted (clean_comps rooted cs)"
proof -
  have "\<forall>c \<in> set cs. slash \<notin> set c \<Longrightarrow> cleaned rooted (rev out) \<Longrightarrow> cleaned rooted (rev (foldl (clean_step rooted) out cs))" for out
    by (induction cs arbitrary: out) (auto intro!: cleaned_cases)
  moreover have "cleaned rooted (rev [])" by (auto simp: cleaned_def)
  ultimately show ?thesis using assms unfolding clean_comps_def by blast
qed

text \<open>Plain components pass through.\<close>

lemma clean_plain: "list_all plain ps \<Longrightarrow> foldl (clean_step rooted) out ps = rev ps @ out"
  by (induction ps arbitrary: out) (auto simp: clean_step.simps plain_def)

lemma cleaned_no_slash:
  assumes "cleaned rooted cs" and "c \<in> set cs"
  shows "slash \<notin> set c \<and> c \<noteq> [] \<and> c \<noteq> dot"
proof -
  obtain n ps where cs: "cs = replicate n dotdot @ ps" and ps: "list_all plain ps" using assms(1) unfolding cleaned_def by blast
  from assms(2) have "c \<in> set (replicate n dotdot) \<or> c \<in> set ps" unfolding cs set_append by (rule UnE) simp_all
  then consider "c = dotdot" | "c \<in> set ps" by (metis in_set_replicate)
  then show ?thesis
  proof cases
    case 1
    then show ?thesis by simp
  next
    case 2
    then have "plain c" using ps by (simp add: list_all_iff)
    then show ?thesis by (simp add: plain_def)
  qed
qed

lemma split_no_slash: "\<forall>c \<in> set (split_on slash p). slash \<notin> set c"
  using split_on_pieces by blast

lemma Clean_render:
  obtains cs where "Clean p = render (is_rooted p) cs" "cleaned (is_rooted p) cs"
proof (cases "p = []")
  case True
  have "Clean p = render (is_rooted p) []" using True by (simp add: Clean_def render_def is_rooted_def)
  moreover have "cleaned (is_rooted p) []" by (auto simp: cleaned_def)
  ultimately show ?thesis by (rule that)
next
  case False
  have c: "Clean p = render (is_rooted p) (clean_comps (is_rooted p) (split_on slash p))"
    unfolding Clean_def by (rule if_not_P [OF False])
  show ?thesis by (rule that [OF c clean_comps_cleaned [OF split_no_slash]])
qed

lemma fold_dotdots: "\<not> rooted \<Longrightarrow> foldl (clean_step rooted) (replicate m dotdot) (replicate n dotdot) = replicate (m + n) dotdot"
proof (induction n arbitrary: m)
  case (Suc n)
  have "clean_step rooted (replicate m dotdot) dotdot = replicate (Suc m) dotdot"
    using Suc.prems by (cases m) (simp_all add: clean_step.simps)
  then show ?case using Suc.IH [of "Suc m"] Suc.prems by (simp add: foldl_Cons del: replicate.simps(2)) simp
qed simp

lemma fold_cleaned:
  assumes "cleaned rooted cs"
  shows "foldl (clean_step rooted) [] cs = rev cs"
proof -
  obtain n ps where cs: "cs = replicate n dotdot @ ps" and ps: "list_all plain ps" and n: "rooted \<longrightarrow> n = 0"
    using assms unfolding cleaned_def by blast
  have "foldl (clean_step rooted) [] (replicate n dotdot) = replicate n dotdot"
    using n fold_dotdots [of rooted 0 n] by (cases rooted) simp_all
  then show ?thesis using ps by (simp add: cs clean_plain)
qed

lemma hd_join: "cleaned rooted cs \<Longrightarrow> cs \<noteq> [] \<Longrightarrow> join_on slash cs \<noteq> [] \<and> hd (join_on slash cs) \<noteq> slash"
proof (induction slash cs rule: join_on.induct)
  case (2 w)
  then have "slash \<notin> set w \<and> w \<noteq> []" using cleaned_no_slash by force
  then show ?case by (cases w) auto
next
  case (3 w v vs)
  then have "slash \<notin> set w \<and> w \<noteq> []" using cleaned_no_slash by force
  then show ?case by (cases w) auto
qed simp

lemma rooted_render: "cleaned rooted cs \<Longrightarrow> is_rooted (render rooted cs) = rooted"
  using hd_join [of rooted cs] by (auto simp: render_def is_rooted_def dot_def)

lemma render_nonempty [simp]: "cleaned rooted cs \<Longrightarrow> render rooted cs \<noteq> []"
  using hd_join [of rooted cs] by (auto simp: render_def)

lemma fold_split_render:
  assumes "cleaned rooted cs"
  shows "foldl (clean_step rooted) [] (split_on slash (render rooted cs)) = rev cs"
proof -
  have sp: "cs \<noteq> [] \<Longrightarrow> split_on slash (join_on slash cs) = cs"
    using assms cleaned_no_slash split_join by blast
  have skip: "clean_step b [] [] = []" "clean_step b [] dot = []" for b by (simp_all add: clean_step.simps)
  show ?thesis
  proof (cases "cs = []")
    case True
    then show ?thesis by (simp add: render_def skip split_piece)
  next
    case False
    then show ?thesis using sp fold_cleaned [OF assms] by (cases rooted) (simp_all add: render_def skip)
  qed
qed

lemma Clean_render_same: "cleaned rooted cs \<Longrightarrow> Clean (render rooted cs) = render rooted cs"
  by (simp add: Clean_def rooted_render clean_comps_def fold_split_render)

lemma Clean_idem [simp]: "Clean (Clean p) = Clean p"
proof -
  obtain cs where cs: "Clean p = render (is_rooted p) cs" "cleaned (is_rooted p) cs" by (rule Clean_render)
  then show ?thesis by (simp add: Clean_render_same)
qed

lemma Clean_nonempty [simp]: "Clean p \<noteq> []"
proof -
  obtain cs where cs: "Clean p = render (is_rooted p) cs" "cleaned (is_rooted p) cs" by (rule Clean_render)
  then show ?thesis by simp
qed

section \<open>Containment of the local store\<close>

text \<open>\<open>Store.resolveKey\<close> of \<open>localstorage\<close>; \<open>filepath.FromSlash\<close> is the identity on Unix.\<close>

definition resolveKey :: "string \<Rightarrow> string \<Rightarrow> err + string" where
  "resolveKey root key =
     (let cleanRoot = Clean root; fullPath = Clean (path_Join cleanRoot key) in
      if \<not> HasPrefix fullPath (cleanRoot @ [slash]) \<and> fullPath \<noteq> cleanRoot
      then Inl (Errorf ''localstorage: path traversal detected: %s'' [AStr key])
      else Inr fullPath)"

text \<open>The store directory itself, or a path below it that climbs nowhere.\<close>

definition inside :: "string \<Rightarrow> string \<Rightarrow> bool" where
  "inside root p \<longleftrightarrow> p = Clean root \<or> (\<exists>ts. ts \<noteq> [] \<and> list_all plain ts \<and> p = Clean root @ slash # join_on slash ts)"

text \<open>A root that names a directory: not \<open>/\<close>, \<open>.\<close> or only steps upwards.\<close>

definition anchored :: "string \<Rightarrow> bool" where
  "anchored root \<longleftrightarrow> list_ex plain (split_on slash (Clean root))"

lemma anchored_comps:
  assumes "anchored root"
  obtains rs n r ps where "Clean root = render (is_rooted root) rs" "cleaned (is_rooted root) rs" "rs = replicate n dotdot @ r # ps"
    "list_all plain (r # ps)" "is_rooted root \<longrightarrow> n = 0"
proof -
  obtain rs where rs: "Clean root = render (is_rooted root) rs" "cleaned (is_rooted root) rs" by (rule Clean_render)
  then obtain n ps where ps: "rs = replicate n dotdot @ ps" "list_all plain ps" "is_rooted root \<longrightarrow> n = 0"
    unfolding cleaned_def by blast
  have "ps \<noteq> []"
  proof
    assume "ps = []"
    then have "rs = replicate n dotdot" using ps by simp
    then have "set (split_on slash (Clean root)) \<subseteq> {[], dot, dotdot}"
    proof (cases "rs = []")
      case True
      then show ?thesis using rs by (simp add: render_def split_piece)
    next
      case False
      have "\<not> is_rooted root" using ps False \<open>ps = []\<close> by auto
      moreover have "split_on slash (join_on slash rs) = rs" by (rule split_join) (use False \<open>rs = replicate n dotdot\<close> in auto)
      ultimately show ?thesis using rs False \<open>rs = replicate n dotdot\<close> by (auto simp: render_def)
    qed
    then have "\<not> list_ex plain (split_on slash (Clean root))" by (auto simp: list_ex_iff plain_def)
    then show False using assms by (simp add: anchored_def)
  qed
  then obtain r qs where "ps = r # qs" by (cases ps) auto
  then show thesis using that [OF rs] ps by blast
qed

lemma plain_not_dotdot: "plain c \<Longrightarrow> c \<noteq> dotdot"
  by (simp add: plain_def)

lemma dotdots_prefix:
  assumes "replicate n dotdot @ r # ps @ ts = replicate m dotdot @ qs" and "plain r" and "list_all plain qs"
  shows "n = m \<and> qs = r # ps @ ts"
  using assms
proof (induction n arbitrary: m)
  case 0
  then show ?case by (cases m) (auto simp: plain_def)
next
  case (Suc n)
  then show ?case by (cases m) (auto simp: plain_def)
qed

text \<open>What comes after the components of an anchored root in a cleaned path is plain.\<close>

lemma cleaned_below:
  assumes "cleaned rooted (rs @ ts)" and "rs = replicate n dotdot @ r # ps" and "plain r"
  shows "list_all plain ts"
proof -
  obtain m qs where "rs @ ts = replicate m dotdot @ qs" "list_all plain qs" using assms(1) unfolding cleaned_def by blast
  then show ?thesis using dotdots_prefix [of n r ps ts m qs] assms(2,3) by auto
qed

lemma split_Clean:
  assumes "cleaned rooted cs" and "cs \<noteq> []"
  shows "split_on slash (render rooted cs) = (if rooted then [] # cs else cs)"
proof -
  have "split_on slash (join_on slash cs) = cs" using assms cleaned_no_slash split_join by blast
  then show ?thesis using assms(2) by (simp add: render_def)
qed

lemma inside_resolved:
  assumes root: "anchored root" and ok: "resolveKey root key = Inr p"
  shows "inside root p"
proof -
  obtain rs n r ps where rs: "Clean root = render (is_rooted root) rs" "cleaned (is_rooted root) rs" "rs = replicate n dotdot @ r # ps"
    "list_all plain (r # ps)" using anchored_comps [OF root] by metis
  have p: "p = Clean (path_Join (Clean root) key)" and pre: "HasPrefix p (Clean root @ [slash]) \<or> p = Clean root"
    using ok by (auto simp: resolveKey_def Let_def split: if_splits)
  show ?thesis
  proof (cases "p = Clean root")
    case False
    then obtain t where t: "p = Clean root @ slash # t" using pre by (auto simp: HasPrefix_iff)
    obtain fs where fs: "p = render (is_rooted p) fs" "cleaned (is_rooted p) fs"
      using Clean_render [of p] p by (metis Clean_idem)
    have rt: "is_rooted p = is_rooted root"
      using t rs rooted_render [OF rs(2)] by (cases "Clean root") (auto simp: is_rooted_def)
    have ne: "rs \<noteq> []" using rs(3) by simp
    have sp: "split_on slash p = (if is_rooted root then [] # rs else rs) @ split_on slash t"
      using t rs split_Clean [OF rs(2) ne] by (simp add: split_append)
    have fne: "fs \<noteq> []"
    proof
      assume "fs = []"
      then have "split_on slash p = (if is_rooted root then [[], []] else [dot])"
        using fs rt by (simp add: render_def split_piece)
      then show False using sp rs(3) rs(4) by (cases n) (auto simp: plain_def split: if_splits)
    qed
    then have "fs = rs @ split_on slash t"
      using sp split_Clean [OF fs(2) fne] fs(1) rt by (auto split: if_splits)
    then have pl: "list_all plain (split_on slash t)" using cleaned_below [of _ rs "split_on slash t"] fs(2) rs by simp
    have "p = Clean root @ slash # join_on slash (split_on slash t)" using t by (simp add: join_split)
    then show ?thesis unfolding inside_def using pl split_on_nonempty by blast
  qed (simp add: inside_def)
qed

text \<open>A key of plain components is stored under its own name.\<close>

lemma resolve_plain:
  assumes root: "anchored root" and key: "ts \<noteq> []" "list_all plain ts"
  shows "resolveKey root (join_on slash ts) = Inr (Clean root @ slash # join_on slash ts)"
proof -
  obtain rs n r ps where rs: "Clean root = render (is_rooted root) rs" "cleaned (is_rooted root) rs" "rs = replicate n dotdot @ r # ps"
    "list_all plain (r # ps)" "is_rooted root \<longrightarrow> n = 0" using anchored_comps [OF root] by metis
  have c: "cleaned (is_rooted root) (rs @ ts)"
    unfolding cleaned_def using rs key by (intro exI [of _ n] exI [of _ "r # ps @ ts"]) simp
  have ne: "rs \<noteq> []" using rs(3) by simp
  have full: "Clean root @ slash # join_on slash ts = render (is_rooted root) (rs @ ts)"
    using ne key(1) rs(1) by (simp add: render_def join_append)
  have "path_Join (Clean root) (join_on slash ts) = Clean root @ slash # join_on slash ts"
    using Clean_render_same [OF c] by (simp add: path_Join_def full)
  moreover have "Clean \<dots> = \<dots>" using Clean_render_same [OF c] by (simp add: full)
  ultimately show ?thesis by (simp add: resolveKey_def HasPrefix_iff)
qed

end
