(* ===== verification/PackageKit.thy ===== *)
theory PackageKit
  imports Paths "HOL-Library.AList"
begin

text \<open>
  \<open>sdk/skillhub/packagekit\<close>: the rules a skill package has to meet before it is published
  (\<open>policy.go\<close>), the front matter of its SKILL.md (\<open>parser.go\<close>) and the validator
  (\<open>validator.go\<close>). The YAML decoder is a parameter; a decoded value is kept with its text
  under \<open>%v\<close>. Sizes are \<open>int64\<close> values, and their sum wraps.
\<close>

record PackageEntry =
  pe_Path :: string
  pe_Content :: string
  pe_Size :: int
  pe_ContentType :: string

record ValidationResult =
  vr_Errors :: "string list"
  vr_Warnings :: "string list"

definition Passed :: "ValidationResult \<Rightarrow> bool" where
  "Passed r \<longleftrightarrow> vr_Errors r = []"

definition Valid :: "ValidationResult \<Rightarrow> bool" where
  "Valid r \<longleftrightarrow> vr_Errors r = [] \<and> vr_Warnings r = []"

section \<open>Package policy\<close>

definition MaxFileCount :: nat where "MaxFileCount = 500"
definition MaxSingleFileSize :: int where "MaxSingleFileSize = 10 * 1024 * 1024"
definition MaxTotalPackageSize :: int where "MaxTotalPackageSize = 100 * 1024 * 1024"
definition MaxUploadZipSize :: int where "MaxUploadZipSize = MaxTotalPackageSize"
definition SkillMDPath :: string where "SkillMDPath = ''SKILL.md''"

lemmas policy_limits = MaxFileCount_def MaxSingleFileSize_def MaxTotalPackageSize_def MaxUploadZipSize_def

definition AllowedExtensions :: "string list" where
  "AllowedExtensions =
    [''.md'', ''.txt'', ''.json'', ''.yaml'', ''.yml'', ''.html'', ''.css'', ''.csv'', ''.pdf'',
     ''.toml'', ''.xml'', ''.xsd'', ''.xsl'', ''.dtd'', ''.ini'', ''.cfg'', ''.env'',
     ''.js'', ''.cjs'', ''.mjs'', ''.ts'', ''.py'', ''.sh'', ''.rb'', ''.go'', ''.rs'', ''.java'',
     ''.kt'', ''.lua'', ''.sql'', ''.r'', ''.bat'', ''.ps1'', ''.zsh'', ''.bash'',
     ''.png'', ''.jpg'', ''.jpeg'', ''.svg'', ''.gif'', ''.webp'', ''.ico'',
     ''.doc'', ''.xls'', ''.ppt'', ''.docx'', ''.xlsx'', ''.pptx'']"

definition textExtensions :: "string list" where
  "textExtensions =
    [''.md'', ''.txt'', ''.json'', ''.yaml'', ''.yml'', ''.js'', ''.cjs'', ''.mjs'', ''.ts'', ''.py'', ''.sh'',
     ''.html'', ''.css'', ''.csv'', ''.toml'', ''.xml'', ''.xsd'', ''.xsl'', ''.dtd'', ''.ini'', ''.cfg'', ''.env'',
     ''.rb'', ''.go'', ''.rs'', ''.java'', ''.kt'', ''.lua'', ''.sql'', ''.r'', ''.bat'', ''.ps1'', ''.zsh'', ''.bash'']"

definition canonicalizeSkillMdPath :: "string \<Rightarrow> string" where
  "canonicalizeSkillMdPath p =
     (let idx = LastIndexByte p slash;
          fileName = (case idx of None \<Rightarrow> p | Some i \<Rightarrow> drop (Suc i) p) in
      if \<not> EqualFold fileName SkillMDPath then p
      else (case idx of None \<Rightarrow> SkillMDPath | Some i \<Rightarrow> take (Suc i) p @ SkillMDPath))"

text \<open>The pair of a path and an error message is a sum here: a message, or the path.\<close>

definition sanitize :: "string \<Rightarrow> string" where
  "sanitize rawPath = TrimSpace (replace_byte (CHR 0x5C) slash rawPath)"

definition NormalizeEntryPath :: "string \<Rightarrow> string + string" where
  "NormalizeEntryPath rawPath =
     (if rawPath = [] then Inl ''Package entry path is missing''
      else (let sanitized = sanitize rawPath in
        if sanitized = [] then Inl ''Package entry path is empty''
        else if HasPrefix sanitized [slash] then Inl (''Package entry path must be relative: '' @ rawPath)
        else if Contains sanitized '':'' then Inl (''Package entry path contains an invalid drive or scheme prefix: '' @ rawPath)
        else (let cleaned = Clean sanitized in
          if HasPrefix cleaned [slash] then Inl (''Package entry path is invalid: '' @ rawPath)
          else if cleaned = dot \<or> cleaned = dotdot \<or> HasPrefix cleaned (dotdot @ [slash])
          then Inl (''Package entry path escapes package root: '' @ rawPath)
          else if sanitized \<noteq> cleaned then Inl (''Package entry path must be normalized: '' @ rawPath)
          else Inr (canonicalizeSkillMdPath cleaned))))"

definition HasAllowedExtension :: "string \<Rightarrow> bool" where
  "HasAllowedExtension path = list_ex (HasSuffix (ToLower path)) AllowedExtensions"

definition isTextExtension :: "string \<Rightarrow> bool" where
  "isTextExtension lowerPath = list_ex (HasSuffix lowerPath) textExtensions"

definition isUtf8Text :: "string \<Rightarrow> bool" where
  "isUtf8Text content \<longleftrightarrow> \<not> list_ex (\<lambda>c. c = CHR 0x00) content \<and> utf8_Valid content"

definition ValidateContentMatchesExtension :: "string \<Rightarrow> string \<Rightarrow> string" where
  "ValidateContentMatchesExtension path content =
     (let l = ToLower path; bad = ''File content does not match extension: '' @ path; check = (\<lambda>b. if b then [] else bad) in
      if HasSuffix l ''.png'' then check (HasPrefix content [CHR 0x89, CHR 0x50, CHR 0x4E, CHR 0x47, CHR 0x0D, CHR 0x0A, CHR 0x1A, CHR 0x0A])
      else if HasSuffix l ''.jpg'' \<or> HasSuffix l ''.jpeg'' then check (HasPrefix content [CHR 0xFF, CHR 0xD8, CHR 0xFF])
      else if HasSuffix l ''.gif'' then check (HasPrefix content ''GIF8'')
      else if HasSuffix l ''.webp'' then check (length content \<ge> 12 \<and> HasPrefix content ''RIFF'' \<and> HasPrefix (drop 8 content) ''WEBP'')
      else if HasSuffix l ''.ico'' then check (HasPrefix content [CHR 0x00, CHR 0x00, CHR 0x01, CHR 0x00])
      else if HasSuffix l ''.pdf'' then check (HasPrefix content ''%PDF'')
      else if HasSuffix l ''.svg'' then
        check (isUtf8Text content \<and> Contains (ToLower (TrimSpace content)) ''<svg'')
      else if isTextExtension l then check (isUtf8Text content)
      else [])"

section \<open>Front matter\<close>

datatype yval = YText string | YMap "(string \<times> yval) list" string

fun show_yval :: "yval \<Rightarrow> string" where
  "show_yval (YText s) = s"
| "show_yval (YMap _ s) = s"

type_synonym frontmatter = "(string \<times> yval) list"

text \<open>\<open>yaml.Unmarshal\<close> into a map: an error text, or the map, \<open>None\<close> for a nil one.\<close>

type_synonym yaml_decoder = "string \<Rightarrow> string + frontmatter option"

record SkillMetadata =
  md_Name :: string
  md_Description :: string
  md_Version :: string
  md_Body :: string
  md_Frontmatter :: frontmatter

definition ErrMissingStart :: err where "ErrMissingStart = Errs ''error.skill.metadata.frontmatter.missingStart''"
definition ErrMissingEnd :: err where "ErrMissingEnd = Errs ''error.skill.metadata.frontmatter.missingEnd''"
definition ErrMissingContent :: err where "ErrMissingContent = Errs ''error.skill.metadata.frontmatter.missingContent''"
definition ErrEmptyContent :: err where "ErrEmptyContent = Errs ''error.skill.metadata.content.empty''"
definition ErrNotMap :: err where "ErrNotMap = Errs ''error.skill.metadata.yaml.notMap''"

definition frontmatterDelim :: string where "frontmatterDelim = ''---''"

definition parseFrontmatter :: "yaml_decoder \<Rightarrow> string \<Rightarrow> err + frontmatter" where
  "parseFrontmatter yaml content = (case yaml content of
     Inl msg \<Rightarrow> Inl (Errorf ''error.skill.metadata.yaml.invalid %s'' [AStr msg])
   | Inr None \<Rightarrow> Inl (Wrapf [] [] ErrNotMap)
   | Inr (Some m) \<Rightarrow> Inr m)"

definition stripWrappingQuotes :: "string \<Rightarrow> string" where
  "stripWrappingQuotes v =
     (if length v \<ge> 2 \<and> (HasPrefix v [CHR 0x22] \<and> HasSuffix v [CHR 0x22] \<or> HasPrefix v [CHR 0x27] \<and> HasSuffix v [CHR 0x27])
      then take (length v - 2) (drop 1 v) else v)"

text \<open>One raw line of the loose syntax: nothing, or a key with its value.\<close>

definition loose_line :: "string \<Rightarrow> (string \<times> yval) option" where
  "loose_line rawLine =
     (let line = TrimSpace rawLine in
      if line = [] \<or> HasPrefix line ''#'' then None
      else (case Index line '':'' of
              None \<Rightarrow> None
            | Some 0 \<Rightarrow> None
            | Some idx \<Rightarrow>
                (let k = TrimSpace (take idx line); v = TrimSpace (drop (Suc idx) line) in
                 if k = [] then None else Some (k, YText (stripWrappingQuotes v)))))"

definition parseLooseFrontmatter :: "string \<Rightarrow> frontmatter" where
  "parseLooseFrontmatter content =
     foldl (\<lambda>m l. case loose_line l of None \<Rightarrow> m | Some (k, v) \<Rightarrow> AList.update k v m) [] (split_on (CHR 0x0A) content)"

definition extractRequiredField :: "frontmatter \<Rightarrow> string \<Rightarrow> err + string" where
  "extractRequiredField fm fieldName = (case map_of fm fieldName of
     None \<Rightarrow> Inl (Errorf ''error.skill.metadata.requiredField.missing %s'' [AStr fieldName])
   | Some v \<Rightarrow> Inr (show_yval v))"

definition extractOptionalField :: "frontmatter \<Rightarrow> string \<Rightarrow> string" where
  "extractOptionalField fm fieldName = (case map_of fm fieldName of None \<Rightarrow> [] | Some v \<Rightarrow> show_yval v)"

definition extractNestedOptionalField :: "frontmatter \<Rightarrow> string \<Rightarrow> string \<Rightarrow> string" where
  "extractNestedOptionalField fm objectFieldName fieldName = (case map_of fm objectFieldName of
     Some (YMap m _) \<Rightarrow> extractOptionalField m fieldName | _ \<Rightarrow> [])"

text \<open>The text between the delimiters and the text after them.\<close>

definition split_frontmatter :: "string \<Rightarrow> err + string \<times> string" where
  "split_frontmatter content =
     (if TrimSpace content = [] then Inl (Wrapf [] [] ErrEmptyContent)
      else (let trimmed = TrimSpace content in
        if \<not> HasPrefix trimmed frontmatterDelim then Inl (Wrapf [] [] ErrMissingStart)
        else (case Index trimmed [CHR 0x0A] of
          None \<Rightarrow> Inl (Wrapf [] [] ErrMissingContent)
        | Some firstEnd \<Rightarrow>
          (case Index (drop (Suc firstEnd) trimmed) frontmatterDelim of
            None \<Rightarrow> Inl (Wrapf [] [] ErrMissingEnd)
          | Some n \<Rightarrow> Inr (TrimSpace (take n (drop (Suc firstEnd) trimmed)),
                           TrimSpace (drop (n + length frontmatterDelim) (drop (Suc firstEnd) trimmed)))))))"

definition read_frontmatter :: "yaml_decoder \<Rightarrow> string \<Rightarrow> err + frontmatter" where
  "read_frontmatter yaml yamlContent = (case parseFrontmatter yaml yamlContent of
     Inr m \<Rightarrow> Inr m
   | Inl e \<Rightarrow> (let loose = parseLooseFrontmatter yamlContent in if loose \<noteq> [] then Inr loose else Inl e))"

definition Parse :: "yaml_decoder \<Rightarrow> string \<Rightarrow> err + SkillMetadata" where
  "Parse yaml content = (case split_frontmatter content of
     Inl e \<Rightarrow> Inl e
   | Inr (yamlContent, body) \<Rightarrow> (case read_frontmatter yaml yamlContent of
       Inl e \<Rightarrow> Inl e
     | Inr fm \<Rightarrow> (case extractRequiredField fm ''name'' of
         Inl e \<Rightarrow> Inl e
       | Inr nm \<Rightarrow> (case extractRequiredField fm ''description'' of
           Inl e \<Rightarrow> Inl e
         | Inr description \<Rightarrow>
             (let v = extractOptionalField fm ''version'';
                  version = (if v = [] then extractNestedOptionalField fm ''metadata'' ''version'' else v) in
              Inr \<lparr>md_Name = nm, md_Description = description, md_Version = version, md_Body = body, md_Frontmatter = fm\<rparr>)))))"

section \<open>The validator\<close>

text \<open>The text of the errors the parser returns, and its translation for users.\<close>

fun error_text :: "err \<Rightarrow> string" where
  "error_text (Errorf f as) = Sprintf f as"
| "error_text (Wrapf f as e) = (if f = [] then error_text e else Sprintf f as @ '': '' @ error_text e)"
| "error_text (Panic s) = s"
| "error_text _ = []"

definition formatMetadataError :: "err \<Rightarrow> string" where
  "formatMetadataError e =
     (let msg = error_text e in
      if Contains msg ''requiredField.missing'' then
        ''missing required field '' @ [CHR 0x22] @ (case Index msg '' '' of None \<Rightarrow> [] | Some i \<Rightarrow> drop (Suc i) msg) @ [CHR 0x22]
      else if Contains msg ''missingStart'' then ''missing opening --- marker''
      else if Contains msg ''missingEnd'' then ''missing closing --- marker''
      else if Contains msg ''missingContent'' then ''frontmatter is empty''
      else if Contains msg ''notMap'' then ''frontmatter must be a YAML object''
      else if Contains msg ''yaml.invalid'' then ''invalid YAML syntax. If a value contains a colon, wrap it in quotes.''
      else msg)"

record validator =
  va_yaml :: yaml_decoder
  va_maxFileCount :: nat
  va_maxSingleSize :: int
  va_maxTotalSize :: int

definition NewSkillPackageValidator :: "yaml_decoder \<Rightarrow> validator" where
  "NewSkillPackageValidator yaml = \<lparr>va_yaml = yaml, va_maxFileCount = MaxFileCount, va_maxSingleSize = MaxSingleFileSize,
     va_maxTotalSize = MaxTotalPackageSize\<rparr>"

text \<open>The loop over the entries: what it has found so far, then the rest.\<close>

record scan =
  sc_Errors :: "string list"
  sc_Warnings :: "string list"
  sc_Seen :: "string list"
  sc_SkillMd :: "PackageEntry option"

definition scan_entry :: "scan \<Rightarrow> PackageEntry \<Rightarrow> scan" where
  "scan_entry st entry = (case NormalizeEntryPath (pe_Path entry) of
     Inl errMsg \<Rightarrow> st\<lparr>sc_Errors := sc_Errors st @ [errMsg]\<rparr>
   | Inr p \<Rightarrow>
      st\<lparr>sc_Errors := sc_Errors st @ (if p \<in> set (sc_Seen st) then [''Duplicate package entry path: '' @ p] else []),
         sc_Warnings := sc_Warnings st
           @ (if HasAllowedExtension p then [] else [''Disallowed file extension: '' @ p])
           @ (let mismatch = ValidateContentMatchesExtension p (pe_Content entry) in if mismatch \<noteq> [] then [mismatch] else []),
         sc_Seen := p # sc_Seen st,
         sc_SkillMd := (if p = SkillMDPath \<and> sc_SkillMd st = None then Some entry else sc_SkillMd st)\<rparr>)"

definition scan_entries :: "PackageEntry list \<Rightarrow> scan" where
  "scan_entries es = foldl scan_entry \<lparr>sc_Errors = [], sc_Warnings = [], sc_Seen = [], sc_SkillMd = None\<rparr> es"

definition total_size :: "PackageEntry list \<Rightarrow> int" where
  "total_size es = foldl (\<lambda>n e. int64 (n + pe_Size e)) 0 es"

definition ValidatePackage :: "validator \<Rightarrow> PackageEntry list \<Rightarrow> ValidationResult" where
  "ValidatePackage v entries =
     (let st = scan_entries entries in
      case sc_SkillMd st of
        None \<Rightarrow> \<lparr>vr_Errors = sc_Errors st @ [''Missing required file: SKILL.md at root''], vr_Warnings = sc_Warnings st\<rparr>
      | Some skillMd \<Rightarrow>
        \<lparr>vr_Errors = sc_Errors st
           @ (case Parse (va_yaml v) (pe_Content skillMd) of
                Inl e \<Rightarrow> [''Invalid SKILL.md frontmatter: '' @ formatMetadataError e] | Inr _ \<Rightarrow> [])
           @ (if length entries > va_maxFileCount v
              then [Sprintf ''Too many files: %d (max: %d)'' [AInt (int (length entries)), AInt (int (va_maxFileCount v))]] else [])
           @ map (\<lambda>e. Sprintf ''File too large: %s (%d bytes, max: %d)'' [AStr (pe_Path e), AInt (pe_Size e), AInt (va_maxSingleSize v)])
               (filter (\<lambda>e. pe_Size e > va_maxSingleSize v) entries)
           @ (if total_size entries > va_maxTotalSize v
              then [Sprintf ''Package too large: %d bytes (max: %d)'' [AInt (total_size entries), AInt (va_maxTotalSize v)]] else []),
         vr_Warnings = sc_Warnings st\<rparr>)"

end
