(* ===== verification/PackagePaths.thy ===== *)
theory PackagePaths
  imports PackageKit
begin

text \<open>
  The paths a package may contain: what \<open>NormalizeEntryPath\<close> accepts has only ordinary components,
  so the object keys of a published version stay inside the local store and below the directory of
  their own version.
\<close>

section \<open>Accepted paths are safe\<close>

text \<open>The components a path is split into at its slashes are all ordinary names.\<close>

definition safe_path :: "string \<Rightarrow> bool" where
  "safe_path p \<longleftrightarrow> list_all plain (split_on slash p)"

lemma cleaned_local:
  assumes "Clean p = p" and "p \<noteq> []" and "\<not> is_rooted p" and "p \<noteq> dot" and "\<not> escapes p"
  shows "safe_path p"
proof -
  obtain cs where cs: "p = render False cs" "cleaned False cs" using Clean_render [of p] assms(1,3) by metis
  then obtain n ps where ps: "cs = replicate n dotdot @ ps" "list_all plain ps" unfolding cleaned_def by blast
  have ne: "cs \<noteq> []" using cs assms(4) by (auto simp: render_def)
  have sp: "split_on slash p = cs" using split_Clean [OF cs(2) ne] cs(1) by simp
  have "n = 0"
  proof (cases n)
    case (Suc k)
    then have "p = join_on slash (dotdot # replicate k dotdot @ ps)" using cs ps ne by (simp add: render_def)
    then have "p = dotdot \<or> HasPrefix p (dotdot @ [slash])"
      by (cases "replicate k dotdot @ ps") (auto simp: HasPrefix_iff)
    then show ?thesis using assms(5) by (simp add: escapes_def)
  qed simp
  then show ?thesis using ps sp by (simp add: safe_path_def)
qed

lemma NormalizeEntryPath_safe:
  assumes "NormalizeEntryPath raw = Inr p"
  shows "safe_path (sanitize raw) \<and> p = canonicalizeSkillMdPath (sanitize raw) \<and> CHR '':'' \<notin> set (sanitize raw)"
proof -
  let ?s = "sanitize raw"
  have s: "?s \<noteq> []" "\<not> HasPrefix ?s [slash]" "\<not> Contains ?s '':''" "Clean ?s = ?s" "?s \<noteq> dot" "\<not> escapes ?s"
    "p = canonicalizeSkillMdPath ?s"
    using assms by (auto simp: NormalizeEntryPath_def Let_def escapes_def split: if_splits)
  have "\<not> is_rooted ?s" using s(1,2) by (cases ?s) (auto simp: is_rooted_def)
  then show ?thesis using cleaned_local [of ?s] s by (auto simp: Contains_iff in_set_conv_decomp)
qed

lemma split_last: "split_on slash p = (case LastIndexByte p slash of None \<Rightarrow> [p]
   | Some i \<Rightarrow> split_on slash (take i p) @ [drop (Suc i) p])"
proof (induction p)
  case (Cons c p)
  show ?case
  proof (cases "LastIndexByte p slash")
    case None
    then have "split_on slash p = [p]" using Cons by simp
    then show ?thesis using None by simp
  next
    case (Some i)
    then have sp: "split_on slash p = split_on slash (take i p) @ [drop (Suc i) p]" using Cons by simp
    obtain w ws where w: "split_on slash (take i p) = w # ws" by (cases "split_on slash (take i p)") auto
    then show ?thesis using Some sp by simp
  qed
qed simp

lemma skill_md_plain: "plain SkillMDPath"
  by (simp add: plain_def SkillMDPath_def dot_def dotdot_def)

lemma LastIndexByte_take: "LastIndexByte p b = Some i \<Longrightarrow> i < length p \<and> p ! i = b \<and> take (Suc i) p = take i p @ [b]"
proof (induction p arbitrary: i)
  case (Cons c p)
  then show ?case by (auto split: option.splits if_splits)
qed simp

lemma canonical_safe: "safe_path p \<Longrightarrow> safe_path (canonicalizeSkillMdPath p)"
proof (cases "LastIndexByte p slash")
  case None
  assume "safe_path p"
  then show ?thesis using None skill_md_plain by (simp add: canonicalizeSkillMdPath_def safe_path_def split_piece SkillMDPath_def)
next
  case (Some i)
  assume p: "safe_path p"
  have t: "take (Suc i) p @ SkillMDPath = take i p @ slash # SkillMDPath" using LastIndexByte_take [OF Some] by simp
  have "safe_path (take (Suc i) p @ SkillMDPath)"
    using p skill_md_plain split_last [of p] Some unfolding t safe_path_def split_append
    by (simp add: split_piece SkillMDPath_def)
  then show ?thesis using p Some by (simp add: canonicalizeSkillMdPath_def Let_def)
qed

text \<open>The raw name itself, which is what the object keys are made of, has safe components too.\<close>

lemma split_trim:
  assumes "slash \<notin> set u" and "slash \<notin> set v"
  obtains a b mid where "split_on slash s = a # mid" "mid = []" "split_on slash (u @ s @ v) = [u @ a @ v]"
  | a b mid where "split_on slash s = a # mid @ [b]" "split_on slash (u @ s @ v) = (u @ a) # mid @ [b @ v]"
proof -
  have app: "split_on slash (s @ v) = butlast (split_on slash s) @ [last (split_on slash s) @ v]" for s
    using assms(2)
  proof (induction s)
    case Nil
    then show ?case by (simp add: split_piece)
  next
    case (Cons c s)
    obtain w ws where "split_on slash s = w # ws" by (cases "split_on slash s") auto
    with Cons show ?case by (cases ws) auto
  qed
  have pre: "split_on slash (u @ t) = (u @ hd (split_on slash t)) # tl (split_on slash t)" for t
    using assms(1)
  proof (induction u)
    case Nil
    then show ?case by (cases "split_on slash t") auto
  next
    case (Cons c u)
    then show ?case by auto
  qed
  obtain a rest where ar: "split_on slash s = a # rest" by (cases "split_on slash s") auto
  show thesis
  proof (cases rest rule: rev_cases)
    case Nil
    then show thesis using that(1) ar app [of s] pre [of "s @ v"] by simp
  next
    case (snoc mid b)
    then show thesis using that(2) ar app [of s] pre [of "s @ v"] by simp
  qed
qed

lemma replace_split:
  "c \<in> set (split_on slash raw) \<Longrightarrow> CHR 0x5C \<notin> set c \<Longrightarrow> c \<in> set (split_on slash (replace_byte (CHR 0x5C) slash raw))"
proof -
  have step: "split_on slash (replace_byte (CHR 0x5C) slash raw) = concat (map (split_on (CHR 0x5C)) (split_on slash raw))"
  proof (induction raw)
    case (Cons c raw)
    obtain w ws where w: "split_on slash raw = w # ws" by (cases "split_on slash raw") auto
    obtain x xs where x: "split_on (CHR 0x5C) w = x # xs" by (cases "split_on (CHR 0x5C) w") auto
    show ?case using Cons w x by (auto simp: replace_byte_def)
  qed (simp add: replace_byte_def)
  assume "c \<in> set (split_on slash raw)" "CHR 0x5C \<notin> set c"
  then show ?thesis unfolding step by (auto simp: split_piece intro!: bexI [of _ c])
qed

lemma raw_safe:
  assumes "NormalizeEntryPath raw = Inr p"
  shows "safe_path raw"
proof -
  let ?r = "replace_byte (CHR 0x5C) slash raw"
  have s: "safe_path (TrimSpace ?r)" using NormalizeEntryPath_safe [OF assms] by (simp add: sanitize_def)
  obtain u v where uv: "?r = u @ TrimSpace ?r @ v" "\<forall>c \<in> set u \<union> set v. space_byte c" by (rule TrimSpace_shape)
  have nospace: "c \<noteq> slash \<and> c \<noteq> CHR ''.''" if "space_byte c" for c
    using space_byte_range [OF that] by (auto simp: byte_def)
  have "plain c" if c: "c \<in> set (split_on slash raw)" for c
  proof (rule ccontr)
    assume np: "\<not> plain c"
    have "slash \<notin> set c" using c split_on_pieces by blast
    then have cd: "c = [] \<or> c = dot \<or> c = dotdot" using np by (auto simp: plain_def)
    then have "CHR 0x5C \<notin> set c" by (auto simp: dot_def dotdot_def)
    then have cr: "c \<in> set (split_on slash ?r)" using c replace_split by blast
    have dots: "set c \<subseteq> {CHR ''.''}" using cd by (auto simp: dot_def dotdot_def)
    have empty: "x = []" if "set x \<subseteq> set c" "set x \<subseteq> set u \<union> set v" for x
    proof (rule ccontr)
      assume "x \<noteq> []"
      then have h: "hd x \<in> set x" by simp
      then have "space_byte (hd x)" using that(2) uv(2) by blast
      then have "hd x \<noteq> CHR ''.''" using nospace by blast
      then show False using h that(1) dots by blast
    qed
    have us: "slash \<notin> set u" "slash \<notin> set v" using uv(2) nospace by blast+
    have "c \<in> set (split_on slash (TrimSpace ?r))"
    proof (rule split_trim [OF us, of "TrimSpace ?r"])
      fix a mid assume a: "split_on slash (TrimSpace ?r) = a # mid" "mid = ([] :: string list)"
        "split_on slash (u @ TrimSpace ?r @ v) = [u @ a @ v]"
      then have ca: "u @ a @ v = c" using cr uv(1) by simp
      have "u = []" "v = []" by (rule empty; use ca in auto)+
      then show ?thesis using ca a by simp
    next
      fix a mid b assume a: "split_on slash (TrimSpace ?r) = a # mid @ [b]"
        "split_on slash (u @ TrimSpace ?r @ v) = (u @ a) # mid @ [b @ v]"
      then have "c = u @ a \<or> c \<in> set mid \<or> c = b @ v" using cr uv(1) by auto
      then show ?thesis
      proof (elim disjE)
        assume ca: "c = u @ a"
        have "u = []" by (rule empty) (use ca in auto)
        then show ?thesis using ca a by simp
      next
        assume cb: "c = b @ v"
        have "v = []" by (rule empty) (use cb in auto)
        then show ?thesis using cb a by simp
      qed (use a in simp)
    qed
    then show False using s np by (auto simp: safe_path_def list_all_iff)
  qed
  then show ?thesis by (simp add: safe_path_def list_all_iff)
qed


section \<open>Keys of published files\<close>

text \<open>\<open>skills/<skill>/<version>/<path>\<close>, as \<open>publishInternal\<close> builds it.\<close>

definition storage_key :: "int \<Rightarrow> int \<Rightarrow> string \<Rightarrow> string" where
  "storage_key skillID versionID path = Sprintf ''skills/%d/%d/%s'' [AInt skillID, AInt versionID, AStr path]"

lemma digits_chars: "c \<in> set (digits n) \<Longrightarrow> is_digit c"
proof (induction n rule: digits.induct)
  case (1 n)
  have d: "is_digit (char_of (48 + k))" if "k < 10" for k :: nat
    using that by (simp add: is_digit_def byte_def)
  show ?case
    using 1 d [of "n mod 10"] d [of n] by (subst (asm) (2) digits.simps) (auto split: if_splits)
qed

lemma digits_nonempty: "digits n \<noteq> []"
  by (subst digits.simps) simp

lemma itoa_plain: "plain (itoa i) \<and> slash \<notin> set (itoa i)"
proof -
  have "c \<in> set (itoa i) \<Longrightarrow> is_digit c \<or> c = CHR ''-''" for c
    using digits_chars by (auto simp: itoa_def split: if_splits)
  moreover have "\<not> is_digit slash" "\<not> is_digit (CHR ''.'')" by (simp_all add: is_digit_def byte_def)
  moreover have "itoa i \<noteq> []" by (simp add: itoa_def digits_nonempty)
  ultimately have "slash \<notin> set (itoa i)" "CHR ''.'' \<notin> set (itoa i)" "itoa i \<noteq> []" by auto
  then show ?thesis by (auto simp: plain_def dot_def dotdot_def)
qed

lemma storage_key_comps: "storage_key s v path = join_on slash (''skills'' # itoa s # itoa v # split_on slash path)"
proof -
  have "storage_key s v path = ''skills/'' @ itoa s @ ''/'' @ itoa v @ ''/'' @ path"
    by (simp add: storage_key_def)
  moreover obtain w ws where "split_on slash path = w # ws" by (cases "split_on slash path") auto
  ultimately show ?thesis using join_split [of slash path] by simp
qed

text \<open>C7: with a root that names a directory, a file whose name the package rules accept is stored
  inside it, below \<open>skills/<skill>/<version>\<close>, and two accepted names never share a file.\<close>

theorem accepted_files_stay_inside:
  assumes "anchored root" and "NormalizeEntryPath a = Inr p" and "NormalizeEntryPath b = Inr q"
  shows "resolveKey root (storage_key s v a) = Inr (Clean root @ slash # storage_key s v a)
     \<and> inside root (Clean root @ slash # storage_key s v a)
     \<and> (resolveKey root (storage_key s v a) = resolveKey root (storage_key s v b) \<longrightarrow> a = b)"
proof -
  have res: "resolveKey root (storage_key s v x) = Inr (Clean root @ slash # storage_key s v x)"
    if "NormalizeEntryPath x = Inr y" for x y
  proof -
    have "list_all plain (''skills'' # itoa s # itoa v # split_on slash x)"
      using raw_safe [OF that] itoa_plain by (simp add: safe_path_def plain_def dot_def dotdot_def)
    then show ?thesis unfolding storage_key_comps by (intro resolve_plain [OF assms(1)]) simp_all
  qed
  have "storage_key s v a = storage_key s v b \<Longrightarrow> a = b" by (simp add: storage_key_def)
  then show ?thesis using res [OF assms(2)] res [OF assms(3)] inside_resolved [OF assms(1)] by auto
qed


lemma sanitize_same: "raw \<noteq> [] \<Longrightarrow> CHR 0x5C \<notin> set raw \<Longrightarrow> \<not> space_byte (hd raw) \<Longrightarrow> \<not> space_byte (last raw) \<Longrightarrow> sanitize raw = raw"
proof -
  assume a: "raw \<noteq> []" "CHR 0x5C \<notin> set raw" "\<not> space_byte (hd raw)" "\<not> space_byte (last raw)"
  have "replace_byte (CHR 0x5C) slash raw = raw"
    unfolding replace_byte_def by (rule map_idI) (use a(2) in auto)
  then show ?thesis using a TrimSpace_ends by (simp add: sanitize_def)
qed

lemma normalize_skill_md: "NormalizeEntryPath ''SKILL.md'' = Inr ''SKILL.md''" "NormalizeEntryPath ''docs/a.md'' = Inr ''docs/a.md''"
proof -
  have "sanitize ''SKILL.md'' = ''SKILL.md''" "sanitize ''docs/a.md'' = ''docs/a.md''"
    by (rule sanitize_same; auto dest!: space_byte_range simp: byte_def)+
  then show "NormalizeEntryPath ''SKILL.md'' = Inr ''SKILL.md''" "NormalizeEntryPath ''docs/a.md'' = Inr ''docs/a.md''"
    by (simp_all add: NormalizeEntryPath_def, simp_all add: Clean_def is_rooted_def render_def clean_comps_def clean_step.simps
        dot_def dotdot_def canonicalizeSkillMdPath_def EqualFold_def SkillMDPath_def) (simp_all add: ToLower_def lower_def is_upper_def byte_def)
qed

theorem accepted_files_stay_inside_witness:
  "resolveKey ''/data'' (storage_key 3 5 ''SKILL.md'') = Inr ''/data/skills/3/5/SKILL.md''"
proof -
  have c: "Clean ''/data'' = ''/data''"
    by (simp add: Clean_def is_rooted_def render_def clean_comps_def clean_step.simps dot_def dotdot_def)
  have "anchored ''/data''" by (simp add: anchored_def c plain_def dot_def dotdot_def)
  then have "resolveKey ''/data'' (storage_key 3 5 ''SKILL.md'') = Inr (''/data'' @ slash # storage_key 3 5 ''SKILL.md'')"
    using accepted_files_stay_inside [OF _ normalize_skill_md(1) normalize_skill_md(2), of "''/data''" 3 5] by (simp only: c)
  moreover have "storage_key 3 5 ''SKILL.md'' = ''skills/3/5/SKILL.md''"
    by (simp add: storage_key_def itoa_def digits.simps) code_simp
  ultimately show ?thesis by simp
qed

end
