(* ===== verification/Packages.thy ===== *)
theory Packages
  imports PackagePaths
begin

text \<open>
  What the package validator accepts, and the bounded extraction of an uploaded archive
  (\<open>internal/http/packageupload/extract.go\<close>). The archive reader is a parameter: the entries it lists,
  with their declared sizes and the bytes (or the error) that reading them gives.
\<close>

section \<open>What the validator accepts\<close>

definition canonical :: "PackageEntry \<Rightarrow> string option" where
  "canonical e = (case NormalizeEntryPath (pe_Path e) of Inl _ \<Rightarrow> None | Inr p \<Rightarrow> Some p)"

text \<open>The rules of a package, without loops or wrapping sums.\<close>

definition package_ok :: "yaml_decoder \<Rightarrow> PackageEntry list \<Rightarrow> bool" where
  "package_ok yaml es \<longleftrightarrow>
     None \<notin> set (map canonical es) \<and> distinct (map canonical es)
     \<and> (\<exists>e \<in> set es. canonical e = Some SkillMDPath \<and> (\<exists>md. Parse yaml (pe_Content e) = Inr md))
     \<and> length es \<le> 500 \<and> (\<forall>e \<in> set es. pe_Size e \<le> 10485760) \<and> (\<Sum>e\<leftarrow>es. pe_Size e) \<le> 104857600"

lemma normalize_msg: "NormalizeEntryPath raw = Inl m \<Longrightarrow> m \<noteq> []"
  by (auto simp: NormalizeEntryPath_def Let_def split: if_splits)

lemma scan_append: "foldl scan_entry st (xs @ [x]) = scan_entry (foldl scan_entry st xs) x"
  by simp

lemma scan_seen: "Some ` set (sc_Seen (scan_entries es)) = set (map canonical es) - {None}"
proof (induction es rule: rev_induct)
  case Nil
  then show ?case by (simp add: scan_entries_def)
next
  case (snoc e es)
  then show ?case by (auto simp: scan_entries_def scan_entry_def canonical_def split: sum.splits)
qed

lemma scan_errors: "sc_Errors (scan_entries es) = [] \<longleftrightarrow> None \<notin> set (map canonical es) \<and> distinct (map canonical es)"
proof (induction es rule: rev_induct)
  case Nil
  then show ?case by (simp add: scan_entries_def)
next
  case (snoc e es)
  show ?case
  proof (cases "NormalizeEntryPath (pe_Path e)")
    case (Inl m)
    then show ?thesis using normalize_msg [OF Inl] by (simp add: scan_entries_def scan_entry_def canonical_def)
  next
    case (Inr p)
    then have "canonical e = Some p" by (simp add: canonical_def)
    moreover have "p \<in> set (sc_Seen (scan_entries es)) \<longleftrightarrow> Some p \<in> set (map canonical es)"
      using scan_seen [of es] by auto
    ultimately show ?thesis using snoc Inr by (auto simp: scan_entries_def scan_entry_def)
  qed
qed

lemma scan_skill_md: "sc_SkillMd (scan_entries es) = find (\<lambda>e. canonical e = Some SkillMDPath) es"
proof (induction es rule: rev_induct)
  case Nil
  then show ?case by (simp add: scan_entries_def)
next
  case (snoc e es)
  then show ?case by (auto simp: scan_entries_def scan_entry_def canonical_def find_append_rows split: sum.splits option.splits)
qed

text \<open>Up to 500 entries of at most 10 MiB the sum does not wrap.\<close>

lemma total_size_exact:
  assumes "\<forall>e \<in> set es. 0 \<le> pe_Size e \<and> pe_Size e \<le> 10485760" and "length es \<le> 500"
  shows "total_size es = (\<Sum>e\<leftarrow>es. pe_Size e) \<and> 0 \<le> (\<Sum>e\<leftarrow>es. pe_Size e) \<and> (\<Sum>e\<leftarrow>es. pe_Size e) \<le> 10485760 * int (length es)"
  using assms
proof (induction es rule: rev_induct)
  case Nil
  then show ?case by (simp add: total_size_def)
next
  case (snoc e es)
  then have IH: "total_size es = (\<Sum>e\<leftarrow>es. pe_Size e)" "0 \<le> (\<Sum>e\<leftarrow>es. pe_Size e)" "(\<Sum>e\<leftarrow>es. pe_Size e) \<le> 10485760 * int (length es)"
    and e: "0 \<le> pe_Size e" "pe_Size e \<le> 10485760" and len: "int (length es) < 500" by auto
  have "int64 (total_size es + pe_Size e) = total_size es + pe_Size e"
    by (rule int64_id) (use IH e len in simp_all)
  then show ?case using IH e by (simp add: total_size_def algebra_simps)
qed

lemma first_entry: "distinct (map canonical es) \<Longrightarrow> e \<in> set es \<Longrightarrow> canonical e = Some p \<Longrightarrow> find (\<lambda>e. canonical e = Some p) es = Some e"
  by (induction es) (auto simp: image_iff)


definition hello_md :: string where
  "hello_md = ''---'' @ [CHR 0x0A] @ ''name: hi'' @ [CHR 0x0A] @ ''description: d'' @ [CHR 0x0A] @ ''---'' @ [CHR 0x0A] @ ''body''"

definition hello_yaml :: yaml_decoder where
  "hello_yaml = (\<lambda>_. Inr (Some [(''name'', YText ''hi''), (''description'', YText ''d'')]))"

definition hello_entry :: PackageEntry where
  "hello_entry = \<lparr>pe_Path = ''SKILL.md'', pe_Content = hello_md, pe_Size = int (length hello_md), pe_ContentType = ''text/markdown''\<rparr>"

lemma hello_parses: "Parse hello_yaml hello_md
   = Inr \<lparr>md_Name = ''hi'', md_Description = ''d'', md_Version = [], md_Body = ''body'', md_Frontmatter = [(''name'', YText ''hi''), (''description'', YText ''d'')]\<rparr>"
proof -
  have t: "TrimSpace hello_md = hello_md" "TrimSpace (CHR 0x0A # ''body'') = ''body''"
    "TrimSpace (''name: hi'' @ [CHR 0x0A] @ ''description: d'' @ [CHR 0x0A]) = ''name: hi'' @ [CHR 0x0A] @ ''description: d''"
    by (simp_all add: hello_md_def) (code_simp)+
  have "split_frontmatter hello_md = Inr (''name: hi'' @ [CHR 0x0A] @ ''description: d'', ''body'')"
    using t(2,3) unfolding split_frontmatter_def t(1) by (simp add: hello_md_def frontmatterDelim_def)
  then show ?thesis
    by (simp add: Parse_def read_frontmatter_def parseFrontmatter_def hello_yaml_def extractRequiredField_def extractOptionalField_def
        extractNestedOptionalField_def)
qed


section \<open>Bounded extraction\<close>

text \<open>
  An entry as \<open>archive/zip\<close> gives it: its name, whether it is a directory, the size its header
  declares (a \<open>uint64\<close>), the error of opening it, and the bytes a reader of it delivers, or the
  error that ends the reading. \<open>ReadAll (LimitReader rc n)\<close> delivers the first \<open>n\<close> of them; an
  error beyond those is not reached.
\<close>

record zip_file =
  zf_Name :: string
  zf_IsDir :: bool
  zf_UncompressedSize64 :: nat
  zf_OpenError :: "err option"
  zf_Content :: string
  zf_ReadError :: "err option"

type_synonym unzip = "string \<Rightarrow> err + zip_file list"

definition read_limited :: "nat \<Rightarrow> zip_file \<Rightarrow> err + string" where
  "read_limited n f = (case zf_ReadError f of
     Some e \<Rightarrow> if length (zf_Content f) < n then Inl e else Inr (take n (zf_Content f))
   | None \<Rightarrow> Inr (take n (zf_Content f)))"

definition zip_entry :: "zip_file \<Rightarrow> string \<Rightarrow> PackageEntry" where
  "zip_entry f content = \<lparr>pe_Path = zf_Name f, pe_Content = content, pe_Size = int (length content), pe_ContentType = ''application/octet-stream''\<rparr>"

fun extract_files :: "int \<Rightarrow> zip_file list \<Rightarrow> err + PackageEntry list" where
  "extract_files totalSize [] = Inr []"
| "extract_files totalSize (f # fs) =
     (if zf_IsDir f then extract_files totalSize fs
      else if \<not> IsLocal (zf_Name f) then Inl (Errorf ''insecure zip entry path %q'' [AStr (zf_Name f)])
      else if int (zf_UncompressedSize64 f) > MaxSingleFileSize
      then Inl (Errorf ''zip entry %q decompressed size %d exceeds max %d bytes'' [AStr (zf_Name f), AInt (int (zf_UncompressedSize64 f)), AInt MaxSingleFileSize])
      else (case zf_OpenError f of
        Some e \<Rightarrow> Inl (Wrapf ''failed to open zip entry %q'' [AStr (zf_Name f)] e)
      | None \<Rightarrow> (case read_limited (nat MaxSingleFileSize + 1) f of
          Inl e \<Rightarrow> Inl (Wrapf ''failed to read zip entry %q'' [AStr (zf_Name f)] e)
        | Inr content \<Rightarrow>
          if int (length content) > MaxSingleFileSize
          then Inl (Errorf ''zip entry %q exceeds max single file size of %d bytes'' [AStr (zf_Name f), AInt MaxSingleFileSize])
          else if length content = 0 \<and> zf_UncompressedSize64 f > 0
          then Inl (Errorf ''zip entry %q is empty after decompression'' [AStr (zf_Name f)])
          else (let total = int64 (totalSize + int (length content)) in
            if total > MaxTotalPackageSize
            then Inl (Errorf ''zip total decompressed size exceeds max %d bytes'' [AInt MaxTotalPackageSize])
            else (case extract_files total fs of
              Inl e \<Rightarrow> Inl e
            | Inr es \<Rightarrow> Inr (zip_entry f content # es))))))"

definition ExtractZip :: "unzip \<Rightarrow> string \<Rightarrow> err + PackageEntry list" where
  "ExtractZip unzip src = (case unzip src of
     Inl e \<Rightarrow> Inl (wrap ''invalid zip'' e)
   | Inr fs \<Rightarrow>
     if length fs > MaxFileCount then Inl (Errorf ''zip contains %d entries (max %d)'' [AInt (int (length fs)), AInt (int MaxFileCount)])
     else extract_files 0 fs)"

text \<open>The request handling in front of it: the form field, read up to the limit of an upload.\<close>

definition ReadPackageFromRequest :: "unzip \<Rightarrow> err + (err + string) \<Rightarrow> err + PackageEntry list" where
  "ReadPackageFromRequest unzip form = (case form of
     Inl e \<Rightarrow> Inl e
   | Inr (Inl e) \<Rightarrow> Inl (wrap ''failed to read uploaded zip'' e)
   | Inr (Inr file) \<Rightarrow>
     (let body = take (nat (MaxUploadZipSize + 1)) file in
      if int (length body) > MaxUploadZipSize then Inl (Errorf ''uploaded zip exceeds maximum size of %d bytes'' [AInt MaxUploadZipSize])
      else ExtractZip unzip body))"

lemma extract_files_ok:
  assumes "extract_files t fs = Inr es" and "0 \<le> t" and "t \<le> MaxTotalPackageSize"
  shows "es = map (\<lambda>f. zip_entry f (zf_Content f)) (filter (\<lambda>f. \<not> zf_IsDir f) fs)
     \<and> t + (\<Sum>e\<leftarrow>es. pe_Size e) \<le> MaxTotalPackageSize
     \<and> (\<forall>f \<in> set fs. \<not> zf_IsDir f \<longrightarrow> IsLocal (zf_Name f) \<and> int (length (zf_Content f)) \<le> MaxSingleFileSize \<and> zf_OpenError f = None \<and> zf_ReadError f = None)"
  using assms
proof (induction t fs arbitrary: es rule: extract_files.induct)
  case (2 t f fs)
  show ?case
  proof (cases "zf_IsDir f")
    case True
    then have run: "extract_files t fs = Inr es" using "2.prems"(1) by simp
    note ih = "2.IH"(1) [OF True run "2.prems"(2,3)]
    have same: "filter (\<lambda>f. \<not> zf_IsDir f) (f # fs) = filter (\<lambda>f. \<not> zf_IsDir f) fs"
      "\<And>P. (\<forall>x \<in> set (f # fs). \<not> zf_IsDir x \<longrightarrow> P x) = (\<forall>x \<in> set fs. \<not> zf_IsDir x \<longrightarrow> P x)"
      using True by simp_all
    show ?thesis unfolding same by (rule ih)
  next
    case False
    then obtain content where c: "IsLocal (zf_Name f)" "zf_OpenError f = None"
      "read_limited (nat MaxSingleFileSize + 1) f = Inr content" "int (length content) \<le> MaxSingleFileSize"
      using "2.prems"(1) by (auto split: if_splits option.splits sum.splits)
    have full: "content = zf_Content f" "zf_ReadError f = None"
      using c(3,4) by (auto simp: read_limited_def MaxSingleFileSize_def split: option.splits if_splits)
    let ?t = "int64 (t + int (length content))"
    have t: "?t = t + int (length content)"
      by (rule int64_id) (use "2.prems"(2,3) c(4) in \<open>simp_all add: policy_limits\<close>)
    have le: "\<not> ?t > MaxTotalPackageSize"
      using "2.prems"(1) False c by (auto simp: Let_def split: if_splits)
    have ne: "\<not> (length content = 0 \<and> zf_UncompressedSize64 f > 0)" "\<not> int (zf_UncompressedSize64 f) > MaxSingleFileSize"
      using "2.prems"(1) False c by (auto simp: Let_def split: if_splits)
    obtain es' where es': "extract_files ?t fs = Inr es'" "es = zip_entry f content # es'"
      using "2.prems"(1) False c le ne by (auto simp: Let_def split: sum.splits if_splits)
    have t0: "0 \<le> ?t" "?t \<le> MaxTotalPackageSize" using t le "2.prems"(2) by simp_all
    have rl: "read_limited (nat MaxSingleFileSize + 1) f = Inr content" by (rule c(3))
    have "\<not> \<not> IsLocal (zf_Name f)" "\<not> int (length content) > MaxSingleFileSize" using c(1,4) by simp_all
    note ih = "2.IH"(2) [OF False this(1) ne(2) c(2) rl this(2) ne(1) refl le es'(1) t0]
    have eq: "es' = map (\<lambda>f. zip_entry f (zf_Content f)) (filter (\<lambda>f. \<not> zf_IsDir f) fs)"
      and sum: "?t + (\<Sum>e\<leftarrow>es'. pe_Size e) \<le> MaxTotalPackageSize"
      and rest: "\<forall>f \<in> set fs. \<not> zf_IsDir f \<longrightarrow> IsLocal (zf_Name f) \<and> int (length (zf_Content f)) \<le> MaxSingleFileSize \<and> zf_OpenError f = None \<and> zf_ReadError f = None"
      using ih by blast+
    have "es = map (\<lambda>f. zip_entry f (zf_Content f)) (filter (\<lambda>f. \<not> zf_IsDir f) (f # fs))"
      using False by (simp add: es'(2) full eq)
    moreover have "t + (\<Sum>e\<leftarrow>es. pe_Size e) \<le> MaxTotalPackageSize"
      using sum by (simp add: es'(2) t zip_entry_def)
    moreover have "\<forall>x \<in> set (f # fs). \<not> zf_IsDir x \<longrightarrow> IsLocal (zf_Name x) \<and> int (length (zf_Content x)) \<le> MaxSingleFileSize \<and> zf_OpenError x = None \<and> zf_ReadError x = None"
      using rest c(1,2,4) full by simp
    ultimately show ?thesis by blast
  qed
qed simp

text \<open>C20: an extraction that succeeds gives one entry for each file of the archive, with all its bytes
  (nothing cut by the read limits) and its true size; there are at most 500, none is above 10 MiB or
  named by a path that leaves the package, together they hold at most 100 MiB, and no read failed.\<close>

theorem extraction_is_bounded:
  assumes "ExtractZip unzip src = Inr es"
  shows "\<exists>fs. unzip src = Inr fs \<and> es = map (\<lambda>f. zip_entry f (zf_Content f)) (filter (\<lambda>f. \<not> zf_IsDir f) fs)
     \<and> length es \<le> 500 \<and> (\<Sum>e\<leftarrow>es. pe_Size e) \<le> 104857600
     \<and> (\<forall>e \<in> set es. pe_Size e = int (length (pe_Content e)) \<and> pe_Size e \<le> 10485760 \<and> IsLocal (pe_Path e))
     \<and> (\<forall>f \<in> set fs. \<not> zf_IsDir f \<longrightarrow> zf_OpenError f = None \<and> zf_ReadError f = None)"
proof -
  obtain fs where fs: "unzip src = Inr fs" "length fs \<le> 500" "extract_files 0 fs = Inr es"
    using assms by (auto simp: ExtractZip_def MaxFileCount_def split: sum.splits if_splits)
  have "(0::int) \<le> 0" "0 \<le> MaxTotalPackageSize" by (simp_all add: policy_limits)
  then have es: "es = map (\<lambda>f. zip_entry f (zf_Content f)) (filter (\<lambda>f. \<not> zf_IsDir f) fs)"
    and total: "0 + (\<Sum>e\<leftarrow>es. pe_Size e) \<le> MaxTotalPackageSize"
    and each: "\<forall>f \<in> set fs. \<not> zf_IsDir f \<longrightarrow> IsLocal (zf_Name f) \<and> int (length (zf_Content f)) \<le> MaxSingleFileSize \<and> zf_OpenError f = None \<and> zf_ReadError f = None"
    using extract_files_ok [OF fs(3)] by blast+
  have "length es \<le> length fs" unfolding es length_map by (rule length_filter_le)
  then have "length es \<le> 500" using fs(2) by (rule order_trans)
  moreover have "(\<Sum>e\<leftarrow>es. pe_Size e) \<le> 104857600" using total by (simp only: policy_limits add_0)
  moreover have "\<forall>e \<in> set es. pe_Size e = int (length (pe_Content e)) \<and> pe_Size e \<le> 10485760 \<and> IsLocal (pe_Path e)"
    using each by (auto simp: es zip_entry_def policy_limits)
  moreover have "\<forall>f \<in> set fs. \<not> zf_IsDir f \<longrightarrow> zf_OpenError f = None \<and> zf_ReadError f = None" using each by blast
  ultimately show ?thesis using fs(1) es by blast
qed

theorem extraction_is_bounded_witness:
  "ExtractZip (\<lambda>_. Inr [\<lparr>zf_Name = ''d'', zf_IsDir = True, zf_UncompressedSize64 = 0, zf_OpenError = None, zf_Content = [], zf_ReadError = None\<rparr>,
       \<lparr>zf_Name = ''a.md'', zf_IsDir = False, zf_UncompressedSize64 = 2, zf_OpenError = None, zf_Content = ''hi'', zf_ReadError = None\<rparr>]) []
     = Inr [\<lparr>pe_Path = ''a.md'', pe_Content = ''hi'', pe_Size = 2, pe_ContentType = ''application/octet-stream''\<rparr>]
   \<and> IsLocal ''a.md''"
proof -
  let ?u = "\<lambda>_. Inr [\<lparr>zf_Name = ''d'', zf_IsDir = True, zf_UncompressedSize64 = 0, zf_OpenError = None, zf_Content = [], zf_ReadError = None\<rparr>,
       \<lparr>zf_Name = ''a.md'', zf_IsDir = False, zf_UncompressedSize64 = 2, zf_OpenError = None, zf_Content = ''hi'', zf_ReadError = None\<rparr>]"
  have "IsLocal ''a.md''" by (simp add: IsLocal_def is_rooted_def escapes_def dot_def dotdot_def)
  then have run: "ExtractZip ?u [] = Inr [\<lparr>pe_Path = ''a.md'', pe_Content = ''hi'', pe_Size = 2, pe_ContentType = ''application/octet-stream''\<rparr>]"
    by (simp add: ExtractZip_def policy_limits read_limited_def zip_entry_def int64_def)
  show ?thesis using run extraction_is_bounded [OF run] by simp
qed

end
