(* ===== verification/Store.thy ===== *)
theory Store
  imports Packages World
begin

text \<open>
  \<open>storage.Store\<close> and its file-system implementation \<open>adapters/localstorage\<close>. A store is the
  record of its methods; the locale \<open>blob_store\<close> states what the services rely on, for the keys
  they build. Every file operation may fail, as the fault schedule says, for whatever reason
  (permissions, a full disk, a file where a directory is needed); a failing copy leaves a
  truncated file behind. Directories and the object metadata of a store are not modelled.
\<close>

record object_store =
  os_Put :: "string \<Rightarrow> string \<Rightarrow> unit op"
  os_Get :: "string \<Rightarrow> string op"
  os_Delete :: "string \<Rightarrow> unit op"
  os_DeleteObjects :: "string list \<Rightarrow> unit op"
  os_Exists :: "string \<Rightarrow> bool op"
  os_PresignedURL :: "string \<Rightarrow> string \<Rightarrow> string op"

section \<open>File operations\<close>

definition io_fails :: "world \<Rightarrow> bool" where
  "io_fails w = fault w (tick w)"

definition set_object :: "string \<Rightarrow> string option \<Rightarrow> world \<Rightarrow> world" where
  "set_object p c w = w\<lparr>objects := (objects w)(p := c)\<rparr>"

text \<open>A call that reads, one that replaces a file, and the copy that fills it.\<close>

definition fs_read :: "(world \<Rightarrow> 'a) \<Rightarrow> 'a op" where
  "fs_read f = State (\<lambda>w. if io_fails w then (Inl IOFault, advance w) else (Inr (f w), advance w))"

definition fs_write :: "string \<Rightarrow> string option \<Rightarrow> unit op" where
  "fs_write p c = State (\<lambda>w. if io_fails w then (Inl IOFault, advance w) else (Inr (), set_object p c (advance w)))"

definition fs_copy :: "string \<Rightarrow> string \<Rightarrow> unit op" where
  "fs_copy p data = State (\<lambda>w.
     if io_fails w then (Inl IOFault, set_object p (Some (take (torn w (tick w)) data)) (advance w))
     else (Inr (), set_object p (Some data) (advance w)))"

lemma wp_fs [simp]:
  "wp (fs_read f) Q w = (if io_fails w then Q (Inl IOFault) (advance w) else Q (Inr (f w)) (advance w))"
  "wp (fs_write p c) R w = (if io_fails w then R (Inl IOFault) (advance w) else R (Inr ()) (set_object p c (advance w)))"
  "wp (fs_copy p d) R w = (if io_fails w then R (Inl IOFault) (set_object p (Some (take (torn w (tick w)) d)) (advance w))
     else R (Inr ()) (set_object p (Some d) (advance w)))"
  by (simp_all add: fs_read_def fs_write_def fs_copy_def wp_State)

lemma set_object_simps [simp]:
  "db (set_object p c w) = db w" "seqs (set_object p c w) = seqs w" "objects (set_object p c w) = (objects w)(p := c)"
  "nil_on_empty (set_object p c w) = nil_on_empty w" "healthy (set_object p c w) = healthy w"
  "aborted (set_object p c w) = aborted w" "in_tx (set_object p c w) = in_tx w" "clock (set_object p c w) = clock w"
  by (simp_all add: set_object_def healthy_def)

lemma healthy_io [simp]: "healthy w \<Longrightarrow> \<not> io_fails w"
  by (simp add: io_fails_def healthy_def)

section \<open>The local store\<close>

definition local_PutObject :: "string \<Rightarrow> string \<Rightarrow> string \<Rightarrow> unit op" where
  "local_PutObject root key data = (case resolveKey root key of
     Inl e \<Rightarrow> fail e
   | Inr fullPath \<Rightarrow> do {
       r \<leftarrow> fs_read (\<lambda>_. ());
       (case r of
         Inl e \<Rightarrow> fail (wrap ''localstorage: mkdir'' e)
       | Inr _ \<Rightarrow> do {
           r \<leftarrow> fs_write fullPath (Some []);
           (case r of
             Inl e \<Rightarrow> fail (wrap ''localstorage: create'' e)
           | Inr _ \<Rightarrow> do {
               r \<leftarrow> fs_copy fullPath data;
               (case r of Inl e \<Rightarrow> fail (wrap ''localstorage: write'' e) | Inr _ \<Rightarrow> ok ()) }) }) })"

text \<open>Opening the file; the bytes are those a reader of it delivers.\<close>

definition local_GetObject :: "string \<Rightarrow> string \<Rightarrow> string op" where
  "local_GetObject root key = (case resolveKey root key of
     Inl e \<Rightarrow> fail e
   | Inr fullPath \<Rightarrow> do {
       r \<leftarrow> fs_read (\<lambda>w. objects w fullPath);
       (case r of
         Inl e \<Rightarrow> fail (wrap ''localstorage: open'' e)
       | Inr None \<Rightarrow> fail (Errorf ''localstorage: object not found: %s'' [AStr key])
       | Inr (Some data) \<Rightarrow> ok data) })"

definition local_DeleteObject :: "string \<Rightarrow> string \<Rightarrow> unit op" where
  "local_DeleteObject root key = (case resolveKey root key of
     Inl e \<Rightarrow> fail e
   | Inr fullPath \<Rightarrow> do {
       r \<leftarrow> fs_write fullPath None;
       (case r of Inl e \<Rightarrow> fail (wrap ''localstorage: delete'' e) | Inr _ \<Rightarrow> ok ()) })"

text \<open>Every key is tried; the errors are collected.\<close>

fun delete_each :: "string \<Rightarrow> string list \<Rightarrow> (world, err list) state" where
  "delete_each root [] = State_Monad.return []"
| "delete_each root (key # ks) = do {
     r \<leftarrow> local_DeleteObject root key;
     errs \<leftarrow> delete_each root ks;
     State_Monad.return ((case r of Inl e \<Rightarrow> [e] | Inr _ \<Rightarrow> []) @ errs) }"

definition local_DeleteObjects :: "string \<Rightarrow> string list \<Rightarrow> unit op" where
  "local_DeleteObjects root ks = do {
     errs \<leftarrow> delete_each root ks;
     (if errs \<noteq> [] then fail (Errorf ''localstorage: delete objects: %v'' (map (\<lambda>e. AStr (error_text e)) errs)) else ok ()) }"

definition local_Exists :: "string \<Rightarrow> string \<Rightarrow> bool op" where
  "local_Exists root key = (case resolveKey root key of
     Inl e \<Rightarrow> fail e
   | Inr fullPath \<Rightarrow> do {
       r \<leftarrow> fs_read (\<lambda>w. objects w fullPath \<noteq> None);
       (case r of Inl e \<Rightarrow> fail (wrap ''localstorage: stat'' e) | Inr b \<Rightarrow> ok b) })"

definition local_PresignedURL :: "string \<Rightarrow> string \<Rightarrow> string \<Rightarrow> string op" where
  "local_PresignedURL root key filename = fail (Errs ''localstorage: presigned URLs not supported'')"

definition local_store :: "string \<Rightarrow> object_store" where
  "local_store root = \<lparr>os_Put = local_PutObject root, os_Get = local_GetObject root, os_Delete = local_DeleteObject root,
     os_DeleteObjects = local_DeleteObjects root, os_Exists = local_Exists root, os_PresignedURL = local_PresignedURL root\<rparr>"

lemma local_store_simps [simp]:
  "os_Put (local_store root) = local_PutObject root" "os_Get (local_store root) = local_GetObject root"
  "os_Delete (local_store root) = local_DeleteObject root" "os_DeleteObjects (local_store root) = local_DeleteObjects root"
  "os_Exists (local_store root) = local_Exists root" "os_PresignedURL (local_store root) = local_PresignedURL root"
  by (simp_all add: local_store_def)

section \<open>What the services rely on\<close>

text \<open>
  \<open>good\<close> are the keys the services build, \<open>content\<close> what the store holds under a key. A call on
  one good key leaves the tables, the sequences and every other good key alone, whatever it answers.
\<close>

locale blob_store =
  fixes store :: object_store
    and good :: "string \<Rightarrow> bool"
    and content :: "world \<Rightarrow> string \<Rightarrow> string option"
  assumes put: "good k \<Longrightarrow> wp (os_Put store k d) (\<lambda>r w'. db w' = db w \<and> seqs w' = seqs w \<and> (healthy w \<longrightarrow> healthy w' \<and> r = Inr ())
       \<and> (r = Inr () \<longrightarrow> content w' k = Some d) \<and> (\<forall>j. good j \<and> j \<noteq> k \<longrightarrow> content w' j = content w j)) w"
    and get: "good k \<Longrightarrow> wp (os_Get store k) (\<lambda>r w'. db w' = db w \<and> seqs w' = seqs w \<and> content w' = content w
       \<and> (\<forall>d. r = Inr d \<longrightarrow> content w k = Some d) \<and> (healthy w \<longrightarrow> healthy w' \<and> (\<forall>d. content w k = Some d \<longrightarrow> r = Inr d))) w"
    and exists: "good k \<Longrightarrow> wp (os_Exists store k) (\<lambda>r w'. db w' = db w \<and> seqs w' = seqs w \<and> content w' = content w
       \<and> (\<forall>b. r = Inr b \<longrightarrow> b = (content w k \<noteq> None)) \<and> (healthy w \<longrightarrow> healthy w' \<and> (\<exists>b. r = Inr b))) w"
    and frame: "objects w' = objects w \<Longrightarrow> content w' = content w"
begin

lemma put_wp:
  assumes "good k"
    and "\<And>w'. db w' = db w \<Longrightarrow> seqs w' = seqs w \<Longrightarrow> (healthy w \<Longrightarrow> healthy w') \<Longrightarrow> content w' k = Some d
       \<Longrightarrow> (\<And>j. good j \<Longrightarrow> j \<noteq> k \<Longrightarrow> content w' j = content w j) \<Longrightarrow> Q (Inr ()) w'"
    and "\<And>e w'. db w' = db w \<Longrightarrow> seqs w' = seqs w \<Longrightarrow> \<not> healthy w \<Longrightarrow> Q (Inl e) w'"
  shows "wp (os_Put store k d) Q w"
proof (rule wp_mono [OF put [OF assms(1)]])
  fix r :: "err + unit" and w' :: world
  assume a: "db w' = db w \<and> seqs w' = seqs w \<and> (healthy w \<longrightarrow> healthy w' \<and> r = Inr ())
     \<and> (r = Inr () \<longrightarrow> content w' k = Some d) \<and> (\<forall>j. good j \<and> j \<noteq> k \<longrightarrow> content w' j = content w j)"
  show "Q r w'" by (cases r) (use a assms(2) [of w'] assms(3) [of w'] in auto)
qed

end

text \<open>A key of plain components names a file of its own below an anchored root.\<close>

definition safe_key :: "string \<Rightarrow> bool" where
  "safe_key k \<longleftrightarrow> list_all plain (split_on slash k)"

definition local_content :: "string \<Rightarrow> world \<Rightarrow> string \<Rightarrow> string option" where
  "local_content root w k = objects w (Clean root @ slash # k)"

lemma resolve_safe: "anchored root \<Longrightarrow> safe_key k \<Longrightarrow> resolveKey root k = Inr (Clean root @ slash # k)"
  using resolve_plain [of root "split_on slash k"] by (simp add: safe_key_def join_split)

interpretation local: blob_store "local_store root" "\<lambda>k. anchored root \<and> safe_key k" "local_content root"
proof
  fix k d and w w' :: world
  show "objects w' = objects w \<Longrightarrow> local_content root w' = local_content root w"
    by (simp add: local_content_def fun_eq_iff)
  assume k: "anchored root \<and> safe_key k"
  note r = resolve_safe [OF conjunct1 [OF k] conjunct2 [OF k]]
  show "wp (os_Put (local_store root) k d) (\<lambda>r w'. db w' = db w \<and> seqs w' = seqs w \<and> (healthy w \<longrightarrow> healthy w' \<and> r = Inr ())
       \<and> (r = Inr () \<longrightarrow> local_content root w' k = Some d)
       \<and> (\<forall>j. (anchored root \<and> safe_key j) \<and> j \<noteq> k \<longrightarrow> local_content root w' j = local_content root w j)) w"
    by (auto simp: local_PutObject_def r local_content_def)
  show "wp (os_Get (local_store root) k) (\<lambda>r w'. db w' = db w \<and> seqs w' = seqs w \<and> local_content root w' = local_content root w
       \<and> (\<forall>d. r = Inr d \<longrightarrow> local_content root w k = Some d)
       \<and> (healthy w \<longrightarrow> healthy w' \<and> (\<forall>d. local_content root w k = Some d \<longrightarrow> r = Inr d))) w"
    by (auto simp: local_GetObject_def r local_content_def fun_eq_iff split: option.splits)
  show "wp (os_Exists (local_store root) k) (\<lambda>r w'. db w' = db w \<and> seqs w' = seqs w \<and> local_content root w' = local_content root w
       \<and> (\<forall>b. r = Inr b \<longrightarrow> b = (local_content root w k \<noteq> None)) \<and> (healthy w \<longrightarrow> healthy w' \<and> (\<exists>b. r = Inr b))) w"
    by (auto simp: local_Exists_def r local_content_def fun_eq_iff)
qed

end
