(* ===== verification/Sha256.thy ===== *)
theory Sha256
  imports GoStrings "HOL-Library.Word"
begin

text \<open>
  \<open>crypto/sha256\<close> and \<open>encoding/hex\<close> of the standard library, as the services use them
  (\<open>sha256.Sum256\<close> of a byte string, in lower-case hexadecimal): FIPS 180-4 on 32-bit words.
\<close>

unbundle bit_operations_syntax

type_synonym w32 = "32 word"

text \<open>
  The constants of the standard are the first 32 bits after the point of the roots of the first
  primes: \<open>iroot\<close> is the integer root of \<open>n\<close> of exponent \<open>e\<close>, found bit by bit.
\<close>

fun iroot :: "nat \<Rightarrow> nat \<Rightarrow> int \<Rightarrow> int \<Rightarrow> int" where
  "iroot e 0 n r = r"
| "iroot e (Suc b) n r = (if (r + 2 ^ b) ^ e \<le> n then iroot e b n (r + 2 ^ b) else iroot e b n r)"

definition small_primes :: "nat \<Rightarrow> int list" where
  "small_primes m = map int (filter (\<lambda>p. list_all (\<lambda>d. p mod d \<noteq> 0) [2..<p]) [2..<m])"

definition sha_k :: "w32 list" where
  "sha_k = map (\<lambda>p. word_of_int (iroot 3 35 (p * 2 ^ 96) 0)) (small_primes 312)"

definition sha_init :: "w32 list" where
  "sha_init = map (\<lambda>p. word_of_int (iroot 2 35 (p * 2 ^ 64) 0)) [2, 3, 5, 7, 11, 13, 17, 19]"

definition sha_ch :: "w32 \<Rightarrow> w32 \<Rightarrow> w32 \<Rightarrow> w32" where
  "sha_ch x y z = (x AND y) XOR (NOT x AND z)"

definition sha_maj :: "w32 \<Rightarrow> w32 \<Rightarrow> w32 \<Rightarrow> w32" where
  "sha_maj x y z = (x AND y) XOR (x AND z) XOR (y AND z)"

definition rotr :: "nat \<Rightarrow> w32 \<Rightarrow> w32" where
  "rotr n x = drop_bit n x OR push_bit (32 - n) x"

definition big0 :: "w32 \<Rightarrow> w32" where "big0 x = rotr 2 x XOR rotr 13 x XOR rotr 22 x"
definition big1 :: "w32 \<Rightarrow> w32" where "big1 x = rotr 6 x XOR rotr 11 x XOR rotr 25 x"
definition small0 :: "w32 \<Rightarrow> w32" where "small0 x = rotr 7 x XOR rotr 18 x XOR drop_bit 3 x"
definition small1 :: "w32 \<Rightarrow> w32" where "small1 x = rotr 17 x XOR rotr 19 x XOR drop_bit 10 x"

text \<open>Padding, and the words of the padded message.\<close>

fun be_bytes :: "nat \<Rightarrow> int \<Rightarrow> int list" where
  "be_bytes 0 n = []"
| "be_bytes (Suc k) n = be_bytes k (n div 256) @ [n mod 256]"

definition sha_pad :: "int list \<Rightarrow> int list" where
  "sha_pad m = m @ [128] @ replicate ((119 - length m mod 64) mod 64) 0 @ be_bytes 8 (8 * int (length m))"

fun be_words :: "int list \<Rightarrow> w32 list" where
  "be_words (a # b # c # d # m) = word_of_int (((a * 256 + b) * 256 + c) * 256 + d) # be_words m"
| "be_words _ = []"

text \<open>The schedule is kept as a window of sixteen words; each round consumes its first one.\<close>

fun sha_rounds :: "w32 list \<Rightarrow> w32 list \<Rightarrow> w32 \<times> w32 \<times> w32 \<times> w32 \<times> w32 \<times> w32 \<times> w32 \<times> w32
    \<Rightarrow> w32 \<times> w32 \<times> w32 \<times> w32 \<times> w32 \<times> w32 \<times> w32 \<times> w32" where
  "sha_rounds [] ws st = st"
| "sha_rounds (k # ks) ws (a, b, c, d, e, f, g, h) =
     (let w = ws ! 0;
          t1 = h + big1 e + sha_ch e f g + k + w;
          t2 = big0 a + sha_maj a b c;
          w' = small1 (ws ! 14) + ws ! 9 + small0 (ws ! 1) + ws ! 0
      in sha_rounds ks (tl ws @ [w']) (t1 + t2, a, b, c, d + t1, e, f, g))"

fun sha_block :: "w32 list \<Rightarrow> w32 list \<Rightarrow> w32 list" where
  "sha_block [a, b, c, d, e, f, g, h] ws =
     (case sha_rounds sha_k ws (a, b, c, d, e, f, g, h) of
        (a', b', c', d', e', f', g', h') \<Rightarrow> [a + a', b + b', c + c', d + d', e + e', f + f', g + g', h + h'])"
| "sha_block st ws = st"

function sha_blocks :: "w32 list \<Rightarrow> w32 list \<Rightarrow> w32 list" where
  "sha_blocks st ws = (if length ws < 16 then st else sha_blocks (sha_block st (take 16 ws)) (drop 16 ws))"
  by pat_completeness auto
termination by (relation "measure (\<lambda>(st, ws). length ws)") auto

declare sha_blocks.simps [simp del]

definition word_bytes :: "w32 \<Rightarrow> char list" where
  "word_bytes x = map char_of (be_bytes 4 (uint x))"

definition Sum256 :: "string \<Rightarrow> string" where
  "Sum256 m = concat (map word_bytes (sha_blocks sha_init (be_words (sha_pad (map of_char m)))))"

definition hex_digit :: "int \<Rightarrow> char" where
  "hex_digit n = ''0123456789abcdef'' ! nat n"

definition EncodeToString :: "string \<Rightarrow> string" where
  "EncodeToString s = concat (map (\<lambda>c. [hex_digit (of_char c div 16), hex_digit (of_char c mod 16)]) s)"

lemma length_be_bytes [simp]: "length (be_bytes k n) = k"
  by (induction k arbitrary: n) auto

lemma length_sha_block [simp]: "length (sha_block st ws) = length st"
  by (induction st ws rule: sha_block.induct) (auto split: prod.splits)

lemma length_sha_blocks [simp]: "length (sha_blocks st ws) = length st"
  by (induction st ws rule: sha_blocks.induct) (subst sha_blocks.simps, simp)

lemma length_Sum256: "length (Sum256 m) = 32"
proof -
  have "length (concat (map word_bytes ws)) = 4 * length ws" for ws
    by (induction ws) (auto simp: word_bytes_def)
  then show ?thesis by (simp add: Sum256_def sha_init_def)
qed

lemma length_hex: "length (EncodeToString s) = 2 * length s"
  by (induction s) (auto simp: EncodeToString_def)


end
