(* ===== verification/SkillQuery.thy ===== *)
theory SkillQuery
  imports Store Review
begin

text \<open>
  Reading and deleting published skills: \<open>skill/visibility.go\<close>, \<open>installability.go\<close>,
  \<open>query.go\<close>, \<open>download.go\<close>, \<open>tags.go\<close> and \<open>delete.go\<close>. The writer of \<open>archive/zip\<close> and the
  layout of \<open>time.Format\<close> are parameters.
\<close>

section \<open>Who may see a skill\<close>

definition isOwner :: "Skill \<Rightarrow> string \<Rightarrow> bool" where
  "isOwner s currentUserID \<longleftrightarrow> currentUserID \<noteq> [] \<and> sk_OwnerID s = currentUserID"

definition isAdminOrAbove :: "string \<Rightarrow> bool" where
  "isAdminOrAbove role \<longleftrightarrow> role = ''ADMIN'' \<or> role = ''OWNER''"

definition CanAccess :: "Skill \<Rightarrow> string \<Rightarrow> roles \<Rightarrow> platform \<Rightarrow> bool" where
  "CanAccess s currentUserID rs pr =
     (if pr ''SUPER_ADMIN'' then True
      else if sk_Hidden s then isOwner s currentUserID \<or> isAdminOrAbove (role_of rs (sk_NamespaceID s))
      else if sk_LatestVersionID s = None then isOwner s currentUserID
      else if sk_Visibility s = ''PUBLIC'' then True
      else if sk_Visibility s = ''NAMESPACE_ONLY'' then rs (sk_NamespaceID s) \<noteq> None
      else if sk_Visibility s = ''PRIVATE'' then isOwner s currentUserID \<or> isAdminOrAbove (role_of rs (sk_NamespaceID s))
      else False)"

definition IsInstallable :: "SkillVersion \<Rightarrow> bool" where
  "IsInstallable v \<longleftrightarrow> sv_Status v = ''PUBLISHED'' \<and> sv_DownloadReady v \<and> sv_YankedAt v = None"

definition canManageSkillLifecycle :: "Skill \<Rightarrow> string \<Rightarrow> roles \<Rightarrow> bool" where
  "canManageSkillLifecycle s actorID rs =
     (if sk_OwnerID s = actorID then True
      else role_of rs (sk_NamespaceID s) = ''OWNER'' \<or> role_of rs (sk_NamespaceID s) = ''ADMIN'')"

abbreviation no_platform :: platform where
  "no_platform \<equiv> \<lambda>_. False"

section \<open>Finding a skill and its versions\<close>

text \<open>The current user's own skill of that name, otherwise the first one.\<close>

definition prefer_own :: "string \<Rightarrow> Skill list \<Rightarrow> Skill option" where
  "prefer_own currentUserID ss = (case find (\<lambda>s. sk_OwnerID s = currentUserID) ss of
     Some s \<Rightarrow> Some s
   | None \<Rightarrow> (case ss of [] \<Rightarrow> None | s # _ \<Rightarrow> Some s))"

definition resolveSkill :: "string \<Rightarrow> string \<Rightarrow> string \<Rightarrow> (Namespace \<times> Skill) op" where
  "resolveSkill namespaceSlug skillSlug currentUserID = do {
     r \<leftarrow> NamespaceRepo_FindBySlug namespaceSlug;
     (case r of
       Inr (Some ns) \<Rightarrow> do {
         r \<leftarrow> SkillRepo_FindByNamespaceIDAndSlug (ns_ID ns) skillSlug;
         (case r of
           Inl e \<Rightarrow> fail e
         | Inr ss \<Rightarrow> (case prefer_own currentUserID ss of
             None \<Rightarrow> fail (Errorf ''error.skill.notFound %s'' [AStr skillSlug])
           | Some s \<Rightarrow> ok (ns, s))) }
     | _ \<Rightarrow> fail (Errorf ''error.namespace.slug.notFound %s'' [AStr namespaceSlug])) }"

text \<open>A lookup whose error and whose missing row are answered alike.\<close>

definition or_fail :: "'a option op \<Rightarrow> err \<Rightarrow> 'a op" where
  "or_fail m e = do { r \<leftarrow> m; (case r of Inr (Some x) \<Rightarrow> ok x | _ \<Rightarrow> fail e) }"

definition version_not_found :: "string \<Rightarrow> err" where
  "version_not_found v = Errorf ''error.skill.version.notFound %s'' [AStr v]"

definition version_not_published :: "string \<Rightarrow> err" where
  "version_not_published v = Errorf ''error.skill.version.notPublished %s'' [AStr v]"

record SkillDetail =
  sd_ID :: int
  sd_Slug :: string
  sd_DisplayName :: string
  sd_OwnerID :: string
  sd_Summary :: string
  sd_Visibility :: string
  sd_Status :: string
  sd_DownloadCount :: int
  sd_StarCount :: int
  sd_SubscriptionCount :: int
  sd_RatingAvg :: int
  sd_RatingCount :: int
  sd_Hidden :: bool
  sd_NamespaceID :: int
  sd_CanManage :: bool

record VersionDetail =
  vd_ID :: int
  vd_Version :: string
  vd_Status :: string
  vd_FileCount :: int
  vd_TotalSize :: int
  vd_PublishedAt :: string
  vd_ParsedMetadataJSON :: string
  vd_ManifestJSON :: string

definition GetSkillDetail :: "string \<Rightarrow> string \<Rightarrow> string \<Rightarrow> roles \<Rightarrow> platform \<Rightarrow> SkillDetail op" where
  "GetSkillDetail namespaceSlug skillSlug currentUserID rs pr = do {
     r \<leftarrow> resolveSkill namespaceSlug skillSlug currentUserID;
     (case r of
       Inl e \<Rightarrow> fail e
     | Inr (ns, s) \<Rightarrow>
       if ns_Status ns = ''ARCHIVED'' \<and> role_of rs (ns_ID ns) = [] then fail (Errorf ''error.namespace.archived %s'' [AStr namespaceSlug])
       else if \<not> CanAccess s currentUserID rs pr then fail (Errorf ''error.skill.access.denied %s'' [AStr skillSlug])
       else ok \<lparr>sd_ID = sk_ID s, sd_Slug = sk_Slug s, sd_DisplayName = sk_DisplayName s, sd_OwnerID = sk_OwnerID s,
          sd_Summary = sk_Summary s, sd_Visibility = sk_Visibility s, sd_Status = sk_Status s, sd_DownloadCount = sk_DownloadCount s,
          sd_StarCount = sk_StarCount s, sd_SubscriptionCount = sk_SubscriptionCount s, sd_RatingAvg = sk_RatingAvg s,
          sd_RatingCount = sk_RatingCount s, sd_Hidden = sk_Hidden s, sd_NamespaceID = sk_NamespaceID s,
          sd_CanManage = canManageSkillLifecycle s currentUserID rs\<rparr>) }"

definition GetSkillByID :: "int \<Rightarrow> Skill option op" where
  "GetSkillByID skillID = do {
     r \<leftarrow> SkillRepo_FindByID skillID;
     (case r of Inl e \<Rightarrow> fail (wrap ''skill query: find skill by id'' e) | Inr s \<Rightarrow> ok s) }"

definition GetVersionDetail :: "(time \<Rightarrow> string) \<Rightarrow> string \<Rightarrow> string \<Rightarrow> string \<Rightarrow> string \<Rightarrow> roles \<Rightarrow> VersionDetail op" where
  "GetVersionDetail format namespaceSlug skillSlug versionStr currentUserID rs = do {
     r \<leftarrow> resolveSkill namespaceSlug skillSlug currentUserID;
     (case r of
       Inl e \<Rightarrow> fail e
     | Inr (ns, s) \<Rightarrow>
       if \<not> CanAccess s currentUserID rs no_platform then fail (Errorf ''error.skill.access.denied %s'' [AStr skillSlug])
       else if ns_Status ns = ''ARCHIVED'' \<and> role_of rs (ns_ID ns) = [] then fail (Errorf ''error.namespace.archived %s'' [AStr namespaceSlug])
       else do {
         r \<leftarrow> or_fail (VersionRepo_FindBySkillIDAndVersion (sk_ID s) versionStr) (version_not_found versionStr);
         (case r of
           Inl e \<Rightarrow> fail e
         | Inr v \<Rightarrow>
           if sv_Status v \<noteq> ''PUBLISHED'' \<and> \<not> canManageSkillLifecycle s currentUserID rs then fail (version_not_published versionStr)
           else ok \<lparr>vd_ID = sv_ID v, vd_Version = sv_Version v, vd_Status = sv_Status v, vd_FileCount = sv_FileCount v,
              vd_TotalSize = sv_TotalSize v, vd_PublishedAt = (case sv_PublishedAt v of None \<Rightarrow> [] | Some t \<Rightarrow> format t),
              vd_ParsedMetadataJSON = (case sv_ParsedMetadataJSON v of None \<Rightarrow> [] | Some x \<Rightarrow> x),
              vd_ManifestJSON = (case sv_ManifestJSON v of None \<Rightarrow> [] | Some x \<Rightarrow> x)\<rparr>) }) }"

definition ListVersions :: "string \<Rightarrow> string \<Rightarrow> string \<Rightarrow> roles \<Rightarrow> SkillVersion list op" where
  "ListVersions namespaceSlug skillSlug currentUserID rs = do {
     r \<leftarrow> resolveSkill namespaceSlug skillSlug currentUserID;
     (case r of
       Inl e \<Rightarrow> fail e
     | Inr (_, s) \<Rightarrow>
       if canManageSkillLifecycle s currentUserID rs then VersionRepo_FindBySkillID (sk_ID s)
       else VersionRepo_FindBySkillIDAndStatus (sk_ID s) ''PUBLISHED'') }"

text \<open>The version of a request, if the caller may read it.\<close>

definition readable_version :: "string \<Rightarrow> string \<Rightarrow> string \<Rightarrow> string \<Rightarrow> roles \<Rightarrow> SkillVersion op" where
  "readable_version namespaceSlug skillSlug versionStr currentUserID rs = do {
     r \<leftarrow> resolveSkill namespaceSlug skillSlug currentUserID;
     (case r of
       Inl e \<Rightarrow> fail e
     | Inr (_, s) \<Rightarrow> do {
         r \<leftarrow> or_fail (VersionRepo_FindBySkillIDAndVersion (sk_ID s) versionStr) (version_not_found versionStr);
         (case r of
           Inl e \<Rightarrow> fail e
         | Inr v \<Rightarrow>
           if sv_Status v \<noteq> ''PUBLISHED'' \<and> \<not> canManageSkillLifecycle s currentUserID rs then fail (version_not_published versionStr)
           else ok v) }) }"

fun existing_files :: "object_store \<Rightarrow> SkillFile list \<Rightarrow> (world, SkillFile list) state" where
  "existing_files store [] = State_Monad.return []"
| "existing_files store (f # fs) = do {
     r \<leftarrow> os_Exists store (sf_StorageKey f);
     rest \<leftarrow> existing_files store fs;
     State_Monad.return (if r = Inr True then f # rest else rest) }"

definition availableFiles :: "object_store \<Rightarrow> int \<Rightarrow> SkillFile list op" where
  "availableFiles store versionID = do {
     r \<leftarrow> FileRepo_FindByVersionID versionID;
     (case r of Inl e \<Rightarrow> fail e | Inr fs \<Rightarrow> do { available \<leftarrow> existing_files store fs; ok available }) }"

definition ListFiles :: "object_store \<Rightarrow> string \<Rightarrow> string \<Rightarrow> string \<Rightarrow> string \<Rightarrow> roles \<Rightarrow> SkillFile list op" where
  "ListFiles store namespaceSlug skillSlug versionStr currentUserID rs = do {
     r \<leftarrow> readable_version namespaceSlug skillSlug versionStr currentUserID rs;
     (case r of Inl e \<Rightarrow> fail e | Inr v \<Rightarrow> availableFiles store (sv_ID v)) }"

definition GetFileContent :: "object_store \<Rightarrow> string \<Rightarrow> string \<Rightarrow> string \<Rightarrow> string \<Rightarrow> string \<Rightarrow> roles \<Rightarrow> string op" where
  "GetFileContent store namespaceSlug skillSlug versionStr filePath currentUserID rs = do {
     r \<leftarrow> readable_version namespaceSlug skillSlug versionStr currentUserID rs;
     (case r of
       Inl e \<Rightarrow> fail e
     | Inr v \<Rightarrow> do {
         r \<leftarrow> FileRepo_FindByVersionID (sv_ID v);
         (case r of
           Inl e \<Rightarrow> fail e
         | Inr fs \<Rightarrow> (case find (\<lambda>f. sf_FilePath f = filePath) fs of
             None \<Rightarrow> fail (Errorf ''error.skill.file.notFound %s'' [AStr filePath])
           | Some f \<Rightarrow> os_Get store (sf_StorageKey f))) }) }"

definition resolve_latest :: "Skill \<Rightarrow> string \<Rightarrow> SkillVersion op" where
  "resolve_latest s skillSlug = (case sk_LatestVersionID s of
     None \<Rightarrow> fail (Errorf ''error.skill.version.latest.unavailable %s'' [AStr skillSlug])
   | Some i \<Rightarrow> do {
       r \<leftarrow> or_fail (VersionRepo_FindByID i) (Errs ''error.skill.version.latest.notFound'');
       (case r of
         Inl e \<Rightarrow> fail e
       | Inr v \<Rightarrow> if sv_Status v \<noteq> ''PUBLISHED'' then fail (version_not_published (sv_Version v)) else ok v) })"

definition resolve_tag :: "Skill \<Rightarrow> string \<Rightarrow> SkillVersion op" where
  "resolve_tag s tagName = do {
     r \<leftarrow> or_fail (TagRepo_FindBySkillIDAndTagName (sk_ID s) tagName) (Errorf ''error.skill.tag.notFound %s'' [AStr tagName]);
     (case r of
       Inl e \<Rightarrow> fail e
     | Inr t \<Rightarrow>
       if st_VersionID t = 0 then fail (Errorf ''error.skill.tag.version.missing %s'' [AStr tagName])
       else or_fail (VersionRepo_FindByID (st_VersionID t)) (Errorf ''error.skill.tag.version.notFound %s'' [AStr tagName])) }"

text \<open>\<open>stringsEqualFold\<close> compares bytes with ASCII letters folded.\<close>

definition stringsEqualFold :: "string \<Rightarrow> string \<Rightarrow> bool" where
  "stringsEqualFold a b =
     (if length a \<noteq> length b then False
      else list_all (\<lambda>(ca, cb). lower ca = lower cb) (zip a b))"

definition ResolveVersion :: "string \<Rightarrow> string \<Rightarrow> string \<Rightarrow> string \<Rightarrow> string \<Rightarrow> roles \<Rightarrow> SkillVersion op" where
  "ResolveVersion namespaceSlug skillSlug versionStr tagName currentUserID rs = do {
     r \<leftarrow> resolveSkill namespaceSlug skillSlug currentUserID;
     (case r of
       Inl e \<Rightarrow> fail e
     | Inr (_, s) \<Rightarrow>
       if versionStr \<noteq> [] then do {
         r \<leftarrow> or_fail (VersionRepo_FindBySkillIDAndVersion (sk_ID s) versionStr) (version_not_found versionStr);
         (case r of
           Inl e \<Rightarrow> fail e
         | Inr v \<Rightarrow> if sv_Status v \<noteq> ''PUBLISHED'' then fail (version_not_published versionStr) else ok v) }
       else if tagName \<noteq> [] then
         (if stringsEqualFold tagName ''latest'' then resolve_latest s skillSlug else resolve_tag s tagName)
       else resolve_latest s skillSlug) }"

section \<open>Downloads\<close>

record DownloadResult =
  dr_Content :: string
  dr_Filename :: string
  dr_ContentLength :: int
  dr_ContentType :: string
  dr_PresignedURL :: string
  dr_FallbackBundle :: bool

type_synonym zip_writer = "(string \<times> string) list \<Rightarrow> string"

text \<open>\<open>strings.Fields\<close>: the maximal runs of bytes between white space.\<close>

definition at_space :: "string \<Rightarrow> bool" where
  "at_space s \<longleftrightarrow> list_ex (HasPrefix s) space_encodings"

fun word_rest :: "string \<Rightarrow> string" where
  "word_rest [] = []"
| "word_rest (c # cs) = (if at_space (c # cs) then [] else c # word_rest cs)"

definition first_word :: "string \<Rightarrow> string" where
  "first_word s = (case s of [] \<Rightarrow> [] | c # cs \<Rightarrow> c # word_rest cs)"

function Fields :: "string \<Rightarrow> string list" where
  "Fields s = (let t = trim_left space_encodings s in
     if t = [] then [] else first_word t # Fields (drop (length (first_word t)) t))"
  by pat_completeness auto
termination
proof (relation "measure length", goal_cases)
  case (2 s t)
  obtain u where "s = u @ t" using trim_left_shape [of s space_encodings] 2(1) by metis
  then have "length t \<le> length s" by simp
  moreover have "first_word t \<noteq> []" using 2(2) by (cases t) (auto simp: first_word_def)
  ultimately show ?case using 2(2) by (cases t; cases "first_word t") auto
qed simp

declare Fields.simps [simp del]

definition filename_special :: "char \<Rightarrow> bool" where
  "filename_special c \<longleftrightarrow> c \<in> {CHR 0x5C, CHR ''/'', CHR '':'', CHR ''*'', CHR ''?'', CHR 0x22, CHR ''<'', CHR ''>'', CHR ''|''}"

definition buildDownloadFilename :: "Skill \<Rightarrow> SkillVersion \<Rightarrow> string" where
  "buildDownloadFilename s v =
     (let base = (if sk_DisplayName s = [] then sk_Slug s else sk_DisplayName s);
          clean = map (\<lambda>c. if filename_special c then CHR ''-'' else c) base;
          clean = TrimSpace (strings_Join '' '' (Fields clean));
          clean = (if clean = [] then ''skill'' else clean)
      in clean @ ''-'' @ sv_Version v @ ''.zip'')"

definition bundle_key :: "int \<Rightarrow> int \<Rightarrow> string" where
  "bundle_key skillID versionID = Sprintf ''packages/%d/%d/bundle.zip'' [AInt skillID, AInt versionID]"

text \<open>\<open>io.Copy\<close> with its error dropped: what arrived before a failure.\<close>

definition copy_some :: "string \<Rightarrow> (world, string) state" where
  "copy_some data = State (\<lambda>w. (if io_fails w then take (torn w (tick w)) data else data, advance w))"

fun zip_files :: "object_store \<Rightarrow> SkillFile list \<Rightarrow> (world, (string \<times> string) list) state" where
  "zip_files store [] = State_Monad.return []"
| "zip_files store (f # fs) = do {
     r \<leftarrow> os_Get store (sf_StorageKey f);
     (case r of
       Inl _ \<Rightarrow> zip_files store fs
     | Inr data \<Rightarrow> do {
         content \<leftarrow> copy_some data;
         rest \<leftarrow> zip_files store fs;
         State_Monad.return ((sf_FilePath f, content) # rest) }) }"

definition buildBundleFromFiles :: "zip_writer \<Rightarrow> object_store \<Rightarrow> Skill \<Rightarrow> SkillVersion \<Rightarrow> DownloadResult op" where
  "buildBundleFromFiles mkzip store s v = do {
     r \<leftarrow> FileRepo_FindByVersionID (sv_ID v);
     (case r of
       Inl e \<Rightarrow> fail (wrap ''skill: list files'' e)
     | Inr fs \<Rightarrow> do {
         available \<leftarrow> existing_files store fs;
         (if available = [] then fail (Errs ''error.skill.bundle.notFound'')
          else do {
            entries \<leftarrow> zip_files store available;
            ok \<lparr>dr_Content = mkzip entries, dr_Filename = buildDownloadFilename s v, dr_ContentLength = int (length (mkzip entries)),
               dr_ContentType = ''application/zip'', dr_PresignedURL = [], dr_FallbackBundle = True\<rparr> }) }) }"

definition buildDownloadResult :: "zip_writer \<Rightarrow> object_store \<Rightarrow> Skill \<Rightarrow> SkillVersion \<Rightarrow> DownloadResult op" where
  "buildDownloadResult mkzip store s v = do {
     r \<leftarrow> os_Exists store (bundle_key (sk_ID s) (sv_ID v));
     (if r = Inr True then do {
        presigned \<leftarrow> os_PresignedURL store (bundle_key (sk_ID s) (sv_ID v)) (buildDownloadFilename s v);
        r \<leftarrow> os_Get store (bundle_key (sk_ID s) (sv_ID v));
        (case r of
          Inl e \<Rightarrow> fail (wrap ''skill: read bundle'' e)
        | Inr data \<Rightarrow> ok \<lparr>dr_Content = data, dr_Filename = buildDownloadFilename s v, dr_ContentLength = sv_TotalSize v,
             dr_ContentType = ''application/zip'', dr_PresignedURL = (case presigned of Inl _ \<Rightarrow> [] | Inr u \<Rightarrow> u),
             dr_FallbackBundle = False\<rparr>) }
      else buildBundleFromFiles mkzip store s v) }"

definition downloadVersion :: "zip_writer \<Rightarrow> object_store \<Rightarrow> Skill \<Rightarrow> SkillVersion \<Rightarrow> DownloadResult op" where
  "downloadVersion mkzip store s v =
     (if sk_Status s \<noteq> ''ACTIVE'' then fail (Errs ''error.skill.status.notActive'')
      else if \<not> IsInstallable v then fail (Errorf ''error.skill.version.notDownloadable %s'' [AStr (sv_Version v)])
      else do {
        r \<leftarrow> buildDownloadResult mkzip store s v;
        (case r of
          Inl e \<Rightarrow> fail e
        | Inr result \<Rightarrow> do { _ \<leftarrow> SkillRepo_IncrementDownloadCount (sk_ID s); ok result }) })"

definition resolveAndCheck :: "string \<Rightarrow> string \<Rightarrow> string \<Rightarrow> roles \<Rightarrow> (Namespace \<times> Skill) op" where
  "resolveAndCheck namespaceSlug skillSlug currentUserID rs = do {
     r \<leftarrow> resolveSkill namespaceSlug skillSlug currentUserID;
     (case r of
       Inl e \<Rightarrow> fail e
     | Inr (ns, s) \<Rightarrow>
       if \<not> CanAccess s currentUserID rs no_platform then fail (Errorf ''error.skill.access.denied %s'' [AStr skillSlug])
       else if currentUserID = [] \<and> sk_Visibility s \<noteq> ''PUBLIC'' then fail (Errorf ''error.skill.access.denied %s'' [AStr skillSlug])
       else ok (ns, s)) }"

definition DownloadLatest :: "zip_writer \<Rightarrow> object_store \<Rightarrow> string \<Rightarrow> string \<Rightarrow> string \<Rightarrow> roles \<Rightarrow> DownloadResult op" where
  "DownloadLatest mkzip store namespaceSlug skillSlug currentUserID rs = do {
     r \<leftarrow> resolveAndCheck namespaceSlug skillSlug currentUserID rs;
     (case r of
       Inl e \<Rightarrow> fail e
     | Inr (_, s) \<Rightarrow> (case sk_LatestVersionID s of
         None \<Rightarrow> fail (Errorf ''error.skill.version.latest.unavailable %s'' [AStr skillSlug])
       | Some i \<Rightarrow> do {
           r \<leftarrow> or_fail (VersionRepo_FindByID i) (Errs ''error.skill.version.latest.notFound'');
           (case r of Inl e \<Rightarrow> fail e | Inr v \<Rightarrow> downloadVersion mkzip store s v) })) }"

definition DownloadVersion :: "zip_writer \<Rightarrow> object_store \<Rightarrow> string \<Rightarrow> string \<Rightarrow> string \<Rightarrow> string \<Rightarrow> roles \<Rightarrow> DownloadResult op" where
  "DownloadVersion mkzip store namespaceSlug skillSlug versionStr currentUserID rs = do {
     r \<leftarrow> resolveAndCheck namespaceSlug skillSlug currentUserID rs;
     (case r of
       Inl e \<Rightarrow> fail e
     | Inr (_, s) \<Rightarrow> do {
         r \<leftarrow> or_fail (VersionRepo_FindBySkillIDAndVersion (sk_ID s) versionStr) (version_not_found versionStr);
         (case r of Inl e \<Rightarrow> fail e | Inr v \<Rightarrow> downloadVersion mkzip store s v) }) }"

definition DownloadByTag :: "zip_writer \<Rightarrow> object_store \<Rightarrow> string \<Rightarrow> string \<Rightarrow> string \<Rightarrow> string \<Rightarrow> roles \<Rightarrow> DownloadResult op" where
  "DownloadByTag mkzip store namespaceSlug skillSlug tagName currentUserID rs = do {
     r \<leftarrow> resolveAndCheck namespaceSlug skillSlug currentUserID rs;
     (case r of
       Inl e \<Rightarrow> fail e
     | Inr (_, s) \<Rightarrow> do {
         r \<leftarrow> resolve_tag s tagName;
         (case r of Inl e \<Rightarrow> fail e | Inr v \<Rightarrow> downloadVersion mkzip store s v) }) }"

section \<open>Who may download\<close>

lemma wp_or_fail: "wp (or_fail m e) Q w = wp m (\<lambda>r w'. case r of Inr (Some x) \<Rightarrow> Q (Inr x) w' | _ \<Rightarrow> Q (Inl e) w') w"
  unfolding or_fail_def wp_bind by (rule arg_cong [where f = "\<lambda>P. wp m P w"]) (auto simp: fun_eq_iff split: sum.splits option.splits)

lemma resolveSkill_wp:
  assumes "\<And>e w'. Q (Inl e) w'"
    and "\<And>ns s w'. find (\<lambda>n. ns_Slug n = nsSlug) (namespaces (db w)) = Some ns \<Longrightarrow>
       prefer_own user (filter (\<lambda>s. sk_NamespaceID s = ns_ID ns \<and> sk_Slug s = slug) (skills (db w))) = Some s
       \<Longrightarrow> db w' = db w \<Longrightarrow> objects w' = objects w \<Longrightarrow> (healthy w \<Longrightarrow> healthy w') \<Longrightarrow> Q (Inr (ns, s)) w'"
  shows "wp (resolveSkill nsSlug slug user) Q w"
  using assms by (simp add: resolveSkill_def NamespaceRepo_FindBySlug_def SkillRepo_FindByNamespaceIDAndSlug_def split: option.splits)

lemma prefer_own_in: "prefer_own user ss = Some s \<Longrightarrow> s \<in> set ss"
  by (auto simp: prefer_own_def find_Some_iff split: option.splits list.splits)

text \<open>
  Who may see a skill: its owner and the managers of its namespace; anybody else only while it is
  not hidden, has a version, and is PUBLIC or open to the namespace the caller is a member of.
\<close>

definition entitled :: "string \<Rightarrow> roles \<Rightarrow> Skill \<Rightarrow> bool" where
  "entitled user rs s \<longleftrightarrow> (sk_OwnerID s = user \<and> user \<noteq> []) \<or> rs (sk_NamespaceID s) \<in> {Some ''OWNER'', Some ''ADMIN''}
     \<or> (\<not> sk_Hidden s \<and> sk_LatestVersionID s \<noteq> None
        \<and> (sk_Visibility s = ''PUBLIC'' \<or> sk_Visibility s = ''NAMESPACE_ONLY'' \<and> sk_NamespaceID s \<in> dom rs))"

lemma CanAccess_entitled: "CanAccess s user rs no_platform \<Longrightarrow> entitled user rs s"
  by (auto simp: CanAccess_def entitled_def isOwner_def isAdminOrAbove_def role_of_def split: if_splits option.splits)

text \<open>What a caller may download.\<close>

definition may_download :: "string \<Rightarrow> string \<Rightarrow> string \<Rightarrow> roles \<Rightarrow> database \<Rightarrow> bool" where
  "may_download nsSlug slug user rs d \<longleftrightarrow> (\<exists>ns \<in> set (namespaces d). \<exists>s \<in> set (skills d). \<exists>v \<in> set (versions d).
     ns_Slug ns = nsSlug \<and> sk_NamespaceID s = ns_ID ns \<and> sk_Slug s = slug \<and> sk_Status s = ''ACTIVE''
     \<and> entitled user rs s \<and> (user = [] \<longrightarrow> sk_Visibility s = ''PUBLIC'')
     \<and> sv_Status v = ''PUBLISHED'' \<and> sv_YankedAt v = None)"

lemma downloadVersion_wp:
  "wp (downloadVersion mkzip store s v) (\<lambda>r _. (\<exists>x. r = Inr x) \<longrightarrow> sk_Status s = ''ACTIVE'' \<and> sv_Status v = ''PUBLISHED'' \<and> sv_YankedAt v = None) w"
  by (auto simp: downloadVersion_def IsInstallable_def)

lemma download_of_version:
  assumes "ns \<in> set (namespaces d)" "s \<in> set (skills d)" "ns_Slug ns = nsSlug" "sk_NamespaceID s = ns_ID ns" "sk_Slug s = slug"
    and "CanAccess s user rs no_platform" "user = [] \<longrightarrow> sk_Visibility s = ''PUBLIC''" "v \<in> set (versions d)"
  shows "wp (downloadVersion mkzip store s v) (\<lambda>r _. (\<exists>x. r = Inr x) \<longrightarrow> may_download nsSlug slug user rs d) w"
  by (rule wp_mono [OF downloadVersion_wp]) (use assms CanAccess_entitled [of s user rs] in \<open>auto simp: may_download_def\<close>)

lemma resolveAndCheck_wp:
  assumes "\<And>e w'. Q (Inl e) w'"
    and "\<And>ns s w'. ns \<in> set (namespaces (db w)) \<Longrightarrow> s \<in> set (skills (db w)) \<Longrightarrow> ns_Slug ns = nsSlug \<Longrightarrow> sk_NamespaceID s = ns_ID ns
       \<Longrightarrow> sk_Slug s = slug \<Longrightarrow> CanAccess s user rs no_platform \<Longrightarrow> (user = [] \<longrightarrow> sk_Visibility s = ''PUBLIC'')
       \<Longrightarrow> db w' = db w \<Longrightarrow> Q (Inr (ns, s)) w'"
  shows "wp (resolveAndCheck nsSlug slug user rs) Q w"
  unfolding resolveAndCheck_def wp_bind
  by (rule resolveSkill_wp) (auto simp: assms(1) dest!: find_SomeD prefer_own_in intro!: assms(2))


text \<open>The file queries do not ask who is asking. Without failures, the content of a file of a PUBLISHED
  version is handed to any caller with any roles, also when the skill is hidden, private or of another
  namespace; \<open>CanAccess\<close> plays no part.\<close>

theorem file_content_ignores_access:
  assumes "healthy w" and "anchored root"
    and "find (\<lambda>n. ns_Slug n = nsSlug) (namespaces (db w)) = Some ns"
    and "filter (\<lambda>s. sk_NamespaceID s = ns_ID ns \<and> sk_Slug s = slug) (skills (db w)) = [s]"
    and "find (\<lambda>v. sv_key v = (sk_ID s, ver)) (versions (db w)) = Some v" and "sv_Status v = ''PUBLISHED''"
    and "find (\<lambda>f. sf_FilePath f = path) (sort_key sf_ID (filter (\<lambda>f. sf_VersionID f = sv_ID v) (files (db w)))) = Some f"
    and "safe_key (sf_StorageKey f)" and "local_content root w (sf_StorageKey f) = Some content"
    and "run_state (GetFileContent (local_store root) nsSlug slug ver path user rs) w = (r, w')"
  shows "r = Inr content"
proof -
  have get: "wp (os_Get (local_store root) (sf_StorageKey f)) (\<lambda>r _. r = Inr content) v"
    if "objects v = objects w" "healthy v" for v
  proof -
    have "local_content root v (sf_StorageKey f) = Some content"
      using assms(9) by (simp add: local_content_def that(1))
    then show ?thesis using that(2)
      apply -
      apply (rule wp_mono [OF local.get [of root "sf_StorageKey f" v]])
       apply (simp add: assms(2,8))
      apply blast
      done
  qed
  have own: "prefer_own user [s] = Some s" by (simp add: prefer_own_def)
  have "wp (resolveSkill nsSlug slug user) (\<lambda>r v. r = Inr (ns, s) \<and> db v = db w \<and> objects v = objects w \<and> healthy v) w"
    by (simp add: resolveSkill_def NamespaceRepo_FindBySlug_def SkillRepo_FindByNamespaceIDAndSlug_def assms(1,3,4) own)
  then have "wp (readable_version nsSlug slug ver user rs) (\<lambda>r u. r = Inr v \<and> db u = db w \<and> objects u = objects w \<and> healthy u) w"
    unfolding readable_version_def wp_bind
    by (rule wp_mono) (auto simp: wp_or_fail VersionRepo_FindBySkillIDAndVersion_def assms(5,6))
  then have "wp (GetFileContent (local_store root) nsSlug slug ver path user rs) (\<lambda>r _. r = Inr content) w"
    unfolding GetFileContent_def wp_bind
    by (rule wp_mono) (clarsimp simp: FileRepo_FindByVersionID_def assms(7) simp del: local_store_simps, rule get; simp)
  from wpD [OF assms(10) this] show ?thesis .
qed

section \<open>Concrete runs\<close>

definition shelf_skill :: "bool \<Rightarrow> string \<Rightarrow> Skill" where
  "shelf_skill hidden vis = shop_skill\<lparr>sk_Hidden := hidden, sk_Visibility := vis, sk_LatestVersionID := Some 5\<rparr>"

definition shelf_file :: SkillFile where
  "shelf_file = \<lparr> sf_ID = 31, sf_VersionID = 5, sf_FilePath = ''SKILL.md'', sf_FileSize = 2, sf_ContentType = ''text/markdown'',
     sf_SHA256 = [], sf_StorageKey = ''skills/3/5/SKILL.md'', sf_CreatedAt = 1 \<rparr>"

definition shelf_world :: "bool \<Rightarrow> string \<Rightarrow> world" where
  "shelf_world hidden vis = (calm False (empty_db\<lparr>namespaces := [shop_ns], skills := [shelf_skill hidden vis],
     versions := [(shop_version ''PUBLISHED'')], files := [shelf_file]\<rparr>))
     \<lparr>objects := [''/data/skills/3/5/SKILL.md'' \<mapsto> ''hi'', ''/data/packages/3/5/bundle.zip'' \<mapsto> ''zip'']\<rparr>"

lemma shelf_simps [simp]:
  "sk_ID (shelf_skill h vis) = 3" "sk_NamespaceID (shelf_skill h vis) = 7" "sk_Slug (shelf_skill h vis) = ''greet''"
  "sk_Hidden (shelf_skill h vis) = h" "sk_Visibility (shelf_skill h vis) = vis" "sk_LatestVersionID (shelf_skill h vis) = Some 5"
  "sk_OwnerID (shelf_skill h vis) = ''cy''" "sk_Status (shelf_skill h vis) = ''ACTIVE''"
  "sf_VersionID shelf_file = 5" "sf_FilePath shelf_file = ''SKILL.md''" "sf_StorageKey shelf_file = ''skills/3/5/SKILL.md''"
  "ns_Slug shop_ns = ''team''" "sv_Version (shop_version st) = ''1.0.0''" "sv_YankedAt (shop_version st) = None"
  "sv_DownloadReady (shop_version st)"
  by (simp_all add: shelf_skill_def shop_skill_def shelf_file_def shop_ns_def shop_version_def)

lemma shelf_world_simps [simp]:
  "healthy (shelf_world h vis)" "db (shelf_world h vis) = empty_db\<lparr>namespaces := [shop_ns], skills := [shelf_skill h vis],
     versions := [(shop_version ''PUBLISHED'')], files := [shelf_file]\<rparr>"
  "objects (shelf_world h vis) = [''/data/skills/3/5/SKILL.md'' \<mapsto> ''hi'', ''/data/packages/3/5/bundle.zip'' \<mapsto> ''zip'']"
  by (simp_all add: shelf_world_def healthy_def calm_def)

lemma data_root: "anchored ''/data''" "Clean ''/data'' = ''/data''"
proof -
  show c: "Clean ''/data'' = ''/data''"
    by (simp add: Clean_def is_rooted_def render_def clean_comps_def clean_step.simps dot_def dotdot_def)
  then show "anchored ''/data''" by (simp add: anchored_def plain_def dot_def dotdot_def)
qed

lemma demo_keys: "safe_key ''skills/3/5/SKILL.md''" "safe_key ''packages/3/5/bundle.zip''"
  by (simp_all add: safe_key_def plain_def dot_def dotdot_def)

theorem file_content_ignores_access_witness:
  "\<exists>w'. run_state (GetFileContent (local_store ''/data'') ''team'' ''greet'' ''1.0.0'' ''SKILL.md'' [] (\<lambda>_. None)) (shelf_world True ''PRIVATE'') = (Inr ''hi'', w')
     \<and> \<not> CanAccess (shelf_skill True ''PRIVATE'') [] (\<lambda>_. None) no_platform"
proof -
  let ?m = "GetFileContent (local_store ''/data'') ''team'' ''greet'' ''1.0.0'' ''SKILL.md'' [] (\<lambda>_. None)"
  obtain r w' where run: "run_state ?m (shelf_world True ''PRIVATE'') = (r, w')" by (metis surj_pair)
  have "r = Inr ''hi''"
    by (rule file_content_ignores_access [OF _ data_root(1) _ _ _ _ _ _ _ run,
        where ns = shop_ns and s = "shelf_skill True ''PRIVATE''" and v = "shop_version ''PUBLISHED''" and f = shelf_file])
      (simp_all add: sv_key_def demo_keys local_content_def data_root)
  then show ?thesis using run by (auto simp: CanAccess_def isOwner_def isAdminOrAbove_def role_of_def)
qed


end
