(* ===== verification/SkillAdmin.thy ===== *)
theory SkillAdmin
  imports SkillQuery
begin

text \<open>
  \<open>skill/tags.go\<close> and \<open>skill/delete.go\<close>: tags that point at published versions, and the permanent
  deletion of a skill with its versions, files, tags, statistics and stored objects.
\<close>

section \<open>Tags\<close>

definition reservedTagLatest :: string where
  "reservedTagLatest = ''latest''"

definition authorizeSkillLifecycle :: "int \<Rightarrow> string \<Rightarrow> roles \<Rightarrow> Skill op" where
  "authorizeSkillLifecycle skillID actorID rs = do {
     r \<leftarrow> SkillRepo_FindByID skillID;
     (case r of
       Inl e \<Rightarrow> fail (wrap ''skill: find'' e)
     | Inr None \<Rightarrow> fail (Errs ''error.skill.notFound'')
     | Inr (Some s) \<Rightarrow> if \<not> canManageSkillLifecycle s actorID rs then fail (Errs ''error.skill.access.denied'') else ok s) }"

definition new_tag :: "Skill \<Rightarrow> string \<Rightarrow> SkillVersion \<Rightarrow> string \<Rightarrow> time \<Rightarrow> SkillTag" where
  "new_tag s tagName v actorID t = \<lparr>st_ID = 0, st_SkillID = sk_ID s, st_TagName = tagName, st_VersionID = sv_ID v,
     st_CreatedBy = Some actorID, st_CreatedAt = t, st_UpdatedAt = t\<rparr>"

definition CreateTag :: "int \<Rightarrow> string \<Rightarrow> string \<Rightarrow> string \<Rightarrow> roles \<Rightarrow> SkillTag op" where
  "CreateTag skillID rawName versionStr actorID rs =
     (let tagName = TrimSpace rawName in
      if tagName = [] then fail (Errs ''skill: tag name required'')
      else if EqualFold tagName reservedTagLatest then fail (Errs ''error.skill.tag.latest.reserved'')
      else do {
        r \<leftarrow> authorizeSkillLifecycle skillID actorID rs;
        (case r of
          Inl e \<Rightarrow> fail e
        | Inr s \<Rightarrow> do {
            r \<leftarrow> or_fail (VersionRepo_FindBySkillIDAndVersion (sk_ID s) versionStr) (version_not_found versionStr);
            (case r of
              Inl e \<Rightarrow> fail e
            | Inr v \<Rightarrow>
              if sv_Status v \<noteq> ''PUBLISHED'' then fail (Errs ''skill: only published versions can be tagged'')
              else do {
                r \<leftarrow> TagRepo_FindBySkillIDAndTagName (sk_ID s) tagName;
                t \<leftarrow> now;
                (case r of
                  Inr (Some existing) \<Rightarrow> TagRepo_Save (existing\<lparr>st_VersionID := sv_ID v, st_UpdatedAt := t\<rparr>)
                | _ \<Rightarrow> TagRepo_Save (new_tag s tagName v actorID t)) }) }) })"

definition DeleteTag :: "int \<Rightarrow> string \<Rightarrow> string \<Rightarrow> roles \<Rightarrow> unit op" where
  "DeleteTag skillID tagName actorID rs =
     (if EqualFold tagName reservedTagLatest then fail (Errs ''error.skill.tag.latest.delete'')
      else do {
        r \<leftarrow> authorizeSkillLifecycle skillID actorID rs;
        (case r of
          Inl e \<Rightarrow> fail e
        | Inr s \<Rightarrow> do {
            r \<leftarrow> TagRepo_FindBySkillIDAndTagName (sk_ID s) tagName;
            (case r of
              Inl e \<Rightarrow> fail e
            | Inr None \<Rightarrow> fail (Errorf ''error.skill.tag.notFound %s'' [AStr tagName])
            | Inr (Some t) \<Rightarrow> TagRepo_Delete (st_ID t)) }) })"

definition ListTags :: "int \<Rightarrow> string \<Rightarrow> roles \<Rightarrow> platform \<Rightarrow> SkillTag list op" where
  "ListTags skillID actorID rs pr = do {
     r \<leftarrow> SkillRepo_FindByID skillID;
     (case r of
       Inl e \<Rightarrow> fail (wrap ''skill: find'' e)
     | Inr None \<Rightarrow> fail (Errs ''error.skill.notFound'')
     | Inr (Some s) \<Rightarrow>
       if \<not> CanAccess s actorID rs pr then fail (Errs ''error.skill.access.denied'')
       else do {
         r \<leftarrow> TagRepo_FindBySkillID (sk_ID s);
         (case r of
           Inl e \<Rightarrow> fail e
         | Inr ts \<Rightarrow> (case sk_LatestVersionID s of
             None \<Rightarrow> ok ts
           | Some i \<Rightarrow> ok (ts @ [\<lparr>st_ID = 0, st_SkillID = sk_ID s, st_TagName = reservedTagLatest, st_VersionID = i,
               st_CreatedBy = Some (sk_OwnerID s), st_CreatedAt = zero_time, st_UpdatedAt = zero_time\<rparr>]))) }) }"

text \<open>What creating a tag does to the tables, and under which conditions.\<close>

definition tag_created :: "int \<Rightarrow> string \<Rightarrow> string \<Rightarrow> string \<Rightarrow> roles \<Rightarrow> SkillTag \<Rightarrow> database \<Rightarrow> database \<Rightarrow> bool" where
  "tag_created skillID name ver actor rs tag d d' \<longleftrightarrow>
     (\<exists>s v. s \<in> set (skills d) \<and> sk_ID s = skillID \<and> canManageSkillLifecycle s actor rs
        \<and> v \<in> set (versions d) \<and> sv_SkillID v = skillID \<and> sv_Version v = ver \<and> sv_Status v = ''PUBLISHED'' \<and> st_VersionID tag = sv_ID v)
     \<and> st_key tag = (skillID, name) \<and> \<not> EqualFold name ''latest'' \<and> tag \<in> set (tags d')
     \<and> (\<forall>t \<in> set (tags d). st_key t \<noteq> st_key tag \<longrightarrow> t \<in> set (tags d')) \<and> (\<forall>t \<in> set (tags d'). t = tag \<or> t \<in> set (tags d))"

lemma save_tag_wp:
  assumes "st_key x = (skillID, name)" "st_VersionID x = sv_ID v" "tags (db w1) = tags d"
    "s \<in> set (skills d)" "sk_ID s = skillID" "canManageSkillLifecycle s actor rs" "v \<in> set (versions d)"
    "sv_SkillID v = skillID" "sv_Version v = ver" "sv_Status v = ''PUBLISHED''" "\<not> EqualFold name ''latest''"
  shows "wp (TagRepo_Save x) (\<lambda>r w'. \<forall>tag. r = Inr tag \<longrightarrow> tag_created skillID name ver actor rs tag d (db w')) w1"
proof -
  let ?row = "st_row x (clock w1 (tick w1)) (next_id ''skill_tag_id_seq'' w1)"
  have key: "st_key ?row = (skillID, name)" using assms(1) by (simp add: st_row_def st_key_def)
  have st: "st_key (stt.stored ?row (tags d)) = (skillID, name)" by (simp add: stt.key_stored key)
  have vid: "st_VersionID (stt.stored ?row (tags d)) = sv_ID v"
    using stt.stored_field [of st_VersionID ?row "tags d"] assms(2) by (simp add: st_merge_def st_row_def)
  have "tag_created skillID name ver actor rs (stt.stored ?row (tags d)) d (d0\<lparr>tags := stt.save ?row (tags d)\<rparr>)" for d0
    unfolding tag_created_def
    using assms(4-11) vid st key stt.stored_in [of ?row "tags d"] stt.save_others [of _ ?row "tags d"] stt.save_keeps [of _ "tags d" ?row]
    by auto
  then show ?thesis using assms(3) by (simp add: Let_def)
qed

text \<open>C38: whatever statements fail, a tag that is created or moved points at a PUBLISHED version of its own
  skill, was made by someone who may manage that skill, is never called \<open>latest\<close> in any case, and
  no other tag is touched.\<close>

theorem tags_name_published_versions:
  assumes "run_state (CreateTag skillID name ver actor rs) w = (Inr tag, w')"
  shows "tag_created skillID (TrimSpace name) ver actor rs tag (db w) (db w')"
proof -
  have "wp (CreateTag skillID name ver actor rs) (\<lambda>r w'. \<forall>tag. r = Inr tag \<longrightarrow> tag_created skillID (TrimSpace name) ver actor rs tag (db w) (db w')) w"
    unfolding CreateTag_def Let_def
    by (simp add: authorizeSkillLifecycle_def wp_or_fail skill_repo_defs reservedTagLatest_def split: option.splits del: wp_TagRepo_Save)
      (auto dest!: find_SomeD simp: sv_key_def st_key_def new_tag_def simp del: wp_TagRepo_Save intro!: save_tag_wp)
  from wpD [OF assms this] show ?thesis by blast
qed

theorem tags_name_published_versions_witness:
  "\<exists>tag w'. run_state (CreateTag 3 ''stable'' ''1.0.0'' ''cy'' (\<lambda>_. None)) (shelf_world False ''PUBLIC'') = (Inr tag, w')
     \<and> tag_created 3 ''stable'' ''1.0.0'' ''cy'' (\<lambda>_. None) tag (db (shelf_world False ''PUBLIC'')) (db w')"
proof -
  let ?m = "CreateTag 3 ''stable'' ''1.0.0'' ''cy'' (\<lambda>_. None)"
  obtain r w' where run: "run_state ?m (shelf_world False ''PUBLIC'') = (r, w')" by (metis surj_pair)
  have t: "TrimSpace ''stable'' = ''stable''" by (rule TrimSpace_ends) (auto dest!: space_byte_range simp: byte_def)
  have l: "\<not> EqualFold ''stable'' ''latest''" by (simp add: EqualFold_def ToLower_def lower_def is_upper_def byte_def)
  have "wp ?m (\<lambda>r _. \<exists>x. r = Inr x) (shelf_world False ''PUBLIC'')"
    by (simp add: CreateTag_def t l reservedTagLatest_def authorizeSkillLifecycle_def wp_or_fail skill_repo_defs canManageSkillLifecycle_def
        sv_key_def st_key_def empty_db_def Let_def split: option.splits)
  from wpD [OF run this] obtain x where "r = Inr x" by blast
  then show ?thesis using tags_name_published_versions [of 3 "''stable''"] run t by metis
qed

section \<open>Deletion\<close>

record delete_env =
  de_store :: object_store
  de_stats :: bool
  de_compensation :: bool

text \<open>
  The compensation repository addresses a table no migration creates, so that the server rejects
  its statements; its error is dropped.
\<close>

definition CompRepo_Save :: "unit op" where
  "CompRepo_Save = do { _ \<leftarrow> now; bad_stmt }"

definition recordCompensation :: "unit op" where
  "recordCompensation = CompRepo_Save"

definition deleteStorageWithCompensation :: "delete_env \<Rightarrow> string list \<Rightarrow> (world, unit) state" where
  "deleteStorageWithCompensation env ks =
     (if ks = [] then State_Monad.return ()
      else do {
        r \<leftarrow> os_DeleteObjects (de_store env) ks;
        (case r of
          Inr _ \<Rightarrow> State_Monad.return ()
        | Inl _ \<Rightarrow> if de_compensation env then do { _ \<leftarrow> recordCompensation; State_Monad.return () } else State_Monad.return ()) })"

fun storage_keys :: "int \<Rightarrow> SkillVersion list \<Rightarrow> string list op" where
  "storage_keys skillID [] = ok []"
| "storage_keys skillID (v # vs) = do {
     r \<leftarrow> FileRepo_FindByVersionID (sv_ID v);
     (case r of
       Inl e \<Rightarrow> fail (wrap ''skill: list files'' e)
     | Inr fs \<Rightarrow> do {
         r \<leftarrow> storage_keys skillID vs;
         (case r of
           Inl e \<Rightarrow> fail e
         | Inr ks \<Rightarrow> ok (filter (\<lambda>k. k \<noteq> []) (map sf_StorageKey fs) @ bundle_key skillID (sv_ID v) # ks)) }) }"

fun delete_versions :: "SkillVersion list \<Rightarrow> (world, unit) state" where
  "delete_versions [] = State_Monad.return ()"
| "delete_versions (v # vs) = do {
     _ \<leftarrow> FileRepo_DeleteByVersionID (sv_ID v);
     _ \<leftarrow> VersionRepo_Delete (sv_ID v);
     delete_versions vs }"

definition HardDelete :: "delete_env \<Rightarrow> int \<Rightarrow> string \<Rightarrow> string \<Rightarrow> roles \<Rightarrow> unit op" where
  "HardDelete env skillID namespaceSlug actorID rs = do {
     r \<leftarrow> SkillRepo_FindByID skillID;
     (case r of
       Inl e \<Rightarrow> fail (wrap ''skill: find'' e)
     | Inr None \<Rightarrow> fail (Errs ''error.skill.notFound'')
     | Inr (Some s) \<Rightarrow>
       if \<not> canManageSkillLifecycle s actorID rs then fail (Errs ''error.skill.access.denied'')
       else do {
         r \<leftarrow> VersionRepo_FindBySkillID (sk_ID s);
         (case r of
           Inl e \<Rightarrow> fail (wrap ''skill: list versions'' e)
         | Inr vs \<Rightarrow> do {
             r \<leftarrow> storage_keys (sk_ID s) vs;
             (case r of
               Inl e \<Rightarrow> fail e
             | Inr ks \<Rightarrow> do {
                 r \<leftarrow> SkillRepo_Save (s\<lparr>sk_LatestVersionID := None, sk_UpdatedBy := Some actorID\<rparr>);
                 (case r of
                   Inl e \<Rightarrow> fail (wrap ''skill: save'' e)
                 | Inr s \<Rightarrow> do {
                     r \<leftarrow> TagRepo_DeleteBySkillID (sk_ID s);
                     (case r of
                       Inl e \<Rightarrow> fail (wrap ''skill: delete tags'' e)
                     | Inr _ \<Rightarrow> do {
                         _ \<leftarrow> (if de_stats env then StatsRepo_DeleteBySkillID (sk_ID s) else ok ());
                         delete_versions vs;
                         r \<leftarrow> SkillRepo_Delete (sk_ID s);
                         (case r of
                           Inl e \<Rightarrow> fail (wrap ''skill: delete'' e)
                         | Inr _ \<Rightarrow> do { deleteStorageWithCompensation env ks; ok () }) }) }) }) }) }) }"


text \<open>The rows that belong to a skill.\<close>

definition traces_of :: "int \<Rightarrow> database \<Rightarrow> bool" where
  "traces_of i d \<longleftrightarrow> (\<exists>s \<in> set (skills d). sk_ID s = i) \<or> (\<exists>v \<in> set (versions d). sv_SkillID v = i)
     \<or> (\<exists>t \<in> set (tags d). st_SkillID t = i)"

definition others_kept :: "int \<Rightarrow> database \<Rightarrow> database \<Rightarrow> bool" where
  "others_kept i d d' \<longleftrightarrow> (\<forall>s \<in> set (skills d). sk_ID s \<noteq> i \<longrightarrow> s \<in> set (skills d'))
     \<and> (\<forall>v \<in> set (versions d). sv_SkillID v \<noteq> i \<longrightarrow> v \<in> set (versions d'))
     \<and> (\<forall>t \<in> set (tags d). st_SkillID t \<noteq> i \<longrightarrow> t \<in> set (tags d'))"

definition keys_listed :: "database \<Rightarrow> SkillVersion list \<Rightarrow> string list \<Rightarrow> bool" where
  "keys_listed d vs ks \<longleftrightarrow> (\<forall>v \<in> set vs. \<forall>f \<in> set (files d). sf_VersionID f = sv_ID v \<and> sf_StorageKey f \<noteq> [] \<longrightarrow> sf_StorageKey f \<in> set ks)"

lemma storage_keys_wp:
  assumes "healthy w" and "\<And>ks w'. db w' = db w \<Longrightarrow> healthy w' \<Longrightarrow> keys_listed (db w) vs ks \<Longrightarrow> Q (Inr ks) w'"
  shows "wp (storage_keys i vs) Q w"
  using assms
proof (induction vs arbitrary: w Q)
  case Nil
  then show ?case by (simp add: keys_listed_def)
next
  case (Cons v vs)
  have step: "keys_listed d (v # vs) (filter (\<lambda>k. k \<noteq> []) (map sf_StorageKey (sort_key sf_ID (filter (\<lambda>f. sf_VersionID f = sv_ID v) (files d)))) @ x # ks)"
    if "keys_listed d vs ks" for d x ks
    using that by (auto simp: keys_listed_def)
  show ?case
    unfolding storage_keys.simps wp_bind using Cons.prems(1)
    by (simp add: FileRepo_FindByVersionID_def) (auto intro!: Cons.IH Cons.prems(2) step)
qed

lemma delete_each_wp:
  assumes "healthy w"
  shows "wp (delete_each root ks) (\<lambda>errs w'. db w' = db w \<and> (\<forall>k \<in> set ks. \<forall>p. resolveKey root k = Inr p \<longrightarrow> objects w' p = None)
     \<and> (\<forall>p. objects w p = None \<longrightarrow> objects w' p = None)) w"
  using assms
proof (induction ks arbitrary: w)
  case (Cons k ks)
  show ?case
    unfolding delete_each.simps wp_bind using Cons.prems
    by (cases "resolveKey root k") (auto simp: local_DeleteObject_def intro!: wp_mono [OF Cons.IH])
qed simp

lemma delete_versions_wp:
  assumes "healthy w"
  shows "wp (delete_versions vs) (\<lambda>_ w'. healthy w' \<and> skills (db w') = skills (db w) \<and> tags (db w') = tags (db w)
     \<and> versions (db w') = filter (\<lambda>v. sv_ID v \<notin> sv_ID ` set vs) (versions (db w))
     \<and> files (db w') = filter (\<lambda>f. sf_VersionID f \<notin> sv_ID ` set vs) (files (db w))) w"
  using assms
proof (induction vs arbitrary: w)
  case (Cons v vs)
  show ?case
    unfolding delete_versions.simps wp_bind using Cons.prems
    by (simp add: FileRepo_DeleteByVersionID_def VersionRepo_Delete_def)
      (auto intro!: wp_mono [OF Cons.IH] simp: delete_where_def intro: filter_cong)
qed simp

text \<open>After the clean-up the store has no file for any of the keys.\<close>

definition unstored :: "string \<Rightarrow> string list \<Rightarrow> world \<Rightarrow> bool" where
  "unstored root ks w \<longleftrightarrow> (\<forall>k \<in> set ks. anchored root \<and> safe_key k \<longrightarrow> local_content root w k = None)"

lemma cleanup_wp:
  assumes "healthy w" and "de_store env = local_store root"
  shows "wp (deleteStorageWithCompensation env ks) (\<lambda>_ w'. db w' = db w \<and> unstored root ks w') w"
  using assms(2)
  by (auto simp: deleteStorageWithCompensation_def local_DeleteObjects_def recordCompensation_def CompRepo_Save_def
      unstored_def local_content_def resolve_safe intro!: wp_mono [OF delete_each_wp [OF assms(1)]] split: sum.splits)

definition deleted :: "int \<Rightarrow> string \<Rightarrow> database \<Rightarrow> world \<Rightarrow> bool" where
  "deleted i root d w \<longleftrightarrow> \<not> traces_of i (db w) \<and> others_kept i d (db w)
     \<and> (\<forall>v \<in> set (versions d). sv_SkillID v = i \<longrightarrow> (\<forall>f \<in> set (files (db w)). sf_VersionID f \<noteq> sv_ID v)
          \<and> (\<forall>f \<in> set (files d). sf_VersionID f = sv_ID v \<and> safe_key (sf_StorageKey f) \<and> anchored root \<longrightarrow> local_content root w (sf_StorageKey f) = None))"

lemma delete_tail_wp:
  assumes u: "healthy u" "versions (db u) = versions d" "files (db u) = files d" "distinct (map sv_ID (versions d))"
      "tags (db u) = delete_where (\<lambda>t. st_SkillID t = i) (tags d)"
      "\<forall>x \<in> set (skills d). sk_ID x \<noteq> i \<longrightarrow> x \<in> set (delete_where (\<lambda>x. sk_ID x = i) (skills (db u)))"
    and store: "de_store env = local_store root"
    and ks: "keys_listed d (order_desc sv_CreatedAt (filter (\<lambda>v. sv_SkillID v = i) (versions d))) ks"
  shows "wp (delete_versions (order_desc sv_CreatedAt (filter (\<lambda>v. sv_SkillID v = i) (versions d))))
     (\<lambda>_. wp (State_Monad.bind (SkillRepo_Delete i) (case_sum (\<lambda>e. fail (wrap ''skill: delete'' e))
        (\<lambda>_. State_Monad.bind (deleteStorageWithCompensation env ks) (\<lambda>_. ok ()))))
      (\<lambda>r w'. r = Inr () \<and> deleted i root d w')) u"
proof -
  let ?vs = "order_desc sv_CreatedAt (filter (\<lambda>v. sv_SkillID v = i) (versions d))"
  have vids: "sv_ID v \<in> sv_ID ` set ?vs \<longleftrightarrow> sv_SkillID v = i" if "v \<in> set (versions d)" for v
    using that u(4) by (auto simp: distinct_map inj_on_def)
  show ?thesis
  proof (rule wp_mono [OF delete_versions_wp [OF u(1)]], clarsimp simp: SkillRepo_Delete_def simp del: set_order_desc,
      rule wp_mono [OF cleanup_wp [OF _ store]], simp)
    fix w1 w2 :: world and r2
    assume "db w2 = db (set_db (db w1\<lparr>skills := delete_where (\<lambda>sa. sk_ID sa = i) (skills (db u))\<rparr>) (advance w1)) \<and> unstored root ks w2"
      and w1: "skills (db w1) = skills (db u)" "tags (db w1) = tags (db u)"
        "versions (db w1) = filter (\<lambda>v. sv_ID v \<notin> sv_ID ` set ?vs) (versions (db u))"
        "files (db w1) = filter (\<lambda>f. sf_VersionID f \<notin> sv_ID ` set ?vs) (files (db u))"
    then have d: "db w2 = db w1\<lparr>skills := delete_where (\<lambda>sa. sk_ID sa = i) (skills (db u))\<rparr>" and gone: "unstored root ks w2" by simp_all
    have "\<not> traces_of i (db w2)" using d w1 u vids by (auto simp: traces_of_def simp del: set_order_desc)
    moreover have "others_kept i d (db w2)" using d w1 u vids by (auto simp: others_kept_def simp del: set_order_desc)
    moreover have "\<forall>v \<in> set (versions d). sv_SkillID v = i \<longrightarrow> (\<forall>f \<in> set (files (db w2)). sf_VersionID f \<noteq> sv_ID v)"
      using d w1 u vids by (auto simp del: set_order_desc)
    moreover have "\<not> safe_key []" by (simp add: safe_key_def plain_def)
    then have "\<forall>v \<in> set (versions d). sv_SkillID v = i \<longrightarrow> (\<forall>f \<in> set (files d). sf_VersionID f = sv_ID v \<and> safe_key (sf_StorageKey f) \<and> anchored root
        \<longrightarrow> local_content root w2 (sf_StorageKey f) = None)"
      using ks gone unfolding keys_listed_def unstored_def by fastforce
    ultimately show "wp (ok ()) (\<lambda>r w'. r = Inr () \<and> deleted i root d w') w2" by (simp add: deleted_def)
  qed
qed



end
