(* ===== verification/Publish.thy ===== *)
theory Publish
  imports SkillAdmin Sha256 Slugify
begin

text \<open>
  \<open>skill/publish.go\<close>: from an extracted package to a skill, a version, its files in the store and
  their rows. \<open>publish_env\<close> holds the configured collaborators and the library functions that are
  parameters: the YAML decoder (inside the validator and for the parser), the Unicode part of
  \<open>Slugify\<close>, \<open>time.Format\<close>, the \<open>%q\<close> verb, the writer of \<open>archive/zip\<close> and the order in which
  a map is iterated. The service is given a transactor but never uses it.
\<close>

record PublishResult =
  pu_SkillID :: int
  pu_Slug :: string
  pu_Version :: SkillVersion

record DryRunResult =
  dy_Valid :: bool
  dy_Errors :: "string list"
  dy_Warnings :: "string list"
  dy_ResolvedSlug :: string
  dy_ResolvedVersion :: string

record publish_env =
  pb_store :: object_store
  pb_validator :: validator
  pb_yaml :: yaml_decoder
  pb_pre :: "PackageEntry list \<Rightarrow> SkillMetadata \<Rightarrow> string \<Rightarrow> int \<Rightarrow> ValidationResult"
  pb_hyph :: "string \<Rightarrow> string"
  pb_stamp :: "time \<Rightarrow> string"
  pb_quote :: "string \<Rightarrow> string"
  pb_zip :: zip_writer
  pb_order :: "frontmatter \<Rightarrow> frontmatter"

definition NoOpPrePublishValidator_Validate :: "PackageEntry list \<Rightarrow> SkillMetadata \<Rightarrow> string \<Rightarrow> int \<Rightarrow> ValidationResult" where
  "NoOpPrePublishValidator_Validate entries metadata publisherID namespaceID = \<lparr>vr_Errors = [], vr_Warnings = []\<rparr>"

section \<open>Helpers\<close>

definition assertNamespaceWritable :: "Namespace \<Rightarrow> err option" where
  "assertNamespaceWritable ns =
     (if ns_Status ns = ''FROZEN'' then Some (Errorf ''error.namespace.frozen %s'' [AStr (ns_Slug ns)])
      else if ns_Status ns = ''ARCHIVED'' then Some (Errorf ''error.namespace.archived %s'' [AStr (ns_Slug ns)])
      else None)"

definition resolveInitialStatus :: "bool \<Rightarrow> string \<Rightarrow> string" where
  "resolveInitialStatus autoPublish visibility =
     (if autoPublish then ''PUBLISHED'' else if visibility = ''PRIVATE'' then ''UPLOADED'' else ''PENDING_REVIEW'')"

definition buildBundle :: "zip_writer \<Rightarrow> PackageEntry list \<Rightarrow> string" where
  "buildBundle mkzip entries = mkzip (map (\<lambda>e. (pe_Path e, pe_Content e)) entries)"

definition dq :: string where
  "dq = [CHR 0x22]"

definition marshalSkillMetadata :: "(string \<Rightarrow> string) \<Rightarrow> SkillMetadata \<Rightarrow> string" where
  "marshalSkillMetadata quote m = CHR 0x7B # strings_Join '',''
     [dq @ ''name'' @ dq @ '':'' @ quote (md_Name m), dq @ ''description'' @ dq @ '':'' @ quote (md_Description m),
      dq @ ''version'' @ dq @ '':'' @ quote (md_Version m), dq @ ''body'' @ dq @ '':'' @ quote (md_Body m)] @ [CHR 0x7D]"

definition marshalManifest :: "(string \<Rightarrow> string) \<Rightarrow> PackageEntry list \<Rightarrow> string" where
  "marshalManifest quote entries = ''['' @ strings_Join '',''
     (map (\<lambda>e. CHR 0x7B # dq @ ''path'' @ dq @ '':'' @ quote (pe_Path e) @ '','' @ dq @ ''size'' @ dq @ '':'' @ itoa (pe_Size e)
        @ '','' @ dq @ ''contentType'' @ dq @ '':'' @ quote (pe_ContentType e) @ [CHR 0x7D]) entries) @ '']''"

definition find_skill_md :: "PackageEntry list \<Rightarrow> PackageEntry option" where
  "find_skill_md entries = find (\<lambda>e. pe_Path e = ''SKILL.md'') entries"

text \<open>The version a package names, or one made from the clock.\<close>

definition resolve_version :: "publish_env \<Rightarrow> SkillMetadata \<Rightarrow> (world, SkillMetadata) state" where
  "resolve_version env m =
     (if md_Version m = [] then do { t \<leftarrow> now; State_Monad.return (m\<lparr>md_Version := pb_stamp env t\<rparr>) }
      else State_Monad.return m)"

text \<open>The loop over the skills of that name: a published one of somebody else is a conflict.\<close>

fun name_conflict :: "string \<Rightarrow> Skill list \<Rightarrow> (world, bool) state" where
  "name_conflict publisherID [] = State_Monad.return False"
| "name_conflict publisherID (s # ss) =
     (if sk_OwnerID s = publisherID then name_conflict publisherID ss
      else do {
        r \<leftarrow> VersionRepo_FindBySkillIDAndStatus (sk_ID s) ''PUBLISHED'';
        (case r of Inr (_ # _) \<Rightarrow> State_Monad.return True | _ \<Rightarrow> name_conflict publisherID ss) })"

section \<open>Dry run\<close>

fun slug_errors :: "string \<Rightarrow> string \<Rightarrow> string \<Rightarrow> Skill list \<Rightarrow> (world, string list) state" where
  "slug_errors publisherID slug ver [] = State_Monad.return []"
| "slug_errors publisherID slug ver (s # ss) =
     (if sk_OwnerID s = publisherID then do {
        published \<leftarrow> (if ver = [] then State_Monad.return False
          else do { r \<leftarrow> VersionRepo_FindBySkillIDAndVersion (sk_ID s) ver;
            State_Monad.return (case r of Inr (Some v) \<Rightarrow> sv_Status v = ''PUBLISHED'' | _ \<Rightarrow> False) });
        rest \<leftarrow> slug_errors publisherID slug ver ss;
        State_Monad.return ((if sk_Status s = ''ARCHIVED'' then [''Cannot publish to archived skill: '' @ slug] else [])
          @ (if published then [''Version already published: '' @ ver] else []) @ rest) }
      else do {
        r \<leftarrow> VersionRepo_FindBySkillIDAndStatus (sk_ID s) ''PUBLISHED'';
        (case r of
          Inr (_ # _) \<Rightarrow> State_Monad.return [''Name conflict: slug '' @ dq @ slug @ dq @ '' is already published by another user'']
        | _ \<Rightarrow> slug_errors publisherID slug ver ss) })"

definition dry :: "string list \<Rightarrow> string list \<Rightarrow> string \<Rightarrow> string \<Rightarrow> DryRunResult" where
  "dry errors warnings slug ver = \<lparr>dy_Valid = False, dy_Errors = errors, dy_Warnings = warnings, dy_ResolvedSlug = slug, dy_ResolvedVersion = ver\<rparr>"

definition dry_conflicts :: "publish_env \<Rightarrow> Namespace \<Rightarrow> string \<Rightarrow> string list \<Rightarrow> string list \<Rightarrow> string \<Rightarrow> string \<Rightarrow> DryRunResult op" where
  "dry_conflicts env ns publisherID errors warnings slug ver = do {
     r \<leftarrow> (if slug \<noteq> [] \<and> errors = [] then do {
            r \<leftarrow> SkillRepo_FindByNamespaceIDAndSlug (ns_ID ns) slug;
            (case r of
              Inl e \<Rightarrow> fail (wrap ''skill: find existing'' e)
            | Inr ss \<Rightarrow> do { extra \<leftarrow> slug_errors publisherID slug ver ss; ok extra }) }
          else ok []);
     (case r of
       Inl e \<Rightarrow> fail e
     | Inr extra \<Rightarrow> ok ((dry (errors @ extra) warnings slug ver)\<lparr>dy_Valid := errors @ extra = [] \<and> warnings = []\<rparr>)) }"

definition dry_metadata :: "publish_env \<Rightarrow> Namespace \<Rightarrow> string \<Rightarrow> PackageEntry list \<Rightarrow> string list \<Rightarrow> string list \<Rightarrow> DryRunResult op" where
  "dry_metadata env ns publisherID entries errors warnings = (case find_skill_md entries of
     None \<Rightarrow> ok (dry (errors @ [''Missing required file: SKILL.md at root'']) warnings [] [])
   | Some md \<Rightarrow> (case Parse (pb_yaml env) (pe_Content md) of
       Inl e \<Rightarrow> ok (dry (errors @ [''Invalid SKILL.md: '' @ error_text e]) warnings [] [])
     | Inr m \<Rightarrow> do {
         m' \<leftarrow> resolve_version env m;
         (case Slugify (pb_hyph env) (md_Name m) of
           Inl e \<Rightarrow> ok (dry (errors @ [''Invalid skill name for slug generation: '' @ error_text e]) warnings [] (md_Version m'))
         | Inr slug \<Rightarrow>
           (let pre = pb_pre env entries m publisherID (ns_ID ns) in
            dry_conflicts env ns publisherID (errors @ vr_Errors pre) (warnings @ vr_Warnings pre) slug (md_Version m'))) }))"

definition ValidateOnly :: "publish_env \<Rightarrow> string \<Rightarrow> PackageEntry list \<Rightarrow> string \<Rightarrow> string \<Rightarrow> platform \<Rightarrow> DryRunResult op" where
  "ValidateOnly env namespaceSlug entries publisherID visibility pr = do {
     r \<leftarrow> NamespaceRepo_FindBySlug namespaceSlug;
     (case r of
       Inl e \<Rightarrow> fail (wrap ''skill: find namespace'' e)
     | Inr None \<Rightarrow> ok (dry [''Namespace not found: '' @ namespaceSlug] [] [] [])
     | Inr (Some ns) \<Rightarrow> do {
         stranger \<leftarrow> (if pr ''SUPER_ADMIN'' then State_Monad.return False
           else do { r \<leftarrow> MemberRepo_FindByNamespaceAndUser (ns_ID ns) publisherID;
             State_Monad.return (case r of Inr (Some _) \<Rightarrow> False | _ \<Rightarrow> True) });
         (let pkg = ValidatePackage (pb_validator env) entries;
              errors = (if ns_Status ns = ''FROZEN'' then [''Namespace is frozen: '' @ namespaceSlug] else [])
                @ (if ns_Status ns = ''ARCHIVED'' then [''Namespace is archived: '' @ namespaceSlug] else [])
                @ (if stranger then [''Publisher is not a member of namespace: '' @ namespaceSlug] else [])
                @ vr_Errors pkg
          in if \<not> Passed pkg then ok (dry errors (vr_Warnings pkg) [] [])
             else dry_metadata env ns publisherID entries errors (vr_Warnings pkg)) }) }"

section \<open>Publishing\<close>

text \<open>Steps 3 to 5: the checks on the package alone.\<close>

definition check_package :: "publish_env \<Rightarrow> int \<Rightarrow> string \<Rightarrow> PackageEntry list \<Rightarrow> bool \<Rightarrow> (SkillMetadata \<times> string) op" where
  "check_package env nsID publisherID entries confirmWarnings =
     (let pkg = ValidatePackage (pb_validator env) entries in
      if \<not> Passed pkg then fail (Errorf ''error.skill.publish.package.invalid %s'' [AStr (strings_Join '', '' (vr_Errors pkg))])
      else (case find_skill_md entries of
        None \<Rightarrow> fail (Errs ''skill: SKILL.md not found'')
      | Some md \<Rightarrow> (case Parse (pb_yaml env) (pe_Content md) of
          Inl e \<Rightarrow> fail (wrap ''skill: parse metadata'' e)
        | Inr m \<Rightarrow> do {
            m \<leftarrow> resolve_version env m;
            (case Slugify (pb_hyph env) (md_Name m) of
              Inl e \<Rightarrow> fail (wrap ''skill: slugify'' e)
            | Inr slug \<Rightarrow>
              (let pre = pb_pre env entries m publisherID nsID; warnings = vr_Warnings pkg @ vr_Warnings pre in
               if \<not> Passed pre then fail (Errorf ''error.skill.publish.precheck.failed %s'' [AStr (strings_Join '', '' (vr_Errors pre))])
               else if \<not> confirmWarnings \<and> warnings \<noteq> []
               then fail (Errorf ''error.skill.publish.precheck.confirmRequired %s'' [AStr (strings_Join '', '' warnings)])
               else ok (m, slug))) })))"

definition new_skill :: "int \<Rightarrow> string \<Rightarrow> string \<Rightarrow> string \<Rightarrow> time \<Rightarrow> Skill" where
  "new_skill nsID slug publisherID visibility t = \<lparr> sk_ID = 0, sk_NamespaceID = nsID, sk_Slug = slug, sk_DisplayName = [], sk_Summary = [],
     sk_OwnerID = publisherID, sk_SourceSkillID = None, sk_Visibility = visibility, sk_Status = ''ACTIVE'', sk_LatestVersionID = None,
     sk_DownloadCount = 0, sk_StarCount = 0, sk_RatingAvg = 0, sk_RatingCount = 0, sk_SubscriptionCount = 0, sk_Hidden = False,
     sk_HiddenAt = None, sk_HiddenBy = None, sk_CreatedBy = Some publisherID, sk_CreatedAt = t, sk_UpdatedBy = None, sk_UpdatedAt = t \<rparr>"

text \<open>Step 6: the publisher's skill of that name.\<close>

definition find_or_create_skill :: "int \<Rightarrow> string \<Rightarrow> string \<Rightarrow> string \<Rightarrow> Skill op" where
  "find_or_create_skill nsID slug publisherID visibility = do {
     r \<leftarrow> SkillRepo_FindByNamespaceIDAndSlug nsID slug;
     (case r of
       Inl e \<Rightarrow> fail (wrap ''skill: find existing'' e)
     | Inr ss \<Rightarrow> do {
         conflict \<leftarrow> name_conflict publisherID ss;
         (if conflict then fail (Errorf ''error.skill.publish.nameConflict %s'' [AStr slug])
          else do {
            r \<leftarrow> SkillRepo_FindByNamespaceIDSlugOwner nsID slug publisherID;
            (case r of
              Inl e \<Rightarrow> fail (wrap ''skill: find by owner'' e)
            | Inr (Some s) \<Rightarrow> ok s
            | Inr None \<Rightarrow> do {
                t \<leftarrow> now;
                r \<leftarrow> SkillRepo_Save (new_skill nsID slug publisherID visibility t);
                (case r of Inl e \<Rightarrow> fail (wrap ''skill: save'' e) | Inr s \<Rightarrow> ok s) }) }) }) }"

text \<open>Step 7: an unpublished version of the same name is deleted; the errors of that are dropped.\<close>

definition replace_version :: "int \<Rightarrow> string \<Rightarrow> unit op" where
  "replace_version skillID ver = do {
     r \<leftarrow> VersionRepo_FindBySkillIDAndVersion skillID ver;
     (case r of
       Inr (Some v) \<Rightarrow>
         if sv_Status v = ''PUBLISHED'' then fail (Errorf ''error.skill.version.exists %s'' [AStr ver])
         else do {
           _ \<leftarrow> FileRepo_DeleteByVersionID (sv_ID v);
           _ \<leftarrow> VersionRepo_Delete (sv_ID v);
           ok () }
     | _ \<Rightarrow> ok ()) }"

definition new_version :: "publish_env \<Rightarrow> int \<Rightarrow> SkillMetadata \<Rightarrow> PackageEntry list \<Rightarrow> string \<Rightarrow> bool \<Rightarrow> string \<Rightarrow> time \<Rightarrow> SkillVersion" where
  "new_version env skillID m entries publisherID autoPublish visibility t = \<lparr> sv_ID = 0, sv_SkillID = skillID, sv_Version = md_Version m,
     sv_Status = resolveInitialStatus autoPublish visibility, sv_Changelog = [],
     sv_ParsedMetadataJSON = Some (marshalSkillMetadata (pb_quote env) m), sv_ManifestJSON = Some (marshalManifest (pb_quote env) entries),
     sv_RequestedVisibility = None, sv_FileCount = 0, sv_TotalSize = 0, sv_BundleReady = False, sv_DownloadReady = False,
     sv_PublishedAt = (if autoPublish then Some t else None), sv_YankedAt = None, sv_YankedBy = None, sv_YankReason = None,
     sv_CreatedBy = publisherID, sv_CreatedAt = t \<rparr>"

definition new_file :: "int \<Rightarrow> int \<Rightarrow> PackageEntry \<Rightarrow> time \<Rightarrow> SkillFile" where
  "new_file skillID versionID e t = \<lparr> sf_ID = 0, sf_VersionID = versionID, sf_FilePath = pe_Path e, sf_FileSize = pe_Size e,
     sf_ContentType = pe_ContentType e, sf_SHA256 = EncodeToString (Sum256 (pe_Content e)),
     sf_StorageKey = storage_key skillID versionID (pe_Path e), sf_CreatedAt = t \<rparr>"

text \<open>Step 9: every entry goes to the store, and gets its row.\<close>

fun upload_entries :: "object_store \<Rightarrow> int \<Rightarrow> int \<Rightarrow> PackageEntry list \<Rightarrow> SkillFile list op" where
  "upload_entries store skillID versionID [] = ok []"
| "upload_entries store skillID versionID (e # es) = do {
     r \<leftarrow> os_Put store (storage_key skillID versionID (pe_Path e)) (pe_Content e);
     (case r of
       Inl x \<Rightarrow> fail (Wrapf ''skill: upload %s'' [AStr (pe_Path e)] x)
     | Inr _ \<Rightarrow> do {
         t \<leftarrow> now;
         r \<leftarrow> upload_entries store skillID versionID es;
         (case r of Inl x \<Rightarrow> fail x | Inr fs \<Rightarrow> ok (new_file skillID versionID e t # fs)) }) }"

definition published_skill :: "SkillMetadata \<Rightarrow> int \<Rightarrow> bool \<Rightarrow> string \<Rightarrow> string \<Rightarrow> time \<Rightarrow> Skill \<Rightarrow> Skill" where
  "published_skill m versionID autoPublish visibility publisherID t s =
     (let s = s\<lparr>sk_DisplayName := md_Name m, sk_Summary := md_Description m\<rparr>;
          s = (if autoPublish \<or> visibility = ''PRIVATE'' then s\<lparr>sk_LatestVersionID := Some versionID, sk_Visibility := visibility\<rparr> else s)
      in s\<lparr>sk_UpdatedBy := Some publisherID, sk_UpdatedAt := t\<rparr>)"

text \<open>Steps 8 to 12.\<close>

definition store_version :: "publish_env \<Rightarrow> Skill \<Rightarrow> SkillMetadata \<Rightarrow> PackageEntry list \<Rightarrow> string \<Rightarrow> string \<Rightarrow> bool \<Rightarrow> PublishResult op" where
  "store_version env s m entries publisherID visibility autoPublish = do {
     t \<leftarrow> now;
     r \<leftarrow> VersionRepo_Save (new_version env (sk_ID s) m entries publisherID autoPublish visibility t);
     (case r of
       Inl e \<Rightarrow> fail (wrap ''skill: save version'' e)
     | Inr v \<Rightarrow> do {
         r \<leftarrow> upload_entries (pb_store env) (sk_ID s) (sv_ID v) entries;
         (case r of
           Inl e \<Rightarrow> fail e
         | Inr fs \<Rightarrow> do {
             r \<leftarrow> FileRepo_SaveAll fs;
             (case r of
               Inl e \<Rightarrow> fail (wrap ''skill: save files'' e)
             | Inr _ \<Rightarrow> do {
                 r \<leftarrow> os_Put (pb_store env) (bundle_key (sk_ID s) (sv_ID v)) (buildBundle (pb_zip env) entries);
                 (case r of
                   Inl e \<Rightarrow> fail (wrap ''skill: upload bundle'' e)
                 | Inr _ \<Rightarrow> do {
                     r \<leftarrow> VersionRepo_Save (v\<lparr>sv_FileCount := int (length fs), sv_TotalSize := total_size entries,
                       sv_BundleReady := True, sv_DownloadReady := fs \<noteq> []\<rparr>);
                     (case r of
                       Inl e \<Rightarrow> fail (wrap ''skill: update version stats'' e)
                     | Inr v \<Rightarrow> do {
                         t \<leftarrow> now;
                         r \<leftarrow> SkillRepo_Save (published_skill m (sv_ID v) autoPublish visibility publisherID t s);
                         (case r of
                           Inl e \<Rightarrow> fail (wrap ''skill: save skill'' e)
                         | Inr _ \<Rightarrow> ok \<lparr>pu_SkillID = sk_ID s, pu_Slug = sk_Slug s, pu_Version = v\<rparr>) }) }) }) }) }) }"

definition publish_skill :: "publish_env \<Rightarrow> Namespace \<Rightarrow> PackageEntry list \<Rightarrow> string \<Rightarrow> string \<Rightarrow> bool \<Rightarrow> bool \<Rightarrow> PublishResult op" where
  "publish_skill env ns entries publisherID visibility confirmWarnings autoPublish = do {
     r \<leftarrow> check_package env (ns_ID ns) publisherID entries confirmWarnings;
     (case r of
       Inl e \<Rightarrow> fail e
     | Inr (m, slug) \<Rightarrow> do {
         r \<leftarrow> find_or_create_skill (ns_ID ns) slug publisherID visibility;
         (case r of
           Inl e \<Rightarrow> fail e
         | Inr s \<Rightarrow>
           if sk_Status s = ''ARCHIVED'' then fail (Errorf ''error.skill.publish.archived %s'' [AStr slug])
           else do {
             r \<leftarrow> replace_version (sk_ID s) (md_Version m);
             (case r of
               Inl e \<Rightarrow> fail e
             | Inr _ \<Rightarrow> store_version env s m entries publisherID visibility autoPublish) }) }) }"

definition publishInternal :: "publish_env \<Rightarrow> string \<Rightarrow> PackageEntry list \<Rightarrow> string \<Rightarrow> string \<Rightarrow> platform \<Rightarrow> bool \<Rightarrow> bool \<Rightarrow> bool \<Rightarrow> PublishResult op" where
  "publishInternal env namespaceSlug entries publisherID visibility pr confirmWarnings forceAutoPublish bypassMembershipCheck = do {
     r \<leftarrow> NamespaceRepo_FindBySlug namespaceSlug;
     (case r of
       Inl e \<Rightarrow> fail (wrap ''skill: find namespace'' e)
     | Inr None \<Rightarrow> fail (Errorf ''skill: namespace not found: %s'' [AStr namespaceSlug])
     | Inr (Some ns) \<Rightarrow> (case assertNamespaceWritable ns of
         Some e \<Rightarrow> fail e
       | None \<Rightarrow> do {
           stranger \<leftarrow> (if pr ''SUPER_ADMIN'' \<or> bypassMembershipCheck then State_Monad.return False
             else do { r \<leftarrow> MemberRepo_FindByNamespaceAndUser (ns_ID ns) publisherID;
               State_Monad.return (case r of Inr (Some _) \<Rightarrow> False | _ \<Rightarrow> True) });
           (if stranger then fail (Errorf ''skill: publisher not member of namespace: %s'' [AStr namespaceSlug])
            else publish_skill env ns entries publisherID visibility confirmWarnings (forceAutoPublish \<or> pr ''SUPER_ADMIN'')) })) }"

definition Publish :: "publish_env \<Rightarrow> string \<Rightarrow> PackageEntry list \<Rightarrow> string \<Rightarrow> string \<Rightarrow> platform \<Rightarrow> bool \<Rightarrow> PublishResult op" where
  "Publish env namespaceSlug entries publisherID visibility pr confirmWarnings =
     publishInternal env namespaceSlug entries publisherID visibility pr confirmWarnings False False"

section \<open>Rerelease\<close>

definition nl :: string where
  "nl = [CHR 0x0A]"

definition rewriteSkillMdVersion :: "publish_env \<Rightarrow> string \<Rightarrow> string \<Rightarrow> string" where
  "rewriteSkillMdVersion env content targetVersion = (case Parse (pb_yaml env) content of
     Inl _ \<Rightarrow> content
   | Inr m \<Rightarrow> (let fm = AList.update ''version'' (YText targetVersion) (md_Frontmatter m) in
       strings_Join nl (''---'' # map (\<lambda>(k, v). k @ '': '' @ show_yval v) (pb_order env fm) @ [''---'', md_Body m]) @ nl))"

text \<open>Reading an opened object to its end.\<close>

definition read_all :: "string \<Rightarrow> string op" where
  "read_all data = fs_read (\<lambda>_. data)"

fun rebuild_entries :: "publish_env \<Rightarrow> string \<Rightarrow> SkillFile list \<Rightarrow> PackageEntry list op" where
  "rebuild_entries env targetVersion [] = ok []"
| "rebuild_entries env targetVersion (f # fs) = do {
     r \<leftarrow> os_Get (pb_store env) (sf_StorageKey f);
     (case r of
       Inl e \<Rightarrow> fail (Wrapf ''skill: get object %s'' [AStr (sf_StorageKey f)] e)
     | Inr data \<Rightarrow> do {
         r \<leftarrow> read_all data;
         (case r of
           Inl e \<Rightarrow> fail e
         | Inr data \<Rightarrow> do {
             r \<leftarrow> rebuild_entries env targetVersion fs;
             (case r of
               Inl e \<Rightarrow> fail e
             | Inr es \<Rightarrow>
               (let content = (if sf_FilePath f = ''SKILL.md'' then rewriteSkillMdVersion env data targetVersion else data) in
                ok (\<lparr>pe_Path = sf_FilePath f, pe_Content = content, pe_Size = int (length content),
                  pe_ContentType = (if sf_ContentType f = [] then ''application/octet-stream'' else sf_ContentType f)\<rparr> # es))) }) }) }"

definition rebuildEntriesForRerelease :: "publish_env \<Rightarrow> int \<Rightarrow> string \<Rightarrow> PackageEntry list op" where
  "rebuildEntriesForRerelease env versionID targetVersion = do {
     r \<leftarrow> FileRepo_FindByVersionID versionID;
     (case r of Inl e \<Rightarrow> fail e | Inr fs \<Rightarrow> rebuild_entries env targetVersion fs) }"

definition RereleasePublishedVersion :: "publish_env \<Rightarrow> int \<Rightarrow> string \<Rightarrow> string \<Rightarrow> string \<Rightarrow> roles \<Rightarrow> bool \<Rightarrow> PublishResult op" where
  "RereleasePublishedVersion env skillID sourceVersion targetVersion publisherID rs confirmWarnings = do {
     r \<leftarrow> SkillRepo_FindByID skillID;
     (case r of
       Inl e \<Rightarrow> fail (wrap ''skill: find'' e)
     | Inr None \<Rightarrow> fail (Errs ''skill: not found'')
     | Inr (Some s) \<Rightarrow>
       if \<not> canManageSkillLifecycle s publisherID rs then fail (Errs ''skill: lifecycle permission denied'')
       else do {
         r \<leftarrow> VersionRepo_FindBySkillIDAndVersion skillID sourceVersion;
         (case r of
           Inl e \<Rightarrow> fail (wrap ''skill: find source version'' e)
         | Inr None \<Rightarrow> fail (Errorf ''skill: source version not published: %s'' [AStr sourceVersion])
         | Inr (Some source) \<Rightarrow>
           if sv_Status source \<noteq> ''PUBLISHED'' then fail (Errorf ''skill: source version not published: %s'' [AStr sourceVersion])
           else do {
             dup \<leftarrow> VersionRepo_FindBySkillIDAndVersion skillID targetVersion;
             (case dup of
               Inr (Some _) \<Rightarrow> fail (Errorf ''skill: target version already exists: %s'' [AStr targetVersion])
             | _ \<Rightarrow> do {
                 r \<leftarrow> rebuildEntriesForRerelease env (sv_ID source) targetVersion;
                 (case r of
                   Inl e \<Rightarrow> fail (wrap ''skill: rebuild entries'' e)
                 | Inr entries \<Rightarrow> do {
                     r \<leftarrow> NamespaceRepo_FindByID (sk_NamespaceID s);
                     (case r of
                       Inl e \<Rightarrow> fail (wrap ''skill: find namespace'' e)
                     | Inr None \<Rightarrow> fail (Errs ''skill: namespace not found'')
                     | Inr (Some ns) \<Rightarrow>
                       publishInternal env (ns_Slug ns) entries publisherID (sk_Visibility s) no_platform confirmWarnings False True) }) }) }) }) }"

section \<open>What a publication leaves behind\<close>

text \<open>The columns of a file row that are given by the publisher.\<close>

definition file_data :: "SkillFile \<Rightarrow> int \<times> string \<times> int \<times> string \<times> string \<times> string" where
  "file_data f = (sf_VersionID f, sf_FilePath f, sf_FileSize f, sf_ContentType f, sf_SHA256 f, sf_StorageKey f)"

definition entry_data :: "int \<Rightarrow> int \<Rightarrow> PackageEntry \<Rightarrow> int \<times> string \<times> int \<times> string \<times> string \<times> string" where
  "entry_data s v e = (v, pe_Path e, pe_Size e, pe_ContentType e, EncodeToString (Sum256 (pe_Content e)), storage_key s v (pe_Path e))"

definition stored_package :: "string \<Rightarrow> zip_writer \<Rightarrow> PackageEntry list \<Rightarrow> int \<Rightarrow> int \<Rightarrow> world \<Rightarrow> bool" where
  "stored_package root mkzip entries s v w \<longleftrightarrow>
     (\<forall>e \<in> set entries. (\<exists>f \<in> set (files (db w)). file_data f = entry_data s v e)
        \<and> local_content root w (storage_key s v (pe_Path e)) = Some (pe_Content e))
     \<and> local_content root w (bundle_key s v) = Some (buildBundle mkzip entries)"

lemma file_data_new [simp]: "file_data (new_file s v e t) = entry_data s v e"
  by (simp add: new_file_def file_data_def entry_data_def)

lemma safe_key_path: "safe_key k = safe_path k"
  by (simp add: safe_key_def safe_path_def)

lemma split_storage_key: "split_on slash (storage_key s v p) = ''skills'' # itoa s # itoa v # split_on slash p"
  unfolding storage_key_comps by (rule split_join) (use itoa_plain split_no_slash in auto)

lemma safe_storage_key: "safe_path p \<Longrightarrow> safe_key (storage_key s v p)"
  using itoa_plain by (simp add: safe_key_def split_storage_key safe_path_def) (simp add: plain_def dot_def dotdot_def)

lemma split_bundle_key: "split_on slash (bundle_key s v) = [''packages'', itoa s, itoa v, ''bundle.zip'']"
proof -
  have "bundle_key s v = join_on slash [''packages'', itoa s, itoa v, ''bundle.zip'']" by (simp add: bundle_key_def)
  then show ?thesis by (simp only:) (rule split_join, use itoa_plain in auto)
qed

lemma safe_bundle_key: "safe_key (bundle_key s v)"
  using itoa_plain by (simp add: safe_key_def split_bundle_key) (simp add: plain_def dot_def dotdot_def)

lemma bundle_is_no_file: "bundle_key s v \<noteq> storage_key s' v' p"
  by (simp add: bundle_key_def storage_key_def)

lemma storage_key_inj: "storage_key s v a = storage_key s v b \<Longrightarrow> a = b"
  by (simp add: storage_key_def)

text \<open>What the validator guarantees about the paths.\<close>

lemma passed_paths:
  assumes "Passed (ValidatePackage v es)"
  shows "distinct (map pe_Path es)" "\<forall>e \<in> set es. safe_path (pe_Path e)"
proof -
  have "sc_Errors (scan_entries es) = []"
    using assms by (auto simp: ValidatePackage_def Passed_def Let_def split: option.splits)
  then have c: "None \<notin> set (map canonical es)" "distinct (map canonical es)" by (simp_all add: scan_errors)
  have "canonical e = (case NormalizeEntryPath (pe_Path e) of Inl _ \<Rightarrow> None | Inr p \<Rightarrow> Some p)" for e by (simp add: canonical_def)
  then have "map canonical es = map (\<lambda>p. case NormalizeEntryPath p of Inl _ \<Rightarrow> None | Inr p \<Rightarrow> Some p) (map pe_Path es)" by simp
  then show "distinct (map pe_Path es)" using c(2) by (metis distinct_map)
  show "\<forall>e \<in> set es. safe_path (pe_Path e)"
  proof
    fix e assume "e \<in> set es"
    then have "canonical e \<noteq> None" using c(1) by force
    then obtain p where "NormalizeEntryPath (pe_Path e) = Inr p" by (auto simp: canonical_def split: sum.splits)
    then show "safe_path (pe_Path e)" by (rule raw_safe)
  qed
qed

lemma upload_wp:
  assumes "anchored root" and "\<forall>e \<in> set es. safe_path (pe_Path e)" and "distinct (map pe_Path es)"
    and "\<And>fs w'. db w' = db w \<Longrightarrow> map file_data fs = map (entry_data s v) es
       \<Longrightarrow> (\<forall>e \<in> set es. local_content root w' (storage_key s v (pe_Path e)) = Some (pe_Content e))
       \<Longrightarrow> (\<forall>j. safe_key j \<and> j \<notin> (\<lambda>e. storage_key s v (pe_Path e)) ` set es \<longrightarrow> local_content root w' j = local_content root w j)
       \<Longrightarrow> Q (Inr fs) w'"
    and "\<And>e w'. db w' = db w \<Longrightarrow> Q (Inl e) w'"
  shows "wp (upload_entries (local_store root) s v es) Q w"
  using assms(2-)
proof (induction es arbitrary: w Q)
  case Nil
  then show ?case by simp
next
  case (Cons e es)
  let ?k = "storage_key s v (pe_Path e)"
  have k: "anchored root \<and> safe_key ?k" using Cons.prems(1) assms(1) by (simp add: safe_storage_key)
  have fresh: "?k \<notin> (\<lambda>e. storage_key s v (pe_Path e)) ` set es" using Cons.prems(2) storage_key_inj by force
  show ?case
    unfolding upload_entries.simps wp_bind
  proof (rule local.put_wp [OF k])
    fix w1 :: world
    assume w1: "db w1 = db w" "local_content root w1 ?k = Some (pe_Content e)"
      and others: "\<And>j. anchored root \<and> safe_key j \<Longrightarrow> j \<noteq> ?k \<Longrightarrow> local_content root w1 j = local_content root w j"
    have adv: "local_content root (advance w1) = local_content root w1" by (rule local.frame) simp
    show "wp (case Inr () of Inl x \<Rightarrow> fail (Wrapf ''skill: upload %s'' [AStr (pe_Path e)] x)
       | Inr _ \<Rightarrow> do { t \<leftarrow> now; r \<leftarrow> upload_entries (local_store root) s v es;
           (case r of Inl x \<Rightarrow> fail x | Inr fs \<Rightarrow> ok (new_file s v e t # fs)) }) Q w1"
      unfolding sum.case wp_bind wp_now
    proof (rule Cons.IH)
      fix fs and w2 :: world
      assume a: "db w2 = db (advance w1)" "map file_data fs = map (entry_data s v) es"
        "\<forall>e \<in> set es. local_content root w2 (storage_key s v (pe_Path e)) = Some (pe_Content e)"
        "\<forall>j. safe_key j \<and> j \<notin> (\<lambda>e. storage_key s v (pe_Path e)) ` set es \<longrightarrow> local_content root w2 j = local_content root (advance w1) j"
      have stored: "\<forall>x \<in> set (e # es). local_content root w2 (storage_key s v (pe_Path x)) = Some (pe_Content x)"
        using a(3,4) k fresh w1(2) adv by simp
      have kept: "\<forall>j. safe_key j \<and> j \<notin> (\<lambda>e. storage_key s v (pe_Path e)) ` set (e # es) \<longrightarrow> local_content root w2 j = local_content root w j"
        using a(4) others assms(1) adv by simp
      have "Q (Inr (new_file s v e t # fs)) w2" for t
        by (rule Cons.prems(3) [OF _ _ stored kept]) (use a(1,2) w1(1) in simp_all)
      then show "wp (case Inr fs of Inl x \<Rightarrow> fail x | Inr fs \<Rightarrow> ok (new_file s v e (clock w1 (tick w1)) # fs)) Q w2" by simp
    qed (use Cons.prems w1 in auto)
  qed (use Cons.prems(4) in simp)
qed

lemma save_files_result:
  assumes "\<And>rows w'. db w' = (db w)\<lparr>files := files (db w) @ rows\<rparr> \<Longrightarrow> map file_data rows = map file_data fs
       \<Longrightarrow> objects w' = objects w \<Longrightarrow> Q (Inr rows) w'"
    and "\<And>e w'. Q (Inl e) w'"
  shows "wp (save_files fs t) Q w"
  using assms
proof (induction fs arbitrary: w Q)
  case Nil
  then show ?case by simp
next
  case (Cons f fs)
  show ?case
    by (auto simp: insert_file_def Let_def Cons.prems(2) file_data_def intro!: Cons.IH Cons.prems(1))
qed


text \<open>The rows a publication leaves.\<close>

definition publication :: "string \<Rightarrow> zip_writer \<Rightarrow> PackageEntry list \<Rightarrow> string \<Rightarrow> bool \<Rightarrow> PublishResult \<Rightarrow> world \<Rightarrow> bool" where
  "publication root mkzip entries visibility autoPublish res w \<longleftrightarrow>
     (\<exists>v \<in> set (versions (db w)). sv_ID v = sv_ID (pu_Version res) \<and> sv_SkillID v = pu_SkillID res
        \<and> sv_Status v = resolveInitialStatus autoPublish visibility \<and> sv_FileCount v = int (length entries)
        \<and> sv_TotalSize v = total_size entries \<and> sv_YankedAt v = None)
     \<and> (\<exists>s \<in> set (skills (db w)). sk_Slug s = pu_Slug res
        \<and> (autoPublish \<or> visibility = ''PRIVATE'' \<longrightarrow> sk_LatestVersionID s = Some (sv_ID (pu_Version res)) \<and> sk_Visibility s = visibility))
     \<and> stored_package root mkzip entries (pu_SkillID res) (sv_ID (pu_Version res)) w"

lemma version_stored:
  fixes v :: SkillVersion
  shows "svt.stored (sv_row v t i) vs \<in> set (svt.save (sv_row v t i) vs)"
    "sv_SkillID (svt.stored (sv_row v t i) vs) = sv_SkillID v"
    "sv_Status (svt.stored (sv_row v t i) vs) = sv_Status v" "sv_FileCount (svt.stored (sv_row v t i) vs) = sv_FileCount v"
    "sv_TotalSize (svt.stored (sv_row v t i) vs) = sv_TotalSize v" "sv_YankedAt (svt.stored (sv_row v t i) vs) = sv_YankedAt v"
proof -
  show "svt.stored (sv_row v t i) vs \<in> set (svt.save (sv_row v t i) vs)" by (rule svt.stored_in)
  have "sv_key (svt.stored (sv_row v t i) vs) = sv_key v" by (simp add: svt.key_stored)
  then show "sv_SkillID (svt.stored (sv_row v t i) vs) = sv_SkillID v" by (simp add: sv_key_def)
qed (rule svt.stored_field [THEN trans]; simp add: sv_merge_def sv_row_def)+

text \<open>Saving the same version again keeps its id.\<close>

lemma version_saved_again:
  assumes "sv_key x = sv_key v"
  shows "sv_ID (svt.stored (sv_row x t i) (svt.save (sv_row v t' i') vs)) = sv_ID (svt.stored (sv_row v t' i') vs)"
proof -
  let ?r = "sv_row v t' i'"
  have "find (\<lambda>r. sv_key r = sv_key ?r) (svt.save ?r vs) = Some (svt.stored ?r vs)"
    using svt.lookup_save_same [of ?r vs] by (simp add: svt.lookup_def)
  then show ?thesis using assms by (simp add: svt.stored_def upserted_def sv_merge_def)
qed

lemma skill_stored:
  fixes s :: Skill
  shows "skt.stored (sk_row s t i) ss \<in> set (skt.save (sk_row s t i) ss)" "sk_Slug (skt.stored (sk_row s t i) ss) = sk_Slug s"
    "sk_LatestVersionID (skt.stored (sk_row s t i) ss) = sk_LatestVersionID s" "sk_Visibility (skt.stored (sk_row s t i) ss) = sk_Visibility s"
proof -
  show "skt.stored (sk_row s t i) ss \<in> set (skt.save (sk_row s t i) ss)" by (rule skt.stored_in)
  have "sk_key (skt.stored (sk_row s t i) ss) = sk_key s" by (simp add: skt.key_stored)
  then show "sk_Slug (skt.stored (sk_row s t i) ss) = sk_Slug s" by (simp add: sk_key_def)
qed (rule skt.stored_field [THEN trans]; simp add: sk_merge_def)+

lemma publicationI:
  fixes nv t1 i1 vs fs entries
  defines "v1 \<equiv> sv_row nv t1 (sv_ID (svt.stored (sv_row nv t1 i1) vs))"
  defines "v2 \<equiv> v1\<lparr>sv_FileCount := int (length fs), sv_TotalSize := total_size entries, sv_BundleReady := True, sv_DownloadReady := fs \<noteq> []\<rparr>"
  defines "vs1 \<equiv> svt.save (sv_row nv t1 i1) vs"
  assumes nv: "sv_SkillID nv = sk_ID s" "sv_Status nv = resolveInitialStatus auto visibility" "sv_YankedAt nv = None"
    and fs: "map file_data fs = map (entry_data (sk_ID s) (sv_ID v1)) entries" "map file_data rows = map (entry_data (sk_ID s) (sv_ID v1)) entries"
    and d: "files (db w') = F @ rows" "versions (db w') = svt.save (sv_row v2 t2 i2) vs1"
      "skills (db w') = skt.save (sk_row (published_skill m (sv_ID (svt.stored (sv_row v2 t2 i2) vs1)) auto visibility publisher t3 s) t4 i4) S"
    and c: "objects w' = objects u" "\<forall>e \<in> set entries. local_content root u (storage_key (sk_ID s) (sv_ID v1) (pe_Path e)) = Some (pe_Content e)"
      "local_content root u (bundle_key (sk_ID s) (sv_ID v1)) = Some (buildBundle mkzip entries)"
  shows "publication root mkzip entries visibility auto
     \<lparr>pu_SkillID = sk_ID s, pu_Slug = sk_Slug s, pu_Version = sv_row v2 t2 (sv_ID (svt.stored (sv_row v2 t2 i2) vs1))\<rparr> w'"
proof -
  have key: "sv_key v2 = sv_key nv" by (simp add: v2_def v1_def sv_key_def)
  have id: "sv_ID (svt.stored (sv_row v2 t2 i2) vs1) = sv_ID v1"
    unfolding vs1_def using version_saved_again [OF key] by (simp add: v1_def)
  have v2: "sv_SkillID v2 = sk_ID s" "sv_Status v2 = resolveInitialStatus auto visibility" "sv_YankedAt v2 = None"
      "sv_FileCount v2 = int (length fs)" "sv_TotalSize v2 = total_size entries"
    by (simp_all add: v2_def v1_def nv) (simp add: sv_row_def nv)
  have len: "length fs = length entries" using arg_cong [OF fs(1), of length] by simp
  have "stored_package root mkzip entries (sk_ID s) (sv_ID v1) w'"
  proof -
    have "\<exists>f \<in> set (files (db w')). file_data f = entry_data (sk_ID s) (sv_ID v1) e" if "e \<in> set entries" for e
    proof -
      have "entry_data (sk_ID s) (sv_ID v1) e \<in> file_data ` set rows" using that arg_cong [OF fs(2), of set] by auto
      then show ?thesis by (auto simp: d)
    qed
    then show ?thesis using c(2,3) by (simp add: stored_package_def local.frame [OF c(1)])
  qed
  moreover have "\<exists>v \<in> set (versions (db w')). sv_ID v = sv_ID v1 \<and> sv_SkillID v = sk_ID s
        \<and> sv_Status v = resolveInitialStatus auto visibility \<and> sv_FileCount v = int (length entries)
        \<and> sv_TotalSize v = total_size entries \<and> sv_YankedAt v = None"
    by (rule bexI [of _ "svt.stored (sv_row v2 t2 i2) vs1"])
      (simp_all add: id d version_stored v2 len)
  moreover have "\<exists>s' \<in> set (skills (db w')). sk_Slug s' = sk_Slug s
        \<and> (auto \<or> visibility = ''PRIVATE'' \<longrightarrow> sk_LatestVersionID s' = Some (sv_ID v1) \<and> sk_Visibility s' = visibility)"
    by (rule bexI [of _ "skt.stored (sk_row (published_skill m (sv_ID (svt.stored (sv_row v2 t2 i2) vs1)) auto visibility publisher t3 s) t4 i4) S"])
      (simp_all add: d skill_stored, simp add: published_skill_def Let_def id)
  ultimately show ?thesis by (simp add: publication_def id)
qed

lemma new_version_simps [simp]:
  "sv_SkillID (new_version env s m es p a vis t) = s" "sv_Status (new_version env s m es p a vis t) = resolveInitialStatus a vis"
  "sv_YankedAt (new_version env s m es p a vis t) = None" "sv_Version (new_version env s m es p a vis t) = md_Version m"
  by (simp_all add: new_version_def)

lemma store_version_wp:
  assumes "pb_store env = local_store root" and "anchored root" and "\<forall>e \<in> set entries. safe_path (pe_Path e)" and "distinct (map pe_Path entries)"
  shows "wp (store_version env s m entries publisher visibility auto)
     (\<lambda>r w'. \<forall>res. r = Inr res \<longrightarrow> publication root (pb_zip env) entries visibility auto res w') w"
proof -
  let ?Q = "\<lambda>r w'. \<forall>res. r = Inr res \<longrightarrow> publication root (pb_zip env) entries visibility auto res w'"
  have bkey: "anchored root \<and> safe_key (bundle_key a b)" for a b using assms(2) safe_bundle_key by simp
  show ?thesis
    unfolding store_version_def wp_bind wp_now
    apply (simp add: assms(1) Let_def del: local_store_simps)
    apply (intro impI conjI)
    apply (rule upload_wp [OF assms(2-4)])
     prefer 2 apply simp
    apply (simp add: FileRepo_SaveAll_def del: local_store_simps)
    apply (rule save_files_result)
     prefer 2 apply simp
    apply (simp del: local_store_simps)
    apply (rule local.put_wp [OF bkey])
     prefer 2 apply simp
    apply (simp add: Let_def)
    apply (intro impI)
    subgoal premises p for fs w1 rows w2 w3
    proof (rule publicationI [where rows = rows and S = "skills (db w)" and F = "files (db w)" and u = w3])
      have "local_content root w3 (storage_key a b (pe_Path e)) = local_content root w1 (storage_key a b (pe_Path e))"
        if "e \<in> set entries" for a b e
        using p(13) [of "storage_key a b (pe_Path e)"] that assms(2,3) bundle_is_no_file local.frame [OF p(8)]
        by (metis safe_storage_key)
      then show "\<forall>e \<in> set entries. local_content root w3 (storage_key (sk_ID s) (sv_ID (sv_row (new_version env (sk_ID s) m entries publisher auto visibility (clock w (tick w)))
          (clock w (tick (advance w))) (sv_ID (svt.stored (sv_row (new_version env (sk_ID s) m entries publisher auto visibility (clock w (tick w)))
            (clock w (tick (advance w))) (next_id ''skill_version_id_seq'' w)) (versions (db w)))))) (pe_Path e)) = Some (pe_Content e)"
        using p(4) by simp
    qed (use p in simp_all)
    done
qed


lemma check_package_wp:
  assumes "\<And>m slug w'. Passed (ValidatePackage (pb_validator env) entries) \<Longrightarrow> db w' = db w \<Longrightarrow> Q (Inr (m, slug)) w'"
    and "\<And>e w'. Q (Inl e) w'"
  shows "wp (check_package env nsID publisher entries confirm) Q w"
  unfolding check_package_def Let_def resolve_version_def
  by (simp add: assms split: option.splits sum.splits)

text \<open>C11: whatever fails on the way, a publication that is reported as done is complete: the package has
  passed the validator, the version row has the size, file count and status the rules give it, every
  entry has its row with the SHA-256 of its content and is stored byte for byte under its own key,
  the bundle is stored, and an auto-published or PRIVATE version is the skill's latest one.\<close>

theorem publish_is_complete:
  assumes "pb_store env = local_store root" and "anchored root"
    and "run_state (publishInternal env nsSlug entries publisher visibility pr confirm force bypass) w = (Inr res, w')"
  shows "publication root (pb_zip env) entries visibility (force \<or> pr ''SUPER_ADMIN'') res w'
    \<and> Passed (ValidatePackage (pb_validator env) entries)"
proof -
  define auto where "auto \<longleftrightarrow> force \<or> pr ''SUPER_ADMIN''"
  let ?Q = "\<lambda>r w'. \<forall>res. r = Inr res \<longrightarrow> publication root (pb_zip env) entries visibility auto res w'
    \<and> Passed (ValidatePackage (pb_validator env) entries)"
  have pub: "wp (publish_skill env ns entries publisher visibility confirm auto) ?Q u" for ns u
    unfolding publish_skill_def wp_bind
  proof (rule check_package_wp)
    fix m slug and v :: world
    assume ok: "Passed (ValidatePackage (pb_validator env) entries)"
    have st: "wp (store_version env s m entries publisher visibility auto) ?Q x" for s x
      by (rule wp_mono [OF store_version_wp [OF assms(1,2) passed_paths(2,1) [OF ok]]]) (simp add: ok)
    show "wp (case Inr (m, slug) of Inl e \<Rightarrow> fail e
       | Inr (m, slug) \<Rightarrow> do { r \<leftarrow> find_or_create_skill (ns_ID ns) slug publisher visibility;
         (case r of Inl e \<Rightarrow> fail e
         | Inr s \<Rightarrow> if sk_Status s = ''ARCHIVED'' then fail (Errorf ''error.skill.publish.archived %s'' [AStr slug])
           else do { r \<leftarrow> replace_version (sk_ID s) (md_Version m);
             (case r of Inl e \<Rightarrow> fail e | Inr _ \<Rightarrow> store_version env s m entries publisher visibility auto) }) }) ?Q v"
      by (simp del: wp_bind) (intro wp_then; simp add: st del: wp_bind; intro impI wp_then; simp add: st)
  qed simp
  have "wp (publishInternal env nsSlug entries publisher visibility pr confirm force bypass) ?Q w"
    unfolding publishInternal_def auto_def [symmetric]
    by (simp add: pub NamespaceRepo_FindBySlug_def MemberRepo_FindByNamespaceAndUser_def split: option.splits)
  from wpD [OF assms(3) this] show ?thesis by (simp add: auto_def)
qed

section \<open>Concrete runs\<close>

definition hello_env :: publish_env where
  "hello_env = \<lparr>pb_store = local_store ''/data'', pb_validator = NewSkillPackageValidator hello_yaml, pb_yaml = hello_yaml,
     pb_pre = NoOpPrePublishValidator_Validate, pb_hyph = id, pb_stamp = (\<lambda>_. ''20240101.000000''), pb_quote = (\<lambda>s. dq @ s @ dq),
     pb_zip = (\<lambda>_. ''zip''), pb_order = id\<rparr>"

definition hello_world :: world where
  "hello_world = calm False (empty_db\<lparr>namespaces := [shop_ns], skills := [(shelf_skill False ''PUBLIC'')\<lparr>sk_Slug := ''hi''\<rparr>]\<rparr>)"

lemma hello_env_simps [simp]:
  "pb_store hello_env = local_store ''/data''" "pb_validator hello_env = NewSkillPackageValidator hello_yaml" "pb_yaml hello_env = hello_yaml"
  "pb_hyph hello_env = id" "pb_zip hello_env = (\<lambda>_. ''zip'')"
  by (simp_all add: hello_env_def)

lemma hello_slug: "Slugify id ''hi'' = Inr ''hi''"
  by code_simp

lemma hello_passes: "Passed (ValidatePackage (NewSkillPackageValidator hello_yaml) [hello_entry])"
  using normalize_skill_md(1) hello_parses
  by (simp add: ValidatePackage_def Passed_def Let_def scan_skill_md canonical_def hello_entry_def NewSkillPackageValidator_def
      policy_limits SkillMDPath_def scan_errors total_size_def int64_id hello_md_def)

lemma hello_checked: "check_package hello_env n ''cy'' [hello_entry] True = do {
     t \<leftarrow> now;
     ok (\<lparr>md_Name = ''hi'', md_Description = ''d'', md_Version = ''20240101.000000'', md_Body = ''body'',
       md_Frontmatter = [(''name'', YText ''hi''), (''description'', YText ''d'')]\<rparr>, ''hi'') }"
  using hello_passes hello_parses hello_slug
  by (simp add: check_package_def Let_def find_skill_md_def hello_entry_def resolve_version_def hello_env_def
      NoOpPrePublishValidator_Validate_def Passed_def)

theorem publish_is_complete_witness:
  "\<exists>res w'. run_state (publishInternal hello_env ''team'' [hello_entry] ''cy'' ''PUBLIC'' no_platform True False True) hello_world = (Inr res, w')
     \<and> publication ''/data'' (\<lambda>_. ''zip'') [hello_entry] ''PUBLIC'' False res w'"
proof -
  let ?m = "publishInternal hello_env ''team'' [hello_entry] ''cy'' ''PUBLIC'' no_platform True False True"
  obtain r w' where run: "run_state ?m hello_world = (r, w')" by (metis surj_pair)
  have sp: "safe_path ''SKILL.md''" by (simp add: safe_path_def plain_def dot_def dotdot_def)
  have key: "resolveKey ''/data'' (storage_key a b ''SKILL.md'') = Inr (''/data'' @ slash # storage_key a b ''SKILL.md'')"
    "resolveKey ''/data'' (bundle_key a b) = Inr (''/data'' @ slash # bundle_key a b)" for a b
    using resolve_safe [OF data_root(1) safe_storage_key [OF sp, of a b]] resolve_safe [OF data_root(1) safe_bundle_key [of a b]]
    by (simp_all add: data_root)
  have e: "pe_Path hello_entry = ''SKILL.md''" by (simp add: hello_entry_def)
  have "wp ?m (\<lambda>r _. \<exists>x. r = Inr x) hello_world"
    unfolding publishInternal_def publish_skill_def hello_checked
    by (simp add: hello_world_def empty_db_def NamespaceRepo_FindBySlug_def assertNamespaceWritable_def shop_ns_def
      find_or_create_skill_def SkillRepo_FindByNamespaceIDAndSlug_def shelf_skill_def shop_skill_def SkillRepo_FindByNamespaceIDSlugOwner_def sk_key_def
      replace_version_def VersionRepo_FindBySkillIDAndVersion_def store_version_def e key local_PutObject_def
      FileRepo_SaveAll_def insert_file_def Let_def)
  from wpD [OF run this] obtain res where r: "r = Inr res" by blast
  then show ?thesis
    using publish_is_complete [of hello_env "''/data''", OF _ data_root(1) run [unfolded r]] run r by auto
qed

section \<open>Published versions are kept\<close>

text \<open>The rows of a version table that has its primary and its unique key.\<close>

definition version_table :: "SkillVersion list \<Rightarrow> bool" where
  "version_table vs \<longleftrightarrow> svt.unique vs \<and> distinct (map sv_ID vs)"

lemma version_table_keyD: "version_table vs \<Longrightarrow> v \<in> set vs \<Longrightarrow> x \<in> set vs \<Longrightarrow> sv_key v = sv_key x \<Longrightarrow> v = x"
  unfolding version_table_def by (blast dest: svt.key_inj)

lemma version_table_idD: "version_table vs \<Longrightarrow> v \<in> set vs \<Longrightarrow> x \<in> set vs \<Longrightarrow> sv_ID v = sv_ID x \<Longrightarrow> v = x"
  unfolding version_table_def by (auto simp: distinct_map inj_on_def)

text \<open>An operation that may only write versions of one key.\<close>

abbreviation has_version :: "SkillVersion \<Rightarrow> database \<Rightarrow> bool" where
  "has_version v d \<equiv> v \<in> set (versions d)"

lemma keeps_version_save: "sv_key x \<noteq> sv_key v \<Longrightarrow> keeps (has_version v) (VersionRepo_Save x)"
  by (auto simp: keeps_def Let_def intro!: svt.save_keeps)

lemma keeps_version_reads [keeps_intros]:
  "keeps (has_version v) (NamespaceRepo_FindBySlug a)" "keeps (has_version v) (MemberRepo_FindByNamespaceAndUser n u)"
  "keeps (has_version v) (SkillRepo_FindByNamespaceIDAndSlug n a)" "keeps (has_version v) (SkillRepo_FindByNamespaceIDSlugOwner n a u)"
  "keeps (has_version v) (VersionRepo_FindBySkillIDAndStatus i a)" "keeps (has_version v) (SkillRepo_Save sk)"
  by (auto simp: keeps_def NamespaceRepo_FindBySlug_def MemberRepo_FindByNamespaceAndUser_def skill_repo_defs Let_def split: option.splits)

lemma keeps_version_conflict [keeps_intros]: "keeps (has_version v) (name_conflict u ss)"
  by (induction ss) (auto intro!: keeps_intros split: list.splits)

lemma keeps_local_put [keeps_intros]: "keeps I (local_PutObject root k c)"
  by (auto simp: keeps_def local_PutObject_def split: sum.splits)

lemma keeps_uploads [keeps_intros]: "keeps I (upload_entries (local_store root) s v es)"
  by (induction es) (auto intro!: keeps_intros)

lemma keeps_version_files: "keeps (has_version v) (save_files fs t)"
proof (induction fs)
  case (Cons f fs)
  have "keeps (has_version v) (insert_file f t)" by (auto simp: keeps_def insert_file_def Let_def)
  with Cons show ?case by (auto intro!: keeps_intros)
qed (simp add: keeps_return)

lemma saved_version_key: "wp (VersionRepo_Save x) (\<lambda>r _. \<forall>y. r = Inr y \<longrightarrow> sv_key y = sv_key x) w"
  by (simp add: Let_def)

lemma keeps_version_store:
  assumes "pb_store env = local_store root" and "(sk_ID s, md_Version m) \<noteq> sv_key v"
  shows "keeps (has_version v) (store_version env s m entries u vis auto)"
proof -
  have key: "sv_key (new_version env (sk_ID s) m entries u auto vis t) \<noteq> sv_key v" for t
    using assms(2) by (simp add: sv_key_def)
  have again: "sv_key y = sv_key x \<Longrightarrow> sv_key (y\<lparr>sv_FileCount := a, sv_TotalSize := b, sv_BundleReady := c, sv_DownloadReady := d\<rparr>) = sv_key x" for x y a b c d
    by (simp add: sv_key_def)
  show ?thesis
    unfolding store_version_def assms(1) FileRepo_SaveAll_def
    by (intro keeps_bind keeps_now keeps_bind_result [OF keeps_version_save [OF key] saved_version_key] keeps_sum keeps_return keeps_uploads
        keeps_version_files keeps_version_reads; simp add: keeps_local_put keeps_version_save key again keeps_return)
qed

lemma replace_keeps_published:
  assumes "healthy w" "version_table (versions (db w))" "v \<in> set (versions (db w))" "sv_Status v = ''PUBLISHED''"
  shows "wp (replace_version i ver) (\<lambda>r w'. (i, ver) \<noteq> sv_key v \<and> has_version v (db w') \<or> (\<exists>e. r = Inl e) \<and> has_version v (db w')) w"
proof (cases "find (\<lambda>x. sv_key x = (i, ver)) (versions (db w))")
  case None
  then have "(i, ver) \<noteq> sv_key v" using assms(3) by (auto simp: find_None_iff)
  then show ?thesis using assms None by (simp add: replace_version_def VersionRepo_FindBySkillIDAndVersion_def)
next
  case (Some x)
  then have x: "x \<in> set (versions (db w))" "sv_key x = (i, ver)" by (auto dest: find_SomeD)
  have "sv_key x \<noteq> sv_key v \<and> sv_ID v \<noteq> sv_ID x" if "sv_Status x \<noteq> ''PUBLISHED''"
    using assms(2-4) x(1) that version_table_keyD version_table_idD by metis
  then show ?thesis using assms Some x
    by (simp add: replace_version_def VersionRepo_FindBySkillIDAndVersion_def FileRepo_DeleteByVersionID_def VersionRepo_Delete_def)
qed

definition unpublished :: "SkillVersion list \<Rightarrow> world \<Rightarrow> bool" where
  "unpublished vs w \<longleftrightarrow> healthy w \<and> versions (db w) = vs"

lemma conflict_healthy: "unpublished vs w \<Longrightarrow> wp (name_conflict u ss) (\<lambda>_ w'. unpublished vs w') w"
  by (induction ss arbitrary: w) (auto simp: unpublished_def VersionRepo_FindBySkillIDAndStatus_def split: list.splits)

lemma package_healthy: "unpublished vs w \<Longrightarrow> wp (check_package env n u es c) (\<lambda>_ w'. unpublished vs w') w"
  unfolding check_package_def Let_def resolve_version_def by (simp add: unpublished_def split: option.splits sum.splits)

lemma skill_healthy: "unpublished vs w \<Longrightarrow> wp (find_or_create_skill n a u vis) (\<lambda>_ w'. unpublished vs w') w"
  unfolding find_or_create_skill_def SkillRepo_FindByNamespaceIDAndSlug_def
  by (auto simp: unpublished_def SkillRepo_FindByNamespaceIDSlugOwner_def Let_def intro!: wp_mono [OF conflict_healthy [of vs]] split: option.splits)

text \<open>C27: as long as no statement fails, publishing never touches a version that is PUBLISHED: a second
  publication under the same name is refused, and no other row is rewritten or deleted.\<close>

theorem publish_keeps_published:
  assumes "healthy w" and "version_table (versions (db w))" and "v \<in> set (versions (db w))" and "sv_Status v = ''PUBLISHED''"
    and "pb_store env = local_store root"
    and "run_state (publishInternal env nsSlug entries publisher visibility pr confirm force bypass) w = (r, w')"
  shows "v \<in> set (versions (db w'))"
proof -
  define auto where "auto \<longleftrightarrow> force \<or> pr ''SUPER_ADMIN''"
  let ?Q = "\<lambda>r w'. has_version v (db w')" and ?U = "unpublished (versions (db w))"
  have stop: "?U u \<Longrightarrow> has_version v (db u)" for u using assms(3) by (simp add: unpublished_def)
  have pub: "wp (publish_skill env ns entries publisher visibility confirm auto) ?Q u" if "?U u" for ns u
    unfolding publish_skill_def wp_bind
  proof (rule wp_mono [OF package_healthy [OF that]])
    fix r :: "err + SkillMetadata \<times> string" and u1 :: world
    assume u1: "?U u1"
    have skill: "wp (replace_version (sk_ID s) (md_Version m)) (\<lambda>r w'. wp (case r of Inl e \<Rightarrow> fail e
       | Inr _ \<Rightarrow> store_version env s m entries publisher visibility auto) ?Q w') u2" if u2: "?U u2" for s m u2
      by (rule wp_mono [OF replace_keeps_published [where v = v]])
        (use u2 assms(2-4) keeps_version_store [OF assms(5), of s m v entries publisher visibility auto]
          in \<open>auto simp: unpublished_def keeps_def split: sum.splits\<close>)
    show "wp (case r of Inl e \<Rightarrow> fail e
       | Inr (m, slug) \<Rightarrow> do { r \<leftarrow> find_or_create_skill (ns_ID ns) slug publisher visibility;
         (case r of Inl e \<Rightarrow> fail e
         | Inr s \<Rightarrow> if sk_Status s = ''ARCHIVED'' then fail (Errorf ''error.skill.publish.archived %s'' [AStr slug])
           else do { r \<leftarrow> replace_version (sk_ID s) (md_Version m);
             (case r of Inl e \<Rightarrow> fail e | Inr _ \<Rightarrow> store_version env s m entries publisher visibility auto) }) }) ?Q u1"
      by (auto simp: stop [OF u1] stop intro!: wp_mono [OF skill_healthy [OF u1]] skill split: sum.splits)
  qed
  have "wp (publishInternal env nsSlug entries publisher visibility pr confirm force bypass) ?Q w"
    unfolding publishInternal_def auto_def [symmetric]
    using assms(1,3)
    by (auto simp: pub unpublished_def NamespaceRepo_FindBySlug_def MemberRepo_FindByNamespaceAndUser_def split: option.splits)
  from wpD [OF assms(6) this] show ?thesis .
qed

theorem publish_keeps_published_witness:
  "\<exists>r w'. run_state (publishInternal hello_env ''team'' [hello_entry] ''cy'' ''PUBLIC'' no_platform True False True)
       (set_db ((db hello_world)\<lparr>versions := [shop_version ''PUBLISHED'']\<rparr>) hello_world) = (r, w')
     \<and> shop_version ''PUBLISHED'' \<in> set (versions (db w'))"
proof -
  let ?w = "set_db ((db hello_world)\<lparr>versions := [shop_version ''PUBLISHED'']\<rparr>) hello_world"
  let ?m = "publishInternal hello_env ''team'' [hello_entry] ''cy'' ''PUBLIC'' no_platform True False True"
  obtain r w' where run: "run_state ?m ?w = (r, w')" by (metis surj_pair)
  have "shop_version ''PUBLISHED'' \<in> set (versions (db w'))"
    by (rule publish_keeps_published [OF _ _ _ _ _ run, where root = "''/data''"])
      (simp_all add: hello_world_def version_table_def svt.unique_def shop_version_def)
  then show ?thesis using run by blast
qed

end
