(* ===== verification/Patterns.thy ===== *)
theory Patterns
  imports GoStrings
begin

text \<open>
  The part of \<open>regexp\<close> the secret scan uses: byte classes, sequences, alternatives, counted
  repetition, and \<open>MatchString\<close>, which asks whether any part of the text matches. \<open>rests\<close>
  computes what is left of a text after each way of matching a prefix; \<open>matches\<close> says what a
  pattern means, and the two agree.
\<close>

datatype rx =
    Eps
  | Cls bool string
  | Cat rx rx
  | Alt rx rx
  | Times nat rx
  | AtLeast nat bool string

text \<open>
  One rune of a class. With the flag \<open>(?i)\<close> a class that has a letter has both cases of it, and
  Unicode folding adds the Kelvin sign to \<open>k\<close> and the long s to \<open>s\<close>, here as their UTF-8 bytes.
\<close>

definition kelvin :: string where "kelvin = [CHR 0xE2, CHR 0x84, CHR 0xAA]"
definition long_s :: string where "long_s = [CHR 0xC5, CHR 0xBF]"

definition class_words :: "bool \<Rightarrow> string \<Rightarrow> string list" where
  "class_words ci cs =
     (if ci then map (\<lambda>n. [char_of n]) (filter (\<lambda>n. lower (char_of n) \<in> set (map lower cs)) [0..<256])
        @ (if CHR ''k'' \<in> set (map lower cs) then [kelvin] else []) @ (if CHR ''s'' \<in> set (map lower cs) then [long_s] else [])
      else map (\<lambda>c. [c]) cs)"

definition strip :: "string \<Rightarrow> string \<Rightarrow> string list" where
  "strip s u = (if HasPrefix s u then [drop (length u) s] else [])"

definition class_rests :: "bool \<Rightarrow> string \<Rightarrow> string \<Rightarrow> string list" where
  "class_rests ci cs s = concat (map (strip s) (class_words ci cs))"

primrec times_of :: "nat \<Rightarrow> (string \<Rightarrow> string list) \<Rightarrow> string \<Rightarrow> string list" where
  "times_of 0 f s = [s]"
| "times_of (Suc n) f s = concat (map (times_of n f) (f s))"

text \<open>Zero or more: as many steps as the text has bytes are enough.\<close>

primrec stars_of :: "nat \<Rightarrow> (string \<Rightarrow> string list) \<Rightarrow> string \<Rightarrow> string list" where
  "stars_of 0 f s = [s]"
| "stars_of (Suc n) f s = s # concat (map (stars_of n f) (f s))"

primrec rests :: "rx \<Rightarrow> string \<Rightarrow> string list" where
  "rests Eps s = [s]"
| "rests (Cls ci cs) s = class_rests ci cs s"
| "rests (Cat a b) s = concat (map (rests b) (rests a s))"
| "rests (Alt a b) s = rests a s @ rests b s"
| "rests (Times n a) s = times_of n (rests a) s"
| "rests (AtLeast n ci cs) s = concat (map (\<lambda>t. stars_of (length t) (class_rests ci cs) t) (times_of n (class_rests ci cs) s))"

fun MatchString :: "rx \<Rightarrow> string \<Rightarrow> bool" where
  "MatchString r [] \<longleftrightarrow> rests r [] \<noteq> []"
| "MatchString r (c # cs) \<longleftrightarrow> rests r (c # cs) \<noteq> [] \<or> MatchString r cs"

section \<open>What a pattern means\<close>

inductive matches :: "rx \<Rightarrow> string \<Rightarrow> bool" where
  eps: "matches Eps []"
| cls: "u \<in> set (class_words ci cs) \<Longrightarrow> matches (Cls ci cs) u"
| cat: "matches a u \<Longrightarrow> matches b v \<Longrightarrow> matches (Cat a b) (u @ v)"
| alt1: "matches a u \<Longrightarrow> matches (Alt a b) u"
| alt2: "matches b u \<Longrightarrow> matches (Alt a b) u"
| times0: "matches (Times 0 a) []"
| times: "matches a u \<Longrightarrow> matches (Times n a) v \<Longrightarrow> matches (Times (Suc n) a) (u @ v)"
| more0: "matches (AtLeast 0 ci cs) []"
| more: "u \<in> set (class_words ci cs) \<Longrightarrow> matches (AtLeast (n - 1) ci cs) v \<Longrightarrow> matches (AtLeast n ci cs) (u @ v)"

inductive_simps matches_simps [simp]:
  "matches Eps u" "matches (Cls ci cs) u" "matches (Cat a b) u" "matches (Alt a b) u" "matches (Times 0 a) u" "matches (Times (Suc n) a) u"

lemma strip_iff: "t \<in> set (strip s u) \<longleftrightarrow> s = u @ t"
  by (auto simp: strip_def HasPrefix_iff)

lemma class_rests_iff: "t \<in> set (class_rests ci cs s) \<longleftrightarrow> (\<exists>u \<in> set (class_words ci cs). s = u @ t)"
  by (auto simp: class_rests_def strip_iff)

lemma class_words_nonempty: "u \<in> set (class_words ci cs) \<Longrightarrow> u \<noteq> []"
  by (auto simp: class_words_def kelvin_def long_s_def split: if_splits)

lemma times_of_iff:
  assumes "\<And>s t. t \<in> set (f s) \<longleftrightarrow> (\<exists>u. s = u @ t \<and> matches a u)"
  shows "t \<in> set (times_of n f s) \<longleftrightarrow> (\<exists>u. s = u @ t \<and> matches (Times n a) u)"
proof (induction n arbitrary: s)
  case (Suc n)
  have "t \<in> set (times_of (Suc n) f s) \<longleftrightarrow> (\<exists>u v. s = u @ v @ t \<and> matches a u \<and> matches (Times n a) v)"
    using assms Suc.IH by (simp add: Bex_def) metis
  also have "\<dots> \<longleftrightarrow> (\<exists>w. s = w @ t \<and> matches (Times (Suc n) a) w)" by (simp, metis append.assoc)
  finally show ?case .
qed auto

inductive_cases more_cases: "matches (AtLeast n ci cs) u"

lemma stars_of_sound: "t \<in> set (stars_of n (class_rests ci cs) s) \<Longrightarrow> \<exists>u. s = u @ t \<and> matches (AtLeast 0 ci cs) u"
proof (induction n arbitrary: s)
  case 0
  then show ?case by (auto intro: more0)
next
  case (Suc n)
  then consider "t = s" | v where "v \<in> set (class_rests ci cs s)" "t \<in> set (stars_of n (class_rests ci cs) v)" by auto
  then show ?case
  proof cases
    case 1
    then show ?thesis by (auto intro: more0)
  next
    case 2
    then obtain u where u: "s = u @ v" "u \<in> set (class_words ci cs)" by (auto simp: class_rests_iff)
    obtain w where w: "v = w @ t" "matches (AtLeast 0 ci cs) w" using Suc.IH [OF 2(2)] by blast
    show ?thesis using u w more [of u ci cs 0 w] by (intro exI [of _ "u @ w"]) auto
  qed
qed

lemma stars_of_complete:
  assumes "matches r u" and "r = AtLeast 0 ci cs" and "length u \<le> n"
  shows "t \<in> set (stars_of n (class_rests ci cs) (u @ t))"
  using assms
proof (induction r u arbitrary: n)
  case more0
  then show ?case by (cases n) auto
next
  case (more u f cs' k v)
  then have u: "u \<in> set (class_words ci cs)" "0 < length u" using class_words_nonempty by auto
  define m where "m = n - 1"
  have m: "n = Suc m" "length v \<le> m" using more.prems(2) u(2) unfolding m_def length_append by linarith+
  have "t \<in> set (stars_of m (class_rests ci cs) (v @ t))" using more m by auto
  moreover have "v @ t \<in> set (class_rests ci cs (u @ v @ t))" using u by (auto simp: class_rests_iff)
  ultimately show ?case using m by auto
qed auto

lemma more_split:
  "matches (AtLeast n ci cs) w \<longleftrightarrow> (\<exists>u v. w = u @ v \<and> matches (Times n (Cls ci cs)) u \<and> matches (AtLeast 0 ci cs) v)"
proof (induction n arbitrary: w)
  case (Suc n)
  have "matches (AtLeast (Suc n) ci cs) w \<longleftrightarrow> (\<exists>u v. w = u @ v \<and> u \<in> set (class_words ci cs) \<and> matches (AtLeast n ci cs) v)"
  proof
    assume "matches (AtLeast (Suc n) ci cs) w"
    then show "\<exists>u v. w = u @ v \<and> u \<in> set (class_words ci cs) \<and> matches (AtLeast n ci cs) v" by (rule more_cases) (simp, metis diff_Suc_1 One_nat_def)
  next
    assume "\<exists>u v. w = u @ v \<and> u \<in> set (class_words ci cs) \<and> matches (AtLeast n ci cs) v"
    then show "matches (AtLeast (Suc n) ci cs) w" using more [of _ ci cs "Suc n"] by auto
  qed
  also have "\<dots> \<longleftrightarrow> (\<exists>u v x. w = u @ v @ x \<and> u \<in> set (class_words ci cs) \<and> matches (Times n (Cls ci cs)) v \<and> matches (AtLeast 0 ci cs) x)"
    unfolding Suc.IH by blast
  also have "\<dots> \<longleftrightarrow> (\<exists>u v. w = u @ v \<and> matches (Times (Suc n) (Cls ci cs)) u \<and> matches (AtLeast 0 ci cs) v)"
    by (simp, metis append.assoc)
  finally show ?case .
qed (auto)

text \<open>The matcher computes exactly the meaning.\<close>

lemma rests_iff: "t \<in> set (rests r s) \<longleftrightarrow> (\<exists>u. s = u @ t \<and> matches r u)"
proof (induction r arbitrary: s t)
  case (Times n a)
  then show ?case using times_of_iff [of "rests a" a] by simp
next
  case (AtLeast n ci cs)
  have star: "t \<in> set (stars_of (length v) (class_rests ci cs) v) \<longleftrightarrow> (\<exists>u. v = u @ t \<and> matches (AtLeast 0 ci cs) u)" for v
    using stars_of_sound [of t "length v" ci cs v] stars_of_complete [of "AtLeast 0 ci cs" _ ci cs "length v" t] by auto
  have "v \<in> set (times_of n (class_rests ci cs) s) \<longleftrightarrow> (\<exists>u. s = u @ v \<and> matches (Times n (Cls ci cs)) u)" for v
    by (rule times_of_iff) (auto simp: class_rests_iff)
  then have "t \<in> set (rests (AtLeast n ci cs) s)
     \<longleftrightarrow> (\<exists>v. (\<exists>u. s = u @ v \<and> matches (Times n (Cls ci cs)) u) \<and> (\<exists>u. v = u @ t \<and> matches (AtLeast 0 ci cs) u))"
    using star by auto
  also have "\<dots> \<longleftrightarrow> (\<exists>u v. s = u @ v @ t \<and> matches (Times n (Cls ci cs)) u \<and> matches (AtLeast 0 ci cs) v)" by blast
  also have "\<dots> \<longleftrightarrow> (\<exists>u. s = u @ t \<and> matches (AtLeast n ci cs) u)" unfolding more_split [of n] by (metis append.assoc)
  finally show ?case .
next
  case (Cat a b)
  have "t \<in> set (rests (Cat a b) s) \<longleftrightarrow> (\<exists>u v. s = u @ v @ t \<and> matches a u \<and> matches b v)"
    using Cat.IH by (simp add: Bex_def) metis
  also have "\<dots> \<longleftrightarrow> (\<exists>w. s = w @ t \<and> matches (Cat a b) w)" by (simp, metis append.assoc)
  finally show ?case .
qed (auto simp: class_rests_iff)

lemma rests_any: "rests r s \<noteq> [] \<longleftrightarrow> (\<exists>u b. s = u @ b \<and> matches r u)"
  using rests_iff [of _ r s] by (cases "rests r s") auto

lemma MatchString_iff: "MatchString r s \<longleftrightarrow> (\<exists>a u b. s = a @ u @ b \<and> matches r u)"
proof (induction s)
  case Nil
  then show ?case using rests_any [of r "[]"] by auto
next
  case (Cons c cs)
  have "(\<exists>a u b. c # cs = a @ u @ b \<and> matches r u)
     \<longleftrightarrow> (\<exists>u b. c # cs = u @ b \<and> matches r u) \<or> (\<exists>a u b. cs = a @ u @ b \<and> matches r u)"
    by (metis append_Cons append_Nil list.sel(3) tl_append2 neq_Nil_conv)
  then show ?case using Cons.IH rests_any [of r "c # cs"] by simp
qed

end
