(* ===== verification/Diff.thy ===== *)
theory Diff
  imports Sha256 Domain GoStrings "HOL-Library.Sublist" "HOL-Library.While_Combinator" "HOL-Library.List_Lexorder" "HOL-Library.Char_ord" "HOL-Library.Multiset"
begin

text \<open>
  \<open>tooling/diff.go\<close>, \<open>fingerprint.go\<close> and \<open>manifest.go\<close>: the comparison of two versions by file,
  the line diff of two texts with a table of longest common subsequences, and the fingerprints.
  A table of \<open>int\<close> cells is a function of its two indices; the code only reads cells it allocated.
  Strings are compared byte by byte.
\<close>

record DiffSummary =
  du_TotalFiles :: int
  du_AddedFiles :: int
  du_ModifiedFiles :: int
  du_RemovedFiles :: int
  du_AddedLines :: int
  du_RemovedLines :: int

record DiffLine =
  dl_Type :: string
  dl_Content :: string
  dl_OldLineNumber :: "int option"
  dl_NewLineNumber :: "int option"

record DiffHunk =
  dh_OldStart :: int
  dh_OldLines :: int
  dh_NewStart :: int
  dh_NewLines :: int
  dh_Lines :: "DiffLine list"

record DiffFile =
  di_Path :: string
  di_ChangeType :: string
  di_OldSize :: "int option"
  di_NewSize :: "int option"
  di_Binary :: bool
  di_Truncated :: bool
  di_Hunks :: "DiffHunk list"

record VersionDiff =
  vf_FromVersion :: string
  vf_ToVersion :: string
  vf_Summary :: DiffSummary
  vf_Files :: "DiffFile list"

section \<open>Sorted paths\<close>

fun string_less :: "string \<Rightarrow> string \<Rightarrow> bool" where
  "string_less [] ys \<longleftrightarrow> ys \<noteq> []"
| "string_less (x # xs) [] \<longleftrightarrow> False"
| "string_less (x # xs) (y # ys) \<longleftrightarrow> byte x < byte y \<or> byte x = byte y \<and> string_less xs ys"

text \<open>The two nested loops of \<open>sortStrings\<close>, exchanging in place.\<close>

definition exchange :: "nat \<Rightarrow> nat \<Rightarrow> string list \<Rightarrow> string list" where
  "exchange i j s = (if string_less (s ! j) (s ! i) then s[i := s ! j, j := s ! i] else s)"

definition sortStrings :: "string list \<Rightarrow> string list" where
  "sortStrings s = fold (\<lambda>i. fold (exchange i) [Suc i..<length s]) [0..<length s] s"

text \<open>The keys of a map, in whatever order they are ranged over.\<close>

definition sortedKeys :: "(string list \<Rightarrow> string list) \<Rightarrow> string list \<Rightarrow> string list" where
  "sortedKeys order paths = sortStrings (order (remdups paths))"

section \<open>Comparing versions by file\<close>

definition maxDiffFileBytes :: int where "maxDiffFileBytes = 1 * 1024 * 1024"
definition maxDiffLines :: nat where "maxDiffLines = 5000"

definition binaryFileExtensions :: "string list" where
  "binaryFileExtensions = [''.png'', ''.jpg'', ''.jpeg'', ''.gif'', ''.ico'', ''.woff'', ''.woff2'', ''.ttf'', ''.eot'',
     ''.zip'', ''.tar'', ''.gz'', ''.jar'', ''.war'', ''.class'', ''.so'', ''.dll'', ''.exe'', ''.pdf'']"

definition isBinaryPath :: "string \<Rightarrow> bool" where
  "isBinaryPath path = list_ex (HasSuffix (ToLower path)) binaryFileExtensions"

definition buildDiffFile :: "string \<Rightarrow> SkillFile option \<Rightarrow> SkillFile option \<Rightarrow> DiffFile" where
  "buildDiffFile path fromFile toFile =
     (let (changeType, oldSize, newSize) =
        (case fromFile of
           None \<Rightarrow> (''ADDED'', None, map_option sf_FileSize toFile)
         | Some f \<Rightarrow> (case toFile of
             None \<Rightarrow> (''REMOVED'', Some (sf_FileSize f), None)
           | Some t \<Rightarrow> (''MODIFIED'', Some (sf_FileSize f), Some (sf_FileSize t))))
      in \<lparr>di_Path = path, di_ChangeType = changeType, di_OldSize = oldSize, di_NewSize = newSize,
          di_Binary = isBinaryPath path, di_Truncated = False, di_Hunks = []\<rparr>)"

text \<open>The map from paths to files keeps the last file of a path.\<close>

definition file_at :: "SkillFile list \<Rightarrow> string \<Rightarrow> SkillFile option" where
  "file_at fs path = find (\<lambda>f. sf_FilePath f = path) (rev fs)"

definition diff_path :: "SkillFile list \<Rightarrow> SkillFile list \<Rightarrow> string \<Rightarrow> DiffFile option" where
  "diff_path fromFiles toFiles path =
     (case (file_at fromFiles path, file_at toFiles path) of
        (Some f, Some t) \<Rightarrow> if sf_SHA256 f = sf_SHA256 t then None else Some (buildDiffFile path (Some f) (Some t))
      | (f, t) \<Rightarrow> Some (buildDiffFile path f t))"

definition count_type :: "string \<Rightarrow> DiffFile list \<Rightarrow> int" where
  "count_type t fs = int (length (filter (\<lambda>f. di_ChangeType f = t) fs))"

definition count_lines :: "string \<Rightarrow> DiffFile list \<Rightarrow> int" where
  "count_lines t fs = int (length (filter (\<lambda>l. dl_Type l = t) (concat (map dh_Lines (concat (map di_Hunks fs))))))"

definition CompareVersions :: "(string list \<Rightarrow> string list) \<Rightarrow> string \<Rightarrow> string \<Rightarrow> SkillFile list \<Rightarrow> SkillFile list \<Rightarrow> VersionDiff" where
  "CompareVersions order fromVersion toVersion fromFiles toFiles =
     (let files = List.map_filter (diff_path fromFiles toFiles)
            (sortedKeys order (map sf_FilePath fromFiles @ map sf_FilePath toFiles)) in
      \<lparr>vf_FromVersion = fromVersion, vf_ToVersion = toVersion,
       vf_Summary = \<lparr>du_TotalFiles = int (length files), du_AddedFiles = count_type ''ADDED'' files,
         du_ModifiedFiles = count_type ''MODIFIED'' files, du_RemovedFiles = count_type ''REMOVED'' files,
         du_AddedLines = count_lines ''ADD'' files, du_RemovedLines = count_lines ''DELETE'' files\<rparr>,
       vf_Files = files\<rparr>)"

section \<open>The line diff\<close>

definition splitLines :: "string \<Rightarrow> string list" where
  "splitLines content =
     (if content = [] then []
      else (let ls = split_on (CHR 0x0A) content in if last ls = [] then butlast ls else ls))"

record internalDiff =
  df_op :: string
  df_oldStart :: nat
  df_newStart :: nat
  df_count :: nat

type_synonym table = "nat \<Rightarrow> nat \<Rightarrow> nat"

definition fill_cell :: "string list \<Rightarrow> string list \<Rightarrow> nat \<Rightarrow> nat \<Rightarrow> table \<Rightarrow> table" where
  "fill_cell old new i j dp = dp(i := (dp i)(j :=
     (if old ! (i - 1) = new ! (j - 1) then dp (i - 1) (j - 1) + 1
      else if dp (i - 1) j \<ge> dp i (j - 1) then dp (i - 1) j else dp i (j - 1))))"

definition fill_row :: "string list \<Rightarrow> string list \<Rightarrow> nat \<Rightarrow> table \<Rightarrow> table" where
  "fill_row old new i = fold (fill_cell old new i) [1..<Suc (length new)]"

definition lcs_table :: "string list \<Rightarrow> string list \<Rightarrow> table" where
  "lcs_table old new = fold (fill_row old new) [1..<Suc (length old)] (\<lambda>_ _. 0)"

definition equal_at :: "nat \<Rightarrow> nat \<Rightarrow> internalDiff" where
  "equal_at i j = \<lparr>df_op = ''equal'', df_oldStart = i, df_newStart = j, df_count = 1\<rparr>"

definition add_at :: "nat \<Rightarrow> nat \<Rightarrow> internalDiff" where
  "add_at i j = \<lparr>df_op = ''add'', df_oldStart = i, df_newStart = j, df_count = 1\<rparr>"

definition delete_at :: "nat \<Rightarrow> nat \<Rightarrow> internalDiff" where
  "delete_at i j = \<lparr>df_op = ''delete'', df_oldStart = i, df_newStart = j, df_count = 1\<rparr>"

text \<open>The body of the loop that walks back through the table; its state is \<open>i\<close>, \<open>j\<close> and the result.\<close>

definition back_step :: "string list \<Rightarrow> string list \<Rightarrow> table \<Rightarrow> nat \<times> nat \<times> internalDiff list \<Rightarrow> nat \<times> nat \<times> internalDiff list" where
  "back_step old new dp = (\<lambda>(i, j, result).
     if i > 0 \<and> j > 0 \<and> old ! (i - 1) = new ! (j - 1) then (i - 1, j - 1, result @ [equal_at (i - 1) (j - 1)])
     else if j > 0 \<and> (i = 0 \<or> dp i (j - 1) \<ge> dp (i - 1) j) then (i, j - 1, result @ [add_at i (j - 1)])
     else (i - 1, j, result @ [delete_at (i - 1) j]))"

definition back_loop :: "string list \<Rightarrow> string list \<Rightarrow> table \<Rightarrow> (nat \<times> nat \<times> internalDiff list) option" where
  "back_loop old new dp = while_option (\<lambda>(i, j, _). i > 0 \<or> j > 0) (back_step old new dp) (length old, length new, [])"

text \<open>The same walk as a recursion, which is what the rest uses.\<close>

function walk_back :: "string list \<Rightarrow> string list \<Rightarrow> table \<Rightarrow> nat \<Rightarrow> nat \<Rightarrow> internalDiff list" where
  "walk_back old new dp i j =
     (if i = 0 \<and> j = 0 then []
      else if i > 0 \<and> j > 0 \<and> old ! (i - 1) = new ! (j - 1) then equal_at (i - 1) (j - 1) # walk_back old new dp (i - 1) (j - 1)
      else if j > 0 \<and> (i = 0 \<or> dp i (j - 1) \<ge> dp (i - 1) j) then add_at i (j - 1) # walk_back old new dp i (j - 1)
      else delete_at (i - 1) j # walk_back old new dp (i - 1) j)"
  by pat_completeness auto
termination
  by (relation "measure (\<lambda>(_, _, _, i, j). i + j)") auto

declare walk_back.simps [simp del]

definition computeLCSDiff :: "string list \<Rightarrow> string list \<Rightarrow> internalDiff list" where
  "computeLCSDiff old new = rev (walk_back old new (lcs_table old new) (length old) (length new))"

text \<open>Maximal stretches of changes, as half-open intervals of positions.\<close>

function change_regions :: "nat \<Rightarrow> internalDiff list \<Rightarrow> (nat \<times> nat) list" where
  "change_regions i [] = []"
| "change_regions i (d # ds) =
     (if df_op d = ''equal'' then change_regions (Suc i) ds
      else (let n = length (takeWhile (\<lambda>d. df_op d \<noteq> ''equal'') (d # ds)) in
            (i, i + n) # change_regions (i + n) (drop n (d # ds))))"
  by pat_completeness auto
termination
  by (relation "measure (\<lambda>(_, ds). length ds)") auto

text \<open>A line of a hunk; the number of a context line in the new text is taken from the old one.\<close>

definition hunk_line :: "string list \<Rightarrow> string list \<Rightarrow> internalDiff \<Rightarrow> DiffLine list" where
  "hunk_line old new d =
     (let o1 = Some (int (df_oldStart d) + 1); n1 = Some (int (df_newStart d) + 1) in
      if df_op d = ''equal'' then [\<lparr>dl_Type = ''CONTEXT'', dl_Content = old ! df_oldStart d, dl_OldLineNumber = o1, dl_NewLineNumber = o1\<rparr>]
      else if df_op d = ''delete'' then [\<lparr>dl_Type = ''DELETE'', dl_Content = old ! df_oldStart d, dl_OldLineNumber = o1, dl_NewLineNumber = None\<rparr>]
      else if df_op d = ''add'' then [\<lparr>dl_Type = ''ADD'', dl_Content = new ! df_newStart d, dl_OldLineNumber = None, dl_NewLineNumber = n1\<rparr>]
      else [])"

definition first_start :: "(internalDiff \<Rightarrow> nat) \<Rightarrow> string list \<Rightarrow> internalDiff list \<Rightarrow> int" where
  "first_start start ops ds = (case find (\<lambda>d. df_op d \<in> set ops) ds of None \<Rightarrow> 0 | Some d \<Rightarrow> int (start d))"

definition build_hunk :: "string list \<Rightarrow> string list \<Rightarrow> internalDiff list \<Rightarrow> DiffHunk" where
  "build_hunk old new ds =
     \<lparr>dh_OldStart = first_start df_oldStart [''equal'', ''delete''] ds + 1,
      dh_OldLines = int (length (filter (\<lambda>d. df_op d = ''equal'' \<or> df_op d = ''delete'') ds)),
      dh_NewStart = first_start df_newStart [''equal'', ''add''] ds + 1,
      dh_NewLines = int (length (filter (\<lambda>d. df_op d = ''equal'' \<or> df_op d = ''add'') ds)),
      dh_Lines = concat (map (hunk_line old new) ds)\<rparr>"

text \<open>Three lines of context on each side; hunks that overlap are not merged.\<close>

definition contextLines :: nat where "contextLines = 3"

definition groupIntoHunks :: "internalDiff list \<Rightarrow> string list \<Rightarrow> string list \<Rightarrow> DiffHunk list" where
  "groupIntoHunks diffs old new = map (\<lambda>(start, end).
     build_hunk old new (drop (start - contextLines) (take (end + contextLines) diffs))) (change_regions 0 diffs)"

text \<open>An empty list stands for \<open>nil\<close> and for no hunks alike.\<close>

definition CompareTextFiles :: "string \<Rightarrow> string \<Rightarrow> DiffHunk list" where
  "CompareTextFiles oldContent newContent =
     (let old = splitLines oldContent; new = splitLines newContent in
      if length old > maxDiffLines \<or> length new > maxDiffLines then []
      else groupIntoHunks (computeLCSDiff old new) old new)"

section \<open>The diff is correct and minimal\<close>

text \<open>The length of the longest common subsequence of two prefixes, by its recursion.\<close>

fun lcs_len :: "string list \<Rightarrow> string list \<Rightarrow> nat \<Rightarrow> nat \<Rightarrow> nat" where
  "lcs_len old new 0 j = 0"
| "lcs_len old new (Suc i) 0 = 0"
| "lcs_len old new (Suc i) (Suc j) =
     (if old ! i = new ! j then lcs_len old new i j + 1 else max (lcs_len old new i (Suc j)) (lcs_len old new (Suc i) j))"

lemma lcs_len_0 [simp]: "lcs_len old new i 0 = 0"
  by (cases i) simp_all

lemma fill_cell_other: "i' \<noteq> i \<or> j' \<noteq> j \<Longrightarrow> fill_cell old new i j dp i' j' = dp i' j'"
  by (auto simp: fill_cell_def)

text \<open>A row, up to column \<open>n\<close>, when the row above is right.\<close>

lemma fill_row_prefix:
  assumes "\<forall>j. j \<le> length new \<longrightarrow> dp i j = lcs_len old new i j" and "dp (Suc i) 0 = 0" and "n \<le> length new"
  shows "(\<forall>j \<le> n. fold (fill_cell old new (Suc i)) [1..<Suc n] dp (Suc i) j = lcs_len old new (Suc i) j)
    \<and> (\<forall>k j. k \<noteq> Suc i \<longrightarrow> fold (fill_cell old new (Suc i)) [1..<Suc n] dp k j = dp k j)"
  using assms(3)
proof (induction n)
  case 0
  then show ?case using assms(2) by simp
next
  case (Suc n)
  let ?d = "fold (fill_cell old new (Suc i)) [1..<Suc n] dp"
  have IH: "\<forall>j \<le> n. ?d (Suc i) j = lcs_len old new (Suc i) j" "\<forall>k j. k \<noteq> Suc i \<longrightarrow> ?d k j = dp k j" using Suc by auto
  have above: "?d i j = lcs_len old new i j" if "j \<le> length new" for j using IH(2) assms(1) that by simp
  have step: "fold (fill_cell old new (Suc i)) [1..<Suc (Suc n)] dp = fill_cell old new (Suc i) (Suc n) ?d" by simp
  have "fill_cell old new (Suc i) (Suc n) ?d (Suc i) (Suc n) = lcs_len old new (Suc i) (Suc n)"
    using above [of n] above [of "Suc n"] IH(1) Suc.prems by (simp add: fill_cell_def max_def)
  then show ?case unfolding step using IH by (auto simp: fill_cell_other le_Suc_eq)
qed

lemma lcs_table_prefix:
  "(\<forall>i \<le> m. \<forall>j \<le> length new. fold (fill_row old new) [1..<Suc m] (\<lambda>_ _. 0) i j = lcs_len old new i j)
   \<and> (\<forall>i j. i > m \<longrightarrow> fold (fill_row old new) [1..<Suc m] (\<lambda>_ _. 0) i j = 0)"
proof (induction m)
  case (Suc m)
  obtain d where d: "d = fold (fill_row old new) [1..<Suc m] (\<lambda>_ _. 0)" by blast
  have IH: "\<forall>i \<le> m. \<forall>j \<le> length new. d i j = lcs_len old new i j" "\<forall>i j. i > m \<longrightarrow> d i j = 0" using Suc unfolding d by blast+
  have row: "(\<forall>j \<le> length new. fill_row old new (Suc m) d (Suc m) j = lcs_len old new (Suc m) j)
    \<and> (\<forall>k j. k \<noteq> Suc m \<longrightarrow> fill_row old new (Suc m) d k j = d k j)"
    unfolding fill_row_def by (rule fill_row_prefix) (use IH in auto)
  have step: "fold (fill_row old new) [1..<Suc (Suc m)] (\<lambda>_ _. 0) = fill_row old new (Suc m) d" unfolding d by simp
  have "fill_row old new (Suc m) d i j = lcs_len old new i j" if "i \<le> Suc m" "j \<le> length new" for i j
    using row IH(1) that by (cases "i = Suc m") (metis, metis le_SucE)
  moreover have "fill_row old new (Suc m) d i j = 0" if "i > Suc m" for i j
    using row IH(2) that by (metis Suc_lessD nat_neq_iff)
  ultimately show ?case unfolding step by blast
qed simp

lemma lcs_table_cell: "i \<le> length old \<Longrightarrow> j \<le> length new \<Longrightarrow> lcs_table old new i j = lcs_len old new i j"
  unfolding lcs_table_def using lcs_table_prefix [of "length old" new old] by blast

text \<open>No common subsequence is longer.\<close>

lemma subseq_snoc_iff:
  "subseq cs (xs @ [a]) \<longleftrightarrow> subseq cs xs \<or> (cs \<noteq> [] \<and> last cs = a \<and> subseq (butlast cs) xs)"
proof
  assume "subseq cs (xs @ [a])"
  then obtain us vs where "cs = us @ vs" "subseq us xs" "subseq vs [a]" by (auto simp: subseq_append_iff)
  then show "subseq cs xs \<or> (cs \<noteq> [] \<and> last cs = a \<and> subseq (butlast cs) xs)"
    by (cases vs) (auto split: if_splits)
next
  assume "subseq cs xs \<or> (cs \<noteq> [] \<and> last cs = a \<and> subseq (butlast cs) xs)"
  then show "subseq cs (xs @ [a])"
    by (metis append_butlast_last_id list_emb_append_mono subseq_order.order_refl subseq_rev_drop_many)
qed

lemma subseq_butlast: "subseq cs xs \<Longrightarrow> subseq (butlast cs) xs"
  by (cases cs rule: rev_cases) (auto dest: subseq_append_iff [THEN iffD1] list_emb_appendD intro: subseq_order.trans [OF subseq_rev_drop_many [OF subseq_order.order_refl]])

lemma common_subseq_le_lcs:
  "i \<le> length old \<Longrightarrow> j \<le> length new \<Longrightarrow> subseq cs (take i old) \<Longrightarrow> subseq cs (take j new) \<Longrightarrow> length cs \<le> lcs_len old new i j"
proof (induction old new i j arbitrary: cs rule: lcs_len.induct)
  case (3 old new i j)
  have o: "take (Suc i) old = take i old @ [old ! i]" and n: "take (Suc j) new = take j new @ [new ! j]"
    using 3(4,5) by (simp_all add: take_Suc_conv_app_nth)
  show ?case
  proof (cases "old ! i = new ! j")
    case True
    then have "subseq (butlast cs) (take i old)" "subseq (butlast cs) (take j new)"
      using 3(6,7) unfolding o n subseq_snoc_iff
      by (metis subseq_butlast subseq_order.trans)+
    then have "length (butlast cs) \<le> lcs_len old new i j" using 3(1) [OF True, of "butlast cs"] 3(4,5) by simp
    then show ?thesis using True by simp
  next
    case False
    then consider "subseq cs (take i old)" | "subseq cs (take j new)"
      using 3(6,7) unfolding o n subseq_snoc_iff by metis
    then show ?thesis
    proof cases
      case 1
      then show ?thesis using 3(2) [OF False, of cs] 3(4,5,7) False by auto
    next
      case 2
      then show ?thesis using 3(3) [OF False, of cs] 3(4,5,6) False by auto
    qed
  qed
qed auto

subsection \<open>The walk back\<close>

text \<open>What a diff says the old text is, what it says the new text is, and the lines it keeps.\<close>

definition old_side :: "string list \<Rightarrow> internalDiff list \<Rightarrow> string list" where
  "old_side old ds = map (\<lambda>d. old ! df_oldStart d) (filter (\<lambda>d. df_op d = ''equal'' \<or> df_op d = ''delete'') ds)"

definition new_side :: "string list \<Rightarrow> internalDiff list \<Rightarrow> string list" where
  "new_side new ds = map (\<lambda>d. new ! df_newStart d) (filter (\<lambda>d. df_op d = ''equal'' \<or> df_op d = ''add'') ds)"

definition kept_ops :: "internalDiff list \<Rightarrow> internalDiff list" where
  "kept_ops ds = filter (\<lambda>d. df_op d = ''equal'') ds"

lemmas op_defs = equal_at_def add_at_def delete_at_def

lemma side_append [simp]:
  "old_side old (ds @ es) = old_side old ds @ old_side old es"
  "new_side new (ds @ es) = new_side new ds @ new_side new es"
  "kept_ops (ds @ es) = kept_ops ds @ kept_ops es"
  by (simp_all add: old_side_def new_side_def kept_ops_def)

lemma side_op [simp]:
  "old_side old [] = []" "new_side new [] = []" "kept_ops [] = []"
  "old_side old [equal_at i j] = [old ! i]" "old_side old [add_at i j] = []" "old_side old [delete_at i j] = [old ! i]"
  "new_side new [equal_at i j] = [new ! j]" "new_side new [add_at i j] = [new ! j]" "new_side new [delete_at i j] = []"
  "kept_ops [equal_at i j] = [equal_at i j]" "kept_ops [add_at i j] = []" "kept_ops [delete_at i j] = []"
  by (simp_all add: old_side_def new_side_def kept_ops_def op_defs)

lemma walk_back_cases:
  obtains "i = 0" "j = 0" "walk_back old new dp i j = []"
  | i' j' where "i = Suc i'" "j = Suc j'" "old ! i' = new ! j'"
      "walk_back old new dp i j = equal_at i' j' # walk_back old new dp i' j'"
  | j' where "j = Suc j'" "i = 0 \<or> old ! (i - 1) \<noteq> new ! j' \<and> dp i j' \<ge> dp (i - 1) j"
      "walk_back old new dp i j = add_at i j' # walk_back old new dp i j'"
  | i' where "i = Suc i'" "j = 0 \<or> old ! i' \<noteq> new ! (j - 1) \<and> \<not> dp i (j - 1) \<ge> dp i' j"
      "walk_back old new dp i j = delete_at i' j # walk_back old new dp i' j"
  using walk_back.simps [of old new dp i j]
  by (cases i; cases j; cases "old ! (i - 1) = new ! (j - 1)"; cases "dp i (j - 1) \<ge> dp (i - 1) j") simp_all

lemma walk_back_sides:
  "i \<le> length old \<Longrightarrow> j \<le> length new \<Longrightarrow>
   old_side old (rev (walk_back old new dp i j)) = take i old \<and> new_side new (rev (walk_back old new dp i j)) = take j new"
proof (induction "i + j" arbitrary: i j rule: less_induct)
  case less
  show ?case
    by (rule walk_back_cases [of i j old new dp])
       (use less in \<open>auto simp: take_Suc_conv_app_nth\<close>)
qed

lemma walk_back_common:
  "\<forall>d \<in> set (walk_back old new dp i j). df_op d = ''equal'' \<longrightarrow> old ! df_oldStart d = new ! df_newStart d"
proof (induction "i + j" arbitrary: i j rule: less_induct)
  case less
  show ?case
    by (rule walk_back_cases [of i j old new dp]) (use less in \<open>force simp: op_defs\<close>)+
qed

lemma walk_back_kept:
  assumes "\<And>i j. i \<le> length old \<Longrightarrow> j \<le> length new \<Longrightarrow> dp i j = lcs_len old new i j"
  shows "i \<le> length old \<Longrightarrow> j \<le> length new \<Longrightarrow> length (kept_ops (rev (walk_back old new dp i j))) = lcs_len old new i j"
proof (induction "i + j" arbitrary: i j rule: less_induct)
  case less
  show ?case
  proof (rule walk_back_cases [of i j old new dp])
    fix j' assume j: "j = Suc j'" and c: "i = 0 \<or> old ! (i - 1) \<noteq> new ! j' \<and> dp i j' \<ge> dp (i - 1) j"
      and w: "walk_back old new dp i j = add_at i j' # walk_back old new dp i j'"
    have "lcs_len old new i j = lcs_len old new i j'"
      using c assms less(2,3) unfolding j by (cases i) auto
    then show ?thesis using less j w by simp
  next
    fix i' assume i: "i = Suc i'" and c: "j = 0 \<or> old ! i' \<noteq> new ! (j - 1) \<and> \<not> dp i (j - 1) \<ge> dp i' j"
      and w: "walk_back old new dp i j = delete_at i' j # walk_back old new dp i' j"
    have "lcs_len old new i j = lcs_len old new i' j"
      using c assms less(2,3) unfolding i by (cases j) auto
    then show ?thesis using less i w by simp
  qed (use less in auto)
qed

lemma walk_back_length: "length (walk_back old new dp i j) \<le> i + j"
proof (induction "i + j" arbitrary: i j rule: less_induct)
  case less
  show ?case
    by (rule walk_back_cases [of i j old new dp]) (use less in \<open>simp_all add: le_SucI\<close>)
qed

text \<open>The walk is the loop: one turn takes off one operation.\<close>

lemma back_loop_from:
  "while_option (\<lambda>(i, j, _). i > 0 \<or> j > 0) (back_step old new dp) (i, j, acc) = Some (0, 0, acc @ walk_back old new dp i j)"
proof (induction "i + j" arbitrary: i j acc rule: less_induct)
  case less
  show ?case
    by (rule walk_back_cases [of i j old new dp]; subst while_option_unfold)
       (use less in \<open>auto simp: back_step_def\<close>)
qed

section \<open>Properties\<close>

text \<open>C8: the diff of two texts is correct and minimal. Read along the old text its operations are exactly
  the old lines, read along the new text exactly the new lines; a line it keeps is the same line on both sides; and
  no common subsequence of the two texts has more lines than the diff keeps.
\<close>

theorem line_diff_is_minimal:
  "old_side old (computeLCSDiff old new) = old \<and> new_side new (computeLCSDiff old new) = new
   \<and> (\<forall>d \<in> set (kept_ops (computeLCSDiff old new)). old ! df_oldStart d = new ! df_newStart d)
   \<and> (\<forall>cs. subseq cs old \<and> subseq cs new \<longrightarrow> length cs \<le> length (kept_ops (computeLCSDiff old new)))"
proof -
  let ?w = "walk_back old new (lcs_table old new) (length old) (length new)"
  have "length (kept_ops (rev ?w)) = lcs_len old new (length old) (length new)"
    by (rule walk_back_kept) (simp_all add: lcs_table_cell)
  then have "\<forall>cs. subseq cs old \<and> subseq cs new \<longrightarrow> length cs \<le> length (kept_ops (rev ?w))"
    using common_subseq_le_lcs [of "length old" old "length new" new] by simp
  moreover have "\<forall>d \<in> set (kept_ops (rev ?w)). old ! df_oldStart d = new ! df_newStart d"
    using walk_back_common [of old new "lcs_table old new" "length old" "length new"] by (auto simp: kept_ops_def)
  ultimately show ?thesis
    using walk_back_sides [of "length old" old "length new" new] unfolding computeLCSDiff_def by simp
qed

theorem line_diff_is_minimal_witness:
  "2 \<le> length (kept_ops (computeLCSDiff [''a'', ''b'', ''c''] [''a'', ''x'', ''c'', ''d'']))"
  using line_diff_is_minimal [of "[''a'', ''b'', ''c'']" "[''a'', ''x'', ''c'', ''d'']"]
  by (auto dest!: spec [of _ "[''a'', ''c'']"])

text \<open>C35: the loop that walks back through the table ends, whatever the table holds, at the corner of the
  table, with the operations of the diff in reverse order, after at most one turn per line of the two texts.
\<close>

theorem diff_walk_terminates:
  "back_loop old new dp = Some (0, 0, walk_back old new dp (length old) (length new))
   \<and> length (walk_back old new dp (length old) (length new)) \<le> length old + length new
   \<and> computeLCSDiff old new = rev (snd (snd (the (back_loop old new (lcs_table old new)))))"
  unfolding back_loop_def computeLCSDiff_def using walk_back_length by (simp add: back_loop_from)

section \<open>The exchange sort sorts\<close>

lemma string_less_iff: "string_less xs ys \<longleftrightarrow> xs < ys"
proof (induction xs ys rule: string_less.induct)
  case (3 x xs y ys)
  then show ?case by (simp add: byte_def less_char_def)
next
  case (1 ys)
  then show ?case by (cases ys) simp_all
qed simp

lemma exchange_facts:
  assumes "i < j" and "j < length s"
  shows "length (exchange i j s) = length s" "mset (exchange i j s) = mset s" "take i (exchange i j s) = take i s"
    "exchange i j s ! i \<le> s ! i" "exchange i j s ! i \<le> exchange i j s ! j"
    "\<And>k. k \<noteq> i \<Longrightarrow> k \<noteq> j \<Longrightarrow> exchange i j s ! k = s ! k"
  using assms by (auto simp: exchange_def string_less_iff mset_swap nth_list_update not_less)

lemma exchange_pass:
  "i < k \<Longrightarrow> k \<le> length s \<Longrightarrow>
   length (fold (exchange i) [Suc i..<k] s) = length s \<and> mset (fold (exchange i) [Suc i..<k] s) = mset s
   \<and> take i (fold (exchange i) [Suc i..<k] s) = take i s
   \<and> (\<forall>j \<in> {i..<k}. fold (exchange i) [Suc i..<k] s ! i \<le> fold (exchange i) [Suc i..<k] s ! j)"
proof (induction k)
  case (Suc k)
  show ?case
  proof (cases "i = k")
    case False
    then have "i < k" using Suc(2) by simp
    obtain s' where s': "s' = fold (exchange i) [Suc i..<k] s" by blast
    have IH: "length s' = length s" "mset s' = mset s" "take i s' = take i s" "\<forall>j \<in> {i..<k}. s' ! i \<le> s' ! j"
      using Suc \<open>i < k\<close> unfolding s' by auto
    have step: "fold (exchange i) [Suc i..<Suc k] s = exchange i k s'" using \<open>i < k\<close> unfolding s' by simp
    have f: "exchange i k s' ! i \<le> s' ! i" "exchange i k s' ! i \<le> exchange i k s' ! k"
      "\<And>j. j \<noteq> i \<Longrightarrow> j \<noteq> k \<Longrightarrow> exchange i k s' ! j = s' ! j"
      using exchange_facts [of i k s'] \<open>i < k\<close> Suc(3) IH(1) by auto
    have "exchange i k s' ! i \<le> exchange i k s' ! j" if "j \<in> {i..<Suc k}" for j
      using that f IH(4) by (cases "j = i"; cases "j = k") (auto intro: order_trans)
    then show ?thesis unfolding step using exchange_facts(1-3) [of i k s'] \<open>i < k\<close> Suc(3) IH by auto
  qed auto
qed simp

lemma sort_prefix:
  "k \<le> length s \<Longrightarrow>
   (let s' = fold (\<lambda>i. fold (exchange i) [Suc i..<length s]) [0..<k] s in
    length s' = length s \<and> mset s' = mset s \<and> sorted (take k s') \<and> (\<forall>x \<in> set (take k s'). \<forall>y \<in> set (drop k s'). x \<le> y))"
proof (induction k)
  case (Suc k)
  obtain s' where s': "s' = fold (\<lambda>i. fold (exchange i) [Suc i..<length s]) [0..<k] s" by blast
  obtain t where t: "t = fold (exchange k) [Suc k..<length s] s'" by blast
  have IH: "length s' = length s" "mset s' = mset s" "sorted (take k s')" "\<forall>x \<in> set (take k s'). \<forall>y \<in> set (drop k s'). x \<le> y"
    using Suc unfolding s' Let_def by auto
  have P: "length t = length s" "mset t = mset s" "take k t = take k s'" "\<forall>j \<in> {k..<length s}. t ! k \<le> t ! j"
    using exchange_pass [of k "length s" s'] Suc(2) IH(1,2) unfolding t by auto
  have "mset (take k t) + mset (drop k t) = mset (take k s') + mset (drop k s')"
    using P(2) IH(2) by (metis append_take_drop_id mset_append)
  then have D: "set (drop k t) = set (drop k s')" using P(3) by (metis add_left_cancel mset_eq_setD)
  have dk: "drop k t = t ! k # drop (Suc k) t" using Suc(2) P(1) by (simp add: Cons_nth_drop_Suc)
  have tk: "take (Suc k) t = take k s' @ [t ! k]" using Suc(2) P(1,3) by (simp add: take_Suc_conv_app_nth)
  have low: "t ! k \<le> y" if "y \<in> set (drop k t)" for y
    using that P(1,4) by (auto simp: in_set_conv_nth)
  have "sorted (take (Suc k) t)" unfolding tk using IH(3,4) D dk by (auto simp: sorted_append)
  moreover have "\<forall>x \<in> set (take (Suc k) t). \<forall>y \<in> set (drop (Suc k) t). x \<le> y"
    unfolding tk using IH(4) D dk low by auto
  ultimately show ?case using P(1,2) unfolding s' t Let_def by simp
qed simp

lemma sortStrings_is_sort: "sortStrings s = sort s"
  using sort_prefix [of "length s" s] unfolding sortStrings_def Let_def by (intro properties_for_sort [symmetric]) auto

lemma diff_path_Path: "diff_path fs ts p = Some d \<Longrightarrow> di_Path d = p"
  by (auto simp: diff_path_def buildDiffFile_def Let_def split: option.splits if_splits)

lemma diff_files_Path:
  "map di_Path (List.map_filter (diff_path fs ts) ps) = filter (\<lambda>p. diff_path fs ts p \<noteq> None) ps"
  by (induction ps) (auto simp: List.map_filter_def diff_path_Path)

lemma sortedKeys_order:
  assumes "\<And>xs. mset (order xs) = mset xs"
  shows "sortedKeys order ps = sort (remdups ps)"
  unfolding sortedKeys_def sortStrings_is_sort using assms by (metis mset_sort properties_for_sort sorted_sort)

text \<open>C36: comparing two versions does not depend on the order in which the map of paths is ranged over:
  every order gives the same files in the same places, sorted by path, each path at most once.
\<close>

theorem version_diff_ignores_map_order:
  assumes "\<And>xs. mset (order xs) = mset xs" and "\<And>xs. mset (order' xs) = mset xs"
  shows "CompareVersions order a b fs ts = CompareVersions order' a b fs ts
    \<and> sorted (map di_Path (vf_Files (CompareVersions order a b fs ts)))
    \<and> distinct (map di_Path (vf_Files (CompareVersions order a b fs ts)))"
  using assms by (simp add: CompareVersions_def Let_def sortedKeys_order diff_files_Path sorted_wrt_filter)

theorem version_diff_ignores_map_order_witness:
  "(let f = \<lambda>p h. \<lparr>sf_ID = 1, sf_VersionID = 1, sf_FilePath = p, sf_FileSize = 5, sf_ContentType = ''text'', sf_SHA256 = h,
      sf_StorageKey = '''', sf_CreatedAt = 0\<rparr>
    in CompareVersions rev ''1'' ''2'' [f ''b'' ''00'', f ''a'' ''11''] [f ''a'' ''12'']
       = CompareVersions id ''1'' ''2'' [f ''b'' ''00'', f ''a'' ''11''] [f ''a'' ''12''])"
  using version_diff_ignores_map_order [where order = rev and order' = id] by simp

end
