(* ===== verification/Tooling.thy ===== *)
theory Tooling
  imports Diff Publish AgentCI
begin

text \<open>
  The tooling service (\<open>tooling/service.go\<close>, \<open>fingerprint.go\<close>, \<open>manifest.go\<close>, \<open>types.go\<close>): package
  manifests and hashes, version fingerprints, resolving, comparing and evaluating versions. \<open>sort.Slice\<close>
  is not stable, so a permutation \<open>shuffle\<close> says how it leaves entries with equal paths. The services
  that may not be configured are optional arguments.
\<close>

section \<open>Fingerprints and manifests\<close>

definition fingerprint_line :: "string \<times> string \<Rightarrow> string" where
  "fingerprint_line = (\<lambda>(path, sha). path @ '':'' @ sha @ nl)"

definition fingerprint_text :: "(string \<times> string) list \<Rightarrow> string" where
  "fingerprint_text ps = concat (map fingerprint_line ps)"

definition fingerprint_of :: "(string \<times> string) list \<Rightarrow> string" where
  "fingerprint_of ps = ''sha256:'' @ EncodeToString (Sum256 (fingerprint_text ps))"

definition ComputeVersionFingerprint :: "(SkillFile list \<Rightarrow> SkillFile list) \<Rightarrow> SkillFile list \<Rightarrow> string" where
  "ComputeVersionFingerprint shuffle fs = fingerprint_of (map (\<lambda>f. (sf_FilePath f, sf_SHA256 f)) (sort_key sf_FilePath (shuffle fs)))"

record ManifestEntry =
  me_Path :: string
  me_Size :: int
  me_ContentType :: string
  me_SHA256 :: string

record PackageManifest =
  pm_Entries :: "ManifestEntry list"
  pm_Hash :: string
  pm_TotalSize :: int
  pm_FileCount :: int

definition ComputeManifestHash :: "ManifestEntry list \<Rightarrow> string" where
  "ComputeManifestHash entries = fingerprint_of (map (\<lambda>e. (me_Path e, me_SHA256 e)) entries)"

definition manifest_entry :: "PackageEntry \<Rightarrow> ManifestEntry" where
  "manifest_entry e = \<lparr>me_Path = pe_Path e, me_Size = pe_Size e, me_ContentType = pe_ContentType e,
     me_SHA256 = EncodeToString (Sum256 (pe_Content e))\<rparr>"

definition BuildManifest :: "(PackageEntry list \<Rightarrow> PackageEntry list) \<Rightarrow> PackageEntry list \<Rightarrow> PackageManifest" where
  "BuildManifest shuffle entries =
     (let sorted = sort_key pe_Path (shuffle entries); manifestEntries = map manifest_entry sorted in
      \<lparr>pm_Entries = manifestEntries, pm_Hash = ComputeManifestHash manifestEntries,
       pm_TotalSize = foldl (\<lambda>n e. int64 (n + pe_Size e)) 0 sorted, pm_FileCount = int (length manifestEntries)\<rparr>)"

definition ComputePackageHash :: "(PackageEntry list \<Rightarrow> PackageEntry list) \<Rightarrow> PackageEntry list \<Rightarrow> PackageManifest" where
  "ComputePackageHash shuffle entries = BuildManifest shuffle entries"

section \<open>Workspaces\<close>

record WorkspaceMetadata =
  wm_Name :: string
  wm_Slug :: string
  wm_Description :: string
  wm_Version :: string
  wm_FileCount :: int
  wm_TotalSize :: int

definition WorkspaceFromEntries :: "yaml_decoder \<Rightarrow> (string \<Rightarrow> err + string) \<Rightarrow> PackageEntry list \<Rightarrow> err + WorkspaceMetadata" where
  "WorkspaceFromEntries yaml slugFunc entries =
     (case find (\<lambda>e. pe_Path e = ''SKILL.md'') entries of
        None \<Rightarrow> Inl (Errs ''tooling: SKILL.md not found in package entries'')
      | Some e \<Rightarrow> (case Parse yaml (pe_Content e) of
          Inl x \<Rightarrow> Inl (wrap ''tooling: parse SKILL.md'' x)
        | Inr m \<Rightarrow> (case slugFunc (md_Name m) of
            Inl x \<Rightarrow> Inl (wrap ''tooling: slugify'' x)
          | Inr slug \<Rightarrow> Inr \<lparr>wm_Name = md_Name m, wm_Slug = slug, wm_Description = md_Description m, wm_Version = md_Version m,
              wm_FileCount = int (length entries), wm_TotalSize = foldl (\<lambda>n e. int64 (n + pe_Size e)) 0 entries\<rparr>)))"

section \<open>Calls of the skill services\<close>

definition errNoSkillService :: err where
  "errNoSkillService = Errs ''tooling: skill service is not configured''"

definition Tooling_Validate :: "publish_env option \<Rightarrow> string \<Rightarrow> PackageEntry list \<Rightarrow> string \<Rightarrow> string \<Rightarrow> platform \<Rightarrow> DryRunResult op" where
  "Tooling_Validate skillSvc namespaceSlug entries publisherID visibility pr = (case skillSvc of
     None \<Rightarrow> fail errNoSkillService
   | Some env \<Rightarrow> ValidateOnly env namespaceSlug entries publisherID visibility pr)"

definition Tooling_Publish :: "publish_env option \<Rightarrow> string \<Rightarrow> PackageEntry list \<Rightarrow> string \<Rightarrow> string \<Rightarrow> platform \<Rightarrow> bool \<Rightarrow> PublishResult op" where
  "Tooling_Publish skillSvc namespaceSlug entries publisherID visibility pr force = (case skillSvc of
     None \<Rightarrow> fail errNoSkillService
   | Some env \<Rightarrow> Publish env namespaceSlug entries publisherID visibility pr force)"

text \<open>\<open>url.PathEscape\<close>: the unreserved bytes and the delimiters a path segment may hold stand for themselves.\<close>

definition upper_hex :: "nat \<Rightarrow> char" where
  "upper_hex n = (if n < 10 then char_of (48 + n) else char_of (55 + n))"

definition segment_safe :: "char \<Rightarrow> bool" where
  "segment_safe c \<longleftrightarrow> is_upper c \<or> is_lower c \<or> is_digit c \<or> c \<in> set ''-_.~$&+:=@''"

definition PathEscape :: "string \<Rightarrow> string" where
  "PathEscape s = concat (map (\<lambda>c. if segment_safe c then [c] else [CHR ''%'', upper_hex (byte c div 16), upper_hex (byte c mod 16)]) s)"

record ResolveResult =
  re_SkillID :: int
  re_Namespace :: string
  re_Slug :: string
  re_Version :: string
  re_VersionID :: int
  re_Fingerprint :: string
  re_DownloadURL :: string

definition download_url :: "string \<Rightarrow> string \<Rightarrow> string \<Rightarrow> string" where
  "download_url namespaceSlug skillSlug v =
     ''/api/v1/skills/'' @ PathEscape namespaceSlug @ ''/'' @ PathEscape skillSlug @ ''/versions/'' @ PathEscape v @ ''/download''"

definition Tooling_Resolve :: "(SkillFile list \<Rightarrow> SkillFile list) \<Rightarrow> object_store option \<Rightarrow> string \<Rightarrow> string \<Rightarrow> string \<Rightarrow> string \<Rightarrow> roles \<Rightarrow> ResolveResult op" where
  "Tooling_Resolve shuffle skillSvc namespaceSlug skillSlug versionStr currentUserID rs = (case skillSvc of
     None \<Rightarrow> fail errNoSkillService
   | Some store \<Rightarrow> do {
       r \<leftarrow> ResolveVersion namespaceSlug skillSlug versionStr [] currentUserID rs;
       (case r of
         Inl e \<Rightarrow> fail e
       | Inr ver \<Rightarrow> do {
           r \<leftarrow> ListFiles store namespaceSlug skillSlug (sv_Version ver) currentUserID rs;
           (case r of
             Inl e \<Rightarrow> fail (wrap ''tooling: list files for fingerprint'' e)
           | Inr fs \<Rightarrow> ok \<lparr>re_SkillID = sv_SkillID ver, re_Namespace = namespaceSlug, re_Slug = skillSlug, re_Version = sv_Version ver,
               re_VersionID = sv_ID ver, re_Fingerprint = ComputeVersionFingerprint shuffle fs,
               re_DownloadURL = download_url namespaceSlug skillSlug (sv_Version ver)\<rparr>) }) })"

record AgentRuntime =
  ar_Type :: string
  ar_MinVersion :: string

record InstallTarget =
  it_SkillID :: int
  it_SkillSlug :: string
  it_Namespace :: string
  it_Version :: string
  it_Fingerprint :: string
  it_DownloadURL :: string
  it_SupportedAgents :: "AgentRuntime list"
  it_InstallPath :: string

definition ResolveInstall :: "(SkillFile list \<Rightarrow> SkillFile list) \<Rightarrow> object_store option \<Rightarrow> string \<Rightarrow> string \<Rightarrow> string \<Rightarrow> string \<Rightarrow> roles \<Rightarrow> InstallTarget op" where
  "ResolveInstall shuffle skillSvc namespaceSlug skillSlug versionStr currentUserID rs = do {
     r \<leftarrow> Tooling_Resolve shuffle skillSvc namespaceSlug skillSlug versionStr currentUserID rs;
     (case r of
       Inl e \<Rightarrow> fail e
     | Inr x \<Rightarrow> ok \<lparr>it_SkillID = re_SkillID x, it_SkillSlug = re_Slug x, it_Namespace = re_Namespace x, it_Version = re_Version x,
         it_Fingerprint = re_Fingerprint x, it_DownloadURL = re_DownloadURL x, it_SupportedAgents = [], it_InstallPath = []\<rparr>) }"

section \<open>Comparing versions\<close>

definition Tooling_Diff :: "(string list \<Rightarrow> string list) \<Rightarrow> object_store option \<Rightarrow> string \<Rightarrow> string \<Rightarrow> string \<Rightarrow> string \<Rightarrow> string \<Rightarrow> roles \<Rightarrow> VersionDiff op" where
  "Tooling_Diff order skillSvc namespaceSlug skillSlug fromVersion toVersion currentUserID rs = (case skillSvc of
     None \<Rightarrow> fail errNoSkillService
   | Some store \<Rightarrow> do {
       r \<leftarrow> ListFiles store namespaceSlug skillSlug fromVersion currentUserID rs;
       (case r of
         Inl e \<Rightarrow> fail (wrap ''tooling: list from files'' e)
       | Inr fromFiles \<Rightarrow> do {
           r \<leftarrow> ListFiles store namespaceSlug skillSlug toVersion currentUserID rs;
           (case r of
             Inl e \<Rightarrow> fail (wrap ''tooling: list to files'' e)
           | Inr toFiles \<Rightarrow> ok (CompareVersions order fromVersion toVersion fromFiles toFiles)) }) })"

text \<open>
  A reader delivers chunks and then ends, by \<open>EOF\<close> or by another error; either way the bytes read so
  far are the answer. A file is delivered in blocks of the buffer's size.
\<close>

fun read_chunks :: "string \<Rightarrow> string list \<Rightarrow> err + string" where
  "read_chunks buf [] = Inr buf"
| "read_chunks buf (c # cs) =
     (if c \<noteq> [] \<and> int (length (buf @ c)) > maxDiffFileBytes + 4096 then Inl (Errs ''file too large'') else read_chunks (buf @ c) cs)"

definition readAll :: "string list \<Rightarrow> err + string" where
  "readAll chunks = read_chunks [] chunks"

function blocks :: "string \<Rightarrow> string list" where
  "blocks s = (if s = [] then [] else take 4096 s # blocks (drop 4096 s))"
  by pat_completeness auto
termination
  by (relation "measure length") auto

declare blocks.simps [simp del]

definition too_large :: "int option \<Rightarrow> bool" where
  "too_large sz \<longleftrightarrow> (case sz of None \<Rightarrow> False | Some n \<Rightarrow> n > maxDiffFileBytes)"

text \<open>The content of a file of a version; a failure of any kind skips the file.\<close>

definition content_of :: "object_store \<Rightarrow> string \<Rightarrow> string \<Rightarrow> string \<Rightarrow> string \<Rightarrow> string \<Rightarrow> roles \<Rightarrow> (world, string option) state" where
  "content_of store namespaceSlug skillSlug v path currentUserID rs = do {
     r \<leftarrow> GetFileContent store namespaceSlug skillSlug v path currentUserID rs;
     State_Monad.return (case r of Inl _ \<Rightarrow> None | Inr c \<Rightarrow> (case readAll (blocks c) of Inl _ \<Rightarrow> None | Inr b \<Rightarrow> Some b)) }"

definition diff_content :: "object_store \<Rightarrow> string \<Rightarrow> string \<Rightarrow> string \<Rightarrow> string \<Rightarrow> string \<Rightarrow> roles \<Rightarrow> DiffFile \<Rightarrow> (world, DiffFile) state" where
  "diff_content store namespaceSlug skillSlug fromVersion toVersion currentUserID rs f =
     (if di_Binary f \<or> di_ChangeType f = ''ADDED'' \<or> di_ChangeType f = ''REMOVED'' then State_Monad.return f
      else if too_large (di_OldSize f) \<or> too_large (di_NewSize f) then State_Monad.return (f\<lparr>di_Truncated := True\<rparr>)
      else do {
        old \<leftarrow> content_of store namespaceSlug skillSlug fromVersion (di_Path f) currentUserID rs;
        (case old of
          None \<Rightarrow> State_Monad.return f
        | Some oldBytes \<Rightarrow> do {
            new \<leftarrow> content_of store namespaceSlug skillSlug toVersion (di_Path f) currentUserID rs;
            (case new of
              None \<Rightarrow> State_Monad.return f
            | Some newBytes \<Rightarrow> (let hunks = CompareTextFiles oldBytes newBytes in
                State_Monad.return (if hunks = [] then f\<lparr>di_Truncated := True\<rparr> else f\<lparr>di_Hunks := hunks\<rparr>))) }) })"

fun diff_contents :: "object_store \<Rightarrow> string \<Rightarrow> string \<Rightarrow> string \<Rightarrow> string \<Rightarrow> string \<Rightarrow> roles \<Rightarrow> DiffFile list \<Rightarrow> (world, DiffFile list) state" where
  "diff_contents store n s a b u rs [] = State_Monad.return []"
| "diff_contents store n s a b u rs (f # fs) = do {
     f' \<leftarrow> diff_content store n s a b u rs f;
     fs' \<leftarrow> diff_contents store n s a b u rs fs;
     State_Monad.return (f' # fs') }"

definition DiffWithContent :: "(string list \<Rightarrow> string list) \<Rightarrow> object_store option \<Rightarrow> string \<Rightarrow> string \<Rightarrow> string \<Rightarrow> string \<Rightarrow> string \<Rightarrow> roles \<Rightarrow> VersionDiff op" where
  "DiffWithContent order skillSvc namespaceSlug skillSlug fromVersion toVersion currentUserID rs = (case skillSvc of
     None \<Rightarrow> fail errNoSkillService
   | Some store \<Rightarrow> do {
       r \<leftarrow> Tooling_Diff order skillSvc namespaceSlug skillSlug fromVersion toVersion currentUserID rs;
       (case r of
         Inl e \<Rightarrow> fail e
       | Inr result \<Rightarrow> do {
           fs \<leftarrow> diff_contents store namespaceSlug skillSlug fromVersion toVersion currentUserID rs (vf_Files result);
           ok (result\<lparr>vf_Files := fs\<rparr>) }) })"

section \<open>Evaluations and proposals\<close>

record EvaluateRequest =
  er_SkillID :: int
  er_VersionID :: int
  er_TriggerType :: string

record EvaluateResponse =
  ev_Accepted :: bool
  ev_CheckRunID :: string
  ev_Message :: "string \<times> arg list"

definition TriggerEvaluate :: "ci_service option \<Rightarrow> EvaluateRequest \<Rightarrow> (world, EvaluateResponse) state" where
  "TriggerEvaluate agentciSvc req = (case agentciSvc of
     None \<Rightarrow> State_Monad.return \<lparr>ev_Accepted = False, ev_CheckRunID = [], ev_Message = (''agent CI service is not configured'', [])\<rparr>
   | Some svc \<Rightarrow> do {
       r \<leftarrow> TriggerPipeline svc \<lparr>ti_SkillID = er_SkillID req, ti_VersionID = Some (er_VersionID req), ti_ReleaseID = None,
         ti_TriggerType = er_TriggerType req, ti_TriggeredBy = ''system''\<rparr>;
       State_Monad.return (case r of
         Inl e \<Rightarrow> \<lparr>ev_Accepted = False, ev_CheckRunID = [], ev_Message = (''failed to trigger pipeline: %v'', [AStr (error_text e)])\<rparr>
       | Inr x \<Rightarrow> \<lparr>ev_Accepted = tr_Accepted x, ev_CheckRunID = itoa (tr_PipelineRunID x), ev_Message = tr_Message x\<rparr>) })"

record ProposalResponse =
  pr_Accepted :: bool
  pr_ProposalID :: string
  pr_Message :: string

definition PrepareProposal :: "'req \<Rightarrow> ProposalResponse" where
  "PrepareProposal req = \<lparr>pr_Accepted = False, pr_ProposalID = [], pr_Message = ''proposal preparation is not yet implemented (Phase 11)''\<rparr>"

section \<open>What a package hash promises\<close>

text \<open>The text that is hashed, and the paths that keep its lines apart.\<close>

definition one_line :: "string \<Rightarrow> bool" where
  "one_line s \<longleftrightarrow> CHR 0x0A \<notin> set s"

definition manifest_pairs :: "PackageManifest \<Rightarrow> (string \<times> string) list" where
  "manifest_pairs m = map (\<lambda>e. (me_Path e, me_SHA256 e)) (pm_Entries m)"

definition hash_ok :: "string \<Rightarrow> bool" where
  "hash_ok s \<longleftrightarrow> CHR 0x0A \<notin> set s \<and> CHR '':'' \<notin> set s"

lemma hex_digit_plain: "0 \<le> n \<Longrightarrow> n < 16 \<Longrightarrow> hash_ok [hex_digit n]"
proof -
  assume "0 \<le> n" "n < 16"
  then have "nat n < length ''0123456789abcdef''" by simp
  then have "hex_digit n \<in> set ''0123456789abcdef''" unfolding hex_digit_def by (rule nth_mem)
  then show ?thesis by (auto simp: hash_ok_def)
qed

lemma hash_ok_hex: "hash_ok (EncodeToString s)"
proof (induction s)
  case (Cons c s)
  have "(of_char c :: nat) < 256" using range_nat_of_char by auto
  then have "0 \<le> (of_char c :: int) \<and> (of_char c :: int) < 256" using of_nat_of_char [of c, where ?'a = int] by linarith
  then have "hash_ok [hex_digit (of_char c div 16)]" "hash_ok [hex_digit (of_char c mod 16)]"
    by (auto intro!: hex_digit_plain)
  then show ?case using Cons by (auto simp: EncodeToString_def hash_ok_def)
qed (simp add: EncodeToString_def hash_ok_def)

lemma first_line_unique: "a @ CHR 0x0A # x = b @ CHR 0x0A # y \<Longrightarrow> one_line a \<Longrightarrow> one_line b \<Longrightarrow> a = b \<and> x = y"
proof (induction a arbitrary: b)
  case Nil
  then show ?case by (cases b) (auto simp: one_line_def)
next
  case (Cons c a)
  then show ?case by (cases b) (auto simp: one_line_def)
qed

lemma last_colon_unique:
  assumes "p @ CHR '':'' # s = p' @ CHR '':'' # s'" and "CHR '':'' \<notin> set s" and "CHR '':'' \<notin> set s'"
  shows "p = p' \<and> s = s'"
proof -
  have "takeWhile (\<lambda>c. c \<noteq> CHR '':'') (rev (p @ CHR '':'' # s)) = rev s" if "CHR '':'' \<notin> set s" for p s :: string
    using that by (auto simp: takeWhile_append)
  then have "rev s = rev s'" using assms by metis
  then show ?thesis using assms(1) by simp
qed

lemma fingerprint_text_inj:
  "\<forall>(p, s) \<in> set ps. one_line p \<and> hash_ok s \<Longrightarrow> \<forall>(p, s) \<in> set qs. one_line p \<and> hash_ok s \<Longrightarrow>
   fingerprint_text ps = fingerprint_text qs \<longleftrightarrow> ps = qs"
proof (induction ps arbitrary: qs)
  case Nil
  then show ?case by (cases qs) (auto simp: fingerprint_text_def fingerprint_line_def)
next
  case (Cons a ps)
  obtain p s where a: "a = (p, s)" by fastforce
  show ?case
  proof (cases qs)
    case Nil
    then show ?thesis by (auto simp: fingerprint_text_def fingerprint_line_def a)
  next
    case (Cons b qs')
    obtain p' s' where b: "b = (p', s')" by fastforce
    have ok: "one_line (p @ '':'' @ s)" "one_line (p' @ '':'' @ s')" "CHR '':'' \<notin> set s" "CHR '':'' \<notin> set s'"
      using Cons.prems Cons a b by (auto simp: one_line_def hash_ok_def)
    have eq: "fingerprint_text (a # ps) = (p @ '':'' @ s) @ CHR 0x0A # fingerprint_text ps"
      "fingerprint_text qs = (p' @ '':'' @ s') @ CHR 0x0A # fingerprint_text qs'"
      unfolding Cons a b by (simp_all add: fingerprint_text_def fingerprint_line_def nl_def)
    have IH: "fingerprint_text ps = fingerprint_text qs' \<longleftrightarrow> ps = qs'"
      by (rule Cons.IH) (use Cons.prems Cons in simp_all)
    have "fingerprint_text (a # ps) = fingerprint_text qs \<longleftrightarrow> p @ '':'' @ s = p' @ '':'' @ s' \<and> fingerprint_text ps = fingerprint_text qs'"
      unfolding eq using first_line_unique [of "p @ '':'' @ s" _ "p' @ '':'' @ s'"] ok(1,2) by metis
    also have "\<dots> \<longleftrightarrow> (p = p' \<and> s = s') \<and> ps = qs'"
      using last_colon_unique [of p s p' s'] ok(3,4) IH by auto
    finally show ?thesis unfolding Cons a b by simp
  qed
qed

lemma manifest_hash: "pm_Hash (BuildManifest shuffle es) = fingerprint_of (manifest_pairs (BuildManifest shuffle es))"
  by (simp add: BuildManifest_def Let_def ComputeManifestHash_def manifest_pairs_def)

lemma manifest_pairs_build:
  "manifest_pairs (BuildManifest shuffle es) = map (\<lambda>e. (pe_Path e, EncodeToString (Sum256 (pe_Content e)))) (sort_key pe_Path (shuffle es))"
  by (simp add: BuildManifest_def Let_def manifest_pairs_def manifest_entry_def)

lemma manifest_pairs_ok:
  assumes "\<And>xs. mset (shuffle xs) = mset xs" and "\<forall>e \<in> set es. one_line (pe_Path e)"
  shows "\<forall>(p, s) \<in> set (manifest_pairs (BuildManifest shuffle es)). one_line p \<and> hash_ok s"
  using assms(2) mset_eq_setD [OF assms(1) [of es]] by (auto simp: manifest_pairs_build hash_ok_hex)

lemma sort_key_perm:
  assumes "mset xs = mset ys" and "distinct (map k xs)"
  shows "sort_key k xs = sort_key k (ys :: 'a list)"
proof (rule sort_key_inj_key_eq)
  show "mset xs = mset (sort_key k ys)" using assms(1) by simp
  show "inj_on k (set xs)" using assms(2) by (simp add: distinct_map)
qed simp



section \<open>Comparisons with content\<close>

text \<open>A read of a file in blocks is the file, unless it is larger than the limit.\<close>

lemma concat_blocks: "concat (blocks s) = s"
proof (induction s rule: blocks.induct)
  case (1 s)
  then show ?case by (subst blocks.simps) simp
qed

lemma read_chunks_concat:
  "int (length (buf @ concat cs)) \<le> maxDiffFileBytes + 4096 \<Longrightarrow> read_chunks buf cs = Inr (buf @ concat cs)"
  by (induction buf cs rule: read_chunks.induct) auto

lemma readAll_blocks: "int (length s) \<le> maxDiffFileBytes + 4096 \<Longrightarrow> readAll (blocks s) = Inr s"
  unfolding readAll_def using read_chunks_concat [of "[]" "blocks s"] by (simp add: concat_blocks)

text \<open>The line counts of a summary are taken before any hunk is computed, so they are always zero.\<close>

lemma compare_counts_no_lines:
  "du_AddedLines (vf_Summary (CompareVersions order a b fs ts)) = 0 \<and> du_RemovedLines (vf_Summary (CompareVersions order a b fs ts)) = 0"
proof -
  have "di_Hunks d = []" if "diff_path fs ts p = Some d" for p d
    using that by (auto simp: diff_path_def buildDiffFile_def Let_def split: option.splits if_splits)
  then have "concat (map di_Hunks (List.map_filter (diff_path fs ts) ps)) = []" for ps
    by (induction ps) (auto simp: List.map_filter_def)
  then show ?thesis by (simp add: CompareVersions_def Let_def count_lines_def)
qed

definition no_line_counts :: "err + VersionDiff \<Rightarrow> bool" where
  "no_line_counts r \<longleftrightarrow> (\<forall>d. r = Inr d \<longrightarrow> du_AddedLines (vf_Summary d) = 0 \<and> du_RemovedLines (vf_Summary d) = 0)"

lemma no_line_counts_simps [simp]:
  "no_line_counts (Inl e)" "no_line_counts (Inr (CompareVersions order a b fs ts))"
  "no_line_counts (Inr d) \<Longrightarrow> no_line_counts (Inr (d\<lparr>vf_Files := fs'\<rparr>))"
  by (simp_all add: no_line_counts_def compare_counts_no_lines)

lemma diff_counts_no_lines: "wp (Tooling_Diff order svc n s a b u rs) (\<lambda>r _. no_line_counts r) w"
proof (cases svc)
  case (Some store)
  have last: "wp (case r of Inl e \<Rightarrow> fail (f e) | Inr ts \<Rightarrow> ok (CompareVersions order a b fs ts)) (\<lambda>r _. no_line_counts r) w" for r f fs w
    by (cases r) simp_all
  have "wp (case r of Inl e \<Rightarrow> fail (wrap ''tooling: list from files'' e)
     | Inr fs \<Rightarrow> do { r \<leftarrow> ListFiles store n s b u rs;
         (case r of Inl e \<Rightarrow> fail (wrap ''tooling: list to files'' e) | Inr ts \<Rightarrow> ok (CompareVersions order a b fs ts)) })
     (\<lambda>r _. no_line_counts r) w" for r w
    by (cases r) (simp_all only: sum.case wp_return wp_bind no_line_counts_simps wp_top [OF last])
  then show ?thesis unfolding Tooling_Diff_def Some option.case wp_bind by (rule wp_top)
qed (simp add: Tooling_Diff_def)

lemma content_diff_counts_no_lines: "wp (DiffWithContent order svc n s a b u rs) (\<lambda>r _. no_line_counts r) w"
proof (cases svc)
  case (Some store)
  have "wp (case r of Inl e \<Rightarrow> fail e | Inr d \<Rightarrow> do { fs \<leftarrow> diff_contents store n s a b u rs (vf_Files d); ok (d\<lparr>vf_Files := fs\<rparr>) })
     (\<lambda>r _. no_line_counts r) w" if "no_line_counts r" for r w
    using that by (cases r) (simp_all only: sum.case wp_return wp_bind no_line_counts_simps wp_top)
  then show ?thesis unfolding DiffWithContent_def Some option.case wp_bind
    by (rule wp_mono [OF diff_counts_no_lines])
qed (simp add: DiffWithContent_def)

end
