(* ===== verification/RoutePolicy.thy ===== *)
theory RoutePolicy
  imports GoStrings
begin

text \<open>
  The route security policies of \<open>auth/scope.go\<close>: Ant-style patterns and the catalogue that says
  which API token scope a route needs.
\<close>

record RoutePolicy =
  rp_Method :: string
  rp_Pattern :: string
  rp_RequiredRole :: string
  rp_RequiredScope :: string

record RouteSecurityPolicyCatalog =
  cat_publicRoutes :: "RoutePolicy list"
  cat_authRoutes :: "RoutePolicy list"
  cat_roleRoutes :: "RoutePolicy list"
  cat_apiAllow :: "RoutePolicy list"
  cat_apiScope :: "RoutePolicy list"

section \<open>Matching\<close>

definition trim_slashes :: "string \<Rightarrow> string" where
  "trim_slashes s = rev (dropWhile (\<lambda>c. c = CHR ''/'') (rev (dropWhile (\<lambda>c. c = CHR ''/'') s)))"

definition segments :: "string \<Rightarrow> string list" where
  "segments s = split_on (CHR ''/'') (trim_slashes s)"

definition antMatch :: "string \<Rightarrow> string \<Rightarrow> bool" where
  "antMatch pattern path =
     (if pattern = path then True
      else if pattern = [] then False
      else if HasSuffix pattern ''/**'' then
        (let prefix = take (length pattern - 3) pattern in
         if prefix = [] then True else HasPrefix path (prefix @ ''/''))
      else length (segments pattern) = length (segments path)
        \<and> list_all (\<lambda>(p, s). p = ''*'' \<or> p = s) (zip (segments pattern) (segments path)))"

definition routeMatches :: "RoutePolicy \<Rightarrow> string \<Rightarrow> string \<Rightarrow> bool" where
  "routeMatches p method path =
     (if rp_Method p \<noteq> [] \<and> \<not> EqualFold (rp_Method p) method then False else antMatch (rp_Pattern p) path)"

definition matchRoute :: "RoutePolicy list \<Rightarrow> string \<Rightarrow> string \<Rightarrow> bool" where
  "matchRoute policies method path = list_ex (\<lambda>p. routeMatches p method path) policies"

section \<open>The catalogue\<close>

definition ScopeTokenManage :: string where "ScopeTokenManage = ''token:manage''"
definition ScopeSkillPublish :: string where "ScopeSkillPublish = ''skill:publish''"
definition ScopeSkillDelete :: string where "ScopeSkillDelete = ''skill:delete''"
definition ScopeSkillRead :: string where "ScopeSkillRead = ''skill:read''"

abbreviation route :: "string \<Rightarrow> string \<Rightarrow> RoutePolicy" where
  "route m p \<equiv> \<lparr>rp_Method = m, rp_Pattern = p, rp_RequiredRole = [], rp_RequiredScope = []\<rparr>"

abbreviation scoped :: "string \<Rightarrow> string \<Rightarrow> string \<Rightarrow> RoutePolicy" where
  "scoped m p s \<equiv> \<lparr>rp_Method = m, rp_Pattern = p, rp_RequiredRole = [], rp_RequiredScope = s\<rparr>"

definition publicRoutes :: "RoutePolicy list" where
  "publicRoutes =
     map (route []) [''/api/v1/health'', ''/api/v1/search'', ''/api/v1/resolve/**'', ''/api/v1/download/**'', ''/api/v1/auth/providers'',
       ''/api/v1/auth/methods'', ''/api/v1/auth/session/bootstrap'', ''/api/v1/auth/direct/login'', ''/api/v1/auth/local/**'',
       ''/api/v1/auth/device/**'', ''/api/v1/check'', ''/actuator/health'', ''/v3/api-docs/**'', ''/swagger-ui/**'', ''/.well-known/**'']
   @ map (route ''GET'') [''/api/v1/skills'', ''/api/v1/skills/*/*'', ''/api/v1/skills/*/*/versions'', ''/api/v1/skills/*/*/versions/*'',
       ''/api/v1/skills/*/*/download'', ''/api/v1/skills/*/*/versions/*/download'', ''/api/v1/skills/*/*/resolve'',
       ''/api/v1/skills/*/*/tags'', ''/api/v1/skills/*/*/labels'', ''/api/v1/labels'', ''/api/v1/namespaces'', ''/api/v1/namespaces/*'',
       ''/api/cli/v1/skills/search'', ''/api/cli/v1/skills/*/*/resolve'', ''/api/cli/v1/skills/*/*/download'',
       ''/api/cli/v1/skills/*/*/versions/*/download'']"

definition authenticatedRoutes :: "RoutePolicy list" where
  "authenticatedRoutes =
    [route ''GET'' ''/api/v1/auth/me'', route [] ''/api/v1/auth/logout'', route ''DELETE'' ''/api/v1/skills/id/*'',
     route ''DELETE'' ''/api/v1/skills/*/*'', route [] ''/api/v1/admin/**'', route ''GET'' ''/api/cli/v1/auth/whoami'',
     route ''DELETE'' ''/api/cli/v1/skills/*/*'', route ''POST'' ''/api/cli/v1/skills/*/publish'',
     route ''POST'' ''/api/cli/v1/skills/*/publish/validate'']"

definition roleProtectedRoutes :: "RoutePolicy list" where
  "roleProtectedRoutes = [\<lparr>rp_Method = [], rp_Pattern = ''/actuator/prometheus'', rp_RequiredRole = ''SUPER_ADMIN'', rp_RequiredScope = []\<rparr>]"

definition apiTokenAllowRoutes :: "RoutePolicy list" where
  "apiTokenAllowRoutes = publicRoutes @ [route ''GET'' ''/api/v1/auth/me'', route ''GET'' ''/api/cli/v1/auth/whoami'']"

definition apiTokenScopeRoutes :: "RoutePolicy list" where
  "apiTokenScopeRoutes =
    [scoped [] ''/api/v1/tokens'' ScopeTokenManage, scoped [] ''/api/v1/tokens/**'' ScopeTokenManage,
     scoped ''DELETE'' ''/api/v1/skills/id/*'' ScopeSkillDelete, scoped ''DELETE'' ''/api/v1/skills/*/*'' ScopeSkillDelete,
     scoped ''POST'' ''/api/v1/skills'' ScopeSkillPublish, scoped ''POST'' ''/api/v1/skills/*/publish'' ScopeSkillPublish,
     scoped ''POST'' ''/api/v1/publish'' ScopeSkillPublish, scoped ''DELETE'' ''/api/cli/v1/skills/*/*'' ScopeSkillDelete,
     scoped ''POST'' ''/api/cli/v1/skills/*/publish'' ScopeSkillPublish,
     scoped ''POST'' ''/api/cli/v1/skills/*/publish/validate'' ScopeSkillPublish]"

definition NewRouteSecurityPolicyCatalog :: RouteSecurityPolicyCatalog where
  "NewRouteSecurityPolicyCatalog = \<lparr>cat_publicRoutes = publicRoutes, cat_authRoutes = authenticatedRoutes,
     cat_roleRoutes = roleProtectedRoutes, cat_apiAllow = apiTokenAllowRoutes, cat_apiScope = apiTokenScopeRoutes\<rparr>"

definition IsPublic :: "RouteSecurityPolicyCatalog \<Rightarrow> string \<Rightarrow> string \<Rightarrow> bool" where
  "IsPublic c method path = matchRoute (cat_publicRoutes c) method path"

definition RequiresAuth :: "RouteSecurityPolicyCatalog \<Rightarrow> string \<Rightarrow> string \<Rightarrow> bool" where
  "RequiresAuth c method path = matchRoute (cat_authRoutes c) method path"

definition RequiredRole :: "RouteSecurityPolicyCatalog \<Rightarrow> string \<Rightarrow> string \<Rightarrow> string" where
  "RequiredRole c method path = (case find (\<lambda>p. routeMatches p method path) (cat_roleRoutes c) of
     None \<Rightarrow> [] | Some p \<Rightarrow> rp_RequiredRole p)"

definition AuthorizeApiToken :: "RouteSecurityPolicyCatalog \<Rightarrow> string \<Rightarrow> string \<Rightarrow> string list \<Rightarrow> bool \<times> string" where
  "AuthorizeApiToken c method path scopes =
     (if \<not> HasPrefix path ''/api/'' then (True, [])
      else if list_ex (\<lambda>p. routeMatches p method path) (cat_apiAllow c) then (True, [])
      else (case find (\<lambda>p. routeMatches p method path) (cat_apiScope c) of
          Some p \<Rightarrow> if rp_RequiredScope p \<in> set scopes then (True, []) else (False, rp_RequiredScope p)
        | None \<Rightarrow> (False, [])))"

section \<open>What a token may do\<close>

lemma find_in_list: "find P xs = Some x \<Longrightarrow> x \<in> set xs \<and> P x"
  by (auto simp: find_Some_iff)

text \<open>Under \<open>/api/\<close> nothing is allowed that is neither public nor granted by a scope the token has;
  more scopes never allow less.\<close>

lemma token_access_cases:
  assumes "fst (AuthorizeApiToken c method path scopes)" and "HasPrefix path ''/api/''"
  shows "matchRoute (cat_apiAllow c) method path
    \<or> (\<exists>p \<in> set (cat_apiScope c). routeMatches p method path \<and> rp_RequiredScope p \<in> set scopes)"
  using assms by (auto simp: AuthorizeApiToken_def matchRoute_def split: if_splits option.splits dest!: find_in_list)

lemma token_access_mono:
  "set scopes \<subseteq> set scopes' \<Longrightarrow> fst (AuthorizeApiToken c method path scopes) \<Longrightarrow> fst (AuthorizeApiToken c method path scopes')"
  by (auto simp: AuthorizeApiToken_def split: if_splits option.splits)

lemma trim_slashes_skills:
  assumes "pre \<noteq> []" and "last pre \<noteq> CHR ''/''" and "hd pre \<noteq> CHR ''/''"
  shows "\<exists>u. trim_slashes (''/'' @ pre @ ''/'' @ t) = pre @ u \<and> (u = [] \<or> hd u = CHR ''/'')"
proof -
  have l: "dropWhile (\<lambda>c. c = CHR ''/'') (''/'' @ pre @ ''/'' @ t) = pre @ ''/'' @ t"
    using assms(1,3) by (cases pre) auto
  have r: "dropWhile (\<lambda>c. c = CHR ''/'') (rev pre) = rev pre"
    using assms(1,2) by (cases pre rule: rev_cases) auto
  let ?u = "rev (dropWhile (\<lambda>c. c = CHR ''/'') (rev (''/'' @ t)))"
  show ?thesis
  proof (cases "\<forall>c \<in> set t. c = CHR ''/''")
    case True
    then have "trim_slashes (''/'' @ pre @ ''/'' @ t) = pre" unfolding trim_slashes_def l using r by (simp add: dropWhile_append)
    then show ?thesis by auto
  next
    case False
    then have "trim_slashes (''/'' @ pre @ ''/'' @ t) = pre @ ''/'' @ rev (dropWhile (\<lambda>c. c = CHR ''/'') (rev t))"
      unfolding trim_slashes_def l using False by (auto simp: dropWhile_append)
    then show ?thesis by auto
  qed
qed

lemma split_on_first: "u = [] \<or> hd u = sep \<Longrightarrow> sep \<notin> set s \<Longrightarrow> \<exists>rest. split_on sep (s @ u) = s # rest"
  by (induction s) (cases u; auto split: list.splits)+

lemma segments_skills:
  "HasPrefix path ''/api/v1/skills/'' \<Longrightarrow> \<exists>rest. segments path = ''api'' # ''v1'' # ''skills'' # rest"
  "HasPrefix path ''/api/cli/v1/skills/'' \<Longrightarrow> \<exists>rest. segments path = ''api'' # ''cli'' # ''v1'' # ''skills'' # rest"
proof -
  assume "HasPrefix path ''/api/v1/skills/''"
  then obtain t where "path = ''/'' @ ''api/v1/skills'' @ ''/'' @ t" by (auto simp: HasPrefix_iff)
  then obtain u where "trim_slashes path = ''api/v1/skills'' @ u" "u = [] \<or> hd u = CHR ''/''"
    using trim_slashes_skills [of "''api/v1/skills''" t] by auto
  then show "\<exists>rest. segments path = ''api'' # ''v1'' # ''skills'' # rest"
    using split_on_first [of u "CHR ''/''" "''skills''"] by (auto simp: segments_def)
next
  assume "HasPrefix path ''/api/cli/v1/skills/''"
  then obtain t where "path = ''/'' @ ''api/cli/v1/skills'' @ ''/'' @ t" by (auto simp: HasPrefix_iff)
  then obtain u where "trim_slashes path = ''api/cli/v1/skills'' @ u" "u = [] \<or> hd u = CHR ''/''"
    using trim_slashes_skills [of "''api/cli/v1/skills''" t] by auto
  then show "\<exists>rest. segments path = ''api'' # ''cli'' # ''v1'' # ''skills'' # rest"
    using split_on_first [of u "CHR ''/''" "''skills''"] by (auto simp: segments_def)
qed

definition skill_route :: "string \<Rightarrow> bool" where
  "skill_route path \<longleftrightarrow> HasPrefix path ''/api/v1/skills/'' \<or> HasPrefix path ''/api/cli/v1/skills/''"

definition any_method :: "RoutePolicy \<Rightarrow> bool" where
  "any_method p \<longleftrightarrow> rp_Method p = []"

text \<open>No policy for every method speaks of a skill.\<close>

lemma any_method_patterns:
  "p \<in> set apiTokenAllowRoutes \<union> set apiTokenScopeRoutes \<Longrightarrow> any_method p \<Longrightarrow>
   rp_Pattern p \<in> set [''/api/v1/health'', ''/api/v1/search'', ''/api/v1/resolve/**'', ''/api/v1/download/**'', ''/api/v1/auth/providers'',
     ''/api/v1/auth/methods'', ''/api/v1/auth/session/bootstrap'', ''/api/v1/auth/direct/login'', ''/api/v1/auth/local/**'',
     ''/api/v1/auth/device/**'', ''/api/v1/check'', ''/actuator/health'', ''/v3/api-docs/**'', ''/swagger-ui/**'', ''/.well-known/**'',
     ''/api/v1/tokens'', ''/api/v1/tokens/**'']"
  by (auto simp: any_method_def apiTokenAllowRoutes_def publicRoutes_def apiTokenScopeRoutes_def)

lemma segments_eval:
  "segments ''/api/v1/health'' = [''api'', ''v1'', ''health'']" "segments ''/api/v1/search'' = [''api'', ''v1'', ''search'']"
  "segments ''/api/v1/auth/providers'' = [''api'', ''v1'', ''auth'', ''providers'']"
  "segments ''/api/v1/auth/methods'' = [''api'', ''v1'', ''auth'', ''methods'']"
  "segments ''/api/v1/auth/session/bootstrap'' = [''api'', ''v1'', ''auth'', ''session'', ''bootstrap'']"
  "segments ''/api/v1/auth/direct/login'' = [''api'', ''v1'', ''auth'', ''direct'', ''login'']"
  "segments ''/api/v1/check'' = [''api'', ''v1'', ''check'']" "segments ''/actuator/health'' = [''actuator'', ''health'']"
  "segments ''/api/v1/tokens'' = [''api'', ''v1'', ''tokens'']"
  by (simp_all add: segments_def trim_slashes_def)

lemma no_any_method_skill_route:
  assumes "p \<in> set apiTokenAllowRoutes \<union> set apiTokenScopeRoutes" and "any_method p" and "skill_route path"
  shows "\<not> routeMatches p method path"
proof -
  obtain a b c rest where seg: "segments path = ''api'' # a # b # c # rest \<and> (a = ''cli'' \<or> a = ''v1'' \<and> b = ''skills'')
      \<or> segments path = [''api'', ''v1'', ''skills'']"
    using assms(3) segments_skills [of path] unfolding skill_route_def by (metis list.exhaust)
  obtain t where path: "path = ''/api/v1/skills/'' @ t \<or> path = ''/api/cli/v1/skills/'' @ t"
    using assms(3) by (auto simp: skill_route_def HasPrefix_iff)
  have "\<not> antMatch pat path" if "pat \<in> set [''/api/v1/health'', ''/api/v1/search'', ''/api/v1/auth/providers'', ''/api/v1/auth/methods'',
      ''/api/v1/auth/session/bootstrap'', ''/api/v1/auth/direct/login'', ''/api/v1/check'', ''/actuator/health'', ''/api/v1/tokens'']" for pat
  proof -
    have "segments path ! 1 = ''cli'' \<or> length (segments path) > 2 \<and> segments path ! 2 = ''skills''" using seg by auto
    moreover have "list_all (\<lambda>x. x \<noteq> ''*'') (segments pat) \<and> segments pat ! 1 \<noteq> ''cli'' \<and> (length (segments pat) > 2 \<longrightarrow> segments pat ! 2 \<noteq> ''skills'')"
      using that unfolding set_simps by (elim insertE emptyE; simp add: segments_eval)
    ultimately have "list_all (\<lambda>x. x \<noteq> ''*'') (segments pat) \<and> segments pat \<noteq> segments path" by (intro conjI notI; simp)
    moreover have "list_all (\<lambda>x. x \<noteq> ''*'') xs \<Longrightarrow> length xs = length ys \<Longrightarrow> list_all (\<lambda>(p, s). p = ''*'' \<or> p = s) (zip xs ys) \<Longrightarrow> xs = ys" for xs ys
      by (induction xs ys rule: list_induct2') auto
    moreover have "\<not> HasSuffix pat ''/**''" using that unfolding set_simps by (elim insertE emptyE; simp add: HasSuffix_def)
    ultimately show ?thesis by (auto simp: antMatch_def)
  qed
  moreover have "\<not> antMatch pat path" if "pat \<in> set [''/api/v1/resolve/**'', ''/api/v1/download/**'', ''/api/v1/auth/local/**'',
      ''/api/v1/auth/device/**'', ''/v3/api-docs/**'', ''/swagger-ui/**'', ''/.well-known/**'', ''/api/v1/tokens/**'']" for pat
    using that path unfolding set_simps by (elim insertE emptyE disjE; simp add: antMatch_def HasSuffix_def)
  moreover have "rp_Pattern p \<in> set [''/api/v1/health'', ''/api/v1/search'', ''/api/v1/auth/providers'', ''/api/v1/auth/methods'',
      ''/api/v1/auth/session/bootstrap'', ''/api/v1/auth/direct/login'', ''/api/v1/check'', ''/actuator/health'', ''/api/v1/tokens'']
    \<or> rp_Pattern p \<in> set [''/api/v1/resolve/**'', ''/api/v1/download/**'', ''/api/v1/auth/local/**'',
      ''/api/v1/auth/device/**'', ''/v3/api-docs/**'', ''/swagger-ui/**'', ''/.well-known/**'', ''/api/v1/tokens/**'']"
    using any_method_patterns [OF assms(1,2)] unfolding set_simps by blast
  ultimately have "\<not> antMatch (rp_Pattern p) path" by blast
  then show ?thesis using assms(2) by (simp add: routeMatches_def any_method_def)
qed

lemma method_routes:
  "p \<in> set apiTokenAllowRoutes \<Longrightarrow> any_method p \<or> rp_Method p = ''GET''"
  "p \<in> set apiTokenScopeRoutes \<Longrightarrow> any_method p \<or> rp_RequiredScope p = ScopeSkillDelete \<or> rp_RequiredScope p = ScopeSkillPublish"
  by (auto simp: any_method_def apiTokenAllowRoutes_def publicRoutes_def apiTokenScopeRoutes_def)



end
