(* ===== verification/AuthRepo.thy ===== *)
theory AuthRepo
  imports World GoStrings "HOL-Library.List_Lexorder" "HOL-Library.Char_ord"
begin

text \<open>
  The repositories of the auth services: \<open>postgres/auth_extra_repo.go\<close> and \<open>user_repo.go\<close>, over
  the tables of \<open>migrations/001_users_auth.sql\<close>. Unique indexes are checked as the statements of the
  migration say: a violated one fails the statement, an \<open>ON CONFLICT\<close> clause updates instead. The
  statements that name no \<open>id\<close> column always take a fresh one, whatever \<open>ID\<close> the value carries.
\<close>

definition on_accounts :: "(account_tables \<Rightarrow> account_tables) \<Rightarrow> database \<Rightarrow> database" where
  "on_accounts f d = d\<lparr>accounts := f (accounts d)\<rparr>"

lemma on_accounts_simps [simp]: "accounts (on_accounts f d) = f (accounts d)" "community (on_accounts f d) = community d"
  by (simp_all add: on_accounts_def)

section \<open>Users\<close>

definition UserRepo_FindByID :: "string \<Rightarrow> UserAccount option op" where
  "UserRepo_FindByID i = query_row (\<lambda>d. find (\<lambda>u. ua_ID u = i) (user_accounts (accounts d)))"

definition UserRepo_FindByIDs :: "string list \<Rightarrow> UserAccount list op" where
  "UserRepo_FindByIDs is = db_query (\<lambda>d. filter (\<lambda>u. ua_ID u \<in> set is) (user_accounts (accounts d)))"

definition UserRepo_FindByEmail :: "string \<Rightarrow> UserAccount option op" where
  "UserRepo_FindByEmail email = query_row (\<lambda>d. find (\<lambda>u. ToLower (ua_Email u) = ToLower email) (user_accounts (accounts d)))"

definition ua_merge :: "UserAccount \<Rightarrow> UserAccount \<Rightarrow> UserAccount" where
  "ua_merge new old = new\<lparr>ua_ID := ua_ID old, ua_CreatedAt := ua_CreatedAt old\<rparr>"

interpretation uat: keyed_rows ua_ID ua_merge
  by unfold_locales (simp add: ua_merge_def)

text \<open>\<open>Save\<close> answers with the value it was given, not with the row.\<close>

definition UserRepo_Save :: "UserAccount \<Rightarrow> UserAccount op" where
  "UserRepo_Save u = do {
     t \<leftarrow> now;
     (let u' = u\<lparr>ua_CreatedAt := (if IsZero (ua_CreatedAt u) then t else ua_CreatedAt u), ua_UpdatedAt := t\<rparr> in
      db_exec (\<lambda>d. (u', on_accounts (\<lambda>a. a\<lparr>user_accounts := uat.save u' (user_accounts a)\<rparr>) d))) }"

section \<open>Tokens\<close>

definition TokenRepo_FindByID :: "int \<Rightarrow> ApiToken option op" where
  "TokenRepo_FindByID i = query_row (\<lambda>d. find (\<lambda>t. at_ID t = i) (api_tokens (accounts d)))"

definition TokenRepo_FindByTokenHash :: "string \<Rightarrow> ApiToken option op" where
  "TokenRepo_FindByTokenHash h = query_row (\<lambda>d. find (\<lambda>t. at_TokenHash t = h) (api_tokens (accounts d)))"

definition TokenRepo_FindByUserID :: "string \<Rightarrow> ApiToken list op" where
  "TokenRepo_FindByUserID u = db_query (\<lambda>d. order_desc at_CreatedAt (filter (\<lambda>t. at_UserID t = u) (api_tokens (accounts d))))"

definition active_named :: "string \<Rightarrow> string \<Rightarrow> ApiToken \<Rightarrow> bool" where
  "active_named user nm t \<longleftrightarrow> at_UserID t = user \<and> ToLower (at_Name t) = ToLower nm \<and> at_RevokedAt t = None"

definition TokenRepo_FindActiveByName :: "string \<Rightarrow> string \<Rightarrow> ApiToken option op" where
  "TokenRepo_FindActiveByName user nm = query_row (\<lambda>d. find (active_named user nm) (api_tokens (accounts d)))"

text \<open>An insert: a fresh id never conflicts, but a known hash or a second active name does.\<close>

definition TokenRepo_Save :: "ApiToken \<Rightarrow> ApiToken op" where
  "TokenRepo_Save x = do {
     t \<leftarrow> now;
     db_insert ''api_token_id_seq'' (\<lambda>i d.
       let row = x\<lparr>at_ID := i, at_CreatedAt := (if IsZero (at_CreatedAt x) then t else at_CreatedAt x)\<rparr>;
           rows = api_tokens (accounts d) in
       if list_ex (\<lambda>o'. at_TokenHash o' = at_TokenHash x) rows
          \<or> at_RevokedAt x = None \<and> list_ex (active_named (at_UserID x) (at_Name x)) rows
       then Inl UniqueViolation
       else Inr (row, on_accounts (\<lambda>a. a\<lparr>api_tokens := rows @ [row]\<rparr>) d)) }"

definition update_token :: "int \<Rightarrow> (ApiToken \<Rightarrow> ApiToken) \<Rightarrow> unit op" where
  "update_token i f = db_exec (\<lambda>d. ((), on_accounts (\<lambda>a. a\<lparr>api_tokens := update_where (\<lambda>t. at_ID t = i) f (api_tokens a)\<rparr>) d))"

definition TokenRepo_UpdateLastUsed :: "int \<Rightarrow> unit op" where
  "TokenRepo_UpdateLastUsed i = do { t \<leftarrow> now; update_token i (\<lambda>x. x\<lparr>at_LastUsedAt := Some t\<rparr>) }"

definition TokenRepo_UpdateExpiration :: "int \<Rightarrow> time option \<Rightarrow> unit op" where
  "TokenRepo_UpdateExpiration i e = update_token i (\<lambda>x. x\<lparr>at_ExpiresAt := e\<rparr>)"

definition TokenRepo_Revoke :: "int \<Rightarrow> unit op" where
  "TokenRepo_Revoke i = do { t \<leftarrow> now; update_token i (\<lambda>x. x\<lparr>at_RevokedAt := Some t\<rparr>) }"

section \<open>Roles and permissions\<close>

text \<open>\<open>ORDER BY code\<close>, byte by byte.\<close>

definition RoleRepo_FindByID :: "int \<Rightarrow> Role option op" where
  "RoleRepo_FindByID i = query_row (\<lambda>d. find (\<lambda>r. ro_ID r = i) (role_defs (accounts d)))"

definition RoleRepo_FindByCode :: "string \<Rightarrow> Role option op" where
  "RoleRepo_FindByCode c = query_row (\<lambda>d. find (\<lambda>r. ro_Code r = c) (role_defs (accounts d)))"

definition RoleRepo_FindAll :: "Role list op" where
  "RoleRepo_FindAll = db_query (\<lambda>d. sort_key ro_Code (role_defs (accounts d)))"

definition ro_merge :: "Role \<Rightarrow> Role \<Rightarrow> Role" where
  "ro_merge new old = old\<lparr>ro_Name := ro_Name new, ro_Description := ro_Description new, ro_IsSystem := ro_IsSystem new\<rparr>"

interpretation rot: keyed_rows ro_Code ro_merge
  by unfold_locales (simp add: ro_merge_def)

definition RoleRepo_Save :: "Role \<Rightarrow> Role op" where
  "RoleRepo_Save r = db_insert ''role_id_seq'' (\<lambda>i d.
     Inr (rot.stored (r\<lparr>ro_ID := i\<rparr>) (role_defs (accounts d)),
          on_accounts (\<lambda>a. a\<lparr>role_defs := rot.save (r\<lparr>ro_ID := i\<rparr>) (role_defs a)\<rparr>) d))"

definition PermissionRepo_FindByID :: "int \<Rightarrow> Permission option op" where
  "PermissionRepo_FindByID i = query_row (\<lambda>d. find (\<lambda>p. pn_ID p = i) (permissions (accounts d)))"

definition PermissionRepo_FindByCode :: "string \<Rightarrow> Permission option op" where
  "PermissionRepo_FindByCode c = query_row (\<lambda>d. find (\<lambda>p. pn_Code p = c) (permissions (accounts d)))"

definition PermissionRepo_FindAll :: "Permission list op" where
  "PermissionRepo_FindAll = db_query (\<lambda>d. sort_key pn_Code (permissions (accounts d)))"

definition ur_key :: "UserRoleBinding \<Rightarrow> string \<times> int" where
  "ur_key b = (ur_UserID b, ur_RoleID b)"

definition ur_merge :: "UserRoleBinding \<Rightarrow> UserRoleBinding \<Rightarrow> UserRoleBinding" where
  "ur_merge new old = old\<lparr>ur_CreatedAt := ur_CreatedAt new\<rparr>"

interpretation urt: keyed_rows ur_key ur_merge
  by unfold_locales (simp add: ur_key_def ur_merge_def)

definition BindingRepo_Save :: "UserRoleBinding \<Rightarrow> UserRoleBinding op" where
  "BindingRepo_Save b = db_insert ''user_role_binding_id_seq'' (\<lambda>i d.
     Inr (urt.stored (b\<lparr>ur_ID := i\<rparr>) (role_bindings (accounts d)),
          on_accounts (\<lambda>a. a\<lparr>role_bindings := urt.save (b\<lparr>ur_ID := i\<rparr>) (role_bindings a)\<rparr>) d))"

definition BindingRepo_FindByUserID :: "string \<Rightarrow> UserRoleBinding list op" where
  "BindingRepo_FindByUserID u = db_query (\<lambda>d. filter (\<lambda>b. ur_UserID b = u) (role_bindings (accounts d)))"

definition BindingRepo_DeleteByUserID :: "string \<Rightarrow> unit op" where
  "BindingRepo_DeleteByUserID u = db_exec (\<lambda>d. ((), on_accounts (\<lambda>a. a\<lparr>role_bindings := delete_where (\<lambda>b. ur_UserID b = u) (role_bindings a)\<rparr>) d))"

section \<open>Identities\<close>

definition ib_key :: "IdentityBinding \<Rightarrow> string \<times> string" where
  "ib_key b = (ib_ProviderCode b, ib_Subject b)"

definition ib_merge :: "IdentityBinding \<Rightarrow> IdentityBinding \<Rightarrow> IdentityBinding" where
  "ib_merge new old = old\<lparr>ib_UserID := ib_UserID new, ib_LoginName := ib_LoginName new, ib_ExtraJSON := ib_ExtraJSON new, ib_UpdatedAt := ib_UpdatedAt new\<rparr>"

interpretation ibt: keyed_rows ib_key ib_merge
  by unfold_locales (simp add: ib_key_def ib_merge_def)

definition ib_row :: "IdentityBinding \<Rightarrow> time \<Rightarrow> int \<Rightarrow> IdentityBinding" where
  "ib_row b t i = b\<lparr>ib_ID := i, ib_CreatedAt := (if IsZero (ib_CreatedAt b) then t else ib_CreatedAt b), ib_UpdatedAt := t\<rparr>"

definition IdentityRepo_Save :: "IdentityBinding \<Rightarrow> IdentityBinding op" where
  "IdentityRepo_Save b = do {
     t \<leftarrow> now;
     db_insert ''identity_binding_id_seq'' (\<lambda>i d.
       Inr (ibt.stored (ib_row b t i) (identities (accounts d)),
            on_accounts (\<lambda>a. a\<lparr>identities := ibt.save (ib_row b t i) (identities a)\<rparr>) d)) }"

definition IdentityRepo_FindByProviderAndSubject :: "string \<Rightarrow> string \<Rightarrow> IdentityBinding option op" where
  "IdentityRepo_FindByProviderAndSubject p s = query_row (\<lambda>d. find (\<lambda>b. ib_key b = (p, s)) (identities (accounts d)))"

definition IdentityRepo_FindByUserID :: "string \<Rightarrow> IdentityBinding list op" where
  "IdentityRepo_FindByUserID u = db_query (\<lambda>d. filter (\<lambda>b. ib_UserID b = u) (identities (accounts d)))"

section \<open>Credentials\<close>

definition lc_merge :: "LocalCredential \<Rightarrow> LocalCredential \<Rightarrow> LocalCredential" where
  "lc_merge new old = new\<lparr>lc_ID := lc_ID old, lc_UserID := lc_UserID old, lc_CreatedAt := lc_CreatedAt old\<rparr>"

interpretation lct: keyed_rows lc_UserID lc_merge
  by unfold_locales (simp add: lc_merge_def)

definition lc_row :: "LocalCredential \<Rightarrow> time \<Rightarrow> int \<Rightarrow> LocalCredential" where
  "lc_row c t i = c\<lparr>lc_ID := i, lc_CreatedAt := (if IsZero (lc_CreatedAt c) then t else lc_CreatedAt c), lc_UpdatedAt := t\<rparr>"

text \<open>The upsert is on the user; another user's username violates the second unique index.\<close>

definition CredRepo_Save :: "LocalCredential \<Rightarrow> LocalCredential op" where
  "CredRepo_Save c = do {
     t \<leftarrow> now;
     db_insert ''local_credential_id_seq'' (\<lambda>i d.
       if list_ex (\<lambda>o'. lc_Username o' = lc_Username c \<and> lc_UserID o' \<noteq> lc_UserID c) (credentials (accounts d)) then Inl UniqueViolation
       else Inr (lct.stored (lc_row c t i) (credentials (accounts d)),
                 on_accounts (\<lambda>a. a\<lparr>credentials := lct.save (lc_row c t i) (credentials a)\<rparr>) d)) }"

definition CredRepo_FindByUserID :: "string \<Rightarrow> LocalCredential option op" where
  "CredRepo_FindByUserID u = query_row (\<lambda>d. find (\<lambda>c. lc_UserID c = u) (credentials (accounts d)))"

definition CredRepo_FindByUsername :: "string \<Rightarrow> LocalCredential option op" where
  "CredRepo_FindByUsername n = query_row (\<lambda>d. find (\<lambda>c. lc_Username c = n) (credentials (accounts d)))"

section \<open>Password resets\<close>

text \<open>Always an insert.\<close>

definition ResetRepo_Save :: "PasswordResetRequest \<Rightarrow> PasswordResetRequest op" where
  "ResetRepo_Save q = db_insert ''password_reset_request_id_seq'' (\<lambda>i d.
     Inr (q\<lparr>pq_ID := i\<rparr>, on_accounts (\<lambda>a. a\<lparr>reset_requests := reset_requests a @ [q\<lparr>pq_ID := i\<rparr>]\<rparr>) d))"

definition ResetRepo_FindValidByUserID :: "string \<Rightarrow> PasswordResetRequest list op" where
  "ResetRepo_FindValidByUserID u = do {
     t \<leftarrow> now;
     db_query (\<lambda>d. order_desc pq_CreatedAt
       (filter (\<lambda>q. pq_UserID q = u \<and> pq_ConsumedAt q = None \<and> pq_ExpiresAt q > t) (reset_requests (accounts d)))) }"

section \<open>Account merges\<close>

definition MergeRepo_Save :: "AccountMergeRequest \<Rightarrow> AccountMergeRequest op" where
  "MergeRepo_Save q = db_insert ''account_merge_request_id_seq'' (\<lambda>i d.
     let row = q\<lparr>am_ID := i\<rparr> in
     if am_Status q = ''PENDING''
        \<and> list_ex (\<lambda>o'. am_SecondaryUserID o' = am_SecondaryUserID q \<and> am_Status o' = ''PENDING'') (merge_requests (accounts d))
     then Inl UniqueViolation
     else Inr (row, on_accounts (\<lambda>a. a\<lparr>merge_requests := merge_requests a @ [row]\<rparr>) d))"

definition MergeRepo_FindByID :: "int \<Rightarrow> AccountMergeRequest option op" where
  "MergeRepo_FindByID i = query_row (\<lambda>d. find (\<lambda>q. am_ID q = i) (merge_requests (accounts d)))"

definition MergeRepo_FindPendingBySecondaryUserID :: "string \<Rightarrow> AccountMergeRequest option op" where
  "MergeRepo_FindPendingBySecondaryUserID u =
     query_row (\<lambda>d. find (\<lambda>q. am_SecondaryUserID q = u \<and> am_Status q = ''PENDING'') (merge_requests (accounts d)))"

definition am_overwrite :: "AccountMergeRequest \<Rightarrow> AccountMergeRequest \<Rightarrow> AccountMergeRequest" where
  "am_overwrite q old = q\<lparr>am_ID := am_ID old, am_CreatedAt := am_CreatedAt old\<rparr>"

definition MergeRepo_Update :: "AccountMergeRequest \<Rightarrow> unit op" where
  "MergeRepo_Update q = db_try (\<lambda>d.
     if am_Status q = ''PENDING'' \<and> list_ex (\<lambda>o'. am_ID o' = am_ID q) (merge_requests (accounts d))
        \<and> list_ex (\<lambda>o'. am_ID o' \<noteq> am_ID q \<and> am_SecondaryUserID o' = am_SecondaryUserID q \<and> am_Status o' = ''PENDING'') (merge_requests (accounts d))
     then Inl UniqueViolation
     else Inr ((), on_accounts (\<lambda>a. a\<lparr>merge_requests := update_where (\<lambda>o'. am_ID o' = am_ID q) (am_overwrite q) (merge_requests a)\<rparr>) d))"

lemmas auth_repo_defs =
  UserRepo_FindByID_def UserRepo_FindByEmail_def UserRepo_Save_def TokenRepo_FindByID_def TokenRepo_FindByTokenHash_def
  TokenRepo_FindByUserID_def TokenRepo_FindActiveByName_def TokenRepo_Save_def TokenRepo_Revoke_def TokenRepo_UpdateExpiration_def
  TokenRepo_UpdateLastUsed_def update_token_def RoleRepo_FindAll_def PermissionRepo_FindAll_def BindingRepo_Save_def
  BindingRepo_FindByUserID_def BindingRepo_DeleteByUserID_def IdentityRepo_Save_def IdentityRepo_FindByUserID_def
  CredRepo_Save_def CredRepo_FindByUserID_def CredRepo_FindByUsername_def ResetRepo_Save_def ResetRepo_FindValidByUserID_def
  MergeRepo_Save_def MergeRepo_FindByID_def MergeRepo_FindPendingBySecondaryUserID_def MergeRepo_Update_def

end
