(* ===== verification/Auth.thy ===== *)
theory Auth
  imports AuthRepo Sha256 Ownership
begin

text \<open>
  The auth services of \<open>sdk/skillhub/auth\<close>: roles (\<open>rbac.go\<close>), route policies (\<open>scope.go\<close>), API tokens
  (\<open>token.go\<close>), passwords and local accounts (\<open>password.go\<close>, \<open>local.go\<close>), password resets
  (\<open>passwordreset.go\<close>) and account merges (\<open>merge.go\<close>). Instants are nanosecond counts. What the code
  takes from outside is the record \<open>crypto\<close>: the random source (bytes and numbers drawn at an instant of the
  schedule), bcrypt, the Unicode classes of runes beyond ASCII, and \<open>time.Parse\<close> for the accepted layouts.
\<close>

datatype rclass = RLower | RUpper | RDigit | RLetter | ROther

record crypto =
  cy_byte :: "nat \<Rightarrow> nat \<Rightarrow> char"
  cy_number :: "nat \<Rightarrow> nat \<Rightarrow> nat"
  cy_hash :: "nat \<Rightarrow> string \<Rightarrow> err + string"
  cy_check :: "string \<Rightarrow> string \<Rightarrow> bool"
  cy_rune :: "string \<Rightarrow> rclass"
  cy_parse :: "string \<Rightarrow> string \<Rightarrow> time option"

definition minutes :: "int \<Rightarrow> time" where
  "minutes n = n * 60 * 1000000000"

text \<open>\<open>rand.Read\<close> of \<open>n\<close> bytes and \<open>rand.Int\<close> below \<open>n\<close>; a failing schedule makes the source fail.\<close>

definition draw :: "(nat \<Rightarrow> 'a) \<Rightarrow> 'a op" where
  "draw f = State (\<lambda>w. if fault w (tick w) then (Inl IOFault, advance w) else (Inr (f (tick w)), advance w))"

definition rand_Read :: "crypto \<Rightarrow> nat \<Rightarrow> string op" where
  "rand_Read cy n = draw (\<lambda>t. map (cy_byte cy t) [0..<n])"

definition rand_Int :: "crypto \<Rightarrow> nat \<Rightarrow> nat op" where
  "rand_Int cy n = draw (\<lambda>t. cy_number cy t n mod n)"

lemma wp_draw [simp]:
  "wp (draw f) Q w = (if fault w (tick w) then Q (Inl IOFault) (advance w) else Q (Inr (f (tick w))) (advance w))"
  by (simp add: draw_def wp_State)

section \<open>Passwords\<close>

text \<open>bcrypt draws a salt; comparing only reads.\<close>

definition HashPassword :: "crypto \<Rightarrow> string \<Rightarrow> string op" where
  "HashPassword cy password = State (\<lambda>w. (case cy_hash cy (tick w) password of
     Inl e \<Rightarrow> (Inl (wrap ''auth: hash password'' e), advance w)
   | Inr h \<Rightarrow> (Inr h, advance w)))"

definition CheckPassword :: "crypto \<Rightarrow> string \<Rightarrow> string \<Rightarrow> bool" where
  "CheckPassword cy password hash = cy_check cy password hash"

lemma wp_HashPassword [simp]:
  "wp (HashPassword cy p) Q w = (case cy_hash cy (tick w) p of
     Inl e \<Rightarrow> Q (Inl (wrap ''auth: hash password'' e)) (advance w) | Inr h \<Rightarrow> Q (Inr h) (advance w))"
  by (simp add: HashPassword_def wp_State split: sum.splits)

record PasswordPolicy =
  pp_MinLength :: int
  pp_MaxLength :: int
  pp_MinCharTypes :: int

definition DefaultPasswordPolicy :: PasswordPolicy where
  "DefaultPasswordPolicy = \<lparr>pp_MinLength = 8, pp_MaxLength = 128, pp_MinCharTypes = 3\<rparr>"

text \<open>The encodings of the runes a string is ranged over; an invalid byte stands alone.\<close>

function rune_pieces :: "string \<Rightarrow> string list" where
  "rune_pieces s = (case s of [] \<Rightarrow> []
   | c # cs \<Rightarrow> (case utf8_rest s of None \<Rightarrow> [c] # rune_pieces cs | Some r \<Rightarrow> take (length s - length r) s # rune_pieces r))"
  by pat_completeness auto
termination
  by (relation "measure length") (auto dest: utf8_rest_shorter simp del: utf8_rest.simps)

declare rune_pieces.simps [simp del]

definition rune_class :: "crypto \<Rightarrow> string \<Rightarrow> rclass" where
  "rune_class cy p = (case p of [c] \<Rightarrow>
       if is_lower c then RLower else if is_upper c then RUpper else if is_digit c then RDigit else ROther
     | _ \<Rightarrow> cy_rune cy p)"

definition char_types :: "crypto \<Rightarrow> string \<Rightarrow> int" where
  "char_types cy password =
     int (length (filter (\<lambda>k. k \<in> rune_class cy ` set (rune_pieces password)) [RLower, RUpper, RDigit, ROther]))"

definition PasswordPolicy_Validate :: "crypto \<Rightarrow> PasswordPolicy \<Rightarrow> string \<Rightarrow> err option" where
  "PasswordPolicy_Validate cy p password =
     (if int (length password) < pp_MinLength p then Some (Errs ''error.auth.local.password.tooShort'')
      else if int (length password) > pp_MaxLength p then Some (Errs ''error.auth.local.password.tooLong'')
      else if char_types cy password < pp_MinCharTypes p then Some (Errs ''error.auth.local.password.tooWeak'')
      else None)"

definition digits6 :: "nat \<Rightarrow> string" where
  "digits6 n = replicate (6 - length (digits n)) (CHR ''0'') @ digits n"

definition GenerateSecureCode :: "crypto \<Rightarrow> string op" where
  "GenerateSecureCode cy = do {
     r \<leftarrow> rand_Int cy 1000000;
     (case r of Inl e \<Rightarrow> fail (wrap ''auth: generate code'' e) | Inr n \<Rightarrow> ok (digits6 n)) }"

definition blank :: "char \<Rightarrow> bool" where
  "blank c \<longleftrightarrow> c \<in> {CHR '' '', CHR 0x09, CHR 0x0A, CHR 0x0D}"

definition trim_blanks :: "string \<Rightarrow> string" where
  "trim_blanks s = rev (dropWhile blank (rev (dropWhile blank s)))"

definition username_char :: "char \<Rightarrow> bool" where
  "username_char c \<longleftrightarrow> is_upper c \<or> is_lower c \<or> is_digit c \<or> c = CHR ''_''"

definition usernamePattern :: "string \<Rightarrow> bool" where
  "usernamePattern s \<longleftrightarrow> 3 \<le> length s \<and> length s \<le> 64 \<and> list_all username_char s"

definition NormalizeUsername :: "string \<Rightarrow> err + string" where
  "NormalizeUsername raw = (let normalized = map lower (trim_blanks raw) in
     if usernamePattern normalized then Inr normalized else Inl (Errs ''error.auth.local.username.invalid''))"

definition NormalizeEmail :: "string \<Rightarrow> string" where
  "NormalizeEmail raw = map lower (trim_blanks raw)"

section \<open>Roles\<close>

record PlatformPrincipal =
  pl_UserID :: string
  pl_DisplayName :: string
  pl_Email :: string
  pl_AvatarURL :: string
  pl_OAuthProvider :: string
  pl_Roles :: "string list"

definition sorted_roles :: "string list \<Rightarrow> string list" where
  "sorted_roles rs = (let s = sort (remdups rs) in if s = [] then [''USER''] else s)"

definition NewPrincipal :: "UserAccount \<Rightarrow> string \<Rightarrow> string list \<Rightarrow> PlatformPrincipal" where
  "NewPrincipal u provider rs = \<lparr>pl_UserID = ua_ID u, pl_DisplayName = ua_DisplayName u, pl_Email = ua_Email u,
     pl_AvatarURL = ua_AvatarURL u, pl_OAuthProvider = provider, pl_Roles = sorted_roles rs\<rparr>"

definition Principal_HasRole :: "PlatformPrincipal \<Rightarrow> string \<Rightarrow> bool" where
  "Principal_HasRole p role \<longleftrightarrow> list_ex (\<lambda>r. r = role) (pl_Roles p)"

definition IsSuperAdmin :: "PlatformPrincipal \<Rightarrow> bool" where
  "IsSuperAdmin p = Principal_HasRole p ''SUPER_ADMIN''"

text \<open>The map from role ids to codes keeps the last role of an id.\<close>

definition role_codes :: "Role list \<Rightarrow> UserRoleBinding list \<Rightarrow> string list" where
  "role_codes allRoles bindings =
     List.map_filter (\<lambda>b. map_option ro_Code (find (\<lambda>r. ro_ID r = ur_RoleID b) (rev allRoles))) bindings"

definition GetUserRoleCodes :: "string \<Rightarrow> string list op" where
  "GetUserRoleCodes userID = do {
     r \<leftarrow> BindingRepo_FindByUserID userID;
     (case r of
       Inl e \<Rightarrow> fail e
     | Inr bindings \<Rightarrow>
       if bindings = [] then ok (sorted_roles [])
       else do {
         r \<leftarrow> RoleRepo_FindAll;
         (case r of Inl e \<Rightarrow> fail e | Inr allRoles \<Rightarrow> ok (sorted_roles (role_codes allRoles bindings))) }) }"

definition GetUserPermissions :: "string \<Rightarrow> string list op" where
  "GetUserPermissions userID = do {
     r \<leftarrow> GetUserRoleCodes userID;
     (case r of
       Inl e \<Rightarrow> fail e
     | Inr rs \<Rightarrow>
       if list_ex (\<lambda>x. x = ''SUPER_ADMIN'') rs then do {
         r \<leftarrow> PermissionRepo_FindAll;
         (case r of Inl e \<Rightarrow> fail e | Inr perms \<Rightarrow> ok (map pn_Code perms)) }
       else ok rs) }"

definition HasPermission :: "string \<Rightarrow> string \<Rightarrow> bool op" where
  "HasPermission userID permissionCode = do {
     r \<leftarrow> GetUserPermissions userID;
     (case r of Inl e \<Rightarrow> fail e | Inr perms \<Rightarrow> ok (list_ex (\<lambda>p. p = permissionCode) perms)) }"

definition Rbac_HasRole :: "string \<Rightarrow> string \<Rightarrow> bool op" where
  "Rbac_HasRole userID roleCode = do {
     r \<leftarrow> GetUserRoleCodes userID;
     (case r of Inl e \<Rightarrow> fail e | Inr rs \<Rightarrow> ok (list_ex (\<lambda>x. x = roleCode) rs)) }"

section \<open>API tokens\<close>

definition TokenPrefix :: string where "TokenPrefix = ''sk_''"
definition TokenBytes :: nat where "TokenBytes = 32"
definition MaxTokenName :: nat where "MaxTokenName = 64"

text \<open>\<open>base64.RawURLEncoding\<close>: three bytes are four characters of the URL alphabet, without padding.\<close>

definition b64_digit :: "nat \<Rightarrow> char" where
  "b64_digit n = (if n < 26 then char_of (65 + n) else if n < 52 then char_of (71 + n) else if n < 62 then char_of (n - 4)
     else if n = 62 then CHR ''-'' else CHR ''_'')"

fun RawURLEncoding :: "string \<Rightarrow> string" where
  "RawURLEncoding [] = []"
| "RawURLEncoding [a] = [b64_digit (byte a div 4), b64_digit (byte a mod 4 * 16)]"
| "RawURLEncoding [a, b] = [b64_digit (byte a div 4), b64_digit (byte a mod 4 * 16 + byte b div 16), b64_digit (byte b mod 16 * 4)]"
| "RawURLEncoding (a # b # c # s) =
     [b64_digit (byte a div 4), b64_digit (byte a mod 4 * 16 + byte b div 16), b64_digit (byte b mod 16 * 4 + byte c div 64),
      b64_digit (byte c mod 64)] @ RawURLEncoding s"

definition quoted :: "string \<Rightarrow> string" where
  "quoted s = CHR 0x22 # s @ [CHR 0x22]"

definition scopesToJSON :: "string list \<Rightarrow> string" where
  "scopesToJSON scopes = (if scopes = [] then ''[]'' else ''['' @ strings_Join '','' (map quoted scopes) @ '']'')"

definition trim_quotes :: "string \<Rightarrow> string" where
  "trim_quotes s = rev (dropWhile (\<lambda>c. c = CHR 0x22) (rev (dropWhile (\<lambda>c. c = CHR 0x22) s)))"

definition first_seen :: "string list \<Rightarrow> string list" where
  "first_seen xs = rev (remdups (rev xs))"

definition ParseScopes :: "string \<Rightarrow> string list" where
  "ParseScopes scopeJSON = (let s = TrimSpace scopeJSON in
     if \<not> HasPrefix s ''['' \<or> \<not> HasSuffix s '']'' then []
     else let inner = butlast (tl s) in
       if TrimSpace inner = [] then []
       else first_seen (filter (\<lambda>x. x \<noteq> []) (map (\<lambda>p. trim_quotes (TrimSpace p)) (split_on (CHR '','') inner))))"

definition token_hash :: "string \<Rightarrow> string" where
  "token_hash rawToken = EncodeToString (Sum256 rawToken)"

record TokenCreateResult =
  tc_RawToken :: string
  tc_Token :: ApiToken

definition new_token :: "string \<Rightarrow> string \<Rightarrow> string \<Rightarrow> string list \<Rightarrow> time option \<Rightarrow> time \<Rightarrow> ApiToken" where
  "new_token userID nm raw scopes expiresAt t = \<lparr>at_ID = 0, at_SubjectType = ''USER'', at_SubjectID = userID, at_UserID = userID,
     at_Name = nm, at_TokenPrefix = take 8 raw, at_TokenHash = token_hash raw, at_ScopeJSON = scopesToJSON scopes,
     at_ExpiresAt = expiresAt, at_LastUsedAt = None, at_RevokedAt = None, at_CreatedAt = t\<rparr>"

text \<open>The driver's message for a violated unique index contains the word \<open>duplicate\<close>.\<close>

definition CreateToken :: "crypto \<Rightarrow> string \<Rightarrow> string \<Rightarrow> string list \<Rightarrow> time option \<Rightarrow> TokenCreateResult op" where
  "CreateToken cy userID name0 scopes expiresAt =
     (let nm = TrimSpace name0 in
      if nm = [] \<or> length nm > MaxTokenName then fail (Errs ''error.token.name.invalid'')
      else do {
        r \<leftarrow> TokenRepo_FindActiveByName userID (ToLower nm);
        (case r of
          Inr (Some _) \<Rightarrow> fail (Errs ''error.token.name.duplicate'')
        | _ \<Rightarrow> do {
            r \<leftarrow> rand_Read cy TokenBytes;
            (case r of
              Inl e \<Rightarrow> fail (wrap ''auth: token random'' e)
            | Inr bytes \<Rightarrow> (let raw = TokenPrefix @ RawURLEncoding bytes in do {
                t \<leftarrow> now;
                r \<leftarrow> TokenRepo_Save (new_token userID nm raw scopes expiresAt t);
                (case r of
                  Inl UniqueViolation \<Rightarrow> fail (Errs ''error.token.name.duplicate'')
                | Inl e \<Rightarrow> fail (wrap ''auth: save token'' e)
                | Inr saved \<Rightarrow> ok \<lparr>tc_RawToken = raw, tc_Token = saved\<rparr>) })) }) })"

definition RotateToken :: "crypto \<Rightarrow> string \<Rightarrow> string \<Rightarrow> string list \<Rightarrow> time option \<Rightarrow> TokenCreateResult op" where
  "RotateToken cy userID nm scopes expiresAt = do {
     r \<leftarrow> TokenRepo_FindActiveByName userID (ToLower nm);
     (case r of
       Inl e \<Rightarrow> fail e
     | Inr None \<Rightarrow> CreateToken cy userID nm scopes expiresAt
     | Inr (Some old) \<Rightarrow> do {
         r \<leftarrow> TokenRepo_Revoke (at_ID old);
         (case r of Inl e \<Rightarrow> fail (wrap ''auth: revoke token'' e) | Inr _ \<Rightarrow> CreateToken cy userID nm scopes expiresAt) }) }"

definition ValidateToken :: "string \<Rightarrow> ApiToken option op" where
  "ValidateToken rawToken = do {
     r \<leftarrow> TokenRepo_FindByTokenHash (token_hash rawToken);
     (case r of
       Inl e \<Rightarrow> fail (wrap ''auth: validate token'' e)
     | Inr None \<Rightarrow> ok None
     | Inr (Some tok) \<Rightarrow> do {
         t \<leftarrow> now;
         ok (if at_RevokedAt tok \<noteq> None then None
             else case at_ExpiresAt tok of Some e \<Rightarrow> if e < t then None else Some tok | None \<Rightarrow> Some tok) }) }"

definition RevokeToken :: "int \<Rightarrow> string \<Rightarrow> unit op" where
  "RevokeToken tokenID userID = do {
     r \<leftarrow> TokenRepo_FindByID tokenID;
     (case r of
       Inr (Some tok) \<Rightarrow> if at_UserID tok \<noteq> userID then ok () else TokenRepo_Revoke tokenID
     | _ \<Rightarrow> ok ()) }"

definition ListTokens :: "string \<Rightarrow> ApiToken list op" where
  "ListTokens userID = TokenRepo_FindByUserID userID"

definition TouchLastUsed :: "int \<Rightarrow> unit op" where
  "TouchLastUsed tokenID = TokenRepo_UpdateLastUsed tokenID"

definition expiry_layouts :: "string list" where
  "expiry_layouts = [''2006-01-02T15:04:05Z07:00'', ''2006-01-02T15:04:05Z07:00'', ''2006-01-02T15:04:05'']"

definition ParseExpiresAt :: "crypto \<Rightarrow> string \<Rightarrow> time option op" where
  "ParseExpiresAt cy value = (if value = [] then ok None
     else (case List.map_filter (\<lambda>layout. cy_parse cy layout value) expiry_layouts of
       [] \<Rightarrow> fail (Errs ''validation.token.expiresAt.invalid'')
     | t # _ \<Rightarrow> do {
         n \<leftarrow> now;
         if t < n then fail (Errs ''validation.token.expiresAt.future'') else ok (Some t) }))"

definition UpdateExpiration :: "crypto \<Rightarrow> int \<Rightarrow> string \<Rightarrow> string \<Rightarrow> unit op" where
  "UpdateExpiration cy tokenID userID expiresAtStr = do {
     r \<leftarrow> TokenRepo_FindByID tokenID;
     (case r of
       Inl e \<Rightarrow> fail (wrap ''auth: find token'' e)
     | Inr None \<Rightarrow> fail (Errs ''error.token.notFound'')
     | Inr (Some tok) \<Rightarrow>
       if at_UserID tok \<noteq> userID then fail (Errs ''error.token.notFound'')
       else if at_RevokedAt tok \<noteq> None then fail (Errs ''error.token.revoked'')
       else do {
         r \<leftarrow> ParseExpiresAt cy expiresAtStr;
         (case r of Inl e \<Rightarrow> fail e | Inr expiresAt \<Rightarrow> TokenRepo_UpdateExpiration tokenID expiresAt) }) }"

section \<open>The life of a token\<close>

lemma find_last: "\<forall>r \<in> set rs. \<not> P r \<Longrightarrow> P x \<Longrightarrow> find P (rs @ [x]) = Some x"
  by (induction rs) auto

lemma find_last_updated:
  "\<forall>r \<in> set rs. \<not> P r \<Longrightarrow> P x \<Longrightarrow> q x \<Longrightarrow> (\<And>r. P (f r) = P r) \<Longrightarrow> find P (update_where q f (rs @ [x])) = Some (f x)"
  by (induction rs) (auto simp: update_where_def)

text \<open>What a created token leaves behind.\<close>

definition created_token :: "string \<Rightarrow> time option \<Rightarrow> TokenCreateResult \<Rightarrow> world \<Rightarrow> world \<Rightarrow> bool" where
  "created_token u expiresAt c w w1 \<longleftrightarrow>
     at_UserID (tc_Token c) = u \<and> at_RevokedAt (tc_Token c) = None \<and> at_ExpiresAt (tc_Token c) = expiresAt
     \<and> at_TokenHash (tc_Token c) = token_hash (tc_RawToken c)
     \<and> at_ID (tc_Token c) = seqs w ''api_token_id_seq'' + 1
     \<and> (\<forall>t \<in> set (api_tokens (accounts (db w))). at_TokenHash t \<noteq> token_hash (tc_RawToken c))
     \<and> db w1 = on_accounts (\<lambda>a. a\<lparr>api_tokens := api_tokens a @ [tc_Token c]\<rparr>) (db w) \<and> healthy w1"

lemma create_token_wp:
  assumes "healthy w"
  shows "wp (CreateToken cy u nm scopes expiresAt) (\<lambda>r w1. \<forall>c. r = Inr c \<longrightarrow> created_token u expiresAt c w w1) w"
proof -
  have f: "\<not> fault w' (tick w')" if "healthy w'" for w' using that by (simp add: healthy_def)
  show ?thesis
    using assms by (auto simp: CreateToken_def Let_def auth_repo_defs rand_Read_def created_token_def new_token_def f list_ex_iff on_accounts_def next_id_def
      split: sum.split option.split err.split)
qed

lemma validate_new:
  assumes "created_token u None c w w1"
  shows "wp (ValidateToken (tc_RawToken c)) (\<lambda>r w2. r = Inr (Some (tc_Token c)) \<and> db w2 = db w1) w1"
  using assms by (auto simp: ValidateToken_def auth_repo_defs created_token_def find_last)

lemma new_token_by_id:
  assumes "created_token u e c w w1" and "\<forall>t \<in> set (api_tokens (accounts (db w))). at_ID t \<le> seqs w ''api_token_id_seq''"
  shows "find (\<lambda>t. at_ID t = at_ID (tc_Token c)) (api_tokens (accounts (db w1))) = Some (tc_Token c)"
  using assms by (auto simp: created_token_def intro!: find_last)

lemma revoke_foreign:
  assumes "created_token u e c w w1" and "\<forall>t \<in> set (api_tokens (accounts (db w))). at_ID t \<le> seqs w ''api_token_id_seq''" and "v \<noteq> u"
  shows "wp (RevokeToken (at_ID (tc_Token c)) v) (\<lambda>r w2. r = Inr () \<and> db w2 = db w1) w1"
  using assms new_token_by_id [OF assms(1,2)] by (auto simp: RevokeToken_def auth_repo_defs created_token_def)

lemma revoke_own:
  assumes "created_token u e c w w1" and "\<forall>t \<in> set (api_tokens (accounts (db w))). at_ID t \<le> seqs w ''api_token_id_seq''"
  shows "wp (RevokeToken (at_ID (tc_Token c)) u) (\<lambda>r w2. r = Inr () \<and> wp (ValidateToken (tc_RawToken c)) (\<lambda>r _. r = Inr None) w2) w1"
proof -
  note c = assms(1) [unfolded created_token_def]
  have f: "find (\<lambda>t. at_TokenHash t = token_hash (tc_RawToken c))
      (update_where (\<lambda>t. at_ID t = at_ID (tc_Token c)) (\<lambda>x. x\<lparr>at_RevokedAt := Some t\<rparr>) (api_tokens (accounts (db w1))))
      = Some ((tc_Token c)\<lparr>at_RevokedAt := Some t\<rparr>)" for t
    using c by (auto intro: find_last_updated)
  have h: "healthy w1" "at_UserID (tc_Token c) = u" using c by auto
  show ?thesis using h new_token_by_id [OF assms] by (simp add: RevokeToken_def ValidateToken_def auth_repo_defs f)
qed

text \<open>C30: the life of an API token without expiry. The raw token that \<open>CreateToken\<close> shows once is the
  one that authenticates as the token it stored, which belongs to its creator; another user's attempt to revoke it
  changes nothing; and once its owner has revoked it, it authenticates nobody.\<close>

theorem token_lifecycle:
  assumes "healthy w" and "\<forall>t \<in> set (api_tokens (accounts (db w))). at_ID t \<le> seqs w ''api_token_id_seq''"
    and "run_state (CreateToken cy u nm scopes None) w = (Inr c, w1)"
  shows "at_UserID (tc_Token c) = u
    \<and> fst (run_state (ValidateToken (tc_RawToken c)) w1) = Inr (Some (tc_Token c))
    \<and> (\<forall>v. v \<noteq> u \<longrightarrow> db (snd (run_state (RevokeToken (at_ID (tc_Token c)) v) w1)) = db w1)
    \<and> (case run_state (RevokeToken (at_ID (tc_Token c)) u) w1 of (r, w2) \<Rightarrow>
         r = Inr () \<and> fst (run_state (ValidateToken (tc_RawToken c)) w2) = Inr None)"
proof -
  have c: "created_token u None c w w1" using wpD [OF assms(3) create_token_wp [OF assms(1)]] by blast
  show ?thesis
    using c validate_new [OF c] revoke_foreign [OF c assms(2)] revoke_own [OF c assms(2)]
    by (auto simp: wp_def created_token_def split: prod.splits)
qed

definition toy_crypto :: crypto where
  "toy_crypto = \<lparr>cy_byte = (\<lambda>t i. char_of (t + i)), cy_number = (\<lambda>t n. t), cy_hash = (\<lambda>t s. Inr (''h'' @ s)),
     cy_check = (\<lambda>p h. h = ''h'' @ p), cy_rune = (\<lambda>_. RLetter), cy_parse = (\<lambda>_ _. None)\<rparr>"

theorem token_lifecycle_witness:
  "\<exists>c w1. run_state (CreateToken toy_crypto ''ann'' ''ci'' [''skill:read''] None) (calm True empty_db) = (Inr c, w1)
     \<and> fst (run_state (ValidateToken (tc_RawToken c)) w1) = Inr (Some (tc_Token c))"
proof -
  have t: "TrimSpace ''ci'' = ''ci''" by (rule TrimSpace_ends) (auto dest!: space_byte_range simp: byte_def)
  have "wp (CreateToken toy_crypto ''ann'' ''ci'' [''skill:read''] None) (\<lambda>r _. \<exists>c. r = Inr c) (calm True empty_db)"
    by (simp add: CreateToken_def auth_repo_defs rand_Read_def empty_db_def no_accounts_def calm_def stmt_fails_def advance_def
        MaxTokenName_def t Let_def)
  then obtain c w1 where c: "run_state (CreateToken toy_crypto ''ann'' ''ci'' [''skill:read''] None) (calm True empty_db) = (Inr c, w1)"
    by (blast dest: wp_ex)
  then show ?thesis
    using token_lifecycle [of "calm True empty_db" toy_crypto "''ann''" "''ci''" "[''skill:read'']" c w1]
    by (auto simp: empty_db_def no_accounts_def)
qed

end
