(* ===== verification/Logins.thy ===== *)
theory Logins
  imports Auth
begin

text \<open>
  Local accounts (\<open>local.go\<close>), password resets (\<open>passwordreset.go\<close>) and account merges
  (\<open>merge.go\<close>) over the repositories of \<open>AuthRepo\<close>.
\<close>

section \<open>Local accounts\<close>

record RegisterResult =
  rg_User :: UserAccount
  rg_Principal :: PlatformPrincipal

definition hex_of :: "string \<Rightarrow> string" where
  "hex_of s = EncodeToString s"

text \<open>The version and variant bits of a random UUID, printed without separators.\<close>

definition uuid_bits :: "string \<Rightarrow> string" where
  "uuid_bits u = u[6 := char_of (64 + byte (u ! 6) mod 16), 8 := char_of (128 + byte (u ! 8) mod 64)]"

definition generateUserID :: "crypto \<Rightarrow> string op" where
  "generateUserID cy = do {
     r \<leftarrow> rand_Read cy 16;
     (case r of Inl e \<Rightarrow> fail e | Inr u \<Rightarrow> ok (''usr_'' @ hex_of (uuid_bits u))) }"

definition email_free :: "string \<Rightarrow> unit op" where
  "email_free email = (if email = [] then ok () else do {
     r \<leftarrow> UserRepo_FindByEmail email;
     (case r of
       Inl e \<Rightarrow> fail (wrap ''auth: check email'' e)
     | Inr (Some _) \<Rightarrow> fail (Errs ''error.auth.local.email.taken'')
     | Inr None \<Rightarrow> ok ()) })"

definition new_credential :: "string \<Rightarrow> string \<Rightarrow> string \<Rightarrow> time \<Rightarrow> LocalCredential" where
  "new_credential userID username hash t = \<lparr>lc_ID = 0, lc_UserID = userID, lc_Username = username, lc_PasswordHash = hash,
     lc_FailedAttempts = 0, lc_LockedUntil = None, lc_CreatedAt = t, lc_UpdatedAt = t\<rparr>"

definition new_account :: "string \<Rightarrow> string \<Rightarrow> string \<Rightarrow> time \<Rightarrow> UserAccount" where
  "new_account userID nm email t = \<lparr>ua_ID = userID, ua_DisplayName = nm, ua_Email = email, ua_AvatarURL = [], ua_Status = ''ACTIVE'',
     ua_MergedToUserID = None, ua_SystemAccount = False, ua_CreatedAt = t, ua_UpdatedAt = t\<rparr>"

definition create_account :: "crypto \<Rightarrow> string \<Rightarrow> string \<Rightarrow> string \<Rightarrow> RegisterResult op" where
  "create_account cy username email hash = do {
     r \<leftarrow> generateUserID cy;
     (case r of
       Inl e \<Rightarrow> fail (wrap ''auth: generate user id'' e)
     | Inr userID \<Rightarrow> do {
         t \<leftarrow> now;
         r \<leftarrow> UserRepo_Save (new_account userID username email t);
         (case r of
           Inl e \<Rightarrow> fail (wrap ''auth: save user'' e)
         | Inr u \<Rightarrow> do {
             r \<leftarrow> CredRepo_Save (new_credential userID username hash t);
             (case r of
               Inl e \<Rightarrow> fail (wrap ''auth: save credential'' e)
             | Inr _ \<Rightarrow> ok \<lparr>rg_User = u, rg_Principal = NewPrincipal u ''local'' []\<rparr>) }) }) }"

definition Register :: "crypto \<Rightarrow> string \<Rightarrow> string \<Rightarrow> string \<Rightarrow> RegisterResult op" where
  "Register cy username email password =
     (case NormalizeUsername username of
       Inl e \<Rightarrow> fail e
     | Inr nm \<Rightarrow> do {
         r \<leftarrow> CredRepo_FindByUsername nm;
         (case r of
           Inl e \<Rightarrow> fail (wrap ''auth: check username'' e)
         | Inr (Some _) \<Rightarrow> fail (Errs ''error.auth.local.username.taken'')
         | Inr None \<Rightarrow> do {
             r \<leftarrow> email_free (NormalizeEmail email);
             (case r of
               Inl e \<Rightarrow> fail e
             | Inr _ \<Rightarrow> (case PasswordPolicy_Validate cy DefaultPasswordPolicy password of
                 Some e \<Rightarrow> fail e
               | None \<Rightarrow> do {
                   r \<leftarrow> HashPassword cy password;
                   (case r of
                     Inl e \<Rightarrow> fail (wrap ''auth: hash password'' e)
                   | Inr hash \<Rightarrow> create_account cy nm (NormalizeEmail email) hash) })) }) })"

definition ToUpper :: "string \<Rightarrow> string" where
  "ToUpper s = map (\<lambda>c. if is_lower c then char_of (byte c - 32) else c) s"

definition invalidCredentials :: err where
  "invalidCredentials = Errs ''error.auth.local.invalidCredentials''"

text \<open>\<open>int(d.Minutes())\<close> rounds towards zero.\<close>

definition whole_minutes :: "time \<Rightarrow> int" where
  "whole_minutes d = (if d \<ge> 0 then d div minutes 1 else - ((- d) div minutes 1))"

definition maxFailedAttempts :: int where "maxFailedAttempts = 5"

definition failed_login :: "LocalCredential \<Rightarrow> PlatformPrincipal op" where
  "failed_login c = do {
     c \<leftarrow> (if lc_FailedAttempts c + 1 \<ge> maxFailedAttempts
       then do { t \<leftarrow> now; State_Monad.return (c\<lparr>lc_FailedAttempts := lc_FailedAttempts c + 1, lc_LockedUntil := Some (t + minutes 15)\<rparr>) }
       else State_Monad.return (c\<lparr>lc_FailedAttempts := lc_FailedAttempts c + 1\<rparr>));
     t \<leftarrow> now;
     _ \<leftarrow> CredRepo_Save (c\<lparr>lc_UpdatedAt := t\<rparr>);
     fail invalidCredentials }"

definition cleared :: "LocalCredential \<Rightarrow> time \<Rightarrow> LocalCredential" where
  "cleared c t = c\<lparr>lc_FailedAttempts := 0, lc_LockedUntil := None, lc_UpdatedAt := t\<rparr>"

definition passed_login :: "LocalCredential \<Rightarrow> PlatformPrincipal op" where
  "passed_login c = do {
     t \<leftarrow> now;
     r \<leftarrow> CredRepo_Save (cleared c t);
     (case r of
       Inl e \<Rightarrow> fail (wrap ''auth: update credential'' e)
     | Inr _ \<Rightarrow> do {
         r \<leftarrow> UserRepo_FindByID (lc_UserID c);
         (case r of
           Inl e \<Rightarrow> fail (wrap ''auth: find user'' e)
         | Inr None \<Rightarrow> fail invalidCredentials
         | Inr (Some u) \<Rightarrow>
           if ToUpper (ua_Status u) \<in> {''DISABLED'', ''PENDING'', ''MERGED''} then fail (Errs ''error.auth.local.accountInactive'')
           else ok (NewPrincipal u ''local'' [])) }) }"

text \<open>\<open>time.Now()\<close> is only read when the credential has a lock; comparing with the dummy hash has no effect.\<close>

definition locked_now :: "LocalCredential \<Rightarrow> (world, bool) state" where
  "locked_now c = (case lc_LockedUntil c of
     None \<Rightarrow> State_Monad.return False
   | Some until \<Rightarrow> do { t \<leftarrow> now; State_Monad.return (t < until) })"

definition Login :: "crypto \<Rightarrow> string \<Rightarrow> string \<Rightarrow> PlatformPrincipal op" where
  "Login cy username password =
     (case NormalizeUsername username of
       Inl _ \<Rightarrow> fail invalidCredentials
     | Inr nm \<Rightarrow> do {
         r \<leftarrow> CredRepo_FindByUsername nm;
         (case r of
           Inl e \<Rightarrow> fail (wrap ''auth: find credential'' e)
         | Inr None \<Rightarrow> fail invalidCredentials
         | Inr (Some c) \<Rightarrow> do {
             locked \<leftarrow> locked_now c;
             if locked then do {
               t \<leftarrow> now;
               fail (Errorf ''error.auth.local.locked; remaining %d minutes'' [AInt (whole_minutes (the (lc_LockedUntil c) - t))]) }
             else if \<not> CheckPassword cy password (lc_PasswordHash c) then failed_login c
             else passed_login c }) })"

definition ChangePassword :: "crypto \<Rightarrow> string \<Rightarrow> string \<Rightarrow> string \<Rightarrow> unit op" where
  "ChangePassword cy userID currentPassword newPassword = do {
     r \<leftarrow> CredRepo_FindByUserID userID;
     (case r of
       Inl e \<Rightarrow> fail (wrap ''auth: find credential'' e)
     | Inr None \<Rightarrow> fail (Errs ''error.auth.local.noCredential'')
     | Inr (Some c) \<Rightarrow>
       if \<not> CheckPassword cy currentPassword (lc_PasswordHash c) then fail (Errs ''error.auth.local.invalidPassword'')
       else (case PasswordPolicy_Validate cy DefaultPasswordPolicy newPassword of
           Some e \<Rightarrow> fail e
         | None \<Rightarrow> do {
             r \<leftarrow> HashPassword cy newPassword;
             (case r of
               Inl e \<Rightarrow> fail (wrap ''auth: hash password'' e)
             | Inr hash \<Rightarrow> do {
                 t \<leftarrow> now;
                 r \<leftarrow> CredRepo_Save (cleared (c\<lparr>lc_PasswordHash := hash\<rparr>) t);
                 (case r of Inl e \<Rightarrow> fail e | Inr _ \<Rightarrow> ok ()) }) })) }"

section \<open>Password resets\<close>

definition codeTTL :: time where "codeTTL = minutes 10"

definition RequestPasswordReset :: "crypto \<Rightarrow> string \<Rightarrow> unit op" where
  "RequestPasswordReset cy email0 = (let email = NormalizeEmail email0 in
     if email = [] then ok ()
     else do {
       r \<leftarrow> UserRepo_FindByEmail email;
       (case r of
         Inr (Some u) \<Rightarrow>
           if ua_Status u \<noteq> ''ACTIVE'' \<or> ua_SystemAccount u then ok ()
           else do {
             r \<leftarrow> CredRepo_FindByUserID (ua_ID u);
             (case r of
               Inr (Some _) \<Rightarrow> do {
                 r \<leftarrow> GenerateSecureCode cy;
                 (case r of
                   Inl e \<Rightarrow> fail (wrap ''auth: generate code'' e)
                 | Inr code \<Rightarrow> do {
                     r \<leftarrow> HashPassword cy code;
                     (case r of
                       Inl e \<Rightarrow> fail (wrap ''auth: hash code'' e)
                     | Inr codeHash \<Rightarrow> do {
                         t \<leftarrow> now;
                         r \<leftarrow> ResetRepo_Save \<lparr>pq_ID = 0, pq_UserID = ua_ID u, pq_Email = email, pq_CodeHash = codeHash,
                           pq_ExpiresAt = t + codeTTL, pq_ConsumedAt = None, pq_RequestedByAdmin = False,
                           pq_RequestedByUserID = None, pq_CreatedAt = t\<rparr>;
                         (case r of Inl e \<Rightarrow> fail (wrap ''auth: save reset request'' e) | Inr _ \<Rightarrow> ok ()) }) }) }
             | _ \<Rightarrow> ok ()) }
       | _ \<Rightarrow> ok ()) })"

definition invalidCode :: err where
  "invalidCode = Errs ''error.auth.reset.invalidCode''"

definition finish_reset :: "crypto \<Rightarrow> UserAccount \<Rightarrow> PasswordResetRequest \<Rightarrow> string \<Rightarrow> unit op" where
  "finish_reset cy u req newPassword = (case PasswordPolicy_Validate cy DefaultPasswordPolicy newPassword of
     Some e \<Rightarrow> fail e
   | None \<Rightarrow> do {
       r \<leftarrow> CredRepo_FindByUserID (ua_ID u);
       (case r of
         Inr (Some c) \<Rightarrow> do {
           r \<leftarrow> HashPassword cy newPassword;
           (case r of
             Inl e \<Rightarrow> fail (wrap ''auth: hash password'' e)
           | Inr hash \<Rightarrow> do {
               t \<leftarrow> now;
               r \<leftarrow> CredRepo_Save (cleared (c\<lparr>lc_PasswordHash := hash\<rparr>) t);
               (case r of
                 Inl e \<Rightarrow> fail (wrap ''auth: save credential'' e)
               | Inr _ \<Rightarrow> do {
                   t \<leftarrow> now;
                   r \<leftarrow> ResetRepo_Save (req\<lparr>pq_ConsumedAt := Some t\<rparr>);
                   (case r of Inl e \<Rightarrow> fail e | Inr _ \<Rightarrow> ok ()) }) }) }
       | _ \<Rightarrow> fail (Errs ''error.auth.reset.noCredential'')) })"

definition ConfirmPasswordReset :: "crypto \<Rightarrow> string \<Rightarrow> string \<Rightarrow> string \<Rightarrow> unit op" where
  "ConfirmPasswordReset cy email0 code newPassword = (let email = NormalizeEmail email0 in
     if email = [] then fail invalidCode
     else do {
       r \<leftarrow> UserRepo_FindByEmail email;
       (case r of
         Inr (Some u) \<Rightarrow> do {
           r \<leftarrow> ResetRepo_FindValidByUserID (ua_ID u);
           (case r of
             Inl e \<Rightarrow> fail (wrap ''auth: find reset requests'' e)
           | Inr requests \<Rightarrow> (case find (\<lambda>q. CheckPassword cy code (pq_CodeHash q)) requests of
               None \<Rightarrow> fail invalidCode
             | Some req \<Rightarrow> finish_reset cy u req newPassword)) }
       | _ \<Rightarrow> fail invalidCode) })"

section \<open>Account merges\<close>

record MergeInitiationResult =
  mi_RequestID :: int
  mi_SecondaryUserID :: string
  mi_RawToken :: string
  mi_ExpiresAt :: time

definition mergeErr :: "string \<Rightarrow> err" where
  "mergeErr s = Errs (''error.merge.'' @ s)"

definition active_user :: "(err + UserAccount option) \<Rightarrow> UserAccount option" where
  "active_user r = (case r of Inr (Some u) \<Rightarrow> if ua_Status u = ''ACTIVE'' then Some u else None | _ \<Rightarrow> None)"

definition found :: "(err + 'a option) \<Rightarrow> 'a option" where
  "found r = (case r of Inr (Some x) \<Rightarrow> Some x | _ \<Rightarrow> None)"

definition open_merge :: "crypto \<Rightarrow> string \<Rightarrow> string \<Rightarrow> MergeInitiationResult op" where
  "open_merge cy primaryUserID secondaryUserID = do {
     r \<leftarrow> rand_Read cy 24;
     (case r of
       Inl e \<Rightarrow> fail (wrap ''auth: merge token random'' e)
     | Inr bytes \<Rightarrow> do {
         r \<leftarrow> HashPassword cy (RawURLEncoding bytes);
         (case r of
           Inl e \<Rightarrow> fail (wrap ''auth: hash merge token'' e)
         | Inr tokenHash \<Rightarrow> do {
             t \<leftarrow> now;
             t' \<leftarrow> now;
             r \<leftarrow> MergeRepo_Save \<lparr>am_ID = 0, am_PrimaryUserID = primaryUserID, am_SecondaryUserID = secondaryUserID, am_Status = ''PENDING'',
               am_VerificationToken = Some tokenHash, am_TokenExpiresAt = Some (t + minutes 30), am_CompletedAt = None, am_CreatedAt = t'\<rparr>;
             (case r of
               Inl e \<Rightarrow> fail (wrap ''auth: save merge request'' e)
             | Inr saved \<Rightarrow> ok \<lparr>mi_RequestID = am_ID saved, mi_SecondaryUserID = secondaryUserID,
                 mi_RawToken = RawURLEncoding bytes, mi_ExpiresAt = t + minutes 30\<rparr>) }) }) }"

definition InitiateMerge :: "crypto \<Rightarrow> string \<Rightarrow> string \<Rightarrow> MergeInitiationResult op" where
  "InitiateMerge cy primaryUserID secondaryIdentifier = do {
     r \<leftarrow> UserRepo_FindByID primaryUserID;
     (case active_user r of
       None \<Rightarrow> fail (mergeErr ''primaryInvalid'')
     | Some _ \<Rightarrow> do {
         r \<leftarrow> UserRepo_FindByID secondaryIdentifier;
         (case found r of
           None \<Rightarrow> fail (mergeErr ''secondaryInvalid'')
         | Some s \<Rightarrow>
           if ua_Status s \<noteq> ''ACTIVE'' then fail (mergeErr ''secondaryInactive'')
           else if ua_ID s = primaryUserID then fail (mergeErr ''sameUser'')
           else do {
             r \<leftarrow> MergeRepo_FindPendingBySecondaryUserID (ua_ID s);
             (case r of
               Inl e \<Rightarrow> fail (wrap ''auth: check pending merge'' e)
             | Inr (Some _) \<Rightarrow> fail (mergeErr ''pendingExists'')
             | Inr None \<Rightarrow> do {
                 pc \<leftarrow> CredRepo_FindByUserID primaryUserID;
                 sc \<leftarrow> CredRepo_FindByUserID (ua_ID s);
                 if found pc \<noteq> None \<and> found sc \<noteq> None then fail (mergeErr ''bothHaveCredentials'')
                 else open_merge cy primaryUserID (ua_ID s) }) }) }) }"

text \<open>Saving every row of a list, stopping at the first error.\<close>

fun save_each :: "('r \<Rightarrow> 'b op) \<Rightarrow> ('r \<Rightarrow> err \<Rightarrow> err) \<Rightarrow> 'r list \<Rightarrow> unit op" where
  "save_each save f [] = ok ()"
| "save_each save f (x # xs) = do {
     r \<leftarrow> save x;
     (case r of Inl e \<Rightarrow> fail (f x e) | Inr _ \<Rightarrow> save_each save f xs) }"

definition move_identities :: "string \<Rightarrow> string \<Rightarrow> unit op" where
  "move_identities primaryUserID secondaryUserID = do {
     r \<leftarrow> IdentityRepo_FindByUserID secondaryUserID;
     (case r of
       Inl e \<Rightarrow> fail (wrap ''auth: find identity bindings'' e)
     | Inr bs \<Rightarrow> save_each (\<lambda>b. IdentityRepo_Save (b\<lparr>ib_UserID := primaryUserID\<rparr>))
         (\<lambda>b e. Wrapf ''auth: reassign identity binding %d'' [AInt (ib_ID b)] e) bs) }"

definition moved_token :: "string \<Rightarrow> ApiToken \<Rightarrow> ApiToken" where
  "moved_token primaryUserID t = t\<lparr>at_UserID := primaryUserID,
     at_SubjectID := (if at_SubjectType t = ''USER'' then primaryUserID else at_SubjectID t)\<rparr>"

definition move_tokens :: "string \<Rightarrow> string \<Rightarrow> unit op" where
  "move_tokens primaryUserID secondaryUserID = do {
     r \<leftarrow> TokenRepo_FindByUserID secondaryUserID;
     (case r of
       Inl e \<Rightarrow> fail (wrap ''auth: find API tokens'' e)
     | Inr ts \<Rightarrow> save_each (\<lambda>t. TokenRepo_Save (moved_token primaryUserID t))
         (\<lambda>t e. Wrapf ''auth: reassign token %d'' [AInt (at_ID t)] e) ts) }"

definition move_roles :: "string \<Rightarrow> string \<Rightarrow> unit op" where
  "move_roles primaryUserID secondaryUserID = do {
     r \<leftarrow> BindingRepo_FindByUserID secondaryUserID;
     (case r of
       Inl e \<Rightarrow> fail (wrap ''auth: find secondary role bindings'' e)
     | Inr sbs \<Rightarrow> do {
         r \<leftarrow> BindingRepo_FindByUserID primaryUserID;
         (case r of
           Inl e \<Rightarrow> fail (wrap ''auth: find primary role bindings'' e)
         | Inr pbs \<Rightarrow> do {
             r \<leftarrow> save_each (\<lambda>b. BindingRepo_Save \<lparr>ur_ID = 0, ur_UserID = primaryUserID, ur_RoleID = ur_RoleID b, ur_CreatedAt = zero_time\<rparr>)
               (\<lambda>_ e. wrap ''auth: merge role binding'' e) (filter (\<lambda>b. ur_RoleID b \<notin> ur_RoleID ` set pbs) sbs);
             (case r of
               Inl e \<Rightarrow> fail e
             | Inr _ \<Rightarrow> do {
                 r \<leftarrow> BindingRepo_DeleteByUserID secondaryUserID;
                 (case r of Inl e \<Rightarrow> fail (wrap ''auth: delete secondary role bindings'' e) | Inr _ \<Rightarrow> ok ()) }) }) }) }"

definition move_credential :: "string \<Rightarrow> LocalCredential option \<Rightarrow> LocalCredential option \<Rightarrow> unit op" where
  "move_credential primaryUserID pc sc = (case (pc, sc) of
     (None, Some c) \<Rightarrow> do {
       r \<leftarrow> CredRepo_Save (c\<lparr>lc_UserID := primaryUserID\<rparr>);
       (case r of Inl e \<Rightarrow> fail (wrap ''auth: transfer credential'' e) | Inr _ \<Rightarrow> ok ()) }
   | _ \<Rightarrow> ok ())"

definition copy_email :: "UserAccount \<Rightarrow> UserAccount \<Rightarrow> unit op" where
  "copy_email p s = (if ua_Email p = [] \<and> ua_Email s \<noteq> [] then do {
       r \<leftarrow> UserRepo_Save (p\<lparr>ua_Email := ua_Email s\<rparr>);
       (case r of Inl e \<Rightarrow> fail (wrap ''auth: copy email'' e) | Inr _ \<Rightarrow> ok ()) }
     else ok ())"

definition close_merge :: "(string \<Rightarrow> string \<Rightarrow> unit op) option \<Rightarrow> AccountMergeRequest \<Rightarrow> string \<Rightarrow> UserAccount \<Rightarrow> unit op" where
  "close_merge migrator req primaryUserID s = do {
     r \<leftarrow> UserRepo_Save (s\<lparr>ua_Status := ''MERGED'', ua_MergedToUserID := Some primaryUserID\<rparr>);
     (case r of
       Inl e \<Rightarrow> fail (wrap ''auth: mark secondary merged'' e)
     | Inr _ \<Rightarrow> do {
         t \<leftarrow> now;
         r \<leftarrow> MergeRepo_Update (req\<lparr>am_Status := ''COMPLETED'', am_VerificationToken := None, am_CompletedAt := Some t\<rparr>);
         (case r of
           Inl e \<Rightarrow> fail (wrap ''auth: complete merge request'' e)
         | Inr _ \<Rightarrow> (case migrator of
             None \<Rightarrow> ok ()
           | Some migrate \<Rightarrow> do {
               r \<leftarrow> migrate primaryUserID (am_SecondaryUserID req);
               (case r of Inl e \<Rightarrow> fail (wrap ''auth: migrate namespace memberships'' e) | Inr _ \<Rightarrow> ok ()) })) }) }"

text \<open>Steps in order, each only after the one before it succeeded.\<close>

fun in_order :: "unit op list \<Rightarrow> unit op" where
  "in_order [] = ok ()"
| "in_order (m # ms) = do { r \<leftarrow> m; (case r of Inl e \<Rightarrow> fail e | Inr _ \<Rightarrow> in_order ms) }"

definition merge_accounts :: "(string \<Rightarrow> string \<Rightarrow> unit op) option \<Rightarrow> AccountMergeRequest \<Rightarrow> string \<Rightarrow> unit op" where
  "merge_accounts migrator req primaryUserID = do {
     r \<leftarrow> UserRepo_FindByID primaryUserID;
     (case active_user r of
       None \<Rightarrow> fail (mergeErr ''primaryInvalid'')
     | Some p \<Rightarrow> do {
         r \<leftarrow> UserRepo_FindByID (am_SecondaryUserID req);
         (case active_user r of
           None \<Rightarrow> fail (mergeErr ''secondaryInvalid'')
         | Some s \<Rightarrow> do {
             pc \<leftarrow> CredRepo_FindByUserID primaryUserID;
             sc \<leftarrow> CredRepo_FindByUserID (am_SecondaryUserID req);
             if found pc \<noteq> None \<and> found sc \<noteq> None then fail (mergeErr ''credentialConflict'')
             else in_order [move_identities primaryUserID (am_SecondaryUserID req), move_tokens primaryUserID (am_SecondaryUserID req),
               move_roles primaryUserID (am_SecondaryUserID req), move_credential primaryUserID (found pc) (found sc),
               copy_email p s, close_merge migrator req primaryUserID s] }) }) }"

definition token_expired :: "AccountMergeRequest \<Rightarrow> (world, bool) state" where
  "token_expired req = (case am_TokenExpiresAt req of
     None \<Rightarrow> State_Monad.return False
   | Some e \<Rightarrow> do { t \<leftarrow> now; State_Monad.return (t > e) })"

definition ConfirmMerge :: "crypto \<Rightarrow> (string \<Rightarrow> string \<Rightarrow> unit op) option \<Rightarrow> int \<Rightarrow> string \<Rightarrow> string \<Rightarrow> unit op" where
  "ConfirmMerge cy migrator requestID primaryUserID rawToken = do {
     r \<leftarrow> MergeRepo_FindByID requestID;
     (case r of
       Inl e \<Rightarrow> fail (wrap ''auth: find merge request'' e)
     | Inr None \<Rightarrow> fail (mergeErr ''requestNotFound'')
     | Inr (Some req) \<Rightarrow>
       if am_PrimaryUserID req \<noteq> primaryUserID then fail (mergeErr ''wrongPrimaryUser'')
       else if am_Status req \<noteq> ''PENDING'' \<and> am_Status req \<noteq> ''VERIFIED'' then fail (mergeErr ''wrongStatus'')
       else do {
         expired \<leftarrow> token_expired req;
         if expired then fail (mergeErr ''tokenExpired'')
         else (case am_VerificationToken req of
             None \<Rightarrow> fail (mergeErr ''missingToken'')
           | Some h \<Rightarrow>
             if \<not> CheckPassword cy rawToken h then fail (mergeErr ''wrongToken'')
             else merge_accounts migrator req primaryUserID) }) }"

section \<open>The lockout of local accounts\<close>

definition creds_ok :: "database \<Rightarrow> bool" where
  "creds_ok d \<longleftrightarrow> lct.unique (credentials (accounts d)) \<and> distinct (map lc_Username (credentials (accounts d)))"

definition login_row :: "string \<Rightarrow> database \<Rightarrow> LocalCredential option" where
  "login_row nm d = find (\<lambda>c. lc_Username c = nm) (credentials (accounts d))"

definition same_login :: "LocalCredential \<Rightarrow> LocalCredential \<Rightarrow> bool" where
  "same_login s c \<longleftrightarrow> lc_PasswordHash s = lc_PasswordHash c \<and> lc_FailedAttempts s = lc_FailedAttempts c
     \<and> lc_LockedUntil s = lc_LockedUntil c \<and> lc_UserID s = lc_UserID c"

lemma login_row_in: "login_row nm d = Some c \<Longrightarrow> c \<in> set (credentials (accounts d)) \<and> lc_Username c = nm"
  unfolding login_row_def by (rule find_SomeD)

lemma distinct_field: "distinct (map f xs) \<Longrightarrow> x \<in> set xs \<Longrightarrow> y \<in> set xs \<Longrightarrow> f x = f y \<Longrightarrow> x = y"
  by (auto simp: distinct_map dest: inj_onD)

lemma cred_save_wp:
  assumes "healthy w" and "creds_ok (db w)" and "login_row nm (db w) = Some old"
    and "lc_UserID new = lc_UserID old" and "lc_Username new = nm"
    and "\<And>r s w'. healthy w' \<Longrightarrow> clock w' = clock w \<Longrightarrow> creds_ok (db w') \<Longrightarrow> login_row nm (db w') = Some s \<Longrightarrow> same_login s new \<Longrightarrow>
      user_accounts (accounts (db w')) = user_accounts (accounts (db w)) \<Longrightarrow>
      reset_requests (accounts (db w')) = reset_requests (accounts (db w)) \<Longrightarrow> Q (Inr r) w'"
  shows "wp (CredRepo_Save new) Q w"
proof -
  let ?cs = "credentials (accounts (db w))"
  note old = login_row_in [OF assms(3)] and ok = assms(2) [unfolded creds_ok_def]
  have nodup: "\<not> list_ex (\<lambda>o'. lc_Username o' = lc_Username new \<and> lc_UserID o' \<noteq> lc_UserID new) ?cs"
    using old distinct_field [OF conjunct2 [OF ok]] assms(4,5) unfolding list_ex_iff by metis
  let ?row = "\<lambda>t i. lc_row new t i"
  have key: "lc_UserID (?row t i) = lc_UserID old" for t i using assms(4) by (simp add: lc_row_def)
  have find: "login_row nm (on_accounts (\<lambda>a. a\<lparr>credentials := lct.save (?row t i) (credentials a)\<rparr>) (db w)) = Some (lc_merge (?row t i) old)" for t i
    using lct.find_save_existing [OF conjunct1 [OF ok] assms(3) [unfolded login_row_def] key] assms(5)
    by (simp add: login_row_def lc_merge_def lc_row_def)
  have same: "same_login (lc_merge (?row t i) old) new" for t i
    using assms(4) by (simp add: same_login_def lc_merge_def lc_row_def)
  have ok': "creds_ok (on_accounts (\<lambda>a. a\<lparr>credentials := lct.save (?row t i) (credentials a)\<rparr>) (db w))" for t i
  proof -
    have "map lc_Username (lct.save (?row t i) ?cs) = map lc_Username ?cs"
      unfolding lct.save_existing [OF conjunct1 [OF ok] conjunct1 [OF old] key]
      using old lct.key_inj [OF conjunct1 [OF ok] _ conjunct1 [OF old]] assms(5)
      by (auto simp: update_where_def lc_merge_def lc_row_def) metis
    then show ?thesis using ok lct.unique_save by (simp add: creds_ok_def)
  qed
  show ?thesis using assms(1) nodup
    by (simp add: CredRepo_Save_def Let_def) (rule assms(6) [where s = "lc_merge (lc_row new (clock w (tick w)) (next_id ''local_credential_id_seq'' w)) old"]; simp add: ok' find same)
qed

text \<open>An account under attack: \<open>k\<close> wrong guesses were made at \<open>T\<close> or later, in a quarter of an hour.\<close>

definition guarded :: "string \<Rightarrow> string \<Rightarrow> int \<Rightarrow> time \<Rightarrow> world \<Rightarrow> bool" where
  "guarded nm h k T w \<longleftrightarrow> healthy w \<and> creds_ok (db w) \<and> (\<forall>n. T \<le> clock w n \<and> clock w n < T + minutes 15)
     \<and> (\<exists>c. login_row nm (db w) = Some c \<and> lc_PasswordHash c = h
          \<and> (case lc_LockedUntil c of None \<Rightarrow> k \<le> lc_FailedAttempts c \<and> (k > 0 \<longrightarrow> lc_FailedAttempts c < maxFailedAttempts)
               | Some until \<Rightarrow> until \<ge> T + minutes 15))"

lemma failed_login_wp:
  assumes "guarded nm h k T w" and "login_row nm (db w) = Some c" and "lc_LockedUntil c = None" and "k \<ge> 0"
  shows "wp (failed_login c) (\<lambda>r w'. r = Inl invalidCredentials \<and> guarded nm h (k + 1) T w') w"
proof -
  have g: "healthy w" "creds_ok (db w)" "\<forall>n. T \<le> clock w n \<and> clock w n < T + minutes 15" "lc_PasswordHash c = h" "k \<le> lc_FailedAttempts c"
    using assms(1-3) by (auto simp: guarded_def)
  have nm: "lc_Username c = nm" using login_row_in [OF assms(2)] by simp
  have save: "wp (CredRepo_Save new) (\<lambda>_ w'. guarded nm h (k + 1) T w') w1"
    if "healthy w1" "db w1 = db w" "clock w1 = clock w" "lc_UserID new = lc_UserID c" "lc_Username new = nm" "lc_PasswordHash new = h"
      "case lc_LockedUntil new of None \<Rightarrow> k + 1 \<le> lc_FailedAttempts new \<and> lc_FailedAttempts new < maxFailedAttempts
         | Some until \<Rightarrow> until \<ge> T + minutes 15" for new w1
  proof (rule cred_save_wp [where nm = nm and old = c])
    fix r s w' assume "healthy w'" "clock w' = clock w1" "creds_ok (db w')" "login_row nm (db w') = Some s" "same_login s new"
    then show "guarded nm h (k + 1) T w'" using that g(3) unfolding guarded_def same_login_def by (auto split: option.splits)
  qed (use that assms(2) g(2) in auto)
  show ?thesis
    using g nm assms(3) by (auto simp: failed_login_def wp_conj maxFailedAttempts_def intro!: wp_mono [OF save])
qed

lemma login_wrong:
  assumes "guarded nm h k T w" and "NormalizeUsername user = Inr nm" and "\<not> CheckPassword cy p h" and "k \<ge> 0"
  shows "wp (Login cy user p) (\<lambda>r w'. (\<exists>e. r = Inl e) \<and> guarded nm h (k + 1) T w') w"
proof -
  obtain c where c: "login_row nm (db w) = Some c" "lc_PasswordHash c = h" using assms(1) by (auto simp: guarded_def)
  have h: "healthy w" using assms(1) by (simp add: guarded_def)
  show ?thesis
  proof (cases "lc_LockedUntil c")
    case None
    have "guarded nm h k T (advance w)" using assms(1) by (auto simp: guarded_def)
    then have "wp (failed_login c) (\<lambda>r w'. r = Inl invalidCredentials \<and> guarded nm h (k + 1) T w') (advance w)"
      using failed_login_wp [of nm h k T "advance w" c] c None assms(4) by simp
    then have "wp (failed_login c) (\<lambda>r w'. (\<exists>e. r = Inl e) \<and> guarded nm h (k + 1) T w') (advance w)" by (rule wp_mono) auto
    then show ?thesis using c None h assms(2,3) by (simp add: Login_def CredRepo_FindByUsername_def login_row_def locked_now_def)
  next
    case (Some until)
    then show ?thesis using c h assms(1,2)
      by (auto simp: Login_def CredRepo_FindByUsername_def login_row_def locked_now_def guarded_def intro: order.strict_trans2)
  qed
qed

lemma login_locked:
  assumes "guarded nm h k T w" and "NormalizeUsername user = Inr nm" and "k \<ge> maxFailedAttempts"
  shows "wp (Login cy user p) (\<lambda>r w'. (\<exists>e. r = Inl e) \<and> db w' = db w) w"
proof -
  obtain c until where "login_row nm (db w) = Some c" "lc_LockedUntil c = Some until" "until \<ge> T + minutes 15"
    using assms(1,3) by (fastforce simp: guarded_def maxFailedAttempts_def split: option.splits)
  then show ?thesis using assms(1,2)
    by (auto simp: Login_def CredRepo_FindByUsername_def login_row_def locked_now_def guarded_def intro: order.strict_trans2)
qed

fun guesses :: "crypto \<Rightarrow> string \<Rightarrow> string list \<Rightarrow> world \<Rightarrow> world" where
  "guesses cy user [] w = w"
| "guesses cy user (p # ps) w = guesses cy user ps (snd (run_state (Login cy user p) w))"

lemma guesses_guarded:
  "guarded nm h k T w \<Longrightarrow> NormalizeUsername user = Inr nm \<Longrightarrow> \<forall>p \<in> set ps. \<not> CheckPassword cy p h \<Longrightarrow> k \<ge> 0 \<Longrightarrow>
   guarded nm h (k + int (length ps)) T (guesses cy user ps w)"
proof (induction ps arbitrary: k w)
  case (Cons p ps)
  have "guarded nm h (k + 1) T (snd (run_state (Login cy user p) w))"
    using login_wrong [OF Cons.prems(1,2), of cy p] Cons.prems(3,4) by (simp add: wp_def split_beta)
  then have "guarded nm h (k + 1 + int (length ps)) T (guesses cy user ps (snd (run_state (Login cy user p) w)))"
    using Cons by auto
  then show ?case by (simp add: add.assoc add.left_commute)
qed simp

text \<open>C9: brute force is stopped. When no statement fails, five or more wrong passwords for an account
  within a quarter of an hour lock it: from then on, for the rest of that quarter of an hour, \<open>Login\<close> refuses every
  password, the right one included, and changes nothing.\<close>

theorem brute_force_is_stopped:
  assumes "healthy w" and "creds_ok (db w)" and "NormalizeUsername user = Inr nm"
    and "login_row nm (db w) = Some c" and "lc_LockedUntil c = None" and "lc_FailedAttempts c \<ge> 0"
    and "\<forall>n. T \<le> clock w n \<and> clock w n < T + minutes 15"
    and "\<forall>p \<in> set ps. \<not> CheckPassword cy p (lc_PasswordHash c)" and "length ps \<ge> 5"
  shows "case run_state (Login cy user password) (guesses cy user ps w) of (r, w') \<Rightarrow>
    (\<exists>e. r = Inl e) \<and> db w' = db (guesses cy user ps w)"
proof -
  have "guarded nm (lc_PasswordHash c) 0 T w" using assms(1,2,4-7) by (simp add: guarded_def)
  then have "guarded nm (lc_PasswordHash c) (int (length ps)) T (guesses cy user ps w)"
    using guesses_guarded [of nm "lc_PasswordHash c" 0 T w user ps cy] assms(3,8) by simp
  then show ?thesis
    using login_locked [of nm "lc_PasswordHash c" "int (length ps)" T "guesses cy user ps w" user cy password] assms(3,9)
    by (simp add: wp_def maxFailedAttempts_def split_beta)
qed

definition login_world :: world where
  "login_world = (calm True (empty_db\<lparr>accounts := no_accounts\<lparr>
     user_accounts := [new_account ''usr_1'' ''ann'' ''ann@example.org'' 5],
     credentials := [new_credential ''usr_1'' ''ann'' ''hS3cretPwd'' 5],
     reset_requests := [\<lparr>pq_ID = 7, pq_UserID = ''usr_1'', pq_Email = ''ann@example.org'', pq_CodeHash = ''h123456'', pq_ExpiresAt = 2000,
       pq_ConsumedAt = None, pq_RequestedByAdmin = False, pq_RequestedByUserID = None, pq_CreatedAt = 900\<rparr>]\<rparr>\<rparr>))\<lparr>clock := (\<lambda>_. 1000)\<rparr>"

lemma login_world_simps:
  "healthy login_world" "clock login_world n = 1000" "nil_on_empty login_world"
  "accounts (db login_world) = no_accounts\<lparr>user_accounts := [new_account ''usr_1'' ''ann'' ''ann@example.org'' 5],
     credentials := [new_credential ''usr_1'' ''ann'' ''hS3cretPwd'' 5],
     reset_requests := [\<lparr>pq_ID = 7, pq_UserID = ''usr_1'', pq_Email = ''ann@example.org'', pq_CodeHash = ''h123456'', pq_ExpiresAt = 2000,
       pq_ConsumedAt = None, pq_RequestedByAdmin = False, pq_RequestedByUserID = None, pq_CreatedAt = 900\<rparr>]\<rparr>"
  by (simp_all add: login_world_def calm_def healthy_def)

lemma normalize_ann: "NormalizeUsername ''ann'' = Inr ''ann''"
  by (simp add: NormalizeUsername_def trim_blanks_def blank_def usernamePattern_def username_char_def lower_def is_upper_def is_lower_def byte_def)

lemma creds_ok_login_world: "creds_ok (db login_world)"
  by (simp add: creds_ok_def login_world_simps lct.unique_def)

theorem brute_force_is_stopped_witness:
  "\<exists>e. fst (run_state (Login toy_crypto ''ann'' ''S3cretPwd'') (guesses toy_crypto ''ann'' [''a'', ''b'', ''c'', ''d'', ''e''] login_world)) = Inl e"
  using brute_force_is_stopped [of login_world "''ann''" "''ann''" "new_credential ''usr_1'' ''ann'' ''hS3cretPwd'' 5" 1000
      "[''a'', ''b'', ''c'', ''d'', ''e'']" toy_crypto "''S3cretPwd''"]
  by (simp add: login_world_simps creds_ok_login_world normalize_ann login_row_def new_credential_def minutes_def CheckPassword_def
      toy_crypto_def split_beta)

section \<open>Reset codes\<close>

lemma cred_lookup:
  assumes "creds_ok d" and "c \<in> set (credentials (accounts d))"
  shows "find (\<lambda>x. lc_UserID x = lc_UserID c) (credentials (accounts d)) = Some c" "login_row (lc_Username c) d = Some c"
proof -
  show "find (\<lambda>x. lc_UserID x = lc_UserID c) (credentials (accounts d)) = Some c"
    using assms lct.find_key_unique unfolding creds_ok_def by blast
  have "distinct (map lc_Username cs) \<Longrightarrow> c \<in> set cs \<Longrightarrow> find (\<lambda>x. lc_Username x = lc_Username c) cs = Some c" for cs
    by (induction cs) (auto simp: image_iff)
  then show "login_row (lc_Username c) d = Some c" using assms unfolding creds_ok_def login_row_def by blast
qed

text \<open>The request a code opens, when no open request is about to expire.\<close>

definition open_request :: "crypto \<Rightarrow> string \<Rightarrow> string \<Rightarrow> database \<Rightarrow> PasswordResetRequest option" where
  "open_request cy user code d = find (\<lambda>q. CheckPassword cy code (pq_CodeHash q))
     (order_desc pq_CreatedAt (filter (\<lambda>q. pq_UserID q = user \<and> pq_ConsumedAt q = None) (reset_requests (accounts d))))"

definition reset_open :: "crypto \<Rightarrow> string \<Rightarrow> string \<Rightarrow> world \<Rightarrow> bool" where
  "reset_open cy email code w \<longleftrightarrow> healthy w \<and> creds_ok (db w)
     \<and> (\<forall>q \<in> set (reset_requests (accounts (db w))). \<forall>n. pq_ConsumedAt q = None \<longrightarrow> clock w n < pq_ExpiresAt q)
     \<and> (\<exists>u c req. find (\<lambda>u. ToLower (ua_Email u) = ToLower (NormalizeEmail email)) (user_accounts (accounts (db w))) = Some u
          \<and> c \<in> set (credentials (accounts (db w))) \<and> lc_UserID c = ua_ID u \<and> open_request cy (ua_ID u) code (db w) = Some req)"

lemma filter_open:
  "\<forall>q \<in> set qs. pq_ConsumedAt q = None \<longrightarrow> t < pq_ExpiresAt q \<Longrightarrow>
   filter (\<lambda>q. pq_UserID q = u \<and> pq_ConsumedAt q = None \<and> t < pq_ExpiresAt q) qs = filter (\<lambda>q. pq_UserID q = u \<and> pq_ConsumedAt q = None) qs"
  by (induction qs) auto

lemma finish_reset_wp:
  assumes "reset_open cy email code w" and "find (\<lambda>u. ToLower (ua_Email u) = ToLower (NormalizeEmail email)) (user_accounts (accounts (db w))) = Some u"
    and "PasswordPolicy_Validate cy DefaultPasswordPolicy p = None" and "\<And>t. \<exists>h. cy_hash cy t p = Inr h"
  shows "wp (finish_reset cy u req p) (\<lambda>r w'. r = Inr () \<and> reset_open cy email code w') w"
proof -
  obtain c q where g: "healthy w" "creds_ok (db w)" "c \<in> set (credentials (accounts (db w)))" "lc_UserID c = ua_ID u"
      "open_request cy (ua_ID u) code (db w) = Some q"
      "\<forall>q \<in> set (reset_requests (accounts (db w))). \<forall>n. pq_ConsumedAt q = None \<longrightarrow> clock w n < pq_ExpiresAt q"
    using assms(1,2) by (auto simp: reset_open_def)
  note row = cred_lookup [OF g(2,3), unfolded g(4)]
  have last: "wp (ResetRepo_Save (req\<lparr>pq_ConsumedAt := Some t\<rparr>)) (\<lambda>r w'. (\<exists>x. r = Inr x) \<and> reset_open cy email code w') w2"
    if "healthy w2" "creds_ok (db w2)" "login_row (lc_Username c) (db w2) = Some s" "lc_UserID s = ua_ID u" "clock w2 = clock w"
      "user_accounts (accounts (db w2)) = user_accounts (accounts (db w))" "reset_requests (accounts (db w2)) = reset_requests (accounts (db w))"
    for t s w2
  proof -
    have "s \<in> set (credentials (accounts (db w2)))" using login_row_in [OF that(3)] by simp
    then show ?thesis using that g assms(2)
      by (auto simp: ResetRepo_Save_def reset_open_def open_request_def creds_ok_def)
  qed
  have save: "wp (CredRepo_Save new) (\<lambda>r w'. (\<exists>x. r = Inr x) \<and> wp now (\<lambda>t w''. wp (ResetRepo_Save (req\<lparr>pq_ConsumedAt := Some t\<rparr>))
      (\<lambda>r w'. (\<exists>x. r = Inr x) \<and> reset_open cy email code w') w'') w') w1"
    if "healthy w1" "db w1 = db w" "clock w1 = clock w" "lc_UserID new = ua_ID u" "lc_Username new = lc_Username c" for new w1
  proof (rule cred_save_wp [where nm = "lc_Username c" and old = c])
    fix r s w' assume "healthy w'" "clock w' = clock w1" "creds_ok (db w')" "login_row (lc_Username c) (db w') = Some s" "same_login s new"
      "user_accounts (accounts (db w')) = user_accounts (accounts (db w1))" "reset_requests (accounts (db w')) = reset_requests (accounts (db w1))"
    then show "(\<exists>x. Inr r = Inr x) \<and> wp now (\<lambda>t w''. wp (ResetRepo_Save (req\<lparr>pq_ConsumedAt := Some t\<rparr>))
        (\<lambda>r w'. (\<exists>x. r = Inr x) \<and> reset_open cy email code w') w'') w'"
      using that last [of "advance w'" s] by (simp add: same_login_def)
  qed (use that g(2,4) row in auto)
  obtain h where h: "cy_hash cy (tick (advance w)) p = Inr h" using assms(4) by blast
  have "wp (CredRepo_Save (cleared (c\<lparr>lc_PasswordHash := h\<rparr>) t)) (\<lambda>r w'. wp (case r of Inl e \<Rightarrow> fail (wrap ''auth: save credential'' e)
      | Inr _ \<Rightarrow> do { t \<leftarrow> now; r \<leftarrow> ResetRepo_Save (req\<lparr>pq_ConsumedAt := Some t\<rparr>); (case r of Inl e \<Rightarrow> fail e | Inr _ \<Rightarrow> ok ()) })
      (\<lambda>r w'. r = Inr () \<and> reset_open cy email code w') w') w1"
    if "healthy w1" "db w1 = db w" "clock w1 = clock w" for t w1
  proof (rule wp_mono [OF save [OF that]])
    fix r :: "err + LocalCredential" and w' :: world
    assume "(\<exists>x. r = Inr x) \<and> wp now (\<lambda>t w''. wp (ResetRepo_Save (req\<lparr>pq_ConsumedAt := Some t\<rparr>))
      (\<lambda>r w'. (\<exists>x. r = Inr x) \<and> reset_open cy email code w') w'') w'"
    then obtain x :: LocalCredential where r: "r = Inr x" and W: "wp (ResetRepo_Save (req\<lparr>pq_ConsumedAt := Some (clock w' (tick w'))\<rparr>))
      (\<lambda>r w'. (\<exists>x. r = Inr x) \<and> reset_open cy email code w') (advance w')" by auto
    show "wp (case r of Inl e \<Rightarrow> fail (wrap ''auth: save credential'' e)
      | Inr _ \<Rightarrow> do { t \<leftarrow> now; r \<leftarrow> ResetRepo_Save (req\<lparr>pq_ConsumedAt := Some t\<rparr>); (case r of Inl e \<Rightarrow> fail e | Inr _ \<Rightarrow> ok ()) })
      (\<lambda>r w'. r = Inr () \<and> reset_open cy email code w') w'"
      unfolding r sum.case wp_bind wp_now by (rule wp_mono [OF W]) auto
  qed (simp_all add: cleared_def g(4))
  from this [of "advance (advance (advance w))" "clock w (tick (advance (advance w)))"] show ?thesis
    using g(1) row(1) h assms(3) by (simp add: finish_reset_def CredRepo_FindByUserID_def del: wp_case_sum)
qed

lemma confirm_reset_wp:
  assumes "reset_open cy email code w" and "NormalizeEmail email \<noteq> []"
    and "PasswordPolicy_Validate cy DefaultPasswordPolicy p = None" and "\<And>t. \<exists>h. cy_hash cy t p = Inr h"
  shows "wp (ConfirmPasswordReset cy email code p) (\<lambda>r w'. r = Inr () \<and> reset_open cy email code w') w"
proof -
  obtain u req where u: "find (\<lambda>u. ToLower (ua_Email u) = ToLower (NormalizeEmail email)) (user_accounts (accounts (db w))) = Some u"
      "open_request cy (ua_ID u) code (db w) = Some req" "healthy w"
    and exp: "\<And>t n. \<forall>q \<in> set (reset_requests (accounts (db w))). pq_ConsumedAt q = None \<longrightarrow> clock w n < pq_ExpiresAt q"
    using assms(1) by (auto simp: reset_open_def)
  have "reset_open cy email code (advance (advance (advance w)))" using assms(1) by (simp add: reset_open_def)
  then have "wp (finish_reset cy u req p) (\<lambda>r w'. r = Inr () \<and> reset_open cy email code w') (advance (advance (advance w)))"
    using finish_reset_wp [of cy email code "advance (advance (advance w))" u p req] u(1) assms(3,4) by simp
  then show ?thesis
    using u assms(2) filter_open [OF exp] by (simp add: ConfirmPasswordReset_def Let_def UserRepo_FindByEmail_def ResetRepo_FindValidByUserID_def open_request_def)
qed

text \<open>A password reset code is not consumed by its use. \<open>ConfirmPasswordReset\<close> marks the request by
  \<open>Save\<close>, which only ever inserts, so the open row stays: whoever saw the code can set the password again, and
  again, until the code expires.\<close>

theorem reset_code_is_never_consumed:
  assumes "reset_open cy email code w" and "NormalizeEmail email \<noteq> []"
    and "PasswordPolicy_Validate cy DefaultPasswordPolicy p = None" and "PasswordPolicy_Validate cy DefaultPasswordPolicy p' = None"
    and "\<And>t. \<exists>h. cy_hash cy t p = Inr h" and "\<And>t. \<exists>h. cy_hash cy t p' = Inr h"
  shows "case run_state (ConfirmPasswordReset cy email code p) w of (r, w1) \<Rightarrow>
    r = Inr () \<and> (case run_state (ConfirmPasswordReset cy email code p') w1 of (r', w2) \<Rightarrow> r' = Inr () \<and> reset_open cy email code w2)"
proof -
  have "reset_open cy email code w1 \<Longrightarrow> wp (ConfirmPasswordReset cy email code p') (\<lambda>r w'. r = Inr () \<and> reset_open cy email code w') w1" for w1
    by (rule confirm_reset_wp) (use assms in auto)
  moreover have "wp (ConfirmPasswordReset cy email code p) (\<lambda>r w'. r = Inr () \<and> reset_open cy email code w') w"
    by (rule confirm_reset_wp) (use assms in auto)
  ultimately show ?thesis by (simp add: wp_def split_beta)
qed

theorem reset_code_is_never_consumed_witness:
  "fst (run_state (ConfirmPasswordReset toy_crypto ''ann@example.org'' ''123456'' ''N3wPasswd'') login_world) = Inr ()"
proof -
  have n: "NormalizeEmail ''ann@example.org'' = ''ann@example.org''"
    by (simp add: NormalizeEmail_def trim_blanks_def blank_def lower_def is_upper_def byte_def)
  have "reset_open toy_crypto ''ann@example.org'' ''123456'' login_world"
    by (simp add: reset_open_def login_world_simps creds_ok_login_world n open_request_def new_account_def new_credential_def
        CheckPassword_def toy_crypto_def order_desc_def)
  moreover have "PasswordPolicy_Validate toy_crypto DefaultPasswordPolicy ''N3wPasswd'' = None"
    by (simp add: PasswordPolicy_Validate_def DefaultPasswordPolicy_def char_types_def rune_pieces.simps rune_class_def is_lower_def
        is_upper_def is_digit_def byte_def)
  ultimately show ?thesis
    using reset_code_is_never_consumed [of toy_crypto "''ann@example.org''" "''123456''" login_world "''N3wPasswd''" "''N3wPasswd''"]
    by (auto simp: n toy_crypto_def split: prod.splits)
qed

section \<open>Completed merges\<close>

definition tokens_of :: "string \<Rightarrow> world \<Rightarrow> ApiToken list" where
  "tokens_of u w = filter (\<lambda>t. at_UserID t = u) (api_tokens (accounts (db w)))"

definition bindings_of :: "string \<Rightarrow> world \<Rightarrow> UserRoleBinding list" where
  "bindings_of u w = filter (\<lambda>b. ur_UserID b = u) (role_bindings (accounts (db w)))"

definition requests :: "world \<Rightarrow> AccountMergeRequest list" where
  "requests w = merge_requests (accounts (db w))"

lemmas merge_views = tokens_of_def bindings_of_def requests_def

lemma wp_order:
  assumes "wp m (\<lambda>r w'. r = Inr () \<longrightarrow> wp (in_order ms) Q w') w" and "\<And>e w'. Q (Inl e) w'"
  shows "wp (in_order (m # ms)) Q w"
  using assms(1) by (auto intro: wp_mono simp: assms(2) split: sum.splits elim!: wp_mono)

lemma save_each_keeps:
  assumes "\<And>x w. f w = a \<Longrightarrow> wp (save x) (\<lambda>_ w'. f w' = a) w"
  shows "f w = a \<Longrightarrow> wp (save_each save g xs) (\<lambda>_ w'. f w' = a) w"
proof (induction xs arbitrary: w)
  case (Cons x xs)
  show ?case unfolding save_each.simps wp_bind
    apply (rule wp_mono [OF assms [OF Cons.prems]])
    subgoal for r w' by (cases r) (simp_all add: Cons.IH)
    done
qed simp

lemma move_identities_wp:
  "wp (move_identities p s) (\<lambda>_ w'. (api_tokens (accounts (db w')), requests w') = (api_tokens (accounts (db w)), requests w)) w"
proof -
  have "wp (save_each (\<lambda>b. IdentityRepo_Save (b\<lparr>ib_UserID := p\<rparr>)) g xs)
      (\<lambda>_ w'. (api_tokens (accounts (db w')), requests w') = (api_tokens (accounts (db w)), requests w)) w1" if "db w1 = db w" for g xs w1
    by (rule save_each_keeps) (use that in \<open>auto simp: requests_def IdentityRepo_Save_def Let_def\<close>)
  then show ?thesis by (simp add: move_identities_def IdentityRepo_FindByUserID_def requests_def)
qed

text \<open>A token is inserted again under its own hash, which the unique index refuses.\<close>

lemma move_tokens_wp:
  "wp (move_tokens p s) (\<lambda>r w'. r = Inr () \<longrightarrow> tokens_of s w = [] \<and> requests w' = requests w) w"
proof (cases "tokens_of s w")
  case Nil
  then show ?thesis by (simp add: move_tokens_def TokenRepo_FindByUserID_def merge_views order_desc_def)
next
  case (Cons t ts)
  obtain u us where us: "order_desc at_CreatedAt (tokens_of s w) = u # us"
    using Cons by (metis set_order_desc set_empty list.exhaust list.distinct(1))
  have "u \<in> set (api_tokens (accounts (db w)))"
    using us set_order_desc [of at_CreatedAt "tokens_of s w"] by (auto simp: tokens_of_def)
  then have "list_ex (\<lambda>o'. at_TokenHash o' = at_TokenHash u) (api_tokens (accounts (db w)))" by (auto simp: list_ex_iff)
  then show ?thesis using us by (simp add: move_tokens_def TokenRepo_FindByUserID_def TokenRepo_Save_def moved_token_def merge_views Let_def)
qed

lemma move_roles_wp:
  "wp (move_roles p s) (\<lambda>r w'. r = Inr () \<longrightarrow> bindings_of s w' = [] \<and> requests w' = requests w) w"
proof -
  have saves: "wp (save_each (\<lambda>b. BindingRepo_Save \<lparr>ur_ID = 0, ur_UserID = p, ur_RoleID = ur_RoleID b, ur_CreatedAt = zero_time\<rparr>)
      g xs) (\<lambda>_ w'. requests w' = requests w) w1" if "db w1 = db w" for g xs w1
    by (rule save_each_keeps) (use that in \<open>auto simp: requests_def BindingRepo_Save_def\<close>)
  show ?thesis
    apply (simp add: move_roles_def BindingRepo_FindByUserID_def del: wp_case_sum)
    apply (intro impI, rule wp_mono [OF saves])
    by (auto simp: BindingRepo_DeleteByUserID_def bindings_of_def requests_def delete_where_def split: sum.splits)
qed

lemma move_credential_wp:
  "wp (move_credential p pc sc) (\<lambda>_ w'. bindings_of s w' = bindings_of s w \<and> requests w' = requests w) w"
  by (auto simp: move_credential_def CredRepo_Save_def Let_def merge_views split: option.splits)

lemma copy_email_wp:
  "wp (copy_email p u) (\<lambda>_ w'. bindings_of s w' = bindings_of s w \<and> requests w' = requests w) w"
  by (auto simp: copy_email_def UserRepo_Save_def Let_def merge_views split: option.splits)

definition merged_away :: "AccountMergeRequest \<Rightarrow> string \<Rightarrow> world \<Rightarrow> bool" where
  "merged_away req primaryUserID w \<longleftrightarrow>
     (\<exists>u \<in> set (user_accounts (accounts (db w))). ua_ID u = am_SecondaryUserID req \<and> ua_Status u = ''MERGED''
        \<and> ua_MergedToUserID u = Some primaryUserID)
     \<and> (\<exists>q \<in> set (requests w). am_ID q = am_ID req \<and> am_Status q = ''COMPLETED'' \<and> am_VerificationToken q = None)
     \<and> bindings_of (am_SecondaryUserID req) w = []"

lemma close_merge_wp:
  assumes "ua_ID s = am_SecondaryUserID req" and "req \<in> set (requests w)" and "bindings_of (am_SecondaryUserID req) w = []"
  shows "wp (close_merge None req p s) (\<lambda>r w'. r = Inr () \<longrightarrow> merged_away req p w') w"
proof -
  have "\<exists>q \<in> set (update_where (\<lambda>o'. am_ID o' = am_ID req) (am_overwrite (req\<lparr>am_Status := ''COMPLETED'', am_VerificationToken := None, am_CompletedAt := Some t\<rparr>))
      (merge_requests (accounts (db w)))). am_ID q = am_ID req \<and> am_Status q = ''COMPLETED'' \<and> am_VerificationToken q = None" for t
    by (rule update_where_hit [OF assms(2) [unfolded requests_def]]) (simp_all add: am_overwrite_def)
  moreover have "\<exists>u \<in> set (uat.save (s\<lparr>ua_Status := ''MERGED'', ua_MergedToUserID := Some p, ua_CreatedAt := c, ua_UpdatedAt := t\<rparr>) rows).
      ua_ID u = am_SecondaryUserID req \<and> ua_Status u = ''MERGED'' \<and> ua_MergedToUserID u = Some p" for c t rows
    by (rule bexI [OF _ uat.stored_in]) (use assms(1) in \<open>simp add: uat.key_stored uat.stored_field ua_merge_def\<close>)
  ultimately show ?thesis
    using assms(3) by (simp add: close_merge_def UserRepo_Save_def MergeRepo_Update_def Let_def merged_away_def merge_views)
qed

lemma active_userD: "active_user r = Some u \<Longrightarrow> r = Inr (Some u)"
  by (auto simp: active_user_def split: sum.splits option.splits if_splits)

lemma lookup_wp:
  assumes "\<And>r v. db v = db w \<Longrightarrow> (\<And>x. r = Inr (Some x) \<Longrightarrow> f (db w) = Some x) \<Longrightarrow> Q r v"
  shows "wp (query_row f) Q w"
  by (auto intro!: assms split: option.splits)

lemma merge_accounts_wp:
  assumes "req \<in> set (requests w)"
  shows "wp (merge_accounts None req p) (\<lambda>r w'. r = Inr () \<longrightarrow> tokens_of (am_SecondaryUserID req) w = [] \<and> merged_away req p w') w"
proof -
  let ?s = "am_SecondaryUserID req"
  define Q where "Q = (\<lambda>(r :: err + unit) w'. r = Inr () \<longrightarrow> tokens_of ?s w = [] \<and> merged_away req p w')"
  have Q: "Q (Inl e) v" for e v by (simp add: Q_def)
  have steps: "wp (in_order [move_identities p ?s, move_tokens p ?s, move_roles p ?s, move_credential p pc sc, copy_email pu u, close_merge None req p u]) Q w1"
    if "accounts (db w1) = accounts (db w)" "ua_ID u = ?s" for w1 pc sc pu u
  proof -
    have 6: "wp (in_order [close_merge None req p u]) Q v"
      if "tokens_of ?s w = []" "bindings_of ?s v = []" "requests v = requests w" for v
      by (rule wp_order [where Q = Q, OF wp_mono [OF close_merge_wp]]) (use that assms \<open>ua_ID u = ?s\<close> in \<open>auto simp: Q_def\<close>)
    have 5: "wp (in_order [copy_email pu u, close_merge None req p u]) Q v"
      if "tokens_of ?s w = []" "bindings_of ?s v = []" "requests v = requests w" for v
      by (rule wp_order [where Q = Q, OF wp_mono [OF copy_email_wp [where s = ?s]] Q]) (use that in \<open>auto intro: 6 simp del: in_order.simps\<close>)
    have 4: "wp (in_order [move_credential p pc sc, copy_email pu u, close_merge None req p u]) Q v"
      if "tokens_of ?s w = []" "bindings_of ?s v = []" "requests v = requests w" for v
      by (rule wp_order [where Q = Q, OF wp_mono [OF move_credential_wp [where s = ?s]] Q]) (use that in \<open>auto intro: 5 simp del: in_order.simps\<close>)
    have 3: "wp (in_order [move_roles p ?s, move_credential p pc sc, copy_email pu u, close_merge None req p u]) Q v"
      if "tokens_of ?s w = []" "requests v = requests w" for v
      by (rule wp_order [where Q = Q, OF wp_mono [OF move_roles_wp] Q]) (use that in \<open>auto intro: 4 simp del: in_order.simps\<close>)
    have 2: "wp (in_order [move_tokens p ?s, move_roles p ?s, move_credential p pc sc, copy_email pu u, close_merge None req p u]) Q v"
      if "tokens_of ?s v = tokens_of ?s w" "requests v = requests w" for v
      by (rule wp_order [where Q = Q, OF wp_mono [OF move_tokens_wp] Q]) (use that in \<open>auto intro: 3 simp del: in_order.simps\<close>)
    show ?thesis
      by (rule wp_order [where Q = Q, OF wp_mono [OF move_identities_wp] Q]) (use that in \<open>auto intro: 2 simp: tokens_of_def requests_def simp del: in_order.simps\<close>)
  qed
  show ?thesis
    unfolding Q_def [symmetric] merge_accounts_def UserRepo_FindByID_def CredRepo_FindByUserID_def wp_bind wp_case_option
    apply (rule lookup_wp)
    apply (simp only: wp_case_option wp_bind wp_return Q split: option.split)
    apply (intro conjI allI impI, simp)
    apply (rule lookup_wp)
    apply (simp only: wp_case_option wp_bind wp_return Q split: option.split)
    apply (intro conjI allI impI, simp)
    apply (rule lookup_wp)+
    apply (simp only: wp_if wp_return Q split: if_split)
    apply (auto dest!: active_userD find_SomeD intro!: steps simp del: in_order.simps)
    done
qed


definition merge_req :: AccountMergeRequest where
  "merge_req = \<lparr>am_ID = 9, am_PrimaryUserID = ''usr_1'', am_SecondaryUserID = ''usr_2'', am_Status = ''PENDING'',
     am_VerificationToken = Some ''htok'', am_TokenExpiresAt = None, am_CompletedAt = None, am_CreatedAt = 5\<rparr>"

definition merge_world :: world where
  "merge_world = calm True (empty_db\<lparr>accounts := no_accounts\<lparr>
     user_accounts := [new_account ''usr_1'' ''ann'' [] 5, new_account ''usr_2'' ''ann2'' ''ann@example.org'' 6],
     merge_requests := [merge_req]\<rparr>\<rparr>)"

lemma merge_world_run: "fst (run_state (ConfirmMerge toy_crypto None 9 ''usr_1'' ''tok'') merge_world) = Inr ()"
proof -
  have "wp (ConfirmMerge toy_crypto None 9 ''usr_1'' ''tok'') (\<lambda>r _. r = Inr ()) merge_world"
    by (simp add: merge_world_def ConfirmMerge_def merge_accounts_def active_user_def found_def new_account_def merge_req_def
        auth_repo_defs token_expired_def CheckPassword_def toy_crypto_def move_identities_def move_tokens_def move_roles_def
        move_credential_def copy_email_def close_merge_def no_accounts_def order_desc_def Let_def)
  then show ?thesis by (simp add: wp_def)
qed


section \<open>The driver's empty answer\<close>

text \<open>With the driver's error for an empty answer, nobody can register and no merge can be opened: the
  check that the name is free reports that error.\<close>

lemma lookup_pgx:
  assumes "\<not> nil_on_empty w"
    and "\<And>r v. db v = db w \<Longrightarrow> \<not> nil_on_empty v \<Longrightarrow> r \<noteq> Inr None \<Longrightarrow> Q r v"
  shows "wp (query_row f) Q w"
  using assms by (auto split: option.splits)

lemma register_never_with_pgx:
  assumes "\<not> nil_on_empty w"
  shows "wp (Register cy user email p) (\<lambda>r w'. (\<exists>e. r = Inl e) \<and> db w' = db w) w"
proof (cases "NormalizeUsername user")
  case (Inr nm)
  then show ?thesis unfolding Register_def CredRepo_FindByUsername_def Inr sum.case wp_bind
    by (intro lookup_pgx [OF assms]) (auto split: sum.splits option.splits)
qed (simp add: Register_def)

lemma merge_never_opened_with_pgx:
  assumes "\<not> nil_on_empty w"
  shows "wp (InitiateMerge cy p s) (\<lambda>r w'. (\<exists>e. r = Inl e) \<and> db w' = db w) w"
  unfolding InitiateMerge_def UserRepo_FindByID_def MergeRepo_FindPendingBySecondaryUserID_def wp_bind wp_case_option wp_if
  apply (rule lookup_pgx [OF assms])
  apply (simp only: wp_return wp_bind wp_case_option wp_if split: option.split)
  apply (rule conjI, simp, intro allI impI)
  apply (rule lookup_pgx, assumption)
  apply (simp only: wp_return wp_bind wp_case_option wp_if split: option.split)
  apply (rule conjI, simp, intro allI impI)
  apply (simp only: if_split, intro conjI impI, simp_all del: wp_query_row wp_case_sum)
  apply (rule lookup_pgx, assumption)
  by (auto split: sum.splits option.splits)

end
