(* ===== verification/CommunityRepo.thy ===== *)
theory CommunityRepo
  imports World GoStrings "HOL-Library.List_Lexorder" "HOL-Library.Char_ord"
begin

text \<open>
  The repositories of \<open>postgres/community_repo.go\<close>, over the tables of
  \<open>migrations/007_community.sql\<close>: primary keys, unique indexes, the \<open>CHECK\<close> lists and the
  foreign keys between the community tables (with their cascades) are checked here. A missing row is
  no error for these repositories. The \<open>INSERT\<close> statements take their id from the table's
  sequence; the \<open>UPDATE\<close> statements never write the owner or author of a row.
\<close>

definition on_community :: "(community_tables \<Rightarrow> community_tables) \<Rightarrow> database \<Rightarrow> database" where
  "on_community f d = d\<lparr>community := f (community d)\<rparr>"

lemma on_community_simps [simp]: "community (on_community f d) = f (community d)" "accounts (on_community f d) = accounts d"
    "versions (on_community f d) = versions d" "releases (on_community f d) = releases d"
  by (simp_all add: on_community_def)

text \<open>What the table definition says of a new state: a violated \<open>CHECK\<close> or reference, a violated unique index.\<close>

definition checked :: "bool \<Rightarrow> bool \<Rightarrow> 'a \<times> database \<Rightarrow> err + 'a \<times> database" where
  "checked refused clash r = (if refused then Inl DbFault else if clash then Inl UniqueViolation else Inr r)"

definition has_id :: "('r \<Rightarrow> int) \<Rightarrow> int \<Rightarrow> 'r list \<Rightarrow> bool" where
  "has_id k i rs = list_ex (\<lambda>r. k r = i) rs"

definition count_rows :: "('r \<Rightarrow> bool) \<Rightarrow> 'r list \<Rightarrow> int" where
  "count_rows p rs = int (length (filter p rs))"

text \<open>The optional filter of the list statements.\<close>

definition wanted :: "string \<Rightarrow> string \<Rightarrow> bool" where
  "wanted filt s \<longleftrightarrow> filt = [] \<or> s = filt"

section \<open>Issues\<close>

definition is_set :: "Issue \<Rightarrow> Issue \<Rightarrow> Issue" where
  "is_set new old = new\<lparr>is_ID := is_ID old, is_SkillID := is_SkillID old, is_AuthorID := is_AuthorID old, is_CreatedAt := is_CreatedAt old\<rparr>"

interpretation ist: keyed_rows is_ID is_set
  by unfold_locales (simp add: is_set_def)

definition issue_statuses :: "string set" where
  "issue_statuses = {''OPEN'', ''CLOSED''}"

definition IssueRepo_Create :: "Issue \<Rightarrow> Issue op" where
  "IssueRepo_Create i = db_insert ''skill_issue_id_seq'' (\<lambda>n d. let row = i\<lparr>is_ID := n\<rparr> in
     checked (is_Status i \<notin> issue_statuses) (has_id is_ID n (issues (community d)))
       (row, on_community (\<lambda>c. c\<lparr>issues := issues c @ [row]\<rparr>) d))"

definition IssueRepo_Update :: "Issue \<Rightarrow> Issue op" where
  "IssueRepo_Update i = db_try (\<lambda>d. checked (has_id is_ID (is_ID i) (issues (community d)) \<and> is_Status i \<notin> issue_statuses) False
     (i, on_community (\<lambda>c. c\<lparr>issues := update_where (\<lambda>r. is_ID r = is_ID i) (is_set i) (issues c)\<rparr>) d))"

definition IssueRepo_FindByID :: "int \<Rightarrow> Issue option op" where
  "IssueRepo_FindByID i = db_query (\<lambda>d. find (\<lambda>r. is_ID r = i) (issues (community d)))"

definition skill_issues :: "int \<Rightarrow> string \<Rightarrow> database \<Rightarrow> Issue list" where
  "skill_issues skill status d = filter (\<lambda>r. is_SkillID r = skill \<and> wanted status (is_Status r)) (issues (community d))"

definition IssueRepo_FindBySkillID :: "int \<Rightarrow> string \<Rightarrow> int \<Rightarrow> int \<Rightarrow> Issue list op" where
  "IssueRepo_FindBySkillID skill status offset limit = page_query limit offset (\<lambda>d. order_desc is_CreatedAt (skill_issues skill status d))"

definition IssueRepo_CountBySkillID :: "int \<Rightarrow> string \<Rightarrow> int op" where
  "IssueRepo_CountBySkillID skill status = db_query (\<lambda>d. int (length (skill_issues skill status d)))"

text \<open>The comments and labels of a deleted issue go with it.\<close>

definition IssueRepo_Delete :: "int \<Rightarrow> unit op" where
  "IssueRepo_Delete i = db_exec (\<lambda>d. ((), on_community (\<lambda>c. c\<lparr>issues := delete_where (\<lambda>r. is_ID r = i) (issues c),
     issue_comments := delete_where (\<lambda>r. ic_IssueID r = i) (issue_comments c),
     issue_labels := delete_where (\<lambda>r. il_IssueID r = i) (issue_labels c)\<rparr>) d))"

definition ic_set :: "IssueComment \<Rightarrow> IssueComment \<Rightarrow> IssueComment" where
  "ic_set new old = old\<lparr>ic_Body := ic_Body new, ic_UpdatedAt := ic_UpdatedAt new\<rparr>"

interpretation ict: keyed_rows ic_ID ic_set
  by unfold_locales (simp add: ic_set_def)

definition IssueCommentRepo_Create :: "IssueComment \<Rightarrow> IssueComment op" where
  "IssueCommentRepo_Create m = db_insert ''skill_issue_comment_id_seq'' (\<lambda>n d. let row = m\<lparr>ic_ID := n\<rparr> in
     checked (\<not> has_id is_ID (ic_IssueID m) (issues (community d))) (has_id ic_ID n (issue_comments (community d)))
       (row, on_community (\<lambda>c. c\<lparr>issue_comments := issue_comments c @ [row]\<rparr>) d))"

definition IssueCommentRepo_Update :: "IssueComment \<Rightarrow> IssueComment op" where
  "IssueCommentRepo_Update m = db_exec (\<lambda>d. (m,
     on_community (\<lambda>c. c\<lparr>issue_comments := update_where (\<lambda>r. ic_ID r = ic_ID m) (ic_set m) (issue_comments c)\<rparr>) d))"

definition IssueCommentRepo_FindByIssueID :: "int \<Rightarrow> IssueComment list op" where
  "IssueCommentRepo_FindByIssueID i = db_query (\<lambda>d. sort_key ic_CreatedAt (filter (\<lambda>r. ic_IssueID r = i) (issue_comments (community d))))"

definition IssueCommentRepo_Delete :: "int \<Rightarrow> unit op" where
  "IssueCommentRepo_Delete i = db_exec (\<lambda>d. ((),
     on_community (\<lambda>c. c\<lparr>issue_comments := delete_where (\<lambda>r. ic_ID r = i) (issue_comments c)\<rparr>) d))"

section \<open>Discussions\<close>

definition ds_set :: "Discussion \<Rightarrow> Discussion \<Rightarrow> Discussion" where
  "ds_set new old = new\<lparr>ds_ID := ds_ID old, ds_SkillID := ds_SkillID old, ds_AuthorID := ds_AuthorID old, ds_CreatedAt := ds_CreatedAt old\<rparr>"

interpretation dst: keyed_rows ds_ID ds_set
  by unfold_locales (simp add: ds_set_def)

definition discussion_categories :: "string set" where
  "discussion_categories = {''GENERAL'', ''QA'', ''IDEAS'', ''ANNOUNCEMENTS''}"

definition answer_missing :: "Discussion \<Rightarrow> DiscussionComment list \<Rightarrow> bool" where
  "answer_missing x cs \<longleftrightarrow> (case ds_AcceptedAnswerID x of None \<Rightarrow> False | Some a \<Rightarrow> \<not> has_id dc_ID a cs)"

definition DiscussionRepo_Create :: "Discussion \<Rightarrow> Discussion op" where
  "DiscussionRepo_Create x = db_insert ''skill_discussion_id_seq'' (\<lambda>n d. let row = x\<lparr>ds_ID := n\<rparr> in
     checked (ds_Category x \<notin> discussion_categories \<or> answer_missing x (discussion_comments (community d)))
       (has_id ds_ID n (discussions (community d)))
       (row, on_community (\<lambda>c. c\<lparr>discussions := discussions c @ [row]\<rparr>) d))"

definition DiscussionRepo_Update :: "Discussion \<Rightarrow> Discussion op" where
  "DiscussionRepo_Update x = db_try (\<lambda>d. checked (has_id ds_ID (ds_ID x) (discussions (community d))
       \<and> (ds_Category x \<notin> discussion_categories \<or> answer_missing x (discussion_comments (community d)))) False
     (x, on_community (\<lambda>c. c\<lparr>discussions := update_where (\<lambda>r. ds_ID r = ds_ID x) (ds_set x) (discussions c)\<rparr>) d))"

definition DiscussionRepo_FindByID :: "int \<Rightarrow> Discussion option op" where
  "DiscussionRepo_FindByID i = db_query (\<lambda>d. find (\<lambda>r. ds_ID r = i) (discussions (community d)))"

definition skill_discussions :: "int \<Rightarrow> string \<Rightarrow> database \<Rightarrow> Discussion list" where
  "skill_discussions skill cat d = filter (\<lambda>r. ds_SkillID r = skill \<and> wanted cat (ds_Category r)) (discussions (community d))"

text \<open>Pinned discussions first, then the newest.\<close>

definition pinned_first :: "Discussion list \<Rightarrow> Discussion list" where
  "pinned_first rs = (let s = order_desc ds_CreatedAt rs in filter ds_Pinned s @ filter (\<lambda>r. \<not> ds_Pinned r) s)"

definition DiscussionRepo_FindBySkillID :: "int \<Rightarrow> string \<Rightarrow> int \<Rightarrow> int \<Rightarrow> Discussion list op" where
  "DiscussionRepo_FindBySkillID skill cat offset limit = page_query limit offset (\<lambda>d. pinned_first (skill_discussions skill cat d))"

definition DiscussionRepo_CountBySkillID :: "int \<Rightarrow> string \<Rightarrow> int op" where
  "DiscussionRepo_CountBySkillID skill cat = db_query (\<lambda>d. int (length (skill_discussions skill cat d)))"

text \<open>A comment of the discussion that another discussion has accepted keeps both from being deleted.\<close>

definition DiscussionRepo_Delete :: "int \<Rightarrow> unit op" where
  "DiscussionRepo_Delete i = db_try (\<lambda>d. let cs = delete_where (\<lambda>r. dc_DiscussionID r = i) (discussion_comments (community d)) in
     checked (list_ex (\<lambda>x. ds_ID x \<noteq> i \<and> answer_missing x cs) (discussions (community d))) False
       ((), on_community (\<lambda>c. c\<lparr>discussions := delete_where (\<lambda>r. ds_ID r = i) (discussions c), discussion_comments := cs,
         discussion_labels := delete_where (\<lambda>r. dbl_DiscussionID r = i) (discussion_labels c)\<rparr>) d))"

definition dc_set :: "DiscussionComment \<Rightarrow> DiscussionComment \<Rightarrow> DiscussionComment" where
  "dc_set new old = old\<lparr>dc_Body := dc_Body new, dc_IsAnswer := dc_IsAnswer new, dc_UpdatedAt := dc_UpdatedAt new\<rparr>"

interpretation dct: keyed_rows dc_ID dc_set
  by unfold_locales (simp add: dc_set_def)

definition DiscCommentRepo_Create :: "DiscussionComment \<Rightarrow> DiscussionComment op" where
  "DiscCommentRepo_Create m = db_insert ''skill_discussion_comment_id_seq'' (\<lambda>n d. let row = m\<lparr>dc_ID := n\<rparr> in
     checked (\<not> has_id ds_ID (dc_DiscussionID m) (discussions (community d))) (has_id dc_ID n (discussion_comments (community d)))
       (row, on_community (\<lambda>c. c\<lparr>discussion_comments := discussion_comments c @ [row]\<rparr>) d))"

definition DiscCommentRepo_Update :: "DiscussionComment \<Rightarrow> DiscussionComment op" where
  "DiscCommentRepo_Update m = db_exec (\<lambda>d. (m,
     on_community (\<lambda>c. c\<lparr>discussion_comments := update_where (\<lambda>r. dc_ID r = dc_ID m) (dc_set m) (discussion_comments c)\<rparr>) d))"

definition DiscCommentRepo_FindByDiscussionID :: "int \<Rightarrow> DiscussionComment list op" where
  "DiscCommentRepo_FindByDiscussionID i =
     db_query (\<lambda>d. sort_key dc_CreatedAt (filter (\<lambda>r. dc_DiscussionID r = i) (discussion_comments (community d))))"

definition DiscCommentRepo_Delete :: "int \<Rightarrow> unit op" where
  "DiscCommentRepo_Delete i = db_try (\<lambda>d. checked (list_ex (\<lambda>x. ds_AcceptedAnswerID x = Some i) (discussions (community d))) False
     ((), on_community (\<lambda>c. c\<lparr>discussion_comments := delete_where (\<lambda>r. dc_ID r = i) (discussion_comments c)\<rparr>) d))"

section \<open>Wiki pages\<close>

definition wk_set :: "WikiPage \<Rightarrow> WikiPage \<Rightarrow> WikiPage" where
  "wk_set new old = new\<lparr>wk_ID := wk_ID old, wk_SkillID := wk_SkillID old, wk_AuthorID := wk_AuthorID old, wk_CreatedAt := wk_CreatedAt old\<rparr>"

interpretation wkt: keyed_rows wk_ID wk_set
  by unfold_locales (simp add: wk_set_def)

definition slug_taken :: "int \<Rightarrow> string \<Rightarrow> int \<Rightarrow> WikiPage list \<Rightarrow> bool" where
  "slug_taken skill slug except rs = list_ex (\<lambda>r. wk_SkillID r = skill \<and> wk_Slug r = slug \<and> wk_ID r \<noteq> except) rs"

definition version_missing :: "WikiPage \<Rightarrow> WikiPageVersion list \<Rightarrow> bool" where
  "version_missing p vs \<longleftrightarrow> (case wk_CurrentVersionID p of None \<Rightarrow> False | Some v \<Rightarrow> \<not> has_id wv_ID v vs)"

definition WikiPageRepo_Create :: "WikiPage \<Rightarrow> WikiPage op" where
  "WikiPageRepo_Create p = db_insert ''skill_wiki_page_id_seq'' (\<lambda>n d. let row = p\<lparr>wk_ID := n\<rparr> in
     checked (version_missing p (wiki_versions (community d)))
       (has_id wk_ID n (wiki_pages (community d)) \<or> slug_taken (wk_SkillID p) (wk_Slug p) n (wiki_pages (community d)))
       (row, on_community (\<lambda>c. c\<lparr>wiki_pages := wiki_pages c @ [row]\<rparr>) d))"

definition WikiPageRepo_Update :: "WikiPage \<Rightarrow> WikiPage op" where
  "WikiPageRepo_Update p = db_try (\<lambda>d. checked (has_id wk_ID (wk_ID p) (wiki_pages (community d)) \<and> version_missing p (wiki_versions (community d)))
     (list_ex (\<lambda>r. wk_ID r = wk_ID p \<and> slug_taken (wk_SkillID r) (wk_Slug p) (wk_ID p) (wiki_pages (community d))) (wiki_pages (community d)))
     (p, on_community (\<lambda>c. c\<lparr>wiki_pages := update_where (\<lambda>r. wk_ID r = wk_ID p) (wk_set p) (wiki_pages c)\<rparr>) d))"

definition WikiPageRepo_FindByID :: "int \<Rightarrow> WikiPage option op" where
  "WikiPageRepo_FindByID i = db_query (\<lambda>d. find (\<lambda>r. wk_ID r = i) (wiki_pages (community d)))"

definition WikiPageRepo_FindBySkillIDAndSlug :: "int \<Rightarrow> string \<Rightarrow> WikiPage option op" where
  "WikiPageRepo_FindBySkillIDAndSlug skill slug = db_query (\<lambda>d. find (\<lambda>r. wk_SkillID r = skill \<and> wk_Slug r = slug) (wiki_pages (community d)))"

definition WikiPageRepo_ListBySkillID :: "int \<Rightarrow> WikiPage list op" where
  "WikiPageRepo_ListBySkillID skill = db_query (\<lambda>d. sort_key wk_OrderIndex (filter (\<lambda>r. wk_SkillID r = skill) (wiki_pages (community d))))"

definition WikiPageRepo_Delete :: "int \<Rightarrow> unit op" where
  "WikiPageRepo_Delete i = db_try (\<lambda>d. let vs = delete_where (\<lambda>v. wv_PageID v = i) (wiki_versions (community d)) in
     checked (list_ex (\<lambda>p. wk_ID p \<noteq> i \<and> version_missing p vs) (wiki_pages (community d))) False
       ((), on_community (\<lambda>c. c\<lparr>wiki_pages := delete_where (\<lambda>r. wk_ID r = i) (wiki_pages c), wiki_versions := vs\<rparr>) d))"

definition WikiVersionRepo_Create :: "WikiPageVersion \<Rightarrow> WikiPageVersion op" where
  "WikiVersionRepo_Create v = db_insert ''skill_wiki_page_version_id_seq'' (\<lambda>n d. let row = v\<lparr>wv_ID := n\<rparr> in
     checked (\<not> has_id wk_ID (wv_PageID v) (wiki_pages (community d))) (has_id wv_ID n (wiki_versions (community d)))
       (row, on_community (\<lambda>c. c\<lparr>wiki_versions := wiki_versions c @ [row]\<rparr>) d))"

definition WikiVersionRepo_FindByPageID :: "int \<Rightarrow> WikiPageVersion list op" where
  "WikiVersionRepo_FindByPageID i = db_query (\<lambda>d. order_desc wv_Version (filter (\<lambda>v. wv_PageID v = i) (wiki_versions (community d))))"

section \<open>Change proposals\<close>

definition cp_set :: "ChangeProposal \<Rightarrow> ChangeProposal \<Rightarrow> ChangeProposal" where
  "cp_set new old = new\<lparr>cp_ID := cp_ID old, cp_SkillID := cp_SkillID old, cp_AuthorID := cp_AuthorID old, cp_CreatedAt := cp_CreatedAt old\<rparr>"

interpretation cpt: keyed_rows cp_ID cp_set
  by unfold_locales (simp add: cp_set_def)

definition proposal_statuses :: "string set" where
  "proposal_statuses = {''OPEN'', ''ACCEPTED'', ''REJECTED'', ''WITHDRAWN''}"

definition ProposalRepo_Create :: "ChangeProposal \<Rightarrow> ChangeProposal op" where
  "ProposalRepo_Create p = db_insert ''skill_change_proposal_id_seq'' (\<lambda>n d. let row = p\<lparr>cp_ID := n\<rparr> in
     checked (cp_Status p \<notin> proposal_statuses) (has_id cp_ID n (proposals (community d)))
       (row, on_community (\<lambda>c. c\<lparr>proposals := proposals c @ [row]\<rparr>) d))"

definition ProposalRepo_Update :: "ChangeProposal \<Rightarrow> ChangeProposal op" where
  "ProposalRepo_Update p = db_try (\<lambda>d. checked (has_id cp_ID (cp_ID p) (proposals (community d)) \<and> cp_Status p \<notin> proposal_statuses) False
     (p, on_community (\<lambda>c. c\<lparr>proposals := update_where (\<lambda>r. cp_ID r = cp_ID p) (cp_set p) (proposals c)\<rparr>) d))"

definition ProposalRepo_FindByID :: "int \<Rightarrow> ChangeProposal option op" where
  "ProposalRepo_FindByID i = db_query (\<lambda>d. find (\<lambda>r. cp_ID r = i) (proposals (community d)))"

definition skill_proposals :: "int \<Rightarrow> string \<Rightarrow> database \<Rightarrow> ChangeProposal list" where
  "skill_proposals skill status d = filter (\<lambda>r. cp_SkillID r = skill \<and> wanted status (cp_Status r)) (proposals (community d))"

definition ProposalRepo_FindBySkillID :: "int \<Rightarrow> string \<Rightarrow> int \<Rightarrow> int \<Rightarrow> ChangeProposal list op" where
  "ProposalRepo_FindBySkillID skill status offset limit = page_query limit offset (\<lambda>d. order_desc cp_CreatedAt (skill_proposals skill status d))"

definition ProposalRepo_CountBySkillID :: "int \<Rightarrow> string \<Rightarrow> int op" where
  "ProposalRepo_CountBySkillID skill status = db_query (\<lambda>d. int (length (skill_proposals skill status d)))"

definition ProposalRepo_Delete :: "int \<Rightarrow> unit op" where
  "ProposalRepo_Delete i = db_exec (\<lambda>d. ((), on_community (\<lambda>c. c\<lparr>proposals := delete_where (\<lambda>r. cp_ID r = i) (proposals c),
     proposal_comments := delete_where (\<lambda>r. cc_ProposalID r = i) (proposal_comments c)\<rparr>) d))"

definition ProposalCommentRepo_Create :: "ChangeProposalComment \<Rightarrow> ChangeProposalComment op" where
  "ProposalCommentRepo_Create m = db_insert ''skill_change_proposal_comment_id_seq'' (\<lambda>n d. let row = m\<lparr>cc_ID := n\<rparr> in
     checked (\<not> has_id cp_ID (cc_ProposalID m) (proposals (community d))) (has_id cc_ID n (proposal_comments (community d)))
       (row, on_community (\<lambda>c. c\<lparr>proposal_comments := proposal_comments c @ [row]\<rparr>) d))"

definition ProposalCommentRepo_FindByProposalID :: "int \<Rightarrow> ChangeProposalComment list op" where
  "ProposalCommentRepo_FindByProposalID i =
     db_query (\<lambda>d. sort_key cc_CreatedAt (filter (\<lambda>r. cc_ProposalID r = i) (proposal_comments (community d))))"

section \<open>Labels\<close>

text \<open>\<open>ON CONFLICT DO NOTHING\<close>: a label that is there already is answered with the value passed in, id and all.\<close>

definition IssueLabelRepo_Add :: "IssueLabel \<Rightarrow> IssueLabel op" where
  "IssueLabelRepo_Add l = db_insert ''issue_label_id_seq'' (\<lambda>n d. let row = l\<lparr>il_ID := n\<rparr>; rows = issue_labels (community d) in
     if list_ex (\<lambda>r. il_IssueID r = il_IssueID l \<and> il_LabelID r = il_LabelID l) rows then Inr (l, d)
     else checked (\<not> has_id is_ID (il_IssueID l) (issues (community d))) (has_id il_ID n rows)
       (row, on_community (\<lambda>c. c\<lparr>issue_labels := rows @ [row]\<rparr>) d))"

definition IssueLabelRepo_Remove :: "int \<Rightarrow> int \<Rightarrow> unit op" where
  "IssueLabelRepo_Remove issueID labelID = db_exec (\<lambda>d. ((),
     on_community (\<lambda>c. c\<lparr>issue_labels := delete_where (\<lambda>r. il_IssueID r = issueID \<and> il_LabelID r = labelID) (issue_labels c)\<rparr>) d))"

definition IssueLabelRepo_FindByIssueID :: "int \<Rightarrow> IssueLabel list op" where
  "IssueLabelRepo_FindByIssueID i = db_query (\<lambda>d. filter (\<lambda>r. il_IssueID r = i) (issue_labels (community d)))"

definition DiscussionLabelRepo_Add :: "DiscussionLabel \<Rightarrow> DiscussionLabel op" where
  "DiscussionLabelRepo_Add l = db_insert ''discussion_label_id_seq'' (\<lambda>n d. let row = l\<lparr>dbl_ID := n\<rparr>; rows = discussion_labels (community d) in
     if list_ex (\<lambda>r. dbl_DiscussionID r = dbl_DiscussionID l \<and> dbl_LabelID r = dbl_LabelID l) rows then Inr (l, d)
     else checked (\<not> has_id ds_ID (dbl_DiscussionID l) (discussions (community d))) (has_id dbl_ID n rows)
       (row, on_community (\<lambda>c. c\<lparr>discussion_labels := rows @ [row]\<rparr>) d))"

definition DiscussionLabelRepo_Remove :: "int \<Rightarrow> int \<Rightarrow> unit op" where
  "DiscussionLabelRepo_Remove discussionID labelID = db_exec (\<lambda>d. ((),
     on_community (\<lambda>c. c\<lparr>discussion_labels := delete_where (\<lambda>r. dbl_DiscussionID r = discussionID \<and> dbl_LabelID r = labelID) (discussion_labels c)\<rparr>) d))"

definition DiscussionLabelRepo_FindByDiscussionID :: "int \<Rightarrow> DiscussionLabel list op" where
  "DiscussionLabelRepo_FindByDiscussionID i = db_query (\<lambda>d. filter (\<lambda>r. dbl_DiscussionID r = i) (discussion_labels (community d)))"

section \<open>Reports\<close>

definition report_objects :: "string set" where
  "report_objects = {''ISSUE'', ''DISCUSSION'', ''COMMENT'', ''WIKI_PAGE''}"

definition cmr_set :: "CommunityReport \<Rightarrow> CommunityReport \<Rightarrow> CommunityReport" where
  "cmr_set new old = old\<lparr>cmr_Status := cmr_Status new, cmr_HandledBy := cmr_HandledBy new, cmr_HandleComment := cmr_HandleComment new,
     cmr_HandledAt := cmr_HandledAt new\<rparr>"

interpretation cmrt: keyed_rows cmr_ID cmr_set
  by unfold_locales (simp add: cmr_set_def)

text \<open>The columns of the handling are not among those inserted.\<close>

definition ReportRepo_Create :: "CommunityReport \<Rightarrow> CommunityReport op" where
  "ReportRepo_Create p = db_insert ''community_report_id_seq'' (\<lambda>n d.
     checked (cmr_ObjectType p \<notin> report_objects) (has_id cmr_ID n (community_reports (community d)))
       (p\<lparr>cmr_ID := n\<rparr>, on_community (\<lambda>c. c\<lparr>community_reports := community_reports c
          @ [p\<lparr>cmr_ID := n, cmr_HandledBy := None, cmr_HandleComment := [], cmr_HandledAt := None\<rparr>]\<rparr>) d))"

definition ReportRepo_Update :: "CommunityReport \<Rightarrow> CommunityReport op" where
  "ReportRepo_Update p = db_exec (\<lambda>d. (p,
     on_community (\<lambda>c. c\<lparr>community_reports := update_where (\<lambda>r. cmr_ID r = cmr_ID p) (cmr_set p) (community_reports c)\<rparr>) d))"

definition ReportRepo_FindByID :: "int \<Rightarrow> CommunityReport option op" where
  "ReportRepo_FindByID i = db_query (\<lambda>d. find (\<lambda>r. cmr_ID r = i) (community_reports (community d)))"

definition status_reports :: "string \<Rightarrow> database \<Rightarrow> CommunityReport list" where
  "status_reports status d = filter (\<lambda>r. wanted status (cmr_Status r)) (community_reports (community d))"

definition ReportRepo_FindByStatus :: "string \<Rightarrow> int \<Rightarrow> int \<Rightarrow> CommunityReport list op" where
  "ReportRepo_FindByStatus status offset limit = page_query limit offset (\<lambda>d. order_desc cmr_CreatedAt (status_reports status d))"

definition ReportRepo_CountByStatus :: "string \<Rightarrow> int op" where
  "ReportRepo_CountByStatus status = db_query (\<lambda>d. int (length (status_reports status d)))"

definition ReportRepo_FindByObject :: "string \<Rightarrow> int \<Rightarrow> CommunityReport list op" where
  "ReportRepo_FindByObject ty i = db_query (\<lambda>d. order_desc cmr_CreatedAt
     (filter (\<lambda>r. cmr_ObjectType r = ty \<and> cmr_ObjectID r = i) (community_reports (community d))))"

section \<open>Lookups of versions and releases\<close>

record VersionRef =
  vref_ID :: int
  vref_SkillID :: int

record ReleaseRef =
  rref_ID :: int
  rref_SkillID :: int

definition CommunityVersionLookup_FindByID :: "int \<Rightarrow> VersionRef option op" where
  "CommunityVersionLookup_FindByID i =
     db_query (\<lambda>d. map_option (\<lambda>v. \<lparr>vref_ID = sv_ID v, vref_SkillID = sv_SkillID v\<rparr>) (find (\<lambda>v. sv_ID v = i) (versions d)))"

definition CommunityReleaseLookup_FindByID :: "int \<Rightarrow> ReleaseRef option op" where
  "CommunityReleaseLookup_FindByID i =
     db_query (\<lambda>d. map_option (\<lambda>r. \<lparr>rref_ID = rel_ID r, rref_SkillID = rel_SkillID r\<rparr>) (find (\<lambda>r. rel_ID r = i) (releases d)))"

section \<open>Search\<close>

record SearchResultItem =
  sri_Type :: string
  sri_ID :: int
  sri_SkillID :: int
  sri_Title :: string
  sri_Snippet :: string

text \<open>\<open>LIKE\<close> patterns: a percent sign matches any text, an underscore one character, a backslash quotes the next one.\<close>

fun like :: "string \<Rightarrow> string \<Rightarrow> bool" where
  "like [] s = (s = [])"
| "like (p # ps) s =
     (if p = CHR ''%'' then like ps s \<or> (case s of [] \<Rightarrow> False | _ # t \<Rightarrow> like (p # ps) t)
      else if p = CHR ''_'' then (case s of [] \<Rightarrow> False | _ # t \<Rightarrow> like ps t)
      else if p = CHR 0x5C then (case (ps, s) of (q # qs, c # t) \<Rightarrow> q = c \<and> like qs t | _ \<Rightarrow> False)
      else (case s of [] \<Rightarrow> False | c # t \<Rightarrow> p = c \<and> like ps t))"

definition ilike_part :: "string \<Rightarrow> string \<Rightarrow> bool" where
  "ilike_part q s = like (''%'' @ ToLower q @ ''%'') (ToLower s)"

definition useTable :: "string list \<Rightarrow> string \<Rightarrow> bool" where
  "useTable types t \<longleftrightarrow> types = [] \<or> t \<in> set types"

definition page_body :: "database \<Rightarrow> WikiPage \<Rightarrow> string option" where
  "page_body d p = (case wk_CurrentVersionID p of
     None \<Rightarrow> None
   | Some v \<Rightarrow> map_option wv_Body (find (\<lambda>x. wv_ID x = v) (wiki_versions (community d))))"

definition hit :: "string \<Rightarrow> string \<Rightarrow> string option \<Rightarrow> bool" where
  "hit q title body \<longleftrightarrow> ilike_part q title \<or> (case body of None \<Rightarrow> False | Some b \<Rightarrow> ilike_part q b)"

text \<open>The branches of the \<open>UNION ALL\<close>, by table: each takes the empty query for every row.\<close>

definition search_parts :: "int \<Rightarrow> string \<Rightarrow> database \<Rightarrow> (string \<times> SearchResultItem list) list" where
  "search_parts skill q d = (let item = (\<lambda>t i sk ti b. \<lparr>sri_Type = t, sri_ID = i, sri_SkillID = sk, sri_Title = ti, sri_Snippet = b\<rparr>) in
     [(''ISSUE'', map (\<lambda>r. item ''ISSUE'' (is_ID r) (is_SkillID r) (is_Title r) (is_Body r))
        (filter (\<lambda>r. is_SkillID r = skill \<and> (q = [] \<or> hit q (is_Title r) (Some (is_Body r)))) (issues (community d)))),
      (''DISCUSSION'', map (\<lambda>r. item ''DISCUSSION'' (ds_ID r) (ds_SkillID r) (ds_Title r) (ds_Body r))
        (filter (\<lambda>r. ds_SkillID r = skill \<and> (q = [] \<or> hit q (ds_Title r) (Some (ds_Body r)))) (discussions (community d)))),
      (''WIKI_PAGE'', map (\<lambda>r. item ''WIKI_PAGE'' (wk_ID r) (wk_SkillID r) (wk_Title r) (case page_body d r of None \<Rightarrow> [] | Some b \<Rightarrow> b))
        (filter (\<lambda>r. wk_SkillID r = skill \<and> (q = [] \<or> hit q (wk_Title r) (page_body d r))) (wiki_pages (community d)))),
      (''PROPOSAL'', map (\<lambda>r. item ''PROPOSAL'' (cp_ID r) (cp_SkillID r) (cp_Title r) (cp_Summary r))
        (filter (\<lambda>r. cp_SkillID r = skill \<and> (q = [] \<or> hit q (cp_Title r) (Some (cp_Summary r)))) (proposals (community d))))])"

definition search_rows :: "int \<Rightarrow> string \<Rightarrow> string list \<Rightarrow> database \<Rightarrow> SearchResultItem list" where
  "search_rows skill q types d = concat (map snd (filter (\<lambda>(t, _). useTable types t) (search_parts skill q d)))"

text \<open>\<open>ORDER BY type, title\<close>, byte by byte. Without a table no statement is sent.\<close>

definition Search_hits :: "int \<Rightarrow> string \<Rightarrow> string list \<Rightarrow> int \<Rightarrow> int \<Rightarrow> SearchResultItem list op" where
  "Search_hits skill q types offset limit =
     (if \<not> list_ex (useTable types) [''ISSUE'', ''DISCUSSION'', ''WIKI_PAGE'', ''PROPOSAL''] then ok []
      else page_query limit offset (\<lambda>d. sort_key sri_Type (sort_key sri_Title (search_rows skill q types d))))"

text \<open>One \<open>COUNT\<close> per table, with a statement of its own for the empty query.\<close>

definition count_queries :: "int \<Rightarrow> string \<Rightarrow> (string \<times> (database \<Rightarrow> int)) list" where
  "count_queries skill q =
     [(''ISSUE'', \<lambda>d. if q = [] then count_rows (\<lambda>r. is_SkillID r = skill) (issues (community d))
        else count_rows (\<lambda>r. is_SkillID r = skill \<and> hit q (is_Title r) (Some (is_Body r))) (issues (community d))),
      (''DISCUSSION'', \<lambda>d. if q = [] then count_rows (\<lambda>r. ds_SkillID r = skill) (discussions (community d))
        else count_rows (\<lambda>r. ds_SkillID r = skill \<and> hit q (ds_Title r) (Some (ds_Body r))) (discussions (community d))),
      (''WIKI_PAGE'', \<lambda>d. if q = [] then count_rows (\<lambda>r. wk_SkillID r = skill) (wiki_pages (community d))
        else count_rows (\<lambda>r. wk_SkillID r = skill \<and> hit q (wk_Title r) (page_body d r)) (wiki_pages (community d))),
      (''PROPOSAL'', \<lambda>d. if q = [] then count_rows (\<lambda>r. cp_SkillID r = skill) (proposals (community d))
        else count_rows (\<lambda>r. cp_SkillID r = skill \<and> hit q (cp_Title r) (Some (cp_Summary r))) (proposals (community d)))]"

fun add_counts :: "(string \<times> (database \<Rightarrow> int)) list \<Rightarrow> int \<Rightarrow> int op" where
  "add_counts [] acc = ok acc"
| "add_counts ((t, f) # qs) acc = do {
     r \<leftarrow> db_query f;
     (case r of
       Inl e \<Rightarrow> fail (Wrapf ''community search count (%s)'' [AStr t] e)
     | Inr n \<Rightarrow> add_counts qs (acc + n)) }"

definition Search_count :: "int \<Rightarrow> string \<Rightarrow> string list \<Rightarrow> int op" where
  "Search_count skill q types = add_counts (filter (\<lambda>(t, _). useTable types t) (count_queries skill q)) 0"

lemmas community_reads =
  IssueRepo_FindByID_def IssueRepo_FindBySkillID_def IssueRepo_CountBySkillID_def IssueCommentRepo_FindByIssueID_def
  DiscussionRepo_FindByID_def DiscussionRepo_FindBySkillID_def DiscussionRepo_CountBySkillID_def DiscCommentRepo_FindByDiscussionID_def
  WikiPageRepo_FindByID_def WikiPageRepo_FindBySkillIDAndSlug_def WikiPageRepo_ListBySkillID_def WikiVersionRepo_FindByPageID_def
  ProposalRepo_FindByID_def ProposalRepo_FindBySkillID_def ProposalRepo_CountBySkillID_def ProposalCommentRepo_FindByProposalID_def
  IssueLabelRepo_FindByIssueID_def DiscussionLabelRepo_FindByDiscussionID_def
  ReportRepo_FindByID_def ReportRepo_FindByStatus_def ReportRepo_CountByStatus_def ReportRepo_FindByObject_def
  CommunityVersionLookup_FindByID_def CommunityReleaseLookup_FindByID_def

end
