(* ===== verification/Calls.thy ===== *)
theory Calls
  imports World
begin

text \<open>
  How the later services call what they use: a row that has to be there, an error wrapped in a
  message and passed on, and the next step after a call that succeeded.
\<close>

text \<open>A row that has to be there.\<close>

definition find_or :: "string \<Rightarrow> err \<Rightarrow> 'r option op \<Rightarrow> 'r op" where
  "find_or msg missing m = do {
     r \<leftarrow> m;
     (case r of
       Inl e \<Rightarrow> fail (wrap msg e)
     | Inr None \<Rightarrow> fail missing
     | Inr (Some x) \<Rightarrow> ok x) }"

definition wrapped :: "string \<Rightarrow> 'a op \<Rightarrow> 'a op" where
  "wrapped msg m = do { r \<leftarrow> m; (case r of Inl e \<Rightarrow> fail (wrap msg e) | Inr x \<Rightarrow> ok x) }"

definition and_then :: "'a op \<Rightarrow> ('a \<Rightarrow> 'b op) \<Rightarrow> 'b op" where
  "and_then m k = do { r \<leftarrow> m; (case r of Inl e \<Rightarrow> fail e | Inr x \<Rightarrow> k x) }"

lemma wp_and_then [simp]:
  "wp (and_then m k) Q w = wp m (\<lambda>r w'. case r of Inl e \<Rightarrow> Q (Inl e) w' | Inr x \<Rightarrow> wp (k x) Q w') w"
  by (simp add: wp_def and_then_def split_beta split: sum.splits)

lemma wp_wrapped [simp]: "wp (wrapped msg m) Q w = wp m (\<lambda>r w'. case r of Inl e \<Rightarrow> Q (Inl (wrap msg e)) w' | Inr x \<Rightarrow> Q (Inr x) w') w"
  by (simp add: wp_def wrapped_def split_beta split: sum.splits)

lemma wp_find_or [simp]:
  "wp (find_or msg missing m) Q w = wp m (\<lambda>r w'. case r of Inl e \<Rightarrow> Q (Inl (wrap msg e)) w'
     | Inr None \<Rightarrow> Q (Inl missing) w' | Inr (Some x) \<Rightarrow> Q (Inr x) w') w"
  by (simp add: wp_def find_or_def split_beta split: sum.splits option.splits)

lemma keeps_and_then [keeps_intros]: "keeps I m \<Longrightarrow> (\<And>x. keeps I (k x)) \<Longrightarrow> keeps I (and_then m k)"
  unfolding and_then_def by (intro keeps_intros) auto

lemma keeps_wrapped [keeps_intros]: "keeps I m \<Longrightarrow> keeps I (wrapped msg m)"
  unfolding wrapped_def by (intro keeps_intros) auto

lemma keeps_find_or [keeps_intros]: "keeps I m \<Longrightarrow> keeps I (find_or msg e m)"
  unfolding find_or_def by (intro keeps_intros) auto

end
