(* ===== verification/Community.thy ===== *)
theory Community
  imports CommunityRepo Calls
begin

text \<open>
  \<open>sdk/skillhub/community/service.go\<close>: issues, discussions with accepted answers, wiki pages with
  their versions, change proposals, labels, reports and search. The lookups, the event publisher, the
  audit recorder and the search repository are optional collaborators, in \<open>community_deps\<close>;
  neither the publisher nor the recorder returns an error.
\<close>

section \<open>Viewers and dependencies\<close>

record Viewer =
  vw_UserID :: string
  vw_PlatformRoles :: "string \<rightharpoonup> bool"
  vw_NamespaceRoles :: "int \<rightharpoonup> string"

definition HasPlatformRole :: "Viewer \<Rightarrow> string \<Rightarrow> bool" where
  "HasPlatformRole v r = (vw_PlatformRoles v r = Some True)"

definition NamespaceRole :: "Viewer \<Rightarrow> int \<Rightarrow> string" where
  "NamespaceRole v n = (case vw_NamespaceRoles v n of None \<Rightarrow> [] | Some r \<Rightarrow> r)"

type_synonym community_event = "string \<times> (string \<times> arg) list"
type_synonym community_audit = "string \<times> string \<times> string \<times> int \<times> string"

record community_deps =
  cd_versions :: "(int \<Rightarrow> VersionRef option op) option"
  cd_releases :: "(int \<Rightarrow> ReleaseRef option op) option"
  cd_events :: "(community_event \<Rightarrow> unit op) option"
  cd_audit :: "(community_audit \<Rightarrow> unit op) option"
  cd_search :: bool

definition isSuperAdmin :: "Viewer \<Rightarrow> bool" where
  "isSuperAdmin v = HasPlatformRole v ''SUPER_ADMIN''"

definition isAuthorOrSuperAdmin :: "Viewer \<Rightarrow> string \<Rightarrow> bool" where
  "isAuthorOrSuperAdmin v authorID \<longleftrightarrow> vw_UserID v = authorID \<or> isSuperAdmin v"

definition isMaintainer :: "Viewer \<Rightarrow> string \<Rightarrow> int \<Rightarrow> bool" where
  "isMaintainer v skillOwnerID namespaceID =
     (if isSuperAdmin v then True
      else if vw_UserID v = skillOwnerID then True
      else NamespaceRole v namespaceID = ''ADMIN'' \<or> NamespaceRole v namespaceID = ''OWNER'')"

definition publishEvent :: "community_deps \<Rightarrow> string \<Rightarrow> (string \<times> arg) list \<Rightarrow> unit op" where
  "publishEvent deps ty payload = notify (cd_events deps) (ty, payload)"

definition audit_community :: "community_deps \<Rightarrow> Viewer \<Rightarrow> string \<Rightarrow> string \<Rightarrow> int \<Rightarrow> string \<Rightarrow> unit op" where
  "audit_community deps v act ty i detail = notify (cd_audit deps) (vw_UserID v, act, ty, i, detail)"

definition forbidden :: err where "forbidden = Errs ''community: forbidden''"

definition validateLinkedVersion :: "community_deps \<Rightarrow> int \<Rightarrow> int option \<Rightarrow> unit op" where
  "validateLinkedVersion deps skillID versionID = (case (cd_versions deps, versionID) of
     (Some FindByID, Some i) \<Rightarrow> do {
       r \<leftarrow> FindByID i;
       (case r of
         Inl e \<Rightarrow> fail (wrap ''community: linked version lookup'' e)
       | Inr None \<Rightarrow> fail (Errs ''community: linked version not found'')
       | Inr (Some v) \<Rightarrow> if vref_SkillID v \<noteq> skillID then fail (Errs ''community: linked version does not belong to skill'') else ok ()) }
   | _ \<Rightarrow> ok ())"

definition validateLinkedRelease :: "community_deps \<Rightarrow> int \<Rightarrow> int option \<Rightarrow> unit op" where
  "validateLinkedRelease deps skillID releaseID = (case (cd_releases deps, releaseID) of
     (Some FindByID, Some i) \<Rightarrow> do {
       r \<leftarrow> FindByID i;
       (case r of
         Inl e \<Rightarrow> fail (wrap ''community: linked release lookup'' e)
       | Inr None \<Rightarrow> fail (Errs ''community: linked release not found'')
       | Inr (Some v) \<Rightarrow> if rref_SkillID v \<noteq> skillID then fail (Errs ''community: linked release does not belong to skill'') else ok ()) }
   | _ \<Rightarrow> ok ())"

text \<open>A page of rows and the size of the whole list.\<close>

record 'r ListResult =
  ls_Rows :: "'r list"
  ls_TotalCount :: int
  ls_Page :: int
  ls_Size :: int

definition page_size :: "int \<Rightarrow> int" where
  "page_size sz = (if sz \<le> 0 then 20 else if sz > 100 then 100 else sz)"

definition list_page :: "string \<Rightarrow> string \<Rightarrow> (int \<Rightarrow> int \<Rightarrow> 'r list op) \<Rightarrow> int op \<Rightarrow> int \<Rightarrow> int \<Rightarrow> 'r ListResult op" where
  "list_page msg cmsg rows count page sz0 = (let sz = page_size sz0 in
     and_then (wrapped msg (rows (int64 (page * sz)) sz)) (\<lambda>rs.
     and_then (wrapped cmsg count) (\<lambda>n.
     ok \<lparr>ls_Rows = rs, ls_TotalCount = n, ls_Page = page, ls_Size = sz\<rparr>)))"

section \<open>Issues\<close>

record CreateIssueInput =
  ci_SkillID :: int
  ci_Title :: string
  ci_Body :: string
  ci_AssigneeID :: "string option"
  ci_LinkedVersionID :: "int option"
  ci_LinkedReleaseID :: "int option"

definition issue_missing :: err where "issue_missing = NotFound ''community.issue.not_found'' []"

definition new_issue :: "Viewer \<Rightarrow> CreateIssueInput \<Rightarrow> time \<Rightarrow> Issue" where
  "new_issue v inp t = \<lparr>is_ID = 0, is_SkillID = ci_SkillID inp, is_Title = ci_Title inp, is_Body = ci_Body inp, is_Status = ''OPEN'',
     is_AssigneeID = ci_AssigneeID inp, is_LinkedVersionID = ci_LinkedVersionID inp, is_LinkedReleaseID = ci_LinkedReleaseID inp,
     is_AuthorID = vw_UserID v, is_Locked = False, is_CommentCount = 0, is_CreatedAt = t, is_UpdatedAt = t\<rparr>"

definition CreateIssue :: "community_deps \<Rightarrow> Viewer \<Rightarrow> CreateIssueInput \<Rightarrow> Issue op" where
  "CreateIssue deps v inp =
     (if ci_Title inp = [] then fail (Errs ''community: issue title is required'')
      else and_then (validateLinkedVersion deps (ci_SkillID inp) (ci_LinkedVersionID inp)) (\<lambda>_.
           and_then (validateLinkedRelease deps (ci_SkillID inp) (ci_LinkedReleaseID inp)) (\<lambda>_. do {
             t \<leftarrow> now;
             and_then (wrapped ''community: create issue'' (IssueRepo_Create (new_issue v inp t))) (\<lambda>saved. do {
               _ \<leftarrow> publishEvent deps ''community.issue.created'' [(''issueId'', AInt (is_ID saved)), (''skillId'', AInt (ci_SkillID inp)), (''authorId'', AStr (vw_UserID v))];
               _ \<leftarrow> audit_community deps v ''CREATE_ISSUE'' ''ISSUE'' (is_ID saved) (ci_Title inp);
               ok saved }) })))"

record UpdateIssueInput =
  ui_ID :: int
  ui_Title :: "string option"
  ui_Body :: "string option"
  ui_Status :: "string option"
  ui_AssigneeID :: "string option"
  ui_LinkedVersionID :: "int option"
  ui_LinkedReleaseID :: "int option"
  ui_Locked :: "bool option"

definition or_old :: "'a option \<Rightarrow> 'a \<Rightarrow> 'a" where
  "or_old new old = (case new of None \<Rightarrow> old | Some x \<Rightarrow> x)"

definition or_keep :: "'a option \<Rightarrow> 'a option \<Rightarrow> 'a option" where
  "or_keep new old = (case new of None \<Rightarrow> old | Some x \<Rightarrow> Some x)"

definition changed_issue :: "UpdateIssueInput \<Rightarrow> Issue \<Rightarrow> time \<Rightarrow> Issue" where
  "changed_issue inp i t = i\<lparr>is_Title := or_old (ui_Title inp) (is_Title i), is_Body := or_old (ui_Body inp) (is_Body i),
     is_Status := or_old (ui_Status inp) (is_Status i), is_AssigneeID := or_keep (ui_AssigneeID inp) (is_AssigneeID i),
     is_LinkedVersionID := or_keep (ui_LinkedVersionID inp) (is_LinkedVersionID i),
     is_LinkedReleaseID := or_keep (ui_LinkedReleaseID inp) (is_LinkedReleaseID i),
     is_Locked := or_old (ui_Locked inp) (is_Locked i), is_UpdatedAt := t\<rparr>"

definition UpdateIssue :: "community_deps \<Rightarrow> Viewer \<Rightarrow> UpdateIssueInput \<Rightarrow> Issue op" where
  "UpdateIssue deps v inp = and_then (find_or ''community: find issue'' issue_missing (IssueRepo_FindByID (ui_ID inp))) (\<lambda>i.
     if \<not> isAuthorOrSuperAdmin v (is_AuthorID i) then fail forbidden
     else if ui_Locked inp \<noteq> None \<and> \<not> isSuperAdmin v then fail (Errs ''community: only super admin may lock/unlock'')
     else and_then (validateLinkedVersion deps (is_SkillID i) (ui_LinkedVersionID inp)) (\<lambda>_.
          and_then (validateLinkedRelease deps (is_SkillID i) (ui_LinkedReleaseID inp)) (\<lambda>_. do {
            t \<leftarrow> now;
            and_then (wrapped ''community: update issue'' (IssueRepo_Update (changed_issue inp i t))) (\<lambda>updated. do {
              _ \<leftarrow> publishEvent deps ''community.issue.updated'' [(''issueId'', AInt (is_ID updated)), (''skillId'', AInt (is_SkillID updated))];
              ok updated }) })))"

definition GetIssue :: "int \<Rightarrow> Issue op" where
  "GetIssue i = find_or ''community: find issue'' issue_missing (IssueRepo_FindByID i)"

definition ListIssues :: "int \<Rightarrow> string \<Rightarrow> int \<Rightarrow> int \<Rightarrow> Issue ListResult op" where
  "ListIssues skill status page sz = list_page ''community: list issues'' ''community: count issues''
     (IssueRepo_FindBySkillID skill status) (IssueRepo_CountBySkillID skill status) page sz"

definition DeleteIssue :: "Viewer \<Rightarrow> int \<Rightarrow> unit op" where
  "DeleteIssue v i = and_then (find_or ''community: find issue'' issue_missing (IssueRepo_FindByID i)) (\<lambda>x.
     if \<not> isAuthorOrSuperAdmin v (is_AuthorID x) then fail forbidden else IssueRepo_Delete i)"

definition AddIssueComment :: "community_deps \<Rightarrow> Viewer \<Rightarrow> int \<Rightarrow> string \<Rightarrow> IssueComment op" where
  "AddIssueComment deps v issueID body =
     (if body = [] then fail (Errs ''community: comment body is required'')
      else and_then (find_or ''community: find issue'' issue_missing (IssueRepo_FindByID issueID)) (\<lambda>i. do {
        t \<leftarrow> now;
        and_then (wrapped ''community: add issue comment'' (IssueCommentRepo_Create
            \<lparr>ic_ID = 0, ic_IssueID = issueID, ic_AuthorID = vw_UserID v, ic_Body = body, ic_CreatedAt = t, ic_UpdatedAt = t\<rparr>)) (\<lambda>saved. do {
          _ \<leftarrow> publishEvent deps ''community.issue.commented'' [(''issueId'', AInt (is_ID i)), (''commentId'', AInt (ic_ID saved)),
                 (''skillId'', AInt (is_SkillID i)), (''authorId'', AStr (vw_UserID v))];
          ok saved }) }))"

definition ListIssueComments :: "int \<Rightarrow> IssueComment list op" where
  "ListIssueComments i = wrapped ''community: list issue comments'' (IssueCommentRepo_FindByIssueID i)"

section \<open>Discussions\<close>

record CreateDiscussionInput =
  cdi_SkillID :: int
  cdi_Title :: string
  cdi_Body :: string
  cdi_Category :: string

definition discussion_gone :: err where "discussion_gone = NotFound ''community.discussion.not_found'' []"

definition new_discussion :: "Viewer \<Rightarrow> CreateDiscussionInput \<Rightarrow> time \<Rightarrow> Discussion" where
  "new_discussion v inp t = \<lparr>ds_ID = 0, ds_SkillID = cdi_SkillID inp, ds_Title = cdi_Title inp, ds_Body = cdi_Body inp,
     ds_Category = (if cdi_Category inp = [] then ''GENERAL'' else cdi_Category inp), ds_AcceptedAnswerID = None,
     ds_AuthorID = vw_UserID v, ds_Locked = False, ds_Pinned = False, ds_CommentCount = 0, ds_CreatedAt = t, ds_UpdatedAt = t\<rparr>"

definition CreateDiscussion :: "community_deps \<Rightarrow> Viewer \<Rightarrow> CreateDiscussionInput \<Rightarrow> Discussion op" where
  "CreateDiscussion deps v inp =
     (if cdi_Title inp = [] then fail (Errs ''community: discussion title is required'')
      else do {
        t \<leftarrow> now;
        and_then (wrapped ''community: create discussion'' (DiscussionRepo_Create (new_discussion v inp t))) (\<lambda>saved. do {
          _ \<leftarrow> publishEvent deps ''community.discussion.created'' [(''discussionId'', AInt (ds_ID saved)), (''skillId'', AInt (cdi_SkillID inp)), (''authorId'', AStr (vw_UserID v))];
          ok saved }) })"

record UpdateDiscussionInput =
  ud_ID :: int
  ud_Title :: "string option"
  ud_Body :: "string option"
  ud_Category :: "string option"
  ud_Locked :: "bool option"
  ud_Pinned :: "bool option"

definition changed_discussion :: "UpdateDiscussionInput \<Rightarrow> Discussion \<Rightarrow> time \<Rightarrow> Discussion" where
  "changed_discussion inp x t = x\<lparr>ds_Title := or_old (ud_Title inp) (ds_Title x), ds_Body := or_old (ud_Body inp) (ds_Body x),
     ds_Category := or_old (ud_Category inp) (ds_Category x), ds_Locked := or_old (ud_Locked inp) (ds_Locked x),
     ds_Pinned := or_old (ud_Pinned inp) (ds_Pinned x), ds_UpdatedAt := t\<rparr>"

definition UpdateDiscussion :: "Viewer \<Rightarrow> UpdateDiscussionInput \<Rightarrow> Discussion op" where
  "UpdateDiscussion v inp = and_then (find_or ''community: find discussion'' discussion_gone (DiscussionRepo_FindByID (ud_ID inp))) (\<lambda>x.
     if \<not> isAuthorOrSuperAdmin v (ds_AuthorID x) then fail forbidden
     else if (ud_Locked inp \<noteq> None \<or> ud_Pinned inp \<noteq> None) \<and> \<not> isSuperAdmin v
       then fail (Errs ''community: only super admin may lock/pin without maintainer role'')
     else do {
       t \<leftarrow> now;
       wrapped ''community: update discussion'' (DiscussionRepo_Update (changed_discussion inp x t)) })"

definition GetDiscussion :: "int \<Rightarrow> Discussion op" where
  "GetDiscussion i = find_or ''community: find discussion'' discussion_gone (DiscussionRepo_FindByID i)"

definition ListDiscussions :: "int \<Rightarrow> string \<Rightarrow> int \<Rightarrow> int \<Rightarrow> Discussion ListResult op" where
  "ListDiscussions skill cat page sz = list_page ''community: list discussions'' ''community: count discussions''
     (DiscussionRepo_FindBySkillID skill cat) (DiscussionRepo_CountBySkillID skill cat) page sz"

definition DeleteDiscussion :: "Viewer \<Rightarrow> int \<Rightarrow> unit op" where
  "DeleteDiscussion v i = and_then (find_or ''community: find discussion'' discussion_gone (DiscussionRepo_FindByID i)) (\<lambda>x.
     if \<not> isAuthorOrSuperAdmin v (ds_AuthorID x) then fail forbidden else DiscussionRepo_Delete i)"

definition AddDiscussionComment :: "community_deps \<Rightarrow> Viewer \<Rightarrow> int \<Rightarrow> string \<Rightarrow> DiscussionComment op" where
  "AddDiscussionComment deps v discussionID body =
     (if body = [] then fail (Errs ''community: comment body is required'')
      else and_then (find_or ''community: find discussion'' discussion_gone (DiscussionRepo_FindByID discussionID)) (\<lambda>x. do {
        t \<leftarrow> now;
        and_then (wrapped ''community: add discussion comment'' (DiscCommentRepo_Create
            \<lparr>dc_ID = 0, dc_DiscussionID = discussionID, dc_AuthorID = vw_UserID v, dc_Body = body, dc_IsAnswer = False,
              dc_CreatedAt = t, dc_UpdatedAt = t\<rparr>)) (\<lambda>saved. do {
          _ \<leftarrow> publishEvent deps ''community.discussion.commented'' [(''discussionId'', AInt (ds_ID x)), (''commentId'', AInt (dc_ID saved)),
                 (''skillId'', AInt (ds_SkillID x)), (''authorId'', AStr (vw_UserID v))];
          ok saved }) }))"

definition ListDiscussionComments :: "int \<Rightarrow> DiscussionComment list op" where
  "ListDiscussionComments i = wrapped ''community: list discussion comments'' (DiscCommentRepo_FindByDiscussionID i)"

text \<open>The loop that sets and clears the answer flags, over the comments as they were read.\<close>

fun mark_answers :: "int \<Rightarrow> DiscussionComment list \<Rightarrow> unit op" where
  "mark_answers a [] = ok ()"
| "mark_answers a (m # ms) =
     (if dc_IsAnswer m \<noteq> (dc_ID m = a)
      then and_then (wrapped ''community: update comment answer'' (DiscCommentRepo_Update (m\<lparr>dc_IsAnswer := (dc_ID m = a)\<rparr>))) (\<lambda>_. mark_answers a ms)
      else mark_answers a ms)"

definition AcceptAnswer :: "community_deps \<Rightarrow> Viewer \<Rightarrow> int \<Rightarrow> int \<Rightarrow> Discussion op" where
  "AcceptAnswer deps v discussionID commentID =
     and_then (find_or ''community: find discussion'' discussion_gone (DiscussionRepo_FindByID discussionID)) (\<lambda>x.
       if ds_Category x \<noteq> ''QA'' then fail (Errs ''community: only QA discussions support accepted answers'')
       else if \<not> isAuthorOrSuperAdmin v (ds_AuthorID x) then fail forbidden
       else and_then (wrapped ''community: find comments'' (DiscCommentRepo_FindByDiscussionID discussionID)) (\<lambda>ms.
         if \<not> list_ex (\<lambda>m. dc_ID m = commentID) ms then fail (Errs ''community: comment not found in this discussion'')
         else and_then (mark_answers commentID ms) (\<lambda>_. do {
           t \<leftarrow> now;
           and_then (wrapped ''community: accept answer'' (DiscussionRepo_Update (x\<lparr>ds_AcceptedAnswerID := Some commentID, ds_UpdatedAt := t\<rparr>))) (\<lambda>updated. do {
             _ \<leftarrow> publishEvent deps ''community.discussion.answer_accepted'' [(''discussionId'', AInt discussionID), (''answerId'', AInt commentID), (''skillId'', AInt (ds_SkillID x))];
             ok updated }) })))"

section \<open>Wiki pages\<close>

record CreateWikiPageInput =
  cw_SkillID :: int
  cw_Title :: string
  cw_Slug :: string
  cw_Body :: string
  cw_ChangeSummary :: string
  cw_LinkedSkillVersionID :: "int option"

definition wiki_gone :: err where "wiki_gone = NotFound ''community.wiki_page.not_found'' []"

definition new_page :: "Viewer \<Rightarrow> CreateWikiPageInput \<Rightarrow> time \<Rightarrow> WikiPage" where
  "new_page v inp t = \<lparr>wk_ID = 0, wk_SkillID = cw_SkillID inp, wk_Title = cw_Title inp, wk_Slug = cw_Slug inp, wk_CurrentVersionID = None,
     wk_OrderIndex = 0, wk_AuthorID = vw_UserID v, wk_CreatedAt = t, wk_UpdatedAt = t\<rparr>"

definition new_wiki_version :: "Viewer \<Rightarrow> int \<Rightarrow> int \<Rightarrow> string \<Rightarrow> string \<Rightarrow> int option \<Rightarrow> time \<Rightarrow> WikiPageVersion" where
  "new_wiki_version v pageID n body summary linked t = \<lparr>wv_ID = 0, wv_PageID = pageID, wv_Body = body, wv_Version = n,
     wv_ChangeSummary = summary, wv_LinkedSkillVersionID = linked, wv_AuthorID = vw_UserID v, wv_CreatedAt = t\<rparr>"

definition CreateWikiPage :: "community_deps \<Rightarrow> Viewer \<Rightarrow> string \<Rightarrow> int \<Rightarrow> CreateWikiPageInput \<Rightarrow> WikiPage op" where
  "CreateWikiPage deps v skillOwnerID namespaceID inp =
     (if \<not> isMaintainer v skillOwnerID namespaceID then fail (Errs ''community: forbidden: wiki page creation requires maintainer role'')
      else if cw_Title inp = [] \<or> cw_Slug inp = [] then fail (Errs ''community: wiki page title and slug are required'')
      else do {
        t \<leftarrow> now;
        and_then (wrapped ''community: create wiki page'' (WikiPageRepo_Create (new_page v inp t))) (\<lambda>saved.
        and_then (wrapped ''community: create wiki page version''
            (WikiVersionRepo_Create (new_wiki_version v (wk_ID saved) 1 (cw_Body inp) (cw_ChangeSummary inp) (cw_LinkedSkillVersionID inp) t))) (\<lambda>ver.
        and_then (wrapped ''community: update wiki page current version'' (WikiPageRepo_Update (saved\<lparr>wk_CurrentVersionID := Some (wv_ID ver)\<rparr>))) (\<lambda>updated. do {
          _ \<leftarrow> publishEvent deps ''community.wiki.created'' [(''pageId'', AInt (wk_ID updated)), (''skillId'', AInt (cw_SkillID inp)), (''authorId'', AStr (vw_UserID v))];
          ok updated }))) })"

record UpdateWikiPageInput =
  uw_PageID :: int
  uw_Title :: "string option"
  uw_Body :: string
  uw_ChangeSummary :: string
  uw_LinkedSkillVersionID :: "int option"

definition next_version :: "WikiPageVersion list \<Rightarrow> int" where
  "next_version vs = (case vs of [] \<Rightarrow> 1 | v # _ \<Rightarrow> wv_Version v + 1)"

definition UpdateWikiPage :: "community_deps \<Rightarrow> Viewer \<Rightarrow> string \<Rightarrow> int \<Rightarrow> UpdateWikiPageInput \<Rightarrow> WikiPage op" where
  "UpdateWikiPage deps v skillOwnerID namespaceID inp =
     (if \<not> isMaintainer v skillOwnerID namespaceID then fail (Errs ''community: forbidden: wiki page update requires maintainer role'')
      else and_then (find_or ''community: find wiki page'' wiki_gone (WikiPageRepo_FindByID (uw_PageID inp))) (\<lambda>p.
        and_then (wrapped ''community: find wiki versions'' (WikiVersionRepo_FindByPageID (uw_PageID inp))) (\<lambda>vs. do {
          t \<leftarrow> now;
          and_then (wrapped ''community: create wiki page version'' (WikiVersionRepo_Create
              (new_wiki_version v (uw_PageID inp) (next_version vs) (uw_Body inp) (uw_ChangeSummary inp) (uw_LinkedSkillVersionID inp) t))) (\<lambda>ver.
          and_then (wrapped ''community: update wiki page'' (WikiPageRepo_Update
              (p\<lparr>wk_Title := or_old (uw_Title inp) (wk_Title p), wk_CurrentVersionID := Some (wv_ID ver), wk_UpdatedAt := t\<rparr>))) (\<lambda>updated. do {
            _ \<leftarrow> publishEvent deps ''community.wiki.updated'' [(''pageId'', AInt (wk_ID updated)), (''skillId'', AInt (wk_SkillID p)), (''authorId'', AStr (vw_UserID v))];
            ok updated })) })))"

definition GetWikiPage :: "int \<Rightarrow> string \<Rightarrow> WikiPage op" where
  "GetWikiPage skill slug = find_or ''community: find wiki page'' wiki_gone (WikiPageRepo_FindBySkillIDAndSlug skill slug)"

definition GetWikiPageVersion :: "int \<Rightarrow> int \<Rightarrow> WikiPageVersion op" where
  "GetWikiPageVersion pageID version = and_then (wrapped ''community: find wiki versions'' (WikiVersionRepo_FindByPageID pageID)) (\<lambda>vs.
     case find (\<lambda>v. wv_Version v = version) vs of
       None \<Rightarrow> fail (Errs ''community: wiki page version not found'')
     | Some v \<Rightarrow> ok v)"

definition ListWikiPageVersions :: "int \<Rightarrow> WikiPageVersion list op" where
  "ListWikiPageVersions pageID = wrapped ''community: list wiki versions'' (WikiVersionRepo_FindByPageID pageID)"

definition ListWikiPages :: "int \<Rightarrow> WikiPage list op" where
  "ListWikiPages skill = wrapped ''community: list wiki pages'' (WikiPageRepo_ListBySkillID skill)"

definition DeleteWikiPage :: "Viewer \<Rightarrow> string \<Rightarrow> int \<Rightarrow> int \<Rightarrow> unit op" where
  "DeleteWikiPage v skillOwnerID namespaceID i =
     (if \<not> isMaintainer v skillOwnerID namespaceID then fail (Errs ''community: forbidden: wiki page deletion requires maintainer role'')
      else WikiPageRepo_Delete i)"

section \<open>Change proposals\<close>

record CreateChangeProposalInput =
  pi_SkillID :: int
  pi_Title :: string
  pi_Summary :: string
  pi_ProposedChangesJSON :: string
  pi_SourceGitRef :: "string option"

definition proposal_gone :: err where "proposal_gone = NotFound ''community.proposal.not_found'' []"

definition CreateChangeProposal :: "community_deps \<Rightarrow> Viewer \<Rightarrow> CreateChangeProposalInput \<Rightarrow> ChangeProposal op" where
  "CreateChangeProposal deps v inp =
     (if pi_Title inp = [] then fail (Errs ''community: proposal title is required'')
      else do {
        t \<leftarrow> now;
        and_then (wrapped ''community: create proposal'' (ProposalRepo_Create
            \<lparr>cp_ID = 0, cp_SkillID = pi_SkillID inp, cp_Title = pi_Title inp, cp_Summary = pi_Summary inp,
              cp_ProposedChangesJSON = pi_ProposedChangesJSON inp, cp_Status = ''OPEN'', cp_AuthorID = vw_UserID v, cp_ReviewerID = None,
              cp_SourceGitRef = pi_SourceGitRef inp, cp_ReviewComment = [], cp_CreatedAt = t, cp_UpdatedAt = t\<rparr>)) (\<lambda>saved. do {
          _ \<leftarrow> publishEvent deps ''community.proposal.created'' [(''proposalId'', AInt (cp_ID saved)), (''skillId'', AInt (pi_SkillID inp)), (''authorId'', AStr (vw_UserID v))];
          ok saved }) })"

record UpdateChangeProposalInput =
  up_ID :: int
  up_Status :: "string option"
  up_Comment :: string

text \<open>The switch over the new status: no branch speaks of the values it does not name.\<close>

definition status_denied :: "Viewer \<Rightarrow> string \<Rightarrow> int \<Rightarrow> string \<Rightarrow> string option \<Rightarrow> err option" where
  "status_denied v skillOwnerID namespaceID authorID status = (case status of
     None \<Rightarrow> None
   | Some s \<Rightarrow>
       if s = ''WITHDRAWN'' then (if isAuthorOrSuperAdmin v authorID then None else Some forbidden)
       else if s = ''ACCEPTED'' \<or> s = ''REJECTED'' then
         (if isMaintainer v skillOwnerID namespaceID then None
          else Some (Errs ''community: forbidden: proposal accept/reject requires maintainer role''))
       else None)"

definition changed_proposal :: "Viewer \<Rightarrow> UpdateChangeProposalInput \<Rightarrow> ChangeProposal \<Rightarrow> time \<Rightarrow> ChangeProposal" where
  "changed_proposal v inp p t = p\<lparr>cp_Status := or_old (up_Status inp) (cp_Status p),
     cp_ReviewComment := (if up_Comment inp \<noteq> [] then up_Comment inp else cp_ReviewComment p),
     cp_ReviewerID := (if up_Comment inp \<noteq> [] \<and> cp_ReviewerID p = None then Some (vw_UserID v) else cp_ReviewerID p),
     cp_UpdatedAt := t\<rparr>"

definition UpdateChangeProposalStatus :: "community_deps \<Rightarrow> Viewer \<Rightarrow> string \<Rightarrow> int \<Rightarrow> UpdateChangeProposalInput \<Rightarrow> ChangeProposal op" where
  "UpdateChangeProposalStatus deps v skillOwnerID namespaceID inp =
     and_then (find_or ''community: find proposal'' proposal_gone (ProposalRepo_FindByID (up_ID inp))) (\<lambda>p.
       case status_denied v skillOwnerID namespaceID (cp_AuthorID p) (up_Status inp) of
         Some e \<Rightarrow> fail e
       | None \<Rightarrow> do {
           t \<leftarrow> now;
           and_then (wrapped ''community: update proposal'' (ProposalRepo_Update (changed_proposal v inp p t))) (\<lambda>updated. do {
             _ \<leftarrow> publishEvent deps ''community.proposal.status_changed'' [(''proposalId'', AInt (cp_ID updated)), (''skillId'', AInt (cp_SkillID p)), (''status'', AStr (cp_Status updated))];
             _ \<leftarrow> audit_community deps v (''PROPOSAL_'' @ cp_Status updated) ''PROPOSAL'' (cp_ID updated) (up_Comment inp);
             ok updated }) })"

definition GetChangeProposal :: "int \<Rightarrow> ChangeProposal op" where
  "GetChangeProposal i = find_or ''community: find proposal'' proposal_gone (ProposalRepo_FindByID i)"

definition ListChangeProposals :: "int \<Rightarrow> string \<Rightarrow> int \<Rightarrow> int \<Rightarrow> ChangeProposal ListResult op" where
  "ListChangeProposals skill status page sz = list_page ''community: list proposals'' ''community: count proposals''
     (ProposalRepo_FindBySkillID skill status) (ProposalRepo_CountBySkillID skill status) page sz"

section \<open>Labels\<close>

definition AddIssueLabel :: "int \<Rightarrow> int \<Rightarrow> IssueLabel op" where
  "AddIssueLabel issueID labelID = do {
     t \<leftarrow> now;
     wrapped ''community: add issue label'' (IssueLabelRepo_Add \<lparr>il_ID = 0, il_IssueID = issueID, il_LabelID = labelID, il_CreatedAt = t\<rparr>) }"

definition RemoveIssueLabel :: "int \<Rightarrow> int \<Rightarrow> unit op" where
  "RemoveIssueLabel issueID labelID = IssueLabelRepo_Remove issueID labelID"

definition ListIssueLabels :: "int \<Rightarrow> IssueLabel list op" where
  "ListIssueLabels i = wrapped ''community: list issue labels'' (IssueLabelRepo_FindByIssueID i)"

definition AddDiscussionLabel :: "int \<Rightarrow> int \<Rightarrow> DiscussionLabel op" where
  "AddDiscussionLabel discussionID labelID = do {
     t \<leftarrow> now;
     wrapped ''community: add discussion label''
       (DiscussionLabelRepo_Add \<lparr>dbl_ID = 0, dbl_DiscussionID = discussionID, dbl_LabelID = labelID, dbl_CreatedAt = t\<rparr>) }"

definition RemoveDiscussionLabel :: "int \<Rightarrow> int \<Rightarrow> unit op" where
  "RemoveDiscussionLabel discussionID labelID = DiscussionLabelRepo_Remove discussionID labelID"

definition ListDiscussionLabels :: "int \<Rightarrow> DiscussionLabel list op" where
  "ListDiscussionLabels i = wrapped ''community: list discussion labels'' (DiscussionLabelRepo_FindByDiscussionID i)"

section \<open>Reports\<close>

record ReportInput =
  rp_SkillID :: int
  rp_ObjectType :: string
  rp_ObjectID :: int
  rp_Reason :: string
  rp_Details :: string

definition ReportCommunityObject :: "community_deps \<Rightarrow> Viewer \<Rightarrow> ReportInput \<Rightarrow> CommunityReport op" where
  "ReportCommunityObject deps v inp = do {
     t \<leftarrow> now;
     and_then (wrapped ''community: report object'' (ReportRepo_Create
         \<lparr>cmr_ID = 0, cmr_SkillID = rp_SkillID inp, cmr_ObjectType = rp_ObjectType inp, cmr_ObjectID = rp_ObjectID inp,
           cmr_ReporterID = vw_UserID v, cmr_Reason = rp_Reason inp, cmr_Details = rp_Details inp, cmr_Status = ''PENDING'',
           cmr_HandledBy = None, cmr_HandleComment = [], cmr_CreatedAt = t, cmr_HandledAt = None\<rparr>)) (\<lambda>saved. do {
       _ \<leftarrow> publishEvent deps ''community.report.submitted'' [(''reportId'', AInt (cmr_ID saved)), (''objectType'', AStr (rp_ObjectType inp)), (''objectId'', AInt (rp_ObjectID inp))];
       ok saved }) }"

definition HandleReport :: "community_deps \<Rightarrow> Viewer \<Rightarrow> int \<Rightarrow> string \<Rightarrow> string \<Rightarrow> CommunityReport op" where
  "HandleReport deps v reportID status comment =
     (if \<not> isSuperAdmin v then fail forbidden
      else and_then (find_or ''community: find report'' (Errs ''community: report not found'') (ReportRepo_FindByID reportID)) (\<lambda>x. do {
        t \<leftarrow> now;
        and_then (wrapped ''community: handle report'' (ReportRepo_Update
            (x\<lparr>cmr_Status := status, cmr_HandleComment := comment, cmr_HandledBy := Some (vw_UserID v), cmr_HandledAt := Some t\<rparr>))) (\<lambda>updated. do {
          _ \<leftarrow> publishEvent deps ''community.report.handled'' [(''reportId'', AInt (cmr_ID updated)), (''status'', AStr status)];
          _ \<leftarrow> audit_community deps v ''HANDLE_COMMUNITY_REPORT'' ''COMMUNITY_REPORT'' (cmr_ID updated) comment;
          ok updated }) }))"

definition ListReports :: "string \<Rightarrow> int \<Rightarrow> int \<Rightarrow> CommunityReport ListResult op" where
  "ListReports status page sz = list_page ''community: list reports'' ''community: count reports''
     (ReportRepo_FindByStatus status) (ReportRepo_CountByStatus status) page sz"

section \<open>Search\<close>

record SearchQuery =
  sq_SkillID :: int
  sq_Query :: string
  sq_Types :: "string list"
  sq_Page :: int
  sq_Size :: int

definition SearchCommunity :: "community_deps \<Rightarrow> SearchQuery \<Rightarrow> SearchResultItem ListResult op" where
  "SearchCommunity deps q =
     (if \<not> cd_search deps then fail (Errs ''community: search repository not configured'')
      else list_page ''community: search'' ''community: search count'' (Search_hits (sq_SkillID q) (sq_Query q) (sq_Types q))
        (Search_count (sq_SkillID q) (sq_Query q) (sq_Types q)) (sq_Page q) (sq_Size q))"

end
