(* ===== verification/CommunityRules.thy ===== *)
theory CommunityRules
  imports Community
begin

text \<open>
  What the community tables promise after any sequence of calls of the service, with any failing
  statements: unique keys, known statuses and categories, comments, labels and versions that belong to
  something, and wiki versions numbered one by one. Below it, what single operations do: accepting an
  answer, deciding a proposal, searching.
\<close>

section \<open>What the community tables promise\<close>

definition posts_ok :: "community_tables \<Rightarrow> bool" where
  "posts_ok c \<longleftrightarrow> ist.unique (issues c) \<and> ict.unique (issue_comments c) \<and> (\<forall>i \<in> set (issues c). is_Status i \<in> issue_statuses)
     \<and> (\<forall>m \<in> set (issue_comments c). ic_IssueID m \<in> is_ID ` set (issues c)) \<and> (\<forall>l \<in> set (issue_labels c). il_IssueID l \<in> is_ID ` set (issues c))
     \<and> distinct (map (\<lambda>l. (il_IssueID l, il_LabelID l)) (issue_labels c))"

definition talks_ok :: "community_tables \<Rightarrow> bool" where
  "talks_ok c \<longleftrightarrow> dst.unique (discussions c) \<and> dct.unique (discussion_comments c) \<and> (\<forall>x \<in> set (discussions c). ds_Category x \<in> discussion_categories)
     \<and> (\<forall>m \<in> set (discussion_comments c). dc_DiscussionID m \<in> ds_ID ` set (discussions c))
     \<and> (\<forall>x \<in> set (discussions c). \<not> answer_missing x (discussion_comments c))
     \<and> (\<forall>l \<in> set (discussion_labels c). dbl_DiscussionID l \<in> ds_ID ` set (discussions c))
     \<and> distinct (map (\<lambda>l. (dbl_DiscussionID l, dbl_LabelID l)) (discussion_labels c))"

definition numbered :: "int \<Rightarrow> WikiPageVersion list \<Rightarrow> bool" where
  "numbered p vs \<longleftrightarrow> (let xs = filter (\<lambda>v. wv_PageID v = p) vs in map wv_Version xs = map (\<lambda>k. int k + 1) [0..<length xs])"

definition wiki_ok :: "community_tables \<Rightarrow> bool" where
  "wiki_ok c \<longleftrightarrow> wkt.unique (wiki_pages c) \<and> distinct (map wv_ID (wiki_versions c)) \<and> distinct (map (\<lambda>p. (wk_SkillID p, wk_Slug p)) (wiki_pages c))
     \<and> (\<forall>v \<in> set (wiki_versions c). wv_PageID v \<in> wk_ID ` set (wiki_pages c))
     \<and> (\<forall>p \<in> set (wiki_pages c). \<forall>i. wk_CurrentVersionID p = Some i \<longrightarrow> (\<exists>v \<in> set (wiki_versions c). wv_ID v = i \<and> wv_PageID v = wk_ID p))
     \<and> (\<forall>p. numbered p (wiki_versions c))"

definition proposals_ok :: "community_tables \<Rightarrow> bool" where
  "proposals_ok c \<longleftrightarrow> cpt.unique (proposals c) \<and> (\<forall>p \<in> set (proposals c). cp_Status p \<in> proposal_statuses)
     \<and> (\<forall>m \<in> set (proposal_comments c). cc_ProposalID m \<in> cp_ID ` set (proposals c))"

definition reports_ok :: "community_tables \<Rightarrow> bool" where
  "reports_ok c \<longleftrightarrow> cmrt.unique (community_reports c) \<and> (\<forall>r \<in> set (community_reports c). cmr_ObjectType r \<in> report_objects)"

definition community_ok :: "database \<Rightarrow> bool" where
  "community_ok d \<longleftrightarrow> posts_ok (community d) \<and> talks_ok (community d) \<and> wiki_ok (community d) \<and> proposals_ok (community d) \<and> reports_ok (community d)"

lemma has_id_iff: "has_id k i rs \<longleftrightarrow> i \<in> k ` set rs"
  by (auto simp: has_id_def list_ex_iff)

lemma map_keys_update_where: "(\<And>r. k (f r) = k r) \<Longrightarrow> map k (update_where p f rs) = map k rs"
  by (simp add: update_where_def)

lemma keys_update_where: "(\<And>r. k (f r) = k r) \<Longrightarrow> k ` set (update_where p f rs) = k ` set rs"
  using list.set_map [of k] by (metis (no_types) map_keys_update_where)

lemma keys_delete_where: "k ` set (delete_where (\<lambda>r. k r = i) rs) = k ` set rs - {i}"
  by (auto simp: delete_where_def)

lemma unique_add: "n \<notin> k ` set rs \<Longrightarrow> k row = n \<Longrightarrow> distinct (map k rs) \<Longrightarrow> distinct (map k (rs @ [row]))"
  by simp

lemma checked_Inr: "checked refused clash r = Inr s \<longleftrightarrow> \<not> refused \<and> \<not> clash \<and> r = s"
  by (simp add: checked_def)

lemma distinct_delete: "distinct (map f rs) \<Longrightarrow> distinct (map f (delete_where p rs))"
  by (simp add: delete_where_def distinct_map inj_on_def)

lemmas table_rules = has_id_iff checked_Inr keys_update_where keys_delete_where distinct_delete

lemma posts_frame:
  "issues c' = issues c \<Longrightarrow> issue_comments c' = issue_comments c \<Longrightarrow> issue_labels c' = issue_labels c \<Longrightarrow> posts_ok c \<Longrightarrow> posts_ok c'"
  by (simp add: posts_ok_def)

lemma talks_frame:
  "discussions c' = discussions c \<Longrightarrow> discussion_comments c' = discussion_comments c \<Longrightarrow> discussion_labels c' = discussion_labels c \<Longrightarrow> talks_ok c \<Longrightarrow> talks_ok c'"
  by (simp add: talks_ok_def)

lemma wiki_frame: "wiki_pages c' = wiki_pages c \<Longrightarrow> wiki_versions c' = wiki_versions c \<Longrightarrow> wiki_ok c \<Longrightarrow> wiki_ok c'"
  by (simp add: wiki_ok_def)

lemma proposals_frame: "proposals c' = proposals c \<Longrightarrow> proposal_comments c' = proposal_comments c \<Longrightarrow> proposals_ok c \<Longrightarrow> proposals_ok c'"
  by (simp add: proposals_ok_def)

lemma reports_frame: "community_reports c' = community_reports c \<Longrightarrow> reports_ok c \<Longrightarrow> reports_ok c'"
  by (simp add: reports_ok_def)

lemmas frames = posts_frame talks_frame wiki_frame proposals_frame reports_frame

lemma issue_writes:
  "keeps community_ok (IssueRepo_Create i)" "keeps community_ok (IssueRepo_Update i)" "keeps community_ok (IssueRepo_Delete n)"
  "keeps community_ok (IssueCommentRepo_Create m)" "keeps community_ok (IssueCommentRepo_Update m)" "keeps community_ok (IssueCommentRepo_Delete n)"
  "keeps community_ok (IssueLabelRepo_Add l)" "keeps community_ok (IssueLabelRepo_Remove a b)"
proof -
  have I: "community_ok d \<longleftrightarrow> posts_ok (community d) \<and> (talks_ok (community d) \<and> wiki_ok (community d) \<and> proposals_ok (community d) \<and> reports_ok (community d))" for d
    by (simp add: community_ok_def)
  note frame = talks_frame wiki_frame proposals_frame reports_frame
  show "keeps community_ok (IssueRepo_Create i)"
    unfolding IssueRepo_Create_def
    by (rule keeps_insert) (auto simp: I Let_def table_rules posts_ok_def ist.unique_def intro: frame)
  show "keeps community_ok (IssueRepo_Update i)"
    unfolding IssueRepo_Update_def
    by (rule keeps_try) (auto simp: I checked_Inr keys_update_where has_id_def list_ex_iff posts_ok_def is_set_def update_where_in intro!: ist.unique_update intro: frame)
  show "keeps community_ok (IssueRepo_Delete n)"
    unfolding IssueRepo_Delete_def
    by (rule keeps_exec) (auto simp: I table_rules posts_ok_def intro!: ist.unique_delete ict.unique_delete intro: frame)
  show "keeps community_ok (IssueCommentRepo_Create m)"
    unfolding IssueCommentRepo_Create_def
    by (rule keeps_insert) (auto simp: I Let_def table_rules posts_ok_def ict.unique_def intro: frame)
  show "keeps community_ok (IssueCommentRepo_Update m)"
    unfolding IssueCommentRepo_Update_def
    by (rule keeps_exec) (auto simp: I posts_ok_def ic_set_def update_where_in intro!: ict.unique_update intro: frame)
  show "keeps community_ok (IssueCommentRepo_Delete n)"
    unfolding IssueCommentRepo_Delete_def
    by (rule keeps_exec) (auto simp: I posts_ok_def intro!: ict.unique_delete intro: frame)
  show "keeps community_ok (IssueLabelRepo_Add l)"
    unfolding IssueLabelRepo_Add_def
    by (rule keeps_insert) (auto simp: I Let_def table_rules posts_ok_def list_ex_iff intro: frame split: if_splits)
  show "keeps community_ok (IssueLabelRepo_Remove a b)"
    unfolding IssueLabelRepo_Remove_def
    by (rule keeps_exec) (auto simp: I table_rules posts_ok_def intro: frame)
qed


lemma talk_writes:
  "keeps community_ok (DiscussionRepo_Create x)" "keeps community_ok (DiscussionRepo_Update x)" "keeps community_ok (DiscussionRepo_Delete n)"
  "keeps community_ok (DiscCommentRepo_Create m)" "keeps community_ok (DiscCommentRepo_Update m)" "keeps community_ok (DiscCommentRepo_Delete n)"
  "keeps community_ok (DiscussionLabelRepo_Add l)" "keeps community_ok (DiscussionLabelRepo_Remove a b)"
proof -
  have I: "community_ok d \<longleftrightarrow> talks_ok (community d) \<and> (posts_ok (community d) \<and> wiki_ok (community d) \<and> proposals_ok (community d) \<and> reports_ok (community d))" for d
    by (auto simp: community_ok_def)
  have answer: "answer_missing (x\<lparr>ds_ID := n\<rparr>) cs = answer_missing x cs" "answer_missing (ds_set y x) cs = answer_missing y cs"
    "ds_ID (ds_set y x) = ds_ID x" "ds_Category (ds_set y x) = ds_Category y" for x y n cs
    by (simp_all add: answer_missing_def ds_set_def)
  note frame = posts_frame wiki_frame proposals_frame reports_frame
  show "keeps community_ok (DiscussionRepo_Create x)"
    unfolding DiscussionRepo_Create_def
    by (rule keeps_insert) (auto simp: I Let_def table_rules talks_ok_def dst.unique_def answer intro: frame)
  show "keeps community_ok (DiscussionRepo_Update x)"
    unfolding DiscussionRepo_Update_def
    by (rule keeps_try) (auto simp: I checked_Inr keys_update_where has_id_def list_ex_iff talks_ok_def answer update_where_in
        intro!: dst.unique_update intro: frame split: if_splits)
  show "keeps community_ok (DiscussionRepo_Delete n)"
    unfolding DiscussionRepo_Delete_def
    by (rule keeps_try) (auto simp: I Let_def checked_Inr keys_delete_where distinct_delete list_ex_iff talks_ok_def
        intro!: dst.unique_delete dct.unique_delete intro: frame)
  show "keeps community_ok (DiscCommentRepo_Create m)"
    unfolding DiscCommentRepo_Create_def
    by (rule keeps_insert) (auto simp: I Let_def table_rules talks_ok_def dct.unique_def answer_missing_def intro: frame split: option.splits)
  show "keeps community_ok (DiscCommentRepo_Update m)"
    unfolding DiscCommentRepo_Update_def
    by (rule keeps_exec) (auto simp: I talks_ok_def dc_set_def update_where_in answer_missing_def table_rules
        intro!: dct.unique_update intro: frame split: option.splits)
  show "keeps community_ok (DiscCommentRepo_Delete n)"
    unfolding DiscCommentRepo_Delete_def
    by (rule keeps_try) (auto simp: I talks_ok_def checked_Inr list_ex_iff answer_missing_def has_id_iff keys_delete_where
        intro!: dct.unique_delete intro: frame split: option.splits)
  show "keeps community_ok (DiscussionLabelRepo_Add l)"
    unfolding DiscussionLabelRepo_Add_def
    by (rule keeps_insert) (auto simp: I Let_def table_rules talks_ok_def list_ex_iff intro: frame split: if_splits)
  show "keeps community_ok (DiscussionLabelRepo_Remove a b)"
    unfolding DiscussionLabelRepo_Remove_def
    by (rule keeps_exec) (auto simp: I table_rules talks_ok_def intro: frame)
qed

lemma proposal_writes:
  "keeps community_ok (ProposalRepo_Create p)" "keeps community_ok (ProposalRepo_Update p)" "keeps community_ok (ProposalRepo_Delete n)"
  "keeps community_ok (ProposalCommentRepo_Create m)"
proof -
  have I: "community_ok d \<longleftrightarrow> proposals_ok (community d) \<and> (posts_ok (community d) \<and> talks_ok (community d) \<and> wiki_ok (community d) \<and> reports_ok (community d))" for d
    by (auto simp: community_ok_def)
  note frame = posts_frame talks_frame wiki_frame reports_frame
  show "keeps community_ok (ProposalRepo_Create p)"
    unfolding ProposalRepo_Create_def
    by (rule keeps_insert) (auto simp: I Let_def table_rules proposals_ok_def cpt.unique_def intro: frame)
  show "keeps community_ok (ProposalRepo_Update p)"
    unfolding ProposalRepo_Update_def
    by (rule keeps_try) (auto simp: I checked_Inr keys_update_where has_id_def list_ex_iff proposals_ok_def update_where_in cp_set_def
        intro!: cpt.unique_update intro: frame)
  show "keeps community_ok (ProposalRepo_Delete n)"
    unfolding ProposalRepo_Delete_def
    by (rule keeps_exec) (auto simp: I table_rules proposals_ok_def intro!: cpt.unique_delete intro: frame)
  show "keeps community_ok (ProposalCommentRepo_Create m)"
    unfolding ProposalCommentRepo_Create_def
    by (rule keeps_insert) (auto simp: I Let_def table_rules proposals_ok_def intro: frame)
qed

lemma report_writes: "keeps community_ok (ReportRepo_Create p)" "keeps community_ok (ReportRepo_Update p)"
proof -
  have I: "community_ok d \<longleftrightarrow> reports_ok (community d) \<and> (posts_ok (community d) \<and> talks_ok (community d) \<and> wiki_ok (community d) \<and> proposals_ok (community d))" for d
    by (auto simp: community_ok_def)
  note frame = posts_frame talks_frame wiki_frame proposals_frame
  show "keeps community_ok (ReportRepo_Create p)"
    unfolding ReportRepo_Create_def
    by (rule keeps_insert) (auto simp: I table_rules reports_ok_def cmrt.unique_def intro: frame)
  show "keeps community_ok (ReportRepo_Update p)"
    unfolding ReportRepo_Update_def
    by (rule keeps_exec) (auto simp: I reports_ok_def update_where_in cmr_set_def intro!: cmrt.unique_update intro: frame)
qed

section \<open>Wiki pages and their versions\<close>

definition page_versions :: "int \<Rightarrow> database \<Rightarrow> WikiPageVersion list" where
  "page_versions p d = filter (\<lambda>v. wv_PageID v = p) (wiki_versions (community d))"

lemma next_version_numbered:
  assumes "numbered p (wiki_versions (community d))"
  shows "next_version (order_desc wv_Version (page_versions p d)) = int (length (page_versions p d)) + 1"
proof (cases "page_versions p d = []")
  case True
  then show ?thesis by (simp add: next_version_def order_desc_def)
next
  case False
  let ?xs = "page_versions p d" and ?n = "length (page_versions p d)"
  let ?ys = "sort_key wv_Version (rev ?xs)"
  have vs: "wv_Version ` set ?xs = {1..int ?n}"
  proof -
    have "map wv_Version ?xs = map (\<lambda>k. int k + 1) [0..<?n]" using assms by (simp add: numbered_def page_versions_def Let_def)
    then have "wv_Version ` set ?xs = (\<lambda>k. int k + 1) ` {0..<?n}" by (metis list.set_map set_upt)
    also have "\<dots> = {1..int ?n}"
    proof (rule set_eqI)
      show "x \<in> (\<lambda>k. int k + 1) ` {0..<?n} \<longleftrightarrow> x \<in> {1..int ?n}" for x
        by (auto intro!: image_eqI [of _ _ "nat (x - 1)"])
    qed
    finally show ?thesis .
  qed
  have ne: "?ys \<noteq> []" using False by (metis Nil_is_rev_conv set_empty set_sort)
  then obtain v where v: "last ?ys = v" "v \<in> set ?xs" by (metis last_in_set set_rev set_sort)
  have ys: "?ys = butlast ?ys @ [v]" using v(1) ne by (metis append_butlast_last_id)
  have "sorted (map wv_Version ?ys)" by simp
  then have "sorted (map wv_Version (butlast ?ys @ [v]))" using ys by simp
  then have "wv_Version x \<le> wv_Version v" if "x \<in> set (butlast ?ys @ [v])" for x
    using that by (auto simp: sorted_append)
  then have "wv_Version x \<le> wv_Version v" if "x \<in> set ?xs" for x
    using that ys by (metis set_rev set_sort)
  moreover have "int ?n \<in> wv_Version ` set ?xs" unfolding vs using False by (cases ?xs) auto
  ultimately have "int ?n \<le> wv_Version v" by auto
  moreover have "wv_Version v \<le> int ?n" using v(2) vs by (metis atLeastAtMost_iff image_eqI)
  moreover have "order_desc wv_Version ?xs = v # rev (butlast ?ys)"
    unfolding order_desc_def by (subst ys) simp
  ultimately show ?thesis by (simp add: next_version_def)
qed

lemma numbered_append:
  "numbered p vs \<Longrightarrow> (wv_PageID v = p \<Longrightarrow> wv_Version v = int (length (filter (\<lambda>x. wv_PageID x = p) vs)) + 1) \<Longrightarrow> numbered p (vs @ [v])"
  by (auto simp: numbered_def Let_def)

lemma numbered_delete: "numbered p vs \<Longrightarrow> numbered p (delete_where (\<lambda>v. wv_PageID v = i) vs)"
proof -
  have "filter (\<lambda>v. wv_PageID v = p) (delete_where (\<lambda>v. wv_PageID v = i) vs) = (if p = i then [] else filter (\<lambda>v. wv_PageID v = p) vs)"
    by (auto simp: delete_where_def filter_empty_conv intro: filter_cong)
  then show "numbered p vs \<Longrightarrow> ?thesis" by (auto simp: numbered_def Let_def)
qed

lemma community_wiki: "community_ok d \<longleftrightarrow> wiki_ok (community d)
    \<and> (posts_ok (community d) \<and> talks_ok (community d) \<and> proposals_ok (community d) \<and> reports_ok (community d))"
  by (auto simp: community_ok_def)

lemma page_delete_keeps: "keeps community_ok (WikiPageRepo_Delete i)"
  unfolding WikiPageRepo_Delete_def
proof (rule keeps_try)
  fix d a d' assume ok: "community_ok d" and "(let vs = delete_where (\<lambda>v. wv_PageID v = i) (wiki_versions (community d)) in
     checked (list_ex (\<lambda>p. wk_ID p \<noteq> i \<and> version_missing p vs) (wiki_pages (community d))) False
       ((), on_community (\<lambda>c. c\<lparr>wiki_pages := delete_where (\<lambda>r. wk_ID r = i) (wiki_pages c), wiki_versions := vs\<rparr>) d)) = Inr (a, d')"
  then have d': "d' = on_community (\<lambda>c. c\<lparr>wiki_pages := delete_where (\<lambda>r. wk_ID r = i) (wiki_pages c),
      wiki_versions := delete_where (\<lambda>v. wv_PageID v = i) (wiki_versions c)\<rparr>) d"
    by (auto simp: Let_def checked_Inr on_community_def)
  have w: "wiki_ok (community d)" using ok by (simp add: community_ok_def)
  have "\<exists>v \<in> set (wiki_versions (community d')). wv_ID v = j \<and> wv_PageID v = wk_ID p"
    if "p \<in> set (wiki_pages (community d'))" and j: "wk_CurrentVersionID p = Some j" for p j
  proof -
    have p: "p \<in> set (wiki_pages (community d))" "wk_ID p \<noteq> i" using that(1) by (auto simp: d')
    then obtain v where "v \<in> set (wiki_versions (community d))" "wv_ID v = j" "wv_PageID v = wk_ID p"
      using w j unfolding wiki_ok_def by blast
    then show ?thesis using p by (intro bexI [of _ v]) (simp_all add: d')
  qed
  moreover have "wv_PageID v \<in> wk_ID ` set (wiki_pages (community d'))" if "v \<in> set (wiki_versions (community d'))" for v
    using w that by (auto simp: d' wiki_ok_def table_rules)
  ultimately have "wiki_ok (community d')"
    using w by (simp add: wiki_ok_def) (simp add: d' distinct_delete wkt.unique_delete numbered_delete)
  then show "community_ok d'" using ok unfolding community_wiki d' by (auto intro: frames)
qed

text \<open>Creating a page leaves it without versions, since every version belongs to a page.\<close>

lemma page_create_wp:
  assumes "community_ok (db w)" and "wk_CurrentVersionID p = None"
    and "\<And>e w'. community_ok (db w') \<Longrightarrow> Q (Inl e) w'"
    and "\<And>n w'. community_ok (db w') \<Longrightarrow> page_versions n (db w') = [] \<Longrightarrow> Q (Inr (p\<lparr>wk_ID := n\<rparr>)) w'"
  shows "wp (WikiPageRepo_Create p) Q w"
proof -
  let ?d = "\<lambda>n. on_community (\<lambda>c. c\<lparr>wiki_pages := wiki_pages c @ [p\<lparr>wk_ID := n\<rparr>]\<rparr>) (db w)"
  have w: "wiki_ok (community (db w))" using assms(1) by (simp add: community_ok_def)
  have new: "community_ok (?d n) \<and> page_versions n (?d n) = []"
    if "n \<notin> wk_ID ` set (wiki_pages (community (db w)))" "\<not> slug_taken (wk_SkillID p) (wk_Slug p) n (wiki_pages (community (db w)))" for n
  proof
    have "(wk_SkillID p, wk_Slug p) \<notin> (\<lambda>p. (wk_SkillID p, wk_Slug p)) ` set (wiki_pages (community (db w)))"
      using that by (auto simp: slug_taken_def list_ex_iff image_iff)
    then have "wiki_ok (community (?d n))" using w that(1) assms(2) by (auto simp: wiki_ok_def wkt.unique_def)
    then show "community_ok (?d n)" using assms(1) unfolding community_wiki by (auto intro: frames)
    show "page_versions n (?d n) = []" using w that(1) by (force simp: wiki_ok_def page_versions_def filter_empty_conv)
  qed
  show ?thesis
    by (auto simp: WikiPageRepo_Create_def Let_def checked_def has_id_iff assms(1) new intro!: assms(3,4))
qed

lemma version_create_wp:
  assumes "community_ok (db w)" and "wv_Version v = int (length (page_versions (wv_PageID v) (db w))) + 1"
    and "\<And>e w'. community_ok (db w') \<Longrightarrow> Q (Inl e) w'"
    and "\<And>n w'. community_ok (db w') \<Longrightarrow> v\<lparr>wv_ID := n\<rparr> \<in> set (wiki_versions (community (db w'))) \<Longrightarrow> Q (Inr (v\<lparr>wv_ID := n\<rparr>)) w'"
  shows "wp (WikiVersionRepo_Create v) Q w"
proof -
  let ?d = "\<lambda>n. on_community (\<lambda>c. c\<lparr>wiki_versions := wiki_versions c @ [v\<lparr>wv_ID := n\<rparr>]\<rparr>) (db w)"
  have w: "wiki_ok (community (db w))" using assms(1) by (simp add: community_ok_def)
  have new: "community_ok (?d n)"
    if "n \<notin> wv_ID ` set (wiki_versions (community (db w)))" "wv_PageID v \<in> wk_ID ` set (wiki_pages (community (db w)))" for n
  proof -
    have "numbered p (wiki_versions (community (db w)) @ [v\<lparr>wv_ID := n\<rparr>])" for p
      by (rule numbered_append) (use w assms(2) in \<open>auto simp: wiki_ok_def page_versions_def\<close>)
    then have "wiki_ok (community (?d n))" using w that by (auto simp: wiki_ok_def)
    then show ?thesis using assms(1) unfolding community_wiki by (auto intro: frames)
  qed
  show ?thesis
    by (auto simp: WikiVersionRepo_Create_def Let_def checked_def has_id_iff assms(1) new intro!: assms(3,4))
qed

lemma slugs_update:
  assumes "distinct (map k rs)" and "distinct (map g rs)" and "\<And>r. r \<in> set rs \<Longrightarrow> k r \<noteq> i \<Longrightarrow> x \<noteq> g r"
  shows "distinct (map (\<lambda>r. if k r = i then x else g r) rs)"
  using assms by (induction rs) (auto simp: image_iff split: if_splits)

lemma page_update_wp:
  assumes "community_ok (db w)" and "wk_CurrentVersionID p = Some i"
    and "\<exists>v \<in> set (wiki_versions (community (db w))). wv_ID v = i \<and> wv_PageID v = wk_ID p"
    and "\<And>r w'. community_ok (db w') \<Longrightarrow> Q r w'"
  shows "wp (WikiPageRepo_Update p) Q w"
proof -
  let ?c = "community (db w)"
  let ?pages = "update_where (\<lambda>r. wk_ID r = wk_ID p) (wk_set p) (wiki_pages ?c)"
  let ?d = "on_community (\<lambda>c. c\<lparr>wiki_pages := update_where (\<lambda>r. wk_ID r = wk_ID p) (wk_set p) (wiki_pages c)\<rparr>) (db w)"
  have w: "wiki_ok ?c" using assms(1) by (simp add: community_ok_def)
  have "community_ok ?d"
    if free: "\<forall>r \<in> set (wiki_pages ?c). wk_ID r = wk_ID p \<longrightarrow> \<not> slug_taken (wk_SkillID r) (wk_Slug p) (wk_ID p) (wiki_pages ?c)"
  proof -
    have slugs: "distinct (map (\<lambda>r. (wk_SkillID r, wk_Slug r)) ?pages)"
    proof (cases "\<exists>r0 \<in> set (wiki_pages ?c). wk_ID r0 = wk_ID p")
      case True
      then obtain r0 where r0: "r0 \<in> set (wiki_pages ?c)" "wk_ID r0 = wk_ID p" by blast
      have same: "r = r0" if "r \<in> set (wiki_pages ?c)" "wk_ID r = wk_ID p" for r
        using wkt.key_inj [of "wiki_pages ?c"] w that r0 by (simp add: wiki_ok_def)
      have "map (\<lambda>r. (wk_SkillID r, wk_Slug r)) ?pages
          = map (\<lambda>r. if wk_ID r = wk_ID p then (wk_SkillID r0, wk_Slug p) else (wk_SkillID r, wk_Slug r)) (wiki_pages ?c)"
        unfolding update_where_def map_map using same by (intro map_cong) (auto simp: wk_set_def)
      moreover have "distinct \<dots>"
      proof (rule slugs_update)
        show "distinct (map wk_ID (wiki_pages ?c))" "distinct (map (\<lambda>r. (wk_SkillID r, wk_Slug r)) (wiki_pages ?c))"
          using w by (simp_all add: wiki_ok_def wkt.unique_def)
        have "\<not> slug_taken (wk_SkillID r0) (wk_Slug p) (wk_ID p) (wiki_pages ?c)" using free r0 by simp
        then show "(wk_SkillID r0, wk_Slug p) \<noteq> (wk_SkillID r, wk_Slug r)" if "r \<in> set (wiki_pages ?c)" "wk_ID r \<noteq> wk_ID p" for r
          using that unfolding slug_taken_def list_ex_iff by auto
      qed
      ultimately show ?thesis by simp
    next
      case False
      then have "?pages = wiki_pages ?c" by (auto simp: update_where_def intro: map_idI)
      then show ?thesis using w by (simp add: wiki_ok_def)
    qed
    have "wkt.unique ?pages" by (rule wkt.unique_update) (use w in \<open>auto simp: wiki_ok_def wk_set_def\<close>)
    moreover have "wk_ID ` set ?pages = wk_ID ` set (wiki_pages ?c)" by (rule keys_update_where) (simp add: wk_set_def)
    moreover have "\<exists>v \<in> set (wiki_versions ?c). wv_ID v = j \<and> wv_PageID v = wk_ID r"
      if "r \<in> set ?pages" "wk_CurrentVersionID r = Some j" for r j
      using that assms(2,3) w by (auto simp: update_where_in wk_set_def wiki_ok_def split: if_splits)
    ultimately have "wiki_ok (community ?d)" using w slugs by (simp add: wiki_ok_def)
    then show ?thesis using assms(1) unfolding community_wiki by (auto intro: frames)
  qed
  then show ?thesis
    using assms(1) by (auto simp: WikiPageRepo_Update_def checked_def list_ex_iff intro!: assms(4))
qed

section \<open>The service keeps its tables\<close>

definition neutral_deps :: "community_deps \<Rightarrow> bool" where
  "neutral_deps deps \<longleftrightarrow> neutral_opt (cd_events deps) \<and> neutral_opt (cd_audit deps)
     \<and> pred_option (\<lambda>f. \<forall>i. keeps_core (f i)) (cd_versions deps) \<and> pred_option (\<lambda>f. \<forall>i. keeps_core (f i)) (cd_releases deps)"

text \<open>What speaks of the community tables alone is kept by every collaborator.\<close>

definition of_community :: "(database \<Rightarrow> bool) \<Rightarrow> bool" where
  "of_community I \<longleftrightarrow> (\<forall>d d'. community d' = community d \<longrightarrow> I d' = I d)"

lemma of_community_core: "of_community I \<Longrightarrow> core d' = core d \<Longrightarrow> I d' = I d"
  unfolding of_community_def by (blast dest: core_eqD(20))

lemma of_community_ok: "of_community community_ok"
  by (simp add: of_community_def community_ok_def)

lemma keeps_core_op:
  assumes "of_community I" "keeps_core m"
  shows "keeps I m"
proof (rule keepsI)
  fix w :: world assume "I (db w)"
  then show "wp m (\<lambda>_ w'. I (db w')) w"
    by (intro keeps_coreD [OF assms(2)]) (drule of_community_core [OF assms(1)], simp)
qed

lemma keeps_community_notify:
  assumes "of_community I" "neutral_opt h"
  shows "keeps I (notify h x)"
proof (rule keepsI)
  fix w :: world assume "I (db w)"
  then show "wp (notify h x) (\<lambda>_ w'. I (db w')) w" by (intro wp_notify [OF assms(2)]) (drule of_community_core [OF assms(1)], simp)
qed

lemma keeps_publish: "of_community I \<Longrightarrow> neutral_deps deps \<Longrightarrow> keeps I (publishEvent deps ty xs)"
  by (simp add: publishEvent_def neutral_deps_def keeps_community_notify)

lemma keeps_audit: "of_community I \<Longrightarrow> neutral_deps deps \<Longrightarrow> keeps I (audit_community deps v a ty i s)"
  by (simp add: audit_community_def neutral_deps_def keeps_community_notify)

lemma keeps_linked:
  "of_community I \<Longrightarrow> neutral_deps deps \<Longrightarrow> keeps I (validateLinkedVersion deps s i)"
  "of_community I \<Longrightarrow> neutral_deps deps \<Longrightarrow> keeps I (validateLinkedRelease deps s j)"
  unfolding validateLinkedVersion_def validateLinkedRelease_def neutral_deps_def
  by (auto split: option.splits intro!: keeps_intros intro: keeps_core_op)

lemmas service_keeps = keeps_intros keeps_publish keeps_audit keeps_linked of_community_ok

lemma community_reads_keep:
  "keeps I (IssueRepo_FindByID i)" "keeps I (DiscussionRepo_FindByID i)" "keeps I (DiscCommentRepo_FindByDiscussionID i)"
  "keeps I (ProposalRepo_FindByID i)" "keeps I (ReportRepo_FindByID i)"
  unfolding community_reads by (rule keeps_intros)+

lemma issue_services_keep:
  assumes "neutral_deps deps"
  shows "keeps community_ok (CreateIssue deps v ci)" "keeps community_ok (UpdateIssue deps v ui)" "keeps community_ok (DeleteIssue v n)"
    "keeps community_ok (AddIssueComment deps v n b)" "keeps community_ok (AddIssueLabel n l)" "keeps community_ok (RemoveIssueLabel n l)"
  unfolding CreateIssue_def UpdateIssue_def DeleteIssue_def AddIssueComment_def AddIssueLabel_def RemoveIssueLabel_def
  by (intro service_keeps issue_writes community_reads_keep assms)+

lemma mark_answers_keep: "keeps community_ok (mark_answers a ms)"
proof (induction ms)
  case (Cons m ms)
  then show ?case unfolding mark_answers.simps by (intro service_keeps talk_writes)
qed (simp add: keeps_return)

lemma talk_services_keep:
  assumes "neutral_deps deps"
  shows "keeps community_ok (CreateDiscussion deps v cdi)" "keeps community_ok (UpdateDiscussion v ud)" "keeps community_ok (DeleteDiscussion v n)"
    "keeps community_ok (AddDiscussionComment deps v n b)" "keeps community_ok (AcceptAnswer deps v n a)"
    "keeps community_ok (AddDiscussionLabel n l)" "keeps community_ok (RemoveDiscussionLabel n l)"
  unfolding CreateDiscussion_def UpdateDiscussion_def DeleteDiscussion_def AddDiscussionComment_def AcceptAnswer_def
    AddDiscussionLabel_def RemoveDiscussionLabel_def
  by (intro service_keeps talk_writes community_reads_keep mark_answers_keep assms)+

lemma proposal_services_keep:
  assumes "neutral_deps deps"
  shows "keeps community_ok (CreateChangeProposal deps v pi)" "keeps community_ok (UpdateChangeProposalStatus deps v own ns up)"
    "keeps community_ok (ReportCommunityObject deps v rp)" "keeps community_ok (HandleReport deps v n st c)"
  unfolding CreateChangeProposal_def UpdateChangeProposalStatus_def ReportCommunityObject_def HandleReport_def
  by (intro service_keeps proposal_writes report_writes community_reads_keep assms)+

lemma create_page_keeps:
  assumes "neutral_deps deps"
  shows "keeps community_ok (CreateWikiPage deps v own ns inp)"
proof (rule keepsI)
  fix w :: world assume ok: "community_ok (db w)"
  have pub: "wp (publishEvent deps ty xs) (\<lambda>_ w'. community_ok (db w')) w'" if "community_ok (db w')" for ty xs w'
    using keeps_publish [OF of_community_ok assms] that by (simp add: keeps_def)
  show "wp (CreateWikiPage deps v own ns inp) (\<lambda>_ w'. community_ok (db w')) w"
    using ok
    by (auto simp: CreateWikiPage_def new_page_def new_wiki_version_def page_versions_def
        intro!: page_create_wp version_create_wp page_update_wp wp_mono [OF pub] split: sum.splits) (rule bexI [rotated], assumption, simp)
qed

lemma update_page_keeps:
  assumes "neutral_deps deps"
  shows "keeps community_ok (UpdateWikiPage deps v own ns inp)"
proof (rule keepsI)
  fix w :: world assume ok: "community_ok (db w)"
  have pub: "wp (publishEvent deps ty xs) (\<lambda>_ w'. community_ok (db w')) w'" if "community_ok (db w')" for ty xs w'
    using keeps_publish [OF of_community_ok assms] that by (simp add: keeps_def)
  have nxt: "next_version (order_desc wv_Version (filter (\<lambda>v. wv_PageID v = i) (wiki_versions (community (db w)))))
      = int (length (page_versions i (db w))) + 1" for i
    using next_version_numbered [of i "db w"] ok by (simp add: community_ok_def wiki_ok_def page_versions_def)
  show "wp (UpdateWikiPage deps v own ns inp) (\<lambda>_ w'. community_ok (db w')) w"
    using ok by (auto simp: UpdateWikiPage_def community_reads new_wiki_version_def nxt dest!: find_SomeD
        intro!: version_create_wp page_update_wp wp_mono [OF pub] split: sum.splits option.splits) (rule bexI [rotated], assumption, simp)
qed

section \<open>Any sequence of calls\<close>

inductive community_step :: "community_deps \<Rightarrow> world \<Rightarrow> world \<Rightarrow> bool" for deps where
  create_issue: "run_state (CreateIssue deps v ci) w = (r, w') \<Longrightarrow> community_step deps w w'"
| update_issue: "run_state (UpdateIssue deps v ui) w = (r, w') \<Longrightarrow> community_step deps w w'"
| delete_issue: "run_state (DeleteIssue v n) w = (r, w') \<Longrightarrow> community_step deps w w'"
| comment_issue: "run_state (AddIssueComment deps v n b) w = (r, w') \<Longrightarrow> community_step deps w w'"
| label_issue: "run_state (AddIssueLabel n l) w = (r, w') \<Longrightarrow> community_step deps w w'"
| unlabel_issue: "run_state (RemoveIssueLabel n l) w = (r, w') \<Longrightarrow> community_step deps w w'"
| create_discussion: "run_state (CreateDiscussion deps v di) w = (r, w') \<Longrightarrow> community_step deps w w'"
| update_discussion: "run_state (UpdateDiscussion v ud) w = (r, w') \<Longrightarrow> community_step deps w w'"
| delete_discussion: "run_state (DeleteDiscussion v n) w = (r, w') \<Longrightarrow> community_step deps w w'"
| comment_discussion: "run_state (AddDiscussionComment deps v n b) w = (r, w') \<Longrightarrow> community_step deps w w'"
| accept_answer: "run_state (AcceptAnswer deps v n a) w = (r, w') \<Longrightarrow> community_step deps w w'"
| label_discussion: "run_state (AddDiscussionLabel n l) w = (r, w') \<Longrightarrow> community_step deps w w'"
| unlabel_discussion: "run_state (RemoveDiscussionLabel n l) w = (r, w') \<Longrightarrow> community_step deps w w'"
| create_page: "run_state (CreateWikiPage deps v own ns cw) w = (r, w') \<Longrightarrow> community_step deps w w'"
| update_page: "run_state (UpdateWikiPage deps v own ns uw) w = (r, w') \<Longrightarrow> community_step deps w w'"
| delete_page: "run_state (DeleteWikiPage v own ns n) w = (r, w') \<Longrightarrow> community_step deps w w'"
| propose: "run_state (CreateChangeProposal deps v cpi) w = (r, w') \<Longrightarrow> community_step deps w w'"
| decide: "run_state (UpdateChangeProposalStatus deps v own ns up) w = (r, w') \<Longrightarrow> community_step deps w w'"
| report: "run_state (ReportCommunityObject deps v rp) w = (r, w') \<Longrightarrow> community_step deps w w'"
| handle: "run_state (HandleReport deps v n st c) w = (r, w') \<Longrightarrow> community_step deps w w'"
| elsewhere: "community (db w') = community (db w) \<Longrightarrow> community_step deps w w'"

lemma delete_page_keeps: "keeps community_ok (DeleteWikiPage v own ns n)"
  unfolding DeleteWikiPage_def by (intro service_keeps page_delete_keeps)

lemma step_keeps:
  assumes "neutral_deps deps" and "community_step deps w w'"
  shows "community_ok (db w) \<Longrightarrow> community_ok (db w')"
  using assms(2)
proof cases
  case elsewhere
  then show "community_ok (db w) \<Longrightarrow> community_ok (db w')" by (simp add: community_ok_def)
qed (blast intro: keepsD issue_services_keep talk_services_keep proposal_services_keep create_page_keeps update_page_keeps delete_page_keeps
    assms(1))+


definition no_deps :: community_deps where
  "no_deps = \<lparr>cd_versions = None, cd_releases = None, cd_events = None, cd_audit = None, cd_search = False\<rparr>"

definition site_admin :: Viewer where
  "site_admin = \<lparr>vw_UserID = ''usr_1'', vw_PlatformRoles = [''SUPER_ADMIN'' \<mapsto> True], vw_NamespaceRoles = Map.empty\<rparr>"

definition first_page :: CreateWikiPageInput where
  "first_page = \<lparr>cw_SkillID = 3, cw_Title = ''Home'', cw_Slug = ''home'', cw_Body = ''Hi'', cw_ChangeSummary = [], cw_LinkedSkillVersionID = None\<rparr>"

lemma neutral_no_deps: "neutral_deps no_deps"
  by (simp add: neutral_deps_def no_deps_def)

lemma community_ok_empty: "community_ok empty_db"
  by (simp add: community_ok_def empty_db_def no_community_def posts_ok_def talks_ok_def wiki_ok_def proposals_ok_def reports_ok_def
      numbered_def ist.unique_def ict.unique_def dst.unique_def dct.unique_def wkt.unique_def cpt.unique_def cmrt.unique_def)


section \<open>Accepting an answer\<close>

definition flagged :: "int \<Rightarrow> DiscussionComment \<Rightarrow> DiscussionComment" where
  "flagged a m = m\<lparr>dc_IsAnswer := (dc_ID m = a)\<rparr>"

lemma mark_answers_wp:
  assumes "dct.unique (discussion_comments (community (db w)))" and "set ms \<subseteq> set (discussion_comments (community (db w)))" and "distinct (map dc_ID ms)"
    and "\<And>e w'. Q (Inl e) w'"
    and "\<And>w'. discussions (community (db w')) = discussions (community (db w)) \<Longrightarrow>
      discussion_comments (community (db w')) = map (\<lambda>r. if r \<in> set ms then flagged a r else r) (discussion_comments (community (db w))) \<Longrightarrow> Q (Inr ()) w'"
  shows "wp (mark_answers a ms) Q w"
  using assms
proof (induction ms arbitrary: w)
  case Nil
  then show ?case by simp
next
  case (Cons m ms)
  let ?cs = "discussion_comments (community (db w))"
  have m: "m \<in> set ?cs" using Cons.prems(2) by simp
  have other: "r \<noteq> m" "r \<in> set ?cs" if "r \<in> set ms" for r using that Cons.prems(2,3) by auto
  show ?case
  proof (cases "dc_IsAnswer m = (dc_ID m = a)")
    case True
    then have "flagged a m = m" by (simp add: flagged_def)
    then have "(if r \<in> set ms then flagged a r else r) = (if r \<in> set (m # ms) then flagged a r else r)" for r by auto
    then have "wp (mark_answers a ms) Q w" using Cons.prems by (intro Cons.IH) auto
    then show ?thesis using True by simp
  next
    case False
    let ?m = "m\<lparr>dc_IsAnswer := (dc_ID m = a)\<rparr>"
    let ?up = "update_where (\<lambda>r. dc_ID r = dc_ID m) (dc_set ?m) ?cs"
    have up: "?up = map (\<lambda>r. if r = m then flagged a r else r) ?cs"
      unfolding update_where_def using dct.key_inj [OF Cons.prems(1) _ m]
      by (intro map_cong) (auto simp: dc_set_def flagged_def)
    have uniq: "dct.unique ?up" by (rule dct.unique_update [OF Cons.prems(1)]) (simp add: dc_set_def)
    have sub: "set ms \<subseteq> set ?up" unfolding up using other by force
    have fm: "flagged a m \<notin> set ms" using Cons.prems(3) by (auto simp: flagged_def) (metis DiscussionComment.select_convs(1) DiscussionComment.surjective DiscussionComment.update_convs(5) image_eqI)
    have "map (\<lambda>r. if r \<in> set ms then flagged a r else r) ?up = map (\<lambda>r. if r \<in> set (m # ms) then flagged a r else r) ?cs"
      unfolding up map_map using fm other by (intro map_cong) auto
    then have "wp (mark_answers a ms) Q (set_db (on_community (\<lambda>c. c\<lparr>discussion_comments := update_where (\<lambda>r. dc_ID r = dc_ID m) (dc_set ?m) (discussion_comments c)\<rparr>) (db w)) (advance w))"
      using uniq sub Cons.prems(3-5) by (intro Cons.IH) auto
    then show ?thesis using False Cons.prems(4) by (simp add: DiscCommentRepo_Update_def)
  qed
qed

definition accepted :: "int \<Rightarrow> int \<Rightarrow> database \<Rightarrow> database \<Rightarrow> bool" where
  "accepted did a d d' \<longleftrightarrow>
     (\<exists>x \<in> set (discussions (community d)). ds_ID x = did \<and> ds_Category x = ''QA'')
     \<and> (\<exists>x \<in> set (discussions (community d')). ds_ID x = did \<and> ds_AcceptedAnswerID x = Some a)
     \<and> (\<exists>m \<in> set (discussion_comments (community d')). dc_DiscussionID m = did \<and> dc_ID m = a)
     \<and> discussion_comments (community d') = map (\<lambda>m. if dc_DiscussionID m = did then flagged a m else m) (discussion_comments (community d))"

lemma accepted_core: "core d2 = core d1 \<Longrightarrow> accepted did a d d2 = accepted did a d d1"
  by (drule core_eqD(20)) (simp add: accepted_def)

lemma accept_answer_wp:
  assumes "neutral_deps deps" and "community_ok (db w)"
  shows "wp (AcceptAnswer deps v did a) (\<lambda>r w'. (\<exists>x. r = Inr x) \<longrightarrow> accepted did a (db w) (db w')) w"
proof -
  define Q where "Q = (\<lambda>(r :: err + Discussion) (w' :: world). (\<exists>x. r = Inr x) \<longrightarrow> accepted did a (db w) (db w'))"
  have Qe: "Q (Inl e) u" for e u by (simp add: Q_def)
  let ?cs = "discussion_comments (community (db w))"
  let ?ms = "sort_key dc_CreatedAt (filter (\<lambda>m. dc_DiscussionID m = did) ?cs)"
  have uniq: "dct.unique ?cs" using assms(2) by (simp add: community_ok_def talks_ok_def)
  have dist: "distinct (map dc_ID ?ms)"
    using uniq by (simp add: dct.unique_def distinct_map inj_on_def)
  have publish: "wp (do { _ \<leftarrow> publishEvent deps ty xs; ok y }) Q u" if "accepted did a (db w) (db u)" for ty xs y and u :: world
  proof -
    have "wp (publishEvent deps ty xs) (\<lambda>_ u'. accepted did a (db w) (db u')) u"
      unfolding publishEvent_def
      by (rule wp_notify) (use assms(1) that in \<open>auto simp: neutral_deps_def dest: accepted_core\<close>)
    then show ?thesis unfolding wp_drop by (rule wp_mono) (simp add: Q_def)
  qed
  have finish: "wp (and_then (mark_answers a ?ms) (\<lambda>_. do {
      t \<leftarrow> now;
      and_then (wrapped ''community: accept answer'' (DiscussionRepo_Update (x\<lparr>ds_AcceptedAnswerID := Some a, ds_UpdatedAt := t\<rparr>))) (\<lambda>updated. do {
        _ \<leftarrow> publishEvent deps ''community.discussion.answer_accepted'' ev;
        ok updated }) })) Q u"
    if find: "find (\<lambda>r. ds_ID r = did) (discussions (community (db w))) = Some x" and cat: "ds_Category x = ''QA''"
      and ex: "list_ex (\<lambda>m. dc_ID m = a) ?ms" and u: "db u = db w" for x ev and u :: world
  proof -
    have x: "x \<in> set (discussions (community (db w)))" "ds_ID x = did" "ds_Category x = ''QA''" using find_SomeD [OF find] cat by auto
    have m: "\<exists>m \<in> set ?ms. dc_ID m = a" using ex by (auto simp: list_ex_iff)
    have "wp (mark_answers a ?ms) (\<lambda>r w'. (\<exists>e. r = Inl e) \<or> r = Inr () \<and> discussions (community (db w')) = discussions (community (db w))
        \<and> discussion_comments (community (db w')) = map (\<lambda>r. if r \<in> set ?ms then flagged a r else r) ?cs) u"
      by (rule mark_answers_wp) (use uniq dist u in auto)
    then show ?thesis
      unfolding wp_and_then
    proof (rule wp_mono, goal_cases)
      case (1 r w')
      have cs: "map (\<lambda>r. if r \<in> set ?ms then flagged a r else r) ?cs = map (\<lambda>m. if dc_DiscussionID m = did then flagged a m else m) ?cs"
        by (rule map_cong) auto
      have "accepted did a (db w) (on_community (\<lambda>c. c\<lparr>discussions := update_where (\<lambda>r. ds_ID r = did)
          (ds_set (x\<lparr>ds_AcceptedAnswerID := Some a, ds_UpdatedAt := t\<rparr>)) (discussions c)\<rparr>) (db w'))"
        if "discussions (community (db w')) = discussions (community (db w))"
          "discussion_comments (community (db w')) = map (\<lambda>r. if r \<in> set ?ms then flagged a r else r) ?cs" for t
        unfolding accepted_def on_community_simps
      proof (intro conjI)
        obtain m' where m': "m' \<in> set ?cs" "dc_DiscussionID m' = did" "dc_ID m' = a" using m by auto
        then have "flagged a m' \<in> set (discussion_comments (community (db w')))"
          unfolding that(2) set_map by (intro image_eqI [of _ _ m']) auto
        then show "\<exists>m \<in> set (discussion_comments ((community (db w'))\<lparr>discussions := update_where (\<lambda>r. ds_ID r = did)
            (ds_set (x\<lparr>ds_AcceptedAnswerID := Some a, ds_UpdatedAt := t\<rparr>)) (discussions (community (db w')))\<rparr>)). dc_DiscussionID m = did \<and> dc_ID m = a"
          using m' by (intro bexI [of _ "flagged a m'"]) (simp_all add: flagged_def)
      qed (use x that cs in \<open>auto simp: ds_set_def intro: update_where_hit\<close>)
      then show ?case using 1 x(2)
        by (cases r) (auto simp: Qe DiscussionRepo_Update_def checked_def wp_bind [of now] simp del: wp_bind intro!: publish)
    qed
  qed
  show ?thesis
    unfolding Q_def [symmetric] AcceptAnswer_def
    by (auto simp: community_reads Qe wp_and_then [where m = "find_or m1 m2 m3" for m1 m2 m3]
        wp_and_then [where m = "wrapped m1 m2" for m1 m2] simp del: wp_and_then intro!: finish split: option.splits)
qed


definition answer_comment :: "int \<Rightarrow> bool \<Rightarrow> DiscussionComment" where
  "answer_comment i b = \<lparr>dc_ID = i, dc_DiscussionID = 4, dc_AuthorID = ''usr_2'', dc_Body = ''So'', dc_IsAnswer = b, dc_CreatedAt = i, dc_UpdatedAt = i\<rparr>"

definition question :: Discussion where
  "question = \<lparr>ds_ID = 4, ds_SkillID = 3, ds_Title = ''How'', ds_Body = [], ds_Category = ''QA'', ds_AcceptedAnswerID = Some 8,
     ds_AuthorID = ''usr_1'', ds_Locked = False, ds_Pinned = False, ds_CommentCount = 0, ds_CreatedAt = 1, ds_UpdatedAt = 1\<rparr>"

definition question_world :: world where
  "question_world = calm False (empty_db\<lparr>community := no_community\<lparr>discussions := [question],
     discussion_comments := [answer_comment 8 True, answer_comment 9 False]\<rparr>\<rparr>)"

lemma question_run: "\<exists>x w'. run_state (AcceptAnswer no_deps site_admin 4 9) question_world = (Inr x, w')"
proof -
  have "wp (AcceptAnswer no_deps site_admin 4 9) (\<lambda>r _. \<exists>x. r = Inr x) question_world"
    by (simp add: AcceptAnswer_def community_reads question_world_def question_def answer_comment_def no_community_def
        isAuthorOrSuperAdmin_def site_admin_def DiscCommentRepo_Update_def DiscussionRepo_Update_def checked_def answer_missing_def
        has_id_def discussion_categories_def update_where_def dc_set_def publishEvent_def notify_def no_deps_def)
  then show ?thesis by (auto simp: wp_def) (metis prod.collapse)
qed


section \<open>Deciding a proposal\<close>

definition decided :: "Viewer \<Rightarrow> string \<Rightarrow> int \<Rightarrow> UpdateChangeProposalInput \<Rightarrow> database \<Rightarrow> database \<Rightarrow> bool" where
  "decided v own ns inp d d' \<longleftrightarrow> proposals (community d') = proposals (community d)
     \<or> (\<exists>t p0. find (\<lambda>p. cp_ID p = up_ID inp) (proposals (community d)) = Some p0 \<and> status_denied v own ns (cp_AuthorID p0) (up_Status inp) = None
          \<and> proposals (community d') = update_where (\<lambda>p. cp_ID p = up_ID inp) (cp_set (changed_proposal v inp p0 t)) (proposals (community d)))"

lemma decided_core: "core d2 = core d1 \<Longrightarrow> decided v own ns inp d d2 = decided v own ns inp d d1"
  by (drule core_eqD(20)) (simp add: decided_def)

lemma told_wp:
  assumes "neutral_deps deps" and "\<And>u'. core (db u') = core (db u) \<Longrightarrow> Q (Inr y) u'"
  shows "wp (do { _ \<leftarrow> publishEvent deps ty xs; _ \<leftarrow> audit_community deps v act rty i s; ok y }) Q (u :: world)"
proof -
  have "wp (audit_community deps v act rty i s) (\<lambda>_. wp (ok y) Q) u1" if "core (db u1) = core (db u)" for u1
    unfolding audit_community_def by (rule wp_notify) (use assms that in \<open>auto simp: neutral_deps_def\<close>)
  then show ?thesis
    unfolding wp_bind publishEvent_def
    by (intro wp_notify) (use assms(1) in \<open>auto simp: neutral_deps_def\<close>)
qed

lemma decide_wp:
  assumes "neutral_deps deps"
  shows "wp (UpdateChangeProposalStatus deps v own ns inp) (\<lambda>r w'. decided v own ns inp (db w) (db w')) w"
proof -
  have same: "decided v own ns inp (db w) (db w)" by (simp add: decided_def)
  have told: "wp (do { _ \<leftarrow> publishEvent deps ty xs; _ \<leftarrow> audit_community deps v act rty i s; ok y })
      (\<lambda>r w'. decided v own ns inp (db w) (db w')) u" if "decided v own ns inp (db w) (db u)" for ty xs act rty i s y and u :: world
    by (rule told_wp [OF assms]) (use that decided_core in blast)
  have upd: "decided v own ns inp (db w) (on_community (\<lambda>c. c\<lparr>proposals := update_where (\<lambda>r. cp_ID r = cp_ID (changed_proposal v inp p0 t))
      (cp_set (changed_proposal v inp p0 t)) (proposals c)\<rparr>) (db w))"
    if f: "find (\<lambda>p. cp_ID p = up_ID inp) (proposals (community (db w))) = Some p0" and "status_denied v own ns (cp_AuthorID p0) (up_Status inp) = None" for p0 t
    unfolding decided_def using that find_SomeD [OF f] by (intro disjI2 exI [of _ t] exI [of _ p0]) (simp add: changed_proposal_def)
  show ?thesis
    unfolding UpdateChangeProposalStatus_def
    by (auto simp: community_reads same ProposalRepo_Update_def checked_def wp_bind [of now] simp del: wp_bind split: option.splits intro!: told upd)
qed

text \<open>C22: proposals are decided by those entitled to. Whatever statements fail, the status of a proposal only changes
  by a call for that proposal; to \<open>ACCEPTED\<close> or \<open>REJECTED\<close> only for a maintainer of the skill (its owner, an admin or owner of its
  namespace, a super admin), and to \<open>WITHDRAWN\<close> only for the proposal's author or a super admin.\<close>

theorem proposal_decisions_are_guarded:
  assumes "neutral_deps deps" and "community_ok (db w)" and "run_state (UpdateChangeProposalStatus deps v own ns inp) w = (r, w')"
    and "p \<in> set (proposals (community (db w)))" and "p' \<in> set (proposals (community (db w')))"
    and "cp_ID p' = cp_ID p" and "cp_Status p' \<noteq> cp_Status p"
  shows "cp_ID p = up_ID inp \<and> up_Status inp = Some (cp_Status p')
    \<and> (cp_Status p' \<in> {''ACCEPTED'', ''REJECTED''} \<longrightarrow> isMaintainer v own ns)
    \<and> (cp_Status p' = ''WITHDRAWN'' \<longrightarrow> isAuthorOrSuperAdmin v (cp_AuthorID p))"
proof -
  have uniq: "cpt.unique (proposals (community (db w)))" using assms(2) by (simp add: community_ok_def proposals_ok_def)
  have same: "q = p" if "q \<in> set (proposals (community (db w)))" "cp_ID q = cp_ID p" for q
    using cpt.key_inj [OF uniq that(1) assms(4)] that(2) by simp
  have "decided v own ns inp (db w) (db w')" using wpD [OF assms(3) decide_wp [OF assms(1)]] .
  moreover have "proposals (community (db w')) \<noteq> proposals (community (db w))" using same [of p'] assms(5-7) by auto
  ultimately obtain t p0 where f: "find (\<lambda>p. cp_ID p = up_ID inp) (proposals (community (db w))) = Some p0"
      "status_denied v own ns (cp_AuthorID p0) (up_Status inp) = None"
      "proposals (community (db w')) = update_where (\<lambda>p. cp_ID p = up_ID inp) (cp_set (changed_proposal v inp p0 t)) (proposals (community (db w)))"
    by (auto simp: decided_def)
  have "cp_ID p = up_ID inp" using assms(5,6,7) same unfolding f(3) by (auto simp: update_where_in cp_set_def split: if_splits)
  then have "p0 = p" using find_SomeD [OF f(1)] same by simp
  then show ?thesis using assms(5,6,7) same f(2) unfolding f(3)
    by (auto simp: update_where_in cp_set_def changed_proposal_def or_old_def status_denied_def split: if_splits option.splits)
qed

definition a_proposal :: "string \<Rightarrow> ChangeProposal" where
  "a_proposal status = \<lparr>cp_ID = 5, cp_SkillID = 3, cp_Title = ''T'', cp_Summary = [], cp_ProposedChangesJSON = ''{}'', cp_Status = status,
     cp_AuthorID = ''usr_2'', cp_ReviewerID = None, cp_SourceGitRef = None, cp_ReviewComment = [], cp_CreatedAt = 1, cp_UpdatedAt = 1\<rparr>"

definition proposal_world :: "string \<Rightarrow> world" where
  "proposal_world status = calm False (empty_db\<lparr>community := no_community\<lparr>proposals := [a_proposal status]\<rparr>\<rparr>)"

definition decision :: "string \<Rightarrow> UpdateChangeProposalInput" where
  "decision s = \<lparr>up_ID = 5, up_Status = Some s, up_Comment = []\<rparr>"

lemma decision_run:
  "proposals (community (db (snd (run_state (UpdateChangeProposalStatus no_deps site_admin ''usr_9'' 7 (decision ''ACCEPTED'')) (proposal_world ''OPEN'')))))
     = [(a_proposal ''ACCEPTED'')\<lparr>cp_UpdatedAt := 1001\<rparr>]"
proof -
  have "wp (UpdateChangeProposalStatus no_deps site_admin ''usr_9'' 7 (decision ''ACCEPTED''))
      (\<lambda>_ w'. proposals (community (db w')) = [(a_proposal ''ACCEPTED'')\<lparr>cp_UpdatedAt := 1001\<rparr>]) (proposal_world ''OPEN'')"
    by (simp add: UpdateChangeProposalStatus_def community_reads proposal_world_def decision_def a_proposal_def no_community_def status_denied_def
        isMaintainer_def isSuperAdmin_def HasPlatformRole_def site_admin_def ProposalRepo_Update_def checked_def has_id_def proposal_statuses_def
        changed_proposal_def or_old_def update_where_def cp_set_def publishEvent_def audit_community_def notify_def no_deps_def advance_def stmt_fails_def)
  then show ?thesis by (simp add: wp_def)
qed

theorem proposal_decisions_are_guarded_witness:
  "isMaintainer site_admin ''usr_9'' 7 \<and> up_Status (decision ''ACCEPTED'') = Some ''ACCEPTED''"
proof -
  obtain r w' where run: "run_state (UpdateChangeProposalStatus no_deps site_admin ''usr_9'' 7 (decision ''ACCEPTED'')) (proposal_world ''OPEN'') = (r, w')"
    by (metis prod.collapse)
  have ok: "community_ok (db (proposal_world ''OPEN''))"
    by (simp add: proposal_world_def community_ok_def empty_db_def no_community_def posts_ok_def talks_ok_def wiki_ok_def proposals_ok_def
        reports_ok_def numbered_def ist.unique_def ict.unique_def dst.unique_def dct.unique_def wkt.unique_def cpt.unique_def cmrt.unique_def
        a_proposal_def proposal_statuses_def)
  have "(a_proposal ''ACCEPTED'')\<lparr>cp_UpdatedAt := 1001\<rparr> \<in> set (proposals (community (db w')))" using decision_run run by simp
  then show ?thesis
    using proposal_decisions_are_guarded [OF neutral_no_deps ok run, of "a_proposal ''OPEN''" "(a_proposal ''ACCEPTED'')\<lparr>cp_UpdatedAt := 1001\<rparr>"]
    by (simp add: proposal_world_def a_proposal_def)
qed

text \<open>Anybody reopens a decided proposal. The switch has no branch for \<open>OPEN\<close>, so any viewer at all, with no role
  and no part in the proposal, can put an accepted, rejected or withdrawn one back to \<open>OPEN\<close>, leaving a comment as its
  reviewer.\<close>

theorem anyone_reopens_a_proposal:
  assumes "healthy w" and "neutral_deps deps" and "find (\<lambda>p. cp_ID p = i) (proposals (community (db w))) = Some p"
  shows "case run_state (UpdateChangeProposalStatus deps v own ns \<lparr>up_ID = i, up_Status = Some ''OPEN'', up_Comment = c\<rparr>) w of (r, w') \<Rightarrow>
    (\<exists>q. r = Inr q) \<and> (\<exists>p' \<in> set (proposals (community (db w'))). cp_ID p' = i \<and> cp_Status p' = ''OPEN'')"
proof -
  let ?inp = "\<lparr>up_ID = i, up_Status = Some ''OPEN'', up_Comment = c\<rparr>"
  have p: "p \<in> set (proposals (community (db w)))" "cp_ID p = i" using find_SomeD [OF assms(3)] by auto
  have hit: "\<exists>p' \<in> set (update_where (\<lambda>r. cp_ID r = i) (cp_set (changed_proposal v ?inp p t)) (proposals (community (db w)))). cp_ID p' = i \<and> cp_Status p' = ''OPEN''" for t
    by (rule update_where_hit [OF p(1)]) (use p(2) in \<open>simp_all add: cp_set_def changed_proposal_def or_old_def\<close>)
  have told: "wp (do { _ \<leftarrow> publishEvent deps ty xs; _ \<leftarrow> audit_community deps v act rty k s; ok y })
      (\<lambda>r w'. (\<exists>q. r = Inr q) \<and> (\<exists>p' \<in> set (proposals (community (db w'))). cp_ID p' = i \<and> cp_Status p' = ''OPEN'')) u"
    if "\<exists>p' \<in> set (proposals (community (db u))). cp_ID p' = i \<and> cp_Status p' = ''OPEN''" for ty xs act rty k s y and u :: world
  proof (rule told_wp [OF assms(2)])
    fix u' assume "core (db u') = core (db u)"
    then have "community (db u') = community (db u)" by (rule core_eqD(20))
    then show "(\<exists>q. Inr y = Inr q) \<and> (\<exists>p' \<in> set (proposals (community (db u'))). cp_ID p' = i \<and> cp_Status p' = ''OPEN'')"
      using that by simp
  qed
  have id: "cp_ID (changed_proposal v ?inp p t) = i" "cp_Status (changed_proposal v ?inp p t) = ''OPEN''" for t
    using p(2) by (simp_all add: changed_proposal_def or_old_def)
  have "wp (UpdateChangeProposalStatus deps v own ns ?inp)
      (\<lambda>r w'. (\<exists>q. r = Inr q) \<and> (\<exists>p' \<in> set (proposals (community (db w'))). cp_ID p' = i \<and> cp_Status p' = ''OPEN'')) w"
    unfolding UpdateChangeProposalStatus_def using assms(1,3)
    by (auto simp: community_reads status_denied_def ProposalRepo_Update_def checked_def proposal_statuses_def id wp_bind [of now]
        simp del: wp_bind intro!: told hit)
  then show ?thesis by (simp add: wp_def split_beta)
qed

definition nobody :: Viewer where
  "nobody = \<lparr>vw_UserID = ''usr_x'', vw_PlatformRoles = Map.empty, vw_NamespaceRoles = Map.empty\<rparr>"

theorem anyone_reopens_a_proposal_witness:
  "\<exists>q. fst (run_state (UpdateChangeProposalStatus no_deps nobody ''usr_9'' 7 \<lparr>up_ID = 5, up_Status = Some ''OPEN'', up_Comment = []\<rparr>) (proposal_world ''REJECTED'')) = Inr q"
  using anyone_reopens_a_proposal [of "proposal_world ''REJECTED''" no_deps 5 "a_proposal ''REJECTED''" nobody "''usr_9''" 7 "[]"]
  by (auto simp: neutral_no_deps proposal_world_def a_proposal_def split: prod.splits)

section \<open>Searching\<close>

lemma add_counts_wp: "wp (add_counts qs acc) (\<lambda>r w'. db w' = db w \<and> (\<forall>n. r = Inr n \<longrightarrow> n = acc + (\<Sum>(t, f) \<leftarrow> qs. f (db w)))) w"
proof (induction qs arbitrary: acc w)
  case (Cons q qs)
  obtain t f where q: "q = (t, f)" by (cases q)
  have "wp (add_counts qs (acc + f (db w))) (\<lambda>r w'. db w' = db w \<and> (\<forall>n. r = Inr n \<longrightarrow> n = acc + (f (db w) + (\<Sum>(t, f) \<leftarrow> qs. f (db w))))) (advance w)"
    using Cons.IH [of "acc + f (db w)" "advance w"] by (simp add: add.assoc)
  then show ?case by (simp add: q)
qed simp

lemma counts_are_parts:
  "(\<Sum>(t, f) \<leftarrow> filter (\<lambda>(t, _). useTable types t) (count_queries skill q). f d) = int (length (search_rows skill q types d))"
  by (auto simp: count_queries_def search_rows_def search_parts_def Let_def count_rows_def)



section \<open>Locks\<close>

text \<open>A locked issue takes comments from anybody all the same.\<close>

lemma locked_issue_takes_comments:
  assumes "healthy w" and "neutral_deps deps" and "find (\<lambda>i. is_ID i = n) (issues (community (db w))) = Some i"
    and "is_Locked i" and "body \<noteq> []" and "\<forall>m \<in> set (issue_comments (community (db w))). ic_ID m \<le> seqs w ''skill_issue_comment_id_seq''"
  shows "wp (AddIssueComment deps v n body) (\<lambda>r _. \<exists>c. r = Inr c) w"
proof -
  have "has_id is_ID n (issues (community (db w)))" using find_SomeD [OF assms(3)] by (auto simp: has_id_iff)
  moreover have "\<not> has_id ic_ID (next_id ''skill_issue_comment_id_seq'' w) (issue_comments (community (db w)))"
    using assms(6) by (auto simp: has_id_def list_ex_iff next_id_def)
  ultimately show ?thesis using assms
    by (simp add: AddIssueComment_def community_reads IssueCommentRepo_Create_def checked_def Let_def) (rule wp_mono [OF wp_True], simp)
qed

section \<open>Posts of others\<close>

text \<open>Posts belong to their authors. For a viewer who is neither its author nor a super admin, every operation that
  changes or deletes an issue or a discussion, or accepts an answer in it, reports an error and leaves the database as it
  is, whatever statements fail.\<close>

theorem posts_belong_to_their_authors:
  assumes "\<not> isSuperAdmin v"
    and "\<forall>i \<in> set (issues (community (db w))). is_ID i = n \<longrightarrow> is_AuthorID i \<noteq> vw_UserID v"
    and "\<forall>x \<in> set (discussions (community (db w))). ds_ID x = n \<longrightarrow> ds_AuthorID x \<noteq> vw_UserID v"
    and "ui_ID ui = n" and "ud_ID ud = n"
  shows "(case run_state (UpdateIssue deps v ui) w of (r, w') \<Rightarrow> (\<exists>e. r = Inl e) \<and> db w' = db w)
    \<and> (case run_state (DeleteIssue v n) w of (r, w') \<Rightarrow> (\<exists>e. r = Inl e) \<and> db w' = db w)
    \<and> (case run_state (UpdateDiscussion v ud) w of (r, w') \<Rightarrow> (\<exists>e. r = Inl e) \<and> db w' = db w)
    \<and> (case run_state (DeleteDiscussion v n) w of (r, w') \<Rightarrow> (\<exists>e. r = Inl e) \<and> db w' = db w)
    \<and> (case run_state (AcceptAnswer deps v n a) w of (r, w') \<Rightarrow> (\<exists>e. r = Inl e) \<and> db w' = db w)"
proof -
  have i: "\<not> isAuthorOrSuperAdmin v (is_AuthorID i)" if "find (\<lambda>r. is_ID r = n) (issues (community (db w))) = Some i" for i
    using find_SomeD [OF that] assms(1,2) by (auto simp: isAuthorOrSuperAdmin_def)
  have x: "\<not> isAuthorOrSuperAdmin v (ds_AuthorID x)" if "find (\<lambda>r. ds_ID r = n) (discussions (community (db w))) = Some x" for x
    using find_SomeD [OF that] assms(1,3) by (auto simp: isAuthorOrSuperAdmin_def)
  let ?Q = "\<lambda>r w'. (\<exists>e. r = Inl e) \<and> db w' = db w"
  have "wp (UpdateIssue deps v ui) ?Q w" "wp (DeleteIssue v n) ?Q w" "wp (UpdateDiscussion v ud) ?Q w" "wp (DeleteDiscussion v n) ?Q w"
      "wp (AcceptAnswer deps v n a) ?Q w"
    by (simp_all add: UpdateIssue_def DeleteIssue_def UpdateDiscussion_def DeleteDiscussion_def AcceptAnswer_def community_reads
        assms(4,5) i x split: option.split)
  then show ?thesis by (simp add: wp_def split_beta)
qed

theorem posts_belong_to_their_authors_witness:
  "\<exists>e. fst (run_state (DeleteDiscussion nobody 4) question_world) = Inl e"
  using posts_belong_to_their_authors [of nobody question_world 4 "\<lparr>ui_ID = 4, ui_Title = None, ui_Body = None, ui_Status = None,
      ui_AssigneeID = None, ui_LinkedVersionID = None, ui_LinkedReleaseID = None, ui_Locked = None\<rparr>"
      "\<lparr>ud_ID = 4, ud_Title = None, ud_Body = None, ud_Category = None, ud_Locked = None, ud_Pinned = None\<rparr>" no_deps 0]
  by (simp add: question_world_def question_def no_community_def nobody_def isSuperAdmin_def HasPlatformRole_def split_beta)

end
