(* ===== verification/Http.thy ===== *)
theory Http
  imports Auth PackageKit
begin

text \<open>
  What all HTTP handlers share: requests, replies and the caller's principal
  (\<open>internal/http/middleware\<close>), and the numbers of \<open>strconv\<close> in paths and queries.

  \<^item> A \<open>request\<close> is what a handler reads of \<open>http.Request\<close>: path values, query values, the
    session cookie, the \<open>Authorization\<close> header and the decoded JSON body, which is \<open>None\<close> where
    \<open>json.NewDecoder(...).Decode\<close> reports an error.
  \<^item> A \<open>reply\<close> is what it writes: \<open>Replied\<close> a value by \<open>WriteJSON\<close>, \<open>Refused\<close> a map
    with an \<open>error\<close> text by the same \<open>WriteJSON\<close>, \<open>Errored\<close> an error by \<open>WriteError\<close>,
    \<open>Limited\<close> by the rate limiter, \<open>Crashed\<close> for a panic of the handler. Empty and nil slices
    are not told apart.
  \<^item> The session store (Redis) and the rate limiter are parameters.
\<close>

section \<open>Requests and replies\<close>

record Principal =
  pp_UserID :: string
  pp_UserDisplayName :: string
  pp_Email :: string
  pp_AuthMethod :: string
  pp_TokenID :: "int option"
  pp_TokenScopes :: "string list"
  pp_PlatformRoles :: "string \<rightharpoonup> bool"
  pp_NamespaceRoles :: "int \<rightharpoonup> string"
  pp_MemberNamespaceIDs :: "int list"
  pp_AdminNamespaceIDs :: "int list"
  pp_IsAuthenticated :: bool

definition Anonymous :: Principal where
  "Anonymous = \<lparr> pp_UserID = [], pp_UserDisplayName = [], pp_Email = [], pp_AuthMethod = [], pp_TokenID = None, pp_TokenScopes = [],
     pp_PlatformRoles = Map.empty, pp_NamespaceRoles = Map.empty, pp_MemberNamespaceIDs = [], pp_AdminNamespaceIDs = [],
     pp_IsAuthenticated = False \<rparr>"

definition Principal_HasPlatformRole :: "Principal \<Rightarrow> string \<Rightarrow> bool" where
  "Principal_HasPlatformRole p role = (pp_PlatformRoles p role = Some True)"

definition Principal_NamespaceRole :: "Principal \<Rightarrow> int \<Rightarrow> string" where
  "Principal_NamespaceRole p namespaceID = (case pp_NamespaceRoles p namespaceID of Some r \<Rightarrow> r | None \<Rightarrow> [])"

definition IsMemberOf :: "Principal \<Rightarrow> int \<Rightarrow> bool" where
  "IsMemberOf p namespaceID \<longleftrightarrow> pp_NamespaceRoles p namespaceID \<noteq> None"

text \<open>The platform roles as the services read them.\<close>

definition platform_roles :: "Principal \<Rightarrow> string \<Rightarrow> bool" where
  "platform_roles p = Principal_HasPlatformRole p"

record 'b request =
  rq_Path :: "string \<Rightarrow> string"
  rq_Query :: "string \<Rightarrow> string"
  rq_Body :: "'b option"
  rq_Session :: "string option"
  rq_Authorization :: string
  rq_Principal :: "Principal option"

definition GetPrincipal :: "'b request \<Rightarrow> Principal" where
  "GetPrincipal r = (case rq_Principal r of Some p \<Rightarrow> p | None \<Rightarrow> Anonymous)"

definition SetPrincipal :: "'b request \<Rightarrow> Principal \<Rightarrow> 'b request" where
  "SetPrincipal r p = r\<lparr>rq_Principal := Some p\<rparr>"

datatype 'a reply =
    Replied int 'a
  | Refused int string
  | Errored int string err
  | Limited
  | Crashed

type_synonym 'a web = "(world, 'a reply) state"
type_synonym ('b, 'a) handler = "'b request \<Rightarrow> 'a web"

section \<open>Errors as statuses\<close>

fun as_domain :: "err \<Rightarrow> Code option" where
  "as_domain (Domain c _ _ _) = Some c"
| "as_domain (Wrapf _ _ e) = as_domain e"
| "as_domain _ = None"

fun panics :: "err \<Rightarrow> bool" where
  "panics (Panic _) = True"
| "panics (Wrapf _ _ e) = panics e"
| "panics _ = False"

text \<open>The third argument is not used, in the code either.\<close>

definition matchMsgPrefix :: "string \<Rightarrow> string \<Rightarrow> string \<Rightarrow> bool" where
  "matchMsgPrefix msg prfx kind \<longleftrightarrow> length msg > length prfx \<and> take (length prfx) msg = prfx"

definition mapError :: "err \<Rightarrow> int \<times> string" where
  "mapError e = (case as_domain e of
     Some c \<Rightarrow> (case c of
         ErrBadRequest \<Rightarrow> (400, ''bad_request'')
       | ErrUnauthorized \<Rightarrow> (401, ''unauthorized'')
       | ErrForbidden \<Rightarrow> (403, ''forbidden'')
       | ErrNotFound \<Rightarrow> (404, ''not_found'')
       | ErrConflict \<Rightarrow> (409, ''conflict'')
       | ErrInternal \<Rightarrow> (500, ''internal_error''))
   | None \<Rightarrow> (let msg = error_text e in
       if length msg \<ge> 4 \<and> matchMsgPrefix msg ''error.'' ''not_found'' then (404, ''not_found'')
       else if length msg \<ge> 4 \<and> matchMsgPrefix msg ''error.'' ''forbidden'' then (403, ''forbidden'')
       else if length msg \<ge> 4 \<and> matchMsgPrefix msg ''error.'' ''unauthorized'' then (401, ''unauthorized'')
       else if length msg \<ge> 4 \<and> matchMsgPrefix msg ''error.'' ''conflict'' then (409, ''conflict'')
       else (500, ''internal_error'')))"

definition WriteError :: "err \<Rightarrow> 'a web" where
  "WriteError e = State_Monad.return (if panics e then Crashed else Errored (fst (mapError e)) (snd (mapError e)) e)"

definition WriteJSON :: "int \<Rightarrow> 'a \<Rightarrow> 'a web" where
  "WriteJSON status v = State_Monad.return (Replied status v)"

definition refuse :: "int \<Rightarrow> string \<Rightarrow> 'a web" where
  "refuse status msg = State_Monad.return (Refused status msg)"

text \<open>\<open>x, err := m; if err != nil \{ WriteError; return \}\<close>, and \<open>x, _ := m\<close>.\<close>

definition serving :: "'x op \<Rightarrow> ('x \<Rightarrow> 'a web) \<Rightarrow> 'a web" where
  "serving m k = do { r \<leftarrow> m; (case r of Inl e \<Rightarrow> WriteError e | Inr x \<Rightarrow> k x) }"

definition ignoring :: "'x \<Rightarrow> 'x op \<Rightarrow> ('x \<Rightarrow> 'a web) \<Rightarrow> 'a web" where
  "ignoring z m k = do { r \<leftarrow> m; (case r of Inl e \<Rightarrow> (if panics e then State_Monad.return Crashed else k z) | Inr x \<Rightarrow> k x) }"

definition with_body :: "'b request \<Rightarrow> ('b \<Rightarrow> 'a web) \<Rightarrow> 'a web" where
  "with_body r k = (case rq_Body r of None \<Rightarrow> refuse 400 ''invalid request body'' | Some x \<Rightarrow> k x)"

section \<open>Numbers in paths and queries\<close>

datatype scanned = BadSyntax | OutOfRange | Scanned int

fun scan_uint :: "int \<Rightarrow> string \<Rightarrow> scanned" where
  "scan_uint n [] = Scanned n"
| "scan_uint n (c # cs) =
     (if \<not> is_digit c then BadSyntax
      else if n \<ge> 1844674407370955162 then OutOfRange
      else (let n1 = n * 10 + (int (byte c) - 48) in if n1 > 2 ^ 64 - 1 then OutOfRange else scan_uint n1 cs))"

definition with_sign :: "bool \<Rightarrow> scanned \<Rightarrow> int \<times> bool" where
  "with_sign neg r = (case r of
     BadSyntax \<Rightarrow> (0, False)
   | OutOfRange \<Rightarrow> (if neg then - (2 ^ 63) else 2 ^ 63 - 1, False)
   | Scanned u \<Rightarrow>
       if \<not> neg \<and> u \<ge> 2 ^ 63 then (2 ^ 63 - 1, False)
       else if neg \<and> u > 2 ^ 63 then (- (2 ^ 63), False)
       else (if neg then - u else u, True))"

text \<open>\<open>strconv.ParseInt(s, 10, 64)\<close>: the value, which an error comes with too, and whether it is the number written.\<close>

definition ParseInt :: "string \<Rightarrow> int \<times> bool" where
  "ParseInt s = (case s of
     [] \<Rightarrow> (0, False)
   | c # cs \<Rightarrow> (let ds = (if c = CHR ''+'' \<or> c = CHR ''-'' then cs else s) in
       with_sign (c = CHR ''-'') (if ds = [] then BadSyntax else scan_uint 0 ds)))"

text \<open>\<open>strconv.Atoi\<close> on a 64-bit machine, with the error ignored.\<close>

definition Atoi :: "string \<Rightarrow> int" where
  "Atoi s = fst (ParseInt s)"

definition with_id :: "'b request \<Rightarrow> string \<Rightarrow> string \<Rightarrow> (int \<Rightarrow> 'a web) \<Rightarrow> 'a web" where
  "with_id r nm msg k = (case ParseInt (rq_Path r nm) of (i, valid) \<Rightarrow> if valid then k i else refuse 400 msg)"

section \<open>Who is calling\<close>

record auth_middleware =
  mw_Sessions :: "(string \<Rightarrow> (world, string option) state) option"
  mw_TokenSvc :: bool
  mw_RBAC :: bool
  mw_UserRepo :: bool
  mw_NamespaceMemberRepo :: bool

text \<open>The lookups whose errors are dropped.\<close>

definition dropping :: "'x \<Rightarrow> 'x op \<Rightarrow> (world, 'x) state" where
  "dropping z m = do { r \<leftarrow> m; State_Monad.return (case r of Inl _ \<Rightarrow> z | Inr x \<Rightarrow> x) }"

definition roles_map :: "string list \<Rightarrow> string \<rightharpoonup> bool" where
  "roles_map rs = (\<lambda>r. if r \<in> set rs then Some True else None)"

definition memberships_map :: "NamespaceMember list \<Rightarrow> int \<rightharpoonup> string" where
  "memberships_map ms = fold (\<lambda>m f. f(nm_NamespaceID m \<mapsto> nm_Role m)) ms Map.empty"

definition buildPrincipal :: "auth_middleware \<Rightarrow> string \<Rightarrow> (world, Principal) state" where
  "buildPrincipal mw userID = do {
     rs \<leftarrow> (if mw_RBAC mw then dropping [] (GetUserRoleCodes userID) else State_Monad.return []);
     user \<leftarrow> (if mw_UserRepo mw then dropping None (UserRepo_FindByID userID) else State_Monad.return None);
     ms \<leftarrow> (if mw_NamespaceMemberRepo mw then dropping [] (MemberRepo_FindByUserID userID) else State_Monad.return []);
     State_Monad.return \<lparr> pp_UserID = userID,
       pp_UserDisplayName = (case user of Some u \<Rightarrow> ua_DisplayName u | None \<Rightarrow> []),
       pp_Email = (case user of Some u \<Rightarrow> ua_Email u | None \<Rightarrow> []),
       pp_AuthMethod = ''session'', pp_TokenID = None, pp_TokenScopes = [],
       pp_PlatformRoles = roles_map rs, pp_NamespaceRoles = memberships_map ms,
       pp_MemberNamespaceIDs = map nm_NamespaceID ms,
       pp_AdminNamespaceIDs = map nm_NamespaceID (filter (\<lambda>m. nm_Role m = ''OWNER'' \<or> nm_Role m = ''ADMIN'') ms),
       pp_IsAuthenticated = True \<rparr> }"

definition isTokenActive :: "ApiToken \<Rightarrow> (world, bool) state" where
  "isTokenActive t =
     (if at_RevokedAt t \<noteq> None then State_Monad.return False
      else (case at_ExpiresAt t of
          None \<Rightarrow> State_Monad.return True
        | Some e \<Rightarrow> do { n \<leftarrow> now; State_Monad.return (\<not> e < n) }))"

definition of_token :: "ApiToken \<Rightarrow> Principal \<Rightarrow> Principal" where
  "of_token tok p = p\<lparr>pp_AuthMethod := ''bearer_token'', pp_TokenID := Some (at_ID tok), pp_TokenScopes := ParseScopes (at_ScopeJSON tok)\<rparr>"

definition bearer :: "auth_middleware \<Rightarrow> string \<Rightarrow> (world, Principal) state" where
  "bearer mw authHeader =
     (if mw_TokenSvc mw \<and> HasPrefix authHeader ''Bearer '' then do {
        tok \<leftarrow> dropping None (ValidateToken (TrimPrefix authHeader ''Bearer ''));
        (case tok of
          None \<Rightarrow> State_Monad.return Anonymous
        | Some t \<Rightarrow> do {
            active \<leftarrow> isTokenActive t;
            if active then do { p \<leftarrow> buildPrincipal mw (at_UserID t); State_Monad.return (of_token t p) }
            else State_Monad.return Anonymous }) }
      else State_Monad.return Anonymous)"

definition authenticate :: "auth_middleware \<Rightarrow> 'b request \<Rightarrow> (world, Principal) state" where
  "authenticate mw r = do {
     user \<leftarrow> (case (mw_Sessions mw, rq_Session r) of
         (Some validate, Some c) \<Rightarrow> (if c = [] then State_Monad.return None else validate c)
       | _ \<Rightarrow> State_Monad.return None);
     (case user of
       Some userID \<Rightarrow> buildPrincipal mw userID
     | None \<Rightarrow> bearer mw (rq_Authorization r)) }"

definition Authenticate :: "auth_middleware \<Rightarrow> ('b, 'a) handler \<Rightarrow> ('b, 'a) handler" where
  "Authenticate mw k = (\<lambda>r. do { p \<leftarrow> authenticate mw r; k (SetPrincipal r p) })"

definition RequireAuth :: "('b, 'a) handler \<Rightarrow> ('b, 'a) handler" where
  "RequireAuth k = (\<lambda>r. if \<not> pp_IsAuthenticated (GetPrincipal r)
     then State_Monad.return (Errored 401 ''unauthorized'' (Errs ''authentication required'')) else k r)"

definition RequirePlatformRole :: "string \<Rightarrow> ('b, 'a) handler \<Rightarrow> ('b, 'a) handler" where
  "RequirePlatformRole role k = (\<lambda>r. if \<not> Principal_HasPlatformRole (GetPrincipal r) role
     then State_Monad.return (Errored 403 ''forbidden'' (Errs (''forbidden: requires '' @ role))) else k r)"

text \<open>The rate limiter says whether a request of a category may pass.\<close>

type_synonym limiter = "string \<Rightarrow> (world, bool) state"

definition Limit :: "limiter \<Rightarrow> string \<Rightarrow> ('b, 'a) handler \<Rightarrow> ('b, 'a) handler" where
  "Limit rl category k = (\<lambda>r. do { allowed \<leftarrow> rl category; if allowed then k r else State_Monad.return Limited })"

text \<open>The helpers of the route tables.\<close>

definition optAuth :: "auth_middleware option \<Rightarrow> ('b, 'a) handler \<Rightarrow> ('b, 'a) handler" where
  "optAuth authMW k = (case authMW of Some mw \<Rightarrow> Authenticate mw k | None \<Rightarrow> k)"

definition withLimit :: "limiter option \<Rightarrow> string \<Rightarrow> ('b, 'a) handler \<Rightarrow> ('b, 'a) handler" where
  "withLimit rl category k = (case rl of Some l \<Rightarrow> Limit l category k | None \<Rightarrow> k)"

text \<open>Routes that need a caller use the middleware without asking whether there is one.\<close>

definition mustAuth :: "auth_middleware option \<Rightarrow> ('b, 'a) handler \<Rightarrow> ('b, 'a) handler" where
  "mustAuth authMW k = (case authMW of Some mw \<Rightarrow> Authenticate mw (RequireAuth k) | None \<Rightarrow> (\<lambda>_. State_Monad.return Crashed))"

section \<open>Rules\<close>

lemma wp_web [simp]:
  "wp (WriteError e) Q w = Q (if panics e then Crashed else Errored (fst (mapError e)) (snd (mapError e)) e) w"
  "wp (WriteJSON st v) Q w = Q (Replied st v) w" "wp (refuse st msg) Q w = Q (Refused st msg) w"
  by (simp_all add: WriteError_def WriteJSON_def refuse_def)

lemma wp_serving [simp]:
  "wp (serving m k) Q w = wp m (\<lambda>r w'. case r of Inl e \<Rightarrow> wp (WriteError e) Q w' | Inr x \<Rightarrow> wp (k x) Q w') w"
  by (simp add: wp_def serving_def split_beta split: sum.splits)

lemma wp_ignoring [simp]:
  "wp (ignoring z m k) Q w = wp m (\<lambda>r w'. case r of Inl e \<Rightarrow> if panics e then Q Crashed w' else wp (k z) Q w' | Inr x \<Rightarrow> wp (k x) Q w') w"
  by (simp add: wp_def ignoring_def split_beta split: sum.splits)

lemma wp_with_body [simp]:
  "wp (with_body r k) Q w = (case rq_Body r of None \<Rightarrow> Q (Refused 400 ''invalid request body'') w | Some x \<Rightarrow> wp (k x) Q w)"
  by (simp add: with_body_def split: option.splits)

lemma wp_with_id [simp]:
  "wp (with_id r nm msg k) Q w = (case ParseInt (rq_Path r nm) of (i, valid) \<Rightarrow> if valid then wp (k i) Q w else Q (Refused 400 msg) w)"
  by (simp add: with_id_def split: prod.splits)

lemma wp_dropping [simp]:
  "wp (dropping z m) Q w = wp m (\<lambda>r w'. Q (case r of Inl _ \<Rightarrow> z | Inr x \<Rightarrow> x) w') w"
  by (simp add: wp_def dropping_def split_beta)

text \<open>An operation that only reads: no table and no sequence changes.\<close>

definition reads :: "(world, 'a) state \<Rightarrow> bool" where
  "reads m \<longleftrightarrow> (\<forall>w. wp m (\<lambda>_ w'. db w' = db w) w)"

lemma readsD: "reads m \<Longrightarrow> run_state m w = (r, w') \<Longrightarrow> db w' = db w"
  unfolding reads_def by (blast dest: wpD)

lemma reads_wp: "reads m \<Longrightarrow> (\<And>r w'. db w' = db w \<Longrightarrow> Q r w') \<Longrightarrow> wp m Q w"
  unfolding reads_def by (blast intro: wp_mono)

lemma reads_bind: "reads m \<Longrightarrow> (\<And>r. reads (f r)) \<Longrightarrow> reads (State_Monad.bind m f)"
  unfolding reads_def wp_bind by (fastforce elim: wp_mono)

lemma reads_return: "reads (State_Monad.return x)" and reads_now: "reads now"
  and reads_query: "reads (db_query f)" and reads_row: "reads (query_row g)"
  by (auto simp: reads_def split: option.splits)

lemma reads_dropping: "reads m \<Longrightarrow> reads (dropping z m)"
  unfolding dropping_def by (intro reads_bind reads_return)

lemma reads_if: "(b \<Longrightarrow> reads m) \<Longrightarrow> (\<not> b \<Longrightarrow> reads n) \<Longrightarrow> reads (if b then m else n)"
  by simp

lemma reads_sum: "(\<And>e. r = Inl e \<Longrightarrow> reads (f e)) \<Longrightarrow> (\<And>x. r = Inr x \<Longrightarrow> reads (g x)) \<Longrightarrow> reads (case r of Inl e \<Rightarrow> f e | Inr x \<Rightarrow> g x)"
  by (simp split: sum.splits)

lemma reads_option: "(r = None \<Longrightarrow> reads m) \<Longrightarrow> (\<And>x. r = Some x \<Longrightarrow> reads (g x)) \<Longrightarrow> reads (case r of None \<Rightarrow> m | Some x \<Rightarrow> g x)"
  by (simp split: option.splits)

lemmas reads_intros = reads_if reads_sum reads_option reads_bind reads_return reads_now reads_query reads_row reads_dropping

lemma reads_tables:
  "reads (BindingRepo_FindByUserID u)" "reads RoleRepo_FindAll" "reads (UserRepo_FindByID u)" "reads (MemberRepo_FindByUserID u)"
  "reads (TokenRepo_FindByTokenHash h)"
  by (auto simp: BindingRepo_FindByUserID_def RoleRepo_FindAll_def UserRepo_FindByID_def MemberRepo_FindByUserID_def TokenRepo_FindByTokenHash_def
      intro: reads_intros)

lemma reads_roles: "reads (GetUserRoleCodes u)"
  unfolding GetUserRoleCodes_def by (intro reads_intros reads_tables)

lemma buildPrincipal_reads: "reads (buildPrincipal mw u)"
  unfolding buildPrincipal_def by (intro reads_intros reads_tables reads_roles)

lemma bearer_reads: "reads (bearer mw h)"
  unfolding bearer_def ValidateToken_def isTokenActive_def by (intro reads_intros reads_tables buildPrincipal_reads)

text \<open>A session store that leaves the tables alone.\<close>

definition quiet_sessions :: "auth_middleware \<Rightarrow> bool" where
  "quiet_sessions mw \<longleftrightarrow> (\<forall>validate c. mw_Sessions mw = Some validate \<longrightarrow> reads (validate c))"

lemma authenticate_reads:
  assumes "quiet_sessions mw"
  shows "reads (authenticate mw r)"
proof -
  have "reads (case (mw_Sessions mw, rq_Session r) of
         (Some validate, Some c) \<Rightarrow> (if c = [] then State_Monad.return None else validate c)
       | _ \<Rightarrow> State_Monad.return None)"
    using assms by (auto simp: quiet_sessions_def reads_return split: option.splits)
  then show ?thesis unfolding authenticate_def by (intro reads_intros buildPrincipal_reads bearer_reads)
qed

section \<open>What a principal is backed by\<close>

lemma memberships_of:
  assumes "memberships_map ms n = Some role"
  shows "\<exists>m \<in> set ms. nm_NamespaceID m = n \<and> nm_Role m = role"
proof -
  have "fold (\<lambda>m f. f(nm_NamespaceID m \<mapsto> nm_Role m)) ms f n = Some role \<Longrightarrow>
      f n = Some role \<or> (\<exists>m \<in> set ms. nm_NamespaceID m = n \<and> nm_Role m = role)" for f
  proof (induction ms arbitrary: f)
    case (Cons m ms)
    from Cons.IH [of "f(nm_NamespaceID m \<mapsto> nm_Role m)"] Cons.prems show ?case by (auto split: if_splits)
  qed simp
  from this [of Map.empty] show ?thesis using assms by (simp add: memberships_map_def)
qed

definition granted :: "string \<Rightarrow> string \<Rightarrow> database \<Rightarrow> bool" where
  "granted u role d \<longleftrightarrow> role = ''USER'' \<or> (\<exists>b \<in> set (role_bindings (accounts d)). \<exists>ro \<in> set (role_defs (accounts d)).
     ur_UserID b = u \<and> ur_RoleID b = ro_ID ro \<and> ro_Code ro = role)"

definition backed :: "database \<Rightarrow> Principal \<Rightarrow> bool" where
  "backed d p \<longleftrightarrow> (\<forall>n role. pp_NamespaceRoles p n = Some role \<longrightarrow>
       (\<exists>m \<in> set (members d). nm_UserID m = pp_UserID p \<and> nm_NamespaceID m = n \<and> nm_Role m = role))
     \<and> (\<forall>role. Principal_HasPlatformRole p role \<longrightarrow> granted (pp_UserID p) role d)"

lemma backed_Anonymous [simp]: "backed d Anonymous"
  by (simp add: backed_def Anonymous_def Principal_HasPlatformRole_def)

lemma role_codes_granted:
  assumes "role \<in> set (role_codes (sort_key ro_Code (role_defs (accounts d))) (filter (\<lambda>b. ur_UserID b = u) (role_bindings (accounts d))))"
  shows "granted u role d"
proof -
  from assms obtain b ro where b: "b \<in> set (role_bindings (accounts d))" "ur_UserID b = u"
    and ro: "find (\<lambda>r. ro_ID r = ur_RoleID b) (rev (sort_key ro_Code (role_defs (accounts d)))) = Some ro" "role = ro_Code ro"
    by (auto simp: role_codes_def map_filter_def)
  from find_SomeD [OF ro(1)] have "ro \<in> set (role_defs (accounts d))" "ro_ID ro = ur_RoleID b" by auto
  then show ?thesis using b ro(2) unfolding granted_def by force
qed

lemma roles_granted: "wp (GetUserRoleCodes u) (\<lambda>r w'. db w' = db w \<and> (\<forall>rs. r = Inr rs \<longrightarrow> (\<forall>role \<in> set rs. granted u role (db w)))) w"
  unfolding GetUserRoleCodes_def
  by (auto simp: BindingRepo_FindByUserID_def RoleRepo_FindAll_def sorted_roles_def Let_def role_codes_granted dest: role_codes_granted
      simp: granted_def [of _ "''USER''"])

lemma buildPrincipal_backed:
  "wp (buildPrincipal mw u) (\<lambda>p w'. db w' = db w \<and> pp_UserID p = u \<and> pp_IsAuthenticated p \<and> backed (db w) p) w"
proof -
  define P where "P = (\<lambda>(p :: Principal) (w' :: world). db w' = db w \<and> pp_UserID p = u \<and> pp_IsAuthenticated p \<and> backed (db w) p)"
  have fin: "P p v" if "db v = db w" "pp_UserID p = u" "pp_IsAuthenticated p" "\<forall>role \<in> set rs. granted u role (db w)"
    "pp_PlatformRoles p = roles_map rs" "pp_NamespaceRoles p = memberships_map ms" "set ms \<subseteq> {m \<in> set (members (db w)). nm_UserID m = u}"
    for p ms rs and v :: world
    using that by (force simp: P_def backed_def Principal_HasPlatformRole_def roles_map_def dest!: memberships_of split: if_splits)
  have roles: "wp (if mw_RBAC mw then dropping [] (GetUserRoleCodes u) else State_Monad.return [])
      (\<lambda>rs w'. db w' = db w \<and> (\<forall>role \<in> set rs. granted u role (db w))) w"
    by (cases "mw_RBAC mw") (simp_all, rule wp_mono [OF roles_granted], auto split: sum.splits)
  have user: "wp (if mw_UserRepo mw then dropping None (UserRepo_FindByID u) else State_Monad.return None) (\<lambda>_ w'. db w' = db v) v" for v :: world
    by (rule reads_wp) (intro reads_intros reads_tables)
  have memb: "wp (if mw_NamespaceMemberRepo mw then dropping [] (MemberRepo_FindByUserID u) else State_Monad.return [])
      (\<lambda>ms w'. db w' = db v \<and> set ms \<subseteq> {m \<in> set (members (db v)). nm_UserID m = u}) v" for v :: world
    by (auto simp: MemberRepo_FindByUserID_def)
  have "wp (buildPrincipal mw u) P w"
    unfolding buildPrincipal_def wp_bind
    by (rule wp_mono [OF roles], rule wp_mono [OF user], rule wp_mono [OF memb], simp only: wp_return, rule fin) auto
  then show ?thesis by (simp add: P_def)
qed

definition token_backed :: "string \<Rightarrow> database \<Rightarrow> Principal \<Rightarrow> bool" where
  "token_backed h d p \<longleftrightarrow> p = Anonymous \<or> (\<exists>tok \<in> set (api_tokens (accounts d)).
     at_TokenHash tok = token_hash (TrimPrefix h ''Bearer '') \<and> HasPrefix h ''Bearer ''
     \<and> at_RevokedAt tok = None \<and> pp_UserID p = at_UserID tok \<and> pp_TokenID p = Some (at_ID tok))"

lemma bearer_backed: "wp (bearer mw h) (\<lambda>p w'. db w' = db w \<and> backed (db w) p \<and> token_backed h (db w) p) w"
proof -
  define P where "P = (\<lambda>(p :: Principal) (w' :: world). db w' = db w \<and> backed (db w) p \<and> token_backed h (db w) p)"
  have nobody: "P Anonymous v" if "db v = db w" for v using that by (simp add: P_def token_backed_def)
  have valid: "wp (dropping None (ValidateToken t)) (\<lambda>tok v. db v = db w \<and> (\<forall>x. tok = Some x \<longrightarrow>
      x \<in> set (api_tokens (accounts (db w))) \<and> at_TokenHash x = token_hash t)) w" for t
    by (auto simp: ValidateToken_def TokenRepo_FindByTokenHash_def dest: find_SomeD split: option.splits)
  have build: "wp (do { p \<leftarrow> buildPrincipal mw (at_UserID x); State_Monad.return (of_token x p) }) P v"
    if "x \<in> set (api_tokens (accounts (db w)))" "at_TokenHash x = token_hash (TrimPrefix h ''Bearer '')" "HasPrefix h ''Bearer ''" "at_RevokedAt x = None"
      "db v = db w" for x v
    unfolding wp_bind by (rule wp_mono [OF buildPrincipal_backed])
      (use that in \<open>auto simp: P_def token_backed_def of_token_def backed_def Principal_HasPlatformRole_def\<close>)
  have active: "wp (do { active \<leftarrow> isTokenActive x; if active then do { p \<leftarrow> buildPrincipal mw (at_UserID x); State_Monad.return (of_token x p) }
      else State_Monad.return Anonymous }) P v"
    if "x \<in> set (api_tokens (accounts (db w)))" "at_TokenHash x = token_hash (TrimPrefix h ''Bearer '')" "HasPrefix h ''Bearer ''" "db v = db w" for x v
    using build [OF that(1-3)] nobody that(4) by (auto simp: isTokenActive_def simp del: wp_bind simp: wp_bind [of "isTokenActive x" for x] wp_bind [of now] split: option.splits)
  have "wp (bearer mw h) P w"
    unfolding bearer_def
    apply (simp only: wp_if wp_bind [where m = "dropping a b" for a b] split: if_splits)
    apply (intro conjI impI)
     apply (rule wp_mono [OF valid])
     apply (auto intro!: active nobody simp del: wp_bind split: option.splits)
    done
  then show ?thesis by (simp add: P_def)
qed

lemma authenticate_backed:
  assumes "quiet_sessions mw"
  shows "wp (authenticate mw r) (\<lambda>p w'. db w' = db w \<and> backed (db w) p) w"
proof -
  have build: "wp (buildPrincipal mw u) (\<lambda>p w'. db w' = db w \<and> backed (db w) p) v" if "db v = db w" for u and v :: world
    by (rule wp_mono [OF buildPrincipal_backed]) (simp add: that)
  have bear: "wp (bearer mw h) (\<lambda>p w'. db w' = db w \<and> backed (db w) p) v" if "db v = db w" for h and v :: world
    by (rule wp_mono [OF bearer_backed]) (simp add: that)
  have session: "reads (case (mw_Sessions mw, rq_Session r) of
         (Some validate, Some c) \<Rightarrow> (if c = [] then State_Monad.return None else validate c) | _ \<Rightarrow> State_Monad.return None)"
    using assms by (auto simp: quiet_sessions_def reads_return split: option.splits)
  show ?thesis
    unfolding authenticate_def wp_bind by (rule reads_wp [OF session]) (auto simp: build bear split: option.splits)
qed

text \<open>The principals the middleware may attach to a request, on given tables.\<close>

definition caller :: "auth_middleware \<Rightarrow> 'b request \<Rightarrow> database \<Rightarrow> Principal \<Rightarrow> bool" where
  "caller mw r d p \<longleftrightarrow> (\<exists>w. db w = d \<and> p = fst (run_state (authenticate mw r) w))"

lemma caller_backed: "quiet_sessions mw \<Longrightarrow> caller mw r d p \<Longrightarrow> backed d p"
  using authenticate_backed [of mw r] unfolding caller_def wp_def by (auto simp: split_beta)

lemma authenticate_caller: "quiet_sessions mw \<Longrightarrow> wp (authenticate mw r) (\<lambda>p w'. db w' = db w \<and> caller mw r (db w) p) w"
  using authenticate_backed [of mw r w] unfolding caller_def wp_def by (auto simp: split_beta)

text \<open>C16: who a request speaks for. Whatever lookups fail, the principal that the middleware attaches to a request
  without a session is anonymous, or that of the owner of an API token whose hash is the hash of the bearer text and which
  is not revoked; and every namespace role and every platform role it carries (\<open>USER\<close> apart) is in the
  membership and role tables at that moment.\<close>

theorem principals_are_backed:
  assumes "mw_Sessions mw = None \<or> rq_Session rq = None" and "run_state (authenticate mw rq) w = (p, w')"
  shows "db w' = db w \<and> backed (db w) p \<and> (p = Anonymous \<or> (\<exists>tok \<in> set (api_tokens (accounts (db w))).
     at_TokenHash tok = token_hash (TrimPrefix (rq_Authorization rq) ''Bearer '') \<and> HasPrefix (rq_Authorization rq) ''Bearer ''
     \<and> at_RevokedAt tok = None \<and> pp_UserID p = at_UserID tok \<and> pp_TokenID p = Some (at_ID tok)))"
proof -
  have "authenticate mw rq = bearer mw (rq_Authorization rq)" using assms(1) by (auto simp: authenticate_def split: option.splits)
  then show ?thesis using wpD [OF assms(2), of "\<lambda>p w'. db w' = db w \<and> backed (db w) p \<and> token_backed (rq_Authorization rq) (db w) p"] bearer_backed
    by (simp add: token_backed_def)
qed

section \<open>A concrete caller\<close>

definition cli_token :: ApiToken where
  "cli_token = \<lparr> at_ID = 41, at_SubjectType = ''USER'', at_SubjectID = ''usr_1'', at_UserID = ''usr_1'', at_Name = ''cli'', at_TokenPrefix = ''sk_'',
     at_TokenHash = token_hash ''sk_1'', at_ScopeJSON = [], at_ExpiresAt = None, at_LastUsedAt = None, at_RevokedAt = None, at_CreatedAt = 1 \<rparr>"

definition token_db :: database where
  "token_db = empty_db\<lparr>accounts := no_accounts\<lparr>api_tokens := [cli_token]\<rparr>,
     members := [\<lparr>nm_ID = 1, nm_NamespaceID = 7, nm_UserID = ''usr_1'', nm_Role = ''ADMIN'', nm_CreatedAt = 1, nm_UpdatedAt = 1\<rparr>]\<rparr>"

definition full_middleware :: auth_middleware where
  "full_middleware = \<lparr>mw_Sessions = None, mw_TokenSvc = True, mw_RBAC = True, mw_UserRepo = True, mw_NamespaceMemberRepo = True\<rparr>"

definition cli_request :: "unit request" where
  "cli_request = \<lparr>rq_Path = (\<lambda>_. []), rq_Query = (\<lambda>_. []), rq_Body = None, rq_Session = None, rq_Authorization = ''Bearer sk_1'', rq_Principal = None\<rparr>"

theorem principals_are_backed_witness:
  "\<exists>p w'. run_state (authenticate full_middleware cli_request) (calm False token_db) = (p, w') \<and> db w' = token_db
     \<and> pp_UserID p = ''usr_1'' \<and> pp_NamespaceRoles p 7 = Some ''ADMIN'' \<and> backed token_db p"
proof -
  obtain p w' where run: "run_state (authenticate full_middleware cli_request) (calm False token_db) = (p, w')" by (metis surj_pair)
  have raw: "TrimPrefix ''Bearer sk_1'' ''Bearer '' = ''sk_1''" by (simp add: TrimPrefix_def)
  have "wp (authenticate full_middleware cli_request) (\<lambda>p _. pp_UserID p = ''usr_1'' \<and> pp_NamespaceRoles p 7 = Some ''ADMIN'') (calm False token_db)"
    by (simp add: authenticate_def full_middleware_def cli_request_def bearer_def raw ValidateToken_def TokenRepo_FindByTokenHash_def token_db_def
        no_accounts_def cli_token_def isTokenActive_def buildPrincipal_def GetUserRoleCodes_def BindingRepo_FindByUserID_def UserRepo_FindByID_def
        MemberRepo_FindByUserID_def memberships_map_def of_token_def)
  moreover have "db w' = token_db \<and> backed token_db p"
    using principals_are_backed [OF _ run] by (simp add: cli_request_def)
  ultimately show ?thesis using run by (auto dest: wpD)
qed

section \<open>Numbers and errors\<close>

lemma scan_uint_append: "scan_uint n (xs @ ys) = (case scan_uint n xs of Scanned m \<Rightarrow> scan_uint m ys | x \<Rightarrow> x)"
  by (induction n xs rule: scan_uint.induct) (simp_all add: Let_def)

lemma byte_digit: "d < 10 \<Longrightarrow> byte (char_of (48 + d)) = 48 + d"
  by (simp add: byte_def)

lemma scan_digits: "int k \<le> 2 ^ 64 - 1 \<Longrightarrow> scan_uint 0 (digits k) = Scanned (int k)"
proof (induction k rule: digits.induct)
  case (1 n)
  show ?case
  proof (cases "n < 10")
    case True
    then show ?thesis by (simp add: digits.simps [of n] byte_digit is_digit_def)
  next
    case False
    have "int (n div 10) * 10 + int (n mod 10) = int n" by (metis div_mult_mod_eq of_nat_add of_nat_mult of_nat_numeral)
    moreover have "int (n div 10) < 1844674407370955162" using 1(2) by (simp add: zdiv_int)
    moreover have "scan_uint 0 (digits (n div 10)) = Scanned (int (n div 10))" using 1(1) [OF False] 1(2) by (simp add: zdiv_int)
    ultimately show ?thesis using False 1(2) by (simp add: digits.simps [of n] scan_uint_append byte_digit is_digit_def Let_def)
  qed
qed

lemma digits_Cons: "digits n \<noteq> []" "c \<in> set (digits n) \<Longrightarrow> is_digit c"
proof -
  show "digits n \<noteq> []" by (simp add: digits.simps [of n])
  show "c \<in> set (digits n) \<Longrightarrow> is_digit c"
  proof (induction n rule: digits.induct)
    case (1 n)
    then show ?case by (cases "n < 10") (auto simp: digits.simps [of n] is_digit_def byte_digit)
  qed
qed

text \<open>The numbers in paths. \<open>ParseInt\<close> reads back what \<open>Itoa\<close> writes for every 64-bit integer, and
  whatever it accepts is a 64-bit integer; it answers 0 or a bound of the range otherwise.\<close>

theorem ParseInt_reads_itoa:
  "(- (2 ^ 63) \<le> i \<and> i < 2 ^ 63 \<longrightarrow> ParseInt (itoa i) = (i, True))
   \<and> - (2 ^ 63) \<le> fst (ParseInt s) \<and> fst (ParseInt s) < 2 ^ 63"
proof
  show "- (2 ^ 63) \<le> i \<and> i < 2 ^ 63 \<longrightarrow> ParseInt (itoa i) = (i, True)"
  proof (intro impI)
    assume i: "- (2 ^ 63) \<le> i \<and> i < 2 ^ 63"
    show "ParseInt (itoa i) = (i, True)"
    proof (cases "i < 0")
      case True
      then show ?thesis using i scan_digits [of "nat (- i)"] digits_Cons(1) [of "nat (- i)"] by (simp add: itoa_def ParseInt_def with_sign_def Let_def)
    next
      case False
      obtain c cs where d: "digits (nat i) = c # cs" using digits_Cons(1) by (cases "digits (nat i)") auto
      then have "is_digit c" using digits_Cons(2) [of c "nat i"] by simp
      then have "c \<noteq> CHR ''-''" "c \<noteq> CHR ''+''" by (auto simp: is_digit_def byte_def)
      then show ?thesis using False i scan_digits [of "nat i"] d by (simp add: itoa_def ParseInt_def with_sign_def Let_def)
    qed
  qed
  have pos: "0 \<le> n \<Longrightarrow> scan_uint n xs = Scanned u \<Longrightarrow> 0 \<le> u" for n u xs
    by (induction n xs rule: scan_uint.induct) (auto simp: Let_def is_digit_def split: if_splits)
  have "- (2 ^ 63) \<le> fst (with_sign neg (scan_uint 0 xs)) \<and> fst (with_sign neg (scan_uint 0 xs)) < 2 ^ 63" for neg xs
    using pos [of 0 xs] by (cases "scan_uint 0 xs") (auto simp: with_sign_def)
  then show "- (2 ^ 63) \<le> fst (ParseInt s) \<and> fst (ParseInt s) < 2 ^ 63"
    by (auto simp: ParseInt_def Let_def with_sign_def [of _ BadSyntax] split: list.split)
qed

theorem ParseInt_reads_itoa_witness: "ParseInt (itoa (- 42)) = (- 42, True) \<and> fst (ParseInt ''99999999999999999999'') < 2 ^ 63"
  using ParseInt_reads_itoa [of "- 42" "''99999999999999999999''"] by simp

text \<open>The texts of errors never become \<open>forbidden\<close>, \<open>unauthorized\<close> or \<open>conflict\<close>: the kind is not looked at.\<close>

lemma error_texts_are_not_found:
  "as_domain e = None \<Longrightarrow> mapError e \<in> {(404, ''not_found''), (500, ''internal_error'')}"
  by (simp add: mapError_def Let_def matchMsgPrefix_def)

section \<open>Where a handler leaves the tables\<close>

text \<open>
  \<open>ends d G m\<close>: started on the tables \<open>d\<close>, and whatever fails, \<open>m\<close> leaves tables that satisfy \<open>G\<close>. The
  rules follow the code of a handler; what it read before a step is available at that step.
\<close>

definition ends :: "database \<Rightarrow> (database \<Rightarrow> bool) \<Rightarrow> (world, 'a) state \<Rightarrow> bool" where
  "ends d G m \<longleftrightarrow> (\<forall>w. db w = d \<longrightarrow> wp m (\<lambda>_ w'. G (db w')) w)"

lemma endsI: "(\<And>w. db w = d \<Longrightarrow> wp m (\<lambda>_ w'. G (db w')) w) \<Longrightarrow> ends d G m"
  by (simp add: ends_def)

lemma endsD: "ends d G m \<Longrightarrow> run_state m w = (r, w') \<Longrightarrow> db w = d \<Longrightarrow> G (db w')"
  unfolding ends_def by (blast dest: wpD)

lemma ends_reply:
  "G d \<Longrightarrow> ends d G (State_Monad.return x)" "G d \<Longrightarrow> ends d G (WriteError e)" "G d \<Longrightarrow> ends d G (WriteJSON st v)" "G d \<Longrightarrow> ends d G (refuse st msg)"
  by (simp_all add: ends_def)

lemma ends_after:
  assumes "\<And>w. db w = d \<Longrightarrow> wp m (\<lambda>r w'. db w' = d \<and> R r) w" and "\<And>r. R r \<Longrightarrow> ends d G (f r)"
  shows "ends d G (State_Monad.bind m f)"
proof (rule endsI)
  fix w :: world assume "db w = d"
  from wp_mono [OF assms(1) [OF this]] show "wp (State_Monad.bind m f) (\<lambda>_ w'. G (db w')) w"
    unfolding wp_bind using assms(2) by (fastforce simp: ends_def)
qed

lemma ends_bind: "reads m \<Longrightarrow> (\<And>r. ends d G (f r)) \<Longrightarrow> ends d G (State_Monad.bind m f)"
  by (rule ends_after [where R = "\<lambda>_. True"]) (auto simp: reads_def)

lemma ends_served:
  assumes "\<And>w. db w = d \<Longrightarrow> wp m (\<lambda>r w'. db w' = d \<and> (\<forall>x. r = Inr x \<longrightarrow> R x)) w" and "\<And>x. R x \<Longrightarrow> ends d G (k x)" and "G d"
  shows "ends d G (serving m k)"
  unfolding serving_def by (rule ends_after [OF assms(1)]) (auto intro: assms(2,3) ends_reply split: sum.splits)

lemma ends_serving: "reads m \<Longrightarrow> (\<And>x. ends d G (k x)) \<Longrightarrow> G d \<Longrightarrow> ends d G (serving m k)"
  by (rule ends_served [where R = "\<lambda>_. True"]) (auto simp: reads_def)

lemma ends_ignoring: "reads m \<Longrightarrow> (\<And>x. ends d G (k x)) \<Longrightarrow> G d \<Longrightarrow> ends d G (ignoring z m k)"
  unfolding ignoring_def by (rule ends_bind) (auto intro: ends_reply split: sum.splits)

text \<open>The step that writes, and the answer after it.\<close>

lemma ends_write:
  assumes "\<And>w. db w = d \<Longrightarrow> wp m (\<lambda>_ w'. G (db w')) w"
  shows "ends d G (serving m (\<lambda>x. WriteJSON st (v x)))"
proof (rule endsI)
  fix w :: world assume "db w = d"
  from assms [OF this] show "wp (serving m (\<lambda>x. WriteJSON st (v x))) (\<lambda>_ w'. G (db w')) w"
    unfolding wp_serving by (rule wp_mono) (auto split: sum.splits)
qed

lemma ends_if: "(b \<Longrightarrow> ends d G m) \<Longrightarrow> (\<not> b \<Longrightarrow> ends d G n) \<Longrightarrow> ends d G (if b then m else n)"
  by simp

lemma ends_body: "(\<And>x. rq_Body r = Some x \<Longrightarrow> ends d G (k x)) \<Longrightarrow> G d \<Longrightarrow> ends d G (with_body r k)"
  by (auto simp: with_body_def intro: ends_reply split: option.splits)

lemma ends_id: "(\<And>i. ends d G (k i)) \<Longrightarrow> G d \<Longrightarrow> ends d G (with_id r nm msg k)"
  by (auto simp: with_id_def intro: ends_reply split: prod.splits)

lemma ends_authenticate:
  assumes "quiet_sessions mw" and "\<And>p. caller mw r d p \<Longrightarrow> ends d G (k (SetPrincipal r p))"
  shows "ends d G (Authenticate mw k r)"
  unfolding Authenticate_def
  by (rule ends_after [where R = "caller mw r d", OF _ assms(2)]) (use authenticate_caller [OF assms(1)] in auto)

lemma ends_required: "(pp_IsAuthenticated (GetPrincipal r) \<Longrightarrow> ends d G (k r)) \<Longrightarrow> G d \<Longrightarrow> ends d G (RequireAuth k r)"
  by (simp add: RequireAuth_def ends_reply)

lemma ends_optAuth:
  assumes "\<And>mw. authMW = Some mw \<Longrightarrow> quiet_sessions mw" and "\<And>r. ends d G (k r)"
  shows "ends d G (optAuth authMW k r)"
  using assms by (auto simp: optAuth_def intro: ends_authenticate split: option.splits)

lemma ends_mustAuth:
  assumes "\<And>mw. authMW = Some mw \<Longrightarrow> quiet_sessions mw" and "G d"
    and "\<And>mw p. authMW = Some mw \<Longrightarrow> caller mw r d p \<Longrightarrow> pp_IsAuthenticated p \<Longrightarrow> ends d G (k (SetPrincipal r p))"
  shows "ends d G (mustAuth authMW k r)"
  using assms by (auto simp: mustAuth_def GetPrincipal_def SetPrincipal_def intro!: ends_authenticate ends_required ends_reply split: option.splits)

lemma ends_limit: "(\<And>l c. rl = Some l \<Longrightarrow> reads (l c)) \<Longrightarrow> ends d G (k r) \<Longrightarrow> G d \<Longrightarrow> ends d G (withLimit rl c k r)"
  by (auto simp: withLimit_def Limit_def intro!: ends_bind ends_if ends_reply split: option.splits)

lemma GetPrincipal_Set [simp]: "GetPrincipal (SetPrincipal r p) = p" "rq_Body (SetPrincipal r p) = rq_Body r"
  "rq_Path (SetPrincipal r p) = rq_Path r" "rq_Query (SetPrincipal r p) = rq_Query r"
  by (simp_all add: GetPrincipal_def SetPrincipal_def)

lemmas ends_intros = ends_if ends_reply ends_body ends_id

section \<open>What a handler answers\<close>

text \<open>
  \<open>replies d G m\<close>: started on the tables \<open>d\<close>, the answer of \<open>m\<close> and the tables it leaves satisfy \<open>G\<close>. A \<open>G\<close> that
  only speaks of values written by \<open>WriteJSON\<close> lets every refusal pass.
\<close>

definition replies :: "database \<Rightarrow> ('a reply \<Rightarrow> database \<Rightarrow> bool) \<Rightarrow> 'a web \<Rightarrow> bool" where
  "replies d G m \<longleftrightarrow> (\<forall>w. db w = d \<longrightarrow> wp m (\<lambda>r w'. G r (db w')) w)"

definition silent :: "database \<Rightarrow> ('a reply \<Rightarrow> database \<Rightarrow> bool) \<Rightarrow> bool" where
  "silent d G \<longleftrightarrow> (\<forall>r. (\<forall>st v. r \<noteq> Replied st v) \<longrightarrow> G r d)"

lemma repliesD: "replies d G m \<Longrightarrow> run_state m w = (r, w') \<Longrightarrow> db w = d \<Longrightarrow> G r (db w')"
  unfolding replies_def by (blast dest: wpD)

lemma replies_say: "G (Replied st v) d \<Longrightarrow> replies d G (WriteJSON st v)"
  by (simp add: replies_def)

lemma replies_silent:
  assumes "silent d G"
  shows "replies d G (WriteError e)" "replies d G (refuse st msg)" "replies d G (State_Monad.return Crashed)"
    "replies d G (State_Monad.return Limited)" "replies d G (State_Monad.return (Errored st c e))"
  using assms by (simp_all add: replies_def silent_def)

lemma replies_after:
  assumes "\<And>w. db w = d \<Longrightarrow> wp m (\<lambda>r w'. db w' = d \<and> R r) w" and "\<And>r. R r \<Longrightarrow> replies d G (f r)"
  shows "replies d G (State_Monad.bind m f)"
  unfolding replies_def
proof (intro allI impI)
  fix w :: world assume "db w = d"
  from wp_mono [OF assms(1) [OF this]] show "wp (State_Monad.bind m f) (\<lambda>r w'. G r (db w')) w"
    unfolding wp_bind using assms(2) by (fastforce simp: replies_def)
qed

lemma replies_bind: "reads m \<Longrightarrow> (\<And>r. replies d G (f r)) \<Longrightarrow> replies d G (State_Monad.bind m f)"
  by (rule replies_after [where R = "\<lambda>_. True"]) (auto simp: reads_def)

lemma replies_served:
  assumes "silent d G" and "reads m" and "\<And>w. db w = d \<Longrightarrow> wp m (\<lambda>r _. \<forall>x. r = Inr x \<longrightarrow> R x) w" and "\<And>x. R x \<Longrightarrow> replies d G (k x)"
  shows "replies d G (serving m k)"
proof -
  have "wp m (\<lambda>r w'. db w' = d \<and> (\<forall>x. r = Inr x \<longrightarrow> R x)) w" if "db w = d" for w :: world
    unfolding wp_conj using assms(2) [unfolded reads_def, rule_format, of w] assms(3) [OF that] that by simp
  then show ?thesis
    unfolding serving_def by (rule replies_after) (auto intro: assms(4) replies_silent(1) [OF assms(1)] split: sum.splits)
qed

lemma replies_serving: "silent d G \<Longrightarrow> reads m \<Longrightarrow> (\<And>x. replies d G (k x)) \<Longrightarrow> replies d G (serving m k)"
  by (rule replies_served [where R = "\<lambda>_. True"]) auto

text \<open>The step that writes, and the answer after it.\<close>

lemma replies_write:
  assumes "\<And>w. db w = d \<Longrightarrow> wp m (\<lambda>r w'. case r of Inl e \<Rightarrow> G (if panics e then Crashed else Errored (fst (mapError e)) (snd (mapError e)) e) (db w')
    | Inr x \<Rightarrow> G (Replied st (v x)) (db w')) w"
  shows "replies d G (serving m (\<lambda>x. WriteJSON st (v x)))"
  unfolding replies_def wp_serving by (auto intro!: wp_mono [OF assms] split: sum.splits)

lemma replies_if: "(b \<Longrightarrow> replies d G m) \<Longrightarrow> (\<not> b \<Longrightarrow> replies d G n) \<Longrightarrow> replies d G (if b then m else n)"
  by simp

lemma replies_body: "silent d G \<Longrightarrow> (\<And>x. rq_Body r = Some x \<Longrightarrow> replies d G (k x)) \<Longrightarrow> replies d G (with_body r k)"
  by (auto simp: with_body_def intro: replies_silent split: option.splits)

lemma replies_id: "silent d G \<Longrightarrow> (\<And>i. replies d G (k i)) \<Longrightarrow> replies d G (with_id r nm msg k)"
  by (auto simp: with_id_def intro: replies_silent split: prod.splits)

lemma replies_authenticate:
  assumes "quiet_sessions mw" and "\<And>p. caller mw r d p \<Longrightarrow> replies d G (k (SetPrincipal r p))"
  shows "replies d G (Authenticate mw k r)"
  unfolding Authenticate_def
  by (rule replies_after [where R = "caller mw r d", OF _ assms(2)]) (use authenticate_caller [OF assms(1)] in auto)

lemma replies_optAuth:
  assumes "\<And>mw. authMW = Some mw \<Longrightarrow> quiet_sessions mw" and "authMW = None \<Longrightarrow> replies d G (k r)" and "\<And>mw p. authMW = Some mw \<Longrightarrow> caller mw r d p \<Longrightarrow> replies d G (k (SetPrincipal r p))"
  shows "replies d G (optAuth authMW k r)"
  using assms by (auto simp: optAuth_def intro: replies_authenticate split: option.splits)

lemma replies_mustAuth:
  assumes "silent d G" and "\<And>mw. authMW = Some mw \<Longrightarrow> quiet_sessions mw"
    and "\<And>mw p. authMW = Some mw \<Longrightarrow> caller mw r d p \<Longrightarrow> pp_IsAuthenticated p \<Longrightarrow> replies d G (k (SetPrincipal r p))"
  shows "replies d G (mustAuth authMW k r)"
  using assms by (auto simp: mustAuth_def RequireAuth_def intro!: replies_authenticate replies_silent replies_if split: option.splits)

lemma replies_limit: "silent d G \<Longrightarrow> (\<And>l c. rl = Some l \<Longrightarrow> reads (l c)) \<Longrightarrow> replies d G (k r) \<Longrightarrow> replies d G (withLimit rl c k r)"
  by (auto simp: withLimit_def Limit_def intro!: replies_bind replies_if replies_silent split: option.splits)

lemmas replies_intros = replies_if replies_silent replies_body replies_id replies_serving

end
