(* ===== verification/SkillPath.thy ===== *)
theory SkillPath
  imports Http SkillQuery
begin

text \<open>
  The skill a path names, as the handlers of \<open>internal/http/portal\<close> resolve it for the caller of the request,
  and what a caller who got one is entitled to.
\<close>

text \<open>Both handlers that resolve a skill from the path do it with the same statements.\<close>

definition path_skill :: "bool \<Rightarrow> 'b request \<Rightarrow> (SkillDetail \<Rightarrow> 'a web) \<Rightarrow> 'a web" where
  "path_skill configured r k =
     (if \<not> configured then refuse 503 ''skill service not available''
      else (let p = GetPrincipal r in
        serving (GetSkillDetail (rq_Path r ''namespace'') (rq_Path r ''slug'') (pp_UserID p) (pp_NamespaceRoles p) (platform_roles p)) k))"


section \<open>Rules\<close>

lemma reads_GetSkillDetail: "reads (GetSkillDetail ns slug user rs pr)"
  unfolding GetSkillDetail_def resolveSkill_def NamespaceRepo_FindBySlug_def SkillRepo_FindByNamespaceIDAndSlug_def
  by (intro reads_intros | simp add: reads_return split: prod.splits)+

lemma ends_path_skill: "(\<And>sk. ends d G (k sk)) \<Longrightarrow> G d \<Longrightarrow> ends d G (path_skill configured r k)"
  unfolding path_skill_def Let_def by (intro ends_intros ends_serving reads_GetSkillDetail)

text \<open>The skill is a row of the table that the caller may see.\<close>

definition visible :: "database \<Rightarrow> Principal \<Rightarrow> SkillDetail \<Rightarrow> bool" where
  "visible d p sk \<longleftrightarrow> (\<exists>s \<in> set (skills d). sk_ID s = sd_ID sk \<and> sk_OwnerID s = sd_OwnerID sk \<and> sk_NamespaceID s = sd_NamespaceID sk
     \<and> (Principal_HasPlatformRole p ''SUPER_ADMIN'' \<or> entitled (pp_UserID p) (pp_NamespaceRoles p) s))"

lemma CanAccess_cases: "CanAccess s user rs pr \<Longrightarrow> pr ''SUPER_ADMIN'' \<or> entitled user rs s"
  by (auto simp: CanAccess_def entitled_def isOwner_def isAdminOrAbove_def role_of_def split: if_splits option.splits)

lemma ends_visible_skill:
  assumes "\<And>sk. visible d (GetPrincipal r) sk \<Longrightarrow> ends d G (k sk)" and "G d"
  shows "ends d G (path_skill configured r k)"
proof -
  let ?p = "GetPrincipal r"
  have detail: "wp (GetSkillDetail a b (pp_UserID ?p) (pp_NamespaceRoles ?p) (platform_roles ?p)) (\<lambda>res w'. \<forall>sk. res = Inr sk \<longrightarrow> visible d ?p sk) w"
    if "db w = d" for a b and w :: world
    unfolding GetSkillDetail_def wp_bind
  proof (rule resolveSkill_wp)
    fix ns s and u :: world
    assume s: "prefer_own (pp_UserID ?p) (filter (\<lambda>s. sk_NamespaceID s = ns_ID ns \<and> sk_Slug s = b) (skills (db w))) = Some s"
    from prefer_own_in [OF s] have "s \<in> set (skills d)" using that by simp
    then show "wp (case Inr (ns, s) of Inl e \<Rightarrow> fail e | Inr (ns, s) \<Rightarrow>
        if ns_Status ns = ''ARCHIVED'' \<and> role_of (pp_NamespaceRoles ?p) (ns_ID ns) = [] then fail (Errorf ''error.namespace.archived %s'' [AStr a])
        else if \<not> CanAccess s (pp_UserID ?p) (pp_NamespaceRoles ?p) (platform_roles ?p) then fail (Errorf ''error.skill.access.denied %s'' [AStr b])
        else ok \<lparr>sd_ID = sk_ID s, sd_Slug = sk_Slug s, sd_DisplayName = sk_DisplayName s, sd_OwnerID = sk_OwnerID s,
          sd_Summary = sk_Summary s, sd_Visibility = sk_Visibility s, sd_Status = sk_Status s, sd_DownloadCount = sk_DownloadCount s,
          sd_StarCount = sk_StarCount s, sd_SubscriptionCount = sk_SubscriptionCount s, sd_RatingAvg = sk_RatingAvg s,
          sd_RatingCount = sk_RatingCount s, sd_Hidden = sk_Hidden s, sd_NamespaceID = sk_NamespaceID s,
          sd_CanManage = canManageSkillLifecycle s (pp_UserID ?p) (pp_NamespaceRoles ?p)\<rparr>) (\<lambda>res w'. \<forall>sk. res = Inr sk \<longrightarrow> visible d ?p sk) u"
      using that by (auto simp: visible_def platform_roles_def dest!: CanAccess_cases)
  qed simp
  have served: "wp (GetSkillDetail a b (pp_UserID ?p) (pp_NamespaceRoles ?p) (platform_roles ?p))
      (\<lambda>res w'. db w' = d \<and> (\<forall>sk. res = Inr sk \<longrightarrow> visible d ?p sk)) w" if "db w = d" for a b and w :: world
    unfolding wp_conj using detail [OF that] reads_GetSkillDetail that by (auto simp: reads_def)
  show ?thesis
    unfolding path_skill_def Let_def by (intro ends_if ends_reply assms(2)) (rule ends_served [OF served assms(1) assms(2)])
qed

lemma reads_page: "reads (page_query l off f)"
  by (simp add: reads_def page_query_def)

definition quiet_limits :: "limiter option \<Rightarrow> bool" where
  "quiet_limits rl \<longleftrightarrow> (\<forall>l c. rl = Some l \<longrightarrow> reads (l c))"

definition quiet_auth :: "auth_middleware option \<Rightarrow> bool" where
  "quiet_auth authMW \<longleftrightarrow> (\<forall>mw. authMW = Some mw \<longrightarrow> quiet_sessions mw)"

end
