(* ===== verification/Releases.thy ===== *)
theory Releases
  imports Calls Review GoStrings
begin

text \<open>
  Releases: \<open>sdk/skillhub/release/service.go\<close> over \<open>postgres/release_repo.go\<close> and the
  tables of \<open>migrations/006_releases.sql\<close>. Keys, the unique index on version and channel, the
  references to versions and skills, the cascade to assets and the references that keep a release from
  being deleted are checked here. Like most adapters, \<open>ReleaseRepo\<close> hands the driver's answer to
  a query without rows to its caller.
\<close>

section \<open>The repositories\<close>

definition rel_key :: "Release \<Rightarrow> int \<times> string" where
  "rel_key r = (rel_VersionID r, rel_Channel r)"

text \<open>The \<open>SET\<close> list of the update.\<close>

definition rel_set :: "Release \<Rightarrow> Release \<Rightarrow> Release" where
  "rel_set new old = new\<lparr>rel_ID := rel_ID old, rel_SkillID := rel_SkillID old, rel_VersionID := rel_VersionID old,
     rel_Channel := rel_Channel old, rel_PublisherID := rel_PublisherID old, rel_CreatedAt := rel_CreatedAt old\<rparr>"

interpretation relt: keyed_rows rel_ID rel_set
  by unfold_locales (simp add: rel_set_def)

interpretation relk: keyed_rows rel_key rel_set
  by unfold_locales (simp add: rel_set_def rel_key_def)

definition has_row :: "('r \<Rightarrow> 'k) \<Rightarrow> 'k \<Rightarrow> 'r list \<Rightarrow> bool" where
  "has_row k i rs = list_ex (\<lambda>r. k r = i) rs"

definition ReleaseRepo_Create :: "Release \<Rightarrow> Release op" where
  "ReleaseRepo_Create rel = db_insert ''skill_release_id_seq'' (\<lambda>n d. let row = rel\<lparr>rel_ID := n\<rparr> in
     if \<not> has_row sv_ID (rel_VersionID rel) (versions d) \<or> \<not> has_row sk_ID (rel_SkillID rel) (skills d) then Inl DbFault
     else if has_row rel_ID n (releases d) \<or> has_row rel_key (rel_key rel) (releases d) then Inl UniqueViolation
     else Inr (row, d\<lparr>releases := releases d @ [row]\<rparr>))"

definition ReleaseRepo_Update :: "Release \<Rightarrow> Release op" where
  "ReleaseRepo_Update rel0 = do {
     t \<leftarrow> now;
     (let rel = rel0\<lparr>rel_UpdatedAt := t\<rparr> in
      db_exec (\<lambda>d. (rel, d\<lparr>releases := update_where (\<lambda>r. rel_ID r = rel_ID rel) (rel_set rel) (releases d)\<rparr>))) }"

definition ReleaseRepo_FindByID :: "int \<Rightarrow> Release option op" where
  "ReleaseRepo_FindByID i = query_row (\<lambda>d. find (\<lambda>r. rel_ID r = i) (releases d))"

text \<open>\<open>ORDER BY published_at DESC NULLS LAST, created_at DESC\<close>.\<close>

definition publication_order :: "Release list \<Rightarrow> Release list" where
  "publication_order rs = (let cs = order_desc rel_CreatedAt rs in
     order_desc (\<lambda>r. case rel_PublishedAt r of Some t \<Rightarrow> t | None \<Rightarrow> 0) (filter (\<lambda>r. rel_PublishedAt r \<noteq> None) cs)
     @ filter (\<lambda>r. rel_PublishedAt r = None) cs)"

definition ReleaseRepo_FindBySkillID :: "int \<Rightarrow> Release list op" where
  "ReleaseRepo_FindBySkillID skillID = db_query (\<lambda>d. publication_order (filter (\<lambda>r. rel_SkillID r = skillID) (releases d)))"

definition ReleaseRepo_FindByVersionIDAndChannel :: "int \<Rightarrow> string \<Rightarrow> Release option op" where
  "ReleaseRepo_FindByVersionIDAndChannel versionID channel =
     query_row (\<lambda>d. find (\<lambda>r. rel_VersionID r = versionID \<and> rel_Channel r = channel) (releases d))"

text \<open>Here the order is \<open>published_at DESC\<close> alone, which puts rows without a time first.\<close>

definition newest_first :: "Release list \<Rightarrow> Release list" where
  "newest_first rs = filter (\<lambda>r. rel_PublishedAt r = None) rs
     @ order_desc (\<lambda>r. case rel_PublishedAt r of Some t \<Rightarrow> t | None \<Rightarrow> 0) (filter (\<lambda>r. rel_PublishedAt r \<noteq> None) rs)"

definition in_channel :: "int \<Rightarrow> string \<Rightarrow> Release \<Rightarrow> bool" where
  "in_channel skillID channel r \<longleftrightarrow> rel_SkillID r = skillID \<and> rel_Channel r = channel \<and> \<not> rel_Draft r \<and> \<not> rel_Yanked r"

definition ReleaseRepo_FindLatestStable :: "int \<Rightarrow> string \<Rightarrow> Release option op" where
  "ReleaseRepo_FindLatestStable skillID channel =
     query_row (\<lambda>d. case newest_first (filter (in_channel skillID channel) (releases d)) of [] \<Rightarrow> None | r # _ \<Rightarrow> Some r)"

text \<open>
  A release that a pipeline run, a check or an issue refers to cannot be deleted; its assets go with it.
\<close>

definition release_in_use :: "int \<Rightarrow> database \<Rightarrow> bool" where
  "release_in_use i d \<longleftrightarrow> list_ex (\<lambda>x. run_ReleaseID x = Some i) (pipeline_runs d)
     \<or> list_ex (\<lambda>c. cr_ReleaseID c = Some i) (check_runs d) \<or> list_ex (\<lambda>x. is_LinkedReleaseID x = Some i) (issues (community d))"

definition ReleaseRepo_Delete :: "int \<Rightarrow> unit op" where
  "ReleaseRepo_Delete i = db_try (\<lambda>d.
     if release_in_use i d then Inl DbFault
     else Inr ((), d\<lparr>releases := delete_where (\<lambda>r. rel_ID r = i) (releases d),
        release_assets := delete_where (\<lambda>a. ra_ReleaseID a = i) (release_assets d)\<rparr>))"

definition ReleaseRepo_ListBySkillIDPaginated :: "int \<Rightarrow> int \<Rightarrow> int \<Rightarrow> Release list op" where
  "ReleaseRepo_ListBySkillIDPaginated skillID offset limit =
     page_query limit offset (\<lambda>d. publication_order (filter (\<lambda>r. rel_SkillID r = skillID) (releases d)))"

definition ReleaseRepo_CountBySkillID :: "int \<Rightarrow> int op" where
  "ReleaseRepo_CountBySkillID skillID = db_query (\<lambda>d. int (length (filter (\<lambda>r. rel_SkillID r = skillID) (releases d))))"

definition AssetRepo_Create :: "ReleaseAsset \<Rightarrow> ReleaseAsset op" where
  "AssetRepo_Create a = db_insert ''skill_release_asset_id_seq'' (\<lambda>n d. let row = a\<lparr>ra_ID := n\<rparr> in
     if \<not> has_row rel_ID (ra_ReleaseID a) (releases d) then Inl DbFault
     else if has_row ra_ID n (release_assets d) then Inl UniqueViolation
     else Inr (row, d\<lparr>release_assets := release_assets d @ [row]\<rparr>))"

text \<open>\<open>ORDER BY name\<close>: PostgreSQL's collation is the parameter \<open>rank\<close>.\<close>

definition AssetRepo_FindByReleaseID :: "(string \<Rightarrow> int) \<Rightarrow> int \<Rightarrow> ReleaseAsset list op" where
  "AssetRepo_FindByReleaseID rank releaseID =
     db_query (\<lambda>d. sort_key (\<lambda>a. rank (ra_Name a)) (filter (\<lambda>a. ra_ReleaseID a = releaseID) (release_assets d)))"

definition AssetRepo_Delete :: "int \<Rightarrow> unit op" where
  "AssetRepo_Delete i = db_exec (\<lambda>d. ((), d\<lparr>release_assets := delete_where (\<lambda>a. ra_ID a = i) (release_assets d)\<rparr>))"

section \<open>The service\<close>

text \<open>The service holds an asset repository or none; the collation comes with it.\<close>

record release_service =
  rls_assets :: "(string \<Rightarrow> int) option"

record CreateReleaseInput =
  rc_SkillID :: int
  rc_VersionID :: int
  rc_Channel :: string
  rc_Title :: string
  rc_Notes :: string
  rc_Draft :: bool
  rc_Prerelease :: bool
  rc_PublisherID :: string
  rc_ReviewerID :: "string option"
  rc_PackageHash :: "string option"
  rc_CiCheckRunID :: "string option"

definition channel_of :: "string \<Rightarrow> string" where
  "channel_of c = (if c = [] then ''stable'' else c)"

text \<open>Whatever \<open>Draft\<close> the caller asked for, the release is created as a draft.\<close>

definition new_release :: "CreateReleaseInput \<Rightarrow> time \<Rightarrow> Release" where
  "new_release inp t = \<lparr> rel_ID = 0, rel_SkillID = rc_SkillID inp, rel_VersionID = rc_VersionID inp,
     rel_Channel = channel_of (rc_Channel inp), rel_Title = rc_Title inp, rel_Notes = rc_Notes inp, rel_Draft = True,
     rel_Prerelease = rc_Prerelease inp, rel_Yanked = False, rel_PublishedAt = None, rel_PublisherID = rc_PublisherID inp,
     rel_ReviewerID = rc_ReviewerID inp, rel_PackageHash = rc_PackageHash inp, rel_CiCheckRunID = rc_CiCheckRunID inp,
     rel_MetadataJSON = None, rel_CreatedAt = t, rel_UpdatedAt = t \<rparr>"

definition releasable :: "int \<Rightarrow> SkillVersion \<Rightarrow> unit op" where
  "releasable skillID v =
     (if sv_SkillID v \<noteq> skillID then fail (Errs ''release: version does not belong to skill'')
      else if sv_Status v \<noteq> ''PUBLISHED'' then fail (Errorf ''release: version is not published (status: %s)'' [AStr (sv_Status v)])
      else if sv_YankedAt v \<noteq> None then fail (Errs ''release: version is yanked'')
      else ok ())"

definition CreateRelease :: "CreateReleaseInput \<Rightarrow> Release op" where
  "CreateRelease inp =
     (if rc_Title inp = [] then fail (Errs ''release: title is required'')
      else and_then (find_or ''release: version lookup'' (Errs ''release: version not found'') (VersionRepo_FindByID (rc_VersionID inp))) (\<lambda>v.
        and_then (releasable (rc_SkillID inp) v) (\<lambda>_.
        and_then (wrapped ''release: check existing'' (ReleaseRepo_FindByVersionIDAndChannel (rc_VersionID inp) (channel_of (rc_Channel inp)))) (\<lambda>existing.
        if existing \<noteq> None then fail (Errorf ''release: version already has a release in channel %q'' [AStr (channel_of (rc_Channel inp))])
        else do {
          t \<leftarrow> now;
          wrapped ''release: create'' (ReleaseRepo_Create (new_release inp t)) }))))"

definition release_gone :: err where "release_gone = Errs ''release: not found''"

definition GetRelease :: "int \<Rightarrow> Release op" where
  "GetRelease i = find_or ''release: find'' release_gone (ReleaseRepo_FindByID i)"

record ListReleasesResult =
  lr_Releases :: "Release list"
  lr_TotalCount :: int
  lr_Page :: int
  lr_Size :: int

definition ListReleases :: "int \<Rightarrow> int \<Rightarrow> int \<Rightarrow> ListReleasesResult op" where
  "ListReleases skillID page0 size0 =
     (let sz = (if size0 \<le> 0 then 20 else if size0 > 100 then 100 else size0);
          page = (if page0 < 0 then 0 else page0) in
      and_then (wrapped ''release: list'' (ReleaseRepo_ListBySkillIDPaginated skillID (int64 (page * sz)) sz)) (\<lambda>rs.
      and_then (wrapped ''release: count'' (ReleaseRepo_CountBySkillID skillID)) (\<lambda>total.
      ok \<lparr>lr_Releases = rs, lr_TotalCount = total, lr_Page = page, lr_Size = sz\<rparr>)))"

definition GetLatestRelease :: "int \<Rightarrow> string \<Rightarrow> Release op" where
  "GetLatestRelease skillID channel =
     find_or ''release: find latest'' (Errs ''release: no stable release found'') (ReleaseRepo_FindLatestStable skillID (channel_of channel))"

record UpdateReleaseInput =
  ru_ID :: int
  ru_Title :: "string option"
  ru_Notes :: "string option"
  ru_Draft :: "bool option"
  ru_Prerelease :: "bool option"
  ru_Yanked :: "bool option"
  ru_ReviewerID :: "string option"

definition given :: "'a option \<Rightarrow> 'a \<Rightarrow> 'a" where
  "given new old = (case new of Some x \<Rightarrow> x | None \<Rightarrow> old)"

definition changed_release :: "UpdateReleaseInput \<Rightarrow> Release \<Rightarrow> time \<Rightarrow> Release" where
  "changed_release inp r t = r\<lparr>rel_Title := given (ru_Title inp) (rel_Title r), rel_Notes := given (ru_Notes inp) (rel_Notes r),
     rel_Draft := given (ru_Draft inp) (rel_Draft r), rel_Prerelease := given (ru_Prerelease inp) (rel_Prerelease r),
     rel_Yanked := given (ru_Yanked inp) (rel_Yanked r),
     rel_ReviewerID := (case ru_ReviewerID inp of Some x \<Rightarrow> Some x | None \<Rightarrow> rel_ReviewerID r), rel_UpdatedAt := t\<rparr>"

definition UpdateRelease :: "UpdateReleaseInput \<Rightarrow> Release op" where
  "UpdateRelease inp = and_then (GetRelease (ru_ID inp)) (\<lambda>r.
     if ru_Draft inp = Some False then fail (Errs ''release: cannot unpublish via update; use PublishRelease to go through gate enforcement'')
     else do {
       t \<leftarrow> now;
       wrapped ''release: update'' (ReleaseRepo_Update (changed_release inp r t)) })"

definition published_release :: "time \<Rightarrow> Release \<Rightarrow> Release" where
  "published_release t r = r\<lparr>rel_Draft := False, rel_PublishedAt := Some t, rel_UpdatedAt := t\<rparr>"

definition PublishRelease :: "int \<Rightarrow> Release op" where
  "PublishRelease i = and_then (GetRelease i) (\<lambda>r.
     if \<not> rel_Draft r then fail (Errs ''release: already published'')
     else do {
       t \<leftarrow> now;
       wrapped ''release: publish'' (ReleaseRepo_Update (published_release t r)) })"

definition only_yanked :: "int \<Rightarrow> bool \<Rightarrow> UpdateReleaseInput" where
  "only_yanked i b = \<lparr>ru_ID = i, ru_Title = None, ru_Notes = None, ru_Draft = None, ru_Prerelease = None, ru_Yanked = Some b, ru_ReviewerID = None\<rparr>"

definition YankRelease :: "int \<Rightarrow> Release op" where
  "YankRelease i = UpdateRelease (only_yanked i True)"

definition UnyankRelease :: "int \<Rightarrow> Release op" where
  "UnyankRelease i = UpdateRelease (only_yanked i False)"

definition DeleteRelease :: "int \<Rightarrow> unit op" where
  "DeleteRelease i = ReleaseRepo_Delete i"

record AddReleaseAssetInput =
  aa_ReleaseID :: int
  aa_Name :: string
  aa_Label :: "string option"
  aa_ContentType :: string
  aa_Size :: int
  aa_StorageKey :: string
  aa_SHA256 :: "string option"

definition new_asset :: "AddReleaseAssetInput \<Rightarrow> time \<Rightarrow> ReleaseAsset" where
  "new_asset inp t = \<lparr>ra_ID = 0, ra_ReleaseID = aa_ReleaseID inp, ra_Name = aa_Name inp, ra_Label = aa_Label inp,
     ra_ContentType = aa_ContentType inp, ra_Size = aa_Size inp, ra_StorageKey = aa_StorageKey inp, ra_SHA256 = aa_SHA256 inp,
     ra_DownloadCount = 0, ra_CreatedAt = t\<rparr>"

definition no_assets :: err where "no_assets = Errs ''release: asset repository not configured''"

definition AddAsset :: "release_service \<Rightarrow> AddReleaseAssetInput \<Rightarrow> ReleaseAsset op" where
  "AddAsset svc inp = (case rls_assets svc of
     None \<Rightarrow> fail no_assets
   | Some _ \<Rightarrow> do { t \<leftarrow> now; wrapped ''release: add asset'' (AssetRepo_Create (new_asset inp t)) })"

definition ListAssets :: "release_service \<Rightarrow> int \<Rightarrow> ReleaseAsset list op" where
  "ListAssets svc releaseID = (case rls_assets svc of
     None \<Rightarrow> ok []
   | Some rank \<Rightarrow> wrapped ''release: list assets'' (AssetRepo_FindByReleaseID rank releaseID))"

definition DeleteAsset :: "release_service \<Rightarrow> int \<Rightarrow> unit op" where
  "DeleteAsset svc i = (case rls_assets svc of None \<Rightarrow> fail no_assets | Some _ \<Rightarrow> AssetRepo_Delete i)"

text \<open>The helper of the same name as the tooling one computes no hash.\<close>

definition release_ComputePackageHash :: "SkillFile list \<Rightarrow> string" where
  "release_ComputePackageHash fs = (if length fs = 0 then [] else ''sha256:computed-from-files'')"

section \<open>The life of a release\<close>

datatype release_request =
    RelCreate CreateReleaseInput
  | RelUpdate UpdateReleaseInput
  | RelPublish int
  | RelYank int
  | RelUnyank int
  | RelDelete int
  | RelAddAsset AddReleaseAssetInput
  | RelDeleteAsset int

fun serve_release :: "release_service \<Rightarrow> release_request \<Rightarrow> (world, bool) state" where
  "serve_release svc (RelCreate inp) = do { r \<leftarrow> CreateRelease inp; State_Monad.return (\<not> isl r) }"
| "serve_release svc (RelUpdate inp) = do { r \<leftarrow> UpdateRelease inp; State_Monad.return (\<not> isl r) }"
| "serve_release svc (RelPublish i) = do { r \<leftarrow> PublishRelease i; State_Monad.return (\<not> isl r) }"
| "serve_release svc (RelYank i) = do { r \<leftarrow> YankRelease i; State_Monad.return (\<not> isl r) }"
| "serve_release svc (RelUnyank i) = do { r \<leftarrow> UnyankRelease i; State_Monad.return (\<not> isl r) }"
| "serve_release svc (RelDelete i) = do { r \<leftarrow> DeleteRelease i; State_Monad.return (\<not> isl r) }"
| "serve_release svc (RelAddAsset inp) = do { r \<leftarrow> AddAsset svc inp; State_Monad.return (\<not> isl r) }"
| "serve_release svc (RelDeleteAsset i) = do { r \<leftarrow> DeleteAsset svc i; State_Monad.return (\<not> isl r) }"

text \<open>
  What a row may become in one request: it keeps what identifies it and what vouches for it, only a
  publication takes it out of the drafts, and only that writes the time of publication. A new row is an
  unpublished draft of a version that is published, and the only one of its version and channel.
\<close>

definition moved :: "release_request \<Rightarrow> Release \<Rightarrow> Release \<Rightarrow> bool" where
  "moved req r r' \<longleftrightarrow> rel_ID r' = rel_ID r \<and> rel_SkillID r' = rel_SkillID r \<and> rel_key r' = rel_key r
     \<and> rel_PublisherID r' = rel_PublisherID r \<and> rel_PackageHash r' = rel_PackageHash r \<and> rel_CiCheckRunID r' = rel_CiCheckRunID r
     \<and> rel_CreatedAt r' = rel_CreatedAt r
     \<and> (rel_Draft r \<and> \<not> rel_Draft r' \<longrightarrow> req = RelPublish (rel_ID r))
     \<and> (rel_PublishedAt r' \<noteq> rel_PublishedAt r \<longrightarrow> rel_Draft r \<and> \<not> rel_Draft r')"

definition drafted :: "database \<Rightarrow> Release \<Rightarrow> bool" where
  "drafted d r \<longleftrightarrow> rel_Draft r \<and> rel_PublishedAt r = None \<and> \<not> rel_Yanked r \<and> rel_key r \<notin> rel_key ` set (releases d)
     \<and> (\<exists>v \<in> set (versions d). sv_ID v = rel_VersionID r \<and> sv_SkillID v = rel_SkillID r \<and> sv_Status v = ''PUBLISHED'' \<and> sv_YankedAt v = None)"

definition release_ok :: "database \<Rightarrow> bool" where
  "release_ok d \<longleftrightarrow> relt.unique (releases d) \<and> relk.unique (releases d)
     \<and> (\<forall>r \<in> set (releases d). \<not> rel_Draft r \<longrightarrow> rel_PublishedAt r \<noteq> None)"

definition lived :: "release_request \<Rightarrow> database \<Rightarrow> database \<Rightarrow> bool" where
  "lived req d d' \<longleftrightarrow> release_ok d' \<and> (\<forall>r' \<in> set (releases d'). drafted d r' \<or> (\<exists>r \<in> set (releases d). moved req r r'))"

lemma lived_same: "release_ok d \<Longrightarrow> releases d' = releases d \<Longrightarrow> lived req d d'"
  by (auto simp: lived_def release_ok_def moved_def)

lemma has_row_iff [simp]: "has_row k i rs \<longleftrightarrow> i \<in> k ` set rs"
  by (auto simp: has_row_def list_ex_iff)

lemma lived_create:
  assumes "release_ok d" "rel_ID r \<notin> rel_ID ` set (releases d)" "drafted d r" "releases d' = releases d @ [r]"
  shows "lived req d d'"
  using assms by (auto simp: lived_def release_ok_def relt.unique_def relk.unique_def drafted_def moved_def)

lemma lived_delete: "release_ok d \<Longrightarrow> releases d' = delete_where p (releases d) \<Longrightarrow> lived req d d'"
  by (auto simp: lived_def release_ok_def relt.unique_delete relk.unique_delete moved_def)

lemma lived_update:
  assumes "release_ok d" "find (\<lambda>r. rel_ID r = i) (releases d) = Some r" "moved req r new" "\<not> rel_Draft new \<longrightarrow> rel_PublishedAt new \<noteq> None"
    "releases d' = update_where (\<lambda>r. rel_ID r = rel_ID new) (rel_set new) (releases d)"
  shows "lived req d d'"
proof -
  have r: "r \<in> set (releases d)" "rel_ID new = rel_ID r" using assms(2,3) by (auto simp: moved_def dest: find_SomeD)
  have only: "s = r" if "s \<in> set (releases d)" "rel_ID s = rel_ID r" for s
    using relt.key_inj [of "releases d" s r] assms(1) r(1) that by (simp add: release_ok_def)
  have set_r: "rel_set new r = new" using assms(3) by (simp add: moved_def rel_set_def rel_key_def)
  have rows: "releases d' = update_where (\<lambda>s. rel_ID s = rel_ID r) (\<lambda>_. new) (releases d)"
    unfolding assms(5) r(2) update_where_def by (rule map_cong) (auto dest!: only simp: set_r)
  have keys: "map rel_ID (releases d') = map rel_ID (releases d)" "map rel_key (releases d') = map rel_key (releases d)"
    unfolding rows using assms(3) only by (auto simp: update_where_def moved_def)
  then have "release_ok d'" using assms(1,4) unfolding release_ok_def relt.unique_def relk.unique_def
    by (auto simp: rows update_where_in split: if_splits)
  moreover have "\<exists>s \<in> set (releases d). moved req s s'" if "s' \<in> set (releases d')" for s'
  proof (cases "s' = new")
    case True then show ?thesis using r(1) assms(3) by blast
  next
    case False
    then have "s' \<in> set (releases d)" using that by (auto simp: rows update_where_in split: if_splits)
    then show ?thesis by (auto simp: moved_def)
  qed
  ultimately show ?thesis by (simp add: lived_def)
qed

lemma wp_return_fun: "wp (State_Monad.return x) Q = Q x"
  by (rule ext) simp

lemma GetRelease_wp:
  assumes "\<And>e w'. db w' = db w \<Longrightarrow> Q (Inl e) w'"
    and "\<And>r w'. find (\<lambda>r. rel_ID r = i) (releases (db w)) = Some r \<Longrightarrow> db w' = db w \<Longrightarrow> Q (Inr r) w'"
  shows "wp (GetRelease i) Q w"
  using assms by (auto simp: GetRelease_def ReleaseRepo_FindByID_def split: option.splits)

lemma ReleaseRepo_Update_wp:
  assumes "\<And>e w'. db w' = db w \<Longrightarrow> Q (Inl e) w'"
    and "\<And>t w'. db w' = (db w)\<lparr>releases := update_where (\<lambda>r. rel_ID r = rel_ID rel) (rel_set (rel\<lparr>rel_UpdatedAt := t\<rparr>)) (releases (db w))\<rparr>
       \<Longrightarrow> Q (Inr (rel\<lparr>rel_UpdatedAt := t\<rparr>)) w'"
  shows "wp (ReleaseRepo_Update rel) Q w"
  using assms by (auto simp: ReleaseRepo_Update_def Let_def)

text \<open>A row read, changed and written back.\<close>

lemma rewritten_wp:
  assumes "release_ok (db w)" "db u = db w" and row: "find (\<lambda>r. rel_ID r = i) (releases (db w)) = Some r"
    and new: "moved req r new" "\<not> rel_Draft new \<longrightarrow> rel_PublishedAt new \<noteq> None"
  shows "wp (wrapped msg (ReleaseRepo_Update new)) (\<lambda>_ w'. lived req (db w) (db w')) u"
proof -
  have upd: "lived req (db w) d'"
    if "d' = (db u)\<lparr>releases := update_where (\<lambda>r. rel_ID r = rel_ID new) (rel_set (new\<lparr>rel_UpdatedAt := t\<rparr>)) (releases (db u))\<rparr>" for t d'
    by (rule lived_update [OF assms(1) row, where new = "new\<lparr>rel_UpdatedAt := t\<rparr>"]) (use new assms(2) that in \<open>auto simp: moved_def rel_key_def\<close>)
  show ?thesis unfolding wp_wrapped
    by (rule ReleaseRepo_Update_wp) (use assms(1,2) upd in \<open>auto intro: lived_same\<close>)
qed

lemma UpdateRelease_lives:
  assumes "release_ok (db w)"
  shows "wp (UpdateRelease inp) (\<lambda>_ w'. lived req (db w) (db w')) w"
  unfolding UpdateRelease_def wp_and_then
proof (rule GetRelease_wp)
  fix r and u :: world
  assume row: "find (\<lambda>r. rel_ID r = ru_ID inp) (releases (db w)) = Some r" and u: "db u = db w"
  have pub: "\<not> rel_Draft r \<longrightarrow> rel_PublishedAt r \<noteq> None" using assms row by (auto simp: release_ok_def dest: find_SomeD)
  have step: "wp (wrapped msg (ReleaseRepo_Update (changed_release inp r t))) (\<lambda>_ w'. lived req (db w) (db w')) v"
    if "ru_Draft inp \<noteq> Some False" "db v = db w" for t msg and v :: world
    by (rule rewritten_wp [OF assms that(2) row])
      (use that(1) pub in \<open>auto simp: moved_def changed_release_def rel_key_def given_def split: option.splits\<close>)
  show "case Inr r of Inl e \<Rightarrow> lived req (db w) (db u) | Inr x \<Rightarrow> wp (if ru_Draft inp = Some False
      then fail (Errs ''release: cannot unpublish via update; use PublishRelease to go through gate enforcement'')
      else do { t \<leftarrow> now; wrapped ''release: update'' (ReleaseRepo_Update (changed_release inp x t)) }) (\<lambda>_ w'. lived req (db w) (db w')) u"
    using step assms u by (auto simp del: wp_wrapped intro: lived_same)
qed (use assms in \<open>auto intro: lived_same\<close>)

lemma PublishRelease_lives:
  assumes "release_ok (db w)"
  shows "wp (PublishRelease i) (\<lambda>_ w'. lived (RelPublish i) (db w) (db w')) w"
  unfolding PublishRelease_def wp_and_then
proof (rule GetRelease_wp)
  fix r and u :: world
  assume row: "find (\<lambda>r. rel_ID r = i) (releases (db w)) = Some r" and u: "db u = db w"
  have step: "wp (wrapped msg (ReleaseRepo_Update (published_release t r))) (\<lambda>_ w'. lived (RelPublish i) (db w) (db w')) v"
    if "rel_Draft r" "db v = db w" for t msg and v :: world
    by (rule rewritten_wp [OF assms that(2) row])
      (use that(1) find_SomeD [OF row] in \<open>auto simp: moved_def published_release_def rel_key_def\<close>)
  show "case Inr r of Inl e \<Rightarrow> lived (RelPublish i) (db w) (db u) | Inr x \<Rightarrow> wp (if \<not> rel_Draft x
      then fail (Errs ''release: already published'')
      else do { t \<leftarrow> now; wrapped ''release: publish'' (ReleaseRepo_Update (published_release t x)) }) (\<lambda>_ w'. lived (RelPublish i) (db w) (db w')) u"
    using step assms u by (auto simp del: wp_wrapped intro: lived_same)
qed (use assms in \<open>auto intro: lived_same\<close>)

text \<open>With a driver that reports a missing row as an error, no release is ever created: see below.\<close>

lemma CreateRelease_wp:
  assumes fails: "\<And>e w'. db w' = db w \<Longrightarrow> Q (Inl e) w'"
    and made: "\<And>n t v w'. v \<in> set (versions (db w)) \<Longrightarrow> sv_ID v = rc_VersionID inp \<Longrightarrow> sv_SkillID v = rc_SkillID inp \<Longrightarrow> sv_Status v = ''PUBLISHED''
       \<Longrightarrow> sv_YankedAt v = None \<Longrightarrow> nil_on_empty w \<Longrightarrow> n \<notin> rel_ID ` set (releases (db w)) \<Longrightarrow> rel_key (new_release inp t) \<notin> rel_key ` set (releases (db w))
       \<Longrightarrow> db w' = (db w)\<lparr>releases := releases (db w) @ [(new_release inp t)\<lparr>rel_ID := n\<rparr>]\<rparr> \<Longrightarrow> Q (Inr ((new_release inp t)\<lparr>rel_ID := n\<rparr>)) w'"
  shows "wp (CreateRelease inp) Q w"
proof -
  have insert: "wp (wrapped msg (ReleaseRepo_Create (new_release inp t))) Q u"
    if v: "v \<in> set (versions (db w))" "sv_ID v = rc_VersionID inp" "sv_SkillID v = rc_SkillID inp" "sv_Status v = ''PUBLISHED''" "sv_YankedAt v = None"
      "nil_on_empty w" and u: "db u = db w" for msg t v and u :: world
    unfolding wp_wrapped by (simp add: ReleaseRepo_Create_def Let_def u fails made [OF v])
  have check: "wp (and_then (wrapped m1 (ReleaseRepo_FindByVersionIDAndChannel (rc_VersionID inp) c)) (\<lambda>existing.
      if existing \<noteq> None then fail e else do { t \<leftarrow> now; wrapped m2 (ReleaseRepo_Create (new_release inp t)) })) Q u"
    if v: "v \<in> set (versions (db w))" "sv_ID v = rc_VersionID inp" "sv_SkillID v = rc_SkillID inp" "sv_Status v = ''PUBLISHED''" "sv_YankedAt v = None"
      and u: "db u = db w" "nil_on_empty u = nil_on_empty w" for m1 m2 c e v and u :: world
    unfolding wp_and_then wp_wrapped [of m1] ReleaseRepo_FindByVersionIDAndChannel_def wp_query_row
    using insert [OF v] u by (auto simp: fails simp del: wp_wrapped split: option.splits)
  have version: "wp (and_then (releasable (rc_SkillID inp) v) (\<lambda>_. and_then (wrapped m1 (ReleaseRepo_FindByVersionIDAndChannel (rc_VersionID inp) c)) (\<lambda>existing.
      if existing \<noteq> None then fail e else do { t \<leftarrow> now; wrapped m2 (ReleaseRepo_Create (new_release inp t)) }))) Q u"
    if "v \<in> set (versions (db w))" "sv_ID v = rc_VersionID inp" "db u = db w" "nil_on_empty u = nil_on_empty w" for m1 m2 c e v and u :: world
    unfolding wp_and_then [where m = "releasable s x" for s x] using check [OF that(1,2) _ _ _ that(3,4)] that
    by (simp add: releasable_def fails del: wp_and_then)
  show ?thesis
    unfolding CreateRelease_def VersionRepo_FindByID_def wp_if wp_and_then [where m = "find_or a b c" for a b c] wp_find_or wp_query_row
    by (auto simp: fails simp del: wp_and_then not_None_eq intro!: version dest!: find_SomeD split: option.splits)
qed

lemma CreateRelease_lives:
  assumes "release_ok (db w)"
  shows "wp (CreateRelease inp) (\<lambda>_ w'. lived req (db w) (db w')) w"
proof (rule CreateRelease_wp)
  fix n t v and w' :: world
  assume v: "v \<in> set (versions (db w))" "sv_ID v = rc_VersionID inp" "sv_SkillID v = rc_SkillID inp" "sv_Status v = ''PUBLISHED''" "sv_YankedAt v = None"
    and new: "n \<notin> rel_ID ` set (releases (db w))" "rel_key (new_release inp t) \<notin> rel_key ` set (releases (db w))"
    and w': "db w' = (db w)\<lparr>releases := releases (db w) @ [(new_release inp t)\<lparr>rel_ID := n\<rparr>]\<rparr>"
  show "lived req (db w) (db w')"
    by (rule lived_create [OF assms, of "(new_release inp t)\<lparr>rel_ID := n\<rparr>"])
      (use v new w' in \<open>auto simp: drafted_def new_release_def rel_key_def\<close>)
qed (use assms in \<open>auto intro: lived_same\<close>)

text \<open>C25: releases follow their life cycle, whatever statements fail. One request of the release service keeps the
  keys unique and every published release with its time of publication; a row never changes its skill, version, channel,
  publisher, package hash or check, leaves the drafts only by its publication, and only then gets a time of publication; and every
  new row is an unpublished draft, the only one of its version and channel, of a version of the skill that is PUBLISHED and not yanked.\<close>

theorem releases_follow_lifecycle:
  assumes "release_ok (db w)" and "run_state (serve_release svc req) w = (b, w')"
  shows "release_ok (db w') \<and> (\<forall>r' \<in> set (releases (db w')). drafted (db w) r' \<or> (\<exists>r \<in> set (releases (db w)). moved req r r'))"
proof -
  note same = lived_same [OF assms(1)]
  have "wp (serve_release svc req) (\<lambda>_ w'. lived req (db w) (db w')) w"
  proof (cases req)
    case (RelCreate inp) then show ?thesis using CreateRelease_lives [OF assms(1)] by (simp add: wp_return_fun)
  next
    case (RelUpdate inp) then show ?thesis using UpdateRelease_lives [OF assms(1)] by (simp add: wp_return_fun)
  next
    case (RelPublish i) then show ?thesis using PublishRelease_lives [OF assms(1)] by (simp add: wp_return_fun)
  next
    case (RelYank i) then show ?thesis using UpdateRelease_lives [OF assms(1)] by (simp add: YankRelease_def wp_return_fun)
  next
    case (RelUnyank i) then show ?thesis using UpdateRelease_lives [OF assms(1)] by (simp add: UnyankRelease_def wp_return_fun)
  next
    case (RelDelete i) then show ?thesis using lived_delete [OF assms(1)] by (simp add: DeleteRelease_def ReleaseRepo_Delete_def same)
  next
    case (RelAddAsset inp) then show ?thesis
      by (simp add: AddAsset_def AssetRepo_Create_def Let_def same split: option.splits)
  next
    case (RelDeleteAsset i) then show ?thesis by (simp add: DeleteAsset_def AssetRepo_Delete_def same split: option.splits)
  qed
  from wpD [OF assms(2) this] show ?thesis by (simp add: lived_def)
qed

text \<open>With the pgx driver the check for an existing release fails exactly when there is none.\<close>

lemma create_release_never_with_pgx:
  assumes "\<not> nil_on_empty w" and "run_state (CreateRelease inp) w = (r, w')"
  shows "(\<exists>e. r = Inl e) \<and> db w' = db w"
  by (rule wpD [OF assms(2)], rule CreateRelease_wp) (use assms(1) in auto)

lemma set_newest_first: "set (newest_first rs) = set rs"
  by (auto simp: newest_first_def)

lemma hd_order_desc:
  assumes "order_desc k rs = x # xs" and "y \<in> set rs"
  shows "k y \<le> k x"
proof -
  have "rev (x # xs) = sort_key k (rev rs)" using assms(1) by (metis order_desc_def rev_rev_ident)
  then have "sorted (map k (rev (x # xs)))" by (metis sorted_sort_key)
  moreover have "y \<in> set (x # xs)" using assms by (metis set_order_desc)
  ultimately show ?thesis by (auto simp: sorted_append)
qed

text \<open>C39: the latest release. What \<open>GetLatestRelease\<close> returns is a release of the skill in the channel
  (\<open>stable\<close> when none is named) that is neither a draft nor yanked, and none of those was published
  later; when there is such a release and no statement fails, it returns one.\<close>

theorem latest_release_is_newest:
  assumes "release_ok (db w)" and "run_state (GetLatestRelease skillID channel) w = (r, w')"
  shows "(\<forall>x. r = Inr x \<longrightarrow> x \<in> set (releases (db w)) \<and> in_channel skillID (channel_of channel) x
       \<and> (\<forall>y \<in> set (releases (db w)). in_channel skillID (channel_of channel) y \<longrightarrow> the (rel_PublishedAt y) \<le> the (rel_PublishedAt x)))
     \<and> (healthy w \<and> (\<exists>y \<in> set (releases (db w)). in_channel skillID (channel_of channel) y) \<longrightarrow> (\<exists>x. r = Inr x))"
proof -
  let ?rs = "filter (in_channel skillID (channel_of channel)) (releases (db w))"
  have pub: "rel_PublishedAt y \<noteq> None" if "y \<in> set ?rs" for y
    using assms(1) that by (auto simp: release_ok_def in_channel_def)
  then have none: "filter (\<lambda>r. rel_PublishedAt r = None) ?rs = []" "filter (\<lambda>r. rel_PublishedAt r \<noteq> None) ?rs = ?rs"
    unfolding filter_empty_conv filter_id_conv by blast+
  then have nf: "newest_first ?rs = order_desc (\<lambda>r. case rel_PublishedAt r of Some t \<Rightarrow> t | None \<Rightarrow> 0) ?rs"
    unfolding newest_first_def by simp
  define P where "P = (\<lambda>(r :: err + Release) (u :: world). (\<forall>x. r = Inr x \<longrightarrow> x \<in> set ?rs \<and> (\<forall>y \<in> set ?rs. the (rel_PublishedAt y) \<le> the (rel_PublishedAt x)))
     \<and> (healthy w \<and> ?rs \<noteq> [] \<longrightarrow> (\<exists>x. r = Inr x)))"
  have first: "P (Inr x) u" if newest: "newest_first ?rs = x # xs" for x xs u
  proof -
    have x: "x \<in> set ?rs" using newest set_newest_first [of ?rs] by auto
    have "the (rel_PublishedAt y) \<le> the (rel_PublishedAt x)" if y: "y \<in> set ?rs" for y
      using hd_order_desc [OF newest [unfolded nf] y] pub [OF y] pub [OF x] by (auto split: option.splits)
    then show ?thesis using x by (simp add: P_def)
  qed
  have "P (Inl e) u" if "stmt_fails w \<or> newest_first ?rs = []" for e u
    using that set_newest_first [of ?rs] by (auto simp: P_def)
  then have "wp (GetLatestRelease skillID channel) P w"
    unfolding GetLatestRelease_def wp_find_or ReleaseRepo_FindLatestStable_def wp_query_row
    using first by (auto split: list.splits option.splits)
  from wpD [OF assms(2) this] show ?thesis by (auto simp: P_def filter_empty_conv)
qed

section \<open>A concrete release\<close>

definition first_release :: "bool \<Rightarrow> Release" where
  "first_release draft = \<lparr> rel_ID = 8, rel_SkillID = 3, rel_VersionID = 5, rel_Channel = ''stable'', rel_Title = ''One'', rel_Notes = [], rel_Draft = draft,
     rel_Prerelease = False, rel_Yanked = False, rel_PublishedAt = (if draft then None else Some 4), rel_PublisherID = ''cy'', rel_ReviewerID = None,
     rel_PackageHash = None, rel_CiCheckRunID = None, rel_MetadataJSON = None, rel_CreatedAt = 3, rel_UpdatedAt = 3 \<rparr>"

definition release_db :: "bool \<Rightarrow> database" where
  "release_db draft = (shop_db ''PUBLISHED'' [])\<lparr>releases := [first_release draft]\<rparr>"

lemma first_release_simps [simp]:
  "rel_ID (first_release b) = 8" "rel_SkillID (first_release b) = 3" "rel_Draft (first_release b) = b" "rel_Yanked (first_release b) = False"
  "rel_PublishedAt (first_release b) = (if b then None else Some 4)" "rel_Channel (first_release b) = ''stable''" "rel_PublisherID (first_release b) = ''cy''"
  "rel_VersionID (first_release b) = 5" "releases (release_db b) = [first_release b]" "skills (release_db b) = [shop_skill]"
  "namespaces (release_db b) = [shop_ns]" "versions (release_db b) = [shop_version ''PUBLISHED'']"
  by (simp_all add: first_release_def release_db_def)

lemma release_ok_first [simp]: "release_ok (release_db b)"
  by (simp add: release_ok_def relt.unique_def relk.unique_def)

theorem releases_follow_lifecycle_witness:
  "\<exists>w'. run_state (serve_release \<lparr>rls_assets = None\<rparr> (RelPublish 8)) (calm False (release_db True)) = (True, w')
     \<and> release_ok (db w') \<and> map rel_Draft (releases (db w')) = [False]"
proof -
  let ?m = "serve_release \<lparr>rls_assets = None\<rparr> (RelPublish 8)" and ?w = "calm False (release_db True)"
  obtain b w' where run: "run_state ?m ?w = (b, w')" by (metis surj_pair)
  have "wp ?m (\<lambda>b w'. b \<and> map rel_Draft (releases (db w')) = [False]) ?w"
    by (simp add: PublishRelease_def GetRelease_def ReleaseRepo_FindByID_def ReleaseRepo_Update_def published_release_def update_where_def rel_set_def Let_def)
  from wpD [OF run this] have "b" "map rel_Draft (releases (db w')) = [False]" by simp_all
  moreover have "release_ok (db w')" using releases_follow_lifecycle [OF _ run] by simp
  ultimately show ?thesis using run by simp
qed

theorem latest_release_is_newest_witness:
  "\<exists>x. fst (run_state (GetLatestRelease 3 []) (calm False (release_db False))) = Inr x \<and> rel_Title x = ''One''"
proof -
  obtain r w' where run: "run_state (GetLatestRelease 3 []) (calm False (release_db False)) = (r, w')" by (metis surj_pair)
  have "in_channel 3 (channel_of []) (first_release False)" by (simp add: in_channel_def channel_of_def)
  then have "\<exists>x. r = Inr x" using conjunct2 [OF latest_release_is_newest [OF _ run]] by simp
  then obtain x where x: "r = Inr x" by blast
  then have "x \<in> set (releases (release_db False))" using conjunct1 [OF latest_release_is_newest [OF _ run]] by simp
  then have "r = Inr (first_release False)" using x by simp
  then show ?thesis using run by (simp add: first_release_def)
qed

end
