(* ===== verification/ReleaseRoutes.thy ===== *)
theory ReleaseRoutes
  imports SkillPath Releases Gates
begin

text \<open>
  The release routes of the HTTP API, \<open>internal/http/portal/release.go\<close>: the skill of the path, the
  caller's rights on the release, the CI gate before a publication, and the release service behind them.
  Every route of the table is a constructor of \<open>release_call\<close>, with the request that reaches it.
\<close>

section \<open>Handlers\<close>

record release_handler =
  rh_ReleaseSvc :: "release_service option"
  rh_SkillSvc :: bool
  rh_AgentCISvc :: "ci_service option"

record create_release_body =
  cb_VersionID :: int
  cb_Channel :: string
  cb_Title :: string
  cb_Notes :: string
  cb_Draft :: bool
  cb_Prerelease :: bool

record update_release_body =
  ub_Title :: "string option"
  ub_Notes :: "string option"
  ub_Draft :: "bool option"
  ub_Prerelease :: "bool option"
  ub_Yanked :: "bool option"

datatype release_body =
    ReleaseBody Release
  | ReleasePage ListReleasesResult
  | ReleaseWithAssets Release "ReleaseAsset list"
  | ReleaseDeleted

definition with_releases :: "release_handler \<Rightarrow> (release_service \<Rightarrow> 'a web) \<Rightarrow> 'a web" where
  "with_releases h k = (case rh_ReleaseSvc h of None \<Rightarrow> refuse 503 ''release service not available'' | Some svc \<Rightarrow> k svc)"

definition resolveSkillFromPath :: "release_handler \<Rightarrow> 'b request \<Rightarrow> (SkillDetail \<Rightarrow> 'a web) \<Rightarrow> 'a web" where
  "resolveSkillFromPath h r k = path_skill (rh_SkillSvc h) r k"

definition assertReleaseOwnership :: "'b request \<Rightarrow> int \<Rightarrow> (Release \<Rightarrow> 'a web) \<Rightarrow> 'a web" where
  "assertReleaseOwnership r releaseID k = serving (GetRelease releaseID) (\<lambda>existing.
     let p = GetPrincipal r in
     if rel_PublisherID existing \<noteq> pp_UserID p \<and> \<not> Principal_HasPlatformRole p ''SUPER_ADMIN'' then refuse 403 ''forbidden''
     else k existing)"

definition handleListReleases :: "release_handler \<Rightarrow> (unit, release_body) handler" where
  "handleListReleases h r = with_releases h (\<lambda>svc. resolveSkillFromPath h r (\<lambda>sk.
     let sz = Atoi (rq_Query r ''size'') in
     serving (ListReleases (sd_ID sk) (Atoi (rq_Query r ''page'')) (if sz \<le> 0 then 20 else sz)) (\<lambda>result. WriteJSON 200 (ReleasePage result))))"

definition handleGetLatestRelease :: "release_handler \<Rightarrow> (unit, release_body) handler" where
  "handleGetLatestRelease h r = with_releases h (\<lambda>svc. resolveSkillFromPath h r (\<lambda>sk.
     serving (GetLatestRelease (sd_ID sk) (rq_Query r ''channel'')) (\<lambda>rel. WriteJSON 200 (ReleaseBody rel))))"

definition handleGetRelease :: "release_handler \<Rightarrow> (unit, release_body) handler" where
  "handleGetRelease h r = with_releases h (\<lambda>svc. with_id r ''releaseID'' ''invalid release ID'' (\<lambda>releaseID.
     resolveSkillFromPath h r (\<lambda>sk. serving (GetRelease releaseID) (\<lambda>rel.
       if rel_SkillID rel \<noteq> sd_ID sk then refuse 404 ''release not found''
       else ignoring [] (ListAssets svc releaseID) (\<lambda>assets. WriteJSON 200 (ReleaseWithAssets rel assets))))))"

definition create_input :: "SkillDetail \<Rightarrow> Principal \<Rightarrow> create_release_body \<Rightarrow> CreateReleaseInput" where
  "create_input sk p b = \<lparr>rc_SkillID = sd_ID sk, rc_VersionID = cb_VersionID b, rc_Channel = cb_Channel b, rc_Title = cb_Title b,
     rc_Notes = cb_Notes b, rc_Draft = cb_Draft b, rc_Prerelease = cb_Prerelease b, rc_PublisherID = pp_UserID p, rc_ReviewerID = None,
     rc_PackageHash = None, rc_CiCheckRunID = None\<rparr>"

definition handleCreateRelease :: "release_handler \<Rightarrow> (create_release_body, release_body) handler" where
  "handleCreateRelease h r = with_releases h (\<lambda>svc. resolveSkillFromPath h r (\<lambda>sk.
     let p = GetPrincipal r in
     if sd_OwnerID sk \<noteq> pp_UserID p \<and> \<not> Principal_HasPlatformRole p ''SUPER_ADMIN'' then refuse 403 ''forbidden''
     else with_body r (\<lambda>b. serving (CreateRelease (create_input sk p b)) (\<lambda>rel. WriteJSON 201 (ReleaseBody rel)))))"

definition update_input :: "int \<Rightarrow> update_release_body \<Rightarrow> UpdateReleaseInput" where
  "update_input i b = \<lparr>ru_ID = i, ru_Title = ub_Title b, ru_Notes = ub_Notes b, ru_Draft = ub_Draft b, ru_Prerelease = ub_Prerelease b,
     ru_Yanked = ub_Yanked b, ru_ReviewerID = None\<rparr>"

definition owned_release :: "release_handler \<Rightarrow> 'b request \<Rightarrow> (SkillDetail \<Rightarrow> int \<Rightarrow> Release \<Rightarrow> 'a web) \<Rightarrow> 'a web" where
  "owned_release h r k = with_releases h (\<lambda>svc. with_id r ''releaseID'' ''invalid release ID'' (\<lambda>releaseID.
     resolveSkillFromPath h r (\<lambda>sk. assertReleaseOwnership r releaseID (\<lambda>existing.
       if rel_SkillID existing \<noteq> sd_ID sk then refuse 404 ''release not found'' else k sk releaseID existing))))"

definition handleUpdateRelease :: "release_handler \<Rightarrow> (update_release_body, release_body) handler" where
  "handleUpdateRelease h r = owned_release h r (\<lambda>sk releaseID existing. with_body r (\<lambda>b.
     serving (UpdateRelease (update_input releaseID b)) (\<lambda>rel. WriteJSON 200 (ReleaseBody rel))))"

definition handleDeleteRelease :: "release_handler \<Rightarrow> (unit, release_body) handler" where
  "handleDeleteRelease h r = owned_release h r (\<lambda>sk releaseID existing.
     serving (DeleteRelease releaseID) (\<lambda>_. WriteJSON 200 ReleaseDeleted))"

definition release_gate :: "SkillDetail \<Rightarrow> int \<Rightarrow> Release \<Rightarrow> GateEvalRequest" where
  "release_gate sk releaseID existing = \<lparr>ge_SkillID = sd_ID sk, ge_VersionID = Some (rel_VersionID existing), ge_ReleaseID = Some releaseID,
     ge_TriggerType = ''release_publish''\<rparr>"

definition handlePublishRelease :: "release_handler \<Rightarrow> (unit, release_body) handler" where
  "handlePublishRelease h r = owned_release h r (\<lambda>sk releaseID existing. do {
     gate \<leftarrow> (case rh_AgentCISvc h of None \<Rightarrow> ok () | Some ci \<Rightarrow> GateEnforce ci (release_gate sk releaseID existing));
     (case gate of
       Inl e \<Rightarrow> refuse 409 ''gate enforcement failed''
     | Inr _ \<Rightarrow> serving (PublishRelease releaseID) (\<lambda>rel. WriteJSON 200 (ReleaseBody rel))) })"

section \<open>The route table\<close>

datatype release_call =
    ListReleasesCall "unit request"
  | LatestReleaseCall "unit request"
  | GetReleaseCall "unit request"
  | CreateReleaseCall "create_release_body request"
  | UpdateReleaseCall "update_release_body request"
  | DeleteReleaseCall "unit request"
  | PublishReleaseCall "unit request"

fun release_routes :: "release_handler \<Rightarrow> auth_middleware option \<Rightarrow> limiter option \<Rightarrow> release_call \<Rightarrow> release_body web" where
  "release_routes h authMW rl (ListReleasesCall r) = optAuth authMW (handleListReleases h) r"
| "release_routes h authMW rl (LatestReleaseCall r) = optAuth authMW (handleGetLatestRelease h) r"
| "release_routes h authMW rl (GetReleaseCall r) = optAuth authMW (handleGetRelease h) r"
| "release_routes h authMW rl (CreateReleaseCall r) = mustAuth authMW (withLimit rl ''publish'' (handleCreateRelease h)) r"
| "release_routes h authMW rl (UpdateReleaseCall r) = mustAuth authMW (handleUpdateRelease h) r"
| "release_routes h authMW rl (DeleteReleaseCall r) = mustAuth authMW (handleDeleteRelease h) r"
| "release_routes h authMW rl (PublishReleaseCall r) = mustAuth authMW (handlePublishRelease h) r"

section \<open>What the routes may do\<close>

lemma GetRelease_found: "db w = d \<Longrightarrow> wp (GetRelease i) (\<lambda>r w'. db w' = d \<and> (\<forall>x. r = Inr x \<longrightarrow> find (\<lambda>r. rel_ID r = i) (releases d) = Some x)) w"
  by (rule GetRelease_wp) auto

lemma reads_GetRelease: "reads (GetRelease i)"
  unfolding reads_def by (intro allI GetRelease_wp) auto

lemma reads_latest: "reads (GetLatestRelease i c)"
  by (auto simp: reads_def GetLatestRelease_def ReleaseRepo_FindLatestStable_def split: option.splits)

lemma reads_lists: "reads (ListReleases i p s)" "reads (ListAssets svc i)"
  by (auto simp: reads_def ListReleases_def Let_def ReleaseRepo_ListBySkillIDPaginated_def page_query_def ReleaseRepo_CountBySkillID_def
      ListAssets_def AssetRepo_FindByReleaseID_def split: option.splits)

text \<open>
  The caller owns the release, when the code after the checks runs: the row is in the table, and belongs
  to the caller or the caller is a super admin.
\<close>

definition may_release :: "Principal \<Rightarrow> Release \<Rightarrow> bool" where
  "may_release p x \<longleftrightarrow> rel_PublisherID x = pp_UserID p \<or> Principal_HasPlatformRole p ''SUPER_ADMIN''"

lemma ends_owned_release:
  assumes "G d" and "\<And>sk i x. find (\<lambda>r. rel_ID r = i) (releases d) = Some x \<Longrightarrow> rel_SkillID x = sd_ID sk \<Longrightarrow> may_release (GetPrincipal r) x \<Longrightarrow> ends d G (k sk i x)"
  shows "ends d G (owned_release h r k)"
proof -
  have own: "ends d G (assertReleaseOwnership r i (\<lambda>existing. if rel_SkillID existing \<noteq> sd_ID sk then refuse 404 ''release not found'' else k sk i existing))" for i sk
    unfolding assertReleaseOwnership_def Let_def
    by (rule ends_served [OF GetRelease_found]) (auto intro!: ends_intros assms simp: may_release_def)
  show ?thesis
    unfolding owned_release_def with_releases_def resolveSkillFromPath_def
    by (auto intro!: ends_intros ends_path_skill own assms(1) split: option.splits)
qed

text \<open>What may have happened to the drafts: one that is no draft any more was taken out by a caller entitled to it, and with the
  gate of its publication open.\<close>

definition let_out :: "(Principal \<Rightarrow> bool) \<Rightarrow> database \<Rightarrow> database \<Rightarrow> bool" where
  "let_out C d d' \<longleftrightarrow> (\<forall>r \<in> set (releases d). \<forall>r' \<in> set (releases d'). rel_ID r' = rel_ID r \<and> rel_Draft r \<and> \<not> rel_Draft r' \<longrightarrow>
     (\<exists>p. C p \<and> backed d p \<and> pp_IsAuthenticated p \<and> (rel_PublisherID r = pp_UserID p \<or> granted (pp_UserID p) ''SUPER_ADMIN'' d))
     \<and> gate_open \<lparr>ge_SkillID = rel_SkillID r, ge_VersionID = Some (rel_VersionID r), ge_ReleaseID = Some (rel_ID r), ge_TriggerType = ''release_publish''\<rparr> d)"

definition well_released :: "(Principal \<Rightarrow> bool) \<Rightarrow> database \<Rightarrow> database \<Rightarrow> bool" where
  "well_released C d d' \<longleftrightarrow> release_ok d' \<and> let_out C d d'"

lemma lived_row:
  assumes "release_ok d" "lived req d d'" "r \<in> set (releases d)" "r' \<in> set (releases d')" "rel_ID r' = rel_ID r" "rel_Draft r" "\<not> rel_Draft r'"
  shows "req = RelPublish (rel_ID r)"
proof -
  from assms(2,4,7) obtain s where s: "s \<in> set (releases d)" "moved req s r'" by (auto simp: lived_def drafted_def)
  have "rel_ID s = rel_ID r" using s(2) assms(5) by (simp add: moved_def)
  then have "s = r" using relt.key_inj [of "releases d" s r] assms(1,3) s(1) by (simp add: release_ok_def)
  then show ?thesis using s assms(6,7) by (simp add: moved_def)
qed

lemma well_released_same:
  assumes "release_ok d"
  shows "well_released C d d"
proof -
  have "r' = r" if "r \<in> set (releases d)" "r' \<in> set (releases d)" "rel_ID r' = rel_ID r" for r r'
    using relt.key_inj [of "releases d" r' r] assms that by (simp add: release_ok_def)
  then have "let_out C d d" unfolding let_out_def by blast
  then show ?thesis using assms by (simp add: well_released_def)
qed

lemma well_released_other:
  assumes "release_ok d" "lived req d d'" "\<And>i. req \<noteq> RelPublish i"
  shows "well_released C d d'"
  using lived_row [OF assms(1,2)] assms(2,3) by (auto simp: well_released_def let_out_def lived_def)

lemma well_released_published:
  assumes "release_ok d" "lived (RelPublish i) d d'" "find (\<lambda>r. rel_ID r = i) (releases d) = Some x" "C p" "backed d p" "pp_IsAuthenticated p" "may_release p x"
    and "gate_open \<lparr>ge_SkillID = rel_SkillID x, ge_VersionID = Some (rel_VersionID x), ge_ReleaseID = Some i, ge_TriggerType = ''release_publish''\<rparr> d"
  shows "well_released C d d'"
proof -
  have x: "x \<in> set (releases d)" "rel_ID x = i" using find_SomeD [OF assms(3)] by simp_all
  have "r = x" if "r \<in> set (releases d)" "rel_ID r = i" for r
    using relt.key_inj [of "releases d" r x] assms(1) x that by (simp add: release_ok_def)
  moreover have "rel_PublisherID x = pp_UserID p \<or> granted (pp_UserID p) ''SUPER_ADMIN'' d"
    using assms(5,7) by (auto simp: may_release_def backed_def)
  ultimately have "let_out C d d'" unfolding let_out_def
    using lived_row [OF assms(1,2)] assms(4,5,6,8) x(2) by (metis release_request.inject(3))
  then show ?thesis using assms(2) by (simp add: well_released_def lived_def)
qed

lemma ends_lived:
  assumes "release_ok d" and "\<And>v. db v = d \<Longrightarrow> release_ok (db v) \<Longrightarrow> wp m (\<lambda>_ w'. lived req (db v) (db w')) v" and "\<And>i. req \<noteq> RelPublish i"
  shows "ends d (well_released C d) (serving m (\<lambda>x. WriteJSON st (f x)))"
proof (rule ends_write)
  fix v :: world assume v: "db v = d"
  show "wp m (\<lambda>_ w'. well_released C d (db w')) v"
    using assms(2) [OF v] by (rule wp_mono) (use v assms(1,3) in \<open>simp_all add: well_released_other\<close>)
qed

lemma publish_handler_ends:
  assumes ok: "release_ok d" and p: "C p" "backed d p" "pp_IsAuthenticated p"
    and ci: "rh_AgentCISvc h = Some ci" "ci_policies ci" "ci_checks ci"
  shows "ends d (well_released C d) (handlePublishRelease h (SetPrincipal r p))"
  unfolding handlePublishRelease_def
proof (rule ends_owned_release)
  fix sk :: SkillDetail and i x
  assume x: "find (\<lambda>r. rel_ID r = i) (releases d) = Some x" "rel_SkillID x = sd_ID sk" "may_release (GetPrincipal (SetPrincipal r p)) x"
  let ?req = "release_gate sk i x"
  have gate: "wp (case rh_AgentCISvc h of None \<Rightarrow> ok () | Some ci \<Rightarrow> GateEnforce ci ?req)
      (\<lambda>g w'. db w' = d \<and> (g = Inr () \<longrightarrow> gate_open ?req d)) w" if "db w = d" for w :: world
    unfolding ci(1) option.case by (rule GateEnforce_wp [OF ci(2,3)]) (use that in auto)
  have pub: "ends d (well_released C d) (serving (PublishRelease i) (\<lambda>rel. WriteJSON 200 (ReleaseBody rel)))" if "gate_open ?req d"
  proof (rule ends_write)
    fix w :: world assume w: "db w = d"
    have "wp (PublishRelease i) (\<lambda>_ w'. lived (RelPublish i) (db w) (db w')) w" by (rule PublishRelease_lives) (simp add: w ok)
    then show "wp (PublishRelease i) (\<lambda>_ w'. well_released C d (db w')) w"
      by (rule wp_mono) (use that x in \<open>auto intro: well_released_published [where C = C, OF ok _ x(1) p] simp: w release_gate_def\<close>)
  qed
  show "ends d (well_released C d) (do { gate \<leftarrow> (case rh_AgentCISvc h of None \<Rightarrow> ok () | Some ci \<Rightarrow> GateEnforce ci ?req);
     (case gate of Inl e \<Rightarrow> refuse 409 ''gate enforcement failed'' | Inr _ \<Rightarrow> serving (PublishRelease i) (\<lambda>rel. WriteJSON 200 (ReleaseBody rel))) })"
    by (rule ends_after [OF gate]) (auto intro: ends_reply pub well_released_same [OF ok] split: sum.splits)
qed (rule well_released_same [OF ok])

fun release_caller :: "auth_middleware \<Rightarrow> release_call \<Rightarrow> database \<Rightarrow> Principal \<Rightarrow> bool" where
  "release_caller mw (ListReleasesCall r) = caller mw r"
| "release_caller mw (LatestReleaseCall r) = caller mw r"
| "release_caller mw (GetReleaseCall r) = caller mw r"
| "release_caller mw (CreateReleaseCall r) = caller mw r"
| "release_caller mw (UpdateReleaseCall r) = caller mw r"
| "release_caller mw (DeleteReleaseCall r) = caller mw r"
| "release_caller mw (PublishReleaseCall r) = caller mw r"


section \<open>A concrete publication\<close>

definition publisher_db :: database where
  "publisher_db = (release_db True)\<lparr>skills := [shop_skill\<lparr>sk_LatestVersionID := Some 5\<rparr>], accounts := no_accounts\<lparr>api_tokens := [cli_token\<lparr>at_UserID := ''cy''\<rparr>]\<rparr>\<rparr>"

definition publish_request :: "unit request" where
  "publish_request = cli_request\<lparr>rq_Path := (\<lambda>n. if n = ''namespace'' then ''team'' else if n = ''slug'' then ''greet'' else ''8'')\<rparr>"

definition all_releases :: release_handler where
  "all_releases = \<lparr>rh_ReleaseSvc = Some \<lparr>rls_assets = None\<rparr>, rh_SkillSvc = True, rh_AgentCISvc = Some all_ci\<rparr>"

lemma publisher_db_simps [simp]:
  "releases publisher_db = [first_release True]" "skills publisher_db = [shop_skill\<lparr>sk_LatestVersionID := Some 5\<rparr>]"
  "namespaces publisher_db = [shop_ns]" "accounts publisher_db = no_accounts\<lparr>api_tokens := [cli_token\<lparr>at_UserID := ''cy''\<rparr>]\<rparr>"
  "members publisher_db = []" "gate_policies publisher_db = []" "check_runs publisher_db = []" "ns_Slug shop_ns = ''team''"
  by (simp_all add: publisher_db_def release_db_def shop_db_def empty_db_def shop_ns_def)

lemma release_ok_publisher [simp]: "release_ok publisher_db"
  by (simp add: release_ok_def relt.unique_def relk.unique_def)


end
