(* ===== verification/CIRoutes.thy ===== *)
theory CIRoutes
  imports SkillPath Gates
begin

text \<open>
  The CI routes of the HTTP API, \<open>internal/http/portal/agentci.go\<close>: queries of pipeline runs, checks, artifacts and
  gates below the number of a skill, for those who may see the skill. Every route of the table is a constructor of \<open>ci_call\<close>.
\<close>

section \<open>Handlers\<close>

record ci_handler =
  cih_AgentCISvc :: "ci_service option"
  cih_SkillSvc :: bool

datatype ci_body =
    RunPage PipelineRunListResult
  | RunBody PipelineRun
  | RunChecks "CheckRun list"
  | CheckBody CheckRun
  | CheckArtifacts "CheckArtifact list"
  | GateBody GateEvalResult

definition resolveCISkill :: "ci_handler \<Rightarrow> 'b request \<Rightarrow> int \<Rightarrow> (Skill \<Rightarrow> 'a web) \<Rightarrow> 'a web" where
  "resolveCISkill h r skillID k =
     (if \<not> cih_SkillSvc h then refuse 503 ''skill service not available''
      else serving (GetSkillByID skillID) (\<lambda>found. case found of
        None \<Rightarrow> refuse 404 ''skill not found''
      | Some sk \<Rightarrow> (let p = GetPrincipal r in
          if \<not> CanAccess sk (pp_UserID p) (pp_NamespaceRoles p) (platform_roles p) then
            (if \<not> pp_IsAuthenticated p then refuse 401 ''authentication required'' else refuse 403 ''access denied'')
          else k sk)))"

text \<open>What every handler begins with: the service, the number of the path, the skill.\<close>

definition ci_skill :: "ci_handler \<Rightarrow> 'b request \<Rightarrow> (ci_service \<Rightarrow> int \<Rightarrow> 'a web) \<Rightarrow> 'a web" where
  "ci_skill h r k = (case cih_AgentCISvc h of
     None \<Rightarrow> refuse 503 ''agent CI service not available''
   | Some svc \<Rightarrow> with_id r ''skillID'' ''invalid skill ID'' (\<lambda>skillID. resolveCISkill h r skillID (\<lambda>_. k svc skillID)))"

definition ci_run :: "'b request \<Rightarrow> ci_service \<Rightarrow> int \<Rightarrow> (int \<Rightarrow> PipelineRun \<Rightarrow> 'a web) \<Rightarrow> 'a web" where
  "ci_run r svc skillID k = with_id r ''runID'' ''invalid run ID'' (\<lambda>runID. serving (GetPipelineRun svc runID) (\<lambda>run.
     if run_SkillID run \<noteq> skillID then refuse 404 ''pipeline run not found'' else k runID run))"

definition ci_check :: "'b request \<Rightarrow> ci_service \<Rightarrow> int \<Rightarrow> (int \<Rightarrow> CheckRun \<Rightarrow> 'a web) \<Rightarrow> 'a web" where
  "ci_check r svc skillID k = with_id r ''checkID'' ''invalid check ID'' (\<lambda>checkID. serving (GetCheckRun svc checkID) (\<lambda>check.
     if cr_SkillID check \<noteq> skillID then refuse 404 ''check run not found'' else k checkID check))"

definition HandleListPipelineRuns :: "ci_handler \<Rightarrow> (unit, ci_body) handler" where
  "HandleListPipelineRuns h r = ci_skill h r (\<lambda>svc skillID.
     serving (ListPipelineRuns svc \<lparr>pf_SkillID = skillID, pf_VersionID = None, pf_ReleaseID = None, pf_Status = [],
         pf_Page = Atoi (rq_Query r ''page''), pf_Size = Atoi (rq_Query r ''size'')\<rparr>)
       (\<lambda>result. WriteJSON 200 (RunPage result)))"

definition HandleGetPipelineRun :: "ci_handler \<Rightarrow> (unit, ci_body) handler" where
  "HandleGetPipelineRun h r = ci_skill h r (\<lambda>svc skillID. ci_run r svc skillID (\<lambda>_ run. WriteJSON 200 (RunBody run)))"

definition HandleListCheckRuns :: "ci_handler \<Rightarrow> (unit, ci_body) handler" where
  "HandleListCheckRuns h r = ci_skill h r (\<lambda>svc skillID. ci_run r svc skillID (\<lambda>runID _.
     serving (ListCheckRuns svc runID) (\<lambda>checks. WriteJSON 200 (RunChecks checks))))"

definition HandleGetCheckRun :: "ci_handler \<Rightarrow> (unit, ci_body) handler" where
  "HandleGetCheckRun h r = ci_skill h r (\<lambda>svc skillID. ci_check r svc skillID (\<lambda>_ check. WriteJSON 200 (CheckBody check)))"

definition HandleListArtifacts :: "ci_handler \<Rightarrow> (unit, ci_body) handler" where
  "HandleListArtifacts h r = ci_skill h r (\<lambda>svc skillID. ci_check r svc skillID (\<lambda>checkID _.
     serving (ListArtifacts svc checkID) (\<lambda>artifacts. WriteJSON 200 (CheckArtifacts artifacts))))"

text \<open>The ids of the query are what \<open>ParseInt\<close> gives, errors or not, and nothing says they belong to the skill.\<close>

definition query_id :: "string \<Rightarrow> int option" where
  "query_id s = (if s \<noteq> [] then Some (fst (ParseInt s)) else None)"

definition HandleEvaluateGates :: "ci_handler \<Rightarrow> (unit, ci_body) handler" where
  "HandleEvaluateGates h r = ci_skill h r (\<lambda>svc skillID.
     let triggerType = rq_Query r ''trigger'' in
     serving (EvaluateGates svc \<lparr>ge_SkillID = skillID, ge_VersionID = query_id (rq_Query r ''versionId''),
         ge_ReleaseID = query_id (rq_Query r ''releaseId''),
         ge_TriggerType = (if triggerType = [] then ''release_publish'' else triggerType)\<rparr>)
       (\<lambda>result. WriteJSON 200 (GateBody result)))"

section \<open>The route table\<close>

datatype ci_call =
    ListRunsCall "unit request"
  | GetRunCall "unit request"
  | ListChecksCall "unit request"
  | GetCheckCall "unit request"
  | ListArtifactsCall "unit request"
  | EvaluateGatesCall "unit request"

fun ci_routes :: "ci_handler \<Rightarrow> auth_middleware option \<Rightarrow> ci_call \<Rightarrow> ci_body web" where
  "ci_routes h authMW (ListRunsCall r) = optAuth authMW (HandleListPipelineRuns h) r"
| "ci_routes h authMW (GetRunCall r) = optAuth authMW (HandleGetPipelineRun h) r"
| "ci_routes h authMW (ListChecksCall r) = optAuth authMW (HandleListCheckRuns h) r"
| "ci_routes h authMW (GetCheckCall r) = optAuth authMW (HandleGetCheckRun h) r"
| "ci_routes h authMW (ListArtifactsCall r) = optAuth authMW (HandleListArtifacts h) r"
| "ci_routes h authMW (EvaluateGatesCall r) = mustAuth authMW (HandleEvaluateGates h) r"

section \<open>CI data is shown to those who may see the skill\<close>

text \<open>What an answer tells is about one skill: the rows in it are rows of the tables that belong to the skill, directly or through
  the run or the check they are part of.\<close>

definition tells_of :: "int \<Rightarrow> database \<Rightarrow> ci_body \<Rightarrow> bool" where
  "tells_of i d b \<longleftrightarrow> (case b of
     RunPage pg \<Rightarrow> (\<forall>x \<in> set (pl_Runs pg). x \<in> set (pipeline_runs d) \<and> run_SkillID x = i)
   | RunBody x \<Rightarrow> x \<in> set (pipeline_runs d) \<and> run_SkillID x = i
   | RunChecks cs \<Rightarrow> (\<exists>x \<in> set (pipeline_runs d). run_SkillID x = i \<and> (\<forall>c \<in> set cs. c \<in> set (check_runs d) \<and> cr_PipelineRunID c = run_ID x))
   | CheckBody c \<Rightarrow> c \<in> set (check_runs d) \<and> cr_SkillID c = i
   | CheckArtifacts xs \<Rightarrow> (\<exists>c \<in> set (check_runs d). cr_SkillID c = i \<and> (\<forall>a \<in> set xs. a \<in> set (check_artifacts d) \<and> ca_CheckRunID a = cr_ID c))
   | GateBody g \<Rightarrow> True)"

text \<open>One of the principals in \<open>C\<close> may see the skill, with roles the tables bear out.\<close>

definition may_see :: "(Principal \<Rightarrow> bool) \<Rightarrow> database \<Rightarrow> int \<Rightarrow> bool" where
  "may_see C d i \<longleftrightarrow> (\<exists>p. C p \<and> backed d p \<and> (\<exists>s \<in> set (skills d). sk_ID s = i
     \<and> (Principal_HasPlatformRole p ''SUPER_ADMIN'' \<or> entitled (pp_UserID p) (pp_NamespaceRoles p) s)))"


definition ci_answer :: "(Principal \<Rightarrow> bool) \<Rightarrow> database \<Rightarrow> ci_body reply \<Rightarrow> database \<Rightarrow> bool" where
  "ci_answer C d r d' \<longleftrightarrow> d' = d \<and> (\<forall>st b. r = Replied st b \<longrightarrow> (\<exists>i. tells_of i d b \<and> may_see C d i))"

lemma silent_ci: "silent d (ci_answer C d)"
  by (simp add: silent_def ci_answer_def)

lemma reads_SkillByID: "reads (GetSkillByID i)"
  unfolding GetSkillByID_def SkillRepo_FindByID_def by (intro reads_intros)

lemma ci_skill_replies:
  assumes "C (GetPrincipal r)" "backed d (GetPrincipal r)" and "\<And>svc i. may_see C d i \<Longrightarrow> replies d (ci_answer C d) (k svc i)"
  shows "replies d (ci_answer C d) (ci_skill h r k)"
proof -
  have row: "wp (GetSkillByID i) (\<lambda>r _. \<forall>x. r = Inr x \<longrightarrow> (\<forall>s. x = Some s \<longrightarrow> s \<in> set (skills d) \<and> sk_ID s = i)) w"
    if "db w = d" for i and w :: world
    using that by (auto simp: GetSkillByID_def SkillRepo_FindByID_def dest: find_SomeD split: option.splits)
  have seen: "may_see C d i" if "s \<in> set (skills d)" "sk_ID s = i" "CanAccess s (pp_UserID (GetPrincipal r)) (pp_NamespaceRoles (GetPrincipal r)) (platform_roles (GetPrincipal r))" for i s
    using CanAccess_cases [OF that(3)] assms(1,2) that(1,2) unfolding may_see_def platform_roles_def by blast
  have "replies d (ci_answer C d) (resolveCISkill h r i (\<lambda>_. k svc i))" for i svc
    unfolding resolveCISkill_def Let_def
    by (intro replies_if replies_silent silent_ci replies_served [OF silent_ci reads_SkillByID row])
      (auto intro!: replies_if replies_silent silent_ci assms(3) intro: seen split: option.split)
  then show ?thesis unfolding ci_skill_def by (auto intro!: replies_silent replies_id silent_ci split: option.splits)
qed

lemma reads_ci:
  "reads (GetPipelineRun svc n)" "reads (GetCheckRun svc n)" "reads (ListPipelineRuns svc flt)" "reads (ListCheckRuns svc n)"
  "reads (ListArtifacts svc n)" "reads (EvaluateGates svc q)"
  unfolding GetPipelineRun_def GetCheckRun_def ListPipelineRuns_def ListCheckRuns_def ListArtifacts_def EvaluateGates_def gate_checks_def Let_def
    RunRepo_FindByID_def CheckRepo_FindByID_def RunRepo_FindBySkillID_def RunRepo_CountBySkillID_def CheckRepo_FindByPipelineRunID_def
    ArtifactRepo_FindByCheckRunID_def PolicyRepo_FindByTriggerOn_def CheckRepo_FindByReleaseID_def CheckRepo_FindByVersionID_def CheckRepo_FindBySkillID_def
  by (intro reads_intros reads_page)+

lemma ci_run_replies:
  assumes "\<And>n x. x \<in> set (pipeline_runs d) \<Longrightarrow> run_ID x = n \<Longrightarrow> run_SkillID x = i \<Longrightarrow> replies d (ci_answer C d) (k n x)"
  shows "replies d (ci_answer C d) (ci_run r svc i k)"
proof -
  have row: "wp (GetPipelineRun svc n) (\<lambda>r _. \<forall>x. r = Inr x \<longrightarrow> x \<in> set (pipeline_runs d) \<and> run_ID x = n) w" if "db w = d" for n and w :: world
    using that by (auto simp: GetPipelineRun_def RunRepo_FindByID_def dest: find_SomeD split: option.splits)
  show ?thesis unfolding ci_run_def
    by (intro replies_id silent_ci replies_served [OF silent_ci reads_ci(1) row]) (auto intro!: replies_if replies_silent silent_ci assms)
qed

lemma ci_check_replies:
  assumes "\<And>n x. x \<in> set (check_runs d) \<Longrightarrow> cr_ID x = n \<Longrightarrow> cr_SkillID x = i \<Longrightarrow> replies d (ci_answer C d) (k n x)"
  shows "replies d (ci_answer C d) (ci_check r svc i k)"
proof -
  have row: "wp (GetCheckRun svc n) (\<lambda>r _. \<forall>x. r = Inr x \<longrightarrow> x \<in> set (check_runs d) \<and> cr_ID x = n) w" if "db w = d" for n and w :: world
    using that by (auto simp: GetCheckRun_def CheckRepo_FindByID_def dest: find_SomeD split: option.splits)
  show ?thesis unfolding ci_check_def
    by (intro replies_id silent_ci replies_served [OF silent_ci reads_ci(2) row]) (auto intro!: replies_if replies_silent silent_ci assms)
qed

lemma ci_say: "may_see C d i \<Longrightarrow> tells_of i d b \<Longrightarrow> replies d (ci_answer C d) (WriteJSON st b)"
  by (intro replies_say) (auto simp: ci_answer_def)

lemma ci_lists:
  assumes "db w = d"
  shows "wp (ListPipelineRuns svc flt) (\<lambda>r _. \<forall>pg. r = Inr pg \<longrightarrow> (\<forall>x \<in> set (pl_Runs pg). x \<in> set (pipeline_runs d) \<and> run_SkillID x = pf_SkillID flt)) w"
    "wp (ListCheckRuns svc n) (\<lambda>r _. \<forall>cs. r = Inr cs \<longrightarrow> (\<forall>c \<in> set cs. c \<in> set (check_runs d) \<and> cr_PipelineRunID c = n)) w"
    "wp (ListArtifacts svc n) (\<lambda>r _. \<forall>xs. r = Inr xs \<longrightarrow> (\<forall>a \<in> set xs. a \<in> set (check_artifacts d) \<and> ca_CheckRunID a = n)) w"
  using assms
  by (auto simp: ListPipelineRuns_def ListCheckRuns_def ListArtifacts_def Let_def RunRepo_FindBySkillID_def RunRepo_CountBySkillID_def page_query_def
      limit_offset_def order_desc_def CheckRepo_FindByPipelineRunID_def ArtifactRepo_FindByCheckRunID_def dest!: in_set_takeD in_set_dropD split: sum.splits)

lemma ci_handlers:
  assumes "C (GetPrincipal r)" "backed d (GetPrincipal r)"
  shows "replies d (ci_answer C d) (HandleListPipelineRuns h r)" "replies d (ci_answer C d) (HandleGetPipelineRun h r)"
    "replies d (ci_answer C d) (HandleListCheckRuns h r)" "replies d (ci_answer C d) (HandleGetCheckRun h r)"
    "replies d (ci_answer C d) (HandleListArtifacts h r)" "replies d (ci_answer C d) (HandleEvaluateGates h r)"
proof -
  note skill = ci_skill_replies [where C = C, OF assms]
  show "replies d (ci_answer C d) (HandleListPipelineRuns h r)"
    unfolding HandleListPipelineRuns_def
    by (intro skill replies_served [OF silent_ci reads_ci(3) ci_lists(1)] ci_say; assumption?) (auto simp: tells_of_def)
  show "replies d (ci_answer C d) (HandleGetPipelineRun h r)"
    unfolding HandleGetPipelineRun_def by (intro skill ci_run_replies ci_say; assumption?) (auto simp: tells_of_def)
  show "replies d (ci_answer C d) (HandleListCheckRuns h r)"
    unfolding HandleListCheckRuns_def
    by (intro skill ci_run_replies replies_served [OF silent_ci reads_ci(4) ci_lists(2)] ci_say; assumption?) (auto simp: tells_of_def)
  show "replies d (ci_answer C d) (HandleGetCheckRun h r)"
    unfolding HandleGetCheckRun_def by (intro skill ci_check_replies ci_say; assumption?) (auto simp: tells_of_def)
  show "replies d (ci_answer C d) (HandleListArtifacts h r)"
    unfolding HandleListArtifacts_def
    by (intro skill ci_check_replies replies_served [OF silent_ci reads_ci(5) ci_lists(3)] ci_say; assumption?) (auto simp: tells_of_def)
  show "replies d (ci_answer C d) (HandleEvaluateGates h r)"
    unfolding HandleEvaluateGates_def Let_def
    by (intro skill replies_serving silent_ci reads_ci ci_say; assumption?) (auto simp: tells_of_def)
qed

fun ci_caller :: "auth_middleware \<Rightarrow> ci_call \<Rightarrow> database \<Rightarrow> Principal \<Rightarrow> bool" where
  "ci_caller mw (ListRunsCall r) = caller mw r"
| "ci_caller mw (GetRunCall r) = caller mw r"
| "ci_caller mw (ListChecksCall r) = caller mw r"
| "ci_caller mw (GetCheckCall r) = caller mw r"
| "ci_caller mw (ListArtifactsCall r) = caller mw r"
| "ci_caller mw (EvaluateGatesCall r) = caller mw r"

text \<open>C?: CI data is shown to those who may see the skill. Whatever fails, a request to a CI route changes no table; and when it is
  answered with data, the runs, checks and artifacts in the answer are rows of one skill, which the caller of the request may see with
  roles the tables bear out (so that an anonymous caller only sees a public one).\<close>

theorem ci_data_needs_access:
  assumes "quiet_sessions mw" and "run_state (ci_routes h (Some mw) call) w = (r, w')"
  shows "db w' = db w \<and> (\<forall>st b. r = Replied st b \<longrightarrow> (\<exists>i. tells_of i (db w) b
     \<and> (\<exists>p. ci_caller mw call (db w) p \<and> backed (db w) p \<and> (\<exists>s \<in> set (skills (db w)). sk_ID s = i
         \<and> (Principal_HasPlatformRole p ''SUPER_ADMIN'' \<or> entitled (pp_UserID p) (pp_NamespaceRoles p) s)))))"
proof -
  let ?d = "db w"
  define C where "C = ci_caller mw call ?d"
  have "replies ?d (ci_answer C ?d) (ci_routes h (Some mw) call)"
    by (cases call) (auto simp: C_def intro!: replies_optAuth replies_mustAuth assms(1) silent_ci ci_handlers caller_backed)
  from repliesD [OF this assms(2)] show ?thesis by (simp add: ci_answer_def may_see_def C_def)
qed

section \<open>A concrete request\<close>

definition private_db :: database where
  "private_db = (shop_db ''PUBLISHED'' [])\<lparr>skills := [shop_skill\<lparr>sk_Visibility := ''PRIVATE'', sk_LatestVersionID := Some 5\<rparr>],
     accounts := no_accounts\<lparr>api_tokens := [cli_token\<lparr>at_UserID := ''cy''\<rparr>]\<rparr>, check_runs := [shop_check ''PASSED'']\<rparr>"

definition check_request :: "string \<Rightarrow> unit request" where
  "check_request auth = \<lparr>rq_Path = (\<lambda>n. if n = ''skillID'' then ''3'' else ''21''), rq_Query = (\<lambda>_. []), rq_Body = None, rq_Session = None,
     rq_Authorization = auth, rq_Principal = None\<rparr>"

definition all_checks :: ci_handler where
  "all_checks = \<lparr>cih_AgentCISvc = Some all_ci, cih_SkillSvc = True\<rparr>"

lemma private_db_simps [simp]:
  "skills private_db = [shop_skill\<lparr>sk_Visibility := ''PRIVATE'', sk_LatestVersionID := Some 5\<rparr>]" "check_runs private_db = [shop_check ''PASSED'']"
  "accounts private_db = no_accounts\<lparr>api_tokens := [cli_token\<lparr>at_UserID := ''cy''\<rparr>]\<rparr>" "members private_db = []"
  by (simp_all add: private_db_def shop_db_def empty_db_def)

theorem ci_data_needs_access_witness:
  "\<exists>w'. run_state (ci_routes all_checks (Some full_middleware) (GetCheckCall (check_request ''Bearer sk_1''))) (calm False private_db)
       = (Replied 200 (CheckBody (shop_check ''PASSED'')), w')
     \<and> (\<exists>p. ci_caller full_middleware (GetCheckCall (check_request ''Bearer sk_1'')) private_db p \<and> backed private_db p)"
proof -
  let ?call = "GetCheckCall (check_request ''Bearer sk_1'')"
  obtain r w' where run: "run_state (ci_routes all_checks (Some full_middleware) ?call) (calm False private_db) = (r, w')" by (metis surj_pair)
  have raw: "TrimPrefix ''Bearer sk_1'' ''Bearer '' = ''sk_1''" by (simp add: TrimPrefix_def)
  have num: "ParseInt ''3'' = (3, True)" "ParseInt ''21'' = (21, True)" by (simp_all add: ParseInt_def Let_def is_digit_def byte_def with_sign_def)
  have "wp (ci_routes all_checks (Some full_middleware) ?call) (\<lambda>r _. r = Replied 200 (CheckBody (shop_check ''PASSED''))) (calm False private_db)"
    by (simp add: optAuth_def Authenticate_def authenticate_def full_middleware_def check_request_def bearer_def raw ValidateToken_def
        TokenRepo_FindByTokenHash_def no_accounts_def cli_token_def isTokenActive_def buildPrincipal_def GetUserRoleCodes_def
        BindingRepo_FindByUserID_def UserRepo_FindByID_def MemberRepo_FindByUserID_def of_token_def HandleGetCheckRun_def ci_skill_def ci_check_def
        all_checks_def all_ci_def num resolveCISkill_def Let_def GetSkillByID_def SkillRepo_FindByID_def CanAccess_def isOwner_def GetCheckRun_def
        CheckRepo_FindByID_def shop_check_def shop_skill_def)
  then have r: "r = Replied 200 (CheckBody (shop_check ''PASSED''))" using run by (auto dest: wpD)
  have "db w' = private_db \<and> (\<forall>st b. r = Replied st b \<longrightarrow> (\<exists>i. tells_of i private_db b
     \<and> (\<exists>p. ci_caller full_middleware ?call private_db p \<and> backed private_db p \<and> (\<exists>s \<in> set (skills private_db). sk_ID s = i
         \<and> (Principal_HasPlatformRole p ''SUPER_ADMIN'' \<or> entitled (pp_UserID p) (pp_NamespaceRoles p) s)))))"
    using ci_data_needs_access [OF _ run] by (simp add: quiet_sessions_def full_middleware_def)
  then show ?thesis using run r by blast
qed

text \<open>Without the token the same request is answered with 401.\<close>

lemma anonymous_sees_no_private_check:
  "fst (run_state (ci_routes all_checks (Some full_middleware) (GetCheckCall (check_request []))) (calm False private_db)) = Refused 401 ''authentication required''"
proof -
  obtain r w' where run: "run_state (ci_routes all_checks (Some full_middleware) (GetCheckCall (check_request []))) (calm False private_db) = (r, w')" by (metis surj_pair)
  have num: "ParseInt ''3'' = (3, True)" by (simp add: ParseInt_def Let_def is_digit_def byte_def with_sign_def)
  have "wp (ci_routes all_checks (Some full_middleware) (GetCheckCall (check_request []))) (\<lambda>r _. r = Refused 401 ''authentication required'') (calm False private_db)"
    by (simp add: optAuth_def Authenticate_def authenticate_def full_middleware_def check_request_def bearer_def HandleGetCheckRun_def ci_skill_def
        all_checks_def num resolveCISkill_def Let_def GetSkillByID_def SkillRepo_FindByID_def CanAccess_def isOwner_def Anonymous_def shop_skill_def
        role_of_def isAdminOrAbove_def platform_roles_def Principal_HasPlatformRole_def)
  then show ?thesis using run by (auto dest: wpD)
qed

end
