(* ===== verification/CommunityRoutes.thy ===== *)
theory CommunityRoutes
  imports SkillPath CommunityRules
begin

text \<open>
  The community routes of the HTTP API, \<open>internal/http/portal/community.go\<close>: issues, discussions, wiki pages,
  proposals and search below a skill's path. A handler resolves the skill the caller may see, checks that the
  row of the path belongs to it, decodes the body and calls the service. Every route of the table is a
  constructor of \<open>community_call\<close>.
\<close>

section \<open>Answers\<close>

datatype community_body =
    IssuePage "Issue ListResult"
  | IssueWith Issue "IssueComment list" "IssueLabel list"
  | IssueBody Issue
  | IssueComments "IssueComment list"
  | IssueCommentBody IssueComment
  | DiscussionPage "Discussion ListResult"
  | DiscussionWith Discussion "DiscussionComment list" "DiscussionLabel list"
  | DiscussionBody Discussion
  | DiscussionComments "DiscussionComment list"
  | DiscussionCommentBody DiscussionComment
  | WikiPages "WikiPage list"
  | WikiPageWith WikiPage "WikiPageVersion list"
  | WikiVersions "WikiPageVersion list"
  | WikiPageBody WikiPage
  | ProposalPage "ChangeProposal ListResult"
  | ProposalBody ChangeProposal
  | SearchPage "SearchResultItem ListResult"
  | Deleted

record community_handler =
  ch_CommunitySvc :: community_deps
  ch_SkillSvc :: bool

definition resolve_community_skill :: "community_handler \<Rightarrow> 'b request \<Rightarrow> (SkillDetail \<Rightarrow> 'a web) \<Rightarrow> 'a web" where
  "resolve_community_skill h r k = path_skill (ch_SkillSvc h) r k"

definition isSkillMaintainer :: "Principal \<Rightarrow> SkillDetail \<Rightarrow> bool" where
  "isSkillMaintainer p sk =
     (if Principal_HasPlatformRole p ''SUPER_ADMIN'' then True
      else if sd_OwnerID sk = pp_UserID p then True
      else Principal_NamespaceRole p (sd_NamespaceID sk) = ''ADMIN'' \<or> Principal_NamespaceRole p (sd_NamespaceID sk) = ''OWNER'')"

definition communityViewer :: "'b request \<Rightarrow> Viewer" where
  "communityViewer r = (let p = GetPrincipal r in
     \<lparr>vw_UserID = pp_UserID p, vw_PlatformRoles = pp_PlatformRoles p, vw_NamespaceRoles = pp_NamespaceRoles p\<rparr>)"

definition requested_size :: "'b request \<Rightarrow> int" where
  "requested_size r = (let sz = Atoi (rq_Query r ''size'') in if sz \<le> 0 then 20 else sz)"

section \<open>Issues\<close>

text \<open>The row of the path, which must belong to the skill of the path.\<close>

definition skill_row :: "community_handler \<Rightarrow> 'b request \<Rightarrow> string \<Rightarrow> string \<Rightarrow> (int \<Rightarrow> 'row op) \<Rightarrow> ('row \<Rightarrow> int) \<Rightarrow> string
    \<Rightarrow> (SkillDetail \<Rightarrow> int \<Rightarrow> 'row \<Rightarrow> 'a web) \<Rightarrow> 'a web" where
  "skill_row h r nm invalid find_row skill_of missing k = resolve_community_skill h r (\<lambda>sk.
     with_id r nm invalid (\<lambda>i. serving (find_row i) (\<lambda>x.
       if skill_of x \<noteq> sd_ID sk then refuse 404 missing else k sk i x)))"

definition path_issue :: "community_handler \<Rightarrow> 'b request \<Rightarrow> (SkillDetail \<Rightarrow> int \<Rightarrow> Issue \<Rightarrow> 'a web) \<Rightarrow> 'a web" where
  "path_issue h r = skill_row h r ''issueID'' ''invalid issue ID'' GetIssue is_SkillID ''issue not found''"

definition path_discussion :: "community_handler \<Rightarrow> 'b request \<Rightarrow> (SkillDetail \<Rightarrow> int \<Rightarrow> Discussion \<Rightarrow> 'a web) \<Rightarrow> 'a web" where
  "path_discussion h r = skill_row h r ''discussionID'' ''invalid discussion ID'' GetDiscussion ds_SkillID ''discussion not found''"

definition path_proposal :: "community_handler \<Rightarrow> 'b request \<Rightarrow> (SkillDetail \<Rightarrow> int \<Rightarrow> ChangeProposal \<Rightarrow> 'a web) \<Rightarrow> 'a web" where
  "path_proposal h r = skill_row h r ''proposalID'' ''invalid proposal ID'' GetChangeProposal cp_SkillID ''proposal not found''"

definition handleListIssues :: "community_handler \<Rightarrow> (unit, community_body) handler" where
  "handleListIssues h r = resolve_community_skill h r (\<lambda>sk.
     serving (ListIssues (sd_ID sk) (rq_Query r ''status'') (Atoi (rq_Query r ''page'')) (requested_size r)) (\<lambda>result. WriteJSON 200 (IssuePage result)))"

definition handleGetIssue :: "community_handler \<Rightarrow> (unit, community_body) handler" where
  "handleGetIssue h r = path_issue h r (\<lambda>sk i x.
     ignoring [] (ListIssueComments i) (\<lambda>comments. ignoring [] (ListIssueLabels i) (\<lambda>labels. WriteJSON 200 (IssueWith x comments labels))))"

definition handleCreateIssue :: "community_handler \<Rightarrow> (CreateIssueInput, community_body) handler" where
  "handleCreateIssue h r = resolve_community_skill h r (\<lambda>sk. with_body r (\<lambda>b.
     serving (CreateIssue (ch_CommunitySvc h) (communityViewer r) (b\<lparr>ci_SkillID := sd_ID sk\<rparr>)) (\<lambda>x. WriteJSON 201 (IssueBody x))))"

definition handleUpdateIssue :: "community_handler \<Rightarrow> (UpdateIssueInput, community_body) handler" where
  "handleUpdateIssue h r = path_issue h r (\<lambda>sk i x. with_body r (\<lambda>b.
     serving (UpdateIssue (ch_CommunitySvc h) (communityViewer r) (b\<lparr>ui_ID := i\<rparr>)) (\<lambda>y. WriteJSON 200 (IssueBody y))))"

definition handleDeleteIssue :: "community_handler \<Rightarrow> (unit, community_body) handler" where
  "handleDeleteIssue h r = path_issue h r (\<lambda>sk i x. serving (DeleteIssue (communityViewer r) i) (\<lambda>_. WriteJSON 200 Deleted))"

definition handleListIssueComments :: "community_handler \<Rightarrow> (unit, community_body) handler" where
  "handleListIssueComments h r = path_issue h r (\<lambda>sk i x. serving (ListIssueComments i) (\<lambda>cs. WriteJSON 200 (IssueComments cs)))"

text \<open>The body of a comment is its text.\<close>

definition handleAddIssueComment :: "community_handler \<Rightarrow> (string, community_body) handler" where
  "handleAddIssueComment h r = path_issue h r (\<lambda>sk i x. with_body r (\<lambda>b.
     serving (AddIssueComment (ch_CommunitySvc h) (communityViewer r) i b) (\<lambda>c. WriteJSON 201 (IssueCommentBody c))))"

section \<open>Discussions\<close>

definition handleListDiscussions :: "community_handler \<Rightarrow> (unit, community_body) handler" where
  "handleListDiscussions h r = resolve_community_skill h r (\<lambda>sk.
     serving (ListDiscussions (sd_ID sk) (rq_Query r ''category'') (Atoi (rq_Query r ''page'')) (requested_size r)) (\<lambda>result. WriteJSON 200 (DiscussionPage result)))"

definition handleGetDiscussion :: "community_handler \<Rightarrow> (unit, community_body) handler" where
  "handleGetDiscussion h r = path_discussion h r (\<lambda>sk i x.
     ignoring [] (ListDiscussionComments i) (\<lambda>comments. ignoring [] (ListDiscussionLabels i) (\<lambda>labels. WriteJSON 200 (DiscussionWith x comments labels))))"

definition handleCreateDiscussion :: "community_handler \<Rightarrow> (CreateDiscussionInput, community_body) handler" where
  "handleCreateDiscussion h r = resolve_community_skill h r (\<lambda>sk. with_body r (\<lambda>b.
     serving (CreateDiscussion (ch_CommunitySvc h) (communityViewer r) (b\<lparr>cdi_SkillID := sd_ID sk\<rparr>)) (\<lambda>x. WriteJSON 201 (DiscussionBody x))))"

definition handleUpdateDiscussion :: "community_handler \<Rightarrow> (UpdateDiscussionInput, community_body) handler" where
  "handleUpdateDiscussion h r = path_discussion h r (\<lambda>sk i x. with_body r (\<lambda>b.
     serving (UpdateDiscussion (communityViewer r) (b\<lparr>ud_ID := i\<rparr>)) (\<lambda>y. WriteJSON 200 (DiscussionBody y))))"

definition handleDeleteDiscussion :: "community_handler \<Rightarrow> (unit, community_body) handler" where
  "handleDeleteDiscussion h r = path_discussion h r (\<lambda>sk i x. serving (DeleteDiscussion (communityViewer r) i) (\<lambda>_. WriteJSON 200 Deleted))"

definition handleListDiscussionComments :: "community_handler \<Rightarrow> (unit, community_body) handler" where
  "handleListDiscussionComments h r = path_discussion h r (\<lambda>sk i x. serving (ListDiscussionComments i) (\<lambda>cs. WriteJSON 200 (DiscussionComments cs)))"

text \<open>The body of a comment is its text.\<close>

definition handleAddDiscussionComment :: "community_handler \<Rightarrow> (string, community_body) handler" where
  "handleAddDiscussionComment h r = path_discussion h r (\<lambda>sk i x. with_body r (\<lambda>b.
     serving (AddDiscussionComment (ch_CommunitySvc h) (communityViewer r) i b) (\<lambda>c. WriteJSON 201 (DiscussionCommentBody c))))"

text \<open>The body names the comment.\<close>

definition handleAcceptAnswer :: "community_handler \<Rightarrow> (int, community_body) handler" where
  "handleAcceptAnswer h r = path_discussion h r (\<lambda>sk i x. with_body r (\<lambda>commentID.
     serving (AcceptAnswer (ch_CommunitySvc h) (communityViewer r) i commentID) (\<lambda>y. WriteJSON 200 (DiscussionBody y))))"

section \<open>Wiki pages\<close>

definition handleListWikiPages :: "community_handler \<Rightarrow> (unit, community_body) handler" where
  "handleListWikiPages h r = resolve_community_skill h r (\<lambda>sk. serving (ListWikiPages (sd_ID sk)) (\<lambda>ps. WriteJSON 200 (WikiPages ps)))"

definition path_page :: "community_handler \<Rightarrow> 'b request \<Rightarrow> (SkillDetail \<Rightarrow> WikiPage \<Rightarrow> 'a web) \<Rightarrow> 'a web" where
  "path_page h r k = resolve_community_skill h r (\<lambda>sk. serving (GetWikiPage (sd_ID sk) (rq_Path r ''pageSlug'')) (k sk))"

definition handleGetWikiPage :: "community_handler \<Rightarrow> (unit, community_body) handler" where
  "handleGetWikiPage h r = path_page h r (\<lambda>sk p. ignoring [] (ListWikiPageVersions (wk_ID p)) (\<lambda>vs. WriteJSON 200 (WikiPageWith p vs)))"

definition handleListWikiVersions :: "community_handler \<Rightarrow> (unit, community_body) handler" where
  "handleListWikiVersions h r = path_page h r (\<lambda>sk p. serving (ListWikiPageVersions (wk_ID p)) (\<lambda>vs. WriteJSON 200 (WikiVersions vs)))"

text \<open>No handler calls it: the service checks the same of the viewer.\<close>

definition requireMaintainer :: "'b request \<Rightarrow> SkillDetail \<Rightarrow> 'a web \<Rightarrow> 'a web" where
  "requireMaintainer r sk k = (if \<not> isSkillMaintainer (GetPrincipal r) sk then refuse 403 ''forbidden'' else k)"

definition handleCreateWikiPage :: "community_handler \<Rightarrow> (CreateWikiPageInput, community_body) handler" where
  "handleCreateWikiPage h r = resolve_community_skill h r (\<lambda>sk. with_body r (\<lambda>b.
     serving (CreateWikiPage (ch_CommunitySvc h) (communityViewer r) (sd_OwnerID sk) (sd_NamespaceID sk) (b\<lparr>cw_SkillID := sd_ID sk\<rparr>))
       (\<lambda>p. WriteJSON 201 (WikiPageBody p))))"

definition handleUpdateWikiPage :: "community_handler \<Rightarrow> (UpdateWikiPageInput, community_body) handler" where
  "handleUpdateWikiPage h r = path_page h r (\<lambda>sk p. with_body r (\<lambda>b.
     serving (UpdateWikiPage (ch_CommunitySvc h) (communityViewer r) (sd_OwnerID sk) (sd_NamespaceID sk) (b\<lparr>uw_PageID := wk_ID p\<rparr>))
       (\<lambda>q. WriteJSON 200 (WikiPageBody q))))"

definition handleDeleteWikiPage :: "community_handler \<Rightarrow> (unit, community_body) handler" where
  "handleDeleteWikiPage h r = path_page h r (\<lambda>sk p.
     serving (DeleteWikiPage (communityViewer r) (sd_OwnerID sk) (sd_NamespaceID sk) (wk_ID p)) (\<lambda>_. WriteJSON 200 Deleted))"

section \<open>Change proposals and search\<close>

definition handleListProposals :: "community_handler \<Rightarrow> (unit, community_body) handler" where
  "handleListProposals h r = resolve_community_skill h r (\<lambda>sk.
     serving (ListChangeProposals (sd_ID sk) (rq_Query r ''status'') (Atoi (rq_Query r ''page'')) (requested_size r)) (\<lambda>result. WriteJSON 200 (ProposalPage result)))"

definition handleGetProposal :: "community_handler \<Rightarrow> (unit, community_body) handler" where
  "handleGetProposal h r = path_proposal h r (\<lambda>sk i x. WriteJSON 200 (ProposalBody x))"

definition handleCreateProposal :: "community_handler \<Rightarrow> (CreateChangeProposalInput, community_body) handler" where
  "handleCreateProposal h r = resolve_community_skill h r (\<lambda>sk. with_body r (\<lambda>b.
     serving (CreateChangeProposal (ch_CommunitySvc h) (communityViewer r) (b\<lparr>pi_SkillID := sd_ID sk\<rparr>)) (\<lambda>x. WriteJSON 201 (ProposalBody x))))"

definition handleUpdateProposal :: "community_handler \<Rightarrow> (UpdateChangeProposalInput, community_body) handler" where
  "handleUpdateProposal h r = path_proposal h r (\<lambda>sk i x. with_body r (\<lambda>b.
     serving (UpdateChangeProposalStatus (ch_CommunitySvc h) (communityViewer r) (sd_OwnerID sk) (sd_NamespaceID sk) (b\<lparr>up_ID := i\<rparr>))
       (\<lambda>y. WriteJSON 200 (ProposalBody y))))"

definition handleCommunitySearch :: "community_handler \<Rightarrow> (unit, community_body) handler" where
  "handleCommunitySearch h r = resolve_community_skill h r (\<lambda>sk.
     let typesStr = rq_Query r ''types'' in
     serving (SearchCommunity (ch_CommunitySvc h) \<lparr>sq_SkillID = sd_ID sk, sq_Query = rq_Query r ''query'',
         sq_Types = (if typesStr \<noteq> [] then split_on (CHR '','') typesStr else []), sq_Page = Atoi (rq_Query r ''page''), sq_Size = Atoi (rq_Query r ''size'')\<rparr>)
       (\<lambda>result. WriteJSON 200 (SearchPage result)))"

section \<open>The route table\<close>

datatype community_call =
    ListIssuesCall "unit request"
  | GetIssueCall "unit request"
  | ListIssueCommentsCall "unit request"
  | CreateIssueCall "CreateIssueInput request"
  | UpdateIssueCall "UpdateIssueInput request"
  | DeleteIssueCall "unit request"
  | AddIssueCommentCall "string request"
  | ListDiscussionsCall "unit request"
  | GetDiscussionCall "unit request"
  | ListDiscussionCommentsCall "unit request"
  | CreateDiscussionCall "CreateDiscussionInput request"
  | UpdateDiscussionCall "UpdateDiscussionInput request"
  | DeleteDiscussionCall "unit request"
  | AddDiscussionCommentCall "string request"
  | AcceptAnswerCall "int request"
  | ListWikiPagesCall "unit request"
  | GetWikiPageCall "unit request"
  | ListWikiVersionsCall "unit request"
  | CreateWikiPageCall "CreateWikiPageInput request"
  | UpdateWikiPageCall "UpdateWikiPageInput request"
  | DeleteWikiPageCall "unit request"
  | ListProposalsCall "unit request"
  | GetProposalCall "unit request"
  | CreateProposalCall "CreateChangeProposalInput request"
  | UpdateProposalCall "UpdateChangeProposalInput request"
  | CommunitySearchCall "unit request"

fun community_routes :: "community_handler \<Rightarrow> auth_middleware option \<Rightarrow> limiter option \<Rightarrow> community_call \<Rightarrow> community_body web" where
  "community_routes h authMW rl (ListIssuesCall r) = optAuth authMW (handleListIssues h) r"
| "community_routes h authMW rl (GetIssueCall r) = optAuth authMW (handleGetIssue h) r"
| "community_routes h authMW rl (ListIssueCommentsCall r) = optAuth authMW (handleListIssueComments h) r"
| "community_routes h authMW rl (CreateIssueCall r) = mustAuth authMW (withLimit rl ''publish'' (handleCreateIssue h)) r"
| "community_routes h authMW rl (UpdateIssueCall r) = mustAuth authMW (handleUpdateIssue h) r"
| "community_routes h authMW rl (DeleteIssueCall r) = mustAuth authMW (handleDeleteIssue h) r"
| "community_routes h authMW rl (AddIssueCommentCall r) = mustAuth authMW (handleAddIssueComment h) r"
| "community_routes h authMW rl (ListDiscussionsCall r) = optAuth authMW (handleListDiscussions h) r"
| "community_routes h authMW rl (GetDiscussionCall r) = optAuth authMW (handleGetDiscussion h) r"
| "community_routes h authMW rl (ListDiscussionCommentsCall r) = optAuth authMW (handleListDiscussionComments h) r"
| "community_routes h authMW rl (CreateDiscussionCall r) = mustAuth authMW (withLimit rl ''publish'' (handleCreateDiscussion h)) r"
| "community_routes h authMW rl (UpdateDiscussionCall r) = mustAuth authMW (handleUpdateDiscussion h) r"
| "community_routes h authMW rl (DeleteDiscussionCall r) = mustAuth authMW (handleDeleteDiscussion h) r"
| "community_routes h authMW rl (AddDiscussionCommentCall r) = mustAuth authMW (handleAddDiscussionComment h) r"
| "community_routes h authMW rl (AcceptAnswerCall r) = mustAuth authMW (handleAcceptAnswer h) r"
| "community_routes h authMW rl (ListWikiPagesCall r) = optAuth authMW (handleListWikiPages h) r"
| "community_routes h authMW rl (GetWikiPageCall r) = optAuth authMW (handleGetWikiPage h) r"
| "community_routes h authMW rl (ListWikiVersionsCall r) = optAuth authMW (handleListWikiVersions h) r"
| "community_routes h authMW rl (CreateWikiPageCall r) = mustAuth authMW (handleCreateWikiPage h) r"
| "community_routes h authMW rl (UpdateWikiPageCall r) = mustAuth authMW (handleUpdateWikiPage h) r"
| "community_routes h authMW rl (DeleteWikiPageCall r) = mustAuth authMW (handleDeleteWikiPage h) r"
| "community_routes h authMW rl (ListProposalsCall r) = optAuth authMW (handleListProposals h) r"
| "community_routes h authMW rl (GetProposalCall r) = optAuth authMW (handleGetProposal h) r"
| "community_routes h authMW rl (CreateProposalCall r) = mustAuth authMW (withLimit rl ''publish'' (handleCreateProposal h)) r"
| "community_routes h authMW rl (UpdateProposalCall r) = mustAuth authMW (handleUpdateProposal h) r"
| "community_routes h authMW rl (CommunitySearchCall r) = optAuth authMW (handleCommunitySearch h) r"

end
