(* ===== verification/Confinement.thy ===== *)
theory Confinement
  imports CommunityRoutes
begin

text \<open>
  What the community routes cannot touch: the rows of other skills. \<open>confined k d d'\<close> compares the tables before and after
  outside the skill \<open>k\<close>; every write of the repositories, then of the services, keeps it, given that the row it is
  about is not one of another skill's (\<open>foreign_issues\<close> and the like), which the handlers check.
\<close>

section \<open>One skill at a time\<close>

text \<open>
  What belongs to other skills than \<open>k\<close>: the ids of their issues, discussions and pages; and the tables
  agree on everything that belongs to them.
\<close>

definition foreign_issues :: "int \<Rightarrow> database \<Rightarrow> int set" where
  "foreign_issues k d = is_ID ` {x \<in> set (issues (community d)). is_SkillID x \<noteq> k}"

definition foreign_discussions :: "int \<Rightarrow> database \<Rightarrow> int set" where
  "foreign_discussions k d = ds_ID ` {x \<in> set (discussions (community d)). ds_SkillID x \<noteq> k}"

definition foreign_pages :: "int \<Rightarrow> database \<Rightarrow> int set" where
  "foreign_pages k d = wk_ID ` {x \<in> set (wiki_pages (community d)). wk_SkillID x \<noteq> k}"

definition foreign_proposals :: "int \<Rightarrow> database \<Rightarrow> int set" where
  "foreign_proposals k d = cp_ID ` {x \<in> set (proposals (community d)). cp_SkillID x \<noteq> k}"

definition confined :: "int \<Rightarrow> database \<Rightarrow> database \<Rightarrow> bool" where
  "confined k d d' \<longleftrightarrow> (let c = community d; c' = community d' in
     filter (\<lambda>x. is_SkillID x \<noteq> k) (issues c') = filter (\<lambda>x. is_SkillID x \<noteq> k) (issues c)
     \<and> filter (\<lambda>m. ic_IssueID m \<in> foreign_issues k d) (issue_comments c') = filter (\<lambda>m. ic_IssueID m \<in> foreign_issues k d) (issue_comments c)
     \<and> filter (\<lambda>x. ds_SkillID x \<noteq> k) (discussions c') = filter (\<lambda>x. ds_SkillID x \<noteq> k) (discussions c)
     \<and> filter (\<lambda>m. dc_DiscussionID m \<in> foreign_discussions k d) (discussion_comments c') = filter (\<lambda>m. dc_DiscussionID m \<in> foreign_discussions k d) (discussion_comments c)
     \<and> filter (\<lambda>x. wk_SkillID x \<noteq> k) (wiki_pages c') = filter (\<lambda>x. wk_SkillID x \<noteq> k) (wiki_pages c)
     \<and> filter (\<lambda>v. wv_PageID v \<in> foreign_pages k d) (wiki_versions c') = filter (\<lambda>v. wv_PageID v \<in> foreign_pages k d) (wiki_versions c)
     \<and> filter (\<lambda>x. cp_SkillID x \<noteq> k) (proposals c') = filter (\<lambda>x. cp_SkillID x \<noteq> k) (proposals c))"

lemma confined_same: "community d' = community d \<Longrightarrow> confined k d d'"
  by (simp add: confined_def)

lemma filter_update_where:
  assumes "\<And>x. x \<in> set rs \<Longrightarrow> p x \<Longrightarrow> \<not> q x \<and> \<not> q (f x)"
  shows "filter q (update_where p f rs) = filter q rs"
  using assms by (induction rs) (auto simp: update_where_def)

lemma filter_delete_where:
  assumes "\<And>x. x \<in> set rs \<Longrightarrow> p x \<Longrightarrow> \<not> q x"
  shows "filter q (delete_where p rs) = filter q rs"
  using assms by (induction rs) (auto simp: delete_where_def)

lemma filter_eq_in: "filter q xs = filter q ys \<Longrightarrow> x \<in> set xs \<Longrightarrow> q x \<Longrightarrow> x \<in> set ys"
  by (metis (mono_tags, lifting) mem_Collect_eq set_filter)

text \<open>A row of another skill is one of those the other skill had.\<close>

lemma confined_rows:
  assumes "confined k d d'"
  shows "x \<in> set (issues (community d')) \<Longrightarrow> is_SkillID x \<noteq> k \<Longrightarrow> is_ID x \<in> foreign_issues k d"
    "y \<in> set (discussions (community d')) \<Longrightarrow> ds_SkillID y \<noteq> k \<Longrightarrow> ds_ID y \<in> foreign_discussions k d"
    "p \<in> set (wiki_pages (community d')) \<Longrightarrow> wk_SkillID p \<noteq> k \<Longrightarrow> wk_ID p \<in> foreign_pages k d"
    "z \<in> set (proposals (community d')) \<Longrightarrow> cp_SkillID z \<noteq> k \<Longrightarrow> cp_ID z \<in> foreign_proposals k d"
  using assms unfolding confined_def Let_def foreign_issues_def foreign_discussions_def foreign_pages_def foreign_proposals_def
  by (auto dest: filter_eq_in)

lemma issue_rows: "confined k d u \<Longrightarrow> x \<in> set (issues (community u)) \<Longrightarrow> is_ID x \<notin> foreign_issues k d \<Longrightarrow> is_SkillID x = k"
  using confined_rows(1) by blast

lemma confined_issue_updated:
  assumes "confined k d u" "i \<notin> foreign_issues k d" "\<And>r. is_SkillID (g r) = is_SkillID r"
  shows "confined k d (on_community (\<lambda>c. c\<lparr>issues := update_where (\<lambda>r. is_ID r = i) g (issues c)\<rparr>) u)"
proof -
  have "filter (\<lambda>x. is_SkillID x \<noteq> k) (update_where (\<lambda>r. is_ID r = i) g (issues (community u))) = filter (\<lambda>x. is_SkillID x \<noteq> k) (issues (community u))"
    by (rule filter_update_where) (use issue_rows [OF assms(1)] assms(2,3) in auto)
  then show ?thesis using assms(1) by (simp add: confined_def Let_def)
qed

lemma issue_create_confined: "is_SkillID x = k \<Longrightarrow> keeps (confined k d) (IssueRepo_Create x)"
  unfolding IssueRepo_Create_def by (rule keeps_insert) (auto simp: checked_Inr Let_def confined_def)

lemma issue_update_confined: "is_ID x \<notin> foreign_issues k d \<Longrightarrow> keeps (confined k d) (IssueRepo_Update x)"
  unfolding IssueRepo_Update_def by (rule keeps_try) (auto simp: checked_Inr is_set_def intro: confined_issue_updated)

lemma confined_issue_deleted:
  assumes "confined k d u" "i \<notin> foreign_issues k d"
  shows "confined k d (on_community (\<lambda>c. c\<lparr>issues := delete_where (\<lambda>r. is_ID r = i) (issues c), issue_comments := delete_where (\<lambda>r. ic_IssueID r = i) (issue_comments c), issue_labels := X c\<rparr>) u)"
proof -
  have "filter (\<lambda>x. is_SkillID x \<noteq> k) (delete_where (\<lambda>r. is_ID r = i) (issues (community u))) = filter (\<lambda>x. is_SkillID x \<noteq> k) (issues (community u))"
    by (rule filter_delete_where) (use issue_rows [OF assms(1)] assms(2) in auto)
  moreover have "filter (\<lambda>m. ic_IssueID m \<in> foreign_issues k d) (delete_where (\<lambda>r. ic_IssueID r = i) (issue_comments (community u))) = filter (\<lambda>m. ic_IssueID m \<in> foreign_issues k d) (issue_comments (community u))"
    by (rule filter_delete_where) (use assms(2) in auto)
  ultimately show ?thesis using assms(1) by (simp add: confined_def Let_def)
qed

lemma issue_delete_confined: "n \<notin> foreign_issues k d \<Longrightarrow> keeps (confined k d) (IssueRepo_Delete n)"
  unfolding IssueRepo_Delete_def
  by (rule keeps_exec) (use confined_issue_deleted [of k d _ n] in \<open>auto simp: checked_Inr Let_def on_community_def\<close>)

lemma issue_child_confined: "ic_IssueID m \<notin> foreign_issues k d \<Longrightarrow> keeps (confined k d) (IssueCommentRepo_Create m)"
  unfolding IssueCommentRepo_Create_def by (rule keeps_insert) (auto simp: checked_Inr Let_def confined_def)

lemma discussion_rows: "confined k d u \<Longrightarrow> x \<in> set (discussions (community u)) \<Longrightarrow> ds_ID x \<notin> foreign_discussions k d \<Longrightarrow> ds_SkillID x = k"
  using confined_rows(2) by blast

lemma confined_discussion_updated:
  assumes "confined k d u" "i \<notin> foreign_discussions k d" "\<And>r. ds_SkillID (g r) = ds_SkillID r"
  shows "confined k d (on_community (\<lambda>c. c\<lparr>discussions := update_where (\<lambda>r. ds_ID r = i) g (discussions c)\<rparr>) u)"
proof -
  have "filter (\<lambda>x. ds_SkillID x \<noteq> k) (update_where (\<lambda>r. ds_ID r = i) g (discussions (community u))) = filter (\<lambda>x. ds_SkillID x \<noteq> k) (discussions (community u))"
    by (rule filter_update_where) (use discussion_rows [OF assms(1)] assms(2,3) in auto)
  then show ?thesis using assms(1) by (simp add: confined_def Let_def)
qed

lemma discussion_create_confined: "ds_SkillID x = k \<Longrightarrow> keeps (confined k d) (DiscussionRepo_Create x)"
  unfolding DiscussionRepo_Create_def by (rule keeps_insert) (auto simp: checked_Inr Let_def confined_def)

lemma discussion_update_confined: "ds_ID x \<notin> foreign_discussions k d \<Longrightarrow> keeps (confined k d) (DiscussionRepo_Update x)"
  unfolding DiscussionRepo_Update_def by (rule keeps_try) (auto simp: checked_Inr ds_set_def intro: confined_discussion_updated)

lemma confined_discussion_deleted:
  assumes "confined k d u" "i \<notin> foreign_discussions k d"
  shows "confined k d (on_community (\<lambda>c. c\<lparr>discussions := delete_where (\<lambda>r. ds_ID r = i) (discussions c), discussion_comments := delete_where (\<lambda>r. dc_DiscussionID r = i) (discussion_comments c), discussion_labels := X c\<rparr>) u)"
proof -
  have "filter (\<lambda>x. ds_SkillID x \<noteq> k) (delete_where (\<lambda>r. ds_ID r = i) (discussions (community u))) = filter (\<lambda>x. ds_SkillID x \<noteq> k) (discussions (community u))"
    by (rule filter_delete_where) (use discussion_rows [OF assms(1)] assms(2) in auto)
  moreover have "filter (\<lambda>m. dc_DiscussionID m \<in> foreign_discussions k d) (delete_where (\<lambda>r. dc_DiscussionID r = i) (discussion_comments (community u))) = filter (\<lambda>m. dc_DiscussionID m \<in> foreign_discussions k d) (discussion_comments (community u))"
    by (rule filter_delete_where) (use assms(2) in auto)
  ultimately show ?thesis using assms(1) by (simp add: confined_def Let_def)
qed

lemma discussion_delete_confined: "n \<notin> foreign_discussions k d \<Longrightarrow> keeps (confined k d) (DiscussionRepo_Delete n)"
  unfolding DiscussionRepo_Delete_def
  by (rule keeps_try) (use confined_discussion_deleted [of k d _ n] in \<open>auto simp: checked_Inr Let_def on_community_def\<close>)

lemma discussion_child_confined: "dc_DiscussionID m \<notin> foreign_discussions k d \<Longrightarrow> keeps (confined k d) (DiscCommentRepo_Create m)"
  unfolding DiscCommentRepo_Create_def by (rule keeps_insert) (auto simp: checked_Inr Let_def confined_def)

lemma page_rows: "confined k d u \<Longrightarrow> x \<in> set (wiki_pages (community u)) \<Longrightarrow> wk_ID x \<notin> foreign_pages k d \<Longrightarrow> wk_SkillID x = k"
  using confined_rows(3) by blast

lemma confined_page_updated:
  assumes "confined k d u" "i \<notin> foreign_pages k d" "\<And>r. wk_SkillID (g r) = wk_SkillID r"
  shows "confined k d (on_community (\<lambda>c. c\<lparr>wiki_pages := update_where (\<lambda>r. wk_ID r = i) g (wiki_pages c)\<rparr>) u)"
proof -
  have "filter (\<lambda>x. wk_SkillID x \<noteq> k) (update_where (\<lambda>r. wk_ID r = i) g (wiki_pages (community u))) = filter (\<lambda>x. wk_SkillID x \<noteq> k) (wiki_pages (community u))"
    by (rule filter_update_where) (use page_rows [OF assms(1)] assms(2,3) in auto)
  then show ?thesis using assms(1) by (simp add: confined_def Let_def)
qed

lemma page_create_confined: "wk_SkillID x = k \<Longrightarrow> keeps (confined k d) (WikiPageRepo_Create x)"
  unfolding WikiPageRepo_Create_def by (rule keeps_insert) (auto simp: checked_Inr Let_def confined_def)

lemma page_update_confined: "wk_ID x \<notin> foreign_pages k d \<Longrightarrow> keeps (confined k d) (WikiPageRepo_Update x)"
  unfolding WikiPageRepo_Update_def by (rule keeps_try) (auto simp: checked_Inr wk_set_def intro: confined_page_updated)

lemma confined_page_deleted:
  assumes "confined k d u" "i \<notin> foreign_pages k d"
  shows "confined k d (on_community (\<lambda>c. c\<lparr>wiki_pages := delete_where (\<lambda>r. wk_ID r = i) (wiki_pages c), wiki_versions := delete_where (\<lambda>r. wv_PageID r = i) (wiki_versions c)\<rparr>) u)"
proof -
  have "filter (\<lambda>x. wk_SkillID x \<noteq> k) (delete_where (\<lambda>r. wk_ID r = i) (wiki_pages (community u))) = filter (\<lambda>x. wk_SkillID x \<noteq> k) (wiki_pages (community u))"
    by (rule filter_delete_where) (use page_rows [OF assms(1)] assms(2) in auto)
  moreover have "filter (\<lambda>m. wv_PageID m \<in> foreign_pages k d) (delete_where (\<lambda>r. wv_PageID r = i) (wiki_versions (community u))) = filter (\<lambda>m. wv_PageID m \<in> foreign_pages k d) (wiki_versions (community u))"
    by (rule filter_delete_where) (use assms(2) in auto)
  ultimately show ?thesis using assms(1) by (simp add: confined_def Let_def)
qed

lemma page_delete_confined: "n \<notin> foreign_pages k d \<Longrightarrow> keeps (confined k d) (WikiPageRepo_Delete n)"
  unfolding WikiPageRepo_Delete_def
  by (rule keeps_try) (use confined_page_deleted [of k d _ n] in \<open>auto simp: checked_Inr Let_def on_community_def\<close>)

lemma page_child_confined: "wv_PageID m \<notin> foreign_pages k d \<Longrightarrow> keeps (confined k d) (WikiVersionRepo_Create m)"
  unfolding WikiVersionRepo_Create_def by (rule keeps_insert) (auto simp: checked_Inr Let_def confined_def)

lemma proposal_rows: "confined k d u \<Longrightarrow> x \<in> set (proposals (community u)) \<Longrightarrow> cp_ID x \<notin> foreign_proposals k d \<Longrightarrow> cp_SkillID x = k"
  using confined_rows(4) by blast

lemma confined_proposal_updated:
  assumes "confined k d u" "i \<notin> foreign_proposals k d" "\<And>r. cp_SkillID (g r) = cp_SkillID r"
  shows "confined k d (on_community (\<lambda>c. c\<lparr>proposals := update_where (\<lambda>r. cp_ID r = i) g (proposals c)\<rparr>) u)"
proof -
  have "filter (\<lambda>x. cp_SkillID x \<noteq> k) (update_where (\<lambda>r. cp_ID r = i) g (proposals (community u))) = filter (\<lambda>x. cp_SkillID x \<noteq> k) (proposals (community u))"
    by (rule filter_update_where) (use proposal_rows [OF assms(1)] assms(2,3) in auto)
  then show ?thesis using assms(1) by (simp add: confined_def Let_def)
qed

lemma proposal_create_confined: "cp_SkillID x = k \<Longrightarrow> keeps (confined k d) (ProposalRepo_Create x)"
  unfolding ProposalRepo_Create_def by (rule keeps_insert) (auto simp: checked_Inr Let_def confined_def)

lemma proposal_update_confined: "cp_ID x \<notin> foreign_proposals k d \<Longrightarrow> keeps (confined k d) (ProposalRepo_Update x)"
  unfolding ProposalRepo_Update_def by (rule keeps_try) (auto simp: checked_Inr cp_set_def intro: confined_proposal_updated)

lemma keeps_and_then_result:
  assumes "keeps I m" and "\<And>w. I (db w) \<Longrightarrow> wp m (\<lambda>r _. \<forall>x. r = Inr x \<longrightarrow> P x) w" and "\<And>x. P x \<Longrightarrow> keeps I (k x)"
  shows "keeps I (and_then m k)"
proof (rule keepsI)
  fix w :: world assume I: "I (db w)"
  then have "wp m (\<lambda>r w'. (\<forall>x. r = Inr x \<longrightarrow> P x) \<and> I (db w')) w" using assms(1,2) by (simp add: keeps_def wp_conj)
  then show "wp (and_then m k) (\<lambda>_ w'. I (db w')) w"
    unfolding wp_and_then by (rule wp_mono) (use assms(3) in \<open>auto simp: keeps_def split: sum.splits\<close>)
qed

lemma of_community_confined: "of_community (confined k d)"
  by (simp add: of_community_def confined_def)

lemma keeps_found:
  assumes "\<And>x. q x \<Longrightarrow> keeps I (k x)"
  shows "keeps I (and_then (find_or msg e (db_query (\<lambda>d. find q (f d)))) k)"
  by (rule keeps_and_then_result [where P = q])
    (auto simp: find_Some_iff intro: keeps_intros assms split: option.splits)

lemma keeps_conj: "keeps I m \<Longrightarrow> keeps J m \<Longrightarrow> keeps (\<lambda>u. I u \<and> J u) m"
  by (simp add: keeps_def wp_conj)

lemmas confined_keeps = keeps_intros keeps_publish keeps_audit keeps_linked of_community_confined

lemma issues_confined:
  assumes "neutral_deps deps"
  shows "ci_SkillID ci = k \<Longrightarrow> keeps (confined k d) (CreateIssue deps v ci)"
    "ui_ID ui \<notin> foreign_issues k d \<Longrightarrow> keeps (confined k d) (UpdateIssue deps v ui)"
    "n \<notin> foreign_issues k d \<Longrightarrow> keeps (confined k d) (DeleteIssue v n)"
    "n \<notin> foreign_issues k d \<Longrightarrow> keeps (confined k d) (AddIssueComment deps v n b)"
proof -
  show "ci_SkillID ci = k \<Longrightarrow> keeps (confined k d) (CreateIssue deps v ci)"
    unfolding CreateIssue_def by (intro confined_keeps assms issue_create_confined) (simp add: new_issue_def)
  show "ui_ID ui \<notin> foreign_issues k d \<Longrightarrow> keeps (confined k d) (UpdateIssue deps v ui)"
    unfolding UpdateIssue_def IssueRepo_FindByID_def
    by (intro keeps_found confined_keeps assms issue_update_confined) (simp add: changed_issue_def)
  show "n \<notin> foreign_issues k d \<Longrightarrow> keeps (confined k d) (DeleteIssue v n)"
    unfolding DeleteIssue_def IssueRepo_FindByID_def by (intro confined_keeps issue_delete_confined)
  show "n \<notin> foreign_issues k d \<Longrightarrow> keeps (confined k d) (AddIssueComment deps v n b)"
    unfolding AddIssueComment_def IssueRepo_FindByID_def by (intro confined_keeps assms issue_child_confined) simp
qed

lemma proposals_confined:
  assumes "neutral_deps deps"
  shows "pi_SkillID pi = k \<Longrightarrow> keeps (confined k d) (CreateChangeProposal deps v pi)"
    "up_ID up \<notin> foreign_proposals k d \<Longrightarrow> keeps (confined k d) (UpdateChangeProposalStatus deps v own ns up)"
proof -
  show "pi_SkillID pi = k \<Longrightarrow> keeps (confined k d) (CreateChangeProposal deps v pi)"
    unfolding CreateChangeProposal_def by (intro confined_keeps assms proposal_create_confined) simp
  show "up_ID up \<notin> foreign_proposals k d \<Longrightarrow> keeps (confined k d) (UpdateChangeProposalStatus deps v own ns up)"
    unfolding UpdateChangeProposalStatus_def ProposalRepo_FindByID_def
    by (intro keeps_found confined_keeps assms proposal_update_confined) (simp add: changed_proposal_def)
qed

lemma talks_confined:
  assumes "neutral_deps deps"
  shows "cdi_SkillID ci = k \<Longrightarrow> keeps (confined k d) (CreateDiscussion deps v ci)"
    "ud_ID ud \<notin> foreign_discussions k d \<Longrightarrow> keeps (confined k d) (UpdateDiscussion v ud)"
    "n \<notin> foreign_discussions k d \<Longrightarrow> keeps (confined k d) (DeleteDiscussion v n)"
    "n \<notin> foreign_discussions k d \<Longrightarrow> keeps (confined k d) (AddDiscussionComment deps v n b)"
proof -
  show "cdi_SkillID ci = k \<Longrightarrow> keeps (confined k d) (CreateDiscussion deps v ci)"
    unfolding CreateDiscussion_def by (intro confined_keeps assms discussion_create_confined) (simp add: new_discussion_def)
  show "ud_ID ud \<notin> foreign_discussions k d \<Longrightarrow> keeps (confined k d) (UpdateDiscussion v ud)"
    unfolding UpdateDiscussion_def DiscussionRepo_FindByID_def
    by (intro keeps_found confined_keeps assms discussion_update_confined) (simp add: changed_discussion_def)
  show "n \<notin> foreign_discussions k d \<Longrightarrow> keeps (confined k d) (DeleteDiscussion v n)"
    unfolding DeleteDiscussion_def DiscussionRepo_FindByID_def by (intro confined_keeps discussion_delete_confined)
  show "n \<notin> foreign_discussions k d \<Longrightarrow> keeps (confined k d) (AddDiscussionComment deps v n b)"
    unfolding AddDiscussionComment_def DiscussionRepo_FindByID_def by (intro confined_keeps assms discussion_child_confined) simp
qed

text \<open>
  Accepting an answer updates the comments that were read for the discussion. That no other discussion's comment has
  the id of one of them is part of the soundness of the tables, and the loop keeps it.
\<close>

definition owns_comments :: "int \<Rightarrow> int set \<Rightarrow> database \<Rightarrow> bool" where
  "owns_comments n A u \<longleftrightarrow> (\<forall>m \<in> set (discussion_comments (community u)). dc_ID m \<in> A \<longrightarrow> dc_DiscussionID m = n)"

lemma of_community_owned: "of_community (\<lambda>u. confined k d u \<and> owns_comments n A u)"
  by (simp add: of_community_def confined_def owns_comments_def)

lemma mark_update_confined:
  assumes "n \<notin> foreign_discussions k d" "dc_ID m \<in> A"
  shows "keeps (\<lambda>u. confined k d u \<and> owns_comments n A u) (DiscCommentRepo_Update m)"
  unfolding DiscCommentRepo_Update_def
proof (rule keeps_exec)
  fix u assume u: "confined k d u \<and> owns_comments n A u"
  let ?cs = "discussion_comments (community u)"
  have "filter (\<lambda>c. dc_DiscussionID c \<in> foreign_discussions k d) (update_where (\<lambda>r. dc_ID r = dc_ID m) (dc_set m) ?cs)
      = filter (\<lambda>c. dc_DiscussionID c \<in> foreign_discussions k d) ?cs"
    by (rule filter_update_where) (use u assms in \<open>auto simp: owns_comments_def dc_set_def\<close>)
  moreover have "owns_comments n A (on_community (\<lambda>c. c\<lparr>discussion_comments := update_where (\<lambda>r. dc_ID r = dc_ID m) (dc_set m) (discussion_comments c)\<rparr>) u)"
    using u by (auto simp: owns_comments_def update_where_in dc_set_def split: if_splits)
  ultimately show "confined k d (snd (m, on_community (\<lambda>c. c\<lparr>discussion_comments := update_where (\<lambda>r. dc_ID r = dc_ID m) (dc_set m) (discussion_comments c)\<rparr>) u))
      \<and> owns_comments n A (snd (m, on_community (\<lambda>c. c\<lparr>discussion_comments := update_where (\<lambda>r. dc_ID r = dc_ID m) (dc_set m) (discussion_comments c)\<rparr>) u))"
    using u by (simp add: confined_def Let_def)
qed

lemma mark_answers_confined:
  assumes "n \<notin> foreign_discussions k d" "dc_ID ` set ms \<subseteq> A"
  shows "keeps (\<lambda>u. confined k d u \<and> owns_comments n A u) (mark_answers a ms)"
  using assms(2)
proof (induction ms)
  case (Cons m ms)
  then show ?case unfolding mark_answers.simps by (intro keeps_intros mark_update_confined assms(1)) auto
qed (simp add: keeps_return)

lemma accept_confined:
  assumes "neutral_deps deps" "n \<notin> foreign_discussions k d" "community_ok d"
  shows "ends d (confined k d) (AcceptAnswer deps v n a)"
proof (rule endsI)
  fix w :: world assume w: "db w = d"
  have same: "confined k d d" by (rule confined_same) simp
  define Q where "Q = (\<lambda>(r :: err + Discussion) (w' :: world). confined k d (db w'))"
  have fin: "wp (do { t \<leftarrow> now;
        and_then (wrapped ''community: accept answer'' (DiscussionRepo_Update (x\<lparr>ds_AcceptedAnswerID := Some a, ds_UpdatedAt := t\<rparr>))) (\<lambda>updated. do {
          _ \<leftarrow> publishEvent deps ''community.discussion.answer_accepted'' [(''discussionId'', AInt n), (''answerId'', AInt a), (''skillId'', AInt (ds_SkillID x))];
          ok updated }) }) Q w'" if "confined k d (db w')" "ds_ID x = n" for x w'
  proof -
    have "keeps (confined k d) (do { t \<leftarrow> now;
        and_then (wrapped ''community: accept answer'' (DiscussionRepo_Update (x\<lparr>ds_AcceptedAnswerID := Some a, ds_UpdatedAt := t\<rparr>))) (\<lambda>updated. do {
          _ \<leftarrow> publishEvent deps ''community.discussion.answer_accepted'' [(''discussionId'', AInt n), (''answerId'', AInt a), (''skillId'', AInt (ds_SkillID x))];
          ok updated }) })"
      by (intro confined_keeps discussion_update_confined assms(1)) (simp add: that(2) assms(2))
    then show ?thesis using that(1) by (simp add: keeps_def Q_def)
  qed
  have mark: "wp (mark_answers a (sort_key dc_CreatedAt (filter (\<lambda>r. dc_DiscussionID r = n) (discussion_comments (community d))))) R w'"
    if "db w' = d" "\<And>r w''. confined k d (db w'') \<Longrightarrow> R r w''" for R w'
  proof -
    let ?ms = "sort_key dc_CreatedAt (filter (\<lambda>r. dc_DiscussionID r = n) (discussion_comments (community d)))"
    have "dct.unique (discussion_comments (community d))" using assms(3) by (simp add: community_ok_def talks_ok_def)
    then have "owns_comments n (dc_ID ` set ?ms) d" by (auto simp: owns_comments_def dct.unique_def distinct_map inj_on_def)
    then have "wp (mark_answers a ?ms) (\<lambda>_ w'. confined k d (db w') \<and> owns_comments n (dc_ID ` set ?ms) (db w')) w'"
      using mark_answers_confined [OF assms(2), of ?ms "dc_ID ` set ?ms" a] same that(1) by (simp add: keeps_def)
    then show ?thesis by (rule wp_mono) (simp add: that(2))
  qed
  have found: "find (\<lambda>r. ds_ID r = n) (discussions (community d)) = Some x \<Longrightarrow> ds_ID x = n" for x
    by (auto simp: find_Some_iff)
  have Q: "Q r w' = confined k d (db w')" for r w' by (simp add: Q_def)
  have "wp (AcceptAnswer deps v n a) Q w"
    by (auto simp: AcceptAnswer_def DiscussionRepo_FindByID_def DiscCommentRepo_FindByDiscussionID_def w Q same simp del: wp_bind
        intro!: mark fin intro: found split: option.splits sum.splits)
  then show "wp (AcceptAnswer deps v n a) (\<lambda>_ w'. confined k d (db w')) w" by (simp add: Q_def)
qed

lemma foreign_pages_kept: "confined k d u \<Longrightarrow> foreign_pages k d = foreign_pages k u"
proof -
  assume "confined k d u"
  then have "filter (\<lambda>x. wk_SkillID x \<noteq> k) (wiki_pages (community u)) = filter (\<lambda>x. wk_SkillID x \<noteq> k) (wiki_pages (community d))"
    by (simp add: confined_def Let_def)
  then show ?thesis unfolding foreign_pages_def by (metis set_filter)
qed

lemma foreign_page_row: "confined k d u \<Longrightarrow> i \<in> foreign_pages k d \<Longrightarrow> i \<in> wk_ID ` set (wiki_pages (community u))"
  by (simp only: foreign_pages_kept) (auto simp: foreign_pages_def)

lemma page_create_fresh:
  "confined k d (db w) \<Longrightarrow> wp (WikiPageRepo_Create p) (\<lambda>r _. \<forall>x. r = Inr x \<longrightarrow> wk_ID x \<notin> foreign_pages k d) w"
  by (auto simp: WikiPageRepo_Create_def Let_def checked_def has_id_iff dest: foreign_page_row)

lemma wrapped_result: "wp m (\<lambda>r _. \<forall>x. r = Inr x \<longrightarrow> P x) w \<Longrightarrow> wp (wrapped msg m) (\<lambda>r _. \<forall>x. r = Inr x \<longrightarrow> P x) w"
  by (auto elim!: wp_mono split: sum.splits)

lemma pages_confined:
  assumes "neutral_deps deps"
  shows "cw_SkillID cw = k \<Longrightarrow> keeps (confined k d) (CreateWikiPage deps v own ns cw)"
    "uw_PageID uw \<notin> foreign_pages k d \<Longrightarrow> keeps (confined k d) (UpdateWikiPage deps v own ns uw)"
    "n \<notin> foreign_pages k d \<Longrightarrow> keeps (confined k d) (DeleteWikiPage v own ns n)"
proof -
  show "cw_SkillID cw = k \<Longrightarrow> keeps (confined k d) (CreateWikiPage deps v own ns cw)"
    unfolding CreateWikiPage_def
    by (intro keeps_and_then_result [where m = "wrapped m1 (WikiPageRepo_Create p)" and P = "\<lambda>x. wk_ID x \<notin> foreign_pages k d" for m1 p]
        confined_keeps assms page_create_confined page_child_confined page_update_confined wrapped_result page_create_fresh)
      (simp_all add: new_page_def new_wiki_version_def)
  show "uw_PageID uw \<notin> foreign_pages k d \<Longrightarrow> keeps (confined k d) (UpdateWikiPage deps v own ns uw)"
    unfolding UpdateWikiPage_def WikiPageRepo_FindByID_def WikiVersionRepo_FindByPageID_def
    by (intro keeps_found confined_keeps assms page_child_confined page_update_confined) (simp_all add: new_wiki_version_def)
  show "n \<notin> foreign_pages k d \<Longrightarrow> keeps (confined k d) (DeleteWikiPage v own ns n)"
    unfolding DeleteWikiPage_def by (intro confined_keeps page_delete_confined)
qed

section \<open>The routes stay in their skill\<close>

lemma reads_and_then: "reads m \<Longrightarrow> (\<And>x. reads (k x)) \<Longrightarrow> reads (and_then m k)"
  unfolding and_then_def by (intro reads_intros)

lemma reads_wrapped: "reads m \<Longrightarrow> reads (wrapped msg m)"
  unfolding wrapped_def by (intro reads_intros)

lemma reads_find_or: "reads m \<Longrightarrow> reads (find_or msg e m)"
  unfolding find_or_def by (intro reads_intros)

lemma reads_counts: "reads (add_counts qs acc)"
  by (induction qs acc rule: add_counts.induct) (simp_all add: reads_intros)

lemma reads_community:
  "reads (ListIssues a b p s)" "reads (ListDiscussions a b p s)" "reads (ListChangeProposals a b p s)" "reads (ListWikiPages a)"
  "reads (ListIssueComments n)" "reads (ListIssueLabels n)" "reads (ListDiscussionComments n)" "reads (ListDiscussionLabels n)"
  "reads (ListWikiPageVersions n)" "reads (SearchCommunity deps q)"
  "reads (GetIssue n)" "reads (GetDiscussion n)" "reads (GetChangeProposal n)" "reads (GetWikiPage n c)"
  by (auto simp: ListIssues_def ListDiscussions_def ListChangeProposals_def ListWikiPages_def ListIssueComments_def ListIssueLabels_def
      ListDiscussionComments_def ListDiscussionLabels_def ListWikiPageVersions_def SearchCommunity_def GetIssue_def GetDiscussion_def
      GetChangeProposal_def GetWikiPage_def list_page_def Let_def community_reads Search_hits_def Search_count_def reads_return
      intro!: reads_and_then reads_wrapped reads_find_or reads_query reads_page reads_counts reads_if)

lemma ends_row:
  assumes "G d" and "reads (find_row i)"
    and "\<And>w x. db w = d \<Longrightarrow> wp (find_row i) (\<lambda>r _. \<forall>x. r = Inr x \<longrightarrow> P x) w"
    and "\<And>x. P x \<Longrightarrow> ends d G (k x)"
  shows "ends d G (serving (find_row i) k)"
  by (rule ends_served [where R = P]) (use assms in \<open>auto simp: wp_conj reads_def\<close>)

lemma ends_kept:
  assumes "keeps I m" "I d" "\<And>d'. I d' \<Longrightarrow> G d'"
  shows "ends d G (serving m (\<lambda>x. WriteJSON st (v x)))"
  by (rule ends_write) (use assms in \<open>auto simp: keeps_def elim!: wp_mono\<close>)

lemma get_rows:
  assumes "db w = d"
  shows "wp (GetIssue i) (\<lambda>r _. \<forall>x. r = Inr x \<longrightarrow> find (\<lambda>r. is_ID r = i) (issues (community d)) = Some x) w"
    "wp (GetDiscussion i) (\<lambda>r _. \<forall>x. r = Inr x \<longrightarrow> find (\<lambda>r. ds_ID r = i) (discussions (community d)) = Some x) w"
    "wp (GetChangeProposal i) (\<lambda>r _. \<forall>x. r = Inr x \<longrightarrow> find (\<lambda>r. cp_ID r = i) (proposals (community d)) = Some x) w"
    "wp (GetWikiPage n s) (\<lambda>r _. \<forall>x. r = Inr x \<longrightarrow> find (\<lambda>r. wk_SkillID r = n \<and> wk_Slug r = s) (wiki_pages (community d)) = Some x) w"
  using assms by (auto simp: GetIssue_def GetDiscussion_def GetChangeProposal_def GetWikiPage_def community_reads split: option.splits)

lemma not_foreign:
  assumes "community_ok d"
  shows "find (\<lambda>r. is_ID r = i) (issues (community d)) = Some x \<Longrightarrow> is_SkillID x = k \<Longrightarrow> i \<notin> foreign_issues k d"
    "find (\<lambda>r. ds_ID r = i) (discussions (community d)) = Some y \<Longrightarrow> ds_SkillID y = k \<Longrightarrow> i \<notin> foreign_discussions k d"
    "find (\<lambda>r. cp_ID r = i) (proposals (community d)) = Some z \<Longrightarrow> cp_SkillID z = k \<Longrightarrow> i \<notin> foreign_proposals k d"
    "find (\<lambda>r. wk_SkillID r = k \<and> wk_Slug r = s) (wiki_pages (community d)) = Some p \<Longrightarrow> wk_ID p \<notin> foreign_pages k d"
proof -
  have u: "ist.unique (issues (community d))" "dst.unique (discussions (community d))" "cpt.unique (proposals (community d))" "wkt.unique (wiki_pages (community d))"
    using assms by (simp_all add: community_ok_def posts_ok_def talks_ok_def proposals_ok_def wiki_ok_def)
  have same: "y = x" if "distinct (map f rs)" "x \<in> set rs" "y \<in> set rs" "f y = f x" for f :: "'r \<Rightarrow> int" and rs x y
    using that by (auto simp: distinct_map dest: inj_onD)
  show "find (\<lambda>r. is_ID r = i) (issues (community d)) = Some x \<Longrightarrow> is_SkillID x = k \<Longrightarrow> i \<notin> foreign_issues k d"
    using u(1) by (auto simp: foreign_issues_def ist.unique_def dest!: find_SomeD dest: same)
  show "find (\<lambda>r. ds_ID r = i) (discussions (community d)) = Some y \<Longrightarrow> ds_SkillID y = k \<Longrightarrow> i \<notin> foreign_discussions k d"
    using u(2) by (auto simp: foreign_discussions_def dst.unique_def dest!: find_SomeD dest: same)
  show "find (\<lambda>r. cp_ID r = i) (proposals (community d)) = Some z \<Longrightarrow> cp_SkillID z = k \<Longrightarrow> i \<notin> foreign_proposals k d"
    using u(3) by (auto simp: foreign_proposals_def cpt.unique_def dest!: find_SomeD dest: same)
  show "find (\<lambda>r. wk_SkillID r = k \<and> wk_Slug r = s) (wiki_pages (community d)) = Some p \<Longrightarrow> wk_ID p \<notin> foreign_pages k d"
    using u(4) by (auto simp: foreign_pages_def wkt.unique_def dest!: find_SomeD dest: same)
qed

text \<open>
  Where a request may leave the community tables: as they were, or changed only in what belongs to one skill, which the
  authenticated caller may see.
\<close>

definition stayed :: "(Principal \<Rightarrow> bool) \<Rightarrow> database \<Rightarrow> database \<Rightarrow> bool" where
  "stayed C d d' \<longleftrightarrow> community d' = community d
     \<or> (\<exists>p sk. C p \<and> backed d p \<and> pp_IsAuthenticated p \<and> visible d p sk \<and> confined (sd_ID sk) d d')"

lemma stayed_same: "stayed C d d"
  by (simp add: stayed_def)

lemma resolved_read:
  assumes "\<And>sk. ends d (stayed C d) (k sk)"
  shows "ends d (stayed C d) (resolve_community_skill h r k)"
  unfolding resolve_community_skill_def by (intro ends_path_skill assms stayed_same)

lemma row_read:
  assumes "\<And>i. reads (find_row i)" "\<And>sk i x. ends d (stayed C d) (k sk i x)"
  shows "ends d (stayed C d) (skill_row h r nm invalid find_row skill_of missing k)"
  unfolding skill_row_def by (intro resolved_read ends_intros ends_serving assms stayed_same)

lemma read_handlers:
  "ends d (stayed C d) (handleListIssues h r)" "ends d (stayed C d) (handleGetIssue h r)" "ends d (stayed C d) (handleListIssueComments h r)"
  "ends d (stayed C d) (handleListDiscussions h r)" "ends d (stayed C d) (handleGetDiscussion h r)" "ends d (stayed C d) (handleListDiscussionComments h r)"
  "ends d (stayed C d) (handleListWikiPages h r)" "ends d (stayed C d) (handleGetWikiPage h r)" "ends d (stayed C d) (handleListWikiVersions h r)"
  "ends d (stayed C d) (handleListProposals h r)" "ends d (stayed C d) (handleGetProposal h r)" "ends d (stayed C d) (handleCommunitySearch h r)"
  unfolding handleListIssues_def handleGetIssue_def handleListIssueComments_def handleListDiscussions_def handleGetDiscussion_def
    handleListDiscussionComments_def handleListWikiPages_def handleGetWikiPage_def handleListWikiVersions_def handleListProposals_def
    handleGetProposal_def handleCommunitySearch_def path_issue_def path_discussion_def path_proposal_def path_page_def Let_def
  by (intro resolved_read row_read ends_serving ends_ignoring reads_community ends_intros stayed_same)+

lemma skill_write:
  assumes "C (GetPrincipal r)" "backed d (GetPrincipal r)" "pp_IsAuthenticated (GetPrincipal r)" "visible d (GetPrincipal r) sk"
    and "keeps (confined (sd_ID sk) d) m"
  shows "ends d (stayed C d) (serving m (\<lambda>x. WriteJSON st (v x)))"
  by (rule ends_kept [OF assms(5)]) (use assms in \<open>auto simp: stayed_def confined_same\<close>)

lemma resolved_write:
  assumes "\<And>sk. visible d (GetPrincipal r) sk \<Longrightarrow> ends d (stayed C d) (k sk)"
  shows "ends d (stayed C d) (resolve_community_skill h r k)"
  unfolding resolve_community_skill_def by (intro ends_visible_skill assms stayed_same)

lemma row_write:
  assumes "\<And>i. reads (find_row i)"
    and "\<And>i w. db w = d \<Longrightarrow> wp (find_row i) (\<lambda>r _. \<forall>x. r = Inr x \<longrightarrow> P i x) w"
    and "\<And>sk i x. visible d (GetPrincipal r) sk \<Longrightarrow> P i x \<Longrightarrow> skill_of x = sd_ID sk \<Longrightarrow> ends d (stayed C d) (k sk i x)"
  shows "ends d (stayed C d) (skill_row h r nm invalid find_row skill_of missing k)"
proof -
  have "ends d (stayed C d) (serving (find_row i) (\<lambda>x. if skill_of x \<noteq> sd_ID sk then refuse 404 missing else k sk i x))"
    if "visible d (GetPrincipal r) sk" for sk i
    by (rule ends_row [where P = "P i"]) (use assms that in \<open>auto intro!: ends_intros stayed_same\<close>)
  then show ?thesis unfolding skill_row_def by (intro resolved_write ends_intros stayed_same)
qed

lemma page_write:
  assumes "community_ok d"
    and "\<And>sk p. visible d (GetPrincipal r) sk \<Longrightarrow> wk_ID p \<notin> foreign_pages (sd_ID sk) d \<Longrightarrow> ends d (stayed C d) (k sk p)"
  shows "ends d (stayed C d) (path_page h r k)"
proof -
  have "ends d (stayed C d) (serving (GetWikiPage (sd_ID sk) s) (k sk))" if "visible d (GetPrincipal r) sk" for sk s
    by (rule ends_row [where P = "\<lambda>p. wk_ID p \<notin> foreign_pages (sd_ID sk) d" and find_row = "\<lambda>_. GetWikiPage (sd_ID sk) s"])
      (use assms that in \<open>auto intro!: stayed_same reads_community wp_mono [OF get_rows(4)] dest: not_foreign(4)\<close>)
  then show ?thesis unfolding path_page_def by (intro resolved_write)
qed

lemma write_handlers:
  assumes deps: "neutral_deps (ch_CommunitySvc h)" and tables: "community_ok d"
    and caller: "C p" "backed d p" "pp_IsAuthenticated p"
  shows "ends d (stayed C d) (handleCreateIssue h (SetPrincipal r1 p))" "ends d (stayed C d) (handleUpdateIssue h (SetPrincipal r2 p))"
    "ends d (stayed C d) (handleDeleteIssue h (SetPrincipal r3 p))" "ends d (stayed C d) (handleAddIssueComment h (SetPrincipal r4 p))"
    "ends d (stayed C d) (handleCreateDiscussion h (SetPrincipal r5 p))" "ends d (stayed C d) (handleUpdateDiscussion h (SetPrincipal r6 p))"
    "ends d (stayed C d) (handleDeleteDiscussion h (SetPrincipal r3 p))" "ends d (stayed C d) (handleAddDiscussionComment h (SetPrincipal r4 p))"
    "ends d (stayed C d) (handleAcceptAnswer h (SetPrincipal r7 p))"
    "ends d (stayed C d) (handleCreateWikiPage h (SetPrincipal r8 p))" "ends d (stayed C d) (handleUpdateWikiPage h (SetPrincipal r9 p))"
    "ends d (stayed C d) (handleDeleteWikiPage h (SetPrincipal r3 p))"
    "ends d (stayed C d) (handleCreateProposal h (SetPrincipal r10 p))" "ends d (stayed C d) (handleUpdateProposal h (SetPrincipal r11 p))"
proof -
  note writing = skill_write [of C "SetPrincipal r p" d for r, simplified, OF caller]
  note rows = row_write [OF _ get_rows(1), OF reads_community(11)] row_write [OF _ get_rows(2), OF reads_community(12)]
    row_write [OF _ get_rows(3), OF reads_community(13)]
  note steps = resolved_write rows page_write [OF tables] ends_intros stayed_same writing
  note services = issues_confined [OF deps] talks_confined [OF deps] proposals_confined [OF deps] pages_confined [OF deps]
  show "ends d (stayed C d) (handleCreateIssue h (SetPrincipal r1 p))"
    unfolding handleCreateIssue_def by (intro steps services) (auto)
  show "ends d (stayed C d) (handleUpdateIssue h (SetPrincipal r2 p))"
    unfolding handleUpdateIssue_def path_issue_def by (intro steps services) (auto dest: not_foreign(1) [OF tables])
  show "ends d (stayed C d) (handleDeleteIssue h (SetPrincipal r3 p))"
    unfolding handleDeleteIssue_def path_issue_def by (intro steps services) (auto dest: not_foreign(1) [OF tables])
  show "ends d (stayed C d) (handleAddIssueComment h (SetPrincipal r4 p))"
    unfolding handleAddIssueComment_def path_issue_def by (intro steps services) (auto dest: not_foreign(1) [OF tables])
  show "ends d (stayed C d) (handleCreateDiscussion h (SetPrincipal r5 p))"
    unfolding handleCreateDiscussion_def by (intro steps services) (auto)
  show "ends d (stayed C d) (handleUpdateDiscussion h (SetPrincipal r6 p))"
    unfolding handleUpdateDiscussion_def path_discussion_def by (intro steps services) (auto dest: not_foreign(2) [OF tables])
  show "ends d (stayed C d) (handleDeleteDiscussion h (SetPrincipal r3 p))"
    unfolding handleDeleteDiscussion_def path_discussion_def by (intro steps services) (auto dest: not_foreign(2) [OF tables])
  show "ends d (stayed C d) (handleAddDiscussionComment h (SetPrincipal r4 p))"
    unfolding handleAddDiscussionComment_def path_discussion_def by (intro steps services) (auto dest: not_foreign(2) [OF tables])
  have accept: "ends d (stayed C d) (serving (AcceptAnswer (ch_CommunitySvc h) v i a) (\<lambda>y. WriteJSON 200 (DiscussionBody y)))"
    if "visible d p sk" "find (\<lambda>r. ds_ID r = i) (discussions (community d)) = Some x" "ds_SkillID x = sd_ID sk" for v i a sk x
  proof (rule ends_write)
    fix w :: world assume "db w = d"
    then show "wp (AcceptAnswer (ch_CommunitySvc h) v i a) (\<lambda>_ w'. stayed C d (db w')) w"
      using accept_confined [OF deps not_foreign(2) [OF tables that(2,3)] tables, of v a] caller that(1)
      by (auto simp: ends_def stayed_def elim!: wp_mono)
  qed
  show "ends d (stayed C d) (handleAcceptAnswer h (SetPrincipal r7 p))"
    unfolding handleAcceptAnswer_def path_discussion_def by (intro resolved_write rows ends_intros stayed_same) (auto intro: accept)
  show "ends d (stayed C d) (handleCreateWikiPage h (SetPrincipal r8 p))"
    unfolding handleCreateWikiPage_def by (intro steps services) (auto)
  show "ends d (stayed C d) (handleUpdateWikiPage h (SetPrincipal r9 p))"
    unfolding handleUpdateWikiPage_def by (intro steps services) (auto)
  show "ends d (stayed C d) (handleDeleteWikiPage h (SetPrincipal r3 p))"
    unfolding handleDeleteWikiPage_def by (intro steps services) (auto)
  show "ends d (stayed C d) (handleCreateProposal h (SetPrincipal r10 p))"
    unfolding handleCreateProposal_def by (intro steps services) (auto)
  show "ends d (stayed C d) (handleUpdateProposal h (SetPrincipal r11 p))"
    unfolding handleUpdateProposal_def path_proposal_def by (intro steps services) (auto dest: not_foreign(3) [OF tables])
qed

text \<open>Who calls.\<close>

fun community_caller :: "auth_middleware \<Rightarrow> community_call \<Rightarrow> database \<Rightarrow> Principal \<Rightarrow> bool" where
  "community_caller mw (ListIssuesCall r) = caller mw r"
| "community_caller mw (GetIssueCall r) = caller mw r"
| "community_caller mw (ListIssueCommentsCall r) = caller mw r"
| "community_caller mw (CreateIssueCall r) = caller mw r"
| "community_caller mw (UpdateIssueCall r) = caller mw r"
| "community_caller mw (DeleteIssueCall r) = caller mw r"
| "community_caller mw (AddIssueCommentCall r) = caller mw r"
| "community_caller mw (ListDiscussionsCall r) = caller mw r"
| "community_caller mw (GetDiscussionCall r) = caller mw r"
| "community_caller mw (ListDiscussionCommentsCall r) = caller mw r"
| "community_caller mw (CreateDiscussionCall r) = caller mw r"
| "community_caller mw (UpdateDiscussionCall r) = caller mw r"
| "community_caller mw (DeleteDiscussionCall r) = caller mw r"
| "community_caller mw (AddDiscussionCommentCall r) = caller mw r"
| "community_caller mw (AcceptAnswerCall r) = caller mw r"
| "community_caller mw (ListWikiPagesCall r) = caller mw r"
| "community_caller mw (GetWikiPageCall r) = caller mw r"
| "community_caller mw (ListWikiVersionsCall r) = caller mw r"
| "community_caller mw (CreateWikiPageCall r) = caller mw r"
| "community_caller mw (UpdateWikiPageCall r) = caller mw r"
| "community_caller mw (DeleteWikiPageCall r) = caller mw r"
| "community_caller mw (ListProposalsCall r) = caller mw r"
| "community_caller mw (GetProposalCall r) = caller mw r"
| "community_caller mw (CreateProposalCall r) = caller mw r"
| "community_caller mw (UpdateProposalCall r) = caller mw r"
| "community_caller mw (CommunitySearchCall r) = caller mw r"

text \<open>C4: the community routes stay in their skill. On sound tables, and whatever fails, a request to any of the community
  routes leaves the community tables as they are, or the caller of the request is authenticated with roles that are in the tables,
  may see the skill of the path, and the issues, discussions, wiki pages and proposals of every other skill, with the comments and versions
  below them, are those of before: an id of another skill's row in the path changes nothing.\<close>

theorem community_routes_stay_in_their_skill:
  assumes "neutral_deps (ch_CommunitySvc h)" and "quiet_auth authMW" and "quiet_limits rl" and "community_ok (db w)"
    and "run_state (community_routes h authMW rl c) w = (r, w')"
  shows "community (db w') = community (db w)
    \<or> (\<exists>mw p sk. authMW = Some mw \<and> community_caller mw c (db w) p \<and> backed (db w) p \<and> pp_IsAuthenticated p \<and> visible (db w) p sk \<and> confined (sd_ID sk) (db w) (db w'))"
proof -
  let ?d = "db w"
  define C where "C = (\<lambda>p. \<exists>mw. authMW = Some mw \<and> community_caller mw c ?d p)"
  have auth: "\<And>mw. authMW = Some mw \<Longrightarrow> quiet_sessions mw" using assms(2) by (simp add: quiet_auth_def)
  have limits: "\<And>l c. rl = Some l \<Longrightarrow> reads (l c)" using assms(3) by (simp add: quiet_limits_def)
  have "ends ?d (stayed C ?d) (community_routes h authMW rl c)"
    by (cases c) (auto simp: C_def intro!: ends_optAuth ends_mustAuth ends_limit auth limits stayed_same read_handlers write_handlers assms(1,4) caller_backed)
  from endsD [OF this assms(5)] show ?thesis by (auto simp: stayed_def C_def)
qed

section \<open>A concrete request\<close>

definition other_issue :: Issue where
  "other_issue = \<lparr>is_ID = 2, is_SkillID = 9, is_Title = ''Old'', is_Body = [], is_Status = ''OPEN'', is_AssigneeID = None, is_LinkedVersionID = None,
     is_LinkedReleaseID = None, is_AuthorID = ''bo'', is_Locked = False, is_CommentCount = 0, is_CreatedAt = 1, is_UpdatedAt = 1\<rparr>"

definition forum_db :: database where
  "forum_db = (shop_db ''PUBLISHED'' [])\<lparr>skills := [shop_skill\<lparr>sk_LatestVersionID := Some 5\<rparr>],
     accounts := no_accounts\<lparr>api_tokens := [cli_token\<lparr>at_UserID := ''cy''\<rparr>]\<rparr>, community := no_community\<lparr>issues := [other_issue]\<rparr>\<rparr>"

definition forum :: community_handler where
  "forum = \<lparr>ch_CommunitySvc = no_deps, ch_SkillSvc = True\<rparr>"

definition issue_request :: "CreateIssueInput request" where
  "issue_request = \<lparr>rq_Path = (\<lambda>n. if n = ''namespace'' then ''team'' else ''greet''), rq_Query = (\<lambda>_. []),
     rq_Body = Some \<lparr>ci_SkillID = 9, ci_Title = ''New'', ci_Body = [], ci_AssigneeID = None, ci_LinkedVersionID = None, ci_LinkedReleaseID = None\<rparr>,
     rq_Session = None, rq_Authorization = ''Bearer sk_1'', rq_Principal = None\<rparr>"

lemma forum_simps [simp]:
  "skills forum_db = [shop_skill\<lparr>sk_LatestVersionID := Some 5\<rparr>]" "namespaces forum_db = [shop_ns]" "members forum_db = []"
  "accounts forum_db = no_accounts\<lparr>api_tokens := [cli_token\<lparr>at_UserID := ''cy''\<rparr>]\<rparr>" "community forum_db = no_community\<lparr>issues := [other_issue]\<rparr>"
  "ns_Slug shop_ns = ''team''"
  by (simp_all add: forum_db_def shop_db_def empty_db_def shop_ns_def)

lemma community_ok_forum: "community_ok forum_db"
  using community_ok_empty
  by (simp add: community_ok_def empty_db_def no_community_def posts_ok_def talks_ok_def wiki_ok_def proposals_ok_def reports_ok_def ist.unique_def other_issue_def issue_statuses_def)

theorem community_routes_stay_in_their_skill_witness:
  "\<exists>r w'. run_state (community_routes forum (Some full_middleware) None (CreateIssueCall issue_request)) (calm False forum_db) = (r, w')
     \<and> map is_SkillID (issues (community (db w'))) = [9, 3]
     \<and> (\<exists>p sk. backed forum_db p \<and> visible forum_db p sk \<and> confined (sd_ID sk) forum_db (db w'))"
proof -
  let ?m = "community_routes forum (Some full_middleware) None (CreateIssueCall issue_request)"
  obtain r w' where run: "run_state ?m (calm False forum_db) = (r, w')" by (metis surj_pair)
  have n: "next_id s (calm False forum_db) = 101" for s by (simp add: next_id_def calm_def)
  have raw: "TrimPrefix ''Bearer sk_1'' ''Bearer '' = ''sk_1''" by (simp add: TrimPrefix_def)
  have "wp ?m (\<lambda>_ w'. map is_SkillID (issues (community (db w'))) = [9, 3]) (calm False forum_db)"
    by (simp add: mustAuth_def withLimit_def Authenticate_def RequireAuth_def authenticate_def full_middleware_def issue_request_def bearer_def raw
        ValidateToken_def TokenRepo_FindByTokenHash_def no_accounts_def cli_token_def isTokenActive_def buildPrincipal_def GetUserRoleCodes_def
        BindingRepo_FindByUserID_def UserRepo_FindByID_def MemberRepo_FindByUserID_def of_token_def handleCreateIssue_def forum_def no_deps_def
        resolve_community_skill_def path_skill_def Let_def GetSkillDetail_def resolveSkill_def NamespaceRepo_FindBySlug_def
        SkillRepo_FindByNamespaceIDAndSlug_def prefer_own_def shop_skill_def CanAccess_def CreateIssue_def validateLinkedVersion_def
        validateLinkedRelease_def IssueRepo_Create_def checked_def has_id_def new_issue_def other_issue_def no_community_def
        publishEvent_def audit_community_def notify_def n issue_statuses_def)
  then have new: "map is_SkillID (issues (community (db w'))) = [9, 3]" using run by (auto dest: wpD)
  have "community (db w') = community (db (calm False forum_db))
    \<or> (\<exists>mw p sk. Some full_middleware = Some mw \<and> community_caller mw (CreateIssueCall issue_request) (db (calm False forum_db)) p \<and> backed (db (calm False forum_db)) p \<and> pp_IsAuthenticated p \<and> visible (db (calm False forum_db)) p sk \<and> confined (sd_ID sk) (db (calm False forum_db)) (db w'))"
    by (rule community_routes_stay_in_their_skill [OF _ _ _ _ run])
      (simp_all add: forum_def neutral_no_deps quiet_auth_def quiet_sessions_def full_middleware_def quiet_limits_def community_ok_forum)
  then show ?thesis using run new by auto
qed

end
