(* ===== verification/Spec2Isabelle.thy ===== *)
theory Spec2Isabelle
  imports Slug Slugify Namespaces Members Ownership SkillRepo ReviewRepo Review Promotion CIRepo AgentCI Gates Paths Packages Store Sha256 SkillQuery SkillAdmin Publish Patterns Runner Diff Tooling RoutePolicy Auth Logins CommunityRules ReleaseRoutes CIRoutes Confinement
begin

text \<open>
  A verification development for the backend of Miqro SkillHub, a registry of agent skills (\<open>server/\<close>, in Go).

  \<^bold>\<open>The program.\<close> Users own skills in namespaces. A skill is published as an archive of files: the upload is
  extracted within bounds, validated, stored, and recorded as a version, which a reviewer approves, which
  may be promoted to the global namespace, tagged, downloaded, released, compared and deleted. A CI subsystem runs checks over
  versions; gate policies on their results stand before reviews and releases. Around it are accounts (passwords, API tokens, roles,
  password resets, merges) and a community below each skill (issues, discussions, wiki pages, change proposals, search).
  Services in \<open>sdk/skillhub\<close> hold the rules; \<open>internal/adapters/postgres\<close> stores their rows,
  \<open>internal/adapters/localstorage\<close> their objects; \<open>internal/http\<close> and the two commands
  (\<open>cmd/skillhub-server\<close>, \<open>cmd/skillhub-worker\<close>) put them together.

  \<^bold>\<open>How it is modelled.\<close> An operation is a function of the state monad over a \<open>world\<close> (theory \<open>World\<close>): the tables
  as lists of rows, the id sequences, the clock, the file system, and a schedule \<open>fault\<close> that says of
  every statement and file operation whether it fails. A Go function returning \<open>(T, error)\<close> is a \<open>T op\<close>, whose
  result is \<open>Inl\<close> an error or \<open>Inr\<close> a value; every early return is a branch, and \<open>panic\<close>s are error values of their own.
  Since schedules are arbitrary, a theorem about all worlds covers every way in which the calls of an operation can fail. Names
  are those of the source; a repository's method is \<open><Repo>_<Method>\<close>. Proofs go through \<open>wp\<close>, the weakest precondition of
  an operation, and the frame predicates built on it: \<open>keeps\<close> (an invariant of the tables), \<open>reads\<close> (no table
  changes), \<open>ends\<close> (where a handler leaves the tables).

  \<^bold>\<open>Theories, in the order of the code.\<close>
  \<^item> \<open>Prelude\<close>, \<open>GoStrings\<close>, \<open>Domain\<close>, \<open>AccountTypes\<close>, \<open>CommunityTypes\<close>, \<open>World\<close>: errors, tables, Go's strings, the structs of
    the SDK, the world, transactions (\<open>transactor.go\<close>, \<open>uow.go\<close>) and the event bus. The locales \<open>keyed_rows\<close> (a table
    with a key) and \<open>transactor\<close> (commit or roll back) are interpreted on the model's tables and on \<open>WithinTx\<close>.
  \<^item> \<open>Slug\<close>, \<open>Slugify\<close>, \<open>NamespaceRepo\<close>, \<open>Namespaces\<close>, \<open>Members\<close>, \<open>Ownership\<close>: \<open>sdk/skillhub/namespace\<close>. The services
    refine an abstract machine on the tables, in which every namespace has exactly one owner.
  \<^item> \<open>SkillRepo\<close>, \<open>ReviewRepo\<close>, \<open>Review\<close>, \<open>Promotion\<close>: \<open>sdk/skillhub/review\<close>, \<open>promotion\<close> and their repositories.
  \<^item> \<open>CIRepo\<close>, \<open>AgentCI\<close>, \<open>Gates\<close>, \<open>Patterns\<close>, \<open>Runner\<close>: \<open>sdk/skillhub/agentci\<close>, the local runner with its regular expressions, the
    executor and the poll of the worker.
  \<^item> \<open>Paths\<close>, \<open>PackageKit\<close>, \<open>PackagePaths\<close>, \<open>Packages\<close>, \<open>Store\<close>, \<open>Sha256\<close>, \<open>SkillQuery\<close>, \<open>SkillAdmin\<close>, \<open>Publish\<close>: package rules,
    extraction, object store and \<open>sdk/skillhub/skill\<close>. \<open>blob_store\<close> is the contract of a store.
  \<^item> \<open>Diff\<close>, \<open>Tooling\<close>: \<open>sdk/skillhub/tooling\<close>.
  \<^item> \<open>RoutePolicy\<close>, \<open>AuthRepo\<close>, \<open>Auth\<close>, \<open>Logins\<close>: \<open>sdk/skillhub/auth\<close>.
  \<^item> \<open>CommunityRepo\<close>, \<open>Calls\<close>, \<open>Community\<close>, \<open>CommunityRules\<close>: \<open>sdk/skillhub/community\<close>.
  \<^item> \<open>Releases\<close>: \<open>sdk/skillhub/release\<close>.
  \<^item> \<open>Http\<close>, \<open>SkillPath\<close>, \<open>ReleaseRoutes\<close>, \<open>CommunityRoutes\<close>, \<open>Confinement\<close>: \<open>internal/http/middleware\<close> and the release and community
    handlers of \<open>internal/http/portal\<close>, composed with the services and the authentication below them.
  \<^bold>\<open>What the theorems show.\<close> Invariants over arbitrary runs with arbitrary failures: one owner per namespace, community tables without
  dangling rows, the life cycle of releases, one pending review per version. Safety across components: downloads respect access,
  accepted packages stay inside the store, a release leaves the drafts only through its gate, a route changes
  only its own skill, principals are backed by the tables, API tokens need scopes, guessing a password locks the account.
  Equivalence and refinement against independent specifications: the gate, the validator, the
  secret scan, the search totals, the namespace policy, the line diff (as long as any common subsequence). Atomicity
  and completeness of publication, promotion, approval, deletion, ownership transfer and account merge. Round
  trips of tokens and hashes. And, where the code does not do what it means to, theorems that show it.

  \<^bold>\<open>Bounds and fuel.\<close> Loops over lists are structural recursions. The walk back through the table of common subsequences is a
  \<open>while_option\<close>, proved to end after at most as many steps as the files have lines; the matcher of regular
  expressions bounds its repetitions by the length of the text, which is enough because every
  repetition consumes a byte. Integers are unbounded where the code only compares, increments and pages them, and wrap where sizes are added up
  and page offsets multiplied (\<open>int64\<close>); the hash works on 32-bit words.

  \<^bold>\<open>The database.\<close> Unique keys, and the checks and references the statements of the modelled services can break, are part of the
  repositories; any other refusal is a failing statement of the schedule. \<open>Save\<close> methods with \<open>ON CONFLICT\<close> are upserts on
  the key they name. A query for one row that finds none is an error under the pgx driver and \<open>nil\<close> under the repositories the
  SDK is tested with: the flag \<open>nil_on_empty\<close> covers both, and several operations succeed only under the second. Sorting is stable
  where the statement leaves ties open.

  \<^bold>\<open>Parameters.\<close> Code outside the repository is an argument: YAML and JSON decoders, the zip reader and writer, \<open>%q\<close>, the layouts of
  \<open>time\<close>, the iteration order of maps and the order in which \<open>sort.Slice\<close> leaves equal keys, bcrypt and
  the random source, the session store, the verdict of the rate limiter, Unicode beyond ASCII and the collation of the database.
  Empty and nil slices are not told apart, except where the code does. Operations run one after another: what is said of concurrent
  callers is said by conditional updates (claims and optimistic versions) and by sequences of operations.

  \<^bold>\<open>Not modelled.\<close> Device login (its store has no implementation in the repository) and \<open>direct.go\<close>; labels, social, reports, notifications,
  search and governance services, whose few rules stand apart from the rest (notifications are calls of an interface the model
  keeps); the remaining handlers of \<open>portal\<close>, \<open>frontend\<close>, \<open>cliapi\<close> and \<open>toolapi\<close>; the token buckets of
  the rate limiter (floating point) and CORS headers; configuration, pools, Redis, S3, metrics, logging and the ticker loop of the worker.
\<close>

end
